(* ===== verification/Prelude.thy ===== *)
theory Prelude
  imports Main "HOL-Library.State_Monad" "HOL-Library.Monad_Syntax" "HOL-Library.Multiset"
    "HOL-Library.Char_ord" "HOL-Library.List_Lexorder" "HOL-Library.Sublist"
begin

text \<open>
  The shared library of the development: the Go conventions every component uses.

  \<^item> \<open>error\<close>, \<open>result\<close>: a Go function that returns \<open>(T, error)\<close> returns
    \<open>error + T\<close>; \<open>errors_Is\<close> and \<open>Error\<close> follow the wrapping of \<open>fmt.Errorf("%w")\<close>.
  \<^item> \<open>sort_slice\<close>: \<open>sort.Slice\<close> for a comparison \<open>less\<close>; its contract is the locale
    \<open>slice_less\<close> (a strict weak order), which the components interpret for their comparisons.
  \<^item> Code with effects is a \<open>State_Monad\<close> computation over an arbitrary world \<open>'s\<close>; the
    triples \<open>hoare\<close> and \<open>keeps\<close> carry the proofs about it. The named collection \<open>triple_rules\<close>
    holds the syntax-directed rules for \<open>keeps\<close>.
\<close>

named_theorems triple_rules \<open>syntax-directed rules for keeps\<close>

section \<open>Errors as values\<close>

text \<open>
  \<open>ErrNew\<close> is an error of \<open>errors.New\<close> or \<open>fmt.Errorf\<close> without \<open>%w\<close>; a package-level
  sentinel is such a value, told apart by its text. \<open>ErrWrap pre e post\<close> is
  \<open>fmt.Errorf(pre + "%w" + post, e)\<close>. \<open>ErrStatus\<close> is a Kubernetes API status error with its
  reason, \<open>ErrAPI\<close> an SDK error with its HTTP status code. \<open>ErrHostnames\<close> is the
  \<open>*tunnelconfig.HostnameConflictError\<close> of the tunnel-config builder.
\<close>

datatype kreason = ReasonNotFound | ReasonNoMatch | ReasonOther

datatype error =
    ErrNew string
  | ErrWrap string error string
  | ErrStatus kreason string
  | ErrAPI int string
  | ErrHostnames "string list"

type_synonym 'a result = "error + 'a"

fun errors_Is :: "error \<Rightarrow> error \<Rightarrow> bool" where
  "errors_Is (ErrWrap pre e post) target = (ErrWrap pre e post = target \<or> errors_Is e target)"
| "errors_Is e target = (e = target)"

fun apierrors_IsNotFound :: "error \<Rightarrow> bool" where
  "apierrors_IsNotFound (ErrStatus r _) = (r = ReasonNotFound)"
| "apierrors_IsNotFound (ErrWrap _ e _) = apierrors_IsNotFound e"
| "apierrors_IsNotFound _ = False"

definition map_result :: "('a \<Rightarrow> 'b) \<Rightarrow> 'a result \<Rightarrow> 'b result" where
  "map_result f res = (case res of Inl e \<Rightarrow> Inl e | Inr v \<Rightarrow> Inr (f v))"

lemma errors_Is_refl [simp]: "errors_Is e e"
  by (cases e) auto

lemma errors_Is_ErrNew [simp]: "errors_Is (ErrNew s) (ErrNew t) = (s = t)"
  by simp

section \<open>Sorting with a comparison\<close>

text \<open>
  \<open>sort.Slice(xs, less)\<close> returns some permutation of \<open>xs\<close> without an inversion. The model
  inserts stably, so it fixes one such permutation; where no two elements are equivalent under
  \<open>less\<close> there is only one, and \<open>sort_slice_unique\<close> shows that the model's result is it.
\<close>

fun insert_by :: "('a \<Rightarrow> 'a \<Rightarrow> bool) \<Rightarrow> 'a \<Rightarrow> 'a list \<Rightarrow> 'a list" where
  "insert_by lt x [] = [x]"
| "insert_by lt x (y # ys) = (if lt y x then y # insert_by lt x ys else x # y # ys)"

fun sort_slice :: "('a \<Rightarrow> 'a \<Rightarrow> bool) \<Rightarrow> 'a list \<Rightarrow> 'a list" where
  "sort_slice lt [] = []"
| "sort_slice lt (x # xs) = insert_by lt x (sort_slice lt xs)"

lemma mset_insert_by [simp]: "mset (insert_by lt x xs) = add_mset x (mset xs)"
  by (induction xs) auto

lemma mset_sort_slice [simp]: "mset (sort_slice lt xs) = mset xs"
  by (induction xs) auto

lemma set_insert_by [simp]: "set (insert_by lt x xs) = insert x (set xs)"
  by (induction xs) auto

lemma set_sort_slice [simp]: "set (sort_slice lt xs) = set xs"
  by (induction xs) auto

lemma length_sort_slice [simp]: "length (sort_slice lt xs) = length xs"
  using mset_sort_slice [of lt xs] by (metis size_mset)

lemma distinct_sort_slice [simp]: "distinct (sort_slice lt xs) = distinct xs"
  by (metis mset_eq_imp_distinct_iff mset_sort_slice)

lemma sort_slice_eq_Nil [simp]: "sort_slice lt xs = [] \<longleftrightarrow> xs = []"
  by (metis length_0_conv length_sort_slice)

lemma distinct_map_sort_slice [simp]: "distinct (map f (sort_slice lt xs)) = distinct (map f xs)"
  by (metis mset_eq_imp_distinct_iff mset_map mset_sort_slice)

lemma set_map_filter [simp]: "set (List.map_filter f xs) = {y. \<exists>x \<in> set xs. f x = Some y}"
  by (force simp: List.map_filter_def)

lemma filter_eq_single: "distinct xs \<Longrightarrow> x \<in> set xs \<Longrightarrow> filter (\<lambda>y. y = x) xs = [x]"
  by (induction xs) (auto simp: filter_empty_conv)

text \<open>The documented contract of \<open>less\<close>: a strict weak order.\<close>

locale slice_less =
  fixes lt :: "'a \<Rightarrow> 'a \<Rightarrow> bool"
  assumes less_asym: "lt x y \<Longrightarrow> \<not> lt y x"
    and less_neg_trans: "\<not> lt x y \<Longrightarrow> \<not> lt y z \<Longrightarrow> \<not> lt x z"
begin

lemma sorted_insert_by:
  "sorted_wrt (\<lambda>x y. \<not> lt y x) xs \<Longrightarrow> sorted_wrt (\<lambda>x y. \<not> lt y x) (insert_by lt x xs)"
proof (induction xs)
  case Nil
  then show ?case by simp
next
  case (Cons y ys)
  show ?case
  proof (cases "lt y x")
    case True
    with Cons less_asym show ?thesis by auto
  next
    case False
    with Cons.prems show ?thesis by (auto dest: less_neg_trans [of _ y x])
  qed
qed

lemma sorted_sort_slice: "sorted_wrt (\<lambda>x y. \<not> lt y x) (sort_slice lt xs)"
  by (induction xs) (auto intro: sorted_insert_by)

lemma sort_slice_head_minimal:
  assumes "sort_slice lt xs = y # ys" and "z \<in> set xs"
  shows "\<not> lt z y"
proof -
  have "z \<in> set (y # ys)" using assms by (metis set_sort_slice)
  moreover have "sorted_wrt (\<lambda>x y. \<not> lt y x) (y # ys)"
    using sorted_sort_slice [of xs] assms(1) by simp
  ultimately show ?thesis using less_asym by auto
qed

text \<open>Without ties any two sorted permutations are equal.\<close>

lemma sorted_unique:
  assumes "mset xs = mset ys"
    and "sorted_wrt (\<lambda>x y. \<not> lt y x) xs" and "sorted_wrt (\<lambda>x y. \<not> lt y x) ys"
    and "\<And>x y. x \<in> set xs \<Longrightarrow> y \<in> set xs \<Longrightarrow> \<not> lt x y \<Longrightarrow> \<not> lt y x \<Longrightarrow> x = y"
  shows "xs = ys"
  using assms
proof (induction xs arbitrary: ys)
  case Nil
  then show ?case by simp
next
  case (Cons x xs)
  then obtain y ys' where ys: "ys = y # ys'" by (cases ys) auto
  have sets: "set (x # xs) = set (y # ys')"
    using Cons.prems(1) ys by (metis mset_eq_setD)
  have "x = y"
  proof (rule ccontr)
    assume "x \<noteq> y"
    with sets have "x \<in> set ys'" and "y \<in> set xs" by auto
    with Cons.prems(2,3) ys have "\<not> lt x y" and "\<not> lt y x" by auto
    with Cons.prems(4) sets \<open>x \<noteq> y\<close> show False by auto
  qed
  moreover from this ys Cons.prems have "xs = ys'"
    by (intro Cons.IH) auto
  ultimately show ?case using ys by simp
qed

lemma sort_slice_unique:
  assumes "mset xs = mset ys"
    and "\<And>x y. x \<in> set xs \<Longrightarrow> y \<in> set xs \<Longrightarrow> \<not> lt x y \<Longrightarrow> \<not> lt y x \<Longrightarrow> x = y"
  shows "sort_slice lt xs = sort_slice lt ys"
  using assms by (intro sorted_unique) (auto intro: sorted_sort_slice)

end

text \<open>\<open>sort.Strings\<close> is \<open>sort.Slice\<close> with the byte-wise order of strings.\<close>

interpretation str_less: slice_less "\<lambda>x y :: string. x < y"
  by unfold_locales auto

definition sort_Strings :: "string list \<Rightarrow> string list" where
  "sort_Strings xs = sort_slice (<) xs"

lemma set_sort_Strings [simp]: "set (sort_Strings xs) = set xs"
  by (simp add: sort_Strings_def)

lemma mset_sort_Strings [simp]: "mset (sort_Strings xs) = mset xs"
  by (simp add: sort_Strings_def)

lemma sorted_sort_Strings: "sorted (sort_Strings xs)"
  using str_less.sorted_sort_slice [of xs] by (simp add: sort_Strings_def not_less)

lemma sort_Strings_cong: "mset xs = mset ys \<Longrightarrow> sort_Strings xs = sort_Strings ys"
  unfolding sort_Strings_def by (rule str_less.sort_slice_unique) auto

section \<open>Triples over the state monad\<close>

abbreviation return_st :: "'a \<Rightarrow> ('s, 'a) state" where
  "return_st \<equiv> State_Monad.return"

abbreviation bind_st :: "('s, 'a) state \<Rightarrow> ('a \<Rightarrow> ('s, 'b) state) \<Rightarrow> ('s, 'b) state" where
  "bind_st \<equiv> State_Monad.bind"

definition hoare :: "('s \<Rightarrow> bool) \<Rightarrow> ('s, 'a) state \<Rightarrow> ('a \<Rightarrow> 's \<Rightarrow> bool) \<Rightarrow> bool" where
  "hoare P m Q \<longleftrightarrow> (\<forall>s. P s \<longrightarrow> (case run_state m s of (a, s') \<Rightarrow> Q a s'))"

definition keeps :: "('s \<Rightarrow> bool) \<Rightarrow> ('s, 'a) state \<Rightarrow> bool" where
  "keeps I m \<longleftrightarrow> hoare I m (\<lambda>_. I)"

lemma hoareI: "(\<And>s a s'. P s \<Longrightarrow> run_state m s = (a, s') \<Longrightarrow> Q a s') \<Longrightarrow> hoare P m Q"
  by (auto simp: hoare_def split: prod.splits)

lemma hoareD: "hoare P m Q \<Longrightarrow> P s \<Longrightarrow> run_state m s = (a, s') \<Longrightarrow> Q a s'"
  by (auto simp: hoare_def)

lemma hoare_return: "(\<And>s. P s \<Longrightarrow> Q a s) \<Longrightarrow> hoare P (return_st a) Q"
  by (simp add: hoare_def)

lemma hoare_bind: "hoare P m R \<Longrightarrow> (\<And>a. hoare (R a) (f a) Q) \<Longrightarrow> hoare P (bind_st m f) Q"
  by (fastforce simp: hoare_def split: prod.splits)

lemma hoare_conseq:
  "hoare P' m Q' \<Longrightarrow> (\<And>s. P s \<Longrightarrow> P' s) \<Longrightarrow> (\<And>a s. Q' a s \<Longrightarrow> Q a s) \<Longrightarrow> hoare P m Q"
  by (fastforce simp: hoare_def split: prod.splits)

lemma hoare_conj: "hoare P m Q \<Longrightarrow> hoare P m R \<Longrightarrow> hoare P m (\<lambda>a s. Q a s \<and> R a s)"
  by (auto simp: hoare_def split: prod.splits)

lemma hoare_pre: "hoare P' m Q \<Longrightarrow> (\<And>s. P s \<Longrightarrow> P' s) \<Longrightarrow> hoare P m Q"
  by (auto simp: hoare_def)

lemma hoare_post: "hoare P m Q' \<Longrightarrow> (\<And>a s. Q' a s \<Longrightarrow> Q a s) \<Longrightarrow> hoare P m Q"
  by (rule hoare_conseq) assumption+

lemma keepsI: "(\<And>s a s'. I s \<Longrightarrow> run_state m s = (a, s') \<Longrightarrow> I s') \<Longrightarrow> keeps I m"
  by (auto simp: keeps_def intro: hoareI)

lemma keepsD: "keeps I m \<Longrightarrow> I s \<Longrightarrow> run_state m s = (a, s') \<Longrightarrow> I s'"
  by (auto simp: keeps_def dest: hoareD)

lemma keeps_hoare: "keeps I m \<Longrightarrow> hoare I m (\<lambda>_. I)"
  by (simp add: keeps_def)

lemma keeps_return [triple_rules]: "keeps I (return_st a)"
  by (simp add: keeps_def hoare_def)

lemma keeps_bind [triple_rules]:
  "keeps I m \<Longrightarrow> (\<And>a. keeps I (f a)) \<Longrightarrow> keeps I (bind_st m f)"
  by (auto simp: keeps_def intro: hoare_bind)

lemma keeps_if [triple_rules]:
  "(b \<Longrightarrow> keeps I m) \<Longrightarrow> (\<not> b \<Longrightarrow> keeps I n) \<Longrightarrow> keeps I (if b then m else n)"
  by simp

lemma keeps_let [triple_rules]: "(\<And>x. x = t \<Longrightarrow> keeps I (f x)) \<Longrightarrow> keeps I (let x = t in f x)"
  by simp

lemma keeps_case_sum [triple_rules]:
  "(\<And>e. x = Inl e \<Longrightarrow> keeps I (f e)) \<Longrightarrow> (\<And>v. x = Inr v \<Longrightarrow> keeps I (g v)) \<Longrightarrow>
     keeps I (case x of Inl e \<Rightarrow> f e | Inr v \<Rightarrow> g v)"
  by (cases x) auto

lemma keeps_case_option [triple_rules]:
  "(x = None \<Longrightarrow> keeps I m) \<Longrightarrow> (\<And>v. x = Some v \<Longrightarrow> keeps I (g v)) \<Longrightarrow>
     keeps I (case x of None \<Rightarrow> m | Some v \<Rightarrow> g v)"
  by (cases x) auto

lemma keeps_case_prod [triple_rules]:
  "(\<And>a b. x = (a, b) \<Longrightarrow> keeps I (f a b)) \<Longrightarrow> keeps I (case x of (a, b) \<Rightarrow> f a b)"
  by (cases x) auto

lemma keeps_case_list [triple_rules]:
  "(x = [] \<Longrightarrow> keeps I m) \<Longrightarrow> (\<And>a b. x = a # b \<Longrightarrow> keeps I (f a b)) \<Longrightarrow>
     keeps I (case x of [] \<Rightarrow> m | a # b \<Rightarrow> f a b)"
  by (cases x) auto

end
