(* ===== verification/Go_Strings.thy ===== *)
theory Go_Strings
  imports Prelude
begin

text \<open>
  The functions of Go's \<open>strings\<close>, \<open>strconv\<close> and \<open>fmt\<close> packages that the operator uses, on
  strings as lists of bytes (\<open>string\<close> of HOL: a \<open>char\<close> is a byte). Comparison \<open><\<close> on strings is
  byte-wise lexicographic, as in Go. The facts a client needs: \<open>fields_word\<close> (splitting what was
  joined with blanks), \<open>str_cut_char\<close> (cutting at the first separator) and \<open>parse_int_itoa\<close>
  (printed numbers parse back).
\<close>

section \<open>strings\<close>

definition HasPrefix :: "string \<Rightarrow> string \<Rightarrow> bool" where
  "HasPrefix s p \<longleftrightarrow> take (length p) s = p"

definition HasSuffix :: "string \<Rightarrow> string \<Rightarrow> bool" where
  "HasSuffix s p \<longleftrightarrow> HasPrefix (rev s) (rev p)"

definition CutPrefix :: "string \<Rightarrow> string \<Rightarrow> string option" where
  "CutPrefix s p = (if HasPrefix s p then Some (drop (length p) s) else None)"

definition TrimSuffix :: "string \<Rightarrow> string \<Rightarrow> string" where
  "TrimSuffix s p = (if HasSuffix s p then take (length s - length p) s else s)"

text \<open>\<open>strings.Cut(s, sep)\<close>: before, after, found.\<close>

fun str_cut :: "string \<Rightarrow> string \<Rightarrow> string \<times> string \<times> bool" where
  "str_cut sep [] = (if sep = [] then ([], [], True) else ([], [], False))"
| "str_cut sep (c # s) =
     (if HasPrefix (c # s) sep then ([], drop (length sep) (c # s), True)
      else (case str_cut sep s of (b, a, found) \<Rightarrow> (c # b, a, found)))"

definition ContainsStr :: "string \<Rightarrow> string \<Rightarrow> bool" where
  "ContainsStr s sub \<longleftrightarrow> snd (snd (str_cut sub s))"

definition CountChar :: "string \<Rightarrow> char \<Rightarrow> nat" where
  "CountChar s c = length (filter (\<lambda>x. x = c) s)"

fun Join :: "string list \<Rightarrow> string \<Rightarrow> string" where
  "Join [] sep = []"
| "Join [x] sep = x"
| "Join (x # y # xs) sep = x @ sep @ Join (y # xs) sep"

text \<open>
  \<open>unicode.IsSpace\<close> on the UTF-8 encoding at the head of a byte string: the number of bytes of the
  space, 0 if there is none. The lead bytes of the multi-byte spaces (U+0085, U+00A0, U+1680,
  U+2000-U+200A, U+2028, U+2029, U+202F, U+205F, U+3000) are never continuation bytes, so matching
  bytes finds exactly the runes that decoding finds.
\<close>

definition space_len :: "string \<Rightarrow> nat" where
  "space_len s =
     (case map of_char (take 3 s) :: nat list of
        [] \<Rightarrow> 0
      | b0 # bs \<Rightarrow>
          if b0 \<in> {9, 10, 11, 12, 13, 32} then 1
          else if b0 = 0xC2 then (if bs \<noteq> [] \<and> hd bs \<in> {0x85, 0xA0} then 2 else 0)
          else if b0 = 0xE1 then (if bs = [0x9A, 0x80] then 3 else 0)
          else if b0 = 0xE2 then
            (if length bs = 2 \<and> (hd bs = 0x80 \<and> (0x80 \<le> bs ! 1 \<and> bs ! 1 \<le> 0x8A \<or> bs ! 1 \<in> {0xA8, 0xA9, 0xAF})
                 \<or> bs = [0x81, 0x9F]) then 3 else 0)
          else if b0 = 0xE3 then (if bs = [0x80, 0x80] then 3 else 0)
          else 0)"

text \<open>
  \<open>strings.Fields\<close>: the scan keeps the field read so far (\<open>cur\<close>) and, inside a multi-byte space,
  the bytes still to skip.
\<close>

fun fields_scan :: "nat \<Rightarrow> string \<Rightarrow> string \<Rightarrow> string list" where
  "fields_scan k cur [] = (if cur = [] then [] else [cur])"
| "fields_scan (Suc k) cur (c # s) = fields_scan k cur s"
| "fields_scan 0 cur (c # s) =
     (let n = space_len (c # s)
      in if n = 0 then fields_scan 0 (cur @ [c]) s
         else if cur = [] then fields_scan (n - 1) [] s
         else cur # fields_scan (n - 1) [] s)"

definition Fields :: "string \<Rightarrow> string list" where
  "Fields s = fields_scan 0 [] s"

text \<open>A byte that is or begins no space; printable ASCII other than the blank is of this kind.\<close>

definition word_char :: "char \<Rightarrow> bool" where
  "word_char c \<longleftrightarrow> (of_char c :: nat) \<notin> {9, 10, 11, 12, 13, 32, 0xC2, 0xE1, 0xE2, 0xE3}"

definition is_word :: "string \<Rightarrow> bool" where
  "is_word w \<longleftrightarrow> w \<noteq> [] \<and> list_all word_char w"

lemma space_len_word_char: "word_char c \<Longrightarrow> space_len (c # s) = 0"
  by (simp add: space_len_def word_char_def)

lemma space_len_blank [simp]: "space_len (CHR '' '' # s) = 1"
  by (simp add: space_len_def)

lemma fields_scan_word:
  "list_all word_char w \<Longrightarrow> fields_scan 0 cur (w @ s) = fields_scan 0 (cur @ w) s"
  by (induction w arbitrary: cur) (auto simp: space_len_word_char Let_def)

lemma Fields_word: "is_word w \<Longrightarrow> Fields w = [w]"
  using fields_scan_word [of w "[]" "[]"] by (simp add: Fields_def is_word_def)

lemma fields_scan_last: "is_word w \<Longrightarrow> fields_scan 0 [] w = [w]"
  using Fields_word by (simp add: Fields_def)

lemma fields_scan_step:
  "is_word w \<Longrightarrow> fields_scan 0 [] (w @ CHR '' '' # s) = w # fields_scan 0 [] s"
  by (simp add: fields_scan_word is_word_def Let_def)

text \<open>Splitting the blank-separated concatenation of words gives the words back.\<close>

lemma fields_word:
  "ws \<noteq> [] \<Longrightarrow> list_all is_word ws \<Longrightarrow> Fields (Join ws '' '') = ws"
  unfolding Fields_def
  by (induction ws "'' ''" rule: Join.induct) (auto simp: fields_scan_step fields_scan_last)

lemma HasPrefix_append [simp]: "HasPrefix (p @ s) p"
  by (simp add: HasPrefix_def)

lemma HasPrefix_iff: "HasPrefix s p \<longleftrightarrow> (\<exists>t. s = p @ t)"
  unfolding HasPrefix_def by (metis append_eq_conv_conj append_take_drop_id)

lemma HasSuffix_iff: "HasSuffix s p \<longleftrightarrow> (\<exists>t. s = t @ p)"
proof
  assume "HasSuffix s p"
  then obtain t where "rev s = rev p @ t" by (auto simp: HasSuffix_def HasPrefix_iff)
  then have "s = rev t @ p" by (metis rev_append rev_rev_ident)
  then show "\<exists>t. s = t @ p" ..
next
  assume "\<exists>t. s = t @ p"
  then show "HasSuffix s p" by (auto simp: HasSuffix_def)
qed

lemma CutPrefix_append [simp]: "CutPrefix (p @ s) p = Some s"
  by (simp add: CutPrefix_def)

lemma CutPrefix_Some: "CutPrefix s p = Some t \<longleftrightarrow> s = p @ t"
  by (auto simp: CutPrefix_def HasPrefix_iff)

lemma HasPrefix_single [simp]: "HasPrefix (c # s) [d] \<longleftrightarrow> c = d"
  by (simp add: HasPrefix_def)

text \<open>Cutting at a single byte finds its first occurrence.\<close>

lemma str_cut_char: "c \<notin> set k \<Longrightarrow> str_cut [c] (k @ c # v) = (k, v, True)"
  by (induction k) auto

lemma str_cut_none: "c \<notin> set k \<Longrightarrow> str_cut [c] k = (k, [], False)"
  by (induction k) auto

lemma str_cut_found: "str_cut sep s = (b, a, True) \<Longrightarrow> s = b @ sep @ a"
proof (induction s arbitrary: b a)
  case Nil
  then show ?case by (simp split: if_splits)
next
  case (Cons c s)
  show ?case
  proof (cases "HasPrefix (c # s) sep")
    case True
    with Cons.prems have "b = []" and "a = drop (length sep) (c # s)" by auto
    with True show ?thesis by (simp add: HasPrefix_def) (metis append_take_drop_id)
  next
    case False
    with Cons.prems obtain b' where "str_cut sep s = (b', a, True)" and "b = c # b'"
      by (auto split: prod.splits)
    with Cons.IH show ?thesis by simp
  qed
qed

lemma str_cut_not_found: "str_cut sep s = (b, a, False) \<Longrightarrow> b = s"
  by (induction s arbitrary: b a) (auto split: if_splits prod.splits)

text \<open>A separator that occurs nowhere in \<open>s\<close>, not even straddling its end, is found right after it.\<close>

lemma str_cut_first:
  assumes "sep \<noteq> []" and "hd sep \<notin> set s"
  shows "str_cut sep (s @ sep @ t) = (s, t, True)"
  using assms(2)
proof (induction s)
  case Nil
  from assms(1) obtain c sep' where "sep = c # sep'" by (cases sep) auto
  then show ?case using HasPrefix_append [of sep t] by simp
next
  case (Cons c s)
  then have "c \<noteq> hd sep" by auto
  with assms(1) have "\<not> HasPrefix (c # s @ sep @ t) sep"
    by (auto simp: HasPrefix_iff) (metis append_Cons list.sel(1) neq_Nil_conv)
  with Cons show ?case by simp
qed

lemma str_cut_absent: "sep \<noteq> [] \<Longrightarrow> hd sep \<notin> set s \<Longrightarrow> str_cut sep s = (s, [], False)"
proof (induction s)
  case Nil
  then show ?case by simp
next
  case (Cons c s)
  then have "\<not> HasPrefix (c # s) sep"
    by (auto simp: HasPrefix_iff) (metis append_Cons list.sel(1) neq_Nil_conv)
  with Cons show ?case by simp
qed

section \<open>strconv and fmt\<close>

text \<open>\<open>%d\<close> and \<open>strconv.Itoa\<close>.\<close>

fun digits :: "nat \<Rightarrow> string" where
  "digits n = (if n < 10 then [char_of (48 + n)] else digits (n div 10) @ [char_of (48 + n mod 10)])"

declare digits.simps [simp del]

definition itoa :: "int \<Rightarrow> string" where
  "itoa i = (if i < 0 then CHR ''-'' # digits (nat (- i)) else digits (nat i))"

definition is_digit :: "char \<Rightarrow> bool" where
  "is_digit c \<longleftrightarrow> 48 \<le> (of_char c :: nat) \<and> (of_char c :: nat) \<le> 57"

fun digits_val :: "nat \<Rightarrow> string \<Rightarrow> nat option" where
  "digits_val acc [] = Some acc"
| "digits_val acc (c # s) =
     (if is_digit c then digits_val (10 * acc + (of_char c - 48)) s else None)"

text \<open>
  \<open>strconv.ParseInt(s, 10, 64)\<close>, and \<open>strconv.Atoi\<close> on a 64-bit platform: an optional sign, at least
  one digit, nothing else, and the value within \<open>int64\<close>; \<open>None\<close> is the error.
\<close>

definition parse_int :: "string \<Rightarrow> int option" where
  "parse_int s =
     (let (neg, ds) = (case s of
            [] \<Rightarrow> (False, [])
          | c # t \<Rightarrow> if c = CHR ''-'' then (True, t) else if c = CHR ''+'' then (False, t) else (False, s))
      in if ds = [] then None
         else (case digits_val 0 ds of
             None \<Rightarrow> None
           | Some n \<Rightarrow>
               (let v = (if neg then - int n else int n)
                in if - (2 ^ 63) \<le> v \<and> v < 2 ^ 63 then Some v else None)))"

lemma digits_nonempty [simp]: "digits n \<noteq> []"
  by (subst digits.simps) simp

lemma is_digit_char_of [simp]: "d < 10 \<Longrightarrow> is_digit (char_of (48 + d :: nat))"
  by (simp add: is_digit_def of_char_of)

lemma digits_all_digit: "list_all is_digit (digits n)"
proof (induction n rule: digits.induct)
  case (1 n)
  then show ?case by (subst digits.simps) auto
qed

lemma digits_val_append:
  "digits_val acc (s @ t) = (case digits_val acc s of None \<Rightarrow> None | Some v \<Rightarrow> digits_val v t)"
  by (induction s arbitrary: acc) auto

lemma digits_val_digits: "digits_val 0 (digits n) = Some n"
proof (induction n rule: digits.induct)
  case (1 n)
  show ?case
  proof (cases "n < 10")
    case True
    then show ?thesis by (subst digits.simps) (simp add: of_char_of)
  next
    case False
    with "1.IH" show ?thesis
      by (subst digits.simps) (simp add: digits_val_append of_char_of)
  qed
qed

lemma digit_not_sign: "is_digit c \<Longrightarrow> c \<noteq> CHR ''-'' \<and> c \<noteq> CHR ''+''"
  by (auto simp: is_digit_def)

lemma digits_Cons: obtains c t where "digits n = c # t" and "is_digit c"
  using digits_nonempty [of n] digits_all_digit [of n] by (cases "digits n") auto

lemma parse_int_itoa: "- (2 ^ 63) \<le> i \<Longrightarrow> i < 2 ^ 63 \<Longrightarrow> parse_int (itoa i) = Some i"
proof (cases "i < 0")
  case True
  assume "- (2 ^ 63) \<le> i" "i < 2 ^ 63"
  with True show ?thesis
    by (simp add: itoa_def parse_int_def digits_val_digits Let_def)
next
  case False
  assume b: "- (2 ^ 63) \<le> i" "i < 2 ^ 63"
  obtain c t where d: "digits (nat i) = c # t" and "is_digit c" by (rule digits_Cons)
  then have "digits_val 0 (c # t) = Some (nat i)" by (metis digits_val_digits)
  with False b digit_not_sign [OF \<open>is_digit c\<close>] d show ?thesis
    by (simp add: itoa_def parse_int_def Let_def)
qed

lemma is_digit_word_char: "is_digit c \<Longrightarrow> word_char c"
  by (auto simp: is_digit_def word_char_def)

lemma is_word_itoa [simp]: "is_word (itoa i)"
  using digits_all_digit [of "nat i"] digits_all_digit [of "nat (- i)"]
  by (auto simp: itoa_def is_word_def list_all_iff is_digit_word_char word_char_def [of "CHR ''-''"])

lemma itoa_no_eq [simp]: "CHR ''='' \<notin> set (itoa i)"
  using digits_all_digit [of "nat i"] digits_all_digit [of "nat (- i)"]
  by (auto simp: itoa_def list_all_iff is_digit_def)

lemma itoa_nonempty [simp]: "itoa i \<noteq> []"
  by (simp add: itoa_def)

text \<open>A number below \<open>10 ^ k\<close> prints with at most \<open>k\<close> digits.\<close>

lemma length_digits: "0 < k \<Longrightarrow> n < 10 ^ k \<Longrightarrow> length (digits n) \<le> k"
proof (induction n arbitrary: k rule: digits.induct)
  case (1 n)
  show ?case
  proof (cases "n < 10")
    case True
    with "1.prems" show ?thesis by (subst digits.simps) simp
  next
    case False
    obtain j where k: "k = Suc j" using "1.prems" by (cases k) auto
    with False "1.prems" have "0 < j" by (cases j) auto
    with k "1.prems" have "n div 10 < 10 ^ j" by (simp add: less_mult_imp_div_less mult.commute)
    with False "1.IH" \<open>0 < j\<close> have "length (digits (n div 10)) \<le> j" by simp
    with False k show ?thesis by (subst digits.simps) simp
  qed
qed

text \<open>\<open>%x\<close> of a byte slice: two lower-case hexadecimal digits per byte.\<close>

definition hex_digit :: "nat \<Rightarrow> char" where
  "hex_digit n = (if n < 10 then char_of (48 + n) else char_of (87 + n))"

definition hex_string :: "nat list \<Rightarrow> string" where
  "hex_string bs = concat (map (\<lambda>b. [hex_digit (b div 16), hex_digit (b mod 16)]) bs)"

lemma length_hex_string [simp]: "length (hex_string bs) = 2 * length bs"
  by (induction bs) (auto simp: hex_string_def)

lemma hex_digit_inj: "m < 16 \<Longrightarrow> n < 16 \<Longrightarrow> hex_digit m = hex_digit n \<longleftrightarrow> m = n"
proof
  assume "m < 16" "n < 16" "hex_digit m = hex_digit n"
  moreover have "(of_char (hex_digit k) :: nat) = (if k < 10 then 48 + k else 87 + k)" if "k < 16" for k
    using that by (auto simp: hex_digit_def of_char_of)
  ultimately have "(if m < 10 then 48 + m else 87 + m) = (if n < 10 then 48 + n else 87 + n)" by metis
  with \<open>m < 16\<close> \<open>n < 16\<close> show "m = n" by presburger
qed simp

lemma hex_string_inj:
  "list_all (\<lambda>b. b < 256) xs \<Longrightarrow> list_all (\<lambda>b. b < 256) ys \<Longrightarrow> hex_string xs = hex_string ys \<longleftrightarrow> xs = ys"
proof (induction xs arbitrary: ys)
  case Nil
  then show ?case by (cases ys) (auto simp: hex_string_def)
next
  case (Cons x xs)
  show ?case
  proof (cases ys)
    case Nil
    then show ?thesis by (simp add: hex_string_def)
  next
    case ys: (Cons y zs)
    have "x div 16 < 16" "y div 16 < 16" "x mod 16 < 16" "y mod 16 < 16" using Cons.prems ys by auto
    moreover have "x = y \<longleftrightarrow> x div 16 = y div 16 \<and> x mod 16 = y mod 16" by (metis div_mult_mod_eq)
    ultimately show ?thesis using Cons ys by (simp add: hex_string_def hex_digit_inj)
  qed
qed

end
