(* ===== verification/Go_Time.thy ===== *)
theory Go_Time
  imports Go_Strings "HOL-Library.Word"
begin

text \<open>
  Go's \<open>time\<close> package as the failover code uses it. A \<open>time.Time\<close> is the number of nanoseconds
  since its zero value (January 1 of year 1, UTC), so \<open>IsZero\<close> is \<open>t = 0\<close>; its seconds are an
  \<open>int64\<close>. A \<open>time.Duration\<close> is an \<open>int64\<close> of nanoseconds. Where Go wraps (\<open>time.Unix\<close>) or
  saturates (\<open>Add\<close>, \<open>Sub\<close>) the model does so too.
\<close>

type_synonym time = int
type_synonym duration = int
type_synonym int32 = "32 word"

definition second :: duration where
  "second = 1000000000"

definition unixToInternal :: int where
  "unixToInternal = 62135596800"

definition wrap64 :: "int \<Rightarrow> int" where
  "wrap64 x = (x + 2 ^ 63) mod 2 ^ 64 - 2 ^ 63"

definition sat64 :: "int \<Rightarrow> int" where
  "sat64 x = max (- (2 ^ 63)) (min (2 ^ 63 - 1) x)"

definition IsZero :: "time \<Rightarrow> bool" where
  "IsZero t \<longleftrightarrow> t = 0"

text \<open>\<open>time.Unix(sec, 0)\<close>, and \<open>t.Unix()\<close>.\<close>

definition time_Unix :: "int \<Rightarrow> time" where
  "time_Unix sec = wrap64 (sec + unixToInternal) * second"

definition Unix :: "time \<Rightarrow> int" where
  "Unix t = wrap64 (t div second - unixToInternal)"

definition Before :: "time \<Rightarrow> time \<Rightarrow> bool" where
  "Before t u \<longleftrightarrow> t < u"

text \<open>\<open>t.Add(d)\<close>: the seconds saturate at the limits of \<open>int64\<close>.\<close>

definition time_Add :: "time \<Rightarrow> duration \<Rightarrow> time" where
  "time_Add t d =
     (let s = (t + d) div second; n = (t + d) mod second
      in if s > 2 ^ 63 - 1 then (2 ^ 63 - 1) * second + n
         else if s < - (2 ^ 63) then - (2 ^ 63 - 1) * second + n
         else t + d)"

text \<open>\<open>t.Sub(u)\<close> saturates to the extreme durations.\<close>

definition time_Sub :: "time \<Rightarrow> time \<Rightarrow> duration" where
  "time_Sub t u = sat64 (t - u)"

text \<open>
  Instants the code meets: seconds within \<open>\<plusminus>2^62\<close> of the zero time, which covers
  every wall clock and leaves room for any duration to be added.
\<close>

definition sane_time :: "time \<Rightarrow> bool" where
  "sane_time t \<longleftrightarrow> \<bar>t\<bar> \<le> 2 ^ 62 * second"

lemma wrap64_id: "- (2 ^ 63) \<le> x \<Longrightarrow> x < 2 ^ 63 \<Longrightarrow> wrap64 x = x"
  by (simp add: wrap64_def)

lemma wrap64_range: "- (2 ^ 63) \<le> wrap64 x \<and> wrap64 x < 2 ^ 63"
  by (simp add: wrap64_def)

lemma wrap64_add: "wrap64 (wrap64 x + y) = wrap64 (x + y)"
  unfolding wrap64_def by (simp add: mod_simps algebra_simps)

lemma wrap64_diff: "wrap64 (wrap64 x - y) = wrap64 (x - y)"
  using wrap64_add [of x "- y"] by simp

text \<open>Whole seconds survive the trip through the internal representation, wrap-around included.\<close>

lemma Unix_time_Unix: "- (2 ^ 63) \<le> s \<Longrightarrow> s < 2 ^ 63 \<Longrightarrow> Unix (time_Unix s) = s"
proof -
  assume "- (2 ^ 63) \<le> s" "s < 2 ^ 63"
  have "Unix (time_Unix s) = wrap64 (wrap64 (s + unixToInternal) - unixToInternal)"
    by (simp add: Unix_def time_Unix_def second_def)
  also have "\<dots> = wrap64 s" by (simp add: wrap64_diff)
  finally show ?thesis using \<open>- (2 ^ 63) \<le> s\<close> \<open>s < 2 ^ 63\<close> by (simp add: wrap64_id)
qed

lemma Unix_range: "- (2 ^ 63) \<le> Unix t \<and> Unix t < 2 ^ 63"
  unfolding Unix_def by (rule wrap64_range)

text \<open>The instant that is left when the sub-second part is dropped.\<close>

definition trunc_sec :: "time \<Rightarrow> time" where
  "trunc_sec t = t div second * second"

lemma time_Unix_Unix:
  assumes "- (2 ^ 63) \<le> t div second" and "t div second < 2 ^ 63"
  shows "time_Unix (Unix t) = trunc_sec t"
proof -
  have "wrap64 (Unix t + unixToInternal) = wrap64 (t div second)"
    unfolding Unix_def using wrap64_add [of "t div second - unixToInternal" unixToInternal] by simp
  then show ?thesis using assms by (simp add: time_Unix_def trunc_sec_def wrap64_id)
qed

lemma trunc_sec_le: "trunc_sec t \<le> t"
  unfolding trunc_sec_def second_def by presburger

lemma trunc_sec_gt: "t < trunc_sec t + second"
  unfolding trunc_sec_def second_def by presburger

lemma sane_time_div: "sane_time t \<Longrightarrow> - (2 ^ 63) \<le> t div second \<and> t div second < 2 ^ 63"
  by (auto simp: sane_time_def second_def)

lemma time_Add_sane:
  "sane_time t \<Longrightarrow> \<bar>d\<bar> < 2 ^ 63 \<Longrightarrow> time_Add t d = t + d"
  by (auto simp: time_Add_def sane_time_def second_def Let_def)

lemma sint32_range: "- (2 ^ 31) \<le> sint (w :: int32) \<and> sint w < 2 ^ 31"
  using sint_range_size [of w] by (simp add: word_size)

lemma time_Sub_pos: "u \<le> t \<Longrightarrow> 0 \<le> time_Sub t u"
  by (simp add: time_Sub_def sat64_def)

end
