(* ===== verification/Go_Hash.thy ===== *)
theory Go_Hash
  imports Go_Time
begin

text \<open>
  \<open>crypto/sha256\<close> and the parts of \<open>encoding/json\<close> that feed it. \<open>Sum256\<close> is SHA-256 on
  \<open>32 word\<close>s (all additions modulo \<open>2^32\<close>); \<open>json_string\<close> is the encoder's string escaping with
  HTML escaping on, as \<open>json.Marshal\<close> uses it, on any byte string. The facts used elsewhere are the
  lengths of the digests: the operator's bounds on names and labels depend on them.
\<close>

unbundle bit_operations_syntax

section \<open>SHA-256\<close>

type_synonym u32 = "32 word"

record hash_state =
  hA :: u32
  hB :: u32
  hC :: u32
  hD :: u32
  hE :: u32
  hF :: u32
  hG :: u32
  hH :: u32

definition sha_K :: "u32 list" where
  "sha_K =
    [1116352408, 1899447441, 3049323471, 3921009573, 961987163, 1508970993, 2453635748, 2870763221,
     3624381080, 310598401, 607225278, 1426881987, 1925078388, 2162078206, 2614888103, 3248222580,
     3835390401, 4022224774, 264347078, 604807628, 770255983, 1249150122, 1555081692, 1996064986,
     2554220882, 2821834349, 2952996808, 3210313671, 3336571891, 3584528711, 113926993, 338241895,
     666307205, 773529912, 1294757372, 1396182291, 1695183700, 1986661051, 2177026350, 2456956037,
     2730485921, 2820302411, 3259730800, 3345764771, 3516065817, 3600352804, 4094571909, 275423344,
     430227734, 506948616, 659060556, 883997877, 958139571, 1322822218, 1537002063, 1747873779,
     1955562222, 2024104815, 2227730452, 2361852424, 2428436474, 2756734187, 3204031479, 3329325298]"

definition sha_init :: hash_state where
  "sha_init = \<lparr>hA = 0x6a09e667, hB = 0xbb67ae85, hC = 0x3c6ef372, hD = 0xa54ff53a,
     hE = 0x510e527f, hF = 0x9b05688c, hG = 0x1f83d9ab, hH = 0x5be0cd19\<rparr>"

definition big_sigma0 :: "u32 \<Rightarrow> u32" where
  "big_sigma0 x = (word_rotr 2 x XOR word_rotr 13 x XOR word_rotr 22 x)"

definition big_sigma1 :: "u32 \<Rightarrow> u32" where
  "big_sigma1 x = (word_rotr 6 x XOR word_rotr 11 x XOR word_rotr 25 x)"

definition small_sigma0 :: "u32 \<Rightarrow> u32" where
  "small_sigma0 x = (word_rotr 7 x XOR word_rotr 18 x XOR drop_bit 3 x)"

definition small_sigma1 :: "u32 \<Rightarrow> u32" where
  "small_sigma1 x = (word_rotr 17 x XOR word_rotr 19 x XOR drop_bit 10 x)"

definition sha_round :: "u32 \<times> u32 \<Rightarrow> hash_state \<Rightarrow> hash_state" where
  "sha_round kw h =
     (let e = hE h; a = hA h;
          ch = (e AND hF h) XOR (NOT e AND hG h);
          maj = (a AND hB h) XOR (a AND hC h) XOR (hB h AND hC h);
          t1 = hH h + big_sigma1 e + ch + fst kw + snd kw;
          t2 = big_sigma0 a + maj
      in \<lparr>hA = t1 + t2, hB = a, hC = hB h, hD = hC h, hE = hD h + t1, hF = e, hG = hF h, hH = hG h\<rparr>)"

text \<open>The message schedule, newest word first while it grows.\<close>

fun sha_extend :: "nat \<Rightarrow> u32 list \<Rightarrow> u32 list" where
  "sha_extend 0 ws = ws"
| "sha_extend (Suc n) ws =
     sha_extend n ((small_sigma1 (ws ! 1) + ws ! 6 + small_sigma0 (ws ! 14) + ws ! 15) # ws)"

definition sha_compress :: "u32 list \<Rightarrow> hash_state \<Rightarrow> hash_state" where
  "sha_compress block h =
     (let r = fold sha_round (zip sha_K (rev (sha_extend 48 (rev block)))) h
      in \<lparr>hA = hA h + hA r, hB = hB h + hB r, hC = hC h + hC r, hD = hD h + hD r,
          hE = hE h + hE r, hF = hF h + hF r, hG = hG h + hG r, hH = hH h + hH r\<rparr>)"

fun words_of_bytes :: "nat list \<Rightarrow> u32 list" where
  "words_of_bytes (a # b # c # d # bs) =
     word_of_nat (((a * 256 + b) * 256 + c) * 256 + d) # words_of_bytes bs"
| "words_of_bytes bs = []"

definition bytes_of_word :: "u32 \<Rightarrow> nat list" where
  "bytes_of_word w = (let n = unat w in [n div 2 ^ 24 mod 256, n div 2 ^ 16 mod 256, n div 2 ^ 8 mod 256, n mod 256])"

fun be_bytes :: "nat \<Rightarrow> nat \<Rightarrow> nat list" where
  "be_bytes 0 n = []"
| "be_bytes (Suc k) n = be_bytes k (n div 256) @ [n mod 256]"

definition sha_pad :: "nat list \<Rightarrow> nat list" where
  "sha_pad bs = bs @ [0x80] @ replicate ((119 - length bs mod 64) mod 64) 0 @ be_bytes 8 (8 * length bs)"

function sha_blocks :: "u32 list \<Rightarrow> hash_state \<Rightarrow> hash_state" where
  "sha_blocks ws h = (if length ws < 16 then h else sha_blocks (drop 16 ws) (sha_compress (take 16 ws) h))"
  by pat_completeness auto
termination
  by (relation "measure (\<lambda>(ws, h). length ws)") auto

declare sha_blocks.simps [simp del]

definition Sum256 :: "string \<Rightarrow> nat list" where
  "Sum256 s =
     (let h = sha_blocks (words_of_bytes (sha_pad (map of_char s))) sha_init
      in concat (map bytes_of_word [hA h, hB h, hC h, hD h, hE h, hF h, hG h, hH h]))"

lemma length_Sum256 [simp]: "length (Sum256 s) = 32"
  by (simp add: Sum256_def bytes_of_word_def Let_def)

lemma bytes_of_word_lt: "list_all (\<lambda>b. b < 256) (bytes_of_word w)"
  by (simp add: bytes_of_word_def Let_def)

lemma Sum256_bytes: "list_all (\<lambda>b. b < 256) (Sum256 t)"
  unfolding Sum256_def Let_def
  by (simp only: list.map concat.simps list_all_append bytes_of_word_lt list.pred_inject simp_thms)

section \<open>JSON strings\<close>

text \<open>
  The length of the valid UTF-8 encoding of a rune beyond ASCII at the head of the string, 0 if
  the bytes there are not valid.
\<close>

definition cont_byte :: "nat \<Rightarrow> bool" where
  "cont_byte b \<longleftrightarrow> 0x80 \<le> b \<and> b \<le> 0xBF"

definition utf8_len :: "string \<Rightarrow> nat" where
  "utf8_len s =
     (case map of_char (take 4 s) :: nat list of
        b0 # b1 # bs \<Rightarrow>
          if 0xC2 \<le> b0 \<and> b0 \<le> 0xDF then (if cont_byte b1 then 2 else 0)
          else if 0xE0 \<le> b0 \<and> b0 \<le> 0xEF then
            (if bs \<noteq> [] \<and> cont_byte b1 \<and> cont_byte (hd bs) \<and> (b0 = 0xE0 \<longrightarrow> 0xA0 \<le> b1) \<and> (b0 = 0xED \<longrightarrow> b1 \<le> 0x9F)
             then 3 else 0)
          else if 0xF0 \<le> b0 \<and> b0 \<le> 0xF4 then
            (if length bs = 2 \<and> list_all cont_byte (b1 # bs) \<and> (b0 = 0xF0 \<longrightarrow> 0x90 \<le> b1) \<and> (b0 = 0xF4 \<longrightarrow> b1 \<le> 0x8F)
             then 4 else 0)
          else 0
      | _ \<Rightarrow> 0)"

definition json_escape :: "char \<Rightarrow> string" where
  "json_escape c =
     (let b = of_char c :: nat
      in if c = CHR 0x5C \<or> c = CHR 0x22 then [CHR 0x5C, c]
         else if b = 8 then [CHR 0x5C, CHR ''b'']
         else if b = 12 then [CHR 0x5C, CHR ''f'']
         else if b = 10 then [CHR 0x5C, CHR ''n'']
         else if b = 13 then [CHR 0x5C, CHR ''r'']
         else if b = 9 then [CHR 0x5C, CHR ''t'']
         else if b < 32 \<or> c = CHR ''<'' \<or> c = CHR ''>'' \<or> c = CHR ''&''
           then CHR 0x5C # ''u00'' @ hex_string [b]
         else [c])"

text \<open>\<open>json_scan skip copy s\<close>: bytes still to drop, then bytes still to copy as they are.\<close>

fun json_scan :: "nat \<Rightarrow> nat \<Rightarrow> string \<Rightarrow> string" where
  "json_scan skip copy [] = []"
| "json_scan (Suc n) copy (c # s) = json_scan n copy s"
| "json_scan 0 (Suc n) (c # s) = c # json_scan 0 n s"
| "json_scan 0 0 (c # s) =
     (if (of_char c :: nat) < 128 then json_escape c @ json_scan 0 0 s
      else (let n = utf8_len (c # s)
            in if n = 0 then CHR 0x5C # ''ufffd'' @ json_scan 0 0 s
               else if map of_char (take 3 (c # s)) = [0xE2, 0x80, 0xA8 :: nat]
                 then CHR 0x5C # ''u2028'' @ json_scan 2 0 s
               else if map of_char (take 3 (c # s)) = [0xE2, 0x80, 0xA9 :: nat]
                 then CHR 0x5C # ''u2029'' @ json_scan 2 0 s
               else c # json_scan 0 (n - 1) s))"

definition json_string :: "string \<Rightarrow> string" where
  "json_string s = CHR 0x22 # json_scan 0 0 s @ [CHR 0x22]"

text \<open>An object from its members, each a key and its encoded value.\<close>

definition json_object :: "(string \<times> string) list \<Rightarrow> string" where
  "json_object ms = ''{'' @ Join (map (\<lambda>(k, v). json_string k @ '':'' @ v) ms) '','' @ ''}''"

definition json_array :: "string list \<Rightarrow> string" where
  "json_array vs = ''['' @ Join vs '','' @ '']''"

end
