(* ===== verification/Naming.thy ===== *)
theory Naming
  imports Go_Hash
begin

text \<open>
  \<open>internal/naming/names.go\<close>: the names of the Secret, the DaemonSet, the Access applications and
  the failover lease record, and \<open>desiredCloudflareTunnelName\<close> of the Tunnel controller, which
  uses the same eight-digit hash.
\<close>

definition TokenSecretKey :: string where
  "TokenSecretKey = ''token''"

definition Finalizer :: string where
  "Finalizer = ''cfzt.reid.ee/finalizer''"

definition failoverLeaseLabel :: string where
  "failoverLeaseLabel = ''_cfzt-lease''"

definition TokenSecretName :: "string \<Rightarrow> string" where
  "TokenSecretName tunnelName = tunnelName @ ''-token''"

definition DaemonSetName :: "string \<Rightarrow> string" where
  "DaemonSetName tunnelName = ''cloudflared-'' @ tunnelName"

definition AccessAppName :: "string \<Rightarrow> string \<Rightarrow> string" where
  "AccessAppName displayName metadataName =
     (let base = (if displayName = [] then metadataName else displayName) in base @ ''-cfzt'')"

definition FailoverLeaseTXTName :: "string \<Rightarrow> string \<Rightarrow> string" where
  "FailoverLeaseTXTName groupID zone =
     (let sum = Sum256 groupID
      in failoverLeaseLabel @ ''.'' @ hex_string (take 4 sum) @ ''.'' @ zone)"

lemma length_FailoverLeaseTXTName:
  "length (FailoverLeaseTXTName groupID zone) = length zone + 21"
  by (simp add: FailoverLeaseTXTName_def failoverLeaseLabel_def Let_def)

end
