(* ===== verification/Api_Types.thy ===== *)
theory Api_Types
  imports Go_Time
begin

text \<open>
  The custom resources of \<open>api/v1alpha1\<close> as records, one per Go struct, with the struct's fields in
  its order. Each field carries its struct's name, because Go scopes field names by struct and HOL
  does not. A pointer field is an \<open>option\<close>, a string map an association list. Of
  \<open>metav1.ObjectMeta\<close> and \<open>metav1.Condition\<close> the fields the operator reads or writes are kept.
  The \<open>corev1\<close> values the operator only hands on to the pod template are opaque texts.
\<close>

section \<open>Metadata and conditions\<close>

record OwnerReference =
  OwnerRef_APIVersion :: string
  OwnerRef_Kind :: string
  OwnerRef_Name :: string
  OwnerRef_UID :: string
  OwnerRef_BlockOwnerDeletion :: "bool option"

record ObjectMeta =
  Meta_Namespace :: string
  Meta_Name :: string
  Meta_UID :: string
  Meta_Generation :: int
  Meta_DeletionTimestamp :: "time option"
  Meta_Finalizers :: "string list"
  Meta_Annotations :: "(string \<times> string) list"
  Meta_OwnerReferences :: "OwnerReference list"

record Condition =
  Condition_Type :: string
  Condition_Status :: string
  Condition_ObservedGeneration :: int
  Condition_LastTransitionTime :: time
  Condition_Reason :: string
  Condition_Message :: string

section \<open>CloudflareExposure\<close>

record TunnelRef =
  TunnelRef_Name :: string

record SourceRef =
  SourceRef_ApiVersion :: string
  SourceRef_Kind :: string
  SourceRef_Name :: string

record OriginSpec =
  Origin_Protocol :: string
  Origin_Host :: string
  Origin_Port :: int32

record AccessPolicyRef =
  PolicyRef_UUID :: string
  PolicyRef_Name :: string

definition PolicyRef_IsZero :: "AccessPolicyRef \<Rightarrow> bool" where
  "PolicyRef_IsZero r \<longleftrightarrow> PolicyRef_UUID r = [] \<and> PolicyRef_Name r = []"

record AccessApplicationPolicyBinding =
  Binding_PolicyRef :: AccessPolicyRef

record AccessApplicationTarget =
  Target_Name :: string
  Target_Domains :: "string list"
  Target_Policies :: "AccessApplicationPolicyBinding list"

record AccessSpec =
  Access_Enabled :: bool
  Access_PolicyRef :: "AccessPolicyRef option"
  Access_Applications :: "AccessApplicationTarget list"

definition PromotionAutomatic :: string where
  "PromotionAutomatic = ''Automatic''"

definition PromotionManual :: string where
  "PromotionManual = ''Manual''"

record FailoverSpec =
  Failover_Group :: string
  Failover_LeaseSeconds :: int32
  Failover_PromotionPolicy :: string

record CloudflareExposureSpec =
  ESpec_DisplayName :: string
  ESpec_Hostname :: string
  ESpec_TunnelRef :: TunnelRef
  ESpec_SourceRef :: "SourceRef option"
  ESpec_Origin :: "OriginSpec option"
  ESpec_Access :: AccessSpec
  ESpec_Failover :: "FailoverSpec option"

record ExposureAccessApplicationStatus =
  AppStatus_Name :: string
  AppStatus_AppID :: string
  AppStatus_CanonicalDomainHash :: string
  AppStatus_PolicyHash :: string

record ExposureCloudflareStatus =
  CFStatus_AccessApplications :: "ExposureAccessApplicationStatus list"
  CFStatus_PublicHostnameRouteHash :: string
  CFStatus_DnsRecordId :: string

record ExposureFailoverStatus =
  FStatus_Role :: string
  FStatus_SiteID :: string
  FStatus_LeaseOwner :: string
  FStatus_LeaseExpiresAt :: "time option"
  FStatus_LeaseRenewedAt :: "time option"
  FStatus_LastRoleTransitionAt :: "time option"
  FStatus_ObservedPrimaryTunnelID :: string
  FStatus_LastForcePromoteToken :: string

record CloudflareExposureStatus =
  EStatus_Cloudflare :: ExposureCloudflareStatus
  EStatus_Failover :: ExposureFailoverStatus
  EStatus_Conditions :: "Condition list"

record CloudflareExposure =
  E_Meta :: ObjectMeta
  E_Spec :: CloudflareExposureSpec
  E_Status :: CloudflareExposureStatus

abbreviation E_Namespace :: "CloudflareExposure \<Rightarrow> string" where
  "E_Namespace e \<equiv> Meta_Namespace (E_Meta e)"

abbreviation E_Name :: "CloudflareExposure \<Rightarrow> string" where
  "E_Name e \<equiv> Meta_Name (E_Meta e)"

abbreviation E_UID :: "CloudflareExposure \<Rightarrow> string" where
  "E_UID e \<equiv> Meta_UID (E_Meta e)"

abbreviation E_Hostname :: "CloudflareExposure \<Rightarrow> string" where
  "E_Hostname e \<equiv> ESpec_Hostname (E_Spec e)"

section \<open>CloudflareTunnel\<close>

record CredentialsSecretKeys =
  Keys_AccountId :: string
  Keys_ApiToken :: string

record CredentialsSecretRef =
  SecretRef_Name :: string
  SecretRef_Keys :: CredentialsSecretKeys

record DnsSpec =
  Dns_Manage :: bool

type_synonym core_text = string

record CloudflaredSpec =
  Cloudflared_Namespace :: string
  Cloudflared_Image :: string
  Cloudflared_HostNetwork :: bool
  Cloudflared_Resources :: core_text
  Cloudflared_NodeSelector :: "(string \<times> string) list"
  Cloudflared_Tolerations :: "core_text list"
  Cloudflared_Affinity :: "core_text option"

record CloudflareTunnelSpec =
  TSpec_CredentialsSecretRef :: CredentialsSecretRef
  TSpec_TunnelName :: string
  TSpec_Dns :: DnsSpec
  TSpec_Cloudflared :: CloudflaredSpec

record TokenSecretRef =
  TokenSecretRef_Name :: string

record RouteStatus =
  RouteStatus_ExposureUid :: string
  RouteStatus_Namespace :: string
  RouteStatus_Name :: string
  RouteStatus_Hostname :: string
  RouteStatus_Hash :: string
  RouteStatus_LastWrittenAt :: time

record CloudflareTunnelStatus =
  TStatus_TunnelId :: string
  TStatus_TokenSecretRef :: TokenSecretRef
  TStatus_DnsMode :: string
  TStatus_IngressDocHash :: string
  TStatus_Routes :: "RouteStatus list"
  TStatus_Conditions :: "Condition list"

record CloudflareTunnel =
  T_Meta :: ObjectMeta
  T_Spec :: CloudflareTunnelSpec
  T_Status :: CloudflareTunnelStatus

section \<open>CloudflareTunnelRoute\<close>

record TunnelRouteTunnelRef =
  RouteTunnelRef_Name :: string

record CloudflareTunnelRouteSpec =
  RSpec_TunnelRef :: TunnelRouteTunnelRef
  RSpec_Network :: string
  RSpec_VirtualNetworkId :: string
  RSpec_Comment :: string

record CloudflareTunnelRouteStatus =
  RStatus_RouteId :: string
  RStatus_VirtualNetworkId :: string
  RStatus_Conditions :: "Condition list"

record CloudflareTunnelRoute =
  R_Meta :: ObjectMeta
  R_Spec :: CloudflareTunnelRouteSpec
  R_Status :: CloudflareTunnelRouteStatus

section \<open>CloudflareAccessPolicy\<close>

record AccessPolicyCredentialsSecretRef =
  PSecretRef_Name :: string
  PSecretRef_Namespace :: string
  PSecretRef_Keys :: CredentialsSecretKeys

record AccessRule =
  Rule_Email :: string
  Rule_EmailDomain :: string
  Rule_IP :: string
  Rule_Everyone :: bool
  Rule_ServiceToken :: string
  Rule_GeoCountryCode :: string

text \<open>The zero value of the struct.\<close>

definition zero_rule :: AccessRule where
  "zero_rule = \<lparr>Rule_Email = [], Rule_EmailDomain = [], Rule_IP = [], Rule_Everyone = False, Rule_ServiceToken = [],
     Rule_GeoCountryCode = []\<rparr>"

record AccessRules =
  Rules_Include :: "AccessRule list"
  Rules_Exclude :: "AccessRule list"
  Rules_Require :: "AccessRule list"

record PurposeJustification =
  Purpose_Required :: bool
  Purpose_Prompt :: string

record CloudflareAccessPolicySpec =
  PSpec_CredentialsSecretRef :: AccessPolicyCredentialsSecretRef
  PSpec_PolicyName :: string
  PSpec_Decision :: string
  PSpec_Rules :: AccessRules
  PSpec_SessionDuration :: string
  PSpec_PurposeJustification :: PurposeJustification

record ReferencedExposure =
  Ref_Namespace :: string
  Ref_Name :: string
  Ref_Uid :: string

record CloudflareAccessPolicyStatus =
  PStatus_PolicyId :: string
  PStatus_ObservedRulesHash :: string
  PStatus_ReferencedBy :: "ReferencedExposure list"
  PStatus_ReferencedByCount :: int32
  PStatus_Conditions :: "Condition list"

record CloudflareAccessPolicy =
  P_Meta :: ObjectMeta
  P_Spec :: CloudflareAccessPolicySpec
  P_Status :: CloudflareAccessPolicyStatus

end
