(* ===== verification/Workload.thy ===== *)
theory Workload
  imports Go_Hash Naming Api_Types
begin

text \<open>
  \<open>internal/workload\<close>: the cloudflared DaemonSet and the token Secret of a tunnel. The corev1 and
  appsv1 objects are records of the fields the package sets; what it never touches in a DaemonSet
  spec is the opaque \<open>DSpec_Rest\<close>. A string map is its list of entries sorted by key, so that equal
  maps are equal lists. Quantities, tolerations and affinities are handed on as opaque texts.

  The lemmas: applying the desired state is idempotent and gives the created object, the token
  itself reaches the Secret only, and the pods run hardened whatever the spec says.
\<close>

section \<open>Maps\<close>

fun map_put :: "string \<Rightarrow> string \<Rightarrow> (string \<times> string) list \<Rightarrow> (string \<times> string) list" where
  "map_put k v [] = [(k, v)]"
| "map_put k v ((k', v') # m) =
     (if k = k' then (k, v) # m else if k < k' then (k, v) # (k', v') # m else (k', v') # map_put k v m)"

lemma map_put_put: "map_put k v (map_put k v m) = map_put k v m"
  by (induction k v m rule: map_put.induct) auto

lemma map_of_map_put: "map_of (map_put k v m) = (map_of m)(k \<mapsto> v)"
  by (induction k v m rule: map_put.induct) auto

section \<open>Objects\<close>

record Probe =
  Probe_Path :: string
  Probe_Port :: int32
  Probe_PeriodSeconds :: int32
  Probe_TimeoutSeconds :: int32
  Probe_FailureThreshold :: int32

record SecurityContext =
  Sec_AllowPrivilegeEscalation :: "bool option"
  Sec_ReadOnlyRootFilesystem :: "bool option"
  Sec_RunAsNonRoot :: "bool option"
  Sec_RunAsUser :: "int option"
  Sec_RunAsGroup :: "int option"
  Sec_DropCapabilities :: "string list"

record EnvVar =
  Env_Name :: string
  Env_SecretName :: string
  Env_SecretKey :: string

record ContainerPort =
  Port_Name :: string
  Port_ContainerPort :: int32

record Container =
  C_Name :: string
  C_Image :: string
  C_Args :: "string list"
  C_Env :: "EnvVar list"
  C_Ports :: "ContainerPort list"
  C_LivenessProbe :: "Probe option"
  C_ReadinessProbe :: "Probe option"
  C_Resources :: core_text
  C_SecurityContext :: "SecurityContext option"

record PodSpec =
  Pod_HostNetwork :: bool
  Pod_DNSPolicy :: string
  Pod_NodeSelector :: "(string \<times> string) list"
  Pod_Tolerations :: "core_text list"
  Pod_Affinity :: "core_text option"
  Pod_AutomountServiceAccountToken :: "bool option"
  Pod_SeccompProfile :: "string option"
  Pod_Containers :: "Container list"

record PodTemplateSpec =
  Template_Labels :: "(string \<times> string) list"
  Template_Annotations :: "(string \<times> string) list"
  Template_Spec :: PodSpec

record DaemonSetSpec =
  DSpec_Selector :: "(string \<times> string) list option"
  DSpec_UpdateStrategyType :: string
  DSpec_MaxUnavailable :: "int32 option"
  DSpec_Template :: PodTemplateSpec
  DSpec_Rest :: core_text

record DaemonSet =
  DS_Namespace :: string
  DS_Name :: string
  DS_Labels :: "(string \<times> string) list"
  DS_OwnerReferences :: "OwnerReference list"
  DS_DeletionTimestamp :: "time option"
  DS_Spec :: DaemonSetSpec
  DS_NumberReady :: int32

record Secret =
  Secret_Namespace :: string
  Secret_Name :: string
  Secret_Labels :: "(string \<times> string) list"
  Secret_OwnerReferences :: "OwnerReference list"
  Secret_Type :: string
  Secret_Data :: "(string \<times> string) list"
  Secret_StringData :: "(string \<times> string) list"

section \<open>Desired state\<close>

definition DefaultCloudflaredImage :: string where
  "DefaultCloudflaredImage = ''cloudflare/cloudflared:2026.10.0''"

definition TokenChecksumAnnotation :: string where
  "TokenChecksumAnnotation = ''cfzt.reid.ee/token-checksum''"

definition TokenChecksum :: "string \<Rightarrow> string" where
  "TokenChecksum token = hex_string (Sum256 token)"

definition Labels :: "string \<Rightarrow> (string \<times> string) list" where
  "Labels tunnelName = [(''app.kubernetes.io/component'', ''connector''), (''app.kubernetes.io/managed-by'', ''cfzt-operator''),
     (''app.kubernetes.io/name'', ''cloudflared''), (''cfzt.reid.ee/tunnel'', tunnelName)]"

definition dnsPolicy :: "bool \<Rightarrow> string" where
  "dnsPolicy hostNetwork = (if hostNetwork then ''ClusterFirstWithHostNet'' else ''ClusterFirst'')"

definition httpProbe :: "string \<Rightarrow> int32 \<Rightarrow> Probe" where
  "httpProbe path periodSeconds = \<lparr>Probe_Path = path, Probe_Port = 2000, Probe_PeriodSeconds = periodSeconds,
     Probe_TimeoutSeconds = 1, Probe_FailureThreshold = 3\<rparr>"

text \<open>The container and the pod template that \<open>ApplyDaemonSet\<close> writes.\<close>

definition cloudflared_container :: "CloudflareTunnel \<Rightarrow> Container" where
  "cloudflared_container tunnel =
     (let spec = TSpec_Cloudflared (T_Spec tunnel);
          image = (if Cloudflared_Image spec = [] then DefaultCloudflaredImage else Cloudflared_Image spec)
      in \<lparr>C_Name = ''cloudflared'', C_Image = image,
          C_Args = [''tunnel'', ''--no-autoupdate'', ''--metrics'', ''0.0.0.0:2000'', ''run''],
          C_Env = [\<lparr>Env_Name = ''TUNNEL_TOKEN'', Env_SecretName = TokenSecretName (Meta_Name (T_Meta tunnel)), Env_SecretKey = TokenSecretKey\<rparr>],
          C_Ports = [\<lparr>Port_Name = ''metrics'', Port_ContainerPort = 2000\<rparr>],
          C_LivenessProbe = Some (httpProbe ''/ready'' 10), C_ReadinessProbe = Some (httpProbe ''/ready'' 5),
          C_Resources = Cloudflared_Resources spec,
          C_SecurityContext = Some \<lparr>Sec_AllowPrivilegeEscalation = Some False, Sec_ReadOnlyRootFilesystem = Some True,
            Sec_RunAsNonRoot = Some True, Sec_RunAsUser = Some 65532, Sec_RunAsGroup = Some 65532, Sec_DropCapabilities = [''ALL'']\<rparr>\<rparr>)"

definition pod_template :: "CloudflareTunnel \<Rightarrow> string \<Rightarrow> PodTemplateSpec" where
  "pod_template tunnel token =
     (let spec = TSpec_Cloudflared (T_Spec tunnel)
      in \<lparr>Template_Labels = Labels (Meta_Name (T_Meta tunnel)),
          Template_Annotations = [(TokenChecksumAnnotation, TokenChecksum token)],
          Template_Spec = \<lparr>Pod_HostNetwork = Cloudflared_HostNetwork spec, Pod_DNSPolicy = dnsPolicy (Cloudflared_HostNetwork spec),
            Pod_NodeSelector = Cloudflared_NodeSelector spec, Pod_Tolerations = Cloudflared_Tolerations spec,
            Pod_Affinity = Cloudflared_Affinity spec, Pod_AutomountServiceAccountToken = Some False,
            Pod_SeccompProfile = Some ''RuntimeDefault'', Pod_Containers = [cloudflared_container tunnel]\<rparr>\<rparr>)"

definition ApplyDaemonSet :: "DaemonSet \<Rightarrow> CloudflareTunnel \<Rightarrow> string \<Rightarrow> DaemonSet" where
  "ApplyDaemonSet ds tunnel token =
     (let labels = Labels (Meta_Name (T_Meta tunnel))
      in ds\<lparr>DS_Labels := labels,
            DS_Spec := (DS_Spec ds)\<lparr>DSpec_Selector := Some labels, DSpec_UpdateStrategyType := ''RollingUpdate'',
              DSpec_MaxUnavailable := Some 1, DSpec_Template := pod_template tunnel token\<rparr>\<rparr>)"

text \<open>The zero values of a new object.\<close>

definition zero_PodTemplateSpec :: PodTemplateSpec where
  "zero_PodTemplateSpec = \<lparr>Template_Labels = [], Template_Annotations = [],
     Template_Spec = \<lparr>Pod_HostNetwork = False, Pod_DNSPolicy = [], Pod_NodeSelector = [], Pod_Tolerations = [], Pod_Affinity = None,
       Pod_AutomountServiceAccountToken = None, Pod_SeccompProfile = None, Pod_Containers = []\<rparr>\<rparr>"

definition new_DaemonSet :: "string \<Rightarrow> string \<Rightarrow> (string \<times> string) list \<Rightarrow> DaemonSet" where
  "new_DaemonSet namespace name labels = \<lparr>DS_Namespace = namespace, DS_Name = name, DS_Labels = labels, DS_OwnerReferences = [],
     DS_DeletionTimestamp = None,
     DS_Spec = \<lparr>DSpec_Selector = None, DSpec_UpdateStrategyType = [], DSpec_MaxUnavailable = None,
       DSpec_Template = zero_PodTemplateSpec, DSpec_Rest = []\<rparr>,
     DS_NumberReady = 0\<rparr>"

definition DaemonSet_for :: "CloudflareTunnel \<Rightarrow> string \<Rightarrow> DaemonSet" where
  "DaemonSet_for tunnel token =
     ApplyDaemonSet (new_DaemonSet (Cloudflared_Namespace (TSpec_Cloudflared (T_Spec tunnel)))
       (DaemonSetName (Meta_Name (T_Meta tunnel))) (Labels (Meta_Name (T_Meta tunnel)))) tunnel token"

definition SecretTypeOpaque :: string where
  "SecretTypeOpaque = ''Opaque''"

definition TokenSecret :: "CloudflareTunnel \<Rightarrow> string \<Rightarrow> Secret" where
  "TokenSecret tunnel token = \<lparr>Secret_Namespace = Cloudflared_Namespace (TSpec_Cloudflared (T_Spec tunnel)),
     Secret_Name = TokenSecretName (Meta_Name (T_Meta tunnel)), Secret_Labels = Labels (Meta_Name (T_Meta tunnel)),
     Secret_OwnerReferences = [], Secret_Type = SecretTypeOpaque, Secret_Data = [(TokenSecretKey, token)], Secret_StringData = []\<rparr>"

definition ApplyTokenSecret :: "Secret \<Rightarrow> CloudflareTunnel \<Rightarrow> string \<Rightarrow> Secret" where
  "ApplyTokenSecret dst tunnel token = dst\<lparr>Secret_Labels := Labels (Meta_Name (T_Meta tunnel)), Secret_Type := SecretTypeOpaque,
     Secret_Data := map_put TokenSecretKey token (Secret_Data dst), Secret_StringData := []\<rparr>"

section \<open>Properties\<close>

lemma ApplyDaemonSet_twice: "ApplyDaemonSet (ApplyDaemonSet ds tunnel t1) tunnel t2 = ApplyDaemonSet ds tunnel t2"
  by (simp add: ApplyDaemonSet_def Let_def)

lemma ApplyTokenSecret_twice: "ApplyTokenSecret (ApplyTokenSecret s tunnel t) tunnel t = ApplyTokenSecret s tunnel t"
  by (simp add: ApplyTokenSecret_def map_put_put)

lemma ApplyDaemonSet_keeps [simp]:
  "DS_Namespace (ApplyDaemonSet ds tunnel t) = DS_Namespace ds" "DS_Name (ApplyDaemonSet ds tunnel t) = DS_Name ds"
  "DS_OwnerReferences (ApplyDaemonSet ds tunnel t) = DS_OwnerReferences ds"
  "DS_DeletionTimestamp (ApplyDaemonSet ds tunnel t) = DS_DeletionTimestamp ds"
  "DS_NumberReady (ApplyDaemonSet ds tunnel t) = DS_NumberReady ds"
  by (simp_all add: ApplyDaemonSet_def Let_def)

text \<open>
  C37: The workload objects of a tunnel. Applying the desired state to any live DaemonSet or Secret is
  idempotent (so an upsert of an up-to-date object finds nothing to write), and applying it to the
  freshly created object changes nothing. Two tokens give the same DaemonSet iff they have the same
  checksum: the token itself is only in the Secret, under the key the container reads, and a rotated
  token always rolls the pods unless the checksums collide. Every pod runs hardened: no privilege
  escalation, read-only root file system, not as root, all capabilities dropped, no service account
  token, whatever the tunnel's spec says.
\<close>

theorem workload_objects:
  "ApplyDaemonSet (ApplyDaemonSet ds tunnel token) tunnel token = ApplyDaemonSet ds tunnel token \<and>
   ApplyTokenSecret (ApplyTokenSecret sec tunnel token) tunnel token = ApplyTokenSecret sec tunnel token \<and>
   ApplyDaemonSet (DaemonSet_for tunnel token) tunnel token = DaemonSet_for tunnel token \<and>
   ApplyTokenSecret (TokenSecret tunnel token) tunnel token = TokenSecret tunnel token \<and>
   (ApplyDaemonSet ds tunnel token = ApplyDaemonSet ds tunnel token' \<longleftrightarrow> TokenChecksum token = TokenChecksum token') \<and>
   map_of (Secret_Data (ApplyTokenSecret sec tunnel token))
     (Env_SecretKey (hd (C_Env (cloudflared_container tunnel)))) = Some token \<and>
   list_all (\<lambda>c. C_SecurityContext c = Some \<lparr>Sec_AllowPrivilegeEscalation = Some False, Sec_ReadOnlyRootFilesystem = Some True,
       Sec_RunAsNonRoot = Some True, Sec_RunAsUser = Some 65532, Sec_RunAsGroup = Some 65532, Sec_DropCapabilities = [''ALL'']\<rparr>)
     (Pod_Containers (Template_Spec (DSpec_Template (DS_Spec (ApplyDaemonSet ds tunnel token))))) \<and>
   Pod_AutomountServiceAccountToken (Template_Spec (DSpec_Template (DS_Spec (ApplyDaemonSet ds tunnel token)))) = Some False"
proof (intro conjI, goal_cases)
  case 1
  show ?case by (rule ApplyDaemonSet_twice)
next
  case 2
  show ?case by (rule ApplyTokenSecret_twice)
next
  case 3
  show ?case by (simp add: DaemonSet_for_def ApplyDaemonSet_twice)
next
  case 4
  show ?case by (simp add: ApplyTokenSecret_def TokenSecret_def)
next
  case 5
  have "DSpec_Template (DS_Spec (ApplyDaemonSet ds tunnel t)) = pod_template tunnel t" for t
    by (simp add: ApplyDaemonSet_def Let_def)
  then show ?case by (metis ApplyDaemonSet_def pod_template_def PodTemplateSpec.select_convs(2) list.inject prod.inject)
next
  case 6
  show ?case by (simp add: ApplyTokenSecret_def map_of_map_put cloudflared_container_def Let_def)
qed (simp_all add: ApplyDaemonSet_def pod_template_def cloudflared_container_def Let_def)

end
