(* ===== verification/Ownership.thy ===== *)
theory Ownership
  imports Naming "HOL-Library.AList"
begin

text \<open>
  \<open>internal/ownership\<close>: the identity a Cloudflare resource carries, rendered into a comment
  (\<open>comment.go\<close>) or into chunked Access tags (\<open>accesstag.go\<close>), and read back by the mutation
  guard (\<open>owner.go\<close>). The lemmas show that what an owner renders is recognised by that owner
  and by no other, in any order of the tags and beside unrelated tags.
\<close>

section \<open>Comments\<close>

definition tagManagedBy :: string where
  "tagManagedBy = ''managed-by=cfzt-operator''"

definition tagManagedByCompact :: string where
  "tagManagedByCompact = ''managed-by=cfzt''"

definition tagSourceUID :: string where
  "tagSourceUID = ''source-uid=''"

definition renderComment :: "string \<Rightarrow> string" where
  "renderComment uid = tagManagedBy @ '' '' @ tagSourceUID @ uid"

definition renderCompactComment :: "string \<Rightarrow> string" where
  "renderCompactComment uid = tagManagedByCompact @ '' '' @ tagSourceUID @ uid"

text \<open>One round of the loop over the fields: the flag and the last \<open>source-uid\<close> value.\<close>

definition comment_field :: "string \<Rightarrow> bool \<times> string \<Rightarrow> bool \<times> string" where
  "comment_field f st =
     (case st of (hasManagedBy, uid) \<Rightarrow>
        if f = tagManagedBy \<or> f = tagManagedByCompact then (True, uid)
        else (case CutPrefix f tagSourceUID of Some v \<Rightarrow> (hasManagedBy, v) | None \<Rightarrow> (hasManagedBy, uid)))"

definition parseComment :: "string \<Rightarrow> string option" where
  "parseComment s =
     (let (prefix, _, _) = str_cut '' | '' s;
          (hasManagedBy, uid) = fold comment_field (Fields prefix) (False, [])
      in if \<not> hasManagedBy \<or> uid = [] then None else Some uid)"

section \<open>Access tags\<close>

definition accessSourceUIDChunkPrefix :: string where
  "accessSourceUIDChunkPrefix = ''source-uid-''"

definition accessTagMaxLength :: int where
  "accessTagMaxLength = 35"

text \<open>The loop of \<open>sourceUIDTags\<close>; \<open>None\<close> is its panic.\<close>

function source_uid_loop :: "nat \<Rightarrow> string \<Rightarrow> string list option" where
  "source_uid_loop idx value =
     (if value = [] then Some []
      else let prefix = accessSourceUIDChunkPrefix @ itoa (int idx) @ ''='';
               chunkSize = accessTagMaxLength - int (length prefix)
           in if chunkSize \<le> 0 then None
              else let n = min (nat chunkSize) (length value)
                   in map_option (\<lambda>tags. (prefix @ take n value) # tags)
                        (source_uid_loop (Suc idx) (drop n value)))"
  by pat_completeness auto
termination
  by (relation "measure (\<lambda>(idx, value). length value)") auto

declare source_uid_loop.simps [simp del]

definition sourceUIDTags :: "string \<Rightarrow> string list option" where
  "sourceUIDTags uid = source_uid_loop 0 uid"

definition renderAccessTags :: "string \<Rightarrow> string list option" where
  "renderAccessTags uid = map_option (\<lambda>tags. tagManagedBy # tags) (sourceUIDTags uid)"

text \<open>The chunk a tag carries: index and value, \<open>None\<close> where the loop continues.\<close>

definition parse_chunk :: "string \<Rightarrow> (int \<times> string) option" where
  "parse_chunk tag =
     (case CutPrefix tag accessSourceUIDChunkPrefix of
        None \<Rightarrow> None
      | Some rest \<Rightarrow>
          (let (idxText, value, ok) = str_cut ''='' rest
           in if \<not> ok \<or> value = [] then None
              else (case parse_int idxText of
                  None \<Rightarrow> None
                | Some idx \<Rightarrow> if idx < 0 then None else Some (idx, value))))"

definition tag_step :: "string \<Rightarrow> bool \<times> (int \<times> string) list \<Rightarrow> bool \<times> (int \<times> string) list" where
  "tag_step tag st =
     (case st of (hasManagedBy, chunks) \<Rightarrow>
        if tag = tagManagedBy then (True, chunks)
        else (case parse_chunk tag of
            None \<Rightarrow> (hasManagedBy, chunks)
          | Some (idx, value) \<Rightarrow> (hasManagedBy, AList.update idx value chunks)))"

text \<open>The final loop: the chunks \<open>0 .. n - 1\<close>, none missing.\<close>

fun join_chunks :: "(int \<rightharpoonup> string) \<Rightarrow> int \<Rightarrow> nat \<Rightarrow> string option" where
  "join_chunks m i 0 = Some []"
| "join_chunks m i (Suc n) =
     (case m i of None \<Rightarrow> None | Some chunk \<Rightarrow> map_option ((@) chunk) (join_chunks m (i + 1) n))"

definition parseAccessTags :: "string list \<Rightarrow> string option" where
  "parseAccessTags tags =
     (let (hasManagedBy, chunks) = fold tag_step tags (False, [])
      in if \<not> hasManagedBy \<or> chunks = [] then None else join_chunks (map_of chunks) 0 (length chunks))"

section \<open>Owner\<close>

record Owner =
  uid :: string

definition From :: "string \<Rightarrow> Owner" where
  "From u = \<lparr>uid = u\<rparr>"

definition FromFailoverGroup :: "string \<Rightarrow> Owner" where
  "FromFailoverGroup groupID = \<lparr>uid = groupID\<rparr>"

definition Owner_Comment :: "Owner \<Rightarrow> string" where
  "Owner_Comment o1 = renderComment (uid o1)"

definition Owner_CompactComment :: "Owner \<Rightarrow> string" where
  "Owner_CompactComment o1 = renderCompactComment (uid o1)"

definition Owner_Tags :: "Owner \<Rightarrow> string list option" where
  "Owner_Tags o1 = renderAccessTags (uid o1)"

definition MatchesComment :: "Owner \<Rightarrow> string \<Rightarrow> bool" where
  "MatchesComment o1 s \<longleftrightarrow> (case parseComment s of None \<Rightarrow> False | Some u \<Rightarrow> u = uid o1)"

definition MatchesTags :: "Owner \<Rightarrow> string list \<Rightarrow> bool" where
  "MatchesTags o1 tags \<longleftrightarrow> (case parseAccessTags tags of None \<Rightarrow> False | Some u \<Rightarrow> u = uid o1)"

section \<open>Comments round-trip\<close>

lemma str_cut_bar_word: "CHR '' '' \<notin> set w \<Longrightarrow>
    str_cut '' | '' (w @ s) = (case str_cut '' | '' s of (b, a, f) \<Rightarrow> (w @ b, a, f))"
  by (induction w) (auto simp: HasPrefix_def split: prod.splits)

lemma str_cut_bar_blank: "c \<noteq> CHR ''|'' \<Longrightarrow>
    str_cut '' | '' (CHR '' '' # c # s) = (case str_cut '' | '' (c # s) of (b, a, f) \<Rightarrow> (CHR '' '' # b, a, f))"
  by (simp add: HasPrefix_def)

lemma is_word_no_blank: "is_word w \<Longrightarrow> CHR '' '' \<notin> set w"
  by (auto simp: is_word_def list_all_iff word_char_def)

lemma is_word_append: "is_word v \<Longrightarrow> is_word w \<Longrightarrow> is_word (v @ w)"
  by (simp add: is_word_def)

lemma is_word_tags [simp]: "is_word tagManagedBy" "is_word tagManagedByCompact" "is_word tagSourceUID"
  by (simp_all add: is_word_def tagManagedBy_def tagManagedByCompact_def tagSourceUID_def word_char_def)

text \<open>The part of a rendered comment before the user's text is the two fields.\<close>

lemma cut_two_words:
  assumes "is_word a" and "is_word b" and "hd b \<noteq> CHR ''|''"
    and "rest = [] \<or> (\<exists>t. rest = '' | '' @ t)"
  shows "fst (str_cut '' | '' (a @ '' '' @ b @ rest)) = a @ '' '' @ b"
proof -
  obtain c b' where b: "b = c # b'" using assms(2) by (cases b) (auto simp: is_word_def)
  have rest: "fst (str_cut '' | '' rest) = []"
    using assms(4) by (auto simp: HasPrefix_def)
  have "str_cut '' | '' (a @ '' '' @ b @ rest)
      = (case str_cut '' | '' (CHR '' '' # c # b' @ rest) of (x, y, f) \<Rightarrow> (a @ x, y, f))"
    using str_cut_bar_word [OF is_word_no_blank [OF assms(1)]] b by simp
  also have "str_cut '' | '' (CHR '' '' # c # b' @ rest)
      = (case str_cut '' | '' (b @ rest) of (x, y, f) \<Rightarrow> (CHR '' '' # x, y, f))"
    using str_cut_bar_blank [of c] assms(3) b by simp
  also have "str_cut '' | '' (b @ rest) = (case str_cut '' | '' rest of (x, y, f) \<Rightarrow> (b @ x, y, f))"
    by (rule str_cut_bar_word [OF is_word_no_blank [OF assms(2)]])
  finally show ?thesis using rest by (simp split: prod.splits)
qed

lemma fields_two_words: "is_word a \<Longrightarrow> is_word b \<Longrightarrow> Fields (a @ '' '' @ b) = [a, b]"
  using fields_word [of "[a, b]"] by simp

lemma comment_field_managed [simp]:
  "comment_field tagManagedBy (b, u) = (True, u)" "comment_field tagManagedByCompact (b, u) = (True, u)"
  by (simp_all add: comment_field_def)

lemma comment_field_uid [simp]: "comment_field (tagSourceUID @ v) (b, u) = (b, v)"
proof -
  have "tagSourceUID @ v \<noteq> tagManagedBy" "tagSourceUID @ v \<noteq> tagManagedByCompact"
    by (simp_all add: tagSourceUID_def tagManagedBy_def tagManagedByCompact_def)
  then show ?thesis by (simp add: comment_field_def)
qed

lemma parseComment_two_words:
  assumes "m = tagManagedBy \<or> m = tagManagedByCompact" and "is_word u"
    and "rest = [] \<or> (\<exists>t. rest = '' | '' @ t)"
  shows "parseComment (m @ '' '' @ tagSourceUID @ u @ rest) = Some u"
proof -
  have m: "is_word m" using assms(1) by auto
  have b: "is_word (tagSourceUID @ u)" using assms(2) by (simp add: is_word_append)
  have "hd (tagSourceUID @ u) \<noteq> CHR ''|''" by (simp add: tagSourceUID_def)
  from cut_two_words [OF m b this assms(3)]
  have "fst (str_cut '' | '' (m @ '' '' @ tagSourceUID @ u @ rest)) = m @ '' '' @ tagSourceUID @ u"
    by simp
  moreover have "u \<noteq> []" using assms(2) by (simp add: is_word_def)
  ultimately show ?thesis
    using fields_two_words [OF m b] assms(1)
    by (auto simp: parseComment_def split: prod.splits)
qed

lemma MatchesComment_unique:
  "parseComment s = Some (uid o1) \<Longrightarrow> MatchesComment o2 s \<longleftrightarrow> o2 = o1"
  by (auto simp: MatchesComment_def)

section \<open>Tags round-trip\<close>

text \<open>What the chunking loop produces: a list of chunks that joins to the value.\<close>

definition chunk_tag :: "nat \<Rightarrow> string \<Rightarrow> string" where
  "chunk_tag idx chunk = accessSourceUIDChunkPrefix @ itoa (int idx) @ ''='' @ chunk"

fun chunk_tags :: "nat \<Rightarrow> string list \<Rightarrow> string list" where
  "chunk_tags idx [] = []"
| "chunk_tags idx (c # cs) = chunk_tag idx c # chunk_tags (Suc idx) cs"

lemma prefix_length: "idx < 10 ^ 22 \<Longrightarrow>
    length (accessSourceUIDChunkPrefix @ itoa (int idx) @ ''='') \<le> 34"
  using length_digits [of 22 idx] by (simp add: accessSourceUIDChunkPrefix_def itoa_def)

lemma source_uid_loop_step:
  assumes "v \<noteq> []" and "p = accessSourceUIDChunkPrefix @ itoa (int idx) @ ''=''" and "length p \<le> 34"
    and "n = min (nat (accessTagMaxLength - int (length p))) (length v)"
  shows "source_uid_loop idx v
      = map_option (\<lambda>tags. (p @ take n v) # tags) (source_uid_loop (Suc idx) (drop n v))"
  using assms by (subst source_uid_loop.simps) (simp add: accessTagMaxLength_def Let_def)

lemma source_uid_loop_chunks:
  assumes "idx + length w < 10 ^ 22"
  shows "\<exists>cs. source_uid_loop idx w = Some (chunk_tags idx cs) \<and> concat cs = w \<and> [] \<notin> set cs
      \<and> length cs \<le> length w \<and> (\<forall>tag \<in> set (chunk_tags idx cs). int (length tag) \<le> accessTagMaxLength)"
  using assms
proof (induction idx w rule: source_uid_loop.induct)
  case (1 idx v)
  show ?case
  proof (cases "v = []")
    case True
    then show ?thesis by (subst source_uid_loop.simps) (auto intro: exI [of _ "[]"])
  next
    case False
    define p where "p = accessSourceUIDChunkPrefix @ itoa (int idx) @ ''=''"
    define n where "n = min (nat (accessTagMaxLength - int (length p))) (length v)"
    have p: "length p \<le> 34" using prefix_length [of idx] "1.prems" by (simp add: p_def)
    with False have n: "0 < n" "n \<le> length v" "length p + n \<le> 35"
      by (auto simp: n_def accessTagMaxLength_def)
    with "1.prems" have "Suc idx + length (drop n v) < 10 ^ 22" by simp
    with "1.IH" [OF False p_def refl _ n_def] p
    obtain cs where cs: "source_uid_loop (Suc idx) (drop n v) = Some (chunk_tags (Suc idx) cs)"
        "concat cs = drop n v" "[] \<notin> set cs" "length cs \<le> length (drop n v)"
        "\<forall>tag \<in> set (chunk_tags (Suc idx) cs). int (length tag) \<le> accessTagMaxLength"
      by (auto simp: accessTagMaxLength_def)
    have "source_uid_loop idx v = Some (chunk_tags idx (take n v # cs))"
      using source_uid_loop_step [OF False p_def p n_def] cs(1) by (simp add: chunk_tag_def p_def)
    moreover have "concat (take n v # cs) = v" using cs(2) by simp
    moreover have "length (chunk_tag idx (take n v)) \<le> 35"
      using n by (simp add: chunk_tag_def p_def)
    ultimately show ?thesis using False n cs
      by (intro exI [of _ "take n v # cs"]) (auto simp: accessTagMaxLength_def)
  qed
qed

lemma parse_chunk_tag:
  "c \<noteq> [] \<Longrightarrow> idx < 2 ^ 63 \<Longrightarrow> parse_chunk (chunk_tag idx c) = Some (int idx, c)"
proof -
  assume "c \<noteq> []" "idx < 2 ^ 63"
  have "parse_int (itoa (int idx)) = Some (int idx)"
    using \<open>idx < 2 ^ 63\<close> by (intro parse_int_itoa) auto
  moreover have "str_cut ''='' (itoa (int idx) @ ''='' @ c) = (itoa (int idx), c, True)"
    using str_cut_char [of "CHR ''=''" "itoa (int idx)" c] by simp
  ultimately show ?thesis using \<open>c \<noteq> []\<close> by (simp add: parse_chunk_def chunk_tag_def)
qed

lemma parse_chunk_not_prefix: "\<not> HasPrefix t accessSourceUIDChunkPrefix \<Longrightarrow> parse_chunk t = None"
  by (simp add: parse_chunk_def CutPrefix_def)

lemma tagManagedBy_no_chunk [simp]: "parse_chunk tagManagedBy = None"
  by (rule parse_chunk_not_prefix) (simp add: tagManagedBy_def accessSourceUIDChunkPrefix_def HasPrefix_def)

text \<open>
  What the loop over the tags computes: whether the managed-by tag occurs, and the chunks as a map
  with distinct indices.
\<close>

definition tag_chunks :: "string list \<Rightarrow> (int \<times> string) list" where
  "tag_chunks tags = List.map_filter parse_chunk tags"

lemma tag_chunks_Cons: "tag_chunks (t # ts) =
    (case parse_chunk t of None \<Rightarrow> tag_chunks ts | Some kv \<Rightarrow> kv # tag_chunks ts)"
  by (simp add: tag_chunks_def List.map_filter_simps split: option.split)

lemma fold_tag_step:
  "fst (fold tag_step tags (b, al)) = (b \<or> tagManagedBy \<in> set tags) \<and>
   map_of (snd (fold tag_step tags (b, al))) = map_of al ++ map_of (rev (tag_chunks tags)) \<and>
   (distinct (map fst al) \<longrightarrow> distinct (map fst (snd (fold tag_step tags (b, al)))))"
proof (induction tags arbitrary: b al)
  case Nil
  then show ?case by (simp add: tag_chunks_def List.map_filter_simps)
next
  case (Cons t ts)
  show ?case
  proof (cases "t = tagManagedBy")
    case True
    then show ?thesis using Cons [of True al] by (simp add: tag_step_def tag_chunks_Cons)
  next
    case False
    show ?thesis
    proof (cases "parse_chunk t")
      case None
      with False show ?thesis using Cons [of b al] by (auto simp: tag_step_def tag_chunks_Cons)
    next
      case (Some kv)
      obtain k v where "kv = (k, v)" by (cases kv)
      with False Some show ?thesis using Cons [of b "AList.update k v al"]
        by (auto simp: tag_step_def tag_chunks_Cons update_conv' distinct_update fun_eq_iff map_add_def
            split: option.splits)
    qed
  qed
qed

lemma join_chunks_upto:
  assumes "\<And>j. j < length cs \<Longrightarrow> m (i + int j) = Some (cs ! j)"
  shows "join_chunks m i (length cs) = Some (concat cs)"
  using assms
proof (induction cs arbitrary: i)
  case Nil
  then show ?case by simp
next
  case (Cons c cs)
  have "m (i + 1 + int j) = Some (cs ! j)" if "j < length cs" for j
    using Cons.prems [of "Suc j"] that by (simp add: algebra_simps)
  then have "join_chunks m (i + 1) (length cs) = Some (concat cs)" by (rule Cons.IH)
  moreover have "m i = Some c" using Cons.prems [of 0] by simp
  ultimately show ?case by simp
qed

lemma tag_chunks_chunk_tags:
  assumes "[] \<notin> set cs" and "idx + length cs \<le> 2 ^ 63"
  shows "tag_chunks (chunk_tags idx cs) = zip (map int [idx..<idx + length cs]) cs"
  using assms
proof (induction cs arbitrary: idx)
  case Nil
  then show ?case by (simp add: tag_chunks_def List.map_filter_simps)
next
  case (Cons c cs)
  then have "parse_chunk (chunk_tag idx c) = Some (int idx, c)" by (intro parse_chunk_tag) auto
  moreover have "[idx..<idx + length (c # cs)] = idx # [Suc idx..<Suc idx + length cs]"
    by (simp add: upt_rec)
  ultimately show ?case using Cons by (simp add: tag_chunks_Cons)
qed

lemma mset_map_filter: "mset xs = mset ys \<Longrightarrow> mset (List.map_filter f xs) = mset (List.map_filter f ys)"
  by (simp add: List.map_filter_def mset_map mset_filter)

text \<open>Parsing depends on the chunks only through the map they form.\<close>

lemma parseAccessTags_eqI:
  assumes "tagManagedBy \<in> set live" and "mset (tag_chunks live) = mset (zip (map int [0..<length cs]) cs)"
    and "cs \<noteq> []"
  shows "parseAccessTags live = Some (concat cs)"
proof -
  define al where "al = snd (fold tag_step live (False, []))"
  let ?z = "zip (map int [0..<length cs]) cs"
  have dz: "distinct (map fst ?z)" by (simp add: distinct_map)
  have dl: "distinct (map fst (rev (tag_chunks live)))"
    using assms(2) dz by (metis distinct_rev mset_eq_imp_distinct_iff mset_map rev_map)
  have sets: "set (tag_chunks live) = set ?z" using assms(2) by (rule mset_eq_setD)
  have m: "map_of al = map_of ?z"
  proof -
    have "map_of al = map_of (rev (tag_chunks live))"
      using fold_tag_step [of live False "[]"] by (simp add: al_def)
    also have "\<dots> = map_of ?z"
    proof
      fix k
      have "map_of (rev (tag_chunks live)) k = Some v \<longleftrightarrow> map_of ?z k = Some v" for v
        unfolding map_of_eq_Some_iff [OF dl] map_of_eq_Some_iff [OF dz] using sets by simp
      then show "map_of (rev (tag_chunks live)) k = map_of ?z k" by (metis not_None_eq)
    qed
    finally show ?thesis .
  qed
  have "distinct (map fst al)" using fold_tag_step [of live False "[]"] by (simp add: al_def)
  then have len: "length al = length cs"
    using m dz by (metis diff_zero dom_map_of_conv_image_fst length_map length_upt length_zip min.idem
        distinct_card set_map)
  have "m (0 + int j) = Some (cs ! j)" if "j < length cs" "m = map_of al" for j m
  proof -
    have "(int j, cs ! j) \<in> set ?z" using that by (auto simp: in_set_zip intro!: exI [of _ j])
    with that m dz show ?thesis by (simp add: map_of_eq_Some_iff)
  qed
  then have "join_chunks (map_of al) 0 (length al) = Some (concat cs)"
    using join_chunks_upto [of cs "map_of al" 0] len by simp
  moreover have "al \<noteq> []" using len assms(3) by auto
  moreover have "fst (fold tag_step live (False, []))"
    using fold_tag_step [of live False "[]"] assms(1) by simp
  ultimately show ?thesis
    by (simp add: parseAccessTags_def al_def case_prod_beta)
qed

lemma renderAccessTags_chunks:
  assumes "length u < 10 ^ 18"
  obtains cs where "renderAccessTags u = Some (tagManagedBy # chunk_tags 0 cs)" "concat cs = u"
    "[] \<notin> set cs" "length cs \<le> length u"
    "\<forall>tag \<in> set (chunk_tags 0 cs). int (length tag) \<le> accessTagMaxLength"
  using source_uid_loop_chunks [of 0 u] assms
  by (auto simp: renderAccessTags_def sourceUIDTags_def)

lemma parseAccessTags_live:
  assumes "renderAccessTags u = Some tags" and "u \<noteq> []" and "length u < 10 ^ 18"
    and "mset live = mset (tags @ extra)"
    and "\<forall>t \<in> set extra. \<not> HasPrefix t accessSourceUIDChunkPrefix"
  shows "parseAccessTags live = Some u"
proof -
  obtain cs where cs: "tags = tagManagedBy # chunk_tags 0 cs" "concat cs = u" "[] \<notin> set cs"
      "length cs \<le> length u"
    by (rule renderAccessTags_chunks [OF assms(3)]) (use assms(1) in simp)
  have "tag_chunks extra = []"
    using assms(5) by (induction extra) (auto simp: tag_chunks_Cons parse_chunk_not_prefix,
        simp add: tag_chunks_def List.map_filter_simps)
  then have "tag_chunks (tags @ extra) = tag_chunks (chunk_tags 0 cs)"
    by (simp add: cs(1) tag_chunks_def List.map_filter_def)
  also have "\<dots> = zip (map int [0..<length cs]) cs"
    using tag_chunks_chunk_tags [of cs 0] cs assms(3) by simp
  finally have "mset (tag_chunks live) = mset (zip (map int [0..<length cs]) cs)"
    using mset_map_filter [OF assms(4), of parse_chunk] by (simp add: tag_chunks_def)
  moreover have "tagManagedBy \<in> set live"
    using mset_eq_setD [OF assms(4)] cs(1) by simp
  moreover have "cs \<noteq> []" using cs(2) assms(2) by auto
  ultimately show ?thesis using parseAccessTags_eqI [of live cs] cs(2) by simp
qed

section \<open>Who recognises what\<close>

text \<open>
  C32: The comment guard recognises exactly its own comments. What an owner renders as a full or as
  a compact comment, alone or followed by \<open>" | "\<close> and any text a user appended, is recognised by
  that owner and by no other. The hypothesis is that the UID has no white space, as Kubernetes UIDs
  and failover group names do not.
\<close>

theorem MatchesComment_own_only:
  assumes "is_word (uid o1)" and "rest = [] \<or> HasPrefix rest '' | ''"
  shows "(MatchesComment o2 (Owner_Comment o1 @ rest) \<longleftrightarrow> o2 = o1) \<and>
         (MatchesComment o2 (Owner_CompactComment o1 @ rest) \<longleftrightarrow> o2 = o1)"
proof -
  have "rest = [] \<or> (\<exists>t. rest = '' | '' @ t)" using assms(2) by (simp add: HasPrefix_iff)
  from parseComment_two_words [OF _ assms(1) this]
  have "parseComment (Owner_Comment o1 @ rest) = Some (uid o1)"
    and "parseComment (Owner_CompactComment o1 @ rest) = Some (uid o1)"
    by (simp_all add: Owner_Comment_def renderComment_def Owner_CompactComment_def renderCompactComment_def)
  then show ?thesis by (simp add: MatchesComment_unique)
qed

theorem MatchesComment_own_only_witness:
  "is_word (uid (From ''11d1-aa'')) \<and> HasPrefix '' | note'' '' | '' \<and>
   MatchesComment (From ''11d1-aa'') (Owner_Comment (From ''11d1-aa'') @ '' | note'') \<and>
   \<not> MatchesComment (From ''11d1-ab'') (Owner_CompactComment (From ''11d1-aa'') @ '' | note'')"
proof -
  have w: "is_word (uid (From ''11d1-aa''))" by (simp add: From_def is_word_def word_char_def)
  have p: "HasPrefix '' | note'' '' | ''" by (simp add: HasPrefix_def)
  show ?thesis
    using MatchesComment_own_only [OF w disjI2 [OF p], of "From ''11d1-aa''"]
      MatchesComment_own_only [OF w disjI2 [OF p], of "From ''11d1-ab''"] w p
    by (simp add: From_def)
qed

text \<open>
  C33: The Access-tag guard recognises exactly its own tags. If the live tags of an Access
  application are the tags an owner rendered, in any order and beside any tags without the chunk
  prefix, then that owner recognises them and no other owner does. The UID is non-empty and shorter
  than \<open>10^18\<close> bytes.
\<close>

theorem MatchesTags_own_only:
  assumes "uid o1 \<noteq> []" and "length (uid o1) < 10 ^ 18" and "Owner_Tags o1 = Some tags"
    and "mset live = mset (tags @ extra)"
    and "\<forall>t \<in> set extra. \<not> HasPrefix t accessSourceUIDChunkPrefix"
  shows "MatchesTags o2 live \<longleftrightarrow> o2 = o1"
  using parseAccessTags_live [OF _ assms(1,2,4,5)] assms(3)
  by (auto simp: Owner_Tags_def MatchesTags_def)

lemma Owner_Tags_example:
  "Owner_Tags (From ''0b1c6a2e-5d1f-4a53-9c0e-7f6d7c1f2a34'')
     = Some [tagManagedBy, ''source-uid-0=0b1c6a2e-5d1f-4a53-9c0'', ''source-uid-1=e-7f6d7c1f2a34'']"
  by code_simp

theorem MatchesTags_own_only_witness:
  "\<not> MatchesTags (From ''x'') [''source-uid-1=e-7f6d7c1f2a34'', ''team=web'', tagManagedBy,
      ''source-uid-0=0b1c6a2e-5d1f-4a53-9c0'']"
proof -
  have "mset [''source-uid-1=e-7f6d7c1f2a34'', ''team=web'', tagManagedBy,
      ''source-uid-0=0b1c6a2e-5d1f-4a53-9c0'']
    = mset ([tagManagedBy, ''source-uid-0=0b1c6a2e-5d1f-4a53-9c0'', ''source-uid-1=e-7f6d7c1f2a34'']
        @ [''team=web''])"
    by (simp add: add_mset_commute)
  from MatchesTags_own_only [OF _ _ Owner_Tags_example this, of "From ''x''"] show ?thesis
    by (simp add: From_def HasPrefix_def accessSourceUIDChunkPrefix_def)
qed

text \<open>
  Rendering tags never panics and never exceeds the length limit of Cloudflare tags. For a UID
  shorter than \<open>10^18\<close> bytes every tag has at most 35 bytes, and the tags after the managed-by tag
  number at most one per byte.
\<close>

lemma Owner_Tags_bounded:
  assumes "length (uid o1) < 10 ^ 18"
  shows "\<exists>tags. Owner_Tags o1 = Some tags \<and> tagManagedBy \<in> set tags \<and> length tags \<le> Suc (length (uid o1)) \<and>
           (\<forall>tag \<in> set tags. int (length tag) \<le> accessTagMaxLength)"
proof -
  obtain cs where cs: "renderAccessTags (uid o1) = Some (tagManagedBy # chunk_tags 0 cs)"
      "length cs \<le> length (uid o1)" "\<forall>tag \<in> set (chunk_tags 0 cs). int (length tag) \<le> accessTagMaxLength"
    by (rule renderAccessTags_chunks [OF assms])
  have "length (chunk_tags i cs) = length cs" for i by (induction cs arbitrary: i) auto
  with cs show ?thesis by (simp add: Owner_Tags_def tagManagedBy_def accessTagMaxLength_def)
qed

lemma Owner_Tags_bounded_example:
  "length (uid (From ''0b1c6a2e-5d1f'')) < 10 ^ 18 \<and>
   list_all (\<lambda>tag. int (length tag) \<le> accessTagMaxLength) (the (Owner_Tags (From ''0b1c6a2e-5d1f'')))"
  using Owner_Tags_bounded [of "From ''0b1c6a2e-5d1f''"] by (auto simp: From_def list_all_iff)

end
