(* ===== verification/Cloudflare.thy ===== *)
theory Cloudflare
  imports Api_Types
begin

text \<open>
  The boundary to the Cloudflare API (\<open>internal/cloudflare\<close>, the interface files): the values that
  cross it, and \<open>Client\<close> as a record of computations over the world \<open>'s\<close>, so that the controllers
  are verified for every implementation. \<open>Fake\<close> provides one.
\<close>

section \<open>Values\<close>

definition ErrNotFound :: error where
  "ErrNotFound = ErrNew ''cloudflare: resource not found''"

definition ErrUnsupportedAccessRule :: error where
  "ErrUnsupportedAccessRule = ErrNew ''cloudflare: unsupported access rule''"

lemma sentinels_distinct [simp]: "ErrNotFound \<noteq> ErrUnsupportedAccessRule" "ErrUnsupportedAccessRule \<noteq> ErrNotFound"
  by (simp_all add: ErrNotFound_def ErrUnsupportedAccessRule_def)

record Tunnel =
  Tunnel_ID :: string
  Tunnel_Name :: string

record CreateTunnelInput =
  CreateTunnel_Name :: string
  CreateTunnel_ConfigSrc :: string

record RenameTunnelInput =
  RenameTunnel_Name :: string

record IngressRule =
  Ingress_Hostname :: string
  Ingress_Service :: string

record TunnelConfiguration =
  Ingress :: "IngressRule list"

record AccessApplication =
  App_ID :: string
  App_Name :: string
  App_Domain :: string
  App_Domains :: "string list"
  App_PolicyUUIDs :: "string list"
  App_Tags :: "string list"

record AccessApplicationInput =
  AppIn_Name :: string
  AppIn_Domains :: "string list"
  AppIn_PolicyUUIDs :: "string list"
  AppIn_Tags :: "string list"

record AccessPolicy =
  Policy_ID :: string
  Policy_Name :: string
  Policy_Decision :: string
  Policy_Include :: "AccessRule list"
  Policy_Exclude :: "AccessRule list"
  Policy_Require :: "AccessRule list"
  Policy_SessionDuration :: string
  Policy_PurposeJustificationRequired :: bool
  Policy_PurposeJustificationPrompt :: string

record AccessPolicyInput =
  PolicyIn_Name :: string
  PolicyIn_Decision :: string
  PolicyIn_Include :: "AccessRule list"
  PolicyIn_Exclude :: "AccessRule list"
  PolicyIn_Require :: "AccessRule list"
  PolicyIn_SessionDuration :: string
  PolicyIn_PurposeJustificationRequired :: bool
  PolicyIn_PurposeJustificationPrompt :: string

record TunnelRoute =
  Route_ID :: string
  Route_Network :: string
  Route_TunnelID :: string
  Route_VirtualNetworkID :: string
  Route_Comment :: string

record TunnelRouteInput =
  RouteIn_Network :: string
  RouteIn_TunnelID :: string
  RouteIn_VirtualNetworkID :: string
  RouteIn_Comment :: string

record ListTunnelRoutesFilter =
  Filter_Network :: string
  Filter_TunnelID :: string
  Filter_VirtualNetworkID :: string

record DNSRecord =
  DNS_ID :: string
  DNS_ZoneID :: string
  DNS_Name :: string
  DNS_Type :: string
  DNS_Content :: string
  DNS_Proxied :: bool
  DNS_Comment :: string

record DNSRecordInput =
  DNSIn_ZoneID :: string
  DNSIn_Name :: string
  DNSIn_Type :: string
  DNSIn_Content :: string
  DNSIn_Proxied :: bool
  DNSIn_Comment :: string

record Zone =
  Zone_ID :: string
  Zone_Name :: string

section \<open>Interfaces\<close>

text \<open>
  \<open>unit result\<close> is a call that returns only an error. The policy rules of the client package mirror
  those of the API package field by field; one record serves for both.
\<close>

record 's Tunnels =
  Tunnels_Create :: "CreateTunnelInput \<Rightarrow> ('s, Tunnel result) state"
  Tunnels_Rename :: "string \<Rightarrow> RenameTunnelInput \<Rightarrow> ('s, Tunnel result) state"
  Tunnels_List :: "string \<Rightarrow> ('s, Tunnel list result) state"
  Tunnels_Get :: "string \<Rightarrow> ('s, Tunnel result) state"
  Tunnels_Delete :: "string \<Rightarrow> ('s, unit result) state"
  Tunnels_Token :: "string \<Rightarrow> ('s, string result) state"

record 's Configurations =
  Configurations_Update :: "string \<Rightarrow> TunnelConfiguration \<Rightarrow> ('s, unit result) state"

record 's AccessApplications =
  Apps_List :: "string \<Rightarrow> ('s, AccessApplication list result) state"
  Apps_Create :: "AccessApplicationInput \<Rightarrow> ('s, AccessApplication result) state"
  Apps_Update :: "string \<Rightarrow> AccessApplicationInput \<Rightarrow> ('s, AccessApplication result) state"
  Apps_Delete :: "string \<Rightarrow> ('s, unit result) state"

record 's AccessTags =
  Tags_Ensure :: "string \<Rightarrow> ('s, unit result) state"
  Tags_Delete :: "string \<Rightarrow> ('s, unit result) state"

record 's AccessPolicies =
  Policies_List :: "('s, AccessPolicy list result) state"
  Policies_GetMetadata :: "string \<Rightarrow> ('s, AccessPolicy result) state"
  Policies_Get :: "string \<Rightarrow> ('s, AccessPolicy result) state"
  Policies_Create :: "AccessPolicyInput \<Rightarrow> ('s, AccessPolicy result) state"
  Policies_Update :: "string \<Rightarrow> AccessPolicyInput \<Rightarrow> ('s, AccessPolicy result) state"
  Policies_Delete :: "string \<Rightarrow> ('s, unit result) state"

record 's TunnelRoutes =
  Routes_List :: "ListTunnelRoutesFilter \<Rightarrow> ('s, TunnelRoute list result) state"
  Routes_Create :: "TunnelRouteInput \<Rightarrow> ('s, TunnelRoute result) state"
  Routes_Get :: "string \<Rightarrow> ('s, TunnelRoute result) state"
  Routes_Edit :: "string \<Rightarrow> TunnelRouteInput \<Rightarrow> ('s, TunnelRoute result) state"
  Routes_Delete :: "string \<Rightarrow> ('s, unit result) state"

record 's DNSRecords =
  DNSRecords_List :: "string \<Rightarrow> string \<Rightarrow> string \<Rightarrow> ('s, DNSRecord list result) state"
  DNSRecords_Create :: "DNSRecordInput \<Rightarrow> ('s, DNSRecord result) state"
  DNSRecords_Update :: "string \<Rightarrow> DNSRecordInput \<Rightarrow> ('s, DNSRecord result) state"
  DNSRecords_Delete :: "string \<Rightarrow> string \<Rightarrow> ('s, unit result) state"

record 's Zones =
  Zones_List :: "('s, Zone list result) state"
  Zones_Resolve :: "string \<Rightarrow> ('s, Zone result) state"

record 's Client =
  Client_Tunnels :: "'s Tunnels"
  Client_Configurations :: "'s Configurations"
  Client_AccessApplications :: "'s AccessApplications"
  Client_AccessTags :: "'s AccessTags"
  Client_AccessPolicies :: "'s AccessPolicies"
  Client_TunnelRoutes :: "'s TunnelRoutes"
  Client_DNSRecords :: "'s DNSRecords"
  Client_Zones :: "'s Zones"

section \<open>Access applications by hostname\<close>

definition accessApplicationDomainMatchesHostname :: "string \<Rightarrow> string \<Rightarrow> bool" where
  "accessApplicationDomainMatchesHostname domain hostname \<longleftrightarrow>
     domain = hostname \<or> HasPrefix domain (hostname @ ''/'')"

definition accessApplicationMatchesHostname :: "AccessApplication \<Rightarrow> string \<Rightarrow> bool" where
  "accessApplicationMatchesHostname app hostname =
     (if hostname = [] then True
      else if accessApplicationDomainMatchesHostname (App_Domain app) hostname then True
      else list_ex (\<lambda>domain. accessApplicationDomainMatchesHostname domain hostname) (App_Domains app))"

definition accessApplicationPrimaryDomain :: "string list \<Rightarrow> string" where
  "accessApplicationPrimaryDomain domains = (case domains of [] \<Rightarrow> [] | d # _ \<Rightarrow> d)"

section \<open>Zones\<close>

text \<open>\<open>strings.ToLower\<close> on ASCII letters; host and zone names are ASCII.\<close>

definition lower_char :: "char \<Rightarrow> char" where
  "lower_char c = (if 65 \<le> (of_char c :: nat) \<and> (of_char c :: nat) \<le> 90 then char_of (of_char c + 32 :: nat) else c)"

definition ToLower :: "string \<Rightarrow> string" where
  "ToLower s = map lower_char s"

definition zone_norm :: "string \<Rightarrow> string" where
  "zone_norm s = TrimSuffix (ToLower s) ''.''"

definition zone_covers :: "string \<Rightarrow> Zone \<Rightarrow> bool" where
  "zone_covers hostname z \<longleftrightarrow>
     hostname = zone_norm (Zone_Name z) \<or> HasSuffix hostname (''.'' @ zone_norm (Zone_Name z))"

text \<open>The loop: the best zone so far; the candidate's trimmed name is compared with the best's name.\<close>

fun zone_loop :: "string \<Rightarrow> Zone option \<Rightarrow> Zone list \<Rightarrow> Zone option" where
  "zone_loop hostname best [] = best"
| "zone_loop hostname best (z # zs) =
     (if \<not> zone_covers hostname z then zone_loop hostname best zs
      else case best of
          None \<Rightarrow> zone_loop hostname (Some z) zs
        | Some b \<Rightarrow> if length (zone_norm (Zone_Name z)) > length (Zone_Name b)
                    then zone_loop hostname (Some z) zs else zone_loop hostname best zs)"

definition LongestMatchingZone :: "Zone list \<Rightarrow> string \<Rightarrow> Zone option" where
  "LongestMatchingZone zones hostname = zone_loop (zone_norm hostname) None zones"

text \<open>A zone name as the API returns it: no trailing dot.\<close>

definition zone_canonical :: "Zone \<Rightarrow> bool" where
  "zone_canonical z \<longleftrightarrow> \<not> HasSuffix (Zone_Name z) ''.''"

lemma lower_char_dot [simp]: "lower_char c = CHR ''.'' \<longleftrightarrow> c = CHR ''.''"
proof (cases "65 \<le> (of_char c :: nat) \<and> (of_char c :: nat) \<le> 90")
  case True
  then have "(of_char (lower_char c) :: nat) = of_char c + 32" by (simp add: lower_char_def of_char_of)
  then have "lower_char c \<noteq> CHR ''.''" using True by auto
  moreover have "c \<noteq> CHR ''.''" using True by auto
  ultimately show ?thesis by simp
next
  case False
  then show ?thesis by (auto simp: lower_char_def)
qed

lemma length_zone_norm: "zone_canonical z \<Longrightarrow> length (zone_norm (Zone_Name z)) = length (Zone_Name z)"
proof -
  assume "zone_canonical z"
  have "HasSuffix (ToLower s) ''.'' \<longleftrightarrow> HasSuffix s ''.''" for s
    by (cases "rev s") (auto simp: HasSuffix_def ToLower_def rev_map HasPrefix_def)
  with \<open>zone_canonical z\<close> show ?thesis
    by (simp add: zone_norm_def TrimSuffix_def zone_canonical_def ToLower_def)
qed

lemma zone_loop_longest:
  assumes "list_all zone_canonical zs" and "case best of None \<Rightarrow> True | Some b \<Rightarrow> zone_covers h b"
  shows "(case zone_loop h best zs of
      None \<Rightarrow> best = None \<and> (\<forall>z \<in> set zs. \<not> zone_covers h z)
    | Some r \<Rightarrow> zone_covers h r \<and> (best = Some r \<or> r \<in> set zs) \<and>
        (\<forall>z \<in> set zs. zone_covers h z \<longrightarrow> length (Zone_Name z) \<le> length (Zone_Name r)) \<and>
        (\<forall>b. best = Some b \<longrightarrow> length (Zone_Name b) \<le> length (Zone_Name r)))"
  using assms
proof (induction h best zs rule: zone_loop.induct)
  case (1 h best)
  then show ?case by (auto split: option.splits)
next
  case (2 h best z zs)
  have z: "length (zone_norm (Zone_Name z)) = length (Zone_Name z)" using "2.prems" by (simp add: length_zone_norm)
  show ?case
  proof (cases "zone_covers h z")
    case False
    with 2 show ?thesis by (auto split: option.splits)
  next
    case True
    show ?thesis
    proof (cases best)
      case None
      with True "2.IH"(2) [OF _ None] "2.prems" show ?thesis by (auto split: option.splits)
    next
      case (Some b)
      with True z "2.IH"(3) [OF _ Some] "2.IH"(4) [OF _ Some] "2.prems" show ?thesis
        by (cases "length (Zone_Name z) > length (Zone_Name b)") (force split: option.splits)+
    qed
  qed
qed

text \<open>
  Zone resolution picks the most specific zone. For zone names without a trailing dot, the
  result is a listed zone that covers the hostname and no covering zone has a longer name; there is
  no result only if no listed zone covers the hostname.
\<close>

lemma LongestMatchingZone_longest:
  assumes "list_all zone_canonical zones"
  shows "(case LongestMatchingZone zones hostname of
      None \<Rightarrow> \<forall>z \<in> set zones. \<not> zone_covers (zone_norm hostname) z
    | Some r \<Rightarrow> r \<in> set zones \<and> zone_covers (zone_norm hostname) r \<and>
        (\<forall>z \<in> set zones. zone_covers (zone_norm hostname) z \<longrightarrow> length (Zone_Name z) \<le> length (Zone_Name r)))"
  using zone_loop_longest [OF assms, where best = None and h = "zone_norm hostname"]
  by (auto simp: LongestMatchingZone_def split: option.splits)

lemma LongestMatchingZone_example:
  "length (Zone_Name \<lparr>Zone_ID = ''z1'', Zone_Name = ''b.c''\<rparr>) \<le> length (Zone_Name (the (LongestMatchingZone
     [\<lparr>Zone_ID = ''z1'', Zone_Name = ''b.c''\<rparr>, \<lparr>Zone_ID = ''z2'', Zone_Name = ''a.b.c''\<rparr>] ''X.a.b.c.'')))"
proof -
  let ?zs = "[\<lparr>Zone_ID = ''z1'', Zone_Name = ''b.c''\<rparr>, \<lparr>Zone_ID = ''z2'', Zone_Name = ''a.b.c''\<rparr>]"
  have "list_all zone_canonical ?zs" by code_simp
  moreover have "list_all (zone_covers (zone_norm ''X.a.b.c.'')) ?zs" by code_simp
  ultimately show ?thesis
    using LongestMatchingZone_longest [of ?zs "''X.a.b.c.''"] by (auto split: option.splits)
qed

end
