(* ===== verification/Kube.thy ===== *)
theory Kube
  imports Ownership Cloudflare
begin

text \<open>
  What the reconcilers share (\<open>internal/controller/base.go\<close>, \<open>conditions.go\<close>, \<open>indexes.go\<close>) and the
  Kubernetes side they talk to. The API server, the event recorder, the metrics registry, the
  clocks, the random source and the helpers of apimachinery and controller-runtime are not code of
  this repository: they are the fields of the record \<open>Base\<close>, over an arbitrary world \<open>'s\<close>. An
  operation that stores an object returns the object as the server sends it back.
\<close>

section \<open>Values\<close>

record ctrl_Result =
  Result_Requeue :: bool
  Result_RequeueAfter :: duration

definition no_result :: ctrl_Result where
  "no_result = \<lparr>Result_Requeue = False, Result_RequeueAfter = 0\<rparr>"

definition after :: "duration \<Rightarrow> ctrl_Result" where
  "after d = \<lparr>Result_Requeue = False, Result_RequeueAfter = d\<rparr>"

definition requeueResult :: "duration \<Rightarrow> ctrl_Result" where
  "requeueResult d = (if d \<le> 0 then no_result else after d)"

text \<open>\<open>err.Error()\<close>.\<close>

fun error_text :: "error \<Rightarrow> string" where
  "error_text (ErrNew s) = s"
| "error_text (ErrWrap pre e post) = pre @ error_text e @ post"
| "error_text (ErrStatus _ s) = s"
| "error_text (ErrAPI _ s) = s"
| "error_text (ErrHostnames hs) = ''hostname conflict: ['' @ Join hs '' '' @ '']''"

fun meta_IsNoMatchError :: "error \<Rightarrow> bool" where
  "meta_IsNoMatchError (ErrStatus r _) = (r = ReasonNoMatch)"
| "meta_IsNoMatchError (ErrWrap _ e _) = meta_IsNoMatchError e"
| "meta_IsNoMatchError _ = False"

record Service =
  Svc_Namespace :: string
  Svc_Name :: string
  Svc_UID :: string
  Svc_Ports :: "int32 list"

text \<open>
  An unstructured HTTPRoute: its identity and what \<open>NestedStringSlice(obj, "spec", "hostnames")\<close>
  returns, \<open>Inr None\<close> when the field is absent.
\<close>

record HTTPRoute =
  HR_Namespace :: string
  HR_Name :: string
  HR_UID :: string
  HR_Hostnames :: "string list option result"

record CredentialsRef =
  Cred_Namespace :: string
  Cred_Name :: string
  Cred_AccountIDKey :: string
  Cred_APITokenKey :: string

text \<open>The metrics of \<open>failover_metrics.go\<close>; the labels are namespace, name, group and site.\<close>

datatype metric = RoleGauge nat | LeaseRenewTotal | PromotionTotal | PromotionPending nat

definition failoverRoleValue :: "string \<Rightarrow> nat" where
  "failoverRoleValue role = (if role = ''Primary'' then 2 else if role = ''Standby'' then 1 else 0)"

section \<open>Base\<close>

record 's Base =
  Base_GetExposure :: "string \<Rightarrow> string \<Rightarrow> ('s, CloudflareExposure result) state"
  Base_GetTunnel :: "string \<Rightarrow> ('s, CloudflareTunnel result) state"
  Base_GetAccessPolicy :: "string \<Rightarrow> ('s, CloudflareAccessPolicy result) state"
  Base_GetService :: "string \<Rightarrow> string \<Rightarrow> ('s, Service result) state"
  Base_GetHTTPRoute :: "string \<Rightarrow> string \<Rightarrow> ('s, HTTPRoute result) state"
  Base_GetSecret :: "string \<Rightarrow> string \<Rightarrow> ('s, (string \<times> string) list result) state"
  Base_ListExposures :: "string \<Rightarrow> string \<Rightarrow> ('s, CloudflareExposure list result) state"
  Base_UpdateExposure :: "CloudflareExposure \<Rightarrow> ('s, CloudflareExposure result) state"
  Base_StatusUpdateExposure :: "CloudflareExposure \<Rightarrow> ('s, CloudflareExposure result) state"
  Base_Eventf :: "ObjectMeta \<Rightarrow> string \<Rightarrow> string \<Rightarrow> string \<Rightarrow> ('s, unit) state"
  Base_Metric :: "metric \<Rightarrow> string list \<Rightarrow> ('s, unit) state"
  Base_WallClock :: "('s, time) state"
  Base_SetStatusCondition :: "time \<Rightarrow> Condition list \<Rightarrow> Condition \<Rightarrow> Condition list"
  Base_FindStatusCondition :: "Condition list \<Rightarrow> string \<Rightarrow> Condition option"
  Base_AddFinalizer :: "ObjectMeta \<Rightarrow> string \<Rightarrow> ObjectMeta \<times> bool"
  Base_ContainsFinalizer :: "ObjectMeta \<Rightarrow> string \<Rightarrow> bool"
  Base_RemoveFinalizer :: "ObjectMeta \<Rightarrow> string \<Rightarrow> ObjectMeta"
  Base_NewCloudflareClient :: "(CredentialsRef \<Rightarrow> ('s, 's Client result) state) option"
  Base_New :: "string \<Rightarrow> string \<Rightarrow> ('s, 's Client result) state"

text \<open>\<open>credentials.go\<close>.\<close>

definition defaultAccountIDKey :: string where
  "defaultAccountIDKey = ''accountId''"

definition defaultAPITokenKey :: string where
  "defaultAPITokenKey = ''apiToken''"

definition missing_key :: "CredentialsRef \<Rightarrow> string \<Rightarrow> error" where
  "missing_key ref k = ErrNew (''credentials Secret '' @ Cred_Namespace ref @ ''/'' @ Cred_Name ref @
     '' missing key '' @ [CHR 0x22] @ k @ [CHR 0x22])"

definition Load :: "('s, 'z) Base_scheme \<Rightarrow> CredentialsRef \<Rightarrow> ('s, (string \<times> string) result) state" where
  "Load b ref = do {
     secret \<leftarrow> Base_GetSecret b (Cred_Namespace ref) (Cred_Name ref);
     case secret of
       Inl e \<Rightarrow> return_st (Inl (ErrWrap (''credentials Secret '' @ Cred_Namespace ref @ ''/'' @ Cred_Name ref @ '' not readable: '') e []))
     | Inr dat \<Rightarrow>
         (let accountKey = (if Cred_AccountIDKey ref = [] then defaultAccountIDKey else Cred_AccountIDKey ref);
              tokenKey = (if Cred_APITokenKey ref = [] then defaultAPITokenKey else Cred_APITokenKey ref);
              accountID = (case map_of dat accountKey of None \<Rightarrow> [] | Some v \<Rightarrow> v);
              apiToken = (case map_of dat tokenKey of None \<Rightarrow> [] | Some v \<Rightarrow> v)
          in if accountID = [] then return_st (Inl (missing_key ref accountKey))
             else if apiToken = [] then return_st (Inl (missing_key ref tokenKey))
             else return_st (Inr (accountID, apiToken))) }"

definition CloudflareClient :: "('s, 'z) Base_scheme \<Rightarrow> CredentialsRef \<Rightarrow> ('s, 's Client result) state" where
  "CloudflareClient b ref =
     (case Base_NewCloudflareClient b of
        Some new \<Rightarrow> new ref
      | None \<Rightarrow> do {
          loaded \<leftarrow> Load b ref;
          case loaded of
            Inl e \<Rightarrow> return_st (Inl e)
          | Inr (accountID, apiToken) \<Rightarrow> Base_New b accountID apiToken })"

definition credentialsRefFromTunnel :: "CloudflareTunnel \<Rightarrow> CredentialsRef" where
  "credentialsRefFromTunnel tunnel =
     (let ref = TSpec_CredentialsSecretRef (T_Spec tunnel)
      in \<lparr>Cred_Namespace = Cloudflared_Namespace (TSpec_Cloudflared (T_Spec tunnel)),
          Cred_Name = SecretRef_Name ref, Cred_AccountIDKey = Keys_AccountId (SecretRef_Keys ref),
          Cred_APITokenKey = Keys_ApiToken (SecretRef_Keys ref)\<rparr>)"

definition credentialsRefFromAccessPolicy :: "CloudflareAccessPolicy \<Rightarrow> CredentialsRef" where
  "credentialsRefFromAccessPolicy policy =
     (let ref = PSpec_CredentialsSecretRef (P_Spec policy)
      in \<lparr>Cred_Namespace = PSecretRef_Namespace ref, Cred_Name = PSecretRef_Name ref,
          Cred_AccountIDKey = Keys_AccountId (PSecretRef_Keys ref),
          Cred_APITokenKey = Keys_ApiToken (PSecretRef_Keys ref)\<rparr>)"

section \<open>Conditions\<close>

definition ConditionReady :: string where
  "ConditionReady = ''Ready''"

definition ConditionProgressing :: string where
  "ConditionProgressing = ''Progressing''"

definition ReasonCredentialsMissing :: string where
  "ReasonCredentialsMissing = ''CredentialsMissing''"

definition ReasonOriginInvalid :: string where
  "ReasonOriginInvalid = ''OriginInvalid''"

definition ReasonHostnameConflict :: string where
  "ReasonHostnameConflict = ''HostnameConflict''"

definition ReasonForeignResource :: string where
  "ReasonForeignResource = ''ForeignResource''"

definition ReasonAccessAppPending :: string where
  "ReasonAccessAppPending = ''AccessAppPending''"

definition ReasonAccessApplicationsUnsupported :: string where
  "ReasonAccessApplicationsUnsupported = ''AccessApplicationsUnsupported''"

definition ReasonPolicyNotFound :: string where
  "ReasonPolicyNotFound = ''PolicyNotFound''"

definition ReasonPolicyNotReady :: string where
  "ReasonPolicyNotReady = ''PolicyNotReady''"

definition ReasonDNSWriteFailed :: string where
  "ReasonDNSWriteFailed = ''DNSWriteFailed''"

definition ReasonReconciled :: string where
  "ReasonReconciled = ''Reconciled''"

definition ReasonStandby :: string where
  "ReasonStandby = ''Standby''"

definition ReasonAwaitingPromotion :: string where
  "ReasonAwaitingPromotion = ''AwaitingPromotion''"

definition ReasonLeaseConflict :: string where
  "ReasonLeaseConflict = ''LeaseConflict''"

definition ReasonFailoverRequiresManagedDNS :: string where
  "ReasonFailoverRequiresManagedDNS = ''FailoverRequiresManagedDNS''"

definition ReasonFailoverRequiresDistinctSiteID :: string where
  "ReasonFailoverRequiresDistinctSiteID = ''FailoverRequiresDistinctSiteID''"

definition ReasonFailoverGroupConflict :: string where
  "ReasonFailoverGroupConflict = ''FailoverGroupConflict''"

definition ReasonBlockedByExposures :: string where
  "ReasonBlockedByExposures = ''BlockedByExposures''"

definition EventCreatedAccessApp :: string where
  "EventCreatedAccessApp = ''CreatedAccessApp''"

definition EventUpdatedAccessApp :: string where
  "EventUpdatedAccessApp = ''UpdatedAccessApp''"

definition EventDeletedAccessApp :: string where
  "EventDeletedAccessApp = ''DeletedAccessApp''"

definition EventCreatedDNSRecord :: string where
  "EventCreatedDNSRecord = ''CreatedDNSRecord''"

definition EventUpdatedDNSRecord :: string where
  "EventUpdatedDNSRecord = ''UpdatedDNSRecord''"

definition EventDeletedDNSRecord :: string where
  "EventDeletedDNSRecord = ''DeletedDNSRecord''"

definition EventHostnameConflict :: string where
  "EventHostnameConflict = ''HostnameConflict''"

definition EventPromotedToPrimary :: string where
  "EventPromotedToPrimary = ''PromotedToPrimary''"

definition EventDemotedToStandby :: string where
  "EventDemotedToStandby = ''DemotedToStandby''"

definition EventLeaseAcquired :: string where
  "EventLeaseAcquired = ''LeaseAcquired''"

definition EventLeaseRenewed :: string where
  "EventLeaseRenewed = ''LeaseRenewed''"

definition EventLeaseLost :: string where
  "EventLeaseLost = ''LeaseLost''"

definition EventLeaseConflict :: string where
  "EventLeaseConflict = ''LeaseConflict''"

definition EventSplitBrainDetected :: string where
  "EventSplitBrainDetected = ''SplitBrainDetected''"

definition EventForcePromoted :: string where
  "EventForcePromoted = ''ForcePromoted''"

definition EventAwaitingManualPromotion :: string where
  "EventAwaitingManualPromotion = ''AwaitingManualPromotion''"

definition EventBlockedByExposures :: string where
  "EventBlockedByExposures = ''BlockedByExposures''"

definition setCondition :: "('s, 'z) Base_scheme \<Rightarrow> Condition list \<Rightarrow> string \<Rightarrow> string \<Rightarrow> string \<Rightarrow> string \<Rightarrow> int
    \<Rightarrow> ('s, Condition list) state" where
  "setCondition b conditions conditionType status reason message observedGeneration = do {
     t \<leftarrow> Base_WallClock b;
     return_st (Base_SetStatusCondition b t conditions \<lparr>Condition_Type = conditionType, Condition_Status = status,
       Condition_ObservedGeneration = observedGeneration, Condition_LastTransitionTime = 0,
       Condition_Reason = reason, Condition_Message = message\<rparr>) }"

text \<open>
  \<open>setReady\<close> for an object of any kind: \<open>getc\<close> and \<open>setc\<close> are the conditions inside the object,
  \<open>upd\<close> the status writer for its kind, and \<open>mutate\<close> the change to its status. The write is skipped
  when the object is unchanged.
\<close>

definition setReady :: "('s, 'z) Base_scheme \<Rightarrow> ('o \<Rightarrow> Condition list) \<Rightarrow> (Condition list \<Rightarrow> 'o \<Rightarrow> 'o) \<Rightarrow>
    ('o \<Rightarrow> ('s, 'o result) state) \<Rightarrow> 'o \<Rightarrow> int \<Rightarrow> bool \<Rightarrow> string \<Rightarrow> string \<Rightarrow> ('o \<Rightarrow> 'o) \<Rightarrow> ('s, unit result) state" where
  "setReady b getc setc upd obj generation ready reason message mutate = do {
     let obj1 = mutate obj;
     c1 \<leftarrow> setCondition b (getc obj1) ConditionReady (if ready then ''True'' else ''False'') reason message generation;
     c2 \<leftarrow> setCondition b c1 ConditionProgressing (if ready then ''False'' else ''True'') reason message generation;
     let obj2 = setc c2 obj1;
     if obj2 = obj then return_st (Inr ())
     else do {
       r \<leftarrow> upd obj2;
       return_st (case r of Inl e \<Rightarrow> Inl e | Inr _ \<Rightarrow> Inr ()) } }"

section \<open>Indexed lists\<close>

definition exposurePolicyRefNames :: "CloudflareExposure \<Rightarrow> string list" where
  "exposurePolicyRefNames exposure =
     remdups (filter (\<lambda>n. n \<noteq> []) (concat (map (\<lambda>app. map (\<lambda>p. PolicyRef_Name (Binding_PolicyRef p)) (Target_Policies app))
       (Access_Applications (ESpec_Access (E_Spec exposure))))))"

definition exposureIndexTunnelRefName :: string where
  "exposureIndexTunnelRefName = ''spec.tunnelRef.name''"

definition exposureIndexHostname :: string where
  "exposureIndexHostname = ''spec.hostname''"

definition exposureIndexPolicyRefName :: string where
  "exposureIndexPolicyRefName = ''spec.access.applications.policies.policyRef.name''"

definition exposureIndexFailoverGroup :: string where
  "exposureIndexFailoverGroup = ''spec.failover.group''"

text \<open>The index functions that \<open>indexCloudflareExposureFields\<close> registers.\<close>

definition exposureIndex :: "string \<Rightarrow> CloudflareExposure \<Rightarrow> string list" where
  "exposureIndex field exposure =
     (let nonempty = (\<lambda>s. if s = [] then [] else [s])
      in if field = exposureIndexTunnelRefName then nonempty (TunnelRef_Name (ESpec_TunnelRef (E_Spec exposure)))
         else if field = exposureIndexHostname then nonempty (ESpec_Hostname (E_Spec exposure))
         else if field = exposureIndexPolicyRefName then exposurePolicyRefNames exposure
         else if field = exposureIndexFailoverGroup then
           (case ESpec_Failover (E_Spec exposure) of None \<Rightarrow> [] | Some f \<Rightarrow> nonempty (Failover_Group f))
         else [])"

definition listExposuresByTunnel :: "('s, 'z) Base_scheme \<Rightarrow> string \<Rightarrow> ('s, CloudflareExposure list result) state" where
  "listExposuresByTunnel b tunnelName = Base_ListExposures b exposureIndexTunnelRefName tunnelName"

definition listExposuresByHostname :: "('s, 'z) Base_scheme \<Rightarrow> string \<Rightarrow> ('s, CloudflareExposure list result) state" where
  "listExposuresByHostname b hostname = Base_ListExposures b exposureIndexHostname hostname"

definition listExposuresByPolicy :: "('s, 'z) Base_scheme \<Rightarrow> string \<Rightarrow> ('s, CloudflareExposure list result) state" where
  "listExposuresByPolicy b policyName = Base_ListExposures b exposureIndexPolicyRefName policyName"

definition listExposuresByFailoverGroup :: "('s, 'z) Base_scheme \<Rightarrow> string \<Rightarrow> ('s, CloudflareExposure list result) state" where
  "listExposuresByFailoverGroup b groupID = Base_ListExposures b exposureIndexFailoverGroup groupID"

text \<open>The event types of corev1.\<close>

definition EventTypeNormal :: string where
  "EventTypeNormal = ''Normal''"

definition EventTypeWarning :: string where
  "EventTypeWarning = ''Warning''"

end
