(* ===== verification/Call_Log.thy ===== *)
theory Call_Log
  imports Workload Kube
begin

text \<open>
  A monitor for the reconcilers: every call that reaches the Cloudflare API, writes a Kubernetes object
  or reads what a deletion waits for is recorded, newest first, with its arguments and its response.
  \<open>logged_client\<close> and \<open>logged_base\<close> turn any client and any \<open>Base\<close> into one that records; the locales
  \<open>client_log\<close> and \<open>base_monitor\<close> are what a recording client and a recording reconciler promise, and
  the two constructions are their interpretations. A safety property is a guard on each recorded call
  given the calls before it (\<open>guarded\<close>); the rules for \<open>triple\<close> verify a handler against such a guard.
\<close>

section \<open>Recorded calls\<close>

datatype (plugins only: code size) call =
    EvNow time
  | EvZone string "Zone result"
  | EvDNSList string string string "DNSRecord list result"
  | EvDNSCreate DNSRecordInput "DNSRecord result"
  | EvDNSUpdate string DNSRecordInput "DNSRecord result"
  | EvDNSDelete string string "unit result"
  | EvAppsList string "AccessApplication list result"
  | EvAppsCreate AccessApplicationInput "AccessApplication result"
  | EvAppsUpdate string AccessApplicationInput "AccessApplication result"
  | EvAppsDelete string "unit result"
  | EvTagsEnsure string "unit result"
  | EvTagsDelete string "unit result"
  | EvTunnelsCreate CreateTunnelInput "Tunnel result"
  | EvTunnelsRename string RenameTunnelInput "Tunnel result"
  | EvTunnelsList string "Tunnel list result"
  | EvTunnelsGet string "Tunnel result"
  | EvTunnelsDelete string "unit result"
  | EvConfigUpdate string TunnelConfiguration "unit result"
  | EvPoliciesList "AccessPolicy list result"
  | EvPoliciesMetadata string "AccessPolicy result"
  | EvPoliciesGet string "AccessPolicy result"
  | EvPoliciesCreate AccessPolicyInput "AccessPolicy result"
  | EvPoliciesUpdate string AccessPolicyInput "AccessPolicy result"
  | EvPoliciesDelete string "unit result"
  | EvRoutesList ListTunnelRoutesFilter "TunnelRoute list result"
  | EvRoutesCreate TunnelRouteInput "TunnelRoute result"
  | EvRoutesGet string "TunnelRoute result"
  | EvRoutesEdit string TunnelRouteInput "TunnelRoute result"
  | EvRoutesDelete string "unit result"
  | EvListExposures string string "CloudflareExposure list result"
  | EvUpdate CloudflareExposure "CloudflareExposure result"
  | EvStatusUpdate CloudflareExposure "CloudflareExposure result"
  | EvListRoutes string string "CloudflareTunnelRoute list result"
  | EvGetDaemonSet string string "DaemonSet result"
  | EvListPods string "(string \<times> string) list" "string list result"
  | EvUpdateTunnel CloudflareTunnel "CloudflareTunnel result"
  | EvUpdateRoute CloudflareTunnelRoute "CloudflareTunnelRoute result"
  | EvUpdatePolicy CloudflareAccessPolicy "CloudflareAccessPolicy result"

text \<open>The calls that change something at Cloudflare.\<close>

fun cloudflare_write :: "call \<Rightarrow> bool" where
  "cloudflare_write (EvDNSCreate _ _) = True"
| "cloudflare_write (EvDNSUpdate _ _ _) = True"
| "cloudflare_write (EvDNSDelete _ _ _) = True"
| "cloudflare_write (EvAppsCreate _ _) = True"
| "cloudflare_write (EvAppsUpdate _ _ _) = True"
| "cloudflare_write (EvAppsDelete _ _) = True"
| "cloudflare_write (EvTagsEnsure _ _) = True"
| "cloudflare_write (EvTagsDelete _ _) = True"
| "cloudflare_write (EvTunnelsCreate _ _) = True"
| "cloudflare_write (EvTunnelsRename _ _ _) = True"
| "cloudflare_write (EvTunnelsDelete _ _) = True"
| "cloudflare_write (EvConfigUpdate _ _ _) = True"
| "cloudflare_write (EvPoliciesCreate _ _) = True"
| "cloudflare_write (EvPoliciesUpdate _ _ _) = True"
| "cloudflare_write (EvPoliciesDelete _ _) = True"
| "cloudflare_write (EvRoutesCreate _ _) = True"
| "cloudflare_write (EvRoutesEdit _ _ _) = True"
| "cloudflare_write (EvRoutesDelete _ _) = True"
| "cloudflare_write _ = False"

definition quiet :: "('s \<Rightarrow> call list) \<Rightarrow> ('s, 'a) state \<Rightarrow> bool" where
  "quiet log m \<longleftrightarrow> (\<forall>s a s'. run_state m s = (a, s') \<longrightarrow> log s' = log s)"

definition records :: "('s \<Rightarrow> call list) \<Rightarrow> ('s, 'a) state \<Rightarrow> ('a \<Rightarrow> call) \<Rightarrow> bool" where
  "records log m f \<longleftrightarrow> (\<forall>s a s'. run_state m s = (a, s') \<longrightarrow> log s' = f a # log s)"

locale client_log =
  fixes c :: "'s Client" and log :: "'s \<Rightarrow> call list"
  assumes zones_resolve: "records log (Zones_Resolve (Client_Zones c) h) (EvZone h)"
    and dns_list: "records log (DNSRecords_List (Client_DNSRecords c) z n t) (EvDNSList z n t)"
    and dns_create: "records log (DNSRecords_Create (Client_DNSRecords c) i) (EvDNSCreate i)"
    and dns_update: "records log (DNSRecords_Update (Client_DNSRecords c) k i) (EvDNSUpdate k i)"
    and dns_delete: "records log (DNSRecords_Delete (Client_DNSRecords c) z k) (EvDNSDelete z k)"
    and apps_list: "records log (Apps_List (Client_AccessApplications c) d) (EvAppsList d)"
    and apps_create: "records log (Apps_Create (Client_AccessApplications c) ai) (EvAppsCreate ai)"
    and apps_update: "records log (Apps_Update (Client_AccessApplications c) k ai) (EvAppsUpdate k ai)"
    and apps_delete: "records log (Apps_Delete (Client_AccessApplications c) k) (EvAppsDelete k)"
    and tags_delete: "records log (Tags_Delete (Client_AccessTags c) n) (EvTagsDelete n)"
    and tunnels_create: "records log (Tunnels_Create (Client_Tunnels c) ti) (EvTunnelsCreate ti)"
    and tunnels_rename: "records log (Tunnels_Rename (Client_Tunnels c) k ri) (EvTunnelsRename k ri)"
    and tunnels_list: "records log (Tunnels_List (Client_Tunnels c) n) (EvTunnelsList n)"
    and tunnels_get: "records log (Tunnels_Get (Client_Tunnels c) k) (EvTunnelsGet k)"
    and tunnels_delete: "records log (Tunnels_Delete (Client_Tunnels c) k) (EvTunnelsDelete k)"
    and tunnels_token: "quiet log (Tunnels_Token (Client_Tunnels c) k)"
    and config_update: "records log (Configurations_Update (Client_Configurations c) k ci) (EvConfigUpdate k ci)"
    and policies_list: "records log (Policies_List (Client_AccessPolicies c)) EvPoliciesList"
    and policies_metadata: "records log (Policies_GetMetadata (Client_AccessPolicies c) k) (EvPoliciesMetadata k)"
    and policies_get: "records log (Policies_Get (Client_AccessPolicies c) k) (EvPoliciesGet k)"
    and policies_create: "records log (Policies_Create (Client_AccessPolicies c) pi) (EvPoliciesCreate pi)"
    and policies_update: "records log (Policies_Update (Client_AccessPolicies c) k pi) (EvPoliciesUpdate k pi)"
    and policies_delete: "records log (Policies_Delete (Client_AccessPolicies c) k) (EvPoliciesDelete k)"
    and routes_list: "records log (Routes_List (Client_TunnelRoutes c) f) (EvRoutesList f)"
    and routes_create: "records log (Routes_Create (Client_TunnelRoutes c) rti) (EvRoutesCreate rti)"
    and routes_get: "records log (Routes_Get (Client_TunnelRoutes c) k) (EvRoutesGet k)"
    and routes_edit: "records log (Routes_Edit (Client_TunnelRoutes c) k rti) (EvRoutesEdit k rti)"
    and routes_delete: "records log (Routes_Delete (Client_TunnelRoutes c) k) (EvRoutesDelete k)"

locale base_monitor =
  fixes r :: "('s, 'z) Base_scheme" and log :: "'s \<Rightarrow> call list"
  assumes get_exposure: "quiet log (Base_GetExposure r ns n)"
    and get_tunnel: "quiet log (Base_GetTunnel r n)"
    and get_policy: "quiet log (Base_GetAccessPolicy r n)"
    and get_service: "quiet log (Base_GetService r ns n)"
    and get_httproute: "quiet log (Base_GetHTTPRoute r ns n)"
    and list_exposures: "records log (Base_ListExposures r f v) (EvListExposures f v)"
    and eventf: "quiet log (Base_Eventf r m ty re msg)"
    and metrics: "quiet log (Base_Metric r mt ls)"
    and wall_clock: "records log (Base_WallClock r) EvNow"
    and update_exposure: "records log (Base_UpdateExposure r e) (EvUpdate e)"
    and status_update: "records log (Base_StatusUpdateExposure r e) (EvStatusUpdate e)"
    and client: "quiet log (CloudflareClient r ref)"
    and new_client: "run_state (CloudflareClient r ref) s = (Inr c, s') \<Longrightarrow> client_log c log"

section \<open>The recording client and reconciler\<close>

definition lift_log :: "('s, 'a) state \<Rightarrow> ('s \<times> call list, 'a) state" where
  "lift_log m = State (\<lambda>(s, l). case run_state m s of (a, s') \<Rightarrow> (a, (s', l)))"

definition tell :: "('s, 'a) state \<Rightarrow> ('a \<Rightarrow> call) \<Rightarrow> ('s \<times> call list, 'a) state" where
  "tell m f = State (\<lambda>(s, l). case run_state m s of (a, s') \<Rightarrow> (a, (s', f a # l)))"

lemma quiet_lift_log: "quiet snd (lift_log m)"
  by (auto simp: quiet_def lift_log_def split: prod.splits)

lemma records_tell: "records snd (tell m f) f"
  by (auto simp: records_def tell_def split: prod.splits)

definition logged_client :: "'s Client \<Rightarrow> ('s \<times> call list) Client" where
  "logged_client c = (let
     tu = Client_Tunnels c; cf = Client_Configurations c; ap = Client_AccessApplications c; ta = Client_AccessTags c;
     po = Client_AccessPolicies c; ro = Client_TunnelRoutes c; dn = Client_DNSRecords c; zo = Client_Zones c
   in \<lparr>Client_Tunnels = \<lparr>Tunnels_Create = (\<lambda>i. tell (Tunnels_Create tu i) (EvTunnelsCreate i)),
         Tunnels_Rename = (\<lambda>k i. tell (Tunnels_Rename tu k i) (EvTunnelsRename k i)),
         Tunnels_List = (\<lambda>n. tell (Tunnels_List tu n) (EvTunnelsList n)),
         Tunnels_Get = (\<lambda>k. tell (Tunnels_Get tu k) (EvTunnelsGet k)),
         Tunnels_Delete = (\<lambda>k. tell (Tunnels_Delete tu k) (EvTunnelsDelete k)),
         Tunnels_Token = (\<lambda>k. lift_log (Tunnels_Token tu k))\<rparr>,
       Client_Configurations = \<lparr>Configurations_Update = (\<lambda>k i. tell (Configurations_Update cf k i) (EvConfigUpdate k i))\<rparr>,
       Client_AccessApplications = \<lparr>Apps_List = (\<lambda>d. tell (Apps_List ap d) (EvAppsList d)),
         Apps_Create = (\<lambda>i. tell (Apps_Create ap i) (EvAppsCreate i)),
         Apps_Update = (\<lambda>k i. tell (Apps_Update ap k i) (EvAppsUpdate k i)),
         Apps_Delete = (\<lambda>k. tell (Apps_Delete ap k) (EvAppsDelete k))\<rparr>,
       Client_AccessTags = \<lparr>Tags_Ensure = (\<lambda>n. tell (Tags_Ensure ta n) (EvTagsEnsure n)),
         Tags_Delete = (\<lambda>n. tell (Tags_Delete ta n) (EvTagsDelete n))\<rparr>,
       Client_AccessPolicies = \<lparr>Policies_List = tell (Policies_List po) EvPoliciesList,
         Policies_GetMetadata = (\<lambda>k. tell (Policies_GetMetadata po k) (EvPoliciesMetadata k)),
         Policies_Get = (\<lambda>k. tell (Policies_Get po k) (EvPoliciesGet k)),
         Policies_Create = (\<lambda>i. tell (Policies_Create po i) (EvPoliciesCreate i)),
         Policies_Update = (\<lambda>k i. tell (Policies_Update po k i) (EvPoliciesUpdate k i)),
         Policies_Delete = (\<lambda>k. tell (Policies_Delete po k) (EvPoliciesDelete k))\<rparr>,
       Client_TunnelRoutes = \<lparr>Routes_List = (\<lambda>f. tell (Routes_List ro f) (EvRoutesList f)),
         Routes_Create = (\<lambda>i. tell (Routes_Create ro i) (EvRoutesCreate i)),
         Routes_Get = (\<lambda>k. tell (Routes_Get ro k) (EvRoutesGet k)),
         Routes_Edit = (\<lambda>k i. tell (Routes_Edit ro k i) (EvRoutesEdit k i)),
         Routes_Delete = (\<lambda>k. tell (Routes_Delete ro k) (EvRoutesDelete k))\<rparr>,
       Client_DNSRecords = \<lparr>DNSRecords_List = (\<lambda>z n t. tell (DNSRecords_List dn z n t) (EvDNSList z n t)),
         DNSRecords_Create = (\<lambda>i. tell (DNSRecords_Create dn i) (EvDNSCreate i)),
         DNSRecords_Update = (\<lambda>k i. tell (DNSRecords_Update dn k i) (EvDNSUpdate k i)),
         DNSRecords_Delete = (\<lambda>z k. tell (DNSRecords_Delete dn z k) (EvDNSDelete z k))\<rparr>,
       Client_Zones = \<lparr>Zones_List = lift_log (Zones_List zo),
         Zones_Resolve = (\<lambda>h. tell (Zones_Resolve zo h) (EvZone h))\<rparr>\<rparr>)"

interpretation logged_client: client_log "logged_client c" snd for c
  by unfold_locales (simp_all add: logged_client_def Let_def records_tell quiet_lift_log)

definition logged_new :: "('s, 's Client result) state \<Rightarrow> ('s \<times> call list, ('s \<times> call list) Client result) state" where
  "logged_new m = State (\<lambda>(s, l). case run_state m s of (res, s') \<Rightarrow> (map_result logged_client res, (s', l)))"

text \<open>The recording \<open>Base\<close>; \<open>ext\<close> holds the fields of the reconciler that extends it.\<close>

definition logged_base :: "('s, 'z) Base_scheme \<Rightarrow> 'y \<Rightarrow> ('s \<times> call list, 'y) Base_scheme" where
  "logged_base r ext = \<lparr>
     Base_GetExposure = (\<lambda>ns n. lift_log (Base_GetExposure r ns n)),
     Base_GetTunnel = (\<lambda>n. lift_log (Base_GetTunnel r n)),
     Base_GetAccessPolicy = (\<lambda>n. lift_log (Base_GetAccessPolicy r n)),
     Base_GetService = (\<lambda>ns n. lift_log (Base_GetService r ns n)),
     Base_GetHTTPRoute = (\<lambda>ns n. lift_log (Base_GetHTTPRoute r ns n)),
     Base_GetSecret = (\<lambda>ns n. lift_log (Base_GetSecret r ns n)),
     Base_ListExposures = (\<lambda>f v. tell (Base_ListExposures r f v) (EvListExposures f v)),
     Base_UpdateExposure = (\<lambda>e. tell (Base_UpdateExposure r e) (EvUpdate e)),
     Base_StatusUpdateExposure = (\<lambda>e. tell (Base_StatusUpdateExposure r e) (EvStatusUpdate e)),
     Base_Eventf = (\<lambda>m ty re msg. lift_log (Base_Eventf r m ty re msg)),
     Base_Metric = (\<lambda>mt ls. lift_log (Base_Metric r mt ls)),
     Base_WallClock = tell (Base_WallClock r) EvNow,
     Base_SetStatusCondition = Base_SetStatusCondition r,
     Base_FindStatusCondition = Base_FindStatusCondition r,
     Base_AddFinalizer = Base_AddFinalizer r,
     Base_ContainsFinalizer = Base_ContainsFinalizer r,
     Base_RemoveFinalizer = Base_RemoveFinalizer r,
     Base_NewCloudflareClient = map_option (\<lambda>new ref. logged_new (new ref)) (Base_NewCloudflareClient r),
     Base_New = (\<lambda>a t. logged_new (Base_New r a t)),
     \<dots> = ext\<rparr>"

lemma logged_base_sel [simp]:
  "Base_NewCloudflareClient (logged_base r ext) = map_option (\<lambda>new ref. logged_new (new ref)) (Base_NewCloudflareClient r)"
  "Base_New (logged_base r ext) = (\<lambda>a t. logged_new (Base_New r a t))"
  "Base_SetStatusCondition (logged_base r ext) = Base_SetStatusCondition r"
  "Base_FindStatusCondition (logged_base r ext) = Base_FindStatusCondition r"
  "Base_AddFinalizer (logged_base r ext) = Base_AddFinalizer r"
  "Base_ContainsFinalizer (logged_base r ext) = Base_ContainsFinalizer r"
  "Base_RemoveFinalizer (logged_base r ext) = Base_RemoveFinalizer r"
  by (simp_all add: logged_base_def)

lemma quiet_bind: "quiet log m \<Longrightarrow> (\<And>a. quiet log (k a)) \<Longrightarrow> quiet log (bind_st m k)"
  by (fastforce simp: quiet_def split: prod.splits)

lemma quiet_return: "quiet log (return_st a)"
  by (simp add: quiet_def)

lemma quiet_logged_new: "quiet snd (logged_new m)"
  by (auto simp: quiet_def logged_new_def split: prod.splits)

lemma quiet_Load_logged: "quiet snd (Load (logged_base r ext) ref)"
  unfolding Load_def
  by (rule quiet_bind) (auto simp: logged_base_def quiet_lift_log Let_def intro: quiet_return split: sum.splits)

lemma quiet_CloudflareClient_logged: "quiet snd (CloudflareClient (logged_base r ext) ref)"
proof (cases "Base_NewCloudflareClient r")
  case None
  then show ?thesis
    unfolding CloudflareClient_def
    by (auto intro!: quiet_bind quiet_return quiet_Load_logged quiet_logged_new split: sum.splits prod.splits)
next
  case (Some new)
  then show ?thesis by (simp add: CloudflareClient_def quiet_logged_new)
qed

lemma CloudflareClient_logged:
  "run_state (CloudflareClient (logged_base r ext) ref) s = (Inr c, s') \<Longrightarrow> \<exists>c0. c = logged_client c0"
  by (auto simp: CloudflareClient_def logged_new_def map_result_def
      split: option.splits prod.splits sum.splits)

interpretation logged_base: base_monitor "logged_base r ext" snd for r ext
proof (rule base_monitor.intro, goal_cases)
  case (12 ref)
  show ?case by (rule quiet_CloudflareClient_logged)
next
  case (13 ref s c s')
  then obtain c0 where "c = logged_client c0" using CloudflareClient_logged [OF 13] by blast
  then show ?case using logged_client.client_log_axioms by simp
qed (simp_all add: logged_base_def quiet_lift_log records_tell)

section \<open>Guards and triples\<close>

fun guarded :: "(call set \<Rightarrow> call \<Rightarrow> bool) \<Rightarrow> call list \<Rightarrow> bool" where
  "guarded ok [] = True"
| "guarded ok (e # l) = (ok (set l) e \<and> guarded ok l)"

lemma guarded_conj: "guarded (\<lambda>seen e. P seen e \<and> Q seen e) l \<longleftrightarrow> guarded P l \<and> guarded Q l"
  by (induction l) auto

lemma guarded_mono: "(\<And>seen e. P seen e \<Longrightarrow> Q seen e) \<Longrightarrow> guarded P l \<Longrightarrow> guarded Q l"
  by (induction l) auto

text \<open>What a guard says about a call anywhere in the record.\<close>

lemma guarded_split: "guarded ok (later @ e # earlier) \<Longrightarrow> ok (set earlier) e"
  by (induction later) auto

definition triple :: "('s \<Rightarrow> call list) \<Rightarrow> (call set \<Rightarrow> call \<Rightarrow> bool) \<Rightarrow> call set \<Rightarrow> ('s, 'a) state \<Rightarrow>
    ('a \<Rightarrow> call set \<Rightarrow> bool) \<Rightarrow> bool" where
  "triple log ok K m R \<longleftrightarrow> (\<forall>s a s'. guarded ok (log s) \<longrightarrow> K \<subseteq> set (log s) \<longrightarrow> run_state m s = (a, s') \<longrightarrow>
     guarded ok (log s') \<and> set (log s) \<subseteq> set (log s') \<and> R a (set (log s')))"

abbreviation safe :: "('s \<Rightarrow> call list) \<Rightarrow> (call set \<Rightarrow> call \<Rightarrow> bool) \<Rightarrow> call set \<Rightarrow> ('s, 'a) state \<Rightarrow> bool" where
  "safe log ok K m \<equiv> triple log ok K m (\<lambda>_ _. True)"

lemma tripleD: "triple log ok K m R \<Longrightarrow> guarded ok (log s) \<Longrightarrow> K \<subseteq> set (log s) \<Longrightarrow> run_state m s = (a, s') \<Longrightarrow>
    guarded ok (log s') \<and> set (log s) \<subseteq> set (log s') \<and> R a (set (log s'))"
  unfolding triple_def by blast

lemma triple_weaken: "triple log ok K m R \<Longrightarrow> K \<subseteq> K' \<Longrightarrow> (\<And>a seen. R a seen \<Longrightarrow> Q a seen) \<Longrightarrow> triple log ok K' m Q"
  unfolding triple_def by blast

lemma triple_safe: "triple log ok K m R \<Longrightarrow> safe log ok K m"
  by (erule triple_weaken) auto

lemma triple_return: "(\<And>seen. K \<subseteq> seen \<Longrightarrow> R a seen) \<Longrightarrow> triple log ok K (return_st a) R"
  by (simp add: triple_def)

lemma safe_return: "safe log ok K (return_st a)"
  by (simp add: triple_def)

lemma triple_bind:
  assumes "triple log ok K m Q"
    and "\<And>a seen. K \<subseteq> seen \<Longrightarrow> Q a seen \<Longrightarrow> triple log ok seen (k a) R"
  shows "triple log ok K (bind_st m k) R"
  unfolding triple_def
proof (intro allI impI)
  fix s b s'
  assume g: "guarded ok (log s)" "K \<subseteq> set (log s)" and run: "run_state (bind_st m k) s = (b, s')"
  obtain a s1 where m: "run_state m s = (a, s1)" by (cases "run_state m s")
  with run have k: "run_state (k a) s1 = (b, s')" by simp
  from tripleD [OF assms(1) g m] g(2)
  have "guarded ok (log s1)" "K \<subseteq> set (log s1)" "set (log s) \<subseteq> set (log s1)" "Q a (set (log s1))" by auto
  from tripleD [OF assms(2) [OF this(2,4)] this(1) subset_refl k] this(3)
  show "guarded ok (log s') \<and> set (log s) \<subseteq> set (log s') \<and> R b (set (log s'))" by auto
qed

text \<open>Calls: one that records nothing, and one that records a call the guard admits.\<close>

lemma triple_quiet: "quiet log m \<Longrightarrow> safe log ok K m"
  unfolding triple_def quiet_def by auto

text \<open>A guard that only asks for earlier calls is monotone in them.\<close>

locale guard =
  fixes ok :: "call set \<Rightarrow> call \<Rightarrow> bool"
  assumes ok_mono: "ok K e \<Longrightarrow> K \<subseteq> K' \<Longrightarrow> ok K' e"
begin

lemma triple_records:
  assumes "records log m f" and "\<And>a. ok K (f a)"
  shows "triple log ok K m (\<lambda>a seen. f a \<in> seen)"
  using assms(1) ok_mono [OF assms(2)] unfolding triple_def records_def by (metis guarded.simps(2) list.set_intros(1) set_subset_Cons)

lemma triple_bind_records:
  assumes "records log m f" and "\<And>a. ok K (f a)" and "\<And>a. triple log ok (insert (f a) K) (k a) R"
  shows "triple log ok K (bind_st m k) R"
proof (rule triple_bind [OF triple_records [OF assms(1,2)]])
  fix a seen assume "K \<subseteq> seen" "f a \<in> seen"
  then show "triple log ok seen (k a) R" by (intro triple_weaken [OF assms(3)]) auto
qed

end

lemma triple_bind_safe:
  assumes "safe log ok K m" and "\<And>a. triple log ok K (k a) R"
  shows "triple log ok K (bind_st m k) R"
  by (rule triple_bind [OF assms(1)]) (rule triple_weaken [OF assms(2)])

lemma triple_bind_quiet:
  "quiet log m \<Longrightarrow> (\<And>a. triple log ok K (k a) R) \<Longrightarrow> triple log ok K (bind_st m k) R"
  by (rule triple_bind_safe) (rule triple_quiet)

lemma triple_if: "(b \<Longrightarrow> triple log ok K m R) \<Longrightarrow> (\<not> b \<Longrightarrow> triple log ok K n R) \<Longrightarrow> triple log ok K (if b then m else n) R"
  by simp

lemma triple_let: "(\<And>x. x = t \<Longrightarrow> triple log ok K (f x) R) \<Longrightarrow> triple log ok K (let x = t in f x) R"
  by simp

lemma triple_case_sum:
  "(\<And>e. x = Inl e \<Longrightarrow> triple log ok K (f e) R) \<Longrightarrow> (\<And>v. x = Inr v \<Longrightarrow> triple log ok K (g v) R) \<Longrightarrow>
     triple log ok K (case x of Inl e \<Rightarrow> f e | Inr v \<Rightarrow> g v) R"
  by (cases x) auto

lemma triple_case_option:
  "(x = None \<Longrightarrow> triple log ok K m R) \<Longrightarrow> (\<And>v. x = Some v \<Longrightarrow> triple log ok K (g v) R) \<Longrightarrow>
     triple log ok K (case x of None \<Rightarrow> m | Some v \<Rightarrow> g v) R"
  by (cases x) auto

lemma triple_case_prod:
  "(\<And>a b. x = (a, b) \<Longrightarrow> triple log ok K (f a b) R) \<Longrightarrow> triple log ok K (case x of (a, b) \<Rightarrow> f a b) R"
  by (cases x) auto

lemma triple_case_bool:
  "(x \<Longrightarrow> triple log ok K m R) \<Longrightarrow> (\<not> x \<Longrightarrow> triple log ok K n R) \<Longrightarrow>
     triple log ok K (case x of True \<Rightarrow> m | False \<Rightarrow> n) R"
  by (cases x) auto

lemma triple_case_error:
  "(\<And>s. x = ErrNew s \<Longrightarrow> triple log ok K (f1 s) R) \<Longrightarrow> (\<And>a e b. x = ErrWrap a e b \<Longrightarrow> triple log ok K (f2 a e b) R) \<Longrightarrow>
     (\<And>a b. x = ErrStatus a b \<Longrightarrow> triple log ok K (f3 a b) R) \<Longrightarrow> (\<And>a b. x = ErrAPI a b \<Longrightarrow> triple log ok K (f4 a b) R) \<Longrightarrow>
     (\<And>hs. x = ErrHostnames hs \<Longrightarrow> triple log ok K (f5 hs) R) \<Longrightarrow> triple log ok K (case_error f1 f2 f3 f4 f5 x) R"
  by (cases x) auto

lemmas triple_syntax = triple_if triple_let triple_case_sum triple_case_option triple_case_prod triple_case_bool

lemma triple_case_list:
  "(x = [] \<Longrightarrow> triple log ok K m R) \<Longrightarrow> (\<And>v vs. x = v # vs \<Longrightarrow> triple log ok K (g v vs) R) \<Longrightarrow>
     triple log ok K (case x of [] \<Rightarrow> m | v # vs \<Rightarrow> g v vs) R"
  by (cases x) auto

text \<open>A new client is a recording one.\<close>

context base_monitor
begin

lemma triple_bind_new_client:
  assumes "\<And>e. triple log ok K (k (Inl e)) R" and "\<And>c. client_log c log \<Longrightarrow> triple log ok K (k (Inr c)) R"
  shows "triple log ok K (bind_st (CloudflareClient r ref) k) R"
proof (rule triple_bind)
  show "triple log ok K (CloudflareClient r ref) (\<lambda>res _. \<forall>c. res = Inr c \<longrightarrow> client_log c log)"
    using client [of ref] new_client by (auto simp: triple_def quiet_def)
  fix res :: "'s Client result" and seen
  assume "K \<subseteq> seen" "\<forall>c. res = Inr c \<longrightarrow> client_log c log"
  then show "triple log ok seen (k res) R" by (cases res) (auto intro: triple_weaken [OF assms(1)] triple_weaken [OF assms(2)])
qed

end

end
