(* ===== verification/Exposure_Status.thy ===== *)
theory Exposure_Status
  imports Kube Naming
begin

text \<open>
  The Exposure reconciler's own record (\<open>CloudflareExposureReconciler\<close>, which embeds \<open>Base\<close>) and the
  writers of an exposure's status: \<open>setExposureStatus\<close> and its two variants of
  \<open>cloudflareexposure_controller.go\<close>. Each re-reads the object, changes one part of its status and
  leaves the write to \<open>setReady\<close>.
\<close>

text \<open>
  \<open>Rec_Now\<close> and \<open>Rec_Rand\<close> are the injection seams: \<open>None\<close> is the wall clock, and \<open>Rec_Rand\<close>
  yields the outcome of the next \<open>Int63n\<close> for every bound.
\<close>

record 's ExposureReconciler = "'s Base" +
  Rec_HTTPRouteSourceEnabled :: bool
  Rec_SiteID :: string
  Rec_Now :: "('s, time) state option"
  Rec_Rand :: "('s, int \<Rightarrow> int) state"

definition rec_now :: "'s ExposureReconciler \<Rightarrow> ('s, time) state" where
  "rec_now r = (case Rec_Now r of Some f \<Rightarrow> f | None \<Rightarrow> Base_WallClock r)"

definition set_conditions :: "Condition list \<Rightarrow> CloudflareExposure \<Rightarrow> CloudflareExposure" where
  "set_conditions cs e = e\<lparr>E_Status := (E_Status e)\<lparr>EStatus_Conditions := cs\<rparr>\<rparr>"

definition set_cf_status :: "ExposureCloudflareStatus \<Rightarrow> CloudflareExposure \<Rightarrow> CloudflareExposure" where
  "set_cf_status st e = e\<lparr>E_Status := (E_Status e)\<lparr>EStatus_Cloudflare := st\<rparr>\<rparr>"

definition set_failover_status :: "ExposureFailoverStatus \<Rightarrow> CloudflareExposure \<Rightarrow> CloudflareExposure" where
  "set_failover_status st e = e\<lparr>E_Status := (E_Status e)\<lparr>EStatus_Failover := st\<rparr>\<rparr>"

abbreviation cf_status :: "CloudflareExposure \<Rightarrow> ExposureCloudflareStatus" where
  "cf_status e \<equiv> EStatus_Cloudflare (E_Status e)"

abbreviation failover_status :: "CloudflareExposure \<Rightarrow> ExposureFailoverStatus" where
  "failover_status e \<equiv> EStatus_Failover (E_Status e)"

text \<open>\<open>setReady\<close> on an exposure.\<close>

definition setReadyExposure :: "'s ExposureReconciler \<Rightarrow> CloudflareExposure \<Rightarrow> bool \<Rightarrow> string \<Rightarrow> string \<Rightarrow>
    (CloudflareExposure \<Rightarrow> CloudflareExposure) \<Rightarrow> ('s, unit result) state" where
  "setReadyExposure r latest ready reason message mutate =
     setReady r (\<lambda>e. EStatus_Conditions (E_Status e)) set_conditions (Base_StatusUpdateExposure r) latest
       (Meta_Generation (E_Meta latest)) ready reason message mutate"

definition setExposureStatus :: "'s ExposureReconciler \<Rightarrow> CloudflareExposure \<Rightarrow> ExposureCloudflareStatus \<Rightarrow> bool \<Rightarrow>
    string \<Rightarrow> string \<Rightarrow> ('s, unit result) state" where
  "setExposureStatus r exposure cfStatus ready reason message = do {
     got \<leftarrow> Base_GetExposure r (E_Namespace exposure) (E_Name exposure);
     case got of
       Inl e \<Rightarrow> return_st (Inl e)
     | Inr latest \<Rightarrow> setReadyExposure r latest ready reason message (set_cf_status cfStatus) }"

definition setExposureStatusAndBackoff :: "'s ExposureReconciler \<Rightarrow> CloudflareExposure \<Rightarrow> ExposureCloudflareStatus \<Rightarrow>
    string \<Rightarrow> ('s, unit result) state" where
  "setExposureStatusAndBackoff r exposure cfStatus message = do {
     res \<leftarrow> setExposureStatus r exposure cfStatus False ReasonDNSWriteFailed message;
     case res of
       Inl e \<Rightarrow> return_st (Inl e)
     | Inr _ \<Rightarrow> return_st (Inl (ErrNew (ReasonDNSWriteFailed @ '': '' @ message))) }"

definition setExposureStatusAndRequeue :: "'s ExposureReconciler \<Rightarrow> CloudflareExposure \<Rightarrow> ExposureCloudflareStatus \<Rightarrow>
    string \<Rightarrow> string \<Rightarrow> ('s, ctrl_Result \<times> unit result) state" where
  "setExposureStatusAndRequeue r exposure cfStatus reason message = do {
     res \<leftarrow> setExposureStatus r exposure cfStatus False reason message;
     case res of
       Inl e \<Rightarrow> return_st (no_result, Inl e)
     | Inr _ \<Rightarrow> return_st (after (30 * second), Inr ()) }"

end
