(* ===== verification/Lease.thy ===== *)
theory Lease
  imports Go_Time
begin

text \<open>
  \<open>internal/dr/lease.go\<close>: the payload of a failover lease record and its text form. The lemmas
  describe the parser by what it accepts (\<open>ParseLease_Inr_iff\<close>): five distinct keys with well-formed
  values, in any order. From this follow the round trip with \<open>Serialize\<close> and the independence of
  the token order.
\<close>

section \<open>The lease and its parser\<close>

definition LeaseSchemaVersion :: int where
  "LeaseSchemaVersion = 1"

definition ErrLeaseMalformed :: error where
  "ErrLeaseMalformed = ErrNew ''dr: malformed lease payload''"

record Lease =
  Lease_Version :: int
  Lease_Site :: string
  Lease_Tunnel :: string
  Lease_Expires :: time
  Lease_Renewed :: time

definition zero_Lease :: Lease where
  "zero_Lease = \<lparr>Lease_Version = 0, Lease_Site = [], Lease_Tunnel = [], Lease_Expires = 0, Lease_Renewed = 0\<rparr>"

text \<open>
  \<open>%q\<close>: double quotes around the argument, with Go's escapes for the ASCII bytes that have one; the
  bytes of other runes are left as they are. \<open>num_error\<close> is the text of a \<open>*strconv.NumError\<close>.
\<close>

definition quote_char :: "char \<Rightarrow> string" where
  "quote_char c = (let n = of_char c :: nat; named = map_of [(7, CHR ''a''), (8, CHR ''b''), (9, CHR ''t''), (10, CHR ''n''),
       (11, CHR ''v''), (12, CHR ''f''), (13, CHR ''r''), (0x22, CHR 0x22), (0x5C, CHR 0x5C)] n
     in case named of
          Some e \<Rightarrow> [CHR 0x5C, e]
        | None \<Rightarrow> if n < 32 \<or> n = 127 then [CHR 0x5C, CHR ''x''] @ hex_string [n] else [c])"

definition quoteq :: "string \<Rightarrow> string" where
  "quoteq s = CHR 0x22 # concat (map quote_char s) @ [CHR 0x22]"

definition num_error :: "string \<Rightarrow> string \<Rightarrow> string" where
  "num_error fn s = ''strconv.'' @ fn @ '': parsing '' @ quoteq s @
     (if s \<noteq> [] \<and> digits_val 0 (if hd s \<in> {CHR ''-'', CHR ''+''} then tl s else s) \<noteq> None
         \<and> tl s \<noteq> [] then '': value out of range'' else '': invalid syntax'')"

definition malformed :: "string \<Rightarrow> error" where
  "malformed detail = ErrWrap [] ErrLeaseMalformed ('': '' @ detail)"

text \<open>One round of the parser's loop: the lease read so far and the keys seen.\<close>

definition lease_token :: "Lease \<times> string list \<Rightarrow> string \<Rightarrow> (Lease \<times> string list) result" where
  "lease_token st tok =
     (case st of (out, seen) \<Rightarrow>
      (case str_cut ''='' tok of (k, v, ok) \<Rightarrow>
        if \<not> ok \<or> k = [] \<or> v = [] then Inl (malformed (''token '' @ quoteq tok @ '' is not key=value''))
        else if k \<in> set seen then Inl (malformed (''duplicate key '' @ quoteq k))
        else if k = ''v'' then
          (case parse_int v of
             None \<Rightarrow> Inl (malformed (''v='' @ quoteq v @ '': '' @ num_error ''Atoi'' v))
           | Some n \<Rightarrow> Inr (out\<lparr>Lease_Version := n\<rparr>, k # seen))
        else if k = ''site'' then Inr (out\<lparr>Lease_Site := v\<rparr>, k # seen)
        else if k = ''tunnel'' then Inr (out\<lparr>Lease_Tunnel := v\<rparr>, k # seen)
        else if k = ''exp'' then
          (case parse_int v of
             None \<Rightarrow> Inl (malformed (''exp='' @ quoteq v @ '': '' @ num_error ''ParseInt'' v))
           | Some ts \<Rightarrow> Inr (out\<lparr>Lease_Expires := time_Unix ts\<rparr>, k # seen))
        else if k = ''renewed'' then
          (case parse_int v of
             None \<Rightarrow> Inl (malformed (''renewed='' @ quoteq v @ '': '' @ num_error ''ParseInt'' v))
           | Some ts \<Rightarrow> Inr (out\<lparr>Lease_Renewed := time_Unix ts\<rparr>, k # seen))
        else Inl (malformed (''unknown key '' @ quoteq k))))"

fun lease_tokens :: "Lease \<times> string list \<Rightarrow> string list \<Rightarrow> (Lease \<times> string list) result" where
  "lease_tokens st [] = Inr st"
| "lease_tokens st (tok # toks) =
     (case lease_token st tok of Inl e \<Rightarrow> Inl e | Inr st' \<Rightarrow> lease_tokens st' toks)"

definition ParseLease :: "string \<Rightarrow> Lease result" where
  "ParseLease s =
     (let fields = Fields s
      in if fields = [] then Inl (malformed ''empty payload'')
         else (case lease_tokens (zero_Lease, []) fields of
             Inl e \<Rightarrow> Inl e
           | Inr (out, _) \<Rightarrow>
               if Lease_Version out \<noteq> LeaseSchemaVersion then
                 Inl (malformed (''v='' @ itoa (Lease_Version out) @ '' unsupported (want '' @ itoa LeaseSchemaVersion @ '')''))
               else if Lease_Site out = [] \<or> Lease_Tunnel out = [] \<or> IsZero (Lease_Expires out)
                 \<or> IsZero (Lease_Renewed out) then Inl (malformed ''missing required fields'')
               else Inr out))"

definition Serialize :: "Lease \<Rightarrow> string" where
  "Serialize l = ''v='' @ itoa (Lease_Version l) @ '' site='' @ Lease_Site l @ '' tunnel='' @ Lease_Tunnel l
     @ '' exp='' @ itoa (Unix (Lease_Expires l)) @ '' renewed='' @ itoa (Unix (Lease_Renewed l))"

definition Expired :: "Lease \<Rightarrow> time \<Rightarrow> bool" where
  "Expired l now \<longleftrightarrow> \<not> Before now (Lease_Expires l)"

section \<open>What the parser accepts\<close>

definition lease_keys :: "string list" where
  "lease_keys = [''v'', ''site'', ''tunnel'', ''exp'', ''renewed'']"

definition token_kv :: "string \<Rightarrow> string \<times> string" where
  "token_kv tok = (case str_cut ''='' tok of (k, v, _) \<Rightarrow> (k, v))"

text \<open>A token that is right on its own: a known key and a value of the key's type.\<close>

definition token_ok :: "string \<Rightarrow> bool" where
  "token_ok tok \<longleftrightarrow>
     (case str_cut ''='' tok of (k, v, ok) \<Rightarrow>
        ok \<and> v \<noteq> [] \<and> k \<in> set lease_keys \<and> (k \<in> {''v'', ''exp'', ''renewed''} \<longrightarrow> parse_int v \<noteq> None))"

definition tokens_ok :: "string list \<Rightarrow> string list \<Rightarrow> bool" where
  "tokens_ok seen toks \<longleftrightarrow> list_all token_ok toks \<and> distinct (map (fst \<circ> token_kv) toks) \<and>
     (\<forall>tok \<in> set toks. fst (token_kv tok) \<notin> set seen)"

text \<open>The lease that a set of key/value pairs describes, over the values already there.\<close>

definition with_fields :: "(string \<rightharpoonup> string) \<Rightarrow> Lease \<Rightarrow> Lease" where
  "with_fields m l =
     \<lparr>Lease_Version = (case m ''v'' of None \<Rightarrow> Lease_Version l | Some x \<Rightarrow> the (parse_int x)),
      Lease_Site = (case m ''site'' of None \<Rightarrow> Lease_Site l | Some x \<Rightarrow> x),
      Lease_Tunnel = (case m ''tunnel'' of None \<Rightarrow> Lease_Tunnel l | Some x \<Rightarrow> x),
      Lease_Expires = (case m ''exp'' of None \<Rightarrow> Lease_Expires l | Some x \<Rightarrow> time_Unix (the (parse_int x))),
      Lease_Renewed = (case m ''renewed'' of None \<Rightarrow> Lease_Renewed l | Some x \<Rightarrow> time_Unix (the (parse_int x)))\<rparr>"

lemma with_fields_empty [simp]: "with_fields Map.empty l = l"
  by (simp add: with_fields_def)

lemma lease_token_Inr_iff:
  "lease_token (out, seen) tok = Inr st \<longleftrightarrow>
     token_ok tok \<and> fst (token_kv tok) \<notin> set seen \<and>
     st = (with_fields (map_of [token_kv tok]) out, fst (token_kv tok) # seen)"
proof -
  obtain k v ok where cut: "str_cut ''='' tok = (k, v, ok)" by (cases "str_cut ''='' tok")
  note defs = lease_token_def token_ok_def token_kv_def lease_keys_def cut
  show ?thesis
  proof (cases "k \<in> {''v'', ''exp'', ''renewed''}")
    case True
    then show ?thesis by (cases "parse_int v") (auto simp: defs with_fields_def)
  next
    case False
    then consider "k = ''site''" | "k = ''tunnel''" | "k \<notin> set lease_keys"
      by (auto simp: lease_keys_def)
    then show ?thesis
    proof cases
      case 1
      then show ?thesis by (auto simp: lease_token_def token_ok_def token_kv_def lease_keys_def cut [unfolded 1] with_fields_def)
    next
      case 2
      then show ?thesis by (auto simp: lease_token_def token_ok_def token_kv_def lease_keys_def cut [unfolded 2] with_fields_def)
    next
      case 3
      then have "\<not> token_ok tok" by (simp add: token_ok_def cut)
      moreover have "lease_token (out, seen) tok \<noteq> Inr st"
        using 3 by (simp add: lease_token_def cut lease_keys_def)
      ultimately show ?thesis by blast
    qed
  qed
qed

lemma with_fields_compose:
  "k \<notin> dom m \<Longrightarrow> with_fields m (with_fields (map_of [(k, v)]) l) = with_fields (m(k \<mapsto> v)) l"
  by (rule Lease.equality) (auto simp: with_fields_def domIff split: option.split)

lemma lease_tokens_Inr_iff:
  "(\<exists>sn. lease_tokens (out, seen) toks = Inr (out', sn)) \<longleftrightarrow>
     tokens_ok seen toks \<and> out' = with_fields (map_of (map token_kv toks)) out"
proof (induction toks arbitrary: out seen)
  case Nil
  then show ?case by (auto simp: tokens_ok_def)
next
  case (Cons tok toks)
  let ?k = "fst (token_kv tok)"
  let ?out = "with_fields (map_of [token_kv tok]) out"
  have step: "(\<exists>sn. lease_tokens (out, seen) (tok # toks) = Inr (out', sn)) \<longleftrightarrow>
      (token_ok tok \<and> ?k \<notin> set seen \<and> (\<exists>sn. lease_tokens (?out, ?k # seen) toks = Inr (out', sn)))"
  proof (cases "lease_token (out, seen) tok")
    case (Inl e)
    with lease_token_Inr_iff [of out seen tok "(?out, ?k # seen)"] show ?thesis by auto
  next
    case (Inr st)
    with lease_token_Inr_iff [of out seen tok st] show ?thesis by auto
  qed
  have ok: "tokens_ok seen (tok # toks) \<longleftrightarrow> token_ok tok \<and> ?k \<notin> set seen \<and> tokens_ok (?k # seen) toks"
    by (auto simp: tokens_ok_def image_iff)
  have fields: "with_fields (map_of (map token_kv toks)) ?out = with_fields (map_of (map token_kv (tok # toks))) out"
    if "tokens_ok (?k # seen) toks"
  proof -
    have "?k \<notin> dom (map_of (map token_kv toks))"
      using that by (auto simp: tokens_ok_def dom_map_of_conv_image_fst image_image)
    from with_fields_compose [OF this] show ?thesis by (cases "token_kv tok") simp
  qed
  show ?case unfolding step ok Cons.IH using fields by metis
qed

text \<open>The requirements after the loop: the schema version and no field left at its zero value.\<close>

definition lease_complete :: "Lease \<Rightarrow> bool" where
  "lease_complete l \<longleftrightarrow> Lease_Version l = LeaseSchemaVersion \<and> Lease_Site l \<noteq> [] \<and> Lease_Tunnel l \<noteq> [] \<and>
     Lease_Expires l \<noteq> 0 \<and> Lease_Renewed l \<noteq> 0"

lemma lease_complete_nonzero: "\<not> lease_complete zero_Lease"
  by (simp add: lease_complete_def zero_Lease_def LeaseSchemaVersion_def)

lemma ParseLease_Inr_iff:
  "ParseLease s = Inr l \<longleftrightarrow>
     tokens_ok [] (Fields s) \<and> l = with_fields (map_of (map token_kv (Fields s))) zero_Lease \<and> lease_complete l"
proof (cases "lease_tokens (zero_Lease, []) (Fields s)")
  case (Inl e)
  with lease_tokens_Inr_iff [of zero_Lease "[]" "Fields s"] show ?thesis
    by (auto simp: ParseLease_def Let_def)
next
  case (Inr p)
  obtain out sn where p: "p = (out, sn)" by (cases p)
  with Inr lease_tokens_Inr_iff [of zero_Lease "[]" "Fields s" out]
  have "tokens_ok [] (Fields s)" "out = with_fields (map_of (map token_kv (Fields s))) zero_Lease"
    by auto
  moreover from this lease_complete_nonzero have "lease_complete out \<Longrightarrow> Fields s \<noteq> []" by auto
  then have "ParseLease s = Inr l \<longleftrightarrow> l = out \<and> lease_complete out"
    using Inr p by (auto simp: ParseLease_def Let_def lease_complete_def IsZero_def)
  ultimately show ?thesis by blast
qed

lemma ParseLease_complete: "ParseLease s = Inr l \<Longrightarrow> lease_complete l"
  unfolding ParseLease_Inr_iff by blast

text \<open>The errors are all of the malformed kind.\<close>

lemma lease_token_Inl: "lease_token st tok = Inl e \<Longrightarrow> errors_Is e ErrLeaseMalformed"
  by (cases st; cases "str_cut ''='' tok")
     (auto simp: lease_token_def malformed_def split: if_splits option.splits)

lemma lease_tokens_Inl: "lease_tokens st toks = Inl e \<Longrightarrow> errors_Is e ErrLeaseMalformed"
  by (induction toks arbitrary: st) (auto dest: lease_token_Inl split: sum.splits)

lemma ParseLease_Inl: "ParseLease s = Inl e \<Longrightarrow> errors_Is e ErrLeaseMalformed"
  by (auto simp: ParseLease_def Let_def malformed_def dest: lease_tokens_Inl
      split: if_splits sum.splits prod.splits)

section \<open>Round trip and token order\<close>

lemma str_cut_token: "CHR ''='' \<notin> set k \<Longrightarrow> str_cut ''='' (k @ ''='' @ v) = (k, v, True)"
  using str_cut_char [of "CHR ''=''" k v] by simp

lemma is_word_token: "is_word k \<Longrightarrow> is_word v \<Longrightarrow> is_word (k @ ''='' @ v)"
  by (simp add: is_word_def word_char_def)

definition serialized_tokens :: "Lease \<Rightarrow> string list" where
  "serialized_tokens l = [''v'' @ ''='' @ itoa (Lease_Version l), ''site'' @ ''='' @ Lease_Site l,
     ''tunnel'' @ ''='' @ Lease_Tunnel l, ''exp'' @ ''='' @ itoa (Unix (Lease_Expires l)),
     ''renewed'' @ ''='' @ itoa (Unix (Lease_Renewed l))]"

lemma Fields_Serialize:
  assumes "is_word (Lease_Site l)" and "is_word (Lease_Tunnel l)"
  shows "Fields (Serialize l) = serialized_tokens l"
proof -
  have "list_all is_word (serialized_tokens l)"
    unfolding serialized_tokens_def list.pred_inject
    by (intro conjI is_word_token assms is_word_itoa) (auto simp: is_word_def word_char_def)
  moreover have "Join (serialized_tokens l) '' '' = Serialize l"
    by (simp add: serialized_tokens_def Serialize_def)
  moreover have "serialized_tokens l \<noteq> []" by (simp add: serialized_tokens_def)
  ultimately show ?thesis using fields_word [of "serialized_tokens l"] by simp
qed

lemma token_kv_serialized:
  "map token_kv (serialized_tokens l) =
     [(''v'', itoa (Lease_Version l)), (''site'', Lease_Site l), (''tunnel'', Lease_Tunnel l),
      (''exp'', itoa (Unix (Lease_Expires l))), (''renewed'', itoa (Unix (Lease_Renewed l)))]"
  unfolding serialized_tokens_def list.map token_kv_def by (subst str_cut_token, simp)+ simp

lemma tokens_ok_serialized:
  assumes "Lease_Site l \<noteq> []" "Lease_Tunnel l \<noteq> []" "- (2 ^ 63) \<le> Lease_Version l" "Lease_Version l < 2 ^ 63"
  shows "tokens_ok [] (serialized_tokens l)"
proof -
  have "parse_int (itoa (Unix t)) = Some (Unix t)" for t
    using Unix_range by (intro parse_int_itoa) auto
  moreover have "parse_int (itoa (Lease_Version l)) = Some (Lease_Version l)"
    using assms by (intro parse_int_itoa)
  ultimately have "list_all token_ok (serialized_tokens l)"
    using assms unfolding serialized_tokens_def list.pred_inject token_ok_def
    by (subst str_cut_token, simp)+ (simp add: lease_keys_def)
  moreover have "distinct (map (fst \<circ> token_kv) (serialized_tokens l))"
    using arg_cong [OF token_kv_serialized, of "map fst"] by simp
  ultimately show ?thesis by (simp add: tokens_ok_def)
qed

lemma ParseLease_serialized:
  assumes "Lease_Version l = LeaseSchemaVersion" and "is_word (Lease_Site l)" and "is_word (Lease_Tunnel l)"
    and "sane_time (Lease_Expires l)" and "sane_time (Lease_Renewed l)"
    and "trunc_sec (Lease_Expires l) \<noteq> 0" and "trunc_sec (Lease_Renewed l) \<noteq> 0"
  shows "ParseLease (Serialize l) = Inr (l\<lparr>Lease_Expires := trunc_sec (Lease_Expires l),
           Lease_Renewed := trunc_sec (Lease_Renewed l)\<rparr>)"
proof -
  let ?l = "l\<lparr>Lease_Expires := trunc_sec (Lease_Expires l), Lease_Renewed := trunc_sec (Lease_Renewed l)\<rparr>"
  have ne: "Lease_Site l \<noteq> []" "Lease_Tunnel l \<noteq> []" using assms(2,3) by (auto simp: is_word_def)
  have int: "parse_int (itoa (Unix t)) = Some (Unix t)" for t
    using Unix_range by (intro parse_int_itoa) auto
  have trip: "time_Unix (Unix (Lease_Expires l)) = trunc_sec (Lease_Expires l)"
    "time_Unix (Unix (Lease_Renewed l)) = trunc_sec (Lease_Renewed l)"
    using assms(4,5) by (auto intro!: time_Unix_Unix dest: sane_time_div)
  have "with_fields (map_of (map token_kv (serialized_tokens l))) zero_Lease = ?l"
    unfolding token_kv_serialized by (simp add: with_fields_def int trip parse_int_itoa assms(1) LeaseSchemaVersion_def)
  moreover have "tokens_ok [] (serialized_tokens l)"
    using ne assms(1) by (intro tokens_ok_serialized) (auto simp: LeaseSchemaVersion_def)
  moreover have "lease_complete ?l" using assms ne by (simp add: lease_complete_def)
  ultimately show ?thesis unfolding ParseLease_Inr_iff Fields_Serialize [OF assms(2,3)] by simp
qed

text \<open>
  C29: A lease survives the trip through its TXT record. A lease of the schema version whose site and
  tunnel are words (no white space), with times that fit and are not the zero time after dropping
  sub-seconds, is parsed back from its serialised form with both times cut to whole seconds; in
  particular the parsed lease never expires later than the one that was written.
\<close>

theorem ParseLease_Serialize:
  assumes "Lease_Version l = LeaseSchemaVersion" and "is_word (Lease_Site l)" and "is_word (Lease_Tunnel l)"
    and "sane_time (Lease_Expires l)" and "sane_time (Lease_Renewed l)"
    and "trunc_sec (Lease_Expires l) \<noteq> 0" and "trunc_sec (Lease_Renewed l) \<noteq> 0"
  shows "ParseLease (Serialize l) = Inr (l\<lparr>Lease_Expires := trunc_sec (Lease_Expires l),
           Lease_Renewed := trunc_sec (Lease_Renewed l)\<rparr>) \<and>
         (\<forall>now. Expired l now \<longrightarrow> Expired (l\<lparr>Lease_Expires := trunc_sec (Lease_Expires l)\<rparr>) now)"
proof -
  have "Expired l now \<longrightarrow> Expired (l\<lparr>Lease_Expires := trunc_sec (Lease_Expires l)\<rparr>) now" for now
    using trunc_sec_le [of "Lease_Expires l"] by (auto simp: Expired_def Before_def)
  with ParseLease_serialized [OF assms] show ?thesis by blast
qed

definition example_lease :: Lease where
  "example_lease = \<lparr>Lease_Version = 1, Lease_Site = ''akl'', Lease_Tunnel = ''0b1c-6a2e'',
     Lease_Expires = 63900000123000000000, Lease_Renewed = 63900000033500000000\<rparr>"

theorem ParseLease_Serialize_witness:
  "ParseLease (Serialize example_lease) = Inr (example_lease\<lparr>Lease_Renewed := 63900000033000000000\<rparr>)"
  using ParseLease_Serialize [of example_lease]
  by (simp add: example_lease_def LeaseSchemaVersion_def is_word_def word_char_def sane_time_def trunc_sec_def second_def)

text \<open>
  C30: The parser is strict and indifferent to the order of the tokens. A payload is accepted only if
  its tokens are exactly one each of \<open>v\<close>, \<open>site\<close>, \<open>tunnel\<close>, \<open>exp\<close> and \<open>renewed\<close>, and then the lease
  has the schema version and no empty or zero field; any other payload with the same tokens in a
  different order or with different white space gives the same lease. Every rejection is
  an \<open>ErrLeaseMalformed\<close>.
\<close>

theorem ParseLease_strict:
  "(case ParseLease s of
      Inl e \<Rightarrow> errors_Is e ErrLeaseMalformed
    | Inr l \<Rightarrow> distinct (map (fst \<circ> token_kv) (Fields s)) \<and> set (map (fst \<circ> token_kv) (Fields s)) = set lease_keys \<and>
        lease_complete l \<and> (\<forall>s'. mset (Fields s') = mset (Fields s) \<longrightarrow> ParseLease s' = Inr l))"
proof (cases "ParseLease s")
  case (Inl e)
  then show ?thesis by (simp add: ParseLease_Inl)
next
  case (Inr l)
  let ?kvs = "map token_kv (Fields s)"
  from Inr have ok: "tokens_ok [] (Fields s)" and l: "l = with_fields (map_of ?kvs) zero_Lease"
    and comp: "lease_complete l"
    unfolding ParseLease_Inr_iff by blast+
  have dist: "distinct (map fst ?kvs)" using ok by (simp add: tokens_ok_def)
  have "fst (token_kv tok) \<in> set lease_keys" if "tok \<in> set (Fields s)" for tok
    using ok that by (auto simp: tokens_ok_def list_all_iff token_ok_def token_kv_def split: prod.splits)
  moreover have "k \<in> dom (map_of ?kvs)" if "k \<in> set lease_keys" for k
    using comp that unfolding l lease_keys_def
    by (auto simp: lease_complete_def with_fields_def zero_Lease_def LeaseSchemaVersion_def split: option.splits)
  ultimately have keys: "set (map (fst \<circ> token_kv) (Fields s)) = set lease_keys"
    by (auto simp: dom_map_of_conv_image_fst)
  have "ParseLease s' = Inr l" if m: "mset (Fields s') = mset (Fields s)" for s'
  proof -
    let ?kvs' = "map token_kv (Fields s')"
    have ms: "mset ?kvs' = mset ?kvs" using m by simp
    have "distinct (map fst ?kvs')" using dist ms by (metis mset_eq_imp_distinct_iff mset_map)
    with dist ms have "map_of ?kvs' = map_of ?kvs" by (metis map_of_inject_set mset_eq_setD)
    moreover have "tokens_ok [] (Fields s')"
      using ok m mset_eq_setD [OF m] mset_eq_imp_distinct_iff [of "map (fst \<circ> token_kv) (Fields s')" "map (fst \<circ> token_kv) (Fields s)"]
      by (simp add: tokens_ok_def list_all_iff)
    ultimately show ?thesis unfolding ParseLease_Inr_iff using l comp by simp
  qed
  with Inr dist keys comp show ?thesis by simp
qed

theorem ParseLease_strict_witness:
  "ParseLease ''exp=99 site=akl v=1  renewed=9 tunnel=t1'' = ParseLease ''v=1 site=akl tunnel=t1 exp=99 renewed=9''
   \<and> errors_Is (projl (ParseLease ''v=1 site=akl site=wlg tunnel=t1 exp=1 renewed=1'')) ErrLeaseMalformed"
proof -
  let ?s = "''v=1 site=akl tunnel=t1 exp=99 renewed=9''"
  let ?s' = "''exp=99 site=akl v=1  renewed=9 tunnel=t1''"
  let ?d = "''v=1 site=akl site=wlg tunnel=t1 exp=1 renewed=1''"
  have "isl (ParseLease ?s) = False" by code_simp
  then obtain l where l: "ParseLease ?s = Inr l" by (cases "ParseLease ?s") auto
  have "mset (Fields ?s') = mset (Fields ?s)" by code_simp
  with l ParseLease_strict [of ?s] have "ParseLease ?s' = Inr l" by simp
  moreover have "isl (ParseLease ?d)" by code_simp
  with ParseLease_strict [of ?d] have "errors_Is (projl (ParseLease ?d)) ErrLeaseMalformed"
    by (cases "ParseLease ?d") auto
  ultimately show ?thesis using l by simp
qed

end
