(* ===== verification/Lease_Resolve.thy ===== *)
theory Lease_Resolve
  imports Lease
begin

text \<open>
  \<open>internal/dr/resolve.go\<close>: the verdict over the lease records found at one name. The comparison of
  the records is an instance of the locale \<open>slice_less\<close>; the lemmas identify the winner as the least
  candidate, show that both sites compute the same one, and that the deletions leave only it.
\<close>

record LeaseRecord =
  LeaseRecord_ID :: string
  LeaseRecord_Lease :: Lease

record Resolution =
  WinnerID :: string
  WinnerSite :: string
  IAmWinner :: bool
  DeleteIDs :: "string list"

text \<open>The comparison passed to \<open>sort.Slice\<close>.\<close>

definition lease_record_less :: "LeaseRecord \<Rightarrow> LeaseRecord \<Rightarrow> bool" where
  "lease_record_less r1 r2 =
     (if Lease_Site (LeaseRecord_Lease r1) \<noteq> Lease_Site (LeaseRecord_Lease r2)
      then Lease_Site (LeaseRecord_Lease r1) < Lease_Site (LeaseRecord_Lease r2)
      else LeaseRecord_ID r1 < LeaseRecord_ID r2)"

interpretation lr_less: slice_less lease_record_less
  by unfold_locales (auto simp: lease_record_less_def split: if_splits)

text \<open>The unexpired records, or all of them when every one is expired.\<close>

definition lease_candidates :: "LeaseRecord list \<Rightarrow> time \<Rightarrow> LeaseRecord list" where
  "lease_candidates records now =
     (let candidates = filter (\<lambda>r. \<not> Expired (LeaseRecord_Lease r) now) records
      in if candidates = [] then records else candidates)"

definition Resolve :: "LeaseRecord list \<Rightarrow> time \<Rightarrow> string \<Rightarrow> Resolution" where
  "Resolve records now mySite =
     (case sort_slice lease_record_less (lease_candidates records now) of
        [] \<Rightarrow> \<lparr>WinnerID = [], WinnerSite = [], IAmWinner = False, DeleteIDs = []\<rparr>
      | winner # _ \<Rightarrow>
          (let amWinner = (Lease_Site (LeaseRecord_Lease winner) = mySite)
           in \<lparr>WinnerID = LeaseRecord_ID winner,
               WinnerSite = Lease_Site (LeaseRecord_Lease winner),
               IAmWinner = amWinner,
               DeleteIDs = map LeaseRecord_ID (filter (\<lambda>r. LeaseRecord_ID r \<noteq> LeaseRecord_ID winner \<and>
                  (amWinner \<or> Lease_Site (LeaseRecord_Lease r) = mySite)) records)\<rparr>))"

section \<open>The winner\<close>

text \<open>
  The specification: a winner is a candidate that no other candidate precedes. With distinct record
  IDs there is only one.
\<close>

definition is_winner :: "LeaseRecord list \<Rightarrow> time \<Rightarrow> LeaseRecord \<Rightarrow> bool" where
  "is_winner records now w \<longleftrightarrow>
     w \<in> set (lease_candidates records now) \<and>
     list_all (\<lambda>r. \<not> lease_record_less r w) (lease_candidates records now)"

lemma lease_candidates_subset: "set (lease_candidates records now) \<subseteq> set records"
  by (auto simp: lease_candidates_def Let_def)

lemma lease_candidates_eq_Nil [simp]: "lease_candidates records now = [] \<longleftrightarrow> records = []"
  by (auto simp: lease_candidates_def Let_def)

lemma Resolve_winner:
  assumes "records \<noteq> []"
  obtains w where "is_winner records now w"
    "Resolve records now mySite = \<lparr>WinnerID = LeaseRecord_ID w,
       WinnerSite = Lease_Site (LeaseRecord_Lease w),
       IAmWinner = (Lease_Site (LeaseRecord_Lease w) = mySite),
       DeleteIDs = map LeaseRecord_ID (filter (\<lambda>r. LeaseRecord_ID r \<noteq> LeaseRecord_ID w \<and>
         (Lease_Site (LeaseRecord_Lease w) = mySite \<or> Lease_Site (LeaseRecord_Lease r) = mySite)) records)\<rparr>"
proof -
  let ?c = "lease_candidates records now"
  obtain w ws where ws: "sort_slice lease_record_less ?c = w # ws"
    using assms by (metis lease_candidates_eq_Nil neq_Nil_conv sort_slice_eq_Nil)
  then have "w \<in> set ?c" by (metis list.set_intros(1) set_sort_slice)
  moreover have "list_all (\<lambda>r. \<not> lease_record_less r w) ?c"
    using lr_less.sort_slice_head_minimal [OF ws] by (simp add: list_all_iff)
  ultimately have "is_winner records now w" by (simp add: is_winner_def)
  with ws that show thesis by (simp add: Resolve_def Let_def)
qed

lemma is_winner_unique:
  assumes "distinct (map LeaseRecord_ID records)" "is_winner records now w" "is_winner records now w'"
  shows "w = w'"
proof -
  have "\<not> lease_record_less w w'" "\<not> lease_record_less w' w"
    using assms(2,3) by (auto simp: is_winner_def list_all_iff)
  then have "LeaseRecord_ID w = LeaseRecord_ID w'"
    by (auto simp: lease_record_less_def not_less split: if_splits)
  moreover have "w \<in> set records" "w' \<in> set records"
    using assms(2,3) lease_candidates_subset by (auto simp: is_winner_def)
  ultimately show ?thesis using assms(1) by (simp add: distinct_map inj_on_def)
qed

text \<open>The winner depends on the records as a set, and survives the removal of others.\<close>

lemma lease_candidates_set:
  "set (lease_candidates records now) =
     (if \<exists>r \<in> set records. \<not> Expired (LeaseRecord_Lease r) now
      then {r \<in> set records. \<not> Expired (LeaseRecord_Lease r) now} else set records)"
  by (auto simp: lease_candidates_def Let_def filter_empty_conv)

lemma is_winner_subset:
  assumes "is_winner records now w" and "set records' \<subseteq> set records" and "w \<in> set records'"
  shows "is_winner records' now w"
  using assms unfolding is_winner_def list_all_iff lease_candidates_set
  by (auto split: if_splits)

lemma Resolve_same_winner:
  assumes "distinct (map LeaseRecord_ID records)" and "is_winner records now w"
    and "set records' \<subseteq> set records" and "w \<in> set records'" and "distinct (map LeaseRecord_ID records')"
  shows "WinnerID (Resolve records' now site) = LeaseRecord_ID w \<and>
         WinnerSite (Resolve records' now site) = Lease_Site (LeaseRecord_Lease w)"
proof -
  from assms(4) have "records' \<noteq> []" by auto
  then obtain w' where "is_winner records' now w'" and r: "WinnerID (Resolve records' now site) = LeaseRecord_ID w'"
      "WinnerSite (Resolve records' now site) = Lease_Site (LeaseRecord_Lease w')"
    by (rule Resolve_winner [where mySite = site and now = now]) simp
  with is_winner_unique [OF assms(5) is_winner_subset [OF assms(2-4)]] show ?thesis by simp
qed

lemma Resolve_winner_not_deleted: "WinnerID (Resolve records now site) \<notin> set (DeleteIDs (Resolve records now site))"
  by (auto simp: Resolve_def Let_def split: list.splits)

text \<open>
  C15: Both sites agree on the surviving lease. Given the same group-owned records with distinct
  record IDs, in whatever order each site lists them, and also after either site has deleted any of
  the records its verdict names, every site computes the same winner; no site's verdict ever deletes
  the winner; the winner is unexpired if any record is, and has the lowest site among the candidates.
\<close>

theorem Resolve_agreement:
  assumes "distinct (map LeaseRecord_ID records)" and "records \<noteq> []"
    and "set records' \<subseteq> set records" and "distinct (map LeaseRecord_ID records')"
    and "\<forall>r \<in> set records - set records'. LeaseRecord_ID r \<in> set (DeleteIDs (Resolve records now site1))
           \<or> LeaseRecord_ID r \<in> set (DeleteIDs (Resolve records now site2))"
  shows "WinnerID (Resolve records' now site2) = WinnerID (Resolve records now site1) \<and>
     WinnerSite (Resolve records' now site2) = WinnerSite (Resolve records now site1) \<and>
     WinnerID (Resolve records now site1) \<notin> set (DeleteIDs (Resolve records' now site2)) \<and>
     (\<exists>w \<in> set records. LeaseRecord_ID w = WinnerID (Resolve records now site1) \<and>
        ((\<exists>r \<in> set records. \<not> Expired (LeaseRecord_Lease r) now) \<longrightarrow> \<not> Expired (LeaseRecord_Lease w) now) \<and>
        (\<forall>r \<in> set records. (Expired (LeaseRecord_Lease w) now \<or> \<not> Expired (LeaseRecord_Lease r) now) \<longrightarrow>
           Lease_Site (LeaseRecord_Lease w) \<le> Lease_Site (LeaseRecord_Lease r)))"
proof -
  obtain w where w: "is_winner records now w" using Resolve_winner [OF assms(2)] by blast
  then have win: "w \<in> set records" using lease_candidates_subset by (auto simp: is_winner_def)
  have same: "WinnerID (Resolve records now s) = LeaseRecord_ID w"
    "WinnerSite (Resolve records now s) = Lease_Site (LeaseRecord_Lease w)" for s
    using Resolve_same_winner [OF assms(1) w subset_refl win assms(1)] by simp_all
  have "w \<in> set records'"
    using assms(5) win Resolve_winner_not_deleted [of records now site1]
      Resolve_winner_not_deleted [of records now site2] unfolding same by auto
  then have "WinnerID (Resolve records' now site2) = LeaseRecord_ID w"
    "WinnerSite (Resolve records' now site2) = Lease_Site (LeaseRecord_Lease w)"
    using Resolve_same_winner [OF assms(1) w assms(3) _ assms(4)] by simp_all
  moreover have "\<not> Expired (LeaseRecord_Lease w) now"
    if "\<exists>r \<in> set records. \<not> Expired (LeaseRecord_Lease r) now"
    using w that unfolding is_winner_def lease_candidates_set by simp
  moreover have "Lease_Site (LeaseRecord_Lease w) \<le> Lease_Site (LeaseRecord_Lease r)"
    if "r \<in> set records" "Expired (LeaseRecord_Lease w) now \<or> \<not> Expired (LeaseRecord_Lease r) now" for r
    using w that unfolding is_winner_def list_all_iff lease_candidates_set
    by (force simp: lease_record_less_def split: if_splits)
  ultimately show ?thesis using win Resolve_winner_not_deleted [of records' now site2] same by auto
qed

text \<open>
  C16: One pass of the winning site leaves exactly one lease. Given records with distinct IDs, once
  the site that owns the winner has deleted what its verdict names, the winner is the only record
  left; a site that does not own the winner deletes records of its own only, and no record of its own
  is left after it has.
\<close>

theorem Resolve_converges:
  assumes "distinct (map LeaseRecord_ID records)" and "records \<noteq> []"
  shows "if IAmWinner (Resolve records now mySite)
    then map LeaseRecord_ID (filter (\<lambda>r. LeaseRecord_ID r \<notin> set (DeleteIDs (Resolve records now mySite))) records)
           = [WinnerID (Resolve records now mySite)]
    else \<forall>r \<in> set records. LeaseRecord_ID r \<in> set (DeleteIDs (Resolve records now mySite)) \<longleftrightarrow>
           Lease_Site (LeaseRecord_Lease r) = mySite"
proof -
  obtain w where w: "is_winner records now w" and r: "Resolve records now mySite = \<lparr>WinnerID = LeaseRecord_ID w,
       WinnerSite = Lease_Site (LeaseRecord_Lease w),
       IAmWinner = (Lease_Site (LeaseRecord_Lease w) = mySite),
       DeleteIDs = map LeaseRecord_ID (filter (\<lambda>r. LeaseRecord_ID r \<noteq> LeaseRecord_ID w \<and>
         (Lease_Site (LeaseRecord_Lease w) = mySite \<or> Lease_Site (LeaseRecord_Lease r) = mySite)) records)\<rparr>"
    by (rule Resolve_winner [OF assms(2)])
  have inj: "inj_on LeaseRecord_ID (set records)" using assms(1) by (simp add: distinct_map)
  have win: "w \<in> set records" using w lease_candidates_subset by (auto simp: is_winner_def)
  show ?thesis
  proof (cases "Lease_Site (LeaseRecord_Lease w) = mySite")
    case True
    have "filter (\<lambda>r. LeaseRecord_ID r \<notin> set (DeleteIDs (Resolve records now mySite))) records
        = filter (\<lambda>r. LeaseRecord_ID r = LeaseRecord_ID w) records"
      using True by (intro filter_cong) (auto simp: r)
    also have "\<dots> = filter (\<lambda>r. r = w) records"
      using inj win by (intro filter_cong) (auto simp: inj_on_def)
    also have "\<dots> = [w]"
      using win assms(1) by (intro filter_eq_single) (simp_all add: distinct_map)
    finally show ?thesis using True by (simp add: r)
  next
    case False
    have "LeaseRecord_ID x \<noteq> LeaseRecord_ID w" if "x \<in> set records" "Lease_Site (LeaseRecord_Lease x) = mySite" for x
      using inj win that False by (auto simp: inj_on_def)
    with False inj show ?thesis by (auto simp: r inj_on_def)
  qed
qed

definition example_record :: "string \<Rightarrow> string \<Rightarrow> time \<Rightarrow> LeaseRecord" where
  "example_record ident site expires = \<lparr>LeaseRecord_ID = ident, LeaseRecord_Lease =
     \<lparr>Lease_Version = 1, Lease_Site = site, Lease_Tunnel = ''t'', Lease_Expires = expires, Lease_Renewed = 1\<rparr>\<rparr>"

theorem Resolve_agreement_witness:
  "WinnerID (Resolve [example_record ''r2'' ''wlg'' 90, example_record ''r1'' ''akl'' 90] 10 ''wlg'') = ''r1'' \<and>
   WinnerID (Resolve [example_record ''r1'' ''akl'' 90] 10 ''akl'') = ''r1''"
proof -
  let ?r1 = "example_record ''r1'' ''akl'' 90" and ?r2 = "example_record ''r2'' ''wlg'' 90"
  have a: "WinnerID (Resolve [?r2, ?r1] 10 ''wlg'') = ''r1''" by code_simp
  have "DeleteIDs (Resolve [?r2, ?r1] 10 ''wlg'') = [''r2'']" by code_simp
  moreover have "LeaseRecord_ID ?r1 = ''r1''" "LeaseRecord_ID ?r2 = ''r2''"
    by (simp_all add: example_record_def)
  ultimately show ?thesis
    using a Resolve_agreement [of "[?r2, ?r1]" "[?r1]" 10 "''wlg''" "''akl''"] by auto
qed

theorem Resolve_converges_witness:
  "DeleteIDs (Resolve [example_record ''r2'' ''wlg'' 90, example_record ''r1'' ''akl'' 90] 10 ''akl'') = [''r2''] \<and>
   map LeaseRecord_ID (filter (\<lambda>r. LeaseRecord_ID r \<notin> {''r2''})
     [example_record ''r2'' ''wlg'' 90, example_record ''r1'' ''akl'' 90]) = [''r1'']"
proof -
  let ?rs = "[example_record ''r2'' ''wlg'' 90, example_record ''r1'' ''akl'' 90]"
  have d: "DeleteIDs (Resolve ?rs 10 ''akl'') = [''r2'']" by code_simp
  have "IAmWinner (Resolve ?rs 10 ''akl'')" "WinnerID (Resolve ?rs 10 ''akl'') = ''r1''" by code_simp+
  then show ?thesis using d Resolve_converges [of ?rs 10 "''akl''"] by (simp add: example_record_def)
qed

end
