(* ===== verification/Role.thy ===== *)
theory Role
  imports Lease_Resolve
begin

text \<open>
  \<open>internal/dr/role.go\<close> and \<open>jitter.go\<close>: the pure role gate of the failover state machine. The
  source of random numbers is a function from the bound to the value \<open>Int63n\<close> returns; its contract
  (\<open>0 \<le> n < bound\<close>) is the hypothesis \<open>int63n_ok\<close>.
\<close>

section \<open>Jitter\<close>

definition int63n_ok :: "(int \<Rightarrow> int) \<Rightarrow> bool" where
  "int63n_ok r \<longleftrightarrow> (\<forall>n > 0. 0 \<le> r n \<and> r n < n)"

definition Jitter :: "duration \<Rightarrow> (int \<Rightarrow> int) \<Rightarrow> duration" where
  "Jitter spread r =
     (if spread \<le> 0 then 0
      else let n = r (wrap64 (wrap64 (2 * spread) + 1)) in wrap64 (n - spread))"

lemma Jitter_bounds:
  assumes "int63n_ok r" and "0 < spread" and "spread < 2 ^ 61"
  shows "- spread \<le> Jitter spread r \<and> Jitter spread r \<le> spread"
proof -
  have "wrap64 (wrap64 (2 * spread) + 1) = 2 * spread + 1" using assms(2,3) by (simp add: wrap64_id)
  moreover have "0 \<le> r (2 * spread + 1) \<and> r (2 * spread + 1) < 2 * spread + 1"
    using assms(1,2) by (auto simp: int63n_ok_def dest: spec [of _ "2 * spread + 1"])
  ultimately show ?thesis using assms(2,3) by (simp add: Jitter_def Let_def wrap64_id)
qed

section \<open>The role gate\<close>

type_synonym Role = string

definition RoleUnknown :: Role where
  "RoleUnknown = ''Unknown''"

definition RoleStandby :: Role where
  "RoleStandby = ''Standby''"

definition RolePrimary :: Role where
  "RolePrimary = ''Primary''"

datatype Action = ActionWait | ActionAcquire | ActionRenew | ActionHoldPrimary | ActionSplitBrain

record Inputs =
  Now :: time
  SiteID :: string
  PreviousRole :: Role
  Observed :: "Lease option"
  LeaseSeconds :: int32
  AcquireJitter :: duration
  ForcePromote :: bool
  ManualPromotion :: bool
  Rand :: "(int \<Rightarrow> int) option"

record Decision =
  NextRole :: Role
  Decision_Action :: Action
  LeaseOwner :: string
  LeaseExpiresAt :: time
  Requeue :: duration
  AwaitingPromotion :: bool

text \<open>\<open>leaseTTL\<close> and \<open>half\<close>; integer division truncates, and the dividend is positive.\<close>

definition lease_ttl :: "int32 \<Rightarrow> duration" where
  "lease_ttl n = (let leaseTTL = sint n * second in if leaseTTL \<le> 0 then 60 * second else leaseTTL)"

definition lease_half :: "int32 \<Rightarrow> duration" where
  "lease_half n = max (lease_ttl n div 2) second"

definition Decide :: "Inputs \<Rightarrow> Decision" where
  "Decide inp =
     (let half = lease_half (LeaseSeconds inp)
      in case Observed inp of
           None \<Rightarrow>
             if ManualPromotion inp \<and> \<not> ForcePromote inp then
               \<lparr>NextRole = RoleStandby, Decision_Action = ActionWait, LeaseOwner = [], LeaseExpiresAt = 0,
                Requeue = half, AwaitingPromotion = True\<rparr>
             else
               \<lparr>NextRole = RoleStandby, Decision_Action = ActionAcquire, LeaseOwner = [], LeaseExpiresAt = 0,
                Requeue = half, AwaitingPromotion = False\<rparr>
         | Some obs \<Rightarrow>
             (let isMine = (Lease_Site obs = SiteID inp);
                  expired = Expired obs (Now inp)
              in if ForcePromote inp \<and> \<not> isMine then
                   \<lparr>NextRole = RoleStandby, Decision_Action = ActionAcquire, LeaseOwner = Lease_Site obs,
                    LeaseExpiresAt = Lease_Expires obs, Requeue = half, AwaitingPromotion = False\<rparr>
                 else if isMine then
                   (let renewAt = time_Add (Lease_Renewed obs) half
                    in if Before (Now inp) renewAt then
                         \<lparr>NextRole = RolePrimary, Decision_Action = ActionHoldPrimary, LeaseOwner = SiteID inp,
                          LeaseExpiresAt = Lease_Expires obs,
                          Requeue = max (time_Sub renewAt (Now inp)) second, AwaitingPromotion = False\<rparr>
                       else
                         \<lparr>NextRole = RolePrimary, Decision_Action = ActionRenew, LeaseOwner = SiteID inp,
                          LeaseExpiresAt = Lease_Expires obs, Requeue = half, AwaitingPromotion = False\<rparr>)
                 else if \<not> expired then
                   (if PreviousRole inp = RolePrimary then
                      \<lparr>NextRole = RoleStandby, Decision_Action = ActionSplitBrain, LeaseOwner = Lease_Site obs,
                       LeaseExpiresAt = Lease_Expires obs, Requeue = half, AwaitingPromotion = False\<rparr>
                    else
                      (let wait0 = time_Sub (Lease_Expires obs) (Now inp);
                           wait1 = (case Rand inp of
                              Some r \<Rightarrow> if AcquireJitter inp > 0
                                then wrap64 (wait0 + Jitter (AcquireJitter inp) r) else wait0
                            | None \<Rightarrow> wait0);
                           wait = (if wait1 < second then second else wait1)
                       in \<lparr>NextRole = RoleStandby, Decision_Action = ActionWait, LeaseOwner = Lease_Site obs,
                           LeaseExpiresAt = Lease_Expires obs, Requeue = wait, AwaitingPromotion = False\<rparr>))
                 else if ManualPromotion inp then
                   \<lparr>NextRole = RoleStandby, Decision_Action = ActionWait, LeaseOwner = Lease_Site obs,
                    LeaseExpiresAt = Lease_Expires obs, Requeue = half, AwaitingPromotion = True\<rparr>
                 else
                   \<lparr>NextRole = RoleStandby, Decision_Action = ActionAcquire, LeaseOwner = Lease_Site obs,
                    LeaseExpiresAt = Lease_Expires obs, Requeue = half, AwaitingPromotion = False\<rparr>))"

lemma lease_ttl_range: "second \<le> lease_ttl n \<and> lease_ttl n < 2 ^ 62"
  using sint32_range [of n] by (auto simp: lease_ttl_def second_def Let_def)

lemma lease_half_range: "second \<le> lease_half n \<and> lease_half n < 2 ^ 61 \<and> lease_half n \<le> lease_ttl n"
  using lease_ttl_range [of n] by (auto simp: lease_half_def second_def max_def)

text \<open>The lease as this site sees it: held by it, by a live peer, or up for grabs.\<close>

definition mine :: "Inputs \<Rightarrow> bool" where
  "mine inp \<longleftrightarrow> (case Observed inp of None \<Rightarrow> False | Some l \<Rightarrow> Lease_Site l = SiteID inp)"

definition peer_live :: "Inputs \<Rightarrow> bool" where
  "peer_live inp \<longleftrightarrow> (case Observed inp of None \<Rightarrow> False
     | Some l \<Rightarrow> Lease_Site l \<noteq> SiteID inp \<and> \<not> Expired l (Now inp))"

text \<open>
  C14: The role gate acts exactly on the lease it observed. It claims a lease (\<open>ActionAcquire\<close>) iff
  this site does not hold it and either the force-promote token is set, or promotion is automatic and
  no live peer holds it; it keeps the lease (\<open>ActionRenew\<close> or \<open>ActionHoldPrimary\<close>) iff the observed
  lease names this site; it reports split brain iff a live peer holds the lease while this site was
  Primary and nobody forces; it awaits promotion iff manual promotion alone stands between it and an
  acquire; and only when it keeps the lease is the next role Primary.
\<close>

theorem Decide_actions:
  "(Decision_Action (Decide inp) = ActionAcquire \<longleftrightarrow>
      \<not> mine inp \<and> (ForcePromote inp \<or> \<not> ManualPromotion inp \<and> \<not> peer_live inp)) \<and>
   (Decision_Action (Decide inp) \<in> {ActionRenew, ActionHoldPrimary} \<longleftrightarrow> mine inp) \<and>
   (Decision_Action (Decide inp) = ActionSplitBrain \<longleftrightarrow>
      peer_live inp \<and> PreviousRole inp = RolePrimary \<and> \<not> ForcePromote inp) \<and>
   (AwaitingPromotion (Decide inp) \<longleftrightarrow>
      \<not> mine inp \<and> \<not> peer_live inp \<and> ManualPromotion inp \<and> \<not> ForcePromote inp) \<and>
   (NextRole (Decide inp) = (if mine inp then RolePrimary else RoleStandby))"
  by (cases "Observed inp") (auto simp: Decide_def mine_def peer_live_def Let_def)

lemma Decide_keeps_mine: "Decision_Action (Decide inp) \<in> {ActionRenew, ActionHoldPrimary} \<Longrightarrow> mine inp"
  by (cases "Observed inp") (auto simp: Decide_def mine_def Let_def split: if_splits)

text \<open>The wait of a standby, before the floor of a second.\<close>

definition wait_jittered :: "Inputs \<Rightarrow> duration \<Rightarrow> duration" where
  "wait_jittered inp d = (case Rand inp of
     Some r \<Rightarrow> if AcquireJitter inp > 0 then wrap64 (d + Jitter (AcquireJitter inp) r) else d
   | None \<Rightarrow> d)"

lemma standby_wait:
  assumes "Observed inp = Some l" and "Decision_Action (Decide inp) = ActionWait" and "peer_live inp" and "Lease_Expires l \<le> Now inp + 2 ^ 62"
  shows "Requeue (Decide inp) = max second (wait_jittered inp (Lease_Expires l - Now inp))"
proof -
  have "Now inp \<le> Lease_Expires l" using assms(1,3) by (auto simp: peer_live_def Expired_def Before_def)
  with assms(4) have "time_Sub (Lease_Expires l) (Now inp) = Lease_Expires l - Now inp"
    by (simp add: time_Sub_def sat64_def)
  with assms(1-3) show ?thesis
    by (auto simp: Decide_def peer_live_def wait_jittered_def Let_def max_def split: option.splits if_splits)
qed

lemma wait_jittered_bounds:
  assumes "Rand inp = Some r" and "int63n_ok r" and "0 < AcquireJitter inp" and "AcquireJitter inp < 2 ^ 60" and "0 \<le> d" and "d \<le> 2 ^ 62"
  shows "d - AcquireJitter inp \<le> wait_jittered inp d" "wait_jittered inp d \<le> d + AcquireJitter inp"
    "r (2 * AcquireJitter inp + 1) = 0 \<Longrightarrow> wait_jittered inp d = d - AcquireJitter inp"
proof -
  let ?a = "AcquireJitter inp"
  have j: "- ?a \<le> Jitter ?a r" "Jitter ?a r \<le> ?a" using Jitter_bounds [OF assms(2,3)] assms(4) by auto
  have "wrap64 (wrap64 (2 * ?a) + 1) = 2 * ?a + 1" using assms(3,4) by (simp add: wrap64_id)
  then have least: "r (2 * ?a + 1) = 0 \<Longrightarrow> Jitter ?a r = - ?a"
    using assms(3,4) by (simp add: Jitter_def Let_def wrap64_id)
  have "wait_jittered inp d = d + Jitter ?a r"
    using assms j by (simp add: wait_jittered_def wrap64_id)
  with j least show "d - ?a \<le> wait_jittered inp d" "wait_jittered inp d \<le> d + ?a"
    "r (2 * ?a + 1) = 0 \<Longrightarrow> wait_jittered inp d = d - ?a" by auto
qed

text \<open>
  C31: When the gate asks to be called again. The requeue is at least one second; a site that holds the
  lease renews exactly from half of the lease time after the last renewal on, and until then waits at
  most half of the lease time, so, with sane clocks, the next pass comes before a lease written with the
  full lease time has expired. A plain standby comes back within the acquire jitter of the expiry it
  observed, on either side of it (or after the second that is the least): the jitter is symmetric, so a
  draw of 0 brings it back the whole jitter before the expiry, and only without a jitter or a random source it
  never comes back before the expiry. (The draws are those of \<open>Int63n\<close>, below its argument; times and jitters are such that
  nothing overflows, an expiry less than 146 years ahead.) The controller passes a jitter of five seconds and a random source.
\<close>

theorem Decide_timing:
  assumes "Observed inp = Some l" and "sane_time (Lease_Renewed l)" and "sane_time (Now inp)"
    and "Lease_Renewed l \<le> Now inp"
  shows "second \<le> Requeue (Decide inp) \<and>
    (mine inp \<longrightarrow>
       (Decision_Action (Decide inp) = ActionRenew \<longleftrightarrow>
          Lease_Renewed l + lease_half (LeaseSeconds inp) \<le> Now inp) \<and>
       Requeue (Decide inp) \<le> lease_half (LeaseSeconds inp)) \<and>
    (Decision_Action (Decide inp) = ActionWait \<and> peer_live inp \<and> Lease_Expires l \<le> Now inp + 2 ^ 62 \<longrightarrow>
       (AcquireJitter inp \<le> 0 \<or> Rand inp = None \<longrightarrow> Lease_Expires l \<le> Now inp + Requeue (Decide inp)) \<and>
       (\<forall>r. Rand inp = Some r \<and> int63n_ok r \<and> 0 < AcquireJitter inp \<and> AcquireJitter inp < 2 ^ 60 \<longrightarrow>
          Lease_Expires l - AcquireJitter inp \<le> Now inp + Requeue (Decide inp) \<and>
          Requeue (Decide inp) \<le> max second (Lease_Expires l + AcquireJitter inp - Now inp) \<and>
          (r (2 * AcquireJitter inp + 1) = 0 \<longrightarrow>
             Requeue (Decide inp) = max second (Lease_Expires l - AcquireJitter inp - Now inp))))"
proof -
  have h: "second \<le> lease_half (LeaseSeconds inp)" "lease_half (LeaseSeconds inp) < 2 ^ 61"
    using lease_half_range by auto
  then have "time_Add (Lease_Renewed l) (lease_half (LeaseSeconds inp)) = Lease_Renewed l + lease_half (LeaseSeconds inp)"
    using assms(2) by (intro time_Add_sane) (auto simp: second_def)
  then have holder: "second \<le> Requeue (Decide inp) \<and>
    (mine inp \<longrightarrow>
       (Decision_Action (Decide inp) = ActionRenew \<longleftrightarrow>
          Lease_Renewed l + lease_half (LeaseSeconds inp) \<le> Now inp) \<and>
       Requeue (Decide inp) \<le> lease_half (LeaseSeconds inp))"
    using assms(1,4) h
    by (auto simp: Decide_def mine_def Let_def Before_def time_Sub_def sat64_def second_def max_def min_def)
  have wait: "(AcquireJitter inp \<le> 0 \<or> Rand inp = None \<longrightarrow> Lease_Expires l \<le> Now inp + Requeue (Decide inp)) \<and>
       (\<forall>r. Rand inp = Some r \<and> int63n_ok r \<and> 0 < AcquireJitter inp \<and> AcquireJitter inp < 2 ^ 60 \<longrightarrow>
          Lease_Expires l - AcquireJitter inp \<le> Now inp + Requeue (Decide inp) \<and>
          Requeue (Decide inp) \<le> max second (Lease_Expires l + AcquireJitter inp - Now inp) \<and>
          (r (2 * AcquireJitter inp + 1) = 0 \<longrightarrow>
             Requeue (Decide inp) = max second (Lease_Expires l - AcquireJitter inp - Now inp)))"
    if w: "Decision_Action (Decide inp) = ActionWait" "peer_live inp" "Lease_Expires l \<le> Now inp + 2 ^ 62"
  proof -
    let ?d = "Lease_Expires l - Now inp"
    have d: "0 \<le> ?d" "?d \<le> 2 ^ 62" using w(2,3) assms(1) by (auto simp: peer_live_def Expired_def Before_def)
    have "AcquireJitter inp \<le> 0 \<or> Rand inp = None \<Longrightarrow> wait_jittered inp ?d = ?d"
      by (auto simp: wait_jittered_def split: option.split)
    with wait_jittered_bounds [OF _ _ _ _ d] show ?thesis
      unfolding standby_wait [OF assms(1) w] by (fastforce simp: max_def algebra_simps)
  qed
  show ?thesis using holder wait by blast
qed

definition example_inputs :: Inputs where
  "example_inputs = \<lparr>Now = 1000 * second, SiteID = ''akl'', PreviousRole = RolePrimary,
     Observed = Some \<lparr>Lease_Version = 1, Lease_Site = ''akl'', Lease_Tunnel = ''t'',
       Lease_Expires = 1050 * second, Lease_Renewed = 990 * second\<rparr>,
     LeaseSeconds = 60, AcquireJitter = 0, ForcePromote = False, ManualPromotion = False, Rand = None\<rparr>"

text \<open>A peer's view of the same lease, with the jitter of the controller and the least draw.\<close>

definition standby_inputs :: Inputs where
  "standby_inputs = example_inputs\<lparr>SiteID := ''wlg'', PreviousRole := RoleStandby, AcquireJitter := 5 * second, Rand := Some (\<lambda>n. 0)\<rparr>"

theorem Decide_timing_witness:
  "mine example_inputs \<and> Decision_Action (Decide example_inputs) \<noteq> ActionRenew \<and>
   Requeue (Decide example_inputs) \<le> 30 * second \<and>
   Decision_Action (Decide standby_inputs) = ActionWait \<and> Requeue (Decide standby_inputs) = 45 * second"
proof -
  have h: "lease_half 60 = 30 * second" by (simp add: lease_half_def lease_ttl_def second_def Let_def)
  have m: "mine example_inputs" by (simp add: mine_def example_inputs_def)
  have p: "peer_live standby_inputs" "Decision_Action (Decide standby_inputs) = ActionWait"
    by (simp_all add: peer_live_def standby_inputs_def example_inputs_def Expired_def Before_def second_def Decide_def RoleStandby_def RolePrimary_def Let_def)
  have r: "int63n_ok (\<lambda>n. 0)" by (simp add: int63n_ok_def)
  have "Requeue (Decide standby_inputs) = 45 * second"
    using Decide_timing [of standby_inputs, OF _ _ _ _] p r
    by (simp add: standby_inputs_def example_inputs_def sane_time_def second_def)
  with Decide_timing [of example_inputs, OF _ _ _ _] m h p show ?thesis
    by (simp add: example_inputs_def sane_time_def second_def)
qed

end
