(* ===== verification/Failover.thy ===== *)
theory Failover
  imports Exposure_Status Role
begin

text \<open>
  \<open>internal/controller/exposure_failover.go\<close>: the lease arbitration that runs before an exposure
  with \<open>spec.failover\<close> may touch the shared Access application and CNAME. The handlers are
  computations over the world of \<open>Base\<close>; the five values they return are the two outcomes of
  \<open>gate_outcome\<close>: \<open>Proceed\<close> with the updated exposure and the requeue (\<open>proceed = true, done =
  false\<close>), or \<open>Done\<close> with the controller's result and error.
\<close>

section \<open>Constants and small helpers\<close>

definition annotationForcePromote :: string where
  "annotationForcePromote = ''cfzt.reid.ee/force-promote''"

definition defaultSiteID :: string where
  "defaultSiteID = ''cfzt-default-site''"

definition failoverAcquireJitter :: duration where
  "failoverAcquireJitter = 5 * second"

definition failoverResolveRequeue :: duration where
  "failoverResolveRequeue = 2 * second"

definition exposureOwner :: "CloudflareExposure \<Rightarrow> Owner" where
  "exposureOwner exposure =
     (case ESpec_Failover (E_Spec exposure) of
        Some f \<Rightarrow> FromFailoverGroup (Failover_Group f)
      | None \<Rightarrow> From (E_UID exposure))"

text \<open>The dereferenced \<open>spec.failover\<close>; the callers have checked that it is set.\<close>

definition failover_spec :: "CloudflareExposure \<Rightarrow> FailoverSpec" where
  "failover_spec exposure = the (ESpec_Failover (E_Spec exposure))"

definition leaseSecondsOf :: "CloudflareExposure \<Rightarrow> int32" where
  "leaseSecondsOf exposure =
     (let ls = Failover_LeaseSeconds (failover_spec exposure) in if sint ls \<le> 0 then 60 else ls)"

definition leaseExpiryPtr :: "time \<Rightarrow> time option" where
  "leaseExpiryPtr t = (if IsZero t then None else Some t)"

definition leaseOwnerOf :: "LeaseRecord list \<Rightarrow> string" where
  "leaseOwnerOf records = (case records of [rec] \<Rightarrow> Lease_Site (LeaseRecord_Lease rec) | _ \<Rightarrow> [])"

definition leaseTunnelOf :: "LeaseRecord list \<Rightarrow> string" where
  "leaseTunnelOf records = (case records of [rec] \<Rightarrow> Lease_Tunnel (LeaseRecord_Lease rec) | _ \<Rightarrow> [])"

section \<open>Reading the leases\<close>

text \<open>The loop over the records at the lease name: the parsed leases, and whether one is foreign.\<close>

fun group_leases :: "Owner \<Rightarrow> string \<Rightarrow> LeaseRecord list \<Rightarrow> DNSRecord list \<Rightarrow> LeaseRecord list \<times> bool" where
  "group_leases owner leaseName out [] = (out, False)"
| "group_leases owner leaseName out (rec # recs) =
     (if DNS_Name rec \<noteq> leaseName then group_leases owner leaseName out recs
      else if \<not> MatchesComment owner (DNS_Comment rec) then ([], True)
      else case ParseLease (DNS_Content rec) of
          Inl _ \<Rightarrow> ([], True)
        | Inr lease \<Rightarrow> group_leases owner leaseName (out @ [\<lparr>LeaseRecord_ID = DNS_ID rec, LeaseRecord_Lease = lease\<rparr>]) recs)"

definition listGroupLeases :: "'s Client \<Rightarrow> string \<Rightarrow> string \<Rightarrow> CloudflareExposure \<Rightarrow>
    ('s, (LeaseRecord list \<times> bool) result) state" where
  "listGroupLeases cfClient zoneID leaseName exposure = do {
     listed \<leftarrow> DNSRecords_List (Client_DNSRecords cfClient) zoneID leaseName ''TXT'';
     case listed of
       Inl e \<Rightarrow> return_st (Inl e)
     | Inr records \<Rightarrow> return_st (Inr (group_leases (exposureOwner exposure) leaseName [] records)) }"

definition holdsLiveLease :: "'s ExposureReconciler \<Rightarrow> CloudflareExposure \<Rightarrow> 's Client \<Rightarrow> ('s, bool result) state" where
  "holdsLiveLease r exposure cfClient =
     (case ESpec_Failover (E_Spec exposure) of
        None \<Rightarrow> return_st (Inr False)
      | Some f \<Rightarrow> do {
          resolved \<leftarrow> Zones_Resolve (Client_Zones cfClient) (E_Hostname exposure);
          case resolved of
            Inl e \<Rightarrow> return_st (if errors_Is e ErrNotFound then Inr False else Inl e)
          | Inr zone \<Rightarrow> do {
              let leaseName = FailoverLeaseTXTName (Failover_Group f) (Zone_Name zone);
              leases \<leftarrow> listGroupLeases cfClient (Zone_ID zone) leaseName exposure;
              case leases of
                Inl e \<Rightarrow> return_st (Inl e)
              | Inr (records, foreign) \<Rightarrow>
                  return_st (Inr (case records of
                      [rec] \<Rightarrow> \<not> foreign \<and> Lease_Site (LeaseRecord_Lease rec) = Rec_SiteID r
                    | _ \<Rightarrow> False)) } })"

section \<open>Status snapshots\<close>

definition baseFailoverStatus :: "'s ExposureReconciler \<Rightarrow> CloudflareExposure \<Rightarrow> Role \<Rightarrow> string \<Rightarrow> time option \<Rightarrow> string \<Rightarrow>
    ('s, ExposureFailoverStatus) state" where
  "baseFailoverStatus r exposure role leaseOwner expiresAt observedTunnel = do {
     let prev = failover_status exposure;
     let fstatus = \<lparr>FStatus_Role = role, FStatus_SiteID = Rec_SiteID r, FStatus_LeaseOwner = leaseOwner,
       FStatus_LeaseExpiresAt = expiresAt, FStatus_LeaseRenewedAt = None,
       FStatus_LastRoleTransitionAt = FStatus_LastRoleTransitionAt prev,
       FStatus_ObservedPrimaryTunnelID = observedTunnel,
       FStatus_LastForcePromoteToken = FStatus_LastForcePromoteToken prev\<rparr>;
     if FStatus_Role prev \<noteq> role then do {
       now \<leftarrow> rec_now r;
       return_st (fstatus\<lparr>FStatus_LastRoleTransitionAt := Some now\<rparr>) }
     else return_st fstatus }"

definition primaryFailoverStatus :: "'s ExposureReconciler \<Rightarrow> CloudflareExposure \<Rightarrow> Lease \<Rightarrow>
    ('s, ExposureFailoverStatus) state" where
  "primaryFailoverStatus r exposure lease = do {
     fstatus \<leftarrow> baseFailoverStatus r exposure RolePrimary (Rec_SiteID r) (Some (Lease_Expires lease)) (Lease_Tunnel lease);
     return_st (fstatus\<lparr>FStatus_LeaseRenewedAt := Some (Lease_Renewed lease)\<rparr>) }"

definition metric_labels :: "'s ExposureReconciler \<Rightarrow> CloudflareExposure \<Rightarrow> string list" where
  "metric_labels r exposure = [E_Namespace exposure, E_Name exposure, Failover_Group (failover_spec exposure), Rec_SiteID r]"

definition recordRole :: "'s ExposureReconciler \<Rightarrow> CloudflareExposure \<Rightarrow> Role \<Rightarrow> ('s, unit) state" where
  "recordRole r exposure role = do {
     _ \<leftarrow> Base_Metric r (RoleGauge (failoverRoleValue role)) (metric_labels r exposure);
     Base_Metric r (PromotionPending 0) (metric_labels r exposure) }"

text \<open>Both writers also set the status of the exposure in memory, which they return.\<close>

definition setFailoverStatus :: "'s ExposureReconciler \<Rightarrow> CloudflareExposure \<Rightarrow> ExposureFailoverStatus \<Rightarrow>
    ('s, CloudflareExposure result) state" where
  "setFailoverStatus r exposure fstatus = do {
     got \<leftarrow> Base_GetExposure r (E_Namespace exposure) (E_Name exposure);
     case got of
       Inl e \<Rightarrow> return_st (Inl e)
     | Inr latest \<Rightarrow>
         (let exposure' = set_failover_status fstatus exposure
          in if failover_status latest = fstatus then return_st (Inr exposure')
             else do {
               res \<leftarrow> Base_StatusUpdateExposure r (set_failover_status fstatus latest);
               return_st (case res of Inl e \<Rightarrow> Inl e | Inr _ \<Rightarrow> Inr exposure') }) }"

definition setFailoverStatusAndReady :: "'s ExposureReconciler \<Rightarrow> CloudflareExposure \<Rightarrow> ExposureFailoverStatus \<Rightarrow> bool \<Rightarrow>
    string \<Rightarrow> string \<Rightarrow> ('s, unit result) state" where
  "setFailoverStatusAndReady r exposure fstatus ready reason message = do {
     got \<leftarrow> Base_GetExposure r (E_Namespace exposure) (E_Name exposure);
     case got of
       Inl e \<Rightarrow> return_st (Inl e)
     | Inr latest \<Rightarrow> setReadyExposure r latest ready reason message (set_failover_status fstatus) }"

section \<open>Outcomes\<close>

datatype gate_outcome = Proceed CloudflareExposure duration | Done ctrl_Result "unit result"

definition em_dash :: string where
  "em_dash = [CHR 0xE2, CHR 0x80, CHR 0x94]"

definition standby :: "'s ExposureReconciler \<Rightarrow> CloudflareExposure \<Rightarrow> Decision \<Rightarrow> string \<Rightarrow> bool \<Rightarrow> ('s, gate_outcome) state" where
  "standby r exposure decision observedTunnel demote = do {
     _ \<leftarrow> (if demote then Base_Eventf r (E_Meta exposure) EventTypeNormal EventDemotedToStandby
              (''Demoted to Standby for '' @ E_Hostname exposure)
           else return_st ());
     fstatus \<leftarrow> baseFailoverStatus r exposure RoleStandby (LeaseOwner decision)
       (leaseExpiryPtr (LeaseExpiresAt decision)) observedTunnel;
     _ \<leftarrow> recordRole r exposure RoleStandby;
     (if AwaitingPromotion decision then do {
        _ \<leftarrow> Base_Metric r (PromotionPending 1) (metric_labels r exposure);
        if LeaseOwner decision \<noteq> [] then do {
          _ \<leftarrow> Base_Eventf r (E_Meta exposure) EventTypeWarning EventAwaitingManualPromotion
            (''Primary '' @ LeaseOwner decision @ '' unreachable for '' @ E_Hostname exposure @
             ''; lease expired and promotionPolicy=Manual '' @ em_dash @ '' set annotation '' @ annotationForcePromote @ '' to fail over'');
          err \<leftarrow> setFailoverStatusAndReady r exposure fstatus False ReasonAwaitingPromotion
            (''primary '' @ LeaseOwner decision @ '' unreachable; lease expired, awaiting force-promote ('' @ annotationForcePromote @ '')'');
          return_st (Done (requeueResult (Requeue decision)) err) }
        else do {
          _ \<leftarrow> Base_Eventf r (E_Meta exposure) EventTypeWarning EventAwaitingManualPromotion
            (''No primary elected for '' @ E_Hostname exposure @ ''; promotionPolicy=Manual '' @ em_dash @
             '' set annotation '' @ annotationForcePromote @ '' to elect this site'');
          err \<leftarrow> setFailoverStatusAndReady r exposure fstatus False ReasonAwaitingPromotion
            (''no primary elected; awaiting force-promote ('' @ annotationForcePromote @ '')'');
          return_st (Done (requeueResult (Requeue decision)) err) } }
      else do {
        err \<leftarrow> setFailoverStatusAndReady r exposure fstatus True ReasonStandby
          (if LeaseOwner decision = [] then ''standby'' else ''standby; lease held by '' @ LeaseOwner decision);
        return_st (Done (requeueResult (Requeue decision)) err) }) }"

definition failClosed :: "'s ExposureReconciler \<Rightarrow> CloudflareExposure \<Rightarrow> string \<Rightarrow> ('s, gate_outcome) state" where
  "failClosed r exposure leaseName = do {
     _ \<leftarrow> recordRole r exposure RoleStandby;
     _ \<leftarrow> Base_Eventf r (E_Meta exposure) EventTypeWarning EventLeaseConflict
       (''Failover lease record '' @ leaseName @ '' is foreign or unparseable'');
     fstatus \<leftarrow> baseFailoverStatus r exposure RoleStandby [] None [];
     err \<leftarrow> setFailoverStatusAndReady r exposure fstatus False ReasonLeaseConflict
       ''failover lease record is foreign or unparseable'';
     return_st (Done (after (30 * second)) err) }"

text \<open>The loop over the records to delete: \<open>Inl\<close> with the ID at which it stopped.\<close>

fun delete_leases :: "'s Client \<Rightarrow> string \<Rightarrow> string list \<Rightarrow> ('s, (string \<times> error) + unit) state" where
  "delete_leases cfClient zoneID [] = return_st (Inr ())"
| "delete_leases cfClient zoneID (rid # ids) = do {
     res \<leftarrow> DNSRecords_Delete (Client_DNSRecords cfClient) zoneID rid;
     case res of
       Inl e \<Rightarrow> if errors_Is e ErrNotFound then delete_leases cfClient zoneID ids else return_st (Inl (rid, e))
     | Inr _ \<Rightarrow> delete_leases cfClient zoneID ids }"

definition resolveDuplicateLeases :: "'s ExposureReconciler \<Rightarrow> 's Client \<Rightarrow> Zone \<Rightarrow> CloudflareExposure \<Rightarrow> LeaseRecord list \<Rightarrow>
    time \<Rightarrow> ('s, gate_outcome) state" where
  "resolveDuplicateLeases r cfClient zone exposure records now = do {
     let res = Resolve records now (Rec_SiteID r);
     _ \<leftarrow> Base_Eventf r (E_Meta exposure) EventTypeWarning EventLeaseConflict
       (''Resolving '' @ itoa (int (length records)) @ '' duplicate failover leases for '' @ E_Hostname exposure @
        '' (winner '' @ WinnerSite res @ '')'');
     deleted \<leftarrow> delete_leases cfClient (Zone_ID zone) (DeleteIDs res);
     case deleted of
       Inl (rid, e) \<Rightarrow> do {
         err \<leftarrow> setExposureStatusAndBackoff r exposure (cf_status exposure)
           (''delete duplicate lease '' @ rid @ '': '' @ error_text e);
         return_st (Done no_result err) }
     | Inr _ \<Rightarrow> do {
         _ \<leftarrow> recordRole r exposure RoleStandby;
         fstatus \<leftarrow> baseFailoverStatus r exposure RoleStandby (WinnerSite res) None [];
         err \<leftarrow> setFailoverStatusAndReady r exposure fstatus False ReasonLeaseConflict ''resolving duplicate failover leases'';
         return_st (case err of Inl e \<Rightarrow> Done no_result (Inl e) | Inr _ \<Rightarrow> Done (after failoverResolveRequeue) (Inr ())) } }"

definition desired_lease :: "string \<Rightarrow> CloudflareExposure \<Rightarrow> string \<Rightarrow> time \<Rightarrow> Lease" where
  "desired_lease site exposure tunnelID now = \<lparr>Lease_Version = LeaseSchemaVersion, Lease_Site = site, Lease_Tunnel = tunnelID,
     Lease_Expires = time_Add now (sint (leaseSecondsOf exposure) * second), Lease_Renewed = now\<rparr>"

definition writeLease :: "'s ExposureReconciler \<Rightarrow> 's Client \<Rightarrow> Zone \<Rightarrow> string \<Rightarrow> CloudflareExposure \<Rightarrow> CloudflareTunnel \<Rightarrow>
    string option \<Rightarrow> time \<Rightarrow> ('s, unit result) state" where
  "writeLease r cfClient zone leaseName exposure tunnel currentID now = do {
     let desired = desired_lease (Rec_SiteID r) exposure (TStatus_TunnelId (T_Status tunnel)) now;
     let input = \<lparr>DNSIn_ZoneID = Zone_ID zone, DNSIn_Name = leaseName, DNSIn_Type = ''TXT'',
       DNSIn_Content = Serialize desired, DNSIn_Proxied = False, DNSIn_Comment = Owner_Comment (exposureOwner exposure)\<rparr>;
     res \<leftarrow> (case currentID of
         None \<Rightarrow> DNSRecords_Create (Client_DNSRecords cfClient) input
       | Some rid \<Rightarrow> DNSRecords_Update (Client_DNSRecords cfClient) rid input);
     return_st (case res of Inl e \<Rightarrow> Inl e | Inr _ \<Rightarrow> Inr ()) }"

text \<open>The last part of \<open>writeAndVerifyLease\<close>: the read-back showed one record and it names this site.\<close>

definition becomePrimary :: "'s ExposureReconciler \<Rightarrow> CloudflareExposure \<Rightarrow> Lease \<Rightarrow> duration \<Rightarrow> bool \<Rightarrow> string \<Rightarrow>
    ('s, gate_outcome) state" where
  "becomePrimary r exposure lease half force forceToken = do {
     _ \<leftarrow> (if force then Base_Eventf r (E_Meta exposure) EventTypeNormal EventForcePromoted
              (''Force-promoted to Primary for '' @ E_Hostname exposure)
           else return_st ());
     _ \<leftarrow> (if FStatus_Role (failover_status exposure) \<noteq> RolePrimary then do {
             _ \<leftarrow> Base_Eventf r (E_Meta exposure) EventTypeNormal EventLeaseAcquired
               (''Acquired failover lease for '' @ E_Hostname exposure);
             _ \<leftarrow> Base_Eventf r (E_Meta exposure) EventTypeNormal EventPromotedToPrimary
               (''Promoted to Primary for '' @ E_Hostname exposure);
             Base_Metric r PromotionTotal (metric_labels r exposure) }
           else do {
             _ \<leftarrow> Base_Eventf r (E_Meta exposure) EventTypeNormal EventLeaseRenewed
               (''Renewed failover lease for '' @ E_Hostname exposure);
             Base_Metric r LeaseRenewTotal (metric_labels r exposure) });
     _ \<leftarrow> recordRole r exposure RolePrimary;
     fstatus0 \<leftarrow> primaryFailoverStatus r exposure lease;
     let fstatus = (if force then fstatus0\<lparr>FStatus_LastForcePromoteToken := forceToken\<rparr> else fstatus0);
     res \<leftarrow> setFailoverStatus r exposure fstatus;
     return_st (case res of Inl e \<Rightarrow> Done no_result (Inl e) | Inr exposure' \<Rightarrow> Proceed exposure' half) }"

definition writeAndVerifyLease :: "'s ExposureReconciler \<Rightarrow> 's Client \<Rightarrow> Zone \<Rightarrow> string \<Rightarrow> CloudflareExposure \<Rightarrow>
    CloudflareTunnel \<Rightarrow> string option \<Rightarrow> time \<Rightarrow> duration \<Rightarrow> bool \<Rightarrow> string \<Rightarrow> ('s, gate_outcome) state" where
  "writeAndVerifyLease r cfClient zone leaseName exposure tunnel currentID now half force forceToken = do {
     written \<leftarrow> writeLease r cfClient zone leaseName exposure tunnel currentID now;
     case written of
       Inl e \<Rightarrow> do {
         err \<leftarrow> setExposureStatusAndBackoff r exposure (cf_status exposure) (''write failover lease: '' @ error_text e);
         return_st (Done no_result err) }
     | Inr _ \<Rightarrow> do {
         leases \<leftarrow> listGroupLeases cfClient (Zone_ID zone) leaseName exposure;
         case leases of
           Inl e \<Rightarrow> do {
             err \<leftarrow> setExposureStatusAndBackoff r exposure (cf_status exposure) (''verify failover lease: '' @ error_text e);
             return_st (Done no_result err) }
         | Inr (records, foreign) \<Rightarrow>
             if foreign then failClosed r exposure leaseName
             else if length records > 1 then resolveDuplicateLeases r cfClient zone exposure records now
             else if length records \<noteq> 1 \<or> Lease_Site (LeaseRecord_Lease (hd records)) \<noteq> Rec_SiteID r then do {
               _ \<leftarrow> Base_Eventf r (E_Meta exposure) EventTypeWarning EventLeaseLost
                 (''Lost failover lease for '' @ E_Hostname exposure);
               standby r exposure \<lparr>NextRole = [], Decision_Action = ActionWait, LeaseOwner = leaseOwnerOf records,
                 LeaseExpiresAt = 0, Requeue = half, AwaitingPromotion = False\<rparr> (leaseTunnelOf records) True }
             else becomePrimary r exposure (LeaseRecord_Lease (hd records)) half force forceToken } }"

section \<open>The role gate\<close>

text \<open>The decision and its dispatch, once at most one group-owned lease was read.\<close>

definition gate_inputs :: "string \<Rightarrow> CloudflareExposure \<Rightarrow> Lease option \<Rightarrow> time \<Rightarrow> (int \<Rightarrow> int) \<Rightarrow> Inputs" where
  "gate_inputs site exposure observed now rng =
     (let prevRole = (if FStatus_Role (failover_status exposure) = [] then RoleUnknown else FStatus_Role (failover_status exposure));
          forceToken = (case map_of (Meta_Annotations (E_Meta exposure)) annotationForcePromote of None \<Rightarrow> [] | Some t \<Rightarrow> t);
          force = (forceToken \<noteq> [] \<and> forceToken \<noteq> FStatus_LastForcePromoteToken (failover_status exposure))
      in \<lparr>Now = now, SiteID = site, PreviousRole = prevRole, Observed = observed,
          LeaseSeconds = leaseSecondsOf exposure, AcquireJitter = failoverAcquireJitter, ForcePromote = force,
          ManualPromotion = (Failover_PromotionPolicy (failover_spec exposure) = PromotionManual), Rand = Some rng\<rparr>)"

definition observed_lease :: "LeaseRecord list \<Rightarrow> Lease option" where
  "observed_lease records = (case records of [rec] \<Rightarrow> Some (LeaseRecord_Lease rec) | _ \<Rightarrow> None)"

definition dispatch :: "'s ExposureReconciler \<Rightarrow> 's Client \<Rightarrow> Zone \<Rightarrow> string \<Rightarrow> CloudflareExposure \<Rightarrow> CloudflareTunnel \<Rightarrow>
    LeaseRecord list \<Rightarrow> time \<Rightarrow> ('s, gate_outcome) state" where
  "dispatch r cfClient zone leaseName exposure tunnel records now = do {
     rng \<leftarrow> Rec_Rand r;
     let observed = observed_lease records;
     let currentID = (case records of [rec] \<Rightarrow> Some (LeaseRecord_ID rec) | _ \<Rightarrow> None);
     let forceToken = (case map_of (Meta_Annotations (E_Meta exposure)) annotationForcePromote of None \<Rightarrow> [] | Some t \<Rightarrow> t);
     let inputs = gate_inputs (Rec_SiteID r) exposure observed now rng;
     let half = sint (leaseSecondsOf exposure) * second div 2;
     let decision = Decide inputs;
     let observedTunnel = (case observed of None \<Rightarrow> [] | Some l \<Rightarrow> Lease_Tunnel l);
     (case Decision_Action decision of
        ActionWait \<Rightarrow> standby r exposure decision observedTunnel False
      | ActionHoldPrimary \<Rightarrow> do {
          _ \<leftarrow> recordRole r exposure RolePrimary;
          fstatus \<leftarrow> primaryFailoverStatus r exposure (the observed);
          res \<leftarrow> setFailoverStatus r exposure fstatus;
          return_st (case res of Inl e \<Rightarrow> Done no_result (Inl e) | Inr exposure' \<Rightarrow> Proceed exposure' (Requeue decision)) }
      | ActionSplitBrain \<Rightarrow> do {
          _ \<leftarrow> Base_Eventf r (E_Meta exposure) EventTypeWarning EventSplitBrainDetected
            (''Split brain: lease for '' @ E_Hostname exposure @ '' now held by '' @ LeaseOwner decision @ '', demoting'');
          standby r exposure decision observedTunnel True }
      | ActionAcquire \<Rightarrow> writeAndVerifyLease r cfClient zone leaseName exposure tunnel currentID now half (ForcePromote inputs) forceToken
      | ActionRenew \<Rightarrow> writeAndVerifyLease r cfClient zone leaseName exposure tunnel currentID now half (ForcePromote inputs) forceToken) }"

definition reconcileFailoverRole :: "'s ExposureReconciler \<Rightarrow> CloudflareExposure \<Rightarrow> CloudflareTunnel \<Rightarrow> 's Client \<Rightarrow>
    ('s, gate_outcome) state" where
  "reconcileFailoverRole r exposure tunnel cfClient = do {
     now \<leftarrow> rec_now r;
     let prevRole = (if FStatus_Role (failover_status exposure) = [] then RoleUnknown else FStatus_Role (failover_status exposure));
     if Rec_SiteID r = defaultSiteID then do {
       fstatus \<leftarrow> baseFailoverStatus r exposure prevRole [] None [];
       err \<leftarrow> setFailoverStatusAndReady r exposure fstatus False ReasonFailoverRequiresDistinctSiteID
         ''spec.failover requires a distinct --site-id; the chart-default site.id is not safe for failover'';
       return_st (Done (after (30 * second)) err) }
     else if \<not> Dns_Manage (TSpec_Dns (T_Spec tunnel)) then do {
       fstatus \<leftarrow> baseFailoverStatus r exposure prevRole [] None [];
       err \<leftarrow> setFailoverStatusAndReady r exposure fstatus False ReasonFailoverRequiresManagedDNS
         ''spec.failover requires the referenced CloudflareTunnel to set dns.manage: true'';
       return_st (Done (after (30 * second)) err) }
     else do {
       resolved \<leftarrow> Zones_Resolve (Client_Zones cfClient) (E_Hostname exposure);
       case resolved of
         Inl e \<Rightarrow> do {
           err \<leftarrow> setExposureStatusAndBackoff r exposure (cf_status exposure) (''resolve zone for failover lease: '' @ error_text e);
           return_st (Done no_result err) }
       | Inr zone \<Rightarrow> do {
           let leaseName = FailoverLeaseTXTName (Failover_Group (failover_spec exposure)) (Zone_Name zone);
           leases \<leftarrow> listGroupLeases cfClient (Zone_ID zone) leaseName exposure;
           case leases of
             Inl e \<Rightarrow> do {
               err \<leftarrow> setExposureStatusAndBackoff r exposure (cf_status exposure) (''read failover lease: '' @ error_text e);
               return_st (Done no_result err) }
           | Inr (records, foreign) \<Rightarrow>
               if foreign then failClosed r exposure leaseName
               else if length records > 1 then resolveDuplicateLeases r cfClient zone exposure records now
               else dispatch r cfClient zone leaseName exposure tunnel records now } } }"

section \<open>Giving the lease up\<close>

fun delete_own_leases :: "'s ExposureReconciler \<Rightarrow> 's Client \<Rightarrow> string \<Rightarrow> LeaseRecord list \<Rightarrow> ('s, unit result) state" where
  "delete_own_leases r cfClient zoneID [] = return_st (Inr ())"
| "delete_own_leases r cfClient zoneID (rec # recs) =
     (if Lease_Site (LeaseRecord_Lease rec) \<noteq> Rec_SiteID r then delete_own_leases r cfClient zoneID recs
      else do {
        res \<leftarrow> DNSRecords_Delete (Client_DNSRecords cfClient) zoneID (LeaseRecord_ID rec);
        case res of
          Inl e \<Rightarrow> if errors_Is e ErrNotFound then delete_own_leases r cfClient zoneID recs else return_st (Inl e)
        | Inr _ \<Rightarrow> delete_own_leases r cfClient zoneID recs })"

definition deleteOwnedLeaseIfPresent :: "'s ExposureReconciler \<Rightarrow> CloudflareExposure \<Rightarrow> 's Client \<Rightarrow> ('s, unit result) state" where
  "deleteOwnedLeaseIfPresent r exposure cfClient =
     (case ESpec_Failover (E_Spec exposure) of
        None \<Rightarrow> return_st (Inr ())
      | Some f \<Rightarrow> do {
          resolved \<leftarrow> Zones_Resolve (Client_Zones cfClient) (E_Hostname exposure);
          case resolved of
            Inl e \<Rightarrow> return_st (if errors_Is e ErrNotFound then Inr () else Inl e)
          | Inr zone \<Rightarrow> do {
              let leaseName = FailoverLeaseTXTName (Failover_Group f) (Zone_Name zone);
              leases \<leftarrow> listGroupLeases cfClient (Zone_ID zone) leaseName exposure;
              case leases of
                Inl e \<Rightarrow> return_st (Inl e)
              | Inr (records, foreign) \<Rightarrow>
                  if foreign then return_st (Inr ())
                  else delete_own_leases r cfClient (Zone_ID zone) records } })"

end
