(* ===== verification/Access_Plan.thy ===== *)
theory Access_Plan
  imports Ownership Cloudflare Lease
begin

text \<open>
  The pure part of the Access reconciliation of \<open>cloudflareexposure_controller.go\<close>: which domains an
  exposure's Access applications cover, which live applications belong to it, when a foreign
  application stands in the way, and when a live application already is as desired.
\<close>

section \<open>Sentinels and types\<close>

definition errHostnameConflict :: error where
  "errHostnameConflict = ErrNew ''hostname conflict''"

definition errForeignResource :: error where
  "errForeignResource = ErrNew ''foreign resource''"

definition errAccessApplicationsUnsupported :: error where
  "errAccessApplicationsUnsupported = ErrNew ''access applications unsupported''"

definition errPolicyNotFound :: error where
  "errPolicyNotFound = ErrNew ''policy not found''"

definition errPolicyNotReady :: error where
  "errPolicyNotReady = ErrNew ''policy not ready''"

record desiredAccessApplication =
  desired_spec :: AccessApplicationTarget
  desired_input :: AccessApplicationInput
  desired_canonicalDomains :: "string list"

record ownedAccessApplication =
  owned_app :: AccessApplication
  owned_canonicalDomains :: "string list"

section \<open>Domains\<close>

definition canonicalAccessApplicationDomain :: "string \<Rightarrow> string \<Rightarrow> string result" where
  "canonicalAccessApplicationDomain hostname domain =
     (if domain = [] then
        Inl (ErrWrap [] errAccessApplicationsUnsupported '': access.applications[].domains contains an empty value'')
      else if ContainsStr domain ''://'' \<or> list_ex (\<lambda>c. c \<in> set ''?#:'') domain then
        Inl (ErrWrap [] errAccessApplicationsUnsupported ('': access.applications[].domains value '' @ quoteq domain @
          '' must be a hostname path under '' @ hostname))
      else if domain \<noteq> hostname \<and> \<not> HasPrefix domain (hostname @ ''/'') then
        Inl (ErrWrap [] errAccessApplicationsUnsupported ('': access.applications[].domains value '' @ quoteq domain @
          '' must equal '' @ hostname @ '' or start with '' @ hostname @ ''/''))
      else if domain = hostname @ ''/*'' then Inr hostname
      else Inr domain)"

text \<open>
  The loop over the domains of one application: the domains as written, their canonical forms, and
  the coverage seen so far over all applications (a map from canonical domain to application name).
\<close>

fun domains_loop :: "string \<Rightarrow> string \<Rightarrow> string list \<Rightarrow> string list \<Rightarrow> (string \<times> string) list \<Rightarrow> string list \<Rightarrow>
    (string list \<times> string list \<times> (string \<times> string) list) result" where
  "domains_loop hostname appName ordered coverage seen [] = Inr (ordered, coverage, seen)"
| "domains_loop hostname appName ordered coverage seen (raw # domains) =
     (case canonicalAccessApplicationDomain hostname raw of
        Inl e \<Rightarrow> Inl e
      | Inr canonical \<Rightarrow>
          if canonical \<in> set coverage then
            Inl (ErrWrap [] errHostnameConflict ('': access application '' @ quoteq appName @
              '' duplicates canonical coverage '' @ quoteq canonical))
          else (case map_of seen canonical of
              Some other \<Rightarrow> Inl (ErrWrap [] errHostnameConflict ('': access applications '' @ quoteq other @ '' and '' @
                quoteq appName @ '' both cover '' @ quoteq canonical))
            | None \<Rightarrow> domains_loop hostname appName (ordered @ [raw]) (coverage @ [canonical])
                ((canonical, appName) # seen) domains))"

definition sortedCopy :: "string list \<Rightarrow> string list" where
  "sortedCopy values = sort_Strings values"

definition desiredAccessApplicationDomains :: "string \<Rightarrow> string \<Rightarrow> string list \<Rightarrow> (string \<times> string) list \<Rightarrow>
    (string list \<times> string list \<times> (string \<times> string) list) result" where
  "desiredAccessApplicationDomains hostname appName domains seen =
     (if domains = [] then
        Inl (ErrWrap [] errAccessApplicationsUnsupported ('': access application '' @ quoteq appName @
          '' must define at least one domain''))
      else case domains_loop hostname appName [] [] seen domains of
          Inl e \<Rightarrow> Inl e
        | Inr (ordered, coverage, seen') \<Rightarrow> Inr (ordered, sortedCopy coverage, seen'))"

definition canonicalLiveAccessApplicationDomain :: "string \<Rightarrow> string \<Rightarrow> string option" where
  "canonicalLiveAccessApplicationDomain hostname domain =
     (if domain = [] then None
      else if domain \<noteq> hostname \<and> \<not> HasPrefix domain (hostname @ ''/'') then None
      else if domain = hostname @ ''/*'' then Some hostname
      else Some domain)"

definition coverage_add :: "string \<Rightarrow> string \<Rightarrow> string list \<Rightarrow> string list" where
  "coverage_add hostname domain coverage =
     (case canonicalLiveAccessApplicationDomain hostname domain of
        None \<Rightarrow> coverage
      | Some canonical \<Rightarrow> if canonical \<in> set coverage then coverage else coverage @ [canonical])"

definition accessApplicationCoverage :: "string \<Rightarrow> AccessApplication \<Rightarrow> string list" where
  "accessApplicationCoverage hostname app =
     sortedCopy (fold (coverage_add hostname) (App_Domains app)
       (if App_Domain app \<noteq> [] then coverage_add hostname (App_Domain app) [] else []))"

definition accessApplicationCoverageKey :: "string list \<Rightarrow> string" where
  "accessApplicationCoverageKey domains = (if domains = [] then [] else Join (sortedCopy domains) [CHR 0x00])"

section \<open>Ownership of live applications\<close>

fun owned_loop :: "string \<Rightarrow> Owner \<Rightarrow> string set \<Rightarrow> ownedAccessApplication list \<Rightarrow> AccessApplication list \<Rightarrow>
    ownedAccessApplication list result" where
  "owned_loop hostname owner desiredCoverage owned [] = Inr owned"
| "owned_loop hostname owner desiredCoverage owned (app # apps) =
     (let appCoverage = accessApplicationCoverage hostname app
      in if \<not> MatchesTags owner (App_Tags app) then
           (if list_ex (\<lambda>domain. domain \<in> desiredCoverage) appCoverage then
              Inl (ErrWrap [] errHostnameConflict ('': Access application '' @ App_ID app @ '' for hostname '' @ hostname))
            else owned_loop hostname owner desiredCoverage owned apps)
         else owned_loop hostname owner desiredCoverage
           (owned @ [\<lparr>owned_app = app, owned_canonicalDomains = appCoverage\<rparr>]) apps)"

definition prepareOwnedAccessApplications :: "string \<Rightarrow> Owner \<Rightarrow> desiredAccessApplication list \<Rightarrow> AccessApplication list \<Rightarrow>
    ownedAccessApplication list result" where
  "prepareOwnedAccessApplications hostname owner desired apps =
     owned_loop hostname owner (set (concat (map desired_canonicalDomains desired))) [] apps"

section \<open>Comparison with the desired state\<close>

text \<open>\<open>sameStringSet\<close>: the loops count every string up in \<open>a\<close> and down in \<open>b\<close>.\<close>

fun count_down :: "(string \<Rightarrow> int) \<Rightarrow> string list \<Rightarrow> bool" where
  "count_down seen [] = True"
| "count_down seen (s # b) = (if seen s - 1 < 0 then False else count_down (seen(s := seen s - 1)) b)"

definition sameStringSet :: "string list \<Rightarrow> string list \<Rightarrow> bool" where
  "sameStringSet a b =
     (if length a \<noteq> length b then False
      else count_down (fold (\<lambda>s seen. seen(s := seen s + 1)) a (\<lambda>_. 0)) b)"

definition accessApplicationMatchesDesired :: "AccessApplication \<Rightarrow> AccessApplicationInput \<Rightarrow> bool" where
  "accessApplicationMatchesDesired app want \<longleftrightarrow>
     App_Name app = AppIn_Name want \<and> App_Domain app = accessApplicationPrimaryDomain (AppIn_Domains want) \<and>
     App_Domains app = AppIn_Domains want \<and> App_PolicyUUIDs app = AppIn_PolicyUUIDs want \<and>
     sameStringSet (App_Tags app) (AppIn_Tags want)"

definition desiredAccessApplicationName :: "CloudflareExposure \<Rightarrow> string \<Rightarrow> string" where
  "desiredAccessApplicationName exposure applicationName =
     (let baseName = (if ESpec_DisplayName (E_Spec exposure) = [] then E_Name exposure else ESpec_DisplayName (E_Spec exposure))
      in baseName @ ''-'' @ applicationName @ ''-cfzt'')"

definition hashStrings :: "string list \<Rightarrow> string" where
  "hashStrings values = ''sha256:'' @ hex_string (Sum256 (Join values [CHR 0x00]))"

definition hashStringsSorted :: "string list \<Rightarrow> string" where
  "hashStringsSorted values = hashStrings (sortedCopy values)"

definition hashStringsOrdered :: "string list \<Rightarrow> string" where
  "hashStringsOrdered values = hashStrings values"

definition accessApplicationStatusFrom :: "string \<Rightarrow> AccessApplication \<Rightarrow> ExposureAccessApplicationStatus" where
  "accessApplicationStatusFrom name app = \<lparr>AppStatus_Name = name, AppStatus_AppID = App_ID app,
     AppStatus_CanonicalDomainHash = hashStringsSorted (App_Domains app),
     AppStatus_PolicyHash = hashStringsOrdered (App_PolicyUUIDs app)\<rparr>"

section \<open>Wildcards\<close>

definition wildcardCoversHost :: "string \<Rightarrow> string \<Rightarrow> bool" where
  "wildcardCoversHost wildcard host =
     (if \<not> HasPrefix wildcard ''*.'' \<or> HasPrefix host ''*.'' then False
      else let domain = drop 2 wildcard; suffix = ''.'' @ domain
           in if \<not> HasSuffix host suffix then False
              else let label = take (length host - length suffix) host
                   in label \<noteq> [] \<and> \<not> ContainsStr label ''.'')"

end
