(* ===== verification/Exposure.thy ===== *)
theory Exposure
  imports Failover Access_Plan
begin

text \<open>
  \<open>internal/controller/cloudflareexposure_controller.go\<close> and \<open>internal/origin\<close>: the Exposure
  reconciler. A step that either lets the reconcile go on with an updated status or ends it returns
  a \<open>step_outcome\<close>. The action that \<open>reconcileOwnedAccessApplications\<close> returns and its caller drops
  is left out. A panic of \<open>Tags()\<close> is the error \<open>tags_panic\<close>, as the manager's recovery makes it.
\<close>

section \<open>Origins\<close>

definition ServiceKind :: string where
  "ServiceKind = ''Service''"

definition HTTPRouteKind :: string where
  "HTTPRouteKind = ''HTTPRoute''"

definition HTTPRouteAPIVersion :: string where
  "HTTPRouteAPIVersion = ''gateway.networking.k8s.io/v1''"

definition DefaultProtocol :: string where
  "DefaultProtocol = ''http''"

definition HostnameFromHTTPRoute :: "HTTPRoute \<Rightarrow> string result" where
  "HostnameFromHTTPRoute route =
     (case HR_Hostnames route of
        Inl e \<Rightarrow> Inl e
      | Inr found \<Rightarrow>
          (let hostnames = (case found of None \<Rightarrow> [] | Some hs \<Rightarrow> hs)
           in if found = None \<or> length hostnames \<noteq> 1 then
                Inl (ErrNew (''HTTPRoute '' @ HR_Namespace route @ ''/'' @ HR_Name route @ '' has '' @ itoa (int (length hostnames)) @
                  '' hostnames; spec.hostname is required unless exactly one HTTPRoute hostname is set''))
              else Inr (hd hostnames)))"

definition serviceDNSName :: "Service \<Rightarrow> string" where
  "serviceDNSName svc = Svc_Name svc @ ''.'' @ Svc_Namespace svc @ ''.svc.cluster.local''"

definition FromService :: "CloudflareExposure \<Rightarrow> Service \<Rightarrow> OriginSpec result" where
  "FromService exposure svc =
     (let current = ESpec_Origin (E_Spec exposure);
          protocol = (case current of Some c \<Rightarrow> if Origin_Protocol c \<noteq> [] then Origin_Protocol c else DefaultProtocol
            | None \<Rightarrow> DefaultProtocol);
          host = (case current of Some c \<Rightarrow> if Origin_Host c \<noteq> [] then Origin_Host c else serviceDNSName svc
            | None \<Rightarrow> serviceDNSName svc);
          port = (case current of Some c \<Rightarrow> Origin_Port c | None \<Rightarrow> 0)
      in if port = 0 then
           (if length (Svc_Ports svc) \<noteq> 1 then
              Inl (ErrNew (''service '' @ Svc_Namespace svc @ ''/'' @ Svc_Name svc @ '' has '' @ itoa (int (length (Svc_Ports svc))) @
                '' ports; origin.port is required when a Service has zero or multiple ports''))
            else Inr \<lparr>Origin_Protocol = protocol, Origin_Host = host, Origin_Port = hd (Svc_Ports svc)\<rparr>)
         else Inr \<lparr>Origin_Protocol = protocol, Origin_Host = host, Origin_Port = port\<rparr>)"

fun replace_ref :: "OwnerReference \<Rightarrow> OwnerReference list \<Rightarrow> OwnerReference list" where
  "replace_ref ref [] = [ref]"
| "replace_ref ref (x # xs) = (if OwnerRef_UID x = OwnerRef_UID ref then ref # xs else x # replace_ref ref xs)"

definition ensureOwnerReference :: "CloudflareExposure \<Rightarrow> string \<Rightarrow> string \<Rightarrow> string \<Rightarrow> string \<Rightarrow> CloudflareExposure" where
  "ensureOwnerReference exposure apiVersion kind name u =
     (let ref = \<lparr>OwnerRef_APIVersion = apiVersion, OwnerRef_Kind = kind, OwnerRef_Name = name, OwnerRef_UID = u,
            OwnerRef_BlockOwnerDeletion = Some False\<rparr>
      in exposure\<lparr>E_Meta := (E_Meta exposure)\<lparr>Meta_OwnerReferences := replace_ref ref (Meta_OwnerReferences (E_Meta exposure))\<rparr>\<rparr>)"

text \<open>The changed exposure is written if its spec or owner references changed.\<close>

definition defaulted :: "'s ExposureReconciler \<Rightarrow> CloudflareExposure \<Rightarrow> CloudflareExposure \<Rightarrow>
    ('s, (bool \<times> CloudflareExposure) result) state" where
  "defaulted r before exposure =
     (if E_Spec before = E_Spec exposure \<and> Meta_OwnerReferences (E_Meta before) = Meta_OwnerReferences (E_Meta exposure)
      then return_st (Inr (False, exposure))
      else do {
        res \<leftarrow> Base_UpdateExposure r exposure;
        return_st (case res of Inl e \<Rightarrow> Inl e | Inr exposure' \<Rightarrow> Inr (True, exposure')) })"

definition not_readable :: "string \<Rightarrow> CloudflareExposure \<Rightarrow> SourceRef \<Rightarrow> error \<Rightarrow> error" where
  "not_readable kind exposure ref e = ErrWrap (''sourceRef '' @ kind @ '' '' @ E_Namespace exposure @ ''/'' @
     SourceRef_Name ref @ '' not readable: '') e []"

definition defaultFromSourceRef :: "'s ExposureReconciler \<Rightarrow> CloudflareExposure \<Rightarrow>
    ('s, (bool \<times> CloudflareExposure) result) state" where
  "defaultFromSourceRef r exposure =
     (case ESpec_SourceRef (E_Spec exposure) of
        None \<Rightarrow> return_st (Inr (False, exposure))
      | Some ref \<Rightarrow>
          if SourceRef_Kind ref = ServiceKind then
            (if SourceRef_ApiVersion ref \<noteq> ''v1'' then
               return_st (Inl (ErrNew ''sourceRef.apiVersion must be v1 for Service''))
             else do {
               got \<leftarrow> Base_GetService r (E_Namespace exposure) (SourceRef_Name ref);
               case got of
                 Inl e \<Rightarrow> return_st (Inl (not_readable ServiceKind exposure ref e))
               | Inr svc \<Rightarrow>
                   (case FromService exposure svc of
                      Inl e \<Rightarrow> return_st (Inl e)
                    | Inr resolved \<Rightarrow> defaulted r exposure
                        (ensureOwnerReference (exposure\<lparr>E_Spec := (E_Spec exposure)\<lparr>ESpec_Origin := Some resolved\<rparr>\<rparr>)
                          ''v1'' ServiceKind (Svc_Name svc) (Svc_UID svc))) })
          else if SourceRef_Kind ref = HTTPRouteKind then
            (if SourceRef_ApiVersion ref \<noteq> HTTPRouteAPIVersion then
               return_st (Inl (ErrNew (''sourceRef.apiVersion must be '' @ HTTPRouteAPIVersion @ '' for HTTPRoute'')))
             else if \<not> Rec_HTTPRouteSourceEnabled r then
               return_st (Inl (ErrNew ''HTTPRoute CRD not found, controller disabled''))
             else do {
               got \<leftarrow> Base_GetHTTPRoute r (E_Namespace exposure) (SourceRef_Name ref);
               case got of
                 Inl e \<Rightarrow> return_st (Inl (if apierrors_IsNotFound e \<or> meta_IsNoMatchError e
                   then not_readable HTTPRouteKind exposure ref e else e))
               | Inr route \<Rightarrow>
                   (case (if E_Hostname exposure = [] then HostnameFromHTTPRoute route else Inr (E_Hostname exposure)) of
                      Inl e \<Rightarrow> return_st (Inl e)
                    | Inr hostname \<Rightarrow> defaulted r exposure
                        (ensureOwnerReference (exposure\<lparr>E_Spec := (E_Spec exposure)\<lparr>ESpec_Hostname := hostname\<rparr>\<rparr>)
                          HTTPRouteAPIVersion HTTPRouteKind (HR_Name route) (HR_UID route))) })
          else return_st (Inl (ErrNew (''unsupported sourceRef kind '' @ quoteq (SourceRef_Kind ref)))))"

section \<open>Conflicts inside the cluster\<close>

definition hasDuplicateHostname :: "'s ExposureReconciler \<Rightarrow> CloudflareExposure \<Rightarrow> ('s, bool result) state" where
  "hasDuplicateHostname r exposure = do {
     listed \<leftarrow> listExposuresByHostname r (E_Hostname exposure);
     return_st (case listed of
         Inl e \<Rightarrow> Inl e
       | Inr others \<Rightarrow> Inr (list_ex (\<lambda>other. E_UID other \<noteq> E_UID exposure \<and>
           TunnelRef_Name (ESpec_TunnelRef (E_Spec other)) = TunnelRef_Name (ESpec_TunnelRef (E_Spec exposure)) \<and>
           E_Hostname other = E_Hostname exposure) others)) }"

definition hasAccessWildcardOverlap :: "'s ExposureReconciler \<Rightarrow> CloudflareExposure \<Rightarrow> ('s, bool result) state" where
  "hasAccessWildcardOverlap r exposure =
     (if \<not> Access_Enabled (ESpec_Access (E_Spec exposure)) \<or> E_Hostname exposure = [] then return_st (Inr False)
      else do {
        listed \<leftarrow> listExposuresByTunnel r (TunnelRef_Name (ESpec_TunnelRef (E_Spec exposure)));
        return_st (case listed of
            Inl e \<Rightarrow> Inl e
          | Inr others \<Rightarrow> Inr (list_ex (\<lambda>other. E_UID other \<noteq> E_UID exposure \<and>
              Meta_DeletionTimestamp (E_Meta other) = None \<and> Access_Enabled (ESpec_Access (E_Spec other)) \<and>
              E_Hostname other \<noteq> [] \<and>
              (wildcardCoversHost (E_Hostname exposure) (E_Hostname other) \<or>
               wildcardCoversHost (E_Hostname other) (E_Hostname exposure))) others)) })"

definition hasFailoverGroupConflict :: "'s ExposureReconciler \<Rightarrow> CloudflareExposure \<Rightarrow> ('s, bool result) state" where
  "hasFailoverGroupConflict r exposure =
     (case ESpec_Failover (E_Spec exposure) of
        None \<Rightarrow> return_st (Inr False)
      | Some f \<Rightarrow> do {
          listed \<leftarrow> listExposuresByFailoverGroup r (Failover_Group f);
          return_st (case listed of
              Inl e \<Rightarrow> Inl e
            | Inr others \<Rightarrow> Inr (list_ex (\<lambda>other. E_UID other \<noteq> E_UID exposure \<and>
                Meta_DeletionTimestamp (E_Meta other) = None) others)) })"

section \<open>Access applications\<close>

definition resolveAccessPolicyUUID :: "'s ExposureReconciler \<Rightarrow> AccessPolicyRef \<Rightarrow> ('s, string result) state" where
  "resolveAccessPolicyUUID r ref =
     (if PolicyRef_UUID ref \<noteq> [] then return_st (Inr (PolicyRef_UUID ref))
      else if PolicyRef_Name ref = [] then
        return_st (Inl (ErrWrap [] errPolicyNotFound '': access.applications[].policies[].policyRef.name is empty''))
      else do {
        got \<leftarrow> Base_GetAccessPolicy r (PolicyRef_Name ref);
        case got of
          Inl e \<Rightarrow> return_st (Inl (if apierrors_IsNotFound e
            then ErrWrap [] errPolicyNotFound ('': CloudflareAccessPolicy '' @ quoteq (PolicyRef_Name ref) @ '' not found'') else e))
        | Inr policy \<Rightarrow>
            (let ready = Base_FindStatusCondition r (PStatus_Conditions (P_Status policy)) ConditionReady;
                 usable = (Meta_DeletionTimestamp (P_Meta policy) = None \<and> PStatus_PolicyId (P_Status policy) \<noteq> [] \<and>
                   (case ready of None \<Rightarrow> False | Some c \<Rightarrow> Condition_Status c = ''True'' \<and>
                      Condition_ObservedGeneration c = Meta_Generation (P_Meta policy)))
             in return_st (if usable then Inr (PStatus_PolicyId (P_Status policy))
                  else Inl (ErrWrap [] errPolicyNotReady ('': CloudflareAccessPolicy '' @ quoteq (PolicyRef_Name ref) @ '' is not ready'')))) })"

fun resolveAccessPolicyUUIDs :: "'s ExposureReconciler \<Rightarrow> AccessApplicationPolicyBinding list \<Rightarrow> ('s, string list result) state" where
  "resolveAccessPolicyUUIDs r [] = return_st (Inr [])"
| "resolveAccessPolicyUUIDs r (policy # policies) = do {
     one \<leftarrow> resolveAccessPolicyUUID r (Binding_PolicyRef policy);
     case one of
       Inl e \<Rightarrow> return_st (Inl e)
     | Inr uuid \<Rightarrow> do {
         rest \<leftarrow> resolveAccessPolicyUUIDs r policies;
         return_st (case rest of Inl e \<Rightarrow> Inl e | Inr uuids \<Rightarrow> Inr (uuid # uuids)) } }"

definition tags_panic :: error where
  "tags_panic = ErrNew ''panic: access source UID tag prefix exceeds Cloudflare tag length limit''"

fun desired_loop :: "'s ExposureReconciler \<Rightarrow> CloudflareExposure \<Rightarrow> (string \<times> string) list \<Rightarrow> desiredAccessApplication list \<Rightarrow>
    AccessApplicationTarget list \<Rightarrow> ('s, desiredAccessApplication list result) state" where
  "desired_loop r exposure seen desired [] = return_st (Inr desired)"
| "desired_loop r exposure seen desired (appSpec # apps) = do {
     uuids \<leftarrow> resolveAccessPolicyUUIDs r (Target_Policies appSpec);
     case uuids of
       Inl e \<Rightarrow> return_st (Inl e)
     | Inr policyUUIDs \<Rightarrow>
         (case desiredAccessApplicationDomains (E_Hostname exposure) (Target_Name appSpec) (Target_Domains appSpec) seen of
            Inl e \<Rightarrow> return_st (Inl e)
          | Inr (domains, coverage, seen') \<Rightarrow>
              (case Owner_Tags (exposureOwner exposure) of
                 None \<Rightarrow> return_st (Inl tags_panic)
               | Some tags \<Rightarrow> desired_loop r exposure seen' (desired @ [\<lparr>desired_spec = appSpec,
                   desired_input = \<lparr>AppIn_Name = desiredAccessApplicationName exposure (Target_Name appSpec),
                     AppIn_Domains = domains, AppIn_PolicyUUIDs = policyUUIDs, AppIn_Tags = tags\<rparr>,
                   desired_canonicalDomains = coverage\<rparr>]) apps)) }"

definition desiredAccessApplications :: "'s ExposureReconciler \<Rightarrow> CloudflareExposure \<Rightarrow>
    ('s, desiredAccessApplication list result) state" where
  "desiredAccessApplications r exposure =
     (let access = ESpec_Access (E_Spec exposure)
      in if \<not> Access_Enabled access then return_st (Inr [])
         else if Access_Applications access = [] then
           return_st (Inl (ErrWrap [] errAccessApplicationsUnsupported
             '': access.enabled=true requires non-empty access.applications[]''))
         else desired_loop r exposure [] [] (sort_slice (\<lambda>a b. Target_Name a < Target_Name b) (Access_Applications access)))"

text \<open>The loop over the desired applications: statuses and matched IDs so far, and the error it stopped at.\<close>

fun apply_desired :: "'s ExposureReconciler \<Rightarrow> CloudflareExposure \<Rightarrow> 's Client \<Rightarrow> (string \<rightharpoonup> ownedAccessApplication) \<Rightarrow>
    (string \<rightharpoonup> ownedAccessApplication) \<Rightarrow> ExposureAccessApplicationStatus list \<Rightarrow> string list \<Rightarrow>
    desiredAccessApplication list \<Rightarrow> ('s, ExposureAccessApplicationStatus list \<times> string list \<times> unit result) state" where
  "apply_desired r exposure cfClient byName byCoverage statuses matched [] = return_st (statuses, matched, Inr ())"
| "apply_desired r exposure cfClient byName byCoverage statuses matched (want # desired) =
     (let found = (case byName (AppIn_Name (desired_input want)) of
            Some live \<Rightarrow> Some live
          | None \<Rightarrow> byCoverage (accessApplicationCoverageKey (desired_canonicalDomains want)))
      in case found of
           Some live \<Rightarrow>
             (let matched' = App_ID (owned_app live) # matched
              in if accessApplicationMatchesDesired (owned_app live) (desired_input want) then
                   apply_desired r exposure cfClient byName byCoverage
                     (statuses @ [accessApplicationStatusFrom (Target_Name (desired_spec want)) (owned_app live)]) matched' desired
                 else do {
                   res \<leftarrow> Apps_Update (Client_AccessApplications cfClient) (App_ID (owned_app live)) (desired_input want);
                   case res of
                     Inl e \<Rightarrow> return_st (statuses, matched', Inl e)
                   | Inr updated \<Rightarrow> do {
                       _ \<leftarrow> Base_Eventf r (E_Meta exposure) EventTypeNormal EventUpdatedAccessApp
                         (''Updated Cloudflare Access application '' @ App_ID updated @ '' for '' @ E_Hostname exposure);
                       apply_desired r exposure cfClient byName byCoverage
                         (statuses @ [accessApplicationStatusFrom (Target_Name (desired_spec want)) updated]) matched' desired } })
         | None \<Rightarrow> do {
             res \<leftarrow> Apps_Create (Client_AccessApplications cfClient) (desired_input want);
             case res of
               Inl e \<Rightarrow> return_st (statuses, matched, Inl e)
             | Inr created \<Rightarrow> do {
                 _ \<leftarrow> Base_Eventf r (E_Meta exposure) EventTypeNormal EventCreatedAccessApp
                   (''Created Cloudflare Access application '' @ App_ID created @ '' for '' @ E_Hostname exposure);
                 apply_desired r exposure cfClient byName byCoverage
                   (statuses @ [accessApplicationStatusFrom (Target_Name (desired_spec want)) created]) matched desired } })"

fun delete_unmatched :: "'s ExposureReconciler \<Rightarrow> CloudflareExposure \<Rightarrow> 's Client \<Rightarrow> string list \<Rightarrow>
    ownedAccessApplication list \<Rightarrow> ('s, unit result) state" where
  "delete_unmatched r exposure cfClient matched [] = return_st (Inr ())"
| "delete_unmatched r exposure cfClient matched (app # owned) =
     (if App_ID (owned_app app) \<in> set matched then delete_unmatched r exposure cfClient matched owned
      else do {
        res \<leftarrow> Apps_Delete (Client_AccessApplications cfClient) (App_ID (owned_app app));
        if (case res of Inl e \<Rightarrow> \<not> errors_Is e ErrNotFound | Inr _ \<Rightarrow> False) then return_st res
        else do {
          _ \<leftarrow> Base_Eventf r (E_Meta exposure) EventTypeNormal EventDeletedAccessApp
            (''Deleted Cloudflare Access application '' @ App_ID (owned_app app) @ '' for '' @ E_Hostname exposure);
          delete_unmatched r exposure cfClient matched owned } })"

definition reconcileOwnedAccessApplications :: "'s ExposureReconciler \<Rightarrow> CloudflareExposure \<Rightarrow> 's Client \<Rightarrow>
    desiredAccessApplication list \<Rightarrow> ownedAccessApplication list \<Rightarrow>
    ('s, ExposureAccessApplicationStatus list \<times> unit result) state" where
  "reconcileOwnedAccessApplications r exposure cfClient desired owned = do {
     let byName = map_of (rev (map (\<lambda>app. (App_Name (owned_app app), app)) owned));
     let byCoverage = map_of (rev (map (\<lambda>app. (accessApplicationCoverageKey (owned_canonicalDomains app), app)) owned));
     applied \<leftarrow> apply_desired r exposure cfClient byName byCoverage [] [] desired;
     case applied of (statuses, matched, res) \<Rightarrow>
       (case res of
          Inl e \<Rightarrow> return_st (statuses, Inl e)
        | Inr _ \<Rightarrow> do {
            del \<leftarrow> delete_unmatched r exposure cfClient matched owned;
            case del of
              Inl e \<Rightarrow> return_st (statuses, Inl e)
            | Inr _ \<Rightarrow> return_st (sort_slice (\<lambda>a b. AppStatus_Name a < AppStatus_Name b) statuses, Inr ()) }) }"

text \<open>
  Deletion. \<open>owned\<close> is a map keyed by application ID, visited in an order Go leaves open; the model
  visits the IDs in the order of the listing.
\<close>

fun delete_apps :: "'s Client \<Rightarrow> string list \<Rightarrow> ('s, unit result) state" where
  "delete_apps cfClient [] = return_st (Inr ())"
| "delete_apps cfClient (rid # ids) = do {
     res \<leftarrow> Apps_Delete (Client_AccessApplications cfClient) rid;
     if (case res of Inl e \<Rightarrow> \<not> errors_Is e ErrNotFound | Inr _ \<Rightarrow> False) then return_st res
     else delete_apps cfClient ids }"

fun delete_tags :: "'s Client \<Rightarrow> string list \<Rightarrow> ('s, unit result) state" where
  "delete_tags cfClient [] = return_st (Inr ())"
| "delete_tags cfClient (tag # tags) = do {
     res \<leftarrow> Tags_Delete (Client_AccessTags cfClient) tag;
     if (case res of Inl e \<Rightarrow> \<not> errors_Is e ErrNotFound | Inr _ \<Rightarrow> False) then return_st res
     else delete_tags cfClient tags }"

definition deleteOwnedAccessTags :: "'s Client \<Rightarrow> Owner \<Rightarrow> ('s, unit result) state" where
  "deleteOwnedAccessTags cfClient owner =
     (case Owner_Tags owner of None \<Rightarrow> return_st (Inl tags_panic) | Some tags \<Rightarrow> delete_tags cfClient (tl tags))"

definition deleteAccessApplications :: "'s ExposureReconciler \<Rightarrow> CloudflareExposure \<Rightarrow> 's Client \<Rightarrow>
    ExposureAccessApplicationStatus list \<Rightarrow> ('s, bool result) state" where
  "deleteAccessApplications r exposure cfClient tracked = do {
     listed \<leftarrow> Apps_List (Client_AccessApplications cfClient) (E_Hostname exposure);
     case listed of
       Inl e \<Rightarrow> return_st (Inl e)
     | Inr apps \<Rightarrow>
         (let owner = exposureOwner exposure;
              owned = remdups (map App_ID (filter (\<lambda>app. MatchesTags owner (App_Tags app)) apps))
          in if list_ex (\<lambda>t. AppStatus_AppID t \<noteq> [] \<and> AppStatus_AppID t \<notin> set owned \<and>
                  AppStatus_AppID t \<in> set (map App_ID apps)) tracked
             then return_st (Inl errForeignResource)
             else do {
               del \<leftarrow> delete_apps cfClient owned;
               case del of
                 Inl e \<Rightarrow> return_st (Inl e)
               | Inr _ \<Rightarrow>
                   if owned = [] then return_st (Inr False)
                   else do {
                     tagsdel \<leftarrow> deleteOwnedAccessTags cfClient owner;
                     return_st (case tagsdel of Inl e \<Rightarrow> Inl e | Inr _ \<Rightarrow> Inr True) } }) }"

datatype step_outcome = Continue ExposureCloudflareStatus | Stop ctrl_Result "unit result"

definition stop_requeue :: "'s ExposureReconciler \<Rightarrow> CloudflareExposure \<Rightarrow> ExposureCloudflareStatus \<Rightarrow> string \<Rightarrow> string \<Rightarrow>
    ('s, step_outcome) state" where
  "stop_requeue r exposure status reason message = do {
     res \<leftarrow> setExposureStatusAndRequeue r exposure status reason message;
     return_st (Stop (fst res) (snd res)) }"

definition stop_status :: "'s ExposureReconciler \<Rightarrow> CloudflareExposure \<Rightarrow> ExposureCloudflareStatus \<Rightarrow> string \<Rightarrow> string \<Rightarrow>
    ('s, step_outcome) state" where
  "stop_status r exposure status reason message = do {
     err \<leftarrow> setExposureStatus r exposure status False reason message;
     return_st (Stop no_result err) }"

definition access_conflict_event :: "'s ExposureReconciler \<Rightarrow> CloudflareExposure \<Rightarrow> ('s, unit) state" where
  "access_conflict_event r exposure = Base_Eventf r (E_Meta exposure) EventTypeWarning EventHostnameConflict
     (''Access application hostname conflict for '' @ E_Hostname exposure)"

definition reconcileExposureAccess :: "'s ExposureReconciler \<Rightarrow> CloudflareExposure \<Rightarrow> 's Client \<Rightarrow> ExposureCloudflareStatus \<Rightarrow>
    ('s, step_outcome) state" where
  "reconcileExposureAccess r exposure cfClient status =
     (if Access_Enabled (ESpec_Access (E_Spec exposure)) then do {
        planned \<leftarrow> desiredAccessApplications r exposure;
        case planned of
          Inl err \<Rightarrow>
            if errors_Is err errHostnameConflict then do {
              _ \<leftarrow> access_conflict_event r exposure;
              stop_requeue r exposure status ReasonHostnameConflict (error_text err) }
            else if errors_Is err errAccessApplicationsUnsupported then
              stop_status r exposure status ReasonAccessApplicationsUnsupported (error_text err)
            else if errors_Is err errPolicyNotFound then stop_status r exposure status ReasonPolicyNotFound (error_text err)
            else if errors_Is err errPolicyNotReady then do {
              statusErr \<leftarrow> setExposureStatus r exposure status False ReasonPolicyNotReady (error_text err);
              return_st (case statusErr of Inl e \<Rightarrow> Stop no_result (Inl e) | Inr _ \<Rightarrow> Stop (after (30 * second)) (Inr ())) }
            else if errors_Is err errForeignResource then stop_requeue r exposure status ReasonForeignResource (error_text err)
            else return_st (Stop no_result (Inl err))
        | Inr desired \<Rightarrow> do {
            listed \<leftarrow> Apps_List (Client_AccessApplications cfClient) (E_Hostname exposure);
            case listed of
              Inl err \<Rightarrow> return_st (Stop no_result (Inl err))
            | Inr apps \<Rightarrow>
                (case prepareOwnedAccessApplications (E_Hostname exposure) (exposureOwner exposure) desired apps of
                   Inl err \<Rightarrow>
                     if errors_Is err errHostnameConflict then do {
                       _ \<leftarrow> access_conflict_event r exposure;
                       stop_requeue r exposure status ReasonHostnameConflict (error_text err) }
                     else if errors_Is err errForeignResource then
                       stop_requeue r exposure status ReasonForeignResource (error_text err)
                     else return_st (Stop no_result (Inl err))
                 | Inr owned \<Rightarrow> do {
                     applied \<leftarrow> reconcileOwnedAccessApplications r exposure cfClient desired owned;
                     case applied of (statuses, res) \<Rightarrow>
                       (case res of
                          Inl err \<Rightarrow> do {
                            statusErr \<leftarrow> setExposureStatus r exposure (status\<lparr>CFStatus_AccessApplications := statuses\<rparr>) False
                              ReasonAccessAppPending (error_text err);
                            return_st (case statusErr of Inl e \<Rightarrow> Stop no_result (Inl e) | Inr _ \<Rightarrow> Stop no_result (Inl err)) }
                        | Inr _ \<Rightarrow> return_st (Continue (status\<lparr>CFStatus_AccessApplications := statuses\<rparr>))) }) } }
      else do {
        del \<leftarrow> deleteAccessApplications r exposure cfClient (CFStatus_AccessApplications status);
        case del of
          Inl err \<Rightarrow> return_st (Stop no_result (Inl err))
        | Inr deleted \<Rightarrow> do {
            _ \<leftarrow> (if deleted then Base_Eventf r (E_Meta exposure) EventTypeNormal EventDeletedAccessApp
                     (''Deleted Cloudflare Access application(s) for '' @ E_Hostname exposure)
                  else return_st ());
            return_st (Continue (status\<lparr>CFStatus_AccessApplications := []\<rparr>)) } })"

section \<open>DNS\<close>

datatype dnsReconcileAction = dnsReconcileUnchanged | dnsReconcileCreated | dnsReconcileUpdated

definition wanted_cname :: "CloudflareExposure \<Rightarrow> CloudflareTunnel \<Rightarrow> Zone \<Rightarrow> DNSRecordInput" where
  "wanted_cname exposure tunnel zone = \<lparr>DNSIn_ZoneID = Zone_ID zone, DNSIn_Name = E_Hostname exposure, DNSIn_Type = ''CNAME'',
     DNSIn_Content = TStatus_TunnelId (T_Status tunnel) @ ''.cfargotunnel.com'', DNSIn_Proxied = True,
     DNSIn_Comment = Owner_Comment (exposureOwner exposure)\<rparr>"

definition reconcileDNS :: "CloudflareExposure \<Rightarrow> CloudflareTunnel \<Rightarrow> 's Client \<Rightarrow>
    ('s, (DNSRecord \<times> dnsReconcileAction) result) state" where
  "reconcileDNS exposure tunnel cfClient = do {
     resolved \<leftarrow> Zones_Resolve (Client_Zones cfClient) (E_Hostname exposure);
     case resolved of
       Inl e \<Rightarrow> return_st (Inl e)
     | Inr zone \<Rightarrow> do {
         let owner = exposureOwner exposure;
         let want = wanted_cname exposure tunnel zone;
         listed \<leftarrow> DNSRecords_List (Client_DNSRecords cfClient) (Zone_ID zone) (E_Hostname exposure) ''CNAME'';
         case listed of
           Inl e \<Rightarrow> return_st (Inl e)
         | Inr records \<Rightarrow>
             (case find (\<lambda>record. \<not> MatchesComment owner (DNS_Comment record)) records of
                Some record \<Rightarrow> return_st (Inl (ErrWrap [] errHostnameConflict
                  ('': DNS record '' @ DNS_ID record @ '' for hostname '' @ E_Hostname exposure)))
              | None \<Rightarrow>
                  (case find (\<lambda>record. MatchesComment owner (DNS_Comment record)) records of
                     Some owned \<Rightarrow>
                       if DNS_Content owned = DNSIn_Content want \<and> DNS_Proxied owned = DNSIn_Proxied want \<and>
                          DNS_Comment owned = DNSIn_Comment want
                       then return_st (Inr (owned, dnsReconcileUnchanged))
                       else do {
                         res \<leftarrow> DNSRecords_Update (Client_DNSRecords cfClient) (DNS_ID owned) want;
                         return_st (case res of Inl e \<Rightarrow> Inl e | Inr record \<Rightarrow> Inr (record, dnsReconcileUpdated)) }
                   | None \<Rightarrow> do {
                       res \<leftarrow> DNSRecords_Create (Client_DNSRecords cfClient) want;
                       return_st (case res of Inl e \<Rightarrow> Inl e | Inr record \<Rightarrow> Inr (record, dnsReconcileCreated)) })) } }"

definition deleteOwnedDNSIfPresent :: "CloudflareExposure \<Rightarrow> 's Client \<Rightarrow> ('s, bool result) state" where
  "deleteOwnedDNSIfPresent exposure cfClient =
     (if CFStatus_DnsRecordId (cf_status exposure) = [] then return_st (Inr False)
      else do {
        resolved \<leftarrow> Zones_Resolve (Client_Zones cfClient) (E_Hostname exposure);
        case resolved of
          Inl e \<Rightarrow> return_st (if errors_Is e ErrNotFound then Inr False else Inl e)
        | Inr zone \<Rightarrow> do {
            listed \<leftarrow> DNSRecords_List (Client_DNSRecords cfClient) (Zone_ID zone) (E_Hostname exposure) ''CNAME'';
            case listed of
              Inl e \<Rightarrow> return_st (Inl e)
            | Inr records \<Rightarrow>
                (case find (\<lambda>record. DNS_ID record = CFStatus_DnsRecordId (cf_status exposure)) records of
                   None \<Rightarrow> return_st (Inr False)
                 | Some record \<Rightarrow>
                     if \<not> MatchesComment (exposureOwner exposure) (DNS_Comment record) then return_st (Inl errForeignResource)
                     else do {
                       res \<leftarrow> DNSRecords_Delete (Client_DNSRecords cfClient) (Zone_ID zone) (DNS_ID record);
                       return_st (case res of
                           Inl e \<Rightarrow> if errors_Is e ErrNotFound then Inr False else Inl e
                         | Inr _ \<Rightarrow> Inr True) }) } })"

definition reconcileExposureDNS :: "'s ExposureReconciler \<Rightarrow> CloudflareExposure \<Rightarrow> CloudflareTunnel \<Rightarrow> 's Client \<Rightarrow>
    ExposureCloudflareStatus \<Rightarrow> ('s, step_outcome) state" where
  "reconcileExposureDNS r exposure tunnel cfClient status =
     (if Dns_Manage (TSpec_Dns (T_Spec tunnel)) then do {
        done \<leftarrow> reconcileDNS exposure tunnel cfClient;
        case done of
          Inl err \<Rightarrow>
            if errors_Is err errHostnameConflict then do {
              _ \<leftarrow> Base_Eventf r (E_Meta exposure) EventTypeWarning EventHostnameConflict
                (''DNS hostname conflict for '' @ E_Hostname exposure);
              stop_requeue r exposure status ReasonHostnameConflict (error_text err) }
            else if errors_Is err errForeignResource then stop_requeue r exposure status ReasonForeignResource (error_text err)
            else do {
              e \<leftarrow> setExposureStatusAndBackoff r exposure status (error_text err);
              return_st (Stop no_result e) }
        | Inr (record, action) \<Rightarrow> do {
            _ \<leftarrow> (case action of
                dnsReconcileCreated \<Rightarrow> Base_Eventf r (E_Meta exposure) EventTypeNormal EventCreatedDNSRecord
                  (''Created Cloudflare DNS CNAME record '' @ DNS_ID record @ '' for '' @ E_Hostname exposure @ '' -> '' @ DNS_Content record)
              | dnsReconcileUpdated \<Rightarrow> Base_Eventf r (E_Meta exposure) EventTypeNormal EventUpdatedDNSRecord
                  (''Updated Cloudflare DNS CNAME record '' @ DNS_ID record @ '' for '' @ E_Hostname exposure @ '' -> '' @ DNS_Content record)
              | dnsReconcileUnchanged \<Rightarrow> return_st ());
            return_st (Continue (status\<lparr>CFStatus_DnsRecordId := DNS_ID record\<rparr>)) } }
      else do {
        del \<leftarrow> deleteOwnedDNSIfPresent exposure cfClient;
        case del of
          Inl err \<Rightarrow> return_st (Stop no_result (Inl err))
        | Inr deleted \<Rightarrow> do {
            _ \<leftarrow> (if deleted then Base_Eventf r (E_Meta exposure) EventTypeNormal EventDeletedDNSRecord
                     (''Deleted Cloudflare DNS CNAME record '' @ CFStatus_DnsRecordId status @ '' for '' @ E_Hostname exposure)
                  else return_st ());
            return_st (Continue (status\<lparr>CFStatus_DnsRecordId := []\<rparr>)) } })"

section \<open>Readiness\<close>

definition exposureAccessReady :: "CloudflareExposure \<Rightarrow> ExposureCloudflareStatus \<Rightarrow> bool" where
  "exposureAccessReady exposure status =
     (if \<not> Access_Enabled (ESpec_Access (E_Spec exposure)) then True
      else if length (CFStatus_AccessApplications status) \<noteq> length (Access_Applications (ESpec_Access (E_Spec exposure))) then False
      else list_all (\<lambda>app. AppStatus_AppID app \<noteq> [] \<and> AppStatus_CanonicalDomainHash app \<noteq> [] \<and> AppStatus_PolicyHash app \<noteq> [])
        (CFStatus_AccessApplications status))"

definition exposureReady :: "CloudflareExposure \<Rightarrow> CloudflareTunnel \<Rightarrow> ExposureCloudflareStatus \<Rightarrow> bool" where
  "exposureReady exposure tunnel status \<longleftrightarrow>
     CFStatus_PublicHostnameRouteHash status \<noteq> [] \<and> exposureAccessReady exposure status \<and>
     (\<not> Dns_Manage (TSpec_Dns (T_Spec tunnel)) \<or> CFStatus_DnsRecordId status \<noteq> [])"

definition routeHashForExposure :: "CloudflareTunnel \<Rightarrow> CloudflareExposure \<Rightarrow> string" where
  "routeHashForExposure tunnel exposure =
     (case find (\<lambda>route. RouteStatus_ExposureUid route = E_UID exposure \<and> RouteStatus_Namespace route = E_Namespace exposure \<and>
          RouteStatus_Name route = E_Name exposure \<and> RouteStatus_Hostname route = E_Hostname exposure) (TStatus_Routes (T_Status tunnel)) of
        Some route \<Rightarrow> RouteStatus_Hash route
      | None \<Rightarrow> [])"

section \<open>Deletion\<close>

definition removeFinalizer :: "'s ExposureReconciler \<Rightarrow> CloudflareExposure \<Rightarrow> ('s, ctrl_Result \<times> unit result) state" where
  "removeFinalizer r exposure = do {
     res \<leftarrow> Base_UpdateExposure r (exposure\<lparr>E_Meta := Base_RemoveFinalizer r (E_Meta exposure) Finalizer\<rparr>);
     return_st (no_result, case res of Inl e \<Rightarrow> Inl e | Inr _ \<Rightarrow> Inr ()) }"

text \<open>The tear-down of the CNAME and the Access applications, then of the finalizer.\<close>

definition deleteSharedResources :: "'s ExposureReconciler \<Rightarrow> CloudflareExposure \<Rightarrow> 's Client \<Rightarrow>
    ('s, ctrl_Result \<times> unit result) state" where
  "deleteSharedResources r exposure cfClient = do {
     dns \<leftarrow> deleteOwnedDNSIfPresent exposure cfClient;
     case dns of
       Inl e \<Rightarrow>
         if errors_Is e errForeignResource then
           setExposureStatusAndRequeue r exposure (cf_status exposure) ReasonForeignResource
             ''DNS record is not owned by this CloudflareExposure''
         else return_st (no_result, Inl e)
     | Inr deletedDNS \<Rightarrow> do {
         _ \<leftarrow> (if deletedDNS then Base_Eventf r (E_Meta exposure) EventTypeNormal EventDeletedDNSRecord
                  (''Deleted Cloudflare DNS CNAME record '' @ CFStatus_DnsRecordId (cf_status exposure) @ '' for '' @ E_Hostname exposure)
               else return_st ());
         access \<leftarrow> deleteAccessApplications r exposure cfClient (CFStatus_AccessApplications (cf_status exposure));
         case access of
           Inl e \<Rightarrow>
             if errors_Is e errForeignResource then
               setExposureStatusAndRequeue r exposure (cf_status exposure) ReasonForeignResource
                 ''Access application is not owned by this CloudflareExposure''
             else return_st (no_result, Inl e)
         | Inr deletedAccess \<Rightarrow> do {
             _ \<leftarrow> (if deletedAccess then Base_Eventf r (E_Meta exposure) EventTypeNormal EventDeletedAccessApp
                      (''Deleted Cloudflare Access application(s) for '' @ E_Hostname exposure)
                   else return_st ());
             removeFinalizer r exposure } } }"

definition reconcileDelete :: "'s ExposureReconciler \<Rightarrow> CloudflareExposure \<Rightarrow> ('s, ctrl_Result \<times> unit result) state" where
  "reconcileDelete r exposure =
     (if \<not> Base_ContainsFinalizer r (E_Meta exposure) Finalizer then return_st (no_result, Inr ())
      else let failover = (ESpec_Failover (E_Spec exposure) \<noteq> None)
      in if \<not> failover \<and> CFStatus_AccessApplications (cf_status exposure) = [] \<and> CFStatus_DnsRecordId (cf_status exposure) = []
         then removeFinalizer r exposure
         else do {
           got \<leftarrow> Base_GetTunnel r (TunnelRef_Name (ESpec_TunnelRef (E_Spec exposure)));
           case got of
             Inl e \<Rightarrow> setExposureStatusAndRequeue r exposure (cf_status exposure) ReasonCredentialsMissing
               (''cleanup needs referenced CloudflareTunnel credentials: '' @ error_text e)
           | Inr tunnel \<Rightarrow> do {
               client \<leftarrow> CloudflareClient r (credentialsRefFromTunnel tunnel);
               case client of
                 Inl e \<Rightarrow> setExposureStatusAndRequeue r exposure (cf_status exposure) ReasonCredentialsMissing (error_text e)
               | Inr cfClient \<Rightarrow>
                   if \<not> failover then deleteSharedResources r exposure cfClient
                   else do {
                     holds \<leftarrow> holdsLiveLease r exposure cfClient;
                     case holds of
                       Inl e \<Rightarrow> return_st (no_result, Inl e)
                     | Inr holdsLease \<Rightarrow> do {
                         del \<leftarrow> deleteOwnedLeaseIfPresent r exposure cfClient;
                         case del of
                           Inl e \<Rightarrow> return_st (no_result, Inl e)
                         | Inr _ \<Rightarrow>
                             if \<not> holdsLease then removeFinalizer r exposure
                             else deleteSharedResources r exposure cfClient } } } })"

section \<open>Reconcile\<close>

text \<open>The end of a pass: Access, DNS, the route hash and the Ready condition.\<close>

definition reconcileShared :: "'s ExposureReconciler \<Rightarrow> CloudflareExposure \<Rightarrow> CloudflareTunnel \<Rightarrow> 's Client \<Rightarrow> duration \<Rightarrow>
    ('s, ctrl_Result \<times> unit result) state" where
  "reconcileShared r exposure tunnel cfClient failoverRequeue = do {
     access \<leftarrow> reconcileExposureAccess r exposure cfClient (cf_status exposure);
     case access of
       Stop result err \<Rightarrow> return_st (result, err)
     | Continue status1 \<Rightarrow> do {
         dns \<leftarrow> reconcileExposureDNS r exposure tunnel cfClient status1;
         case dns of
           Stop result err \<Rightarrow> return_st (result, err)
         | Continue status2 \<Rightarrow> do {
             let status = status2\<lparr>CFStatus_PublicHostnameRouteHash := routeHashForExposure tunnel exposure\<rparr>;
             err \<leftarrow> (if \<not> exposureReady exposure tunnel status
               then setExposureStatus r exposure status False ReasonAccessAppPending ''waiting for tunnel ingress route hash''
               else setExposureStatus r exposure status True ReasonReconciled ''Exposure reconciled'');
             return_st (requeueResult failoverRequeue, err) } } }"

text \<open>The failover part, for an exposure that passed validation.\<close>

definition reconcileGated :: "'s ExposureReconciler \<Rightarrow> CloudflareExposure \<Rightarrow> CloudflareTunnel \<Rightarrow> 's Client \<Rightarrow>
    ('s, ctrl_Result \<times> unit result) state" where
  "reconcileGated r exposure tunnel cfClient =
     (case ESpec_Failover (E_Spec exposure) of
        None \<Rightarrow> reconcileShared r exposure tunnel cfClient 0
      | Some f \<Rightarrow> do {
          conflict \<leftarrow> hasFailoverGroupConflict r exposure;
          case conflict of
            Inl e \<Rightarrow> return_st (no_result, Inl e)
          | Inr True \<Rightarrow> do {
              _ \<leftarrow> Base_Eventf r (E_Meta exposure) EventTypeWarning EventLeaseConflict
                (''spec.failover.group '' @ quoteq (Failover_Group f) @ '' is used by more than one CloudflareExposure in this cluster'');
              setExposureStatusAndRequeue r exposure (cf_status exposure) ReasonFailoverGroupConflict
                ''spec.failover.group is shared by more than one CloudflareExposure in this cluster'' }
          | Inr False \<Rightarrow> do {
              gate \<leftarrow> reconcileFailoverRole r exposure tunnel cfClient;
              case gate of
                Done result err \<Rightarrow> return_st (result, err)
              | Proceed exposure' requeue \<Rightarrow> reconcileShared r exposure' tunnel cfClient requeue } })"

definition reconcileValid :: "'s ExposureReconciler \<Rightarrow> CloudflareExposure \<Rightarrow> CloudflareTunnel \<Rightarrow> 's Client \<Rightarrow>
    ('s, ctrl_Result \<times> unit result) state" where
  "reconcileValid r exposure tunnel cfClient =
     (if ESpec_Origin (E_Spec exposure) = None then do {
        err \<leftarrow> setExposureStatus r exposure (cf_status exposure) False ReasonOriginInvalid ''origin is required'';
        return_st (no_result, err) }
      else if E_Hostname exposure = [] then do {
        err \<leftarrow> setExposureStatus r exposure (cf_status exposure) False ReasonOriginInvalid ''hostname is required'';
        return_st (no_result, err) }
      else do {
        dup \<leftarrow> hasDuplicateHostname r exposure;
        case dup of
          Inl e \<Rightarrow> return_st (no_result, Inl e)
        | Inr True \<Rightarrow> do {
            _ \<leftarrow> Base_Eventf r (E_Meta exposure) EventTypeWarning EventHostnameConflict
              (''Hostname '' @ E_Hostname exposure @ '' is claimed by more than one CloudflareExposure'');
            setExposureStatusAndRequeue r exposure (cf_status exposure) ReasonHostnameConflict
              ''hostname is claimed by more than one CloudflareExposure'' }
        | Inr False \<Rightarrow>
            if Access_Enabled (ESpec_Access (E_Spec exposure)) then do {
              overlap \<leftarrow> hasAccessWildcardOverlap r exposure;
              case overlap of
                Inl e \<Rightarrow> return_st (no_result, Inl e)
              | Inr True \<Rightarrow> do {
                  _ \<leftarrow> Base_Eventf r (E_Meta exposure) EventTypeWarning EventHostnameConflict
                    (''Hostname '' @ E_Hostname exposure @ '' overlaps an Access-enabled CloudflareExposure on tunnel '' @
                     TunnelRef_Name (ESpec_TunnelRef (E_Spec exposure)));
                  setExposureStatusAndRequeue r exposure (cf_status exposure) ReasonHostnameConflict
                    ''wildcard hostname overlaps an Access-enabled CloudflareExposure on the same tunnel'' }
              | Inr False \<Rightarrow> reconcileGated r exposure tunnel cfClient }
            else reconcileGated r exposure tunnel cfClient })"

definition reconcileDefaulted :: "'s ExposureReconciler \<Rightarrow> CloudflareExposure \<Rightarrow> CloudflareTunnel \<Rightarrow> 's Client \<Rightarrow>
    ('s, ctrl_Result \<times> unit result) state" where
  "reconcileDefaulted r exposure tunnel cfClient = do {
     res \<leftarrow> defaultFromSourceRef r exposure;
     case res of
       Inl e \<Rightarrow> do {
         err \<leftarrow> setExposureStatus r exposure (cf_status exposure) False ReasonOriginInvalid (error_text e);
         return_st (no_result, err) }
     | Inr (changed, exposure') \<Rightarrow>
         if changed then return_st (\<lparr>Result_Requeue = True, Result_RequeueAfter = 0\<rparr>, Inr ())
         else reconcileValid r exposure' tunnel cfClient }"

definition reconcileLive :: "'s ExposureReconciler \<Rightarrow> CloudflareExposure \<Rightarrow> ('s, ctrl_Result \<times> unit result) state" where
  "reconcileLive r exposure = do {
     got \<leftarrow> Base_GetTunnel r (TunnelRef_Name (ESpec_TunnelRef (E_Spec exposure)));
     case got of
       Inl e \<Rightarrow> do {
         err \<leftarrow> setExposureStatus r exposure (cf_status exposure) False ReasonOriginInvalid
           (''referenced CloudflareTunnel not found: '' @ error_text e);
         return_st (no_result, err) }
     | Inr tunnel \<Rightarrow> do {
         client \<leftarrow> CloudflareClient r (credentialsRefFromTunnel tunnel);
         case client of
           Inl e \<Rightarrow> setExposureStatusAndRequeue r exposure (cf_status exposure) ReasonCredentialsMissing (error_text e)
         | Inr cfClient \<Rightarrow>
             (case Base_AddFinalizer r (E_Meta exposure) Finalizer of (meta, added) \<Rightarrow>
               if added then do {
                 res \<leftarrow> Base_UpdateExposure r (exposure\<lparr>E_Meta := meta\<rparr>);
                 case res of
                   Inl e \<Rightarrow> return_st (no_result, Inl e)
                 | Inr exposure' \<Rightarrow> reconcileDefaulted r exposure' tunnel cfClient }
               else reconcileDefaulted r exposure tunnel cfClient) } }"

definition Reconcile :: "'s ExposureReconciler \<Rightarrow> string \<Rightarrow> string \<Rightarrow> ('s, ctrl_Result \<times> unit result) state" where
  "Reconcile r namespace name = do {
     got \<leftarrow> Base_GetExposure r namespace name;
     case got of
       Inl e \<Rightarrow> return_st (no_result, if apierrors_IsNotFound e then Inr () else Inl e)
     | Inr exposure \<Rightarrow>
         if Meta_DeletionTimestamp (E_Meta exposure) \<noteq> None then reconcileDelete r exposure
         else reconcileLive r exposure }"

end
