(* ===== verification/Monitor.thy ===== *)
theory Monitor
  imports Call_Log Exposure
begin

text \<open>
  The exposure reconciler under the monitor: \<open>monitor\<close> adds the clock and the random source to what a
  recording \<open>Base\<close> promises, and \<open>logged\<close> is its interpretation on any exposure reconciler.
\<close>

locale monitor = base_monitor r log
  for r :: "'s ExposureReconciler" and log :: "'s \<Rightarrow> call list" +
  assumes rand: "quiet log (Rec_Rand r)"
    and clock: "records log (rec_now r) EvNow"

definition logged :: "'s ExposureReconciler \<Rightarrow> ('s \<times> call list) ExposureReconciler" where
  "logged r = logged_base r (ExposureReconciler.fields (Rec_HTTPRouteSourceEnabled r) (Rec_SiteID r)
     (map_option (\<lambda>f. tell f EvNow) (Rec_Now r)) (lift_log (Rec_Rand r)))"

lemma logged_fields [simp]:
  "Rec_HTTPRouteSourceEnabled (logged r) = Rec_HTTPRouteSourceEnabled r" "Rec_SiteID (logged r) = Rec_SiteID r"
  by (simp_all add: logged_def logged_base_def ExposureReconciler.defs)

lemma logged_sources:
  "Rec_Now (logged r) = map_option (\<lambda>f. tell f EvNow) (Rec_Now r)" "Rec_Rand (logged r) = lift_log (Rec_Rand r)"
  by (simp_all add: logged_def logged_base_def ExposureReconciler.defs)

interpretation logged: monitor "logged r" snd for r
proof (rule monitor.intro, goal_cases)
  case 1
  show ?case unfolding logged_def by (rule logged_base.base_monitor_axioms)
next
  case 2
  have "records snd (Base_WallClock (logged r)) EvNow" unfolding logged_def by (rule logged_base.wall_clock)
  then show ?case by (cases "Rec_Now r") (unfold_locales, simp_all add: rec_now_def logged_sources quiet_lift_log records_tell)
qed

end
