(* ===== verification/Failover_Safety.thy ===== *)
theory Failover_Safety
  imports Monitor
begin

text \<open>
  The safety guard of an exposure and its proof for the failover handlers. \<open>exposure_ok site x\<close>
  is what a call may be, given the calls before it, when the site \<open>site\<close> reconciles the exposure
  \<open>x\<close>: \<open>own_ok\<close> (only resources that a listing showed to carry the exposure's ownership are
  changed), and for a failover exposure \<open>gate_ok\<close> (shared resources are changed only after a listing
  showed this site to hold the only lease) and \<open>write_ok\<close> (the lease is written only when the role
  gate decided so on a lease that was read).
\<close>

section \<open>The guard\<close>

definition listed_own :: "Owner \<Rightarrow> string \<Rightarrow> string \<Rightarrow> call set \<Rightarrow> bool" where
  "listed_own owner z k seen \<longleftrightarrow> (\<exists>n t rs rec. EvDNSList z n t (Inr rs) \<in> seen \<and> rec \<in> set rs \<and> DNS_ID rec = k \<and>
     MatchesComment owner (DNS_Comment rec))"

definition app_own :: "Owner \<Rightarrow> string \<Rightarrow> call set \<Rightarrow> bool" where
  "app_own owner k seen \<longleftrightarrow> (\<exists>d apps app. EvAppsList d (Inr apps) \<in> seen \<and> app \<in> set apps \<and> App_ID app = k \<and>
     MatchesTags owner (App_Tags app))"

fun own_ok :: "Owner \<Rightarrow> call set \<Rightarrow> call \<Rightarrow> bool" where
  "own_ok owner seen (EvDNSCreate i _) = (DNSIn_Comment i = Owner_Comment owner)"
| "own_ok owner seen (EvDNSUpdate k i _) = (DNSIn_Comment i = Owner_Comment owner \<and> listed_own owner (DNSIn_ZoneID i) k seen)"
| "own_ok owner seen (EvDNSDelete z k _) = listed_own owner z k seen"
| "own_ok owner seen (EvAppsCreate i _) = (Owner_Tags owner = Some (AppIn_Tags i))"
| "own_ok owner seen (EvAppsUpdate k i _) = (Owner_Tags owner = Some (AppIn_Tags i) \<and> app_own owner k seen)"
| "own_ok owner seen (EvAppsDelete k _) = app_own owner k seen"
| "own_ok owner seen (EvTagsDelete t _) = (\<exists>tags. Owner_Tags owner = Some tags \<and> t \<in> set (tl tags))"
| "own_ok owner seen e = (\<not> cloudflare_write e)"

definition lease_name :: "CloudflareExposure \<Rightarrow> Zone \<Rightarrow> string" where
  "lease_name x zone = FailoverLeaseTXTName (Failover_Group (failover_spec x)) (Zone_Name zone)"

text \<open>A listing of the lease name whose records are the group's leases \<open>recs\<close>, none of them foreign.\<close>

definition leases_read :: "CloudflareExposure \<Rightarrow> LeaseRecord list \<Rightarrow> call set \<Rightarrow> bool" where
  "leases_read x recs seen \<longleftrightarrow> (\<exists>zone rs. EvZone (E_Hostname x) (Inr zone) \<in> seen \<and>
     EvDNSList (Zone_ID zone) (lease_name x zone) ''TXT'' (Inr rs) \<in> seen \<and>
     group_leases (exposureOwner x) (lease_name x zone) [] rs = (recs, False))"

definition lease_held :: "string \<Rightarrow> CloudflareExposure \<Rightarrow> call set \<Rightarrow> bool" where
  "lease_held site x seen \<longleftrightarrow> (\<exists>rec. leases_read x [rec] seen \<and> Lease_Site (LeaseRecord_Lease rec) = site)"

definition txt_listed :: "string \<Rightarrow> string \<Rightarrow> call set \<Rightarrow> bool" where
  "txt_listed z k seen \<longleftrightarrow> (\<exists>n rs rec. EvDNSList z n ''TXT'' (Inr rs) \<in> seen \<and> rec \<in> set rs \<and> DNS_ID rec = k)"

fun gate_ok :: "string \<Rightarrow> CloudflareExposure \<Rightarrow> call set \<Rightarrow> call \<Rightarrow> bool" where
  "gate_ok site x seen (EvDNSCreate i _) = (DNSIn_Type i = ''TXT'' \<or> lease_held site x seen)"
| "gate_ok site x seen (EvDNSUpdate _ i _) = (DNSIn_Type i = ''TXT'' \<or> lease_held site x seen)"
| "gate_ok site x seen (EvDNSDelete z k _) = (txt_listed z k seen \<or> lease_held site x seen)"
| "gate_ok site x seen (EvAppsCreate _ _) = lease_held site x seen"
| "gate_ok site x seen (EvAppsUpdate _ _ _) = lease_held site x seen"
| "gate_ok site x seen (EvAppsDelete _ _) = lease_held site x seen"
| "gate_ok site x seen (EvTagsDelete _ _) = lease_held site x seen"
| "gate_ok site x seen _ = True"

text \<open>The role gate decided to write the lease, on the leases it read and the time it took.\<close>

definition write_decided :: "string \<Rightarrow> CloudflareExposure \<Rightarrow> DNSRecordInput \<Rightarrow> call set \<Rightarrow> bool" where
  "write_decided site x i seen \<longleftrightarrow> (\<exists>recs now rng tunnelID. EvNow now \<in> seen \<and> leases_read x recs seen \<and> length recs \<le> 1 \<and>
     Decision_Action (Decide (gate_inputs site x (observed_lease recs) now rng)) \<in> {ActionAcquire, ActionRenew} \<and>
     DNSIn_Content i = Serialize (desired_lease site x tunnelID now))"

fun write_ok :: "string \<Rightarrow> CloudflareExposure \<Rightarrow> call set \<Rightarrow> call \<Rightarrow> bool" where
  "write_ok site x seen (EvDNSCreate i _) = (DNSIn_Type i = ''TXT'' \<longrightarrow> write_decided site x i seen)"
| "write_ok site x seen (EvDNSUpdate _ i _) = (DNSIn_Type i = ''TXT'' \<longrightarrow> write_decided site x i seen)"
| "write_ok site x seen _ = True"

definition exposure_ok :: "string \<Rightarrow> CloudflareExposure \<Rightarrow> call set \<Rightarrow> call \<Rightarrow> bool" where
  "exposure_ok site x seen e \<longleftrightarrow> own_ok (exposureOwner x) seen e \<and>
     (ESpec_Failover (E_Spec x) \<noteq> None \<longrightarrow> gate_ok site x seen e \<and> write_ok site x seen e)"

lemma listed_own_mono: "listed_own owner z k K \<Longrightarrow> K \<subseteq> K' \<Longrightarrow> listed_own owner z k K'"
  unfolding listed_own_def by blast

lemma app_own_mono: "app_own owner k K \<Longrightarrow> K \<subseteq> K' \<Longrightarrow> app_own owner k K'"
  unfolding app_own_def by blast

lemma leases_read_mono: "leases_read x recs K \<Longrightarrow> K \<subseteq> K' \<Longrightarrow> leases_read x recs K'"
  unfolding leases_read_def by blast

lemma lease_held_mono: "lease_held site x K \<Longrightarrow> K \<subseteq> K' \<Longrightarrow> lease_held site x K'"
  unfolding lease_held_def using leases_read_mono by blast

lemma txt_listed_mono: "txt_listed z k K \<Longrightarrow> K \<subseteq> K' \<Longrightarrow> txt_listed z k K'"
  unfolding txt_listed_def by blast

lemma write_decided_mono: "write_decided site x i K \<Longrightarrow> K \<subseteq> K' \<Longrightarrow> write_decided site x i K'"
  unfolding write_decided_def using leases_read_mono by blast

lemmas seen_mono = listed_own_mono app_own_mono leases_read_mono lease_held_mono txt_listed_mono write_decided_mono

interpretation eguard: guard "exposure_ok site x" for site x
proof
  fix K e K' assume "exposure_ok site x K e" "K \<subseteq> K'"
  then show "exposure_ok site x K' e"
    by (cases e) (auto simp: exposure_ok_def intro: seen_mono)
qed

lemma neutral_calls [simp]:
  "exposure_ok site x K (EvNow t)" "exposure_ok site x K (EvZone h zr)" "exposure_ok site x K (EvDNSList z n ty lr)"
  "exposure_ok site x K (EvAppsList d ar)" "exposure_ok site x K (EvUpdate e ur)" "exposure_ok site x K (EvStatusUpdate e sr)"
  "exposure_ok site x K (EvListExposures f v er)"
  by (simp_all add: exposure_ok_def)

lemma group_leases_records:
  "group_leases owner name out rs = (recs, False) \<Longrightarrow> rec \<in> set recs \<Longrightarrow>
     rec \<in> set out \<or> (\<exists>d \<in> set rs. DNS_ID d = LeaseRecord_ID rec \<and> MatchesComment owner (DNS_Comment d))"
  by (induction owner name out rs rule: group_leases.induct) (auto split: if_splits sum.splits)

lemma leases_read_own:
  assumes "EvDNSList z n ''TXT'' (Inr rs) \<in> K" and "group_leases owner n [] rs = (recs, False)" and "rec \<in> set recs"
  shows "listed_own owner z (LeaseRecord_ID rec) K \<and> txt_listed z (LeaseRecord_ID rec) K"
  using group_leases_records [OF assms(2,3)] assms(1) unfolding listed_own_def txt_listed_def by fastforce

text \<open>The gate's promise: it lets the pass go on only after a read that shows this site's lease.\<close>

definition gate_result :: "string \<Rightarrow> CloudflareExposure \<Rightarrow> gate_outcome \<Rightarrow> call set \<Rightarrow> bool" where
  "gate_result site x out seen \<longleftrightarrow> (\<forall>e d. out = Proceed e d \<longrightarrow>
     lease_held site x seen \<and> E_Spec e = E_Spec x \<and> E_Meta e = E_Meta x)"

text \<open>A handler that ends the pass: its outcome is never \<open>Proceed\<close>.\<close>

definition ends :: "gate_outcome \<Rightarrow> call set \<Rightarrow> bool" where
  "ends out seen \<longleftrightarrow> (\<forall>e d. out \<noteq> Proceed e d)"

lemma ends_gate_result: "ends out seen \<Longrightarrow> gate_result site x out seen"
  by (simp add: ends_def gate_result_def)

lemma gate_ends: "triple log ok K m ends \<Longrightarrow> triple log ok K m (gate_result site x)"
  by (erule triple_weaken) (auto intro: ends_gate_result)

section \<open>Status writers and events\<close>

context monitor
begin

abbreviation safe_at :: "string \<Rightarrow> CloudflareExposure \<Rightarrow> call set \<Rightarrow> ('s, 'a) state \<Rightarrow> bool" where
  "safe_at site x K m \<equiv> safe log (exposure_ok site x) K m"

lemmas bind_rules =
  triple_bind_quiet [OF get_exposure] triple_bind_quiet [OF get_tunnel] triple_bind_quiet [OF get_policy]
  triple_bind_quiet [OF get_service] triple_bind_quiet [OF get_httproute] eguard.triple_bind_records [OF list_exposures neutral_calls(7)]
  triple_bind_quiet [OF eventf] triple_bind_quiet [OF metrics] triple_bind_quiet [OF rand]
  eguard.triple_bind_records [OF wall_clock neutral_calls(1)] eguard.triple_bind_records [OF clock neutral_calls(1)]
  eguard.triple_bind_records [OF update_exposure neutral_calls(5)]
  eguard.triple_bind_records [OF status_update neutral_calls(6)]

lemmas tail_rules = safe_return triple_quiet [OF metrics] triple_quiet [OF eventf]

lemma safe_setCondition: "safe_at site x K (setCondition r cs ty st re msg g)"
  unfolding setCondition_def by (intro bind_rules tail_rules)

lemma safe_setReadyExposure: "safe_at site x K (setReadyExposure r latest ready re msg mutate)"
  unfolding setReadyExposure_def setReady_def
  by (intro triple_let triple_bind_safe [OF safe_setCondition] triple_if bind_rules tail_rules)

lemma safe_setExposureStatus: "safe_at site x K (setExposureStatus r e st ready re msg)"
  unfolding setExposureStatus_def by (intro bind_rules triple_case_sum tail_rules safe_setReadyExposure)

lemma safe_Backoff: "safe_at site x K (setExposureStatusAndBackoff r e st msg)"
  unfolding setExposureStatusAndBackoff_def
  by (intro triple_bind_safe [OF safe_setExposureStatus] triple_case_sum tail_rules)

lemma safe_Requeue: "safe_at site x K (setExposureStatusAndRequeue r e st re msg)"
  unfolding setExposureStatusAndRequeue_def
  by (intro triple_bind_safe [OF safe_setExposureStatus] triple_case_sum tail_rules)

lemma safe_baseFailoverStatus: "safe_at site x K (baseFailoverStatus r e role lo ex tu)"
  unfolding baseFailoverStatus_def by (intro triple_let triple_if bind_rules tail_rules)

lemma safe_primaryFailoverStatus: "safe_at site x K (primaryFailoverStatus r e l)"
  unfolding primaryFailoverStatus_def by (intro triple_bind_safe [OF safe_baseFailoverStatus] tail_rules)

lemma safe_recordRole: "safe_at site x K (recordRole r e role)"
  unfolding recordRole_def by (intro bind_rules tail_rules)

lemma safe_setFailoverStatusAndReady: "safe_at site x K (setFailoverStatusAndReady r e fs ready re msg)"
  unfolding setFailoverStatusAndReady_def by (intro bind_rules triple_case_sum tail_rules safe_setReadyExposure)

lemma setFailoverStatus_result:
  "triple log (exposure_ok site x) K (setFailoverStatus r e fs)
     (\<lambda>res _. \<forall>e'. res = Inr e' \<longrightarrow> e' = set_failover_status fs e)"
  unfolding setFailoverStatus_def
  by (intro bind_rules triple_case_sum triple_let triple_if) (auto intro!: triple_return split: sum.splits)

lemma return_Done: "triple log ok K (return_st (Done res err)) ends"
  by (rule triple_return) (simp add: ends_def)

lemma if_event: "safe_at site x K (if b then Base_Eventf r m ty re msg else return_st ())"
  by (intro triple_if tail_rules)

lemma ends_standby: "triple log (exposure_ok site x) K (standby r e d tu demote) ends"
  unfolding standby_def
  by (intro triple_bind_safe [OF if_event] triple_bind_safe [OF safe_baseFailoverStatus] triple_bind_safe [OF safe_recordRole]
      triple_if bind_rules triple_bind_safe [OF safe_setFailoverStatusAndReady] return_Done)

lemma ends_failClosed: "triple log (exposure_ok site x) K (failClosed r e n) ends"
  unfolding failClosed_def
  by (intro triple_bind_safe [OF safe_recordRole] bind_rules triple_bind_safe [OF safe_baseFailoverStatus]
      triple_bind_safe [OF safe_setFailoverStatusAndReady] return_Done)

end

section \<open>Lease handlers\<close>

locale monitor_client = monitor r log + client_log c log
  for r :: "'s ExposureReconciler" and log :: "'s \<Rightarrow> call list" and c :: "'s Client"
begin

lemma safe_delete_leases:
  "\<forall>k \<in> set ids. listed_own (exposureOwner x) z k K \<and> txt_listed z k K \<Longrightarrow> safe_at site x K (delete_leases c z ids)"
proof (induction ids arbitrary: K)
  case Nil
  then show ?case by (simp add: safe_return)
next
  case (Cons k ids)
  have "safe_at site x (insert (EvDNSDelete z k res) K) (delete_leases c z ids)" for res
    using Cons.prems by (intro Cons.IH) (auto intro: seen_mono)
  moreover have "exposure_ok site x K (EvDNSDelete z k res)" for res
    using Cons.prems by (simp add: exposure_ok_def)
  ultimately show ?case
    by (auto intro!: eguard.triple_bind_records [OF dns_delete] safe_return split: sum.splits)
qed

lemma listGroupLeases_result:
  "triple log (exposure_ok site x) K (listGroupLeases c z n e)
     (\<lambda>res seen. \<forall>recs. res = Inr (recs, False) \<longrightarrow>
        (\<exists>rs. EvDNSList z n ''TXT'' (Inr rs) \<in> seen \<and> group_leases (exposureOwner e) n [] rs = (recs, False)))"
  unfolding listGroupLeases_def
  by (intro eguard.triple_bind_records [OF dns_list neutral_calls(3)] triple_case_sum) (auto intro!: triple_return)

lemma set_DeleteIDs: "set (DeleteIDs (Resolve recs now site)) \<subseteq> LeaseRecord_ID ` set recs"
  by (auto simp: Resolve_def Let_def split: list.splits)

lemma ends_resolveDuplicateLeases:
  assumes "EvDNSList (Zone_ID zone) n ''TXT'' (Inr rs) \<in> K" and "group_leases (exposureOwner x) n [] rs = (recs, False)"
  shows "triple log (exposure_ok site x) K (resolveDuplicateLeases r c zone x recs now) ends"
proof -
  have "safe_at site x K (delete_leases c (Zone_ID zone) (DeleteIDs (Resolve recs now (Rec_SiteID r))))"
    using leases_read_own [OF assms] set_DeleteIDs [of recs now "Rec_SiteID r"] by (intro safe_delete_leases) blast
  note del = triple_bind_safe [OF this]
  show ?thesis
    unfolding resolveDuplicateLeases_def Let_def
    by (intro bind_rules del triple_case_sum triple_case_prod triple_bind_safe [OF safe_Backoff]
        triple_bind_safe [OF safe_recordRole] triple_bind_safe [OF safe_baseFailoverStatus]
        triple_bind_safe [OF safe_setFailoverStatusAndReady] triple_return) (auto simp: ends_def split: sum.splits)
qed

lemma safe_writeLease:
  assumes "\<And>i :: DNSRecordInput. DNSIn_Content i = Serialize (desired_lease (Rec_SiteID r) x (TStatus_TunnelId (T_Status tunnel)) now) \<Longrightarrow>
      write_decided site x i K"
    and "\<And>k. currentID = Some k \<Longrightarrow> listed_own (exposureOwner x) (Zone_ID zone) k K"
  shows "safe_at site x K (writeLease r c zone n x tunnel currentID now)"
proof -
  let ?i = "\<lparr>DNSIn_ZoneID = Zone_ID zone, DNSIn_Name = n, DNSIn_Type = ''TXT'',
      DNSIn_Content = Serialize (desired_lease (Rec_SiteID r) x (TStatus_TunnelId (T_Status tunnel)) now), DNSIn_Proxied = False,
      DNSIn_Comment = Owner_Comment (exposureOwner x)\<rparr>"
  have "exposure_ok site x K (EvDNSCreate ?i res)" for res using assms(1) by (simp add: exposure_ok_def)
  moreover have "exposure_ok site x K (EvDNSUpdate k ?i res)" if "currentID = Some k" for k res
    using assms(1) assms(2) [OF that] by (simp add: exposure_ok_def)
  ultimately have "safe_at site x K (case currentID of None \<Rightarrow> DNSRecords_Create (Client_DNSRecords c) ?i
      | Some k \<Rightarrow> DNSRecords_Update (Client_DNSRecords c) k ?i)"
    by (auto intro!: triple_case_option triple_safe [OF eguard.triple_records [OF dns_create]]
        triple_safe [OF eguard.triple_records [OF dns_update]])
  then show ?thesis unfolding writeLease_def Let_def by (rule triple_bind_safe) (rule safe_return)
qed

lemma gate_setFailoverStatus:
  assumes "lease_held site x K"
  shows "triple log (exposure_ok site x) K (bind_st (setFailoverStatus r x fs)
      (\<lambda>res. return_st (case res of Inl e \<Rightarrow> Done no_result (Inl e) | Inr x' \<Rightarrow> Proceed x' d))) (gate_result site x)"
proof (rule triple_bind [OF setFailoverStatus_result], rule triple_return)
  fix res :: "CloudflareExposure result" and seen seen'
  assume "K \<subseteq> seen" "seen \<subseteq> seen'" "\<forall>e'. res = Inr e' \<longrightarrow> e' = set_failover_status fs x"
  then show "gate_result site x (case res of Inl e \<Rightarrow> Done no_result (Inl e) | Inr x' \<Rightarrow> Proceed x' d) seen'"
    using lease_held_mono [OF assms, of seen'] by (auto simp: gate_result_def set_failover_status_def split: sum.splits)
qed

lemma gate_becomePrimary:
  assumes "lease_held site x K"
  shows "triple log (exposure_ok site x) K (becomePrimary r x lease half force token) (gate_result site x)"
proof -
  have ev: "safe_at site x K (if b then m1 else m2)" if "safe_at site x K m1" "safe_at site x K m2" for b and m1 m2 :: "('s, unit) state"
    using that by simp
  show ?thesis
    unfolding becomePrimary_def Let_def
    by (intro triple_bind_safe [OF if_event] triple_bind_safe [OF ev] triple_bind_safe [OF safe_recordRole]
        triple_bind_safe [OF safe_primaryFailoverStatus] bind_rules tail_rules gate_setFailoverStatus [OF assms])
qed

lemma gate_writeAndVerifyLease:
  assumes site: "site = Rec_SiteID r"
    and zone: "EvZone (E_Hostname x) (Inr zone) \<in> K" and n: "n = lease_name x zone"
    and wr: "safe_at site x K (writeLease r c zone n x tunnel currentID now)"
  shows "triple log (exposure_ok site x) K (writeAndVerifyLease r c zone n x tunnel currentID now half force token) (gate_result site x)"
proof -
  have verify: "triple log (exposure_ok site x) seen (case leases of
      Inl e \<Rightarrow> bind_st (setExposureStatusAndBackoff r x (cf_status x) (''verify failover lease: '' @ error_text e))
        (\<lambda>err. return_st (Done no_result err))
    | Inr (recs, foreign) \<Rightarrow>
        if foreign then failClosed r x n
        else if length recs > 1 then resolveDuplicateLeases r c zone x recs now
        else if length recs \<noteq> 1 \<or> Lease_Site (LeaseRecord_Lease (hd recs)) \<noteq> Rec_SiteID r then
          bind_st (Base_Eventf r (E_Meta x) EventTypeWarning EventLeaseLost (''Lost failover lease for '' @ E_Hostname x))
            (\<lambda>_. standby r x \<lparr>NextRole = [], Decision_Action = ActionWait, LeaseOwner = leaseOwnerOf recs,
              LeaseExpiresAt = 0, Requeue = half, AwaitingPromotion = False\<rparr> (leaseTunnelOf recs) True)
        else becomePrimary r x (LeaseRecord_Lease (hd recs)) half force token) (gate_result site x)"
    if K: "K \<subseteq> seen" and read: "\<forall>rc. leases = Inr (rc, False) \<longrightarrow>
        (\<exists>rs. EvDNSList (Zone_ID zone) n ''TXT'' (Inr rs) \<in> seen \<and> group_leases (exposureOwner x) n [] rs = (rc, False))"
    for leases seen
  proof (intro triple_case_sum triple_case_prod triple_if)
    fix e show "triple log (exposure_ok site x) seen (bind_st (setExposureStatusAndBackoff r x (cf_status x)
        (''verify failover lease: '' @ error_text e)) (\<lambda>err. return_st (Done no_result err))) (gate_result site x)"
      by (intro triple_bind_safe [OF safe_Backoff] gate_ends [OF return_Done])
  next
    show "triple log (exposure_ok site x) seen (failClosed r x n) (gate_result site x)"
      by (intro gate_ends [OF ends_failClosed])
  next
    fix p recs foreign assume "leases = Inr p" "p = (recs, foreign)" "\<not> foreign"
    with read obtain rs where rs: "EvDNSList (Zone_ID zone) n ''TXT'' (Inr rs) \<in> seen"
        "group_leases (exposureOwner x) n [] rs = (recs, False)" by auto
    then show "triple log (exposure_ok site x) seen (resolveDuplicateLeases r c zone x recs now) (gate_result site x)"
      by (intro gate_ends [OF ends_resolveDuplicateLeases])
    assume one: "\<not> (length recs \<noteq> 1 \<or> Lease_Site (LeaseRecord_Lease (hd recs)) \<noteq> Rec_SiteID r)"
    then obtain rec where "recs = [rec]" "Lease_Site (LeaseRecord_Lease rec) = site"
      using site by (cases recs) auto
    with rs zone K n have "lease_held site x seen" unfolding lease_held_def leases_read_def by blast
    then show "triple log (exposure_ok site x) seen (becomePrimary r x (LeaseRecord_Lease (hd recs)) half force token) (gate_result site x)"
      by (rule gate_becomePrimary)
  next
    fix recs
    show "triple log (exposure_ok site x) seen (bind_st (Base_Eventf r (E_Meta x) EventTypeWarning EventLeaseLost
        (''Lost failover lease for '' @ E_Hostname x)) (\<lambda>_. standby r x \<lparr>NextRole = [], Decision_Action = ActionWait,
          LeaseOwner = leaseOwnerOf recs, LeaseExpiresAt = 0, Requeue = half, AwaitingPromotion = False\<rparr>
          (leaseTunnelOf recs) True)) (gate_result site x)"
      by (intro bind_rules gate_ends [OF ends_standby])
  qed
  show ?thesis
    unfolding writeAndVerifyLease_def
  proof (intro triple_bind_safe [OF wr] triple_case_sum)
    fix e show "triple log (exposure_ok site x) K (bind_st (setExposureStatusAndBackoff r x (cf_status x)
        (''write failover lease: '' @ error_text e)) (\<lambda>err. return_st (Done no_result err))) (gate_result site x)"
      by (intro triple_bind_safe [OF safe_Backoff] gate_ends [OF return_Done])
  qed (rule triple_bind [OF listGroupLeases_result], rule verify)
qed

lemma gate_dispatch:
  assumes site: "site = Rec_SiteID r" and n: "n = lease_name x zone" and len: "length recs \<le> 1"
    and K: "EvZone (E_Hostname x) (Inr zone) \<in> K" "EvNow now \<in> K" "EvDNSList (Zone_ID zone) n ''TXT'' (Inr rs) \<in> K"
    and rs: "group_leases (exposureOwner x) n [] rs = (recs, False)"
  shows "triple log (exposure_ok site x) K (dispatch r c zone n x tunnel recs now) (gate_result site x)"
proof -
  have read: "leases_read x recs K" using K rs n unfolding leases_read_def by blast
  have wr: "triple log (exposure_ok site x) K (writeAndVerifyLease r c zone n x tunnel
        (case recs of [rec] \<Rightarrow> Some (LeaseRecord_ID rec) | _ \<Rightarrow> None) now half force token) (gate_result site x)"
    if d: "Decision_Action (Decide (gate_inputs (Rec_SiteID r) x (observed_lease recs) now rng)) \<in> {ActionAcquire, ActionRenew}"
    for rng half force token
  proof (rule gate_writeAndVerifyLease [OF site K(1) n], rule safe_writeLease)
    fix i :: DNSRecordInput assume "DNSIn_Content i = Serialize (desired_lease (Rec_SiteID r) x (TStatus_TunnelId (T_Status tunnel)) now)"
    with d read K(2) len site show "write_decided site x i K" unfolding write_decided_def by blast
  next
    fix k assume "(case recs of [rec] \<Rightarrow> Some (LeaseRecord_ID rec) | _ \<Rightarrow> None) = Some k"
    then obtain rec where "recs = [rec]" "k = LeaseRecord_ID rec" by (auto split: list.splits)
    then show "listed_own (exposureOwner x) (Zone_ID zone) k K" using leases_read_own [OF K(3) rs] by auto
  qed
  have hold: "triple log (exposure_ok site x) K (bind_st (recordRole r x RolePrimary) (\<lambda>_.
      bind_st (primaryFailoverStatus r x (the (observed_lease recs))) (\<lambda>fs. bind_st (setFailoverStatus r x fs)
        (\<lambda>res. return_st (case res of Inl e \<Rightarrow> Done no_result (Inl e) | Inr x' \<Rightarrow> Proceed x' d))))) (gate_result site x)"
    if a: "Decision_Action (Decide (gate_inputs (Rec_SiteID r) x (observed_lease recs) now rng)) = ActionHoldPrimary" for rng d
  proof -
    have "mine (gate_inputs (Rec_SiteID r) x (observed_lease recs) now rng)" using a by (intro Decide_keeps_mine) simp
    then obtain rec where "recs = [rec]" "Lease_Site (LeaseRecord_Lease rec) = site"
      using site by (auto simp: mine_def gate_inputs_def observed_lease_def Let_def split: list.splits)
    with read have held: "lease_held site x K" unfolding lease_held_def by blast
    have set: "triple log (exposure_ok site x) K (bind_st (setFailoverStatus r x fs)
      (\<lambda>res. return_st (case res of Inl e \<Rightarrow> Done no_result (Inl e) | Inr x' \<Rightarrow> Proceed x' d))) (gate_result site x)" for fs
      by (rule gate_setFailoverStatus [OF held])
    show ?thesis by (intro triple_bind_safe [OF safe_recordRole] triple_bind_safe [OF safe_primaryFailoverStatus] set)
  qed
  show ?thesis
    unfolding dispatch_def
  proof (intro bind_rules triple_let, goal_cases)
    case (1 rng observed currentID forceToken inputs half decision observedTunnel)
    show ?case
    proof (cases "Decision_Action decision")
      case ActionWait
      then show ?thesis by (simp add: gate_ends [OF ends_standby])
    next
      case ActionAcquire
      with 1 wr [of rng] show ?thesis by simp
    next
      case ActionRenew
      with 1 wr [of rng] show ?thesis by simp
    next
      case ActionHoldPrimary
      with 1 hold [of rng] show ?thesis by simp
    next
      case ActionSplitBrain
      then show ?thesis
        by (auto intro!: bind_rules gate_ends [OF ends_standby])
    qed
  qed
qed

lemma Done_after_safe:
  "safe_at site x K m \<Longrightarrow> triple log (exposure_ok site x) K (bind_st m (\<lambda>err. return_st (Done res err))) (gate_result site x)"
  by (intro triple_bind_safe [of _ _ _ m] gate_ends [OF return_Done])

lemma gate_reconcileFailoverRole:
  assumes site: "site = Rec_SiteID r"
  shows "triple log (exposure_ok site x) K (reconcileFailoverRole r x tunnel c) (gate_result site x)"
  unfolding reconcileFailoverRole_def
proof (intro eguard.triple_bind_records [OF clock neutral_calls(1)] eguard.triple_bind_records [OF zones_resolve neutral_calls(2)]
    triple_let triple_if triple_case_sum triple_bind_safe [OF safe_baseFailoverStatus]
    Done_after_safe safe_setFailoverStatusAndReady safe_Backoff, goal_cases)
  case (1 now prevRole res zone leaseName)
  show ?case
  proof (rule triple_bind [OF listGroupLeases_result], goal_cases)
    case (1 leases seen)
    note here = 1 \<open>leaseName = _\<close> \<open>res = Inr zone\<close>
    show ?case
    proof (intro triple_case_sum triple_case_prod triple_if Done_after_safe safe_Backoff gate_ends [OF ends_failClosed], goal_cases)
      case (1 p recs foreign)
      with here show ?case
        by (auto intro!: gate_ends [OF ends_resolveDuplicateLeases])
    next
      case (2 p recs foreign)
      with here site show ?case by (auto intro!: gate_dispatch simp: lease_name_def)
    qed
  qed
qed

section \<open>Holding and giving up the lease\<close>

lemma holdsLiveLease_result:
  "triple log (exposure_ok site x) K (holdsLiveLease r x c)
     (\<lambda>res seen. res = Inr True \<longrightarrow> lease_held (Rec_SiteID r) x seen)"
  unfolding holdsLiveLease_def
proof (intro eguard.triple_bind_records [OF zones_resolve neutral_calls(2)] triple_let triple_case_sum triple_case_option, goal_cases)
  case (3 f res zone leaseName)
  then have f: "failover_spec x = f" by (simp add: failover_spec_def)
  show ?case
  proof (rule triple_bind [OF listGroupLeases_result], intro triple_case_sum triple_case_prod triple_return, goal_cases)
    case (2 leases seen p recs foreign seen')
    then show ?case
      using 3 f by (auto simp: lease_held_def leases_read_def lease_name_def split: list.splits)
  qed simp
qed (auto intro!: triple_return)

lemma safe_delete_own_leases:
  "\<forall>rec \<in> set recs. listed_own (exposureOwner x) z (LeaseRecord_ID rec) K \<and> txt_listed z (LeaseRecord_ID rec) K \<Longrightarrow>
     safe_at site x K (delete_own_leases r c z recs)"
proof (induction recs arbitrary: K)
  case Nil
  then show ?case by (simp add: safe_return)
next
  case (Cons rec recs)
  let ?k = "LeaseRecord_ID rec"
  have "safe_at site x (insert (EvDNSDelete z ?k res) K) (delete_own_leases r c z recs)" for res
    using Cons.prems by (intro Cons.IH) (auto intro: seen_mono)
  moreover have "safe_at site x K (delete_own_leases r c z recs)" using Cons by simp
  moreover have "exposure_ok site x K (EvDNSDelete z ?k res)" for res
    using Cons.prems by (simp add: exposure_ok_def)
  ultimately show ?case
    by (auto intro!: eguard.triple_bind_records [OF dns_delete] safe_return split: sum.splits)
qed

lemma safe_deleteOwnedLeaseIfPresent: "safe_at site x K (deleteOwnedLeaseIfPresent r x c)"
  unfolding deleteOwnedLeaseIfPresent_def
proof (intro eguard.triple_bind_records [OF zones_resolve neutral_calls(2)] triple_let triple_case_sum triple_case_option safe_return,
    goal_cases)
  case (1 f res zone leaseName)
  show ?case
  proof (rule triple_bind [OF listGroupLeases_result], intro triple_case_sum triple_case_prod triple_if safe_return, goal_cases)
    case (1 leases seen p recs foreign)
    then obtain rs where "EvDNSList (Zone_ID zone) leaseName ''TXT'' (Inr rs) \<in> seen"
      "group_leases (exposureOwner x) leaseName [] rs = (recs, False)" by auto
    then show ?case using leases_read_own by (intro safe_delete_own_leases) blast
  qed
qed

end

interpretation logged_pair: monitor_client "logged r" snd "logged_client c" for r c
  by unfold_locales

end
