(* ===== verification/Exposure_Safety.thy ===== *)
theory Exposure_Safety
  imports Failover_Safety
begin

text \<open>
  The safety guard for the whole exposure reconciler: the Access and DNS steps, the finalizer and
  \<open>Reconcile\<close> itself keep \<open>exposure_ok\<close>. The theorems at the end instantiate the result with the
  recording reconciler, whatever the reconciler below it is.
\<close>

lemma ensureOwnerReference_same:
  assumes "E_Meta e' = E_Meta e" "E_Status e' = E_Status e"
    and "E_Spec (ensureOwnerReference e' v k n u) = E_Spec e"
    and "Meta_OwnerReferences (E_Meta (ensureOwnerReference e' v k n u)) = Meta_OwnerReferences (E_Meta e)"
  shows "ensureOwnerReference e' v k n u = e"
  using assms unfolding ensureOwnerReference_def Let_def by (cases e; cases e'; cases "E_Meta e") simp

section \<open>The shared resources\<close>

text \<open>
  What the gate has shown before the shared resources are touched: the exposure \<open>e\<close> of the pass has
  the spec and metadata of \<open>x\<close>, and with failover this site's lease was read.
\<close>

definition may_share :: "string \<Rightarrow> CloudflareExposure \<Rightarrow> CloudflareExposure \<Rightarrow> call set \<Rightarrow> bool" where
  "may_share site x e seen \<longleftrightarrow> E_Spec e = E_Spec x \<and> E_Meta e = E_Meta x \<and>
     (ESpec_Failover (E_Spec x) \<noteq> None \<longrightarrow> lease_held site x seen)"

lemma may_share_mono: "may_share site x e K \<Longrightarrow> K \<subseteq> K' \<Longrightarrow> may_share site x e K'"
  unfolding may_share_def using lease_held_mono by blast

lemma may_share_insert [intro]: "may_share site x e K \<Longrightarrow> may_share site x e (insert ev K)"
  by (rule may_share_mono) auto

lemma may_share_owner: "may_share site x e K \<Longrightarrow> exposureOwner e = exposureOwner x"
  by (simp add: may_share_def exposureOwner_def split: option.split)

lemma shared_calls:
  assumes "may_share site x e K"
  shows "Owner_Tags (exposureOwner e) = Some (AppIn_Tags i) \<Longrightarrow> exposure_ok site x K (EvAppsCreate i ra)"
    and "Owner_Tags (exposureOwner e) = Some (AppIn_Tags i) \<Longrightarrow> app_own (exposureOwner e) k K \<Longrightarrow>
      exposure_ok site x K (EvAppsUpdate k i ra)"
    and "app_own (exposureOwner e) k K \<Longrightarrow> exposure_ok site x K (EvAppsDelete k ru)"
    and "Owner_Tags (exposureOwner e) = Some tags \<Longrightarrow> t \<in> set (tl tags) \<Longrightarrow> exposure_ok site x K (EvTagsDelete t ru)"
    and "DNSIn_Type d \<noteq> ''TXT'' \<Longrightarrow> DNSIn_Comment d = Owner_Comment (exposureOwner e) \<Longrightarrow> exposure_ok site x K (EvDNSCreate d rd)"
    and "DNSIn_Type d \<noteq> ''TXT'' \<Longrightarrow> DNSIn_Comment d = Owner_Comment (exposureOwner e) \<Longrightarrow>
      listed_own (exposureOwner e) (DNSIn_ZoneID d) k K \<Longrightarrow> exposure_ok site x K (EvDNSUpdate k d rd)"
    and "listed_own (exposureOwner e) z k K \<Longrightarrow> exposure_ok site x K (EvDNSDelete z k ru)"
  using assms may_share_owner [OF assms] by (auto simp: exposure_ok_def may_share_def)

lemma owned_loop_own:
  "owned_loop h owner cov out apps = Inr owned \<Longrightarrow> app \<in> set owned \<Longrightarrow>
     app \<in> set out \<or> (owned_app app \<in> set apps \<and> MatchesTags owner (App_Tags (owned_app app)))"
  by (induction h owner cov out apps rule: owned_loop.induct) (auto simp: Let_def split: if_splits)

lemma map_of_rev_Some: "map_of (rev (map f xs)) k = Some v \<Longrightarrow> (k, v) \<in> set (map f xs)"
  by (drule map_of_SomeD) simp

text \<open>The plan: every desired application carries the exposure's ownership tags.\<close>

definition tagged :: "Owner \<Rightarrow> desiredAccessApplication list \<Rightarrow> bool" where
  "tagged owner desired \<longleftrightarrow> list_all (\<lambda>want. Owner_Tags owner = Some (AppIn_Tags (desired_input want))) desired"

context monitor_client
begin

lemma safe_resolve: "safe_at site x K (resolveAccessPolicyUUID r ref)"
  unfolding resolveAccessPolicyUUID_def Let_def by (intro triple_if triple_case_sum bind_rules tail_rules)

lemma safe_resolveAccessPolicyUUIDs: "safe_at site x K (resolveAccessPolicyUUIDs r bs)"
  by (induction bs) (auto intro!: triple_bind_safe [OF safe_resolve] triple_bind_safe triple_case_sum safe_return)

lemma desired_loop_tagged:
  "tagged (exposureOwner e) out \<Longrightarrow> triple log (exposure_ok site x) K (desired_loop r e seen out apps)
     (\<lambda>res _. \<forall>desired. res = Inr desired \<longrightarrow> tagged (exposureOwner e) desired)"
proof (induction apps arbitrary: seen out)
  case Nil
  then show ?case by (auto intro: triple_return)
next
  case (Cons a apps)
  then show ?case
    by (auto intro!: triple_bind_safe [OF safe_resolveAccessPolicyUUIDs] triple_case_sum triple_case_option triple_case_prod
        triple_return Cons.IH simp: tagged_def)
qed

lemma desiredAccessApplications_tagged:
  "triple log (exposure_ok site x) K (desiredAccessApplications r e)
     (\<lambda>res _. \<forall>desired. res = Inr desired \<longrightarrow> tagged (exposureOwner e) desired)"
  unfolding desiredAccessApplications_def Let_def
proof (intro triple_if)
  show "triple log (exposure_ok site x) K (desired_loop r e [] [] apps)
     (\<lambda>res _. \<forall>desired. res = Inr desired \<longrightarrow> tagged (exposureOwner e) desired)" for apps
    by (rule desired_loop_tagged) (simp add: tagged_def)
qed (auto intro!: triple_return simp: tagged_def)

lemma safe_apply_desired:
  assumes "\<And>n live. byName n = Some live \<or> byCoverage n = Some live \<Longrightarrow> app_own (exposureOwner e) (App_ID (owned_app live)) K"
    and "may_share site x e K" and "tagged (exposureOwner e) desired"
  shows "safe_at site x K (apply_desired r e c byName byCoverage statuses matched desired)"
  using assms
proof (induction desired arbitrary: K statuses matched)
  case Nil
  then show ?case by (simp add: safe_return)
next
  case (Cons want desired)
  have own: "Owner_Tags (exposureOwner e) = Some (AppIn_Tags (desired_input want))" "tagged (exposureOwner e) desired"
    using Cons.prems(3) by (auto simp: tagged_def)
  have rest: "safe_at site x K' (apply_desired r e c byName byCoverage st ma desired)" if "K \<subseteq> K'" for K' st ma
    using Cons.prems(1,2) own(2) that by (intro Cons.IH) (auto intro: seen_mono may_share_mono)
  note calls = shared_calls [OF Cons.prems(2)]
  show ?case
    by (auto simp: Let_def intro!: triple_case_option triple_case_sum triple_if safe_return rest bind_rules
        eguard.triple_bind_records [OF apps_update] eguard.triple_bind_records [OF apps_create] calls own Cons.prems(1)
        split: option.splits)
qed

lemma safe_delete_unmatched:
  assumes "\<And>app. app \<in> set owned \<Longrightarrow> app_own (exposureOwner e) (App_ID (owned_app app)) K" and "may_share site x e K"
  shows "safe_at site x K (delete_unmatched r e c matched owned)"
  using assms
proof (induction owned arbitrary: K)
  case Nil
  then show ?case by (simp add: safe_return)
next
  case (Cons app owned)
  have rest: "safe_at site x K' (delete_unmatched r e c matched owned)" if "K \<subseteq> K'" for K'
    using Cons.prems that by (intro Cons.IH) (auto intro: seen_mono may_share_mono)
  show ?case
    by (auto intro!: triple_if safe_return rest bind_rules eguard.triple_bind_records [OF apps_delete]
        shared_calls(3) [OF Cons.prems(2)] Cons.prems(1))
qed

lemma safe_reconcileOwnedAccessApplications:
  assumes own: "\<And>app. app \<in> set owned \<Longrightarrow> app_own (exposureOwner e) (App_ID (owned_app app)) K"
    and share: "may_share site x e K" and tags: "tagged (exposureOwner e) desired"
  shows "safe_at site x K (reconcileOwnedAccessApplications r e c desired owned)"
proof -
  let ?m = "\<lambda>key. map_of (rev (map (\<lambda>app. (key app, app)) owned))"
  have "app_own (exposureOwner e) (App_ID (owned_app live)) K" if "?m key n = Some live" for key n live
    using map_of_rev_Some [OF that] own by auto
  then have "safe_at site x K (apply_desired r e c (?m key1) (?m key2) [] [] desired)" for key1 key2
    using share tags by (intro safe_apply_desired) auto
  note applied = triple_bind_safe [OF this]
  show ?thesis
    unfolding reconcileOwnedAccessApplications_def Let_def
    by (intro applied triple_case_prod triple_case_sum safe_return
        triple_bind_safe [OF safe_delete_unmatched [OF own share]]; assumption?)
qed

lemma safe_delete_apps:
  "\<forall>k \<in> set ids. app_own (exposureOwner e) k K \<Longrightarrow> may_share site x e K \<Longrightarrow> safe_at site x K (delete_apps c ids)"
proof (induction ids arbitrary: K)
  case Nil
  then show ?case by (simp add: safe_return)
next
  case (Cons k ids)
  have rest: "safe_at site x K' (delete_apps c ids)" if "K \<subseteq> K'" for K'
    using Cons.prems that by (intro Cons.IH) (auto intro: seen_mono may_share_mono)
  show ?case
    using Cons.prems by (auto intro!: triple_if safe_return rest eguard.triple_bind_records [OF apps_delete] shared_calls(3))
qed

lemma safe_delete_tags:
  "set tags' \<subseteq> set (tl tags) \<Longrightarrow> Owner_Tags (exposureOwner e) = Some tags \<Longrightarrow> may_share site x e K \<Longrightarrow>
     safe_at site x K (delete_tags c tags')"
proof (induction tags' arbitrary: K)
  case Nil
  then show ?case by (simp add: safe_return)
next
  case (Cons t tags')
  have rest: "safe_at site x K' (delete_tags c tags')" if "K \<subseteq> K'" for K'
    using Cons.prems that by (intro Cons.IH) (auto intro: may_share_mono)
  show ?case
    using Cons.prems shared_calls(4) [OF Cons.prems(3,2), of t]
    by (auto intro!: triple_if safe_return rest eguard.triple_bind_records [OF tags_delete])
qed

lemma safe_deleteAccessApplications:
  assumes "may_share site x e K"
  shows "safe_at site x K (deleteAccessApplications r e c tracked)"
  unfolding deleteAccessApplications_def
proof (intro eguard.triple_bind_records [OF apps_list neutral_calls(4)] triple_case_sum triple_let triple_if safe_return, goal_cases)
  case (1 res apps owner owned)
  have share: "may_share site x e (insert (EvAppsList (E_Hostname e) res) K)" (is "may_share _ _ _ ?K")
    using assms by blast
  have "\<forall>k \<in> set owned. app_own (exposureOwner e) k ?K" using 1 by (auto simp: app_own_def)
  moreover have "safe_at site x ?K (deleteOwnedAccessTags c owner)"
    unfolding deleteOwnedAccessTags_def using 1 share by (auto intro!: triple_case_option safe_return safe_delete_tags)
  ultimately show ?case
    using share by (intro triple_bind_safe [OF safe_delete_apps] triple_case_sum triple_if safe_return) (auto intro: triple_bind_safe safe_return)
qed

lemma safe_stop_requeue: "safe_at site x K (stop_requeue r e st re msg)"
  unfolding stop_requeue_def by (intro triple_bind_safe [OF safe_Requeue] safe_return)

lemma safe_stop_status: "safe_at site x K (stop_status r e st re msg)"
  unfolding stop_status_def by (intro triple_bind_safe [OF safe_setExposureStatus] safe_return)

lemma safe_access_conflict_event: "safe_at site x K (access_conflict_event r e)"
  unfolding access_conflict_event_def by (intro tail_rules)

lemmas stop_rules = safe_stop_requeue safe_stop_status triple_bind_safe [OF safe_access_conflict_event]
  triple_bind_safe [OF safe_setExposureStatus] triple_bind_safe [OF safe_Backoff] triple_bind_safe [OF if_event]
  triple_bind_safe [OF safe_Requeue] safe_Requeue

lemma safe_reconcileExposureAccess:
  assumes "may_share site x e K"
  shows "safe_at site x K (reconcileExposureAccess r e c st)"
  unfolding reconcileExposureAccess_def
proof (rule triple_if, rule triple_bind [OF desiredAccessApplications_tagged], goal_cases)
  case (1 planned seen)
  then have share: "may_share site x e seen" using may_share_mono [OF assms] by blast
  show ?case
  proof (intro triple_case_sum triple_if stop_rules safe_return eguard.triple_bind_records [OF apps_list neutral_calls(4)], goal_cases)
    case (1 desired res apps owned)
    let ?K = "insert (EvAppsList (E_Hostname e) res) seen"
    have "app_own (exposureOwner e) (App_ID (owned_app app)) ?K" if "app \<in> set owned" for app
      using 1 owned_loop_own [OF _ that] unfolding prepareOwnedAccessApplications_def app_own_def by fastforce
    then have "safe_at site x ?K (reconcileOwnedAccessApplications r e c desired owned)"
      using 1 \<open>\<forall>desired. planned = Inr desired \<longrightarrow> _\<close> share
      by (intro safe_reconcileOwnedAccessApplications) auto
    then show ?case by (intro triple_bind_safe triple_case_prod triple_case_sum stop_rules safe_return) auto
  qed
next
  case 2
  show ?case by (intro triple_bind_safe [OF safe_deleteAccessApplications [OF assms]] triple_case_sum stop_rules safe_return)
qed

lemma find_Some_set: "find P xs = Some v \<Longrightarrow> v \<in> set xs \<and> P v"
  by (auto simp: find_Some_iff)

lemma safe_reconcileDNS:
  assumes "may_share site x e K"
  shows "safe_at site x K (reconcileDNS e tunnel c)"
  unfolding reconcileDNS_def
proof (intro eguard.triple_bind_records [OF zones_resolve neutral_calls(2)] eguard.triple_bind_records [OF dns_list neutral_calls(3)]
    triple_let triple_case_sum triple_case_option triple_if safe_return, goal_cases)
  case (1 zr zone owner want lr rs)
  then have "exposure_ok site x (insert (EvDNSList (Zone_ID zone) (E_Hostname e) ''CNAME'' lr) (insert (EvZone (E_Hostname e) zr) K))
      (EvDNSCreate want res)" for res
    using assms by (intro shared_calls(5)) (auto simp: wanted_cname_def)
  then show ?case by (intro eguard.triple_bind_records [OF dns_create] safe_return)
next
  case (2 zr zone owner want lr rs owned)
  then have "exposure_ok site x (insert (EvDNSList (Zone_ID zone) (E_Hostname e) ''CNAME'' lr) (insert (EvZone (E_Hostname e) zr) K))
      (EvDNSUpdate (DNS_ID owned) want res)" for res
    using assms find_Some_set [OF 2(6)] by (intro shared_calls(6)) (auto simp: wanted_cname_def listed_own_def)
  then show ?case by (intro eguard.triple_bind_records [OF dns_update] safe_return)
qed

lemma safe_deleteOwnedDNSIfPresent:
  assumes "may_share site x e K"
  shows "safe_at site x K (deleteOwnedDNSIfPresent e c)"
  unfolding deleteOwnedDNSIfPresent_def
proof (intro eguard.triple_bind_records [OF zones_resolve neutral_calls(2)] eguard.triple_bind_records [OF dns_list neutral_calls(3)]
    triple_let triple_case_sum triple_case_option triple_if safe_return, goal_cases)
  case (1 zr zone lr rs rec)
  then have "exposure_ok site x (insert (EvDNSList (Zone_ID zone) (E_Hostname e) ''CNAME'' lr) (insert (EvZone (E_Hostname e) zr) K))
      (EvDNSDelete (Zone_ID zone) (DNS_ID rec) res)" for res
    using assms find_Some_set [OF 1(4)] by (intro shared_calls(7)) (auto simp: listed_own_def)
  then show ?case by (intro eguard.triple_bind_records [OF dns_delete] safe_return)
qed

lemma safe_case_action:
  "safe_at site x K (case a of dnsReconcileCreated \<Rightarrow> Base_Eventf r m1 ty1 re1 msg1 | dnsReconcileUpdated \<Rightarrow> Base_Eventf r m2 ty2 re2 msg2
     | dnsReconcileUnchanged \<Rightarrow> return_st ())"
  by (cases a) (auto intro: tail_rules)

lemma safe_reconcileExposureDNS:
  assumes "may_share site x e K"
  shows "safe_at site x K (reconcileExposureDNS r e tunnel c st)"
  unfolding reconcileExposureDNS_def
  by (intro triple_if triple_bind_safe [OF safe_reconcileDNS [OF assms]] triple_bind_safe [OF safe_deleteOwnedDNSIfPresent [OF assms]]
      triple_bind_safe [OF safe_case_action] triple_case_sum triple_case_prod bind_rules stop_rules safe_return)

section \<open>The pass\<close>

lemma triple_case_step:
  "(\<And>st. out = Continue st \<Longrightarrow> triple log ok K (f st) R) \<Longrightarrow> (\<And>res err. out = Stop res err \<Longrightarrow> triple log ok K (g res err) R) \<Longrightarrow>
     triple log ok K (case out of Continue st \<Rightarrow> f st | Stop res err \<Rightarrow> g res err) R"
  by (cases out) auto

lemma safe_if: "safe_at site x K m \<Longrightarrow> safe_at site x K n \<Longrightarrow> safe_at site x K (if b then m else n)"
  by simp

lemma safe_reconcileShared:
  assumes "may_share site x e K"
  shows "safe_at site x K (reconcileShared r e tunnel c requeue)"
  unfolding reconcileShared_def
  by (intro triple_bind_safe [OF safe_reconcileExposureAccess [OF assms]] triple_bind_safe [OF safe_reconcileExposureDNS [OF assms]]
      triple_bind_safe [OF safe_if [OF safe_setExposureStatus safe_setExposureStatus]] triple_case_step triple_let safe_return)

lemma safe_removeFinalizer: "safe_at site x K (removeFinalizer r e)"
  unfolding removeFinalizer_def by (intro bind_rules safe_return)

lemma safe_deleteSharedResources:
  assumes "may_share site x e K"
  shows "safe_at site x K (deleteSharedResources r e c)"
  unfolding deleteSharedResources_def
  by (intro triple_bind_safe [OF safe_deleteOwnedDNSIfPresent [OF assms]] triple_bind_safe [OF safe_deleteAccessApplications [OF assms]]
      triple_case_sum triple_if stop_rules safe_return safe_removeFinalizer)

lemma safe_conflicts:
  "safe_at site x K (hasDuplicateHostname r e)" "safe_at site x K (hasAccessWildcardOverlap r e)"
  "safe_at site x K (hasFailoverGroupConflict r e)"
  unfolding hasDuplicateHostname_def hasAccessWildcardOverlap_def hasFailoverGroupConflict_def
    listExposuresByHostname_def listExposuresByTunnel_def listExposuresByFailoverGroup_def
  by (intro triple_if triple_case_option bind_rules safe_return)+

lemma safe_reconcileGated:
  assumes "site = Rec_SiteID r"
  shows "safe_at site x K (reconcileGated r x tunnel c)"
  unfolding reconcileGated_def
proof (intro triple_case_option triple_bind_safe [OF safe_conflicts(3)] triple_case_sum triple_case_bool bind_rules stop_rules safe_return,
    goal_cases)
  case 1
  then show ?case by (intro safe_reconcileShared) (simp add: may_share_def)
next
  case (2 f conflict b)
  show ?case
  proof (rule triple_bind [OF gate_reconcileFailoverRole [OF assms]])
    fix out seen assume "gate_result site x out seen"
    then show "safe_at site x seen (case out of Proceed e d \<Rightarrow> reconcileShared r e tunnel c d | Done res err \<Rightarrow> return_st (res, err))"
      by (cases out) (auto simp: gate_result_def may_share_def intro!: safe_reconcileShared safe_return)
  qed
qed

lemma safe_reconcileValid:
  assumes "site = Rec_SiteID r"
  shows "safe_at site x K (reconcileValid r x tunnel c)"
  unfolding reconcileValid_def
  by (intro triple_if triple_bind_safe [OF safe_conflicts(1)] triple_bind_safe [OF safe_conflicts(2)] triple_case_sum triple_case_bool
      bind_rules stop_rules safe_return safe_reconcileGated [OF assms])

lemma defaulted_result:
  "triple log (exposure_ok site x) K (defaulted r before e) (\<lambda>res _. \<forall>e'. res = Inr (False, e') \<longrightarrow> e' = e \<and> E_Spec e = E_Spec before \<and>
     Meta_OwnerReferences (E_Meta e) = Meta_OwnerReferences (E_Meta before))"
  unfolding defaulted_def by (intro triple_if bind_rules triple_return) (auto split: sum.splits)

lemma defaultFromSourceRef_unchanged:
  "triple log (exposure_ok site x) K (defaultFromSourceRef r e) (\<lambda>res _. \<forall>e'. res = Inr (False, e') \<longrightarrow> e' = e)"
proof -
  have same: "triple log (exposure_ok site x) K (defaulted r e (ensureOwnerReference e' v k n u))
      (\<lambda>res _. \<forall>d. res = Inr (False, d) \<longrightarrow> d = e)" if "E_Meta e' = E_Meta e" "E_Status e' = E_Status e" for e' v k n u
    by (rule triple_weaken [OF defaulted_result subset_refl]) (use ensureOwnerReference_same [OF that] in blast)
  show ?thesis
    unfolding defaultFromSourceRef_def
    by (intro triple_case_option triple_if bind_rules triple_case_sum same triple_return) (auto split: if_splits)
qed

lemma safe_reconcileDefaulted:
  assumes "site = Rec_SiteID r"
  shows "safe_at site x K (reconcileDefaulted r x tunnel c)"
  unfolding reconcileDefaulted_def
proof (rule triple_bind [OF defaultFromSourceRef_unchanged])
  fix res :: "(bool \<times> CloudflareExposure) result" and seen
  assume "\<forall>e'. res = Inr (False, e') \<longrightarrow> e' = x"
  then show "safe_at site x seen (case res of
      Inl e \<Rightarrow> bind_st (setExposureStatus r x (cf_status x) False ReasonOriginInvalid (error_text e)) (\<lambda>err. return_st (no_result, err))
    | Inr (changed, e') \<Rightarrow> if changed then return_st (\<lparr>Result_Requeue = True, Result_RequeueAfter = 0\<rparr>, Inr ())
        else reconcileValid r e' tunnel c)"
    by (intro triple_case_sum triple_case_prod triple_if stop_rules safe_return) (simp add: safe_reconcileValid [OF assms])
qed

lemma safe_tearDown:
  assumes "site = Rec_SiteID r"
  shows "safe_at site x K (bind_st (holdsLiveLease r x c) (\<lambda>holds. case holds of
      Inl e \<Rightarrow> return_st (no_result, Inl e)
    | Inr holdsLease \<Rightarrow> bind_st (deleteOwnedLeaseIfPresent r x c) (\<lambda>del. case del of
          Inl e \<Rightarrow> return_st (no_result, Inl e)
        | Inr _ \<Rightarrow> if \<not> holdsLease then removeFinalizer r x else deleteSharedResources r x c)))"
proof (rule triple_bind [OF holdsLiveLease_result], goal_cases)
  case (1 holds seen)
  then show ?case
    using assms
    by (intro triple_case_sum triple_bind_safe [OF safe_deleteOwnedLeaseIfPresent] triple_if safe_return safe_removeFinalizer
        safe_deleteSharedResources) (simp add: may_share_def)
qed

end

section \<open>Reconcile\<close>

text \<open>
  The exposure a pass works on: the one it read, or the one the API server returned when the pass
  added its finalizer.
\<close>

definition pass_exposure :: "CloudflareExposure \<Rightarrow> call list \<Rightarrow> CloudflareExposure \<Rightarrow> bool" where
  "pass_exposure x l y \<longleftrightarrow> y = x \<or> (\<exists>meta. EvUpdate (x\<lparr>E_Meta := meta\<rparr>) (Inr y) \<in> set l)"

definition pass_guarded :: "string \<Rightarrow> CloudflareExposure \<Rightarrow> call list \<Rightarrow> bool" where
  "pass_guarded site x l \<longleftrightarrow> (\<exists>y. pass_exposure x l y \<and> guarded (exposure_ok site y) l)"

lemma hoare_bind_quiet:
  "quiet log m \<Longrightarrow> (\<And>a. hoare (\<lambda>s. log s = l) (k a) Q) \<Longrightarrow> hoare (\<lambda>s. log s = l) (bind_st m k) Q"
  by (rule hoare_bind [where R = "\<lambda>_ s. log s = l"]) (auto simp: quiet_def intro: hoareI)

lemma hoare_of_safe:
  assumes "safe log (exposure_ok site x) {} m"
  shows "hoare (\<lambda>s. log s = []) m (\<lambda>_ s. pass_guarded site x (log s))"
proof (rule hoareI)
  fix s a s' assume "log s = []" "run_state m s = (a, s')"
  then have "guarded (exposure_ok site x) (log s')" using tripleD [OF assms, of s a s'] by simp
  then show "pass_guarded site x (log s')" by (auto simp: pass_guarded_def pass_exposure_def)
qed

context monitor
begin

lemma triple_bind_client:
  assumes "\<And>e. triple log ok K (k (Inl e)) R" and "\<And>c. monitor_client r log c \<Longrightarrow> triple log ok K (k (Inr c)) R"
  shows "triple log ok K (bind_st (CloudflareClient r ref) k) R"
proof (rule triple_bind)
  show "triple log ok K (CloudflareClient r ref) (\<lambda>res _. \<forall>c. res = Inr c \<longrightarrow> monitor_client r log c)"
    using client [of ref] monitor_axioms new_client by (auto simp: triple_def quiet_def monitor_client_def)
  fix res :: "'s Client result" and seen
  assume "K \<subseteq> seen" "\<forall>c. res = Inr c \<longrightarrow> monitor_client r log c"
  then show "triple log ok seen (k res) R" by (cases res) (auto intro: triple_weaken [OF assms(1)] triple_weaken [OF assms(2)])
qed

lemma safe_reconcileDelete:
  assumes site: "site = Rec_SiteID r"
  shows "safe_at site x K (reconcileDelete r x)"
proof -
  have fin: "safe_at site x K' (removeFinalizer r x)" for K'
    unfolding removeFinalizer_def by (intro bind_rules safe_return)
  have shared: "safe_at site x K (deleteSharedResources r x c)" if "monitor_client r log c" "ESpec_Failover (E_Spec x) = None" for c
    using that(2) by (intro monitor_client.safe_deleteSharedResources [OF that(1)]) (simp add: may_share_def)
  show ?thesis
    unfolding reconcileDelete_def Let_def
    by (intro triple_if [of "\<not> Base_ContainsFinalizer r _ _"] triple_if [of "\<not> (ESpec_Failover (E_Spec x) \<noteq> None) \<and> _"]
        bind_rules triple_case_sum [where x = "_ :: CloudflareTunnel result"] triple_bind_client safe_return safe_Requeue fin)
       (auto intro: shared safe_Requeue monitor_client.safe_tearDown [OF _ site])
qed

lemma safe_reconcileDefaulted_client:
  "monitor_client r log c \<Longrightarrow> safe_at (Rec_SiteID r) x K (reconcileDefaulted r x tunnel c)"
  by (rule monitor_client.safe_reconcileDefaulted) simp_all

lemma hoare_live_update:
  assumes "monitor_client r log c"
  shows "hoare (\<lambda>s. log s = []) (bind_st (Base_UpdateExposure r (x\<lparr>E_Meta := meta\<rparr>)) (\<lambda>res. case res of
      Inl e \<Rightarrow> return_st (no_result, Inl e) | Inr y \<Rightarrow> reconcileDefaulted r y tunnel c))
    (\<lambda>_ s. pass_guarded (Rec_SiteID r) x (log s))"
proof (rule hoare_bind)
  let ?e = "x\<lparr>E_Meta := meta\<rparr>"
  show "hoare (\<lambda>s. log s = []) (Base_UpdateExposure r ?e) (\<lambda>res s. log s = [EvUpdate ?e res])"
    using update_exposure by (intro hoareI) (auto simp: records_def)
  fix res :: "CloudflareExposure result"
  show "hoare (\<lambda>s. log s = [EvUpdate ?e res]) (case res of Inl e \<Rightarrow> return_st (no_result, Inl e)
      | Inr y \<Rightarrow> reconcileDefaulted r y tunnel c) (\<lambda>_ s. pass_guarded (Rec_SiteID r) x (log s))"
  proof (cases res)
    case (Inl e)
    then show ?thesis by (auto intro!: hoare_return exI [of _ x] simp: pass_guarded_def pass_exposure_def)
  next
    case (Inr y)
    show ?thesis
    proof (rule hoareI)
      fix s out s'
      assume s: "log s = [EvUpdate ?e res]"
        and "run_state (case res of Inl e \<Rightarrow> return_st (no_result, Inl e) | Inr y \<Rightarrow> reconcileDefaulted r y tunnel c) s = (out, s')"
      then have "run_state (reconcileDefaulted r y tunnel c) s = (out, s')" using Inr by simp
      then have "guarded (exposure_ok (Rec_SiteID r) y) (log s') \<and> EvUpdate ?e (Inr y) \<in> set (log s')"
        using tripleD [OF safe_reconcileDefaulted_client [OF assms, where K = "{}"], of y s] s Inr by simp
      then show "pass_guarded (Rec_SiteID r) x (log s')" unfolding pass_guarded_def pass_exposure_def by blast
    qed
  qed
qed

lemma hoare_reconcileLive: "hoare (\<lambda>s. log s = []) (reconcileLive r x) (\<lambda>_ s. pass_guarded (Rec_SiteID r) x (log s))"
proof -
  have stop: "hoare (\<lambda>s. log s = []) (bind_st (setExposureStatus r x st b re msg) (\<lambda>err. return_st (no_result, err)))
      (\<lambda>_ s. pass_guarded (Rec_SiteID r) x (log s))" for st b re msg
    by (intro hoare_of_safe triple_bind_safe [OF safe_setExposureStatus] safe_return)
  have go: "hoare (\<lambda>s. log s = []) (bind_st (CloudflareClient r ref) k) Q"
    if "\<And>e. hoare (\<lambda>s. log s = []) (k (Inl e)) Q" "\<And>c. monitor_client r log c \<Longrightarrow> hoare (\<lambda>s. log s = []) (k (Inr c)) Q"
    for ref and k :: "'s Client result \<Rightarrow> ('s, ctrl_Result \<times> unit result) state" and Q
  proof (rule hoare_bind [where R = "\<lambda>res s. log s = [] \<and> (\<forall>c. res = Inr c \<longrightarrow> monitor_client r log c)"])
    show "hoare (\<lambda>s. log s = []) (CloudflareClient r ref) (\<lambda>res s. log s = [] \<and> (\<forall>c. res = Inr c \<longrightarrow> monitor_client r log c))"
      using client [of ref] monitor_axioms new_client by (intro hoareI) (auto simp: quiet_def monitor_client_def)
    fix res :: "'s Client result"
    show "hoare (\<lambda>s. log s = [] \<and> (\<forall>c. res = Inr c \<longrightarrow> monitor_client r log c)) (k res) Q"
      using that by (cases res) (auto simp: hoare_def)
  qed
  show ?thesis
    unfolding reconcileLive_def
    by (rule hoare_bind_quiet [OF get_tunnel])
       (auto intro!: stop go hoare_live_update hoare_of_safe [OF safe_Requeue] hoare_of_safe [OF safe_reconcileDefaulted_client]
         split: sum.splits prod.splits)
qed

lemma Reconcile_guarded:
  assumes "run_state (Reconcile r ns n) s = (out, s')" and "log s = []"
    and "run_state (Base_GetExposure r ns n) s = (Inr x, s1)"
  shows "pass_guarded (Rec_SiteID r) x (log s')"
proof -
  have "log s1 = []" using get_exposure [of ns n] assms(2,3) by (auto simp: quiet_def)
  moreover have "run_state (if Meta_DeletionTimestamp (E_Meta x) \<noteq> None then reconcileDelete r x else reconcileLive r x) s1 = (out, s')"
    using assms(1,3) by (simp add: Reconcile_def)
  moreover have "hoare (\<lambda>s. log s = []) (if Meta_DeletionTimestamp (E_Meta x) \<noteq> None then reconcileDelete r x else reconcileLive r x)
      (\<lambda>_ s. pass_guarded (Rec_SiteID r) x (log s))"
    using hoare_reconcileLive hoare_of_safe [OF safe_reconcileDelete] by simp
  ultimately show ?thesis by (blast dest: hoareD)
qed

end

end
