(* ===== verification/Erasure_Rules.thy ===== *)
theory Erasure_Rules
  imports Call_Log
begin

text \<open>
  A recording computation behaves as the one it records: \<open>erases m' m\<close> says that erasing the record from
  any run of \<open>m'\<close> gives the run of \<open>m\<close>. The rules of the collection \<open>erasure\<close> prove it along the
  structure of a handler; the locale \<open>base_erasure\<close> gives it for what the reconcilers share, for any
  reconciler that extends a recording \<open>Base\<close>.
\<close>

named_theorems erasure \<open>a recording computation against the plain one\<close>

definition erases :: "('s \<times> call list, 'a) state \<Rightarrow> ('s, 'a) state \<Rightarrow> bool" where
  "erases m' m \<longleftrightarrow> (\<forall>s l. \<exists>l'. run_state m' (s, l) = (case run_state m s of (a, s') \<Rightarrow> (a, (s', l'))))"

lemma erasesD: "erases m' m \<Longrightarrow> run_state m s = (a, s') \<Longrightarrow> \<exists>l'. run_state m' (s, l) = (a, (s', l'))"
  unfolding erases_def by (metis case_prod_conv)

lemma erases_run: "erases m' m \<Longrightarrow> run_state m' (s, l) = (a, (s', l')) \<Longrightarrow> run_state m s = (a, s')"
  by (cases "run_state m s") (auto dest: erasesD [where l = l])

section \<open>Rules\<close>

lemma erases_return [erasure]: "erases (return_st a) (return_st a)"
  by (simp add: erases_def)

lemma erases_bind [erasure]:
  assumes "erases m' m" and "\<And>a. erases (k' a) (k a)"
  shows "erases (bind_st m' k') (bind_st m k)"
  unfolding erases_def
proof (intro allI)
  fix s l
  obtain a s1 where m: "run_state m s = (a, s1)" by (cases "run_state m s")
  obtain l1 where "run_state m' (s, l) = (a, (s1, l1))" using erasesD [OF assms(1) m] by blast
  with m assms(2) [of a] show "\<exists>l'. run_state (bind_st m' k') (s, l) = (case run_state (bind_st m k) s of (b, s') \<Rightarrow> (b, (s', l')))"
    by (simp add: erases_def)
qed

lemma erases_if [erasure]: "erases m' m \<Longrightarrow> erases n' n \<Longrightarrow> erases (if b then m' else n') (if b then m else n)"
  by simp

lemma erases_let [erasure]: "(\<And>x. erases (f' x) (f x)) \<Longrightarrow> erases (let x = t in f' x) (let x = t in f x)"
  by simp

lemma erases_case_sum [erasure]:
  "(\<And>e. erases (f' e) (f e)) \<Longrightarrow> (\<And>v. erases (g' v) (g v)) \<Longrightarrow> erases (case_sum f' g' x) (case_sum f g x)"
  by (cases x) auto

lemma erases_case_option [erasure]:
  "erases m' m \<Longrightarrow> (\<And>v. erases (g' v) (g v)) \<Longrightarrow> erases (case_option m' g' x) (case_option m g x)"
  by (cases x) auto

lemma erases_case_prod [erasure]: "(\<And>a b. erases (f' a b) (f a b)) \<Longrightarrow> erases (case_prod f' x) (case_prod f x)"
  by (cases x) auto

lemma erases_case_bool [erasure]: "erases m' m \<Longrightarrow> erases n' n \<Longrightarrow> erases (case_bool m' n' x) (case_bool m n x)"
  by (cases x) auto

lemma erases_case_list [erasure]:
  "erases m' m \<Longrightarrow> (\<And>a b. erases (f' a b) (f a b)) \<Longrightarrow> erases (case_list m' f' x) (case_list m f x)"
  by (cases x) auto

lemma erases_case_error [erasure]:
  "(\<And>s. erases (f1' s) (f1 s)) \<Longrightarrow> (\<And>a e b. erases (f2' a e b) (f2 a e b)) \<Longrightarrow> (\<And>a b. erases (f3' a b) (f3 a b)) \<Longrightarrow>
     (\<And>a b. erases (f4' a b) (f4 a b)) \<Longrightarrow> (\<And>hs. erases (f5' hs) (f5 hs)) \<Longrightarrow>
     erases (case_error f1' f2' f3' f4' f5' x) (case_error f1 f2 f3 f4 f5 x)"
  by (cases x) auto

lemma erases_lift_log: "erases (lift_log m) m"
  by (simp add: erases_def lift_log_def split: prod.splits)

lemma erases_tell: "erases (tell m f) m"
  by (simp add: erases_def tell_def split: prod.splits)

section \<open>The calls\<close>

lemma erases_client [erasure]:
  "erases (Zones_Resolve (Client_Zones (logged_client c)) h) (Zones_Resolve (Client_Zones c) h)"
  "erases (DNSRecords_List (Client_DNSRecords (logged_client c)) z n t) (DNSRecords_List (Client_DNSRecords c) z n t)"
  "erases (DNSRecords_Create (Client_DNSRecords (logged_client c)) i) (DNSRecords_Create (Client_DNSRecords c) i)"
  "erases (DNSRecords_Update (Client_DNSRecords (logged_client c)) k i) (DNSRecords_Update (Client_DNSRecords c) k i)"
  "erases (DNSRecords_Delete (Client_DNSRecords (logged_client c)) z k) (DNSRecords_Delete (Client_DNSRecords c) z k)"
  "erases (Apps_List (Client_AccessApplications (logged_client c)) d) (Apps_List (Client_AccessApplications c) d)"
  "erases (Apps_Create (Client_AccessApplications (logged_client c)) ai) (Apps_Create (Client_AccessApplications c) ai)"
  "erases (Apps_Update (Client_AccessApplications (logged_client c)) k ai) (Apps_Update (Client_AccessApplications c) k ai)"
  "erases (Apps_Delete (Client_AccessApplications (logged_client c)) k) (Apps_Delete (Client_AccessApplications c) k)"
  "erases (Tags_Delete (Client_AccessTags (logged_client c)) tg) (Tags_Delete (Client_AccessTags c) tg)"
  "erases (Tunnels_Create (Client_Tunnels (logged_client c)) ti) (Tunnels_Create (Client_Tunnels c) ti)"
  "erases (Tunnels_Rename (Client_Tunnels (logged_client c)) k ri) (Tunnels_Rename (Client_Tunnels c) k ri)"
  "erases (Tunnels_List (Client_Tunnels (logged_client c)) n) (Tunnels_List (Client_Tunnels c) n)"
  "erases (Tunnels_Get (Client_Tunnels (logged_client c)) k) (Tunnels_Get (Client_Tunnels c) k)"
  "erases (Tunnels_Delete (Client_Tunnels (logged_client c)) k) (Tunnels_Delete (Client_Tunnels c) k)"
  "erases (Tunnels_Token (Client_Tunnels (logged_client c)) k) (Tunnels_Token (Client_Tunnels c) k)"
  "erases (Configurations_Update (Client_Configurations (logged_client c)) k ci) (Configurations_Update (Client_Configurations c) k ci)"
  "erases (Policies_List (Client_AccessPolicies (logged_client c))) (Policies_List (Client_AccessPolicies c))"
  "erases (Policies_GetMetadata (Client_AccessPolicies (logged_client c)) k) (Policies_GetMetadata (Client_AccessPolicies c) k)"
  "erases (Policies_Get (Client_AccessPolicies (logged_client c)) k) (Policies_Get (Client_AccessPolicies c) k)"
  "erases (Policies_Create (Client_AccessPolicies (logged_client c)) pi) (Policies_Create (Client_AccessPolicies c) pi)"
  "erases (Policies_Update (Client_AccessPolicies (logged_client c)) k pi) (Policies_Update (Client_AccessPolicies c) k pi)"
  "erases (Policies_Delete (Client_AccessPolicies (logged_client c)) k) (Policies_Delete (Client_AccessPolicies c) k)"
  "erases (Routes_List (Client_TunnelRoutes (logged_client c)) rf) (Routes_List (Client_TunnelRoutes c) rf)"
  "erases (Routes_Create (Client_TunnelRoutes (logged_client c)) rti) (Routes_Create (Client_TunnelRoutes c) rti)"
  "erases (Routes_Get (Client_TunnelRoutes (logged_client c)) k) (Routes_Get (Client_TunnelRoutes c) k)"
  "erases (Routes_Edit (Client_TunnelRoutes (logged_client c)) k rti) (Routes_Edit (Client_TunnelRoutes c) k rti)"
  "erases (Routes_Delete (Client_TunnelRoutes (logged_client c)) k) (Routes_Delete (Client_TunnelRoutes c) k)"
  by (simp_all add: logged_client_def Let_def erases_tell erases_lift_log)

locale base_erasure =
  fixes r' :: "('s \<times> call list, 'y) Base_scheme" and r :: "('s, 'z) Base_scheme"
  assumes recording: "\<exists>ext. r' = logged_base r ext"
begin

lemma base [erasure]:
  "erases (Base_GetExposure r' ns n) (Base_GetExposure r ns n)"
  "erases (Base_GetTunnel r' n) (Base_GetTunnel r n)"
  "erases (Base_GetAccessPolicy r' n) (Base_GetAccessPolicy r n)"
  "erases (Base_GetService r' ns n) (Base_GetService r ns n)"
  "erases (Base_GetHTTPRoute r' ns n) (Base_GetHTTPRoute r ns n)"
  "erases (Base_GetSecret r' ns n) (Base_GetSecret r ns n)"
  "erases (Base_ListExposures r' f v) (Base_ListExposures r f v)"
  "erases (Base_UpdateExposure r' e) (Base_UpdateExposure r e)"
  "erases (Base_StatusUpdateExposure r' e) (Base_StatusUpdateExposure r e)"
  "erases (Base_Eventf r' m ty re msg) (Base_Eventf r m ty re msg)"
  "erases (Base_Metric r' mt ls) (Base_Metric r mt ls)"
  "erases (Base_WallClock r') (Base_WallClock r)"
  using recording by (auto simp: logged_base_def erases_lift_log erases_tell)

lemma pure:
  "Base_NewCloudflareClient r' = map_option (\<lambda>new ref. logged_new (new ref)) (Base_NewCloudflareClient r)"
  "Base_New r' = (\<lambda>a t. logged_new (Base_New r a t))"
  "Base_SetStatusCondition r' = Base_SetStatusCondition r"
  "Base_FindStatusCondition r' = Base_FindStatusCondition r"
  "Base_AddFinalizer r' = Base_AddFinalizer r"
  "Base_ContainsFinalizer r' = Base_ContainsFinalizer r"
  "Base_RemoveFinalizer r' = Base_RemoveFinalizer r"
  using recording by auto

lemma erases_bind_CloudflareClient [erasure]:
  assumes "\<And>e. erases (f' e) (f e)" and "\<And>c. erases (g' (logged_client c)) (g c)"
  shows "erases (bind_st (CloudflareClient r' ref) (case_sum f' g')) (bind_st (CloudflareClient r ref) (case_sum f g))"
    (is "erases (bind_st _ ?k') (bind_st _ ?k)")
proof -
  have load: "erases (Load r' ref) (Load r ref)"
    unfolding Load_def by (intro erasure base)
  have res: "\<exists>l'. run_state (CloudflareClient r' ref) (s, l) =
      (case run_state (CloudflareClient r ref) s of (c, s') \<Rightarrow> (map_result logged_client c, (s', l')))" for s l
  proof (cases "Base_NewCloudflareClient r")
    case None
    obtain a s1 where run: "run_state (Load r ref) s = (a, s1)" by (cases "run_state (Load r ref) s")
    obtain l1 where "run_state (Load r' ref) (s, l) = (a, (s1, l1))" using erasesD [OF load run] by blast
    with run None show ?thesis by (cases a) (auto simp: CloudflareClient_def logged_new_def map_result_def pure split: prod.splits)
  next
    case (Some new)
    then show ?thesis by (simp add: CloudflareClient_def logged_new_def pure split: prod.splits)
  qed
  have step: "erases (?k' (map_result logged_client c)) (?k c)" for c
    using assms by (cases c) (auto simp: map_result_def)
  show ?thesis
    unfolding erases_def
  proof (intro allI)
    fix s l
    obtain c s1 where run: "run_state (CloudflareClient r ref) s = (c, s1)" by (cases "run_state (CloudflareClient r ref) s")
    with res [of s l] obtain l1 where "run_state (CloudflareClient r' ref) (s, l) = (map_result logged_client c, (s1, l1))"
      by auto
    with run step [of c] show "\<exists>l'. run_state (bind_st (CloudflareClient r' ref) ?k') (s, l) =
        (case run_state (bind_st (CloudflareClient r ref) ?k) s of (b, s') \<Rightarrow> (b, (s', l')))"
      by (simp add: erases_def)
  qed
qed

lemma erases_setCondition [erasure]: "erases (setCondition r' cs ty st re msg g) (setCondition r cs ty st re msg g)"
  unfolding setCondition_def pure by (intro erasure)

lemma erases_setReady [erasure]:
  "(\<And>ob. erases (upd' ob) (upd ob)) \<Longrightarrow>
     erases (setReady r' getc setc upd' obj g b re msg f) (setReady r getc setc upd obj g b re msg f)"
  unfolding setReady_def by (intro erasure)

lemma erases_listExposures [erasure]:
  "erases (listExposuresByHostname r' v) (listExposuresByHostname r v)"
  "erases (listExposuresByTunnel r' v) (listExposuresByTunnel r v)"
  "erases (listExposuresByPolicy r' v) (listExposuresByPolicy r v)"
  "erases (listExposuresByFailoverGroup r' v) (listExposuresByFailoverGroup r v)"
  unfolding listExposuresByHostname_def listExposuresByTunnel_def listExposuresByPolicy_def listExposuresByFailoverGroup_def
  by (intro erasure)+

end

end
