(* ===== verification/Erasure.thy ===== *)
theory Erasure
  imports Monitor Erasure_Rules
begin

text \<open>
  The recording exposure reconciler behaves as the reconciler it wraps: erasing the record from a run of
  any handler with \<open>logged r\<close> gives the run of that handler with \<open>r\<close>. So what the monitor shows about
  the record holds of the calls the reconciler itself makes. One lemma per handler, all by the rules of
  the collection \<open>erasure\<close>.
\<close>

lemma erases_case_gate [erasure]:
  "(\<And>e d. erases (f' e d) (f e d)) \<Longrightarrow> (\<And>x y. erases (g' x y) (g x y)) \<Longrightarrow>
     erases (case_gate_outcome f' g' out) (case_gate_outcome f g out)"
  by (cases out) auto

lemma erases_case_step [erasure]:
  "(\<And>e. erases (f' e) (f e)) \<Longrightarrow> (\<And>x y. erases (g' x y) (g x y)) \<Longrightarrow>
     erases (case_step_outcome f' g' out) (case_step_outcome f g out)"
  by (cases out) auto

lemma erases_case_dns [erasure]:
  "erases m1' m1 \<Longrightarrow> erases m2' m2 \<Longrightarrow> erases m3' m3 \<Longrightarrow>
     erases (case_dnsReconcileAction m1' m2' m3' a) (case_dnsReconcileAction m1 m2 m3 a)"
  by (cases a) auto

lemma erases_case_action [erasure]:
  "erases m1' m1 \<Longrightarrow> erases m2' m2 \<Longrightarrow> erases m3' m3 \<Longrightarrow> erases m4' m4 \<Longrightarrow> erases m5' m5 \<Longrightarrow>
     erases (case_Action m1' m2' m3' m4' m5' a) (case_Action m1 m2 m3 m4 m5 a)"
  by (cases a) auto

interpretation exposure_log: base_erasure "logged r" r for r
  by unfold_locales (auto simp: logged_def)

lemma erases_Rand [erasure]: "erases (Rec_Rand (logged r)) (Rec_Rand r)"
  by (simp add: logged_sources erases_lift_log)

lemma erases_rec_now [erasure]: "erases (rec_now (logged r)) (rec_now r)"
  by (cases "Rec_Now r") (simp_all add: rec_now_def logged_sources erases_tell exposure_log.base)

lemmas pure = exposure_log.pure logged_fields

section \<open>The handlers\<close>

lemma erases_setReadyExposure [erasure]: "erases (setReadyExposure (logged r) e b re msg f) (setReadyExposure r e b re msg f)"
  unfolding setReadyExposure_def pure by (intro erasure)

lemma erases_setExposureStatus [erasure]: "erases (setExposureStatus (logged r) e st b re msg) (setExposureStatus r e st b re msg)"
  unfolding setExposureStatus_def pure by (intro erasure)

lemma erases_setExposureStatusAndBackoff [erasure]: "erases (setExposureStatusAndBackoff (logged r) e st msg) (setExposureStatusAndBackoff r e st msg)"
  unfolding setExposureStatusAndBackoff_def pure by (intro erasure)

lemma erases_setExposureStatusAndRequeue [erasure]: "erases (setExposureStatusAndRequeue (logged r) e st re msg) (setExposureStatusAndRequeue r e st re msg)"
  unfolding setExposureStatusAndRequeue_def pure by (intro erasure)

lemma erases_baseFailoverStatus [erasure]: "erases (baseFailoverStatus (logged r) e ro lo ex tu) (baseFailoverStatus r e ro lo ex tu)"
  unfolding baseFailoverStatus_def pure by (intro erasure)

lemma erases_primaryFailoverStatus [erasure]: "erases (primaryFailoverStatus (logged r) e l) (primaryFailoverStatus r e l)"
  unfolding primaryFailoverStatus_def pure by (intro erasure)

lemma erases_recordRole [erasure]: "erases (recordRole (logged r) e ro) (recordRole r e ro)"
  unfolding recordRole_def metric_labels_def pure by (intro erasure)

lemma erases_setFailoverStatus [erasure]: "erases (setFailoverStatus (logged r) e fs) (setFailoverStatus r e fs)"
  unfolding setFailoverStatus_def pure by (intro erasure)

lemma erases_setFailoverStatusAndReady [erasure]: "erases (setFailoverStatusAndReady (logged r) e fs b re msg) (setFailoverStatusAndReady r e fs b re msg)"
  unfolding setFailoverStatusAndReady_def pure by (intro erasure)

lemma erases_standby [erasure]: "erases (standby (logged r) e d tu dem) (standby r e d tu dem)"
  unfolding standby_def metric_labels_def pure by (intro erasure)

lemma erases_failClosed [erasure]: "erases (failClosed (logged r) e n) (failClosed r e n)"
  unfolding failClosed_def pure by (intro erasure)

lemma erases_listGroupLeases [erasure]: "erases (listGroupLeases (logged_client c) z n e) (listGroupLeases c z n e)"
  unfolding listGroupLeases_def pure by (intro erasure)

lemma erases_delete_leases [erasure]: "erases (delete_leases (logged_client c) z ids) (delete_leases c z ids)"
  by (induction ids) (auto intro!: erasure simp: Let_def split: option.splits)

lemma erases_resolveDuplicateLeases [erasure]: "erases (resolveDuplicateLeases (logged r) (logged_client c) zone e recs now) (resolveDuplicateLeases r c zone e recs now)"
  unfolding resolveDuplicateLeases_def pure by (intro erasure)

lemma erases_writeLease [erasure]: "erases (writeLease (logged r) (logged_client c) zone n e tunnel cur now) (writeLease r c zone n e tunnel cur now)"
  unfolding writeLease_def pure by (intro erasure)

lemma erases_becomePrimary [erasure]: "erases (becomePrimary (logged r) e l half force token) (becomePrimary r e l half force token)"
  unfolding becomePrimary_def metric_labels_def pure by (intro erasure)

lemma erases_writeAndVerifyLease [erasure]: "erases (writeAndVerifyLease (logged r) (logged_client c) zone n e tunnel cur now half force token) (writeAndVerifyLease r c zone n e tunnel cur now half force token)"
  unfolding writeAndVerifyLease_def pure by (intro erasure)

lemma erases_dispatch [erasure]: "erases (dispatch (logged r) (logged_client c) zone n e tunnel recs now) (dispatch r c zone n e tunnel recs now)"
  unfolding dispatch_def pure by (intro erasure)

lemma erases_reconcileFailoverRole [erasure]: "erases (reconcileFailoverRole (logged r) e tunnel (logged_client c)) (reconcileFailoverRole r e tunnel c)"
  unfolding reconcileFailoverRole_def pure by (intro erasure)

lemma erases_holdsLiveLease [erasure]: "erases (holdsLiveLease (logged r) e (logged_client c)) (holdsLiveLease r e c)"
  unfolding holdsLiveLease_def pure by (intro erasure)

lemma erases_delete_own_leases [erasure]: "erases (delete_own_leases (logged r) (logged_client c) z recs) (delete_own_leases r c z recs)"
  by (induction recs) (auto intro!: erasure simp: Let_def split: option.splits)

lemma erases_deleteOwnedLeaseIfPresent [erasure]: "erases (deleteOwnedLeaseIfPresent (logged r) e (logged_client c)) (deleteOwnedLeaseIfPresent r e c)"
  unfolding deleteOwnedLeaseIfPresent_def pure by (intro erasure)

lemma erases_defaulted [erasure]: "erases (defaulted (logged r) bef e) (defaulted r bef e)"
  unfolding defaulted_def pure by (intro erasure)

lemma erases_defaultFromSourceRef [erasure]: "erases (defaultFromSourceRef (logged r) e) (defaultFromSourceRef r e)"
  unfolding defaultFromSourceRef_def pure by (intro erasure)

lemma erases_hasDuplicateHostname [erasure]: "erases (hasDuplicateHostname (logged r) e) (hasDuplicateHostname r e)"
  unfolding hasDuplicateHostname_def pure by (intro erasure)

lemma erases_hasAccessWildcardOverlap [erasure]: "erases (hasAccessWildcardOverlap (logged r) e) (hasAccessWildcardOverlap r e)"
  unfolding hasAccessWildcardOverlap_def pure by (intro erasure)

lemma erases_hasFailoverGroupConflict [erasure]: "erases (hasFailoverGroupConflict (logged r) e) (hasFailoverGroupConflict r e)"
  unfolding hasFailoverGroupConflict_def pure by (intro erasure)

lemma erases_resolveAccessPolicyUUID [erasure]: "erases (resolveAccessPolicyUUID (logged r) ref) (resolveAccessPolicyUUID r ref)"
  unfolding resolveAccessPolicyUUID_def pure by (intro erasure)

lemma erases_resolveAccessPolicyUUIDs [erasure]: "erases (resolveAccessPolicyUUIDs (logged r) bs) (resolveAccessPolicyUUIDs r bs)"
  by (induction bs) (auto intro!: erasure simp: Let_def split: option.splits)

lemma erases_desired_loop [erasure]: "erases (desired_loop (logged r) e seen out apps) (desired_loop r e seen out apps)"
  by (induction apps arbitrary: seen out) (auto intro!: erasure simp: Let_def split: option.splits)

lemma erases_desiredAccessApplications [erasure]: "erases (desiredAccessApplications (logged r) e) (desiredAccessApplications r e)"
  unfolding desiredAccessApplications_def pure by (intro erasure)

lemma erases_apply_desired [erasure]: "erases (apply_desired (logged r) e (logged_client c) bn bc st ma ds) (apply_desired r e c bn bc st ma ds)"
  by (induction ds arbitrary: st ma) (auto intro!: erasure simp: Let_def split: option.splits)

lemma erases_delete_unmatched [erasure]: "erases (delete_unmatched (logged r) e (logged_client c) ma os) (delete_unmatched r e c ma os)"
  by (induction os) (auto intro!: erasure simp: Let_def split: option.splits)

lemma erases_reconcileOwnedAccessApplications [erasure]: "erases (reconcileOwnedAccessApplications (logged r) e (logged_client c) ds os) (reconcileOwnedAccessApplications r e c ds os)"
  unfolding reconcileOwnedAccessApplications_def pure by (intro erasure)

lemma erases_delete_apps [erasure]: "erases (delete_apps (logged_client c) ids) (delete_apps c ids)"
  by (induction ids) (auto intro!: erasure simp: Let_def split: option.splits)

lemma erases_delete_tags [erasure]: "erases (delete_tags (logged_client c) ts) (delete_tags c ts)"
  by (induction ts) (auto intro!: erasure simp: Let_def split: option.splits)

lemma erases_deleteOwnedAccessTags [erasure]: "erases (deleteOwnedAccessTags (logged_client c) ow) (deleteOwnedAccessTags c ow)"
  unfolding deleteOwnedAccessTags_def pure by (intro erasure)

lemma erases_deleteAccessApplications [erasure]: "erases (deleteAccessApplications (logged r) e (logged_client c) tr) (deleteAccessApplications r e c tr)"
  unfolding deleteAccessApplications_def pure by (intro erasure)

lemma erases_stop_requeue [erasure]: "erases (stop_requeue (logged r) e st re msg) (stop_requeue r e st re msg)"
  unfolding stop_requeue_def pure by (intro erasure)

lemma erases_stop_status [erasure]: "erases (stop_status (logged r) e st re msg) (stop_status r e st re msg)"
  unfolding stop_status_def pure by (intro erasure)

lemma erases_access_conflict_event [erasure]: "erases (access_conflict_event (logged r) e) (access_conflict_event r e)"
  unfolding access_conflict_event_def pure by (intro erasure)

lemma erases_reconcileExposureAccess [erasure]: "erases (reconcileExposureAccess (logged r) e (logged_client c) st) (reconcileExposureAccess r e c st)"
  unfolding reconcileExposureAccess_def pure by (intro erasure)

lemma erases_reconcileDNS [erasure]: "erases (reconcileDNS e tunnel (logged_client c)) (reconcileDNS e tunnel c)"
  unfolding reconcileDNS_def pure by (intro erasure)

lemma erases_deleteOwnedDNSIfPresent [erasure]: "erases (deleteOwnedDNSIfPresent e (logged_client c)) (deleteOwnedDNSIfPresent e c)"
  unfolding deleteOwnedDNSIfPresent_def pure by (intro erasure)

lemma erases_reconcileExposureDNS [erasure]: "erases (reconcileExposureDNS (logged r) e tunnel (logged_client c) st) (reconcileExposureDNS r e tunnel c st)"
  unfolding reconcileExposureDNS_def pure by (intro erasure)

lemma erases_removeFinalizer [erasure]: "erases (removeFinalizer (logged r) e) (removeFinalizer r e)"
  unfolding removeFinalizer_def pure by (intro erasure)

lemma erases_deleteSharedResources [erasure]: "erases (deleteSharedResources (logged r) e (logged_client c)) (deleteSharedResources r e c)"
  unfolding deleteSharedResources_def pure by (intro erasure)

lemma erases_reconcileDelete [erasure]: "erases (reconcileDelete (logged r) e) (reconcileDelete r e)"
  unfolding reconcileDelete_def pure by (intro erasure)

lemma erases_reconcileShared [erasure]: "erases (reconcileShared (logged r) e tunnel (logged_client c) q) (reconcileShared r e tunnel c q)"
  unfolding reconcileShared_def pure by (intro erasure)

lemma erases_reconcileGated [erasure]: "erases (reconcileGated (logged r) e tunnel (logged_client c)) (reconcileGated r e tunnel c)"
  unfolding reconcileGated_def pure by (intro erasure)

lemma erases_reconcileValid [erasure]: "erases (reconcileValid (logged r) e tunnel (logged_client c)) (reconcileValid r e tunnel c)"
  unfolding reconcileValid_def pure by (intro erasure)

lemma erases_reconcileDefaulted [erasure]: "erases (reconcileDefaulted (logged r) e tunnel (logged_client c)) (reconcileDefaulted r e tunnel c)"
  unfolding reconcileDefaulted_def pure by (intro erasure)

lemma erases_reconcileLive [erasure]: "erases (reconcileLive (logged r) e) (reconcileLive r e)"
  unfolding reconcileLive_def pure by (intro erasure)

lemma erases_Reconcile [erasure]: "erases (Reconcile (logged r) ns n) (Reconcile r ns n)"
  unfolding Reconcile_def pure by (intro erasure)

end
