(* ===== verification/Fake.thy ===== *)
theory Fake
  imports Go_Hash Cloudflare "HOL-Library.AList"
begin

text \<open>
  \<open>internal/cloudflare/fake.go\<close>: the in-memory \<open>Client\<close>. Its maps are association lists keyed by ID;
  \<open>uuid.New\<close> is the parameter \<open>uuid\<close>, the \<open>n\<close>-th draw of the process, and \<open>fc_draws\<close> counts the
  draws. Every method runs under the client's mutex, so a method is one atomic step on the state; a
  pointer that is stored and a copy that is returned are the same value here. The operations are
  polymorphic in a record extension, so that a larger world can contain the client.

  The laws a user of the DNS records and of the Access applications relies on are the locale
  \<open>id_store\<close>, interpreted for both.
\<close>

section \<open>State\<close>

record FakeClient =
  fc_tunnels :: "(string \<times> Tunnel) list"
  fc_tokens :: "(string \<times> string) list"
  fc_configurations :: "(string \<times> TunnelConfiguration) list"
  fc_configurationUpdateCalls :: "(string \<times> nat) list"
  fc_accessApps :: "(string \<times> AccessApplication) list"
  fc_accessTags :: "(string \<times> bool) list"
  fc_accessPolicies :: "(string \<times> AccessPolicy) list"
  fc_unsupportedAccessPolicies :: "(string \<times> bool) list"
  fc_tunnelRoutes :: "(string \<times> TunnelRoute) list"
  fc_dnsRecords :: "(string \<times> DNSRecord) list"
  fc_zones :: "(string \<times> Zone) list"
  fc_zoneCache :: "Zone list"
  fc_zoneCacheReady :: bool
  fc_zoneListCalls :: nat
  fc_dnsWriteCalls :: nat
  fc_draws :: nat

definition NewFake :: FakeClient where
  "NewFake = \<lparr>fc_tunnels = [], fc_tokens = [], fc_configurations = [], fc_configurationUpdateCalls = [],
     fc_accessApps = [], fc_accessTags = [], fc_accessPolicies = [], fc_unsupportedAccessPolicies = [],
     fc_tunnelRoutes = [], fc_dnsRecords = [], fc_zones = [], fc_zoneCache = [], fc_zoneCacheReady = False,
     fc_zoneListCalls = 0, fc_dnsWriteCalls = 0, fc_draws = 0\<rparr>"

text \<open>\<open>uuid.New().String()\<close>.\<close>

definition uuid_New :: "(nat \<Rightarrow> string) \<Rightarrow> ('z FakeClient_scheme, string) state" where
  "uuid_New uuid = State (\<lambda>f. (uuid (fc_draws f), f\<lparr>fc_draws := Suc (fc_draws f)\<rparr>))"

definition map_default :: "'b \<Rightarrow> (string \<times> 'b) list \<Rightarrow> string \<Rightarrow> 'b" where
  "map_default d m k = (case map_of m k of None \<Rightarrow> d | Some v \<Rightarrow> v)"

section \<open>Test seams\<close>

definition SetTunnelToken :: "string \<Rightarrow> string \<Rightarrow> ('z FakeClient_scheme, unit) state" where
  "SetTunnelToken ident token = State (\<lambda>f. ((), f\<lparr>fc_tokens := AList.update ident token (fc_tokens f)\<rparr>))"

definition Configuration :: "string \<Rightarrow> ('z FakeClient_scheme, TunnelConfiguration result) state" where
  "Configuration tunnelID = State (\<lambda>f.
     (case map_of (fc_configurations f) tunnelID of None \<Rightarrow> Inl ErrNotFound | Some config \<Rightarrow> Inr config, f))"

definition ConfigurationUpdateCalls :: "string \<Rightarrow> ('z FakeClient_scheme, nat) state" where
  "ConfigurationUpdateCalls tunnelID = State (\<lambda>f. (map_default 0 (fc_configurationUpdateCalls f) tunnelID, f))"

definition DNSWriteCalls :: "('z FakeClient_scheme, nat) state" where
  "DNSWriteCalls = State (\<lambda>f. (fc_dnsWriteCalls f, f))"

definition SetAccessApplicationPolicyUUIDs :: "string \<Rightarrow> string list \<Rightarrow> ('z FakeClient_scheme, unit result) state" where
  "SetAccessApplicationPolicyUUIDs ident policyUUIDs = State (\<lambda>f.
     (case map_of (fc_accessApps f) ident of
        None \<Rightarrow> (Inl ErrNotFound, f)
      | Some app \<Rightarrow> (Inr (), f\<lparr>fc_accessApps := AList.update ident (app\<lparr>App_PolicyUUIDs := policyUUIDs\<rparr>) (fc_accessApps f)\<rparr>)))"

definition AddZone :: "string \<Rightarrow> string \<Rightarrow> ('z FakeClient_scheme, unit) state" where
  "AddZone ident name = State (\<lambda>f. ((), f\<lparr>fc_zones := AList.update ident \<lparr>Zone_ID = ident, Zone_Name = name\<rparr> (fc_zones f)\<rparr>))"

definition ZoneListCalls :: "('z FakeClient_scheme, nat) state" where
  "ZoneListCalls = State (\<lambda>f. (fc_zoneListCalls f, f))"

definition MarkAccessPolicyUnsupported :: "string \<Rightarrow> ('z FakeClient_scheme, unit) state" where
  "MarkAccessPolicyUnsupported ident = State (\<lambda>f.
     ((), f\<lparr>fc_unsupportedAccessPolicies := AList.update ident True (fc_unsupportedAccessPolicies f)\<rparr>))"

section \<open>Tunnels and configurations\<close>

definition fakeTunnels_Create :: "(nat \<Rightarrow> string) \<Rightarrow> CreateTunnelInput \<Rightarrow> ('z FakeClient_scheme, Tunnel result) state" where
  "fakeTunnels_Create uuid inp = do {
     ident \<leftarrow> uuid_New uuid;
     let tun = \<lparr>Tunnel_ID = ident, Tunnel_Name = CreateTunnel_Name inp\<rparr>;
     State (\<lambda>f. (Inr tun, f\<lparr>fc_tunnels := AList.update ident tun (fc_tunnels f)\<rparr>)) }"

definition fakeTunnels_Rename :: "string \<Rightarrow> RenameTunnelInput \<Rightarrow> ('z FakeClient_scheme, Tunnel result) state" where
  "fakeTunnels_Rename ident inp = State (\<lambda>f.
     (case map_of (fc_tunnels f) ident of
        None \<Rightarrow> (Inl ErrNotFound, f)
      | Some tun \<Rightarrow>
          (let tun' = tun\<lparr>Tunnel_Name := RenameTunnel_Name inp\<rparr>
           in (Inr tun', f\<lparr>fc_tunnels := AList.update ident tun' (fc_tunnels f)\<rparr>))))"

definition fakeTunnels_List :: "string \<Rightarrow> ('z FakeClient_scheme, Tunnel list result) state" where
  "fakeTunnels_List name = State (\<lambda>f.
     (Inr (sort_slice (\<lambda>a b. Tunnel_ID a < Tunnel_ID b)
        (filter (\<lambda>tun. name = [] \<or> Tunnel_Name tun = name) (map snd (fc_tunnels f)))), f))"

definition fakeTunnels_Get :: "string \<Rightarrow> ('z FakeClient_scheme, Tunnel result) state" where
  "fakeTunnels_Get ident = State (\<lambda>f.
     (case map_of (fc_tunnels f) ident of None \<Rightarrow> Inl ErrNotFound | Some tun \<Rightarrow> Inr tun, f))"

definition fakeTunnels_Delete :: "string \<Rightarrow> ('z FakeClient_scheme, unit result) state" where
  "fakeTunnels_Delete ident = State (\<lambda>f.
     (case map_of (fc_tunnels f) ident of
        None \<Rightarrow> (Inl ErrNotFound, f)
      | Some _ \<Rightarrow> (Inr (), f\<lparr>fc_tunnels := AList.delete ident (fc_tunnels f)\<rparr>)))"

definition fakeTunnels_Token :: "string \<Rightarrow> ('z FakeClient_scheme, string result) state" where
  "fakeTunnels_Token ident = State (\<lambda>f.
     (case map_of (fc_tunnels f) ident of
        None \<Rightarrow> Inl ErrNotFound
      | Some _ \<Rightarrow>
          (case map_of (fc_tokens f) ident of
             Some token \<Rightarrow> Inr token
           | None \<Rightarrow> Inr (hex_string (Sum256 (''fake-token:'' @ ident)))), f))"

definition fakeConfigurations_Update :: "string \<Rightarrow> TunnelConfiguration \<Rightarrow> ('z FakeClient_scheme, unit result) state" where
  "fakeConfigurations_Update tunnelID config = State (\<lambda>f.
     (case map_of (fc_tunnels f) tunnelID of
        None \<Rightarrow> (Inl ErrNotFound, f)
      | Some _ \<Rightarrow> (Inr (), f\<lparr>fc_configurations := AList.update tunnelID config (fc_configurations f),
          fc_configurationUpdateCalls := AList.update tunnelID
            (Suc (map_default 0 (fc_configurationUpdateCalls f) tunnelID)) (fc_configurationUpdateCalls f)\<rparr>)))"

section \<open>Access tags and applications\<close>

definition fakeAccessTags_Ensure :: "string \<Rightarrow> ('z FakeClient_scheme, unit result) state" where
  "fakeAccessTags_Ensure name = State (\<lambda>f. (Inr (), f\<lparr>fc_accessTags := AList.update name True (fc_accessTags f)\<rparr>))"

definition fakeAccessTags_Delete :: "string \<Rightarrow> ('z FakeClient_scheme, unit result) state" where
  "fakeAccessTags_Delete name = State (\<lambda>f.
     (if \<not> map_default False (fc_accessTags f) name then (Inl ErrNotFound, f)
      else (Inr (), f\<lparr>fc_accessTags := AList.delete name (fc_accessTags f)\<rparr>)))"

definition new_AccessApplication :: "string \<Rightarrow> AccessApplication" where
  "new_AccessApplication ident = \<lparr>App_ID = ident, App_Name = [], App_Domain = [], App_Domains = [],
     App_PolicyUUIDs = [], App_Tags = []\<rparr>"

definition applyAccessApplication :: "AccessApplication \<Rightarrow> AccessApplicationInput \<Rightarrow> AccessApplication" where
  "applyAccessApplication app inp = app\<lparr>App_Name := AppIn_Name inp, App_Domains := AppIn_Domains inp,
     App_Domain := accessApplicationPrimaryDomain (AppIn_Domains inp),
     App_PolicyUUIDs := AppIn_PolicyUUIDs inp, App_Tags := AppIn_Tags inp\<rparr>"

definition ensureFakeAccessTagsLocked :: "string list \<Rightarrow> 'z FakeClient_scheme \<Rightarrow> 'z FakeClient_scheme" where
  "ensureFakeAccessTagsLocked tags f = fold (\<lambda>tag f. f\<lparr>fc_accessTags := AList.update tag True (fc_accessTags f)\<rparr>) tags f"

definition fakeAccessApplications_List :: "string \<Rightarrow> ('z FakeClient_scheme, AccessApplication list result) state" where
  "fakeAccessApplications_List domain = State (\<lambda>f.
     (Inr (sort_slice (\<lambda>a b. App_ID a < App_ID b)
        (filter (\<lambda>app. accessApplicationMatchesHostname app domain) (map snd (fc_accessApps f)))), f))"

definition fakeAccessApplications_Create ::
  "(nat \<Rightarrow> string) \<Rightarrow> AccessApplicationInput \<Rightarrow> ('z FakeClient_scheme, AccessApplication result) state" where
  "fakeAccessApplications_Create uuid inp = do {
     ident \<leftarrow> uuid_New uuid;
     let app = applyAccessApplication (new_AccessApplication ident) inp;
     State (\<lambda>f. let f = ensureFakeAccessTagsLocked (AppIn_Tags inp) f
       in (Inr app, f\<lparr>fc_accessApps := AList.update ident app (fc_accessApps f)\<rparr>)) }"

definition fakeAccessApplications_Update ::
  "string \<Rightarrow> AccessApplicationInput \<Rightarrow> ('z FakeClient_scheme, AccessApplication result) state" where
  "fakeAccessApplications_Update ident inp = State (\<lambda>f.
     (case map_of (fc_accessApps f) ident of
        None \<Rightarrow> (Inl ErrNotFound, f)
      | Some app \<Rightarrow>
          (let f = ensureFakeAccessTagsLocked (AppIn_Tags inp) f; app' = applyAccessApplication app inp
           in (Inr app', f\<lparr>fc_accessApps := AList.update ident app' (fc_accessApps f)\<rparr>))))"

definition fakeAccessApplications_Delete :: "string \<Rightarrow> ('z FakeClient_scheme, unit result) state" where
  "fakeAccessApplications_Delete ident = State (\<lambda>f.
     (case map_of (fc_accessApps f) ident of
        None \<Rightarrow> (Inl ErrNotFound, f)
      | Some _ \<Rightarrow> (Inr (), f\<lparr>fc_accessApps := AList.delete ident (fc_accessApps f)\<rparr>)))"

section \<open>Tunnel routes\<close>

definition applyTunnelRoute :: "TunnelRoute \<Rightarrow> TunnelRouteInput \<Rightarrow> TunnelRoute" where
  "applyTunnelRoute route inp = route\<lparr>Route_Network := RouteIn_Network inp, Route_TunnelID := RouteIn_TunnelID inp,
     Route_VirtualNetworkID := RouteIn_VirtualNetworkID inp, Route_Comment := RouteIn_Comment inp\<rparr>"

definition fakeTunnelRoutes_List :: "ListTunnelRoutesFilter \<Rightarrow> ('z FakeClient_scheme, TunnelRoute list result) state" where
  "fakeTunnelRoutes_List flt = State (\<lambda>f.
     (Inr (sort_slice (\<lambda>a b. Route_ID a < Route_ID b)
        (filter (\<lambda>route. (Filter_Network flt = [] \<or> Route_Network route = Filter_Network flt) \<and>
           (Filter_TunnelID flt = [] \<or> Route_TunnelID route = Filter_TunnelID flt) \<and>
           (Filter_VirtualNetworkID flt = [] \<or> Route_VirtualNetworkID route = Filter_VirtualNetworkID flt))
          (map snd (fc_tunnelRoutes f)))), f))"

definition fakeTunnelRoutes_Create :: "(nat \<Rightarrow> string) \<Rightarrow> TunnelRouteInput \<Rightarrow> ('z FakeClient_scheme, TunnelRoute result) state" where
  "fakeTunnelRoutes_Create uuid inp = do {
     ident \<leftarrow> uuid_New uuid;
     let route = applyTunnelRoute \<lparr>Route_ID = ident, Route_Network = [], Route_TunnelID = [],
       Route_VirtualNetworkID = [], Route_Comment = []\<rparr> inp;
     State (\<lambda>f. (Inr route, f\<lparr>fc_tunnelRoutes := AList.update ident route (fc_tunnelRoutes f)\<rparr>)) }"

definition fakeTunnelRoutes_Get :: "string \<Rightarrow> ('z FakeClient_scheme, TunnelRoute result) state" where
  "fakeTunnelRoutes_Get ident = State (\<lambda>f.
     (case map_of (fc_tunnelRoutes f) ident of None \<Rightarrow> Inl ErrNotFound | Some route \<Rightarrow> Inr route, f))"

definition fakeTunnelRoutes_Edit :: "string \<Rightarrow> TunnelRouteInput \<Rightarrow> ('z FakeClient_scheme, TunnelRoute result) state" where
  "fakeTunnelRoutes_Edit ident inp = State (\<lambda>f.
     (case map_of (fc_tunnelRoutes f) ident of
        None \<Rightarrow> (Inl ErrNotFound, f)
      | Some route \<Rightarrow>
          (let route' = applyTunnelRoute route inp
           in (Inr route', f\<lparr>fc_tunnelRoutes := AList.update ident route' (fc_tunnelRoutes f)\<rparr>))))"

definition fakeTunnelRoutes_Delete :: "string \<Rightarrow> ('z FakeClient_scheme, unit result) state" where
  "fakeTunnelRoutes_Delete ident = State (\<lambda>f.
     (case map_of (fc_tunnelRoutes f) ident of
        None \<Rightarrow> (Inl ErrNotFound, f)
      | Some _ \<Rightarrow> (Inr (), f\<lparr>fc_tunnelRoutes := AList.delete ident (fc_tunnelRoutes f)\<rparr>)))"

section \<open>DNS records\<close>

definition new_DNSRecord :: "string \<Rightarrow> DNSRecord" where
  "new_DNSRecord ident = \<lparr>DNS_ID = ident, DNS_ZoneID = [], DNS_Name = [], DNS_Type = [],
     DNS_Content = [], DNS_Proxied = False, DNS_Comment = []\<rparr>"

definition applyDNSRecord :: "DNSRecord \<Rightarrow> DNSRecordInput \<Rightarrow> DNSRecord" where
  "applyDNSRecord record inp = record\<lparr>DNS_ZoneID := DNSIn_ZoneID inp, DNS_Name := DNSIn_Name inp,
     DNS_Type := DNSIn_Type inp, DNS_Content := DNSIn_Content inp, DNS_Proxied := DNSIn_Proxied inp,
     DNS_Comment := DNSIn_Comment inp\<rparr>"

definition dns_selected :: "string \<Rightarrow> string \<Rightarrow> string \<Rightarrow> DNSRecord \<Rightarrow> bool" where
  "dns_selected zoneID name recordType record \<longleftrightarrow>
     (zoneID = [] \<or> DNS_ZoneID record = zoneID) \<and> (name = [] \<or> DNS_Name record = name) \<and>
     (recordType = [] \<or> DNS_Type record = recordType)"

definition fakeDNSRecords_List :: "string \<Rightarrow> string \<Rightarrow> string \<Rightarrow> ('z FakeClient_scheme, DNSRecord list result) state" where
  "fakeDNSRecords_List zoneID name recordType = State (\<lambda>f.
     (Inr (sort_slice (\<lambda>a b. DNS_ID a < DNS_ID b)
        (filter (dns_selected zoneID name recordType) (map snd (fc_dnsRecords f)))), f))"

definition fakeDNSRecords_Create :: "(nat \<Rightarrow> string) \<Rightarrow> DNSRecordInput \<Rightarrow> ('z FakeClient_scheme, DNSRecord result) state" where
  "fakeDNSRecords_Create uuid inp = do {
     ident \<leftarrow> uuid_New uuid;
     let record = applyDNSRecord (new_DNSRecord ident) inp;
     State (\<lambda>f. (Inr record, f\<lparr>fc_dnsRecords := AList.update ident record (fc_dnsRecords f),
       fc_dnsWriteCalls := Suc (fc_dnsWriteCalls f)\<rparr>)) }"

definition fakeDNSRecords_Update :: "string \<Rightarrow> DNSRecordInput \<Rightarrow> ('z FakeClient_scheme, DNSRecord result) state" where
  "fakeDNSRecords_Update ident inp = State (\<lambda>f.
     (case map_of (fc_dnsRecords f) ident of
        None \<Rightarrow> (Inl ErrNotFound, f)
      | Some record \<Rightarrow>
          (let record' = applyDNSRecord record inp
           in (Inr record', f\<lparr>fc_dnsRecords := AList.update ident record' (fc_dnsRecords f),
                fc_dnsWriteCalls := Suc (fc_dnsWriteCalls f)\<rparr>))))"

definition fakeDNSRecords_Delete :: "string \<Rightarrow> string \<Rightarrow> ('z FakeClient_scheme, unit result) state" where
  "fakeDNSRecords_Delete zoneID ident = State (\<lambda>f.
     (case map_of (fc_dnsRecords f) ident of
        None \<Rightarrow> (Inl ErrNotFound, f)
      | Some record \<Rightarrow>
          if DNS_ZoneID record \<noteq> zoneID then (Inl ErrNotFound, f)
          else (Inr (), f\<lparr>fc_dnsRecords := AList.delete ident (fc_dnsRecords f)\<rparr>)))"

section \<open>Zones\<close>

definition fakeZones_List :: "('z FakeClient_scheme, Zone list result) state" where
  "fakeZones_List = State (\<lambda>f.
     (Inr (sort_slice (\<lambda>a b. Zone_Name a < Zone_Name b) (map snd (fc_zones f))),
      f\<lparr>fc_zoneListCalls := Suc (fc_zoneListCalls f)\<rparr>))"

definition fakeZones_Resolve :: "string \<Rightarrow> ('z FakeClient_scheme, Zone result) state" where
  "fakeZones_Resolve hostname = do {
     cached \<leftarrow> State (\<lambda>f. (if fc_zoneCacheReady f then LongestMatchingZone (fc_zoneCache f) hostname else None, f));
     case cached of
       Some zone \<Rightarrow> return_st (Inr zone)
     | None \<Rightarrow> do {
         listed \<leftarrow> fakeZones_List;
         case listed of
           Inl e \<Rightarrow> return_st (Inl e)
         | Inr zones \<Rightarrow> do {
             _ \<leftarrow> State (\<lambda>f. ((), f\<lparr>fc_zoneCache := zones, fc_zoneCacheReady := True\<rparr>));
             return_st (case LongestMatchingZone zones hostname of None \<Rightarrow> Inl ErrNotFound | Some zone \<Rightarrow> Inr zone) } } }"

section \<open>Access policies\<close>

definition applyAccessPolicy :: "AccessPolicy \<Rightarrow> AccessPolicyInput \<Rightarrow> AccessPolicy" where
  "applyAccessPolicy pol inp = pol\<lparr>Policy_Name := PolicyIn_Name inp, Policy_Decision := PolicyIn_Decision inp,
     Policy_Include := PolicyIn_Include inp, Policy_Exclude := PolicyIn_Exclude inp,
     Policy_Require := PolicyIn_Require inp, Policy_SessionDuration := PolicyIn_SessionDuration inp,
     Policy_PurposeJustificationRequired := PolicyIn_PurposeJustificationRequired inp,
     Policy_PurposeJustificationPrompt := PolicyIn_PurposeJustificationPrompt inp\<rparr>"

definition accessPolicyMetadata :: "AccessPolicy \<Rightarrow> AccessPolicy" where
  "accessPolicyMetadata pol = \<lparr>Policy_ID = Policy_ID pol, Policy_Name = Policy_Name pol,
     Policy_Decision = Policy_Decision pol, Policy_Include = [], Policy_Exclude = [], Policy_Require = [],
     Policy_SessionDuration = Policy_SessionDuration pol,
     Policy_PurposeJustificationRequired = Policy_PurposeJustificationRequired pol,
     Policy_PurposeJustificationPrompt = Policy_PurposeJustificationPrompt pol\<rparr>"

definition fakeAccessPolicies_List :: "('z FakeClient_scheme, AccessPolicy list result) state" where
  "fakeAccessPolicies_List = State (\<lambda>f.
     (Inr (sort_slice (\<lambda>a b. Policy_ID a < Policy_ID b) (map (accessPolicyMetadata \<circ> snd) (fc_accessPolicies f))), f))"

definition fakeAccessPolicies_GetMetadata :: "string \<Rightarrow> ('z FakeClient_scheme, AccessPolicy result) state" where
  "fakeAccessPolicies_GetMetadata ident = State (\<lambda>f.
     (case map_of (fc_accessPolicies f) ident of None \<Rightarrow> Inl ErrNotFound | Some pol \<Rightarrow> Inr (accessPolicyMetadata pol), f))"

definition fakeAccessPolicies_Get :: "string \<Rightarrow> ('z FakeClient_scheme, AccessPolicy result) state" where
  "fakeAccessPolicies_Get ident = State (\<lambda>f.
     (case map_of (fc_accessPolicies f) ident of
        None \<Rightarrow> Inl ErrNotFound
      | Some pol \<Rightarrow> if map_default False (fc_unsupportedAccessPolicies f) ident then Inl ErrUnsupportedAccessRule else Inr pol, f))"

definition fakeAccessPolicies_Create :: "(nat \<Rightarrow> string) \<Rightarrow> AccessPolicyInput \<Rightarrow> ('z FakeClient_scheme, AccessPolicy result) state" where
  "fakeAccessPolicies_Create uuid inp = do {
     ident \<leftarrow> uuid_New uuid;
     let pol = applyAccessPolicy \<lparr>Policy_ID = ident, Policy_Name = [], Policy_Decision = [], Policy_Include = [],
       Policy_Exclude = [], Policy_Require = [], Policy_SessionDuration = [],
       Policy_PurposeJustificationRequired = False, Policy_PurposeJustificationPrompt = []\<rparr> inp;
     State (\<lambda>f. (Inr pol, f\<lparr>fc_accessPolicies := AList.update ident pol (fc_accessPolicies f)\<rparr>)) }"

definition fakeAccessPolicies_Update :: "string \<Rightarrow> AccessPolicyInput \<Rightarrow> ('z FakeClient_scheme, AccessPolicy result) state" where
  "fakeAccessPolicies_Update ident inp = State (\<lambda>f.
     (case map_of (fc_accessPolicies f) ident of
        None \<Rightarrow> (Inl ErrNotFound, f)
      | Some pol \<Rightarrow>
          (let pol' = applyAccessPolicy pol inp
           in (Inr pol', f\<lparr>fc_accessPolicies := AList.update ident pol' (fc_accessPolicies f)\<rparr>))))"

definition fakeAccessPolicies_Delete :: "string \<Rightarrow> ('z FakeClient_scheme, unit result) state" where
  "fakeAccessPolicies_Delete ident = State (\<lambda>f.
     (case map_of (fc_accessPolicies f) ident of
        None \<Rightarrow> (Inl ErrNotFound, f)
      | Some _ \<Rightarrow> (Inr (), f\<lparr>fc_accessPolicies := AList.delete ident (fc_accessPolicies f)\<rparr>)))"

section \<open>The client\<close>

definition fake_client :: "(nat \<Rightarrow> string) \<Rightarrow> ('z FakeClient_scheme) Client" where
  "fake_client uuid = \<lparr>
     Client_Tunnels = \<lparr>Tunnels_Create = fakeTunnels_Create uuid, Tunnels_Rename = fakeTunnels_Rename,
       Tunnels_List = fakeTunnels_List, Tunnels_Get = fakeTunnels_Get, Tunnels_Delete = fakeTunnels_Delete,
       Tunnels_Token = fakeTunnels_Token\<rparr>,
     Client_Configurations = \<lparr>Configurations_Update = fakeConfigurations_Update\<rparr>,
     Client_AccessApplications = \<lparr>Apps_List = fakeAccessApplications_List,
       Apps_Create = fakeAccessApplications_Create uuid, Apps_Update = fakeAccessApplications_Update,
       Apps_Delete = fakeAccessApplications_Delete\<rparr>,
     Client_AccessTags = \<lparr>Tags_Ensure = fakeAccessTags_Ensure, Tags_Delete = fakeAccessTags_Delete\<rparr>,
     Client_AccessPolicies = \<lparr>Policies_List = fakeAccessPolicies_List,
       Policies_GetMetadata = fakeAccessPolicies_GetMetadata, Policies_Get = fakeAccessPolicies_Get,
       Policies_Create = fakeAccessPolicies_Create uuid, Policies_Update = fakeAccessPolicies_Update,
       Policies_Delete = fakeAccessPolicies_Delete\<rparr>,
     Client_TunnelRoutes = \<lparr>Routes_List = fakeTunnelRoutes_List, Routes_Create = fakeTunnelRoutes_Create uuid,
       Routes_Get = fakeTunnelRoutes_Get, Routes_Edit = fakeTunnelRoutes_Edit, Routes_Delete = fakeTunnelRoutes_Delete\<rparr>,
     Client_DNSRecords = \<lparr>DNSRecords_List = fakeDNSRecords_List, DNSRecords_Create = fakeDNSRecords_Create uuid,
       DNSRecords_Update = fakeDNSRecords_Update, DNSRecords_Delete = fakeDNSRecords_Delete\<rparr>,
     Client_Zones = \<lparr>Zones_List = fakeZones_List, Zones_Resolve = fakeZones_Resolve\<rparr>\<rparr>"

section \<open>The contract of a store\<close>

text \<open>
  What the controllers rely on when they list, create, update and delete resources by ID, for a
  store that is not written by anybody else in between: a listing returns each selected resource
  once, a create adds a resource under a fresh ID, an update by ID changes that resource only, and a
  delete removes that resource only; an unknown ID is \<open>ErrNotFound\<close>.
\<close>

locale id_store =
  fixes recs :: "'s \<Rightarrow> string \<rightharpoonup> 'r"
    and rid :: "'r \<Rightarrow> string"
    and inv :: "'s \<Rightarrow> bool"
    and lst :: "'f \<Rightarrow> ('s, 'r list result) state"
    and create :: "'i \<Rightarrow> ('s, 'r result) state"
    and upd :: "string \<Rightarrow> 'i \<Rightarrow> ('s, 'r result) state"
    and del :: "'d \<Rightarrow> string \<Rightarrow> ('s, unit result) state"
    and sel :: "'f \<Rightarrow> 'r \<Rightarrow> bool"
    and apply_in :: "'r \<Rightarrow> 'i \<Rightarrow> 'r"
    and scope :: "'d \<Rightarrow> 'r \<Rightarrow> bool"
  assumes key: "inv s \<Longrightarrow> recs s k = Some r \<Longrightarrow> rid r = k"
    and list_law: "inv s \<Longrightarrow> \<exists>xs. run_state (lst f) s = (Inr xs, s) \<and> distinct (map rid xs) \<and>
      set xs = {r. \<exists>k. recs s k = Some r \<and> sel f r}"
    and create_law: "inv s \<Longrightarrow> \<exists>r r0 s'. run_state (create i) s = (Inr r, s') \<and> inv s' \<and>
      recs s (rid r) = None \<and> recs s' = (recs s)(rid r \<mapsto> r) \<and> rid r0 = rid r \<and> r = apply_in r0 i"
    and update_law: "inv s \<Longrightarrow> (case recs s k of
        None \<Rightarrow> run_state (upd k i) s = (Inl ErrNotFound, s)
      | Some r \<Rightarrow> \<exists>s'. run_state (upd k i) s = (Inr (apply_in r i), s') \<and> inv s' \<and>
          recs s' = (recs s)(k \<mapsto> apply_in r i))"
    and delete_law: "inv s \<Longrightarrow>
        (if \<exists>r. recs s k = Some r \<and> scope d r
         then \<exists>s'. run_state (del d k) s = (Inr (), s') \<and> inv s' \<and> recs s' = (recs s)(k := None)
         else run_state (del d k) s = (Inl ErrNotFound, s))"
begin

lemma list_after_create:
  assumes "inv s"
  shows "\<exists>r r0 s' xs. run_state (bind_st (create i) (\<lambda>_. lst f)) s = (Inr xs, s') \<and> inv s' \<and> r = apply_in r0 i \<and>
     set xs = {x. \<exists>k. recs s k = Some x \<and> sel f x} \<union> (if sel f r then {r} else {}) \<and>
     recs s (rid r) = None \<and> rid r0 = rid r"
proof -
  obtain r r0 s' where r: "run_state (create i) s = (Inr r, s')" "inv s'" "recs s (rid r) = None"
      "recs s' = (recs s)(rid r \<mapsto> r)" "rid r0 = rid r" "r = apply_in r0 i"
    using create_law [OF assms] by blast
  obtain xs where xs: "run_state (lst f) s' = (Inr xs, s')" "set xs = {r. \<exists>k. recs s' k = Some r \<and> sel f r}"
    using list_law [OF r(2)] by blast
  have lookup: "recs s' k = Some x \<longleftrightarrow> k = rid r \<and> x = r \<or> recs s k = Some x" for k x
    using r(3,4) by auto
  have "set xs = {x. \<exists>k. recs s k = Some x \<and> sel f x} \<union> (if sel f r then {r} else {})"
    unfolding xs(2) lookup by auto
  with r xs(1) show ?thesis by auto
qed

lemma delete_is_final:
  assumes "inv s" and "recs s k = Some r" and "scope d r"
  shows "\<exists>s' xs. run_state (bind_st (del d k) (\<lambda>_. lst f)) s = (Inr xs, s') \<and> inv s' \<and>
     set xs = {x. \<exists>j. recs s j = Some x \<and> sel f x} - {r}"
proof -
  have "\<exists>r. recs s k = Some r \<and> scope d r" using assms(2,3) by blast
  then obtain s' where d: "run_state (del d k) s = (Inr (), s')" "inv s'" "recs s' = (recs s)(k := None)"
    using delete_law [OF assms(1), of k d] by (auto simp only: if_True simp_thms)
  obtain xs where xs: "run_state (lst f) s' = (Inr xs, s')" "set xs = {x. \<exists>j. recs s' j = Some x \<and> sel f x}"
    using list_law [OF d(2)] by blast
  have only: "j = k" if "recs s j = Some r" for j
    using key [OF assms(1) that] key [OF assms(1,2)] by simp
  have lookup: "recs s' j = Some x \<longleftrightarrow> recs s j = Some x \<and> x \<noteq> r" for j x
    unfolding d(3) using assms(2) only [of j] by (cases "j = k") auto
  have "set xs = {x. \<exists>j. recs s j = Some x \<and> sel f x} - {r}"
    unfolding xs(2) lookup by auto
  with d xs(1) show ?thesis by auto
qed

end

section \<open>The fake stores meet it\<close>

definition store_ok :: "('r \<Rightarrow> string) \<Rightarrow> (nat \<Rightarrow> string) \<Rightarrow> nat \<Rightarrow> (string \<times> 'r) list \<Rightarrow> bool" where
  "store_ok rid uuid n al \<longleftrightarrow> inj uuid \<and> distinct (map fst al) \<and> (\<forall>(k, r) \<in> set al. rid r = k \<and> (\<exists>m < n. k = uuid m))"

lemma store_ok_map_of: "store_ok rid uuid n al \<Longrightarrow> map_of al k = Some r \<Longrightarrow> rid r = k \<and> (\<exists>m < n. k = uuid m)"
  by (auto simp: store_ok_def dest: map_of_SomeD)

lemma store_ok_fresh: "store_ok rid uuid n al \<Longrightarrow> map_of al (uuid n) = None"
  using store_ok_map_of [of rid uuid n al "uuid n"] by (cases "map_of al (uuid n)") (auto simp: store_ok_def dest: injD)

lemma store_ok_update:
  assumes "store_ok rid uuid n al" and "rid r = k" and "(\<exists>m < n. k = uuid m)"
  shows "store_ok rid uuid n (AList.update k r al)"
proof -
  have "set (AList.update k r al) \<subseteq> insert (k, r) (set al)"
    by (induction al) auto
  with assms show ?thesis unfolding store_ok_def by (auto simp: distinct_update)
qed

lemma store_ok_Suc: "store_ok rid uuid n al \<Longrightarrow> store_ok rid uuid (Suc n) al"
  by (force simp: store_ok_def less_Suc_eq)

lemma store_ok_create:
  "store_ok rid uuid n al \<Longrightarrow> rid r = uuid n \<Longrightarrow> store_ok rid uuid (Suc n) (AList.update (uuid n) r al)"
  by (rule store_ok_update [OF store_ok_Suc]) auto

lemma store_ok_replace:
  "store_ok rid uuid n al \<Longrightarrow> map_of al k = Some r \<Longrightarrow> rid r' = rid r \<Longrightarrow> store_ok rid uuid n (AList.update k r' al)"
  by (rule store_ok_update) (auto dest: store_ok_map_of)

lemma store_ok_delete:
  assumes "store_ok rid uuid n al"
  shows "store_ok rid uuid n (AList.delete k al)"
proof -
  have "set (AList.delete k al) \<subseteq> set al" by (simp add: AList.delete_eq)
  with assms show ?thesis unfolding store_ok_def by (auto simp: distinct_delete)
qed

lemma store_ok_listed:
  assumes "store_ok rid uuid n al"
  shows "distinct (map rid (filter P (map snd al)))" "set (filter P (map snd al)) = {r. \<exists>k. map_of al k = Some r \<and> P r}"
proof -
  have "map rid (map snd al) = map fst al" using assms by (auto simp: store_ok_def)
  then show "distinct (map rid (filter P (map snd al)))"
    using assms by (metis distinct_map_filter store_ok_def)
  show "set (filter P (map snd al)) = {r. \<exists>k. map_of al k = Some r \<and> P r}"
    using assms by (force simp: store_ok_def map_of_eq_Some_iff)
qed

lemma fc_accessApps_ensure [simp]:
  "fc_accessApps (ensureFakeAccessTagsLocked tags f) = fc_accessApps f"
  "fc_draws (ensureFakeAccessTagsLocked tags f) = fc_draws f"
  "fc_dnsRecords (ensureFakeAccessTagsLocked tags f) = fc_dnsRecords f"
  unfolding ensureFakeAccessTagsLocked_def by (induction tags arbitrary: f) auto

lemma ids_kept [simp]:
  "DNS_ID (applyDNSRecord r i) = DNS_ID r" "DNS_ID (new_DNSRecord k) = k"
  "App_ID (applyAccessApplication a ai) = App_ID a" "App_ID (new_AccessApplication k) = k"
  by (simp_all add: applyDNSRecord_def new_DNSRecord_def applyAccessApplication_def new_AccessApplication_def)

lemma run_fakeDNSRecords_Create:
  "run_state (fakeDNSRecords_Create uuid inp) f =
     (let r = applyDNSRecord (new_DNSRecord (uuid (fc_draws f))) inp
      in (Inr r, f\<lparr>fc_draws := Suc (fc_draws f), fc_dnsRecords := AList.update (uuid (fc_draws f)) r (fc_dnsRecords f),
        fc_dnsWriteCalls := Suc (fc_dnsWriteCalls f)\<rparr>))"
  by (simp add: fakeDNSRecords_Create_def uuid_New_def Let_def)

lemma run_fakeAccessApplications_Create:
  "run_state (fakeAccessApplications_Create uuid inp) f =
     (let r = applyAccessApplication (new_AccessApplication (uuid (fc_draws f))) inp;
          f' = ensureFakeAccessTagsLocked (AppIn_Tags inp) (f\<lparr>fc_draws := Suc (fc_draws f)\<rparr>)
      in (Inr r, f'\<lparr>fc_accessApps := AList.update (uuid (fc_draws f)) r (fc_accessApps f)\<rparr>))"
  by (simp add: fakeAccessApplications_Create_def uuid_New_def Let_def)

interpretation dns_store: id_store "\<lambda>f :: 'z FakeClient_scheme. map_of (fc_dnsRecords f)" DNS_ID
  "\<lambda>f. store_ok DNS_ID uuid (fc_draws f) (fc_dnsRecords f)"
  "\<lambda>(z, n, t). fakeDNSRecords_List z n t" "fakeDNSRecords_Create uuid" fakeDNSRecords_Update fakeDNSRecords_Delete
  "\<lambda>(z, n, t). dns_selected z n t" applyDNSRecord "\<lambda>z r. DNS_ZoneID r = z"
  for uuid :: "nat \<Rightarrow> string"
proof (unfold_locales, goal_cases)
  case (1 s k r)
  then show ?case by (auto dest: store_ok_map_of)
next
  case (2 s f)
  then show ?case
    by (cases f) (auto simp: fakeDNSRecords_List_def store_ok_listed simp del: set_filter set_map)
next
  case (3 s i)
  let ?r0 = "new_DNSRecord (uuid (fc_draws s))"
  show ?case
    using store_ok_fresh [OF 3] store_ok_create [OF 3, of "applyDNSRecord ?r0 i"]
    by (intro exI [of _ "applyDNSRecord ?r0 i"] exI [of _ ?r0])
       (simp add: run_fakeDNSRecords_Create Let_def update_conv')
next
  case (4 s k i)
  show ?case
    using store_ok_replace [OF 4]
    by (auto simp: fakeDNSRecords_Update_def Let_def update_conv' split: option.splits)
next
  case (5 s k d)
  show ?case
    using store_ok_delete [OF 5]
    by (auto simp: fakeDNSRecords_Delete_def delete_conv' split: option.splits)
qed

interpretation app_store: id_store "\<lambda>f :: 'z FakeClient_scheme. map_of (fc_accessApps f)" App_ID
  "\<lambda>f. store_ok App_ID uuid (fc_draws f) (fc_accessApps f)"
  fakeAccessApplications_List "fakeAccessApplications_Create uuid" fakeAccessApplications_Update
  "\<lambda>_ :: unit. fakeAccessApplications_Delete"
  "\<lambda>d app. accessApplicationMatchesHostname app d" applyAccessApplication "\<lambda>_ _. True"
  for uuid :: "nat \<Rightarrow> string"
proof (unfold_locales, goal_cases)
  case (1 s k r)
  then show ?case by (auto dest: store_ok_map_of)
next
  case (2 s f)
  then show ?case by (auto simp: fakeAccessApplications_List_def store_ok_listed simp del: set_filter set_map)
next
  case (3 s i)
  let ?r0 = "new_AccessApplication (uuid (fc_draws s))"
  show ?case
    using store_ok_fresh [OF 3] store_ok_create [OF 3, of "applyAccessApplication ?r0 i"]
    by (intro exI [of _ "applyAccessApplication ?r0 i"] exI [of _ ?r0])
       (simp add: run_fakeAccessApplications_Create Let_def update_conv')
next
  case (4 s k i)
  show ?case
    using store_ok_replace [OF 4]
    by (auto simp: fakeAccessApplications_Update_def Let_def update_conv' split: option.splits)
next
  case (5 s k d)
  show ?case
    using store_ok_delete [OF 5]
    by (auto simp: fakeAccessApplications_Delete_def delete_conv' split: option.splits)
qed

text \<open>
  C34: The DNS store of the fake keeps the contract the lease protocol is built on. In a state whose
  records carry distinct drawn IDs, listing after a create returns exactly the records that were
  selected before plus the created one under a fresh ID (so two creates at one name leave two
  records: creation is not exclusive), and listing after deleting a record in its zone returns
  exactly the others.
\<close>

theorem fake_dns_contract:
  assumes "store_ok DNS_ID uuid (fc_draws f) (fc_dnsRecords f)"
  shows "(\<exists>r f' xs. run_state (bind_st (fakeDNSRecords_Create uuid inp) (\<lambda>_. fakeDNSRecords_List z n t)) f = (Inr xs, f') \<and>
       map_of (fc_dnsRecords f) (DNS_ID r) = None \<and> (\<exists>r0. r = applyDNSRecord r0 inp) \<and>
       set xs = {x. \<exists>k. map_of (fc_dnsRecords f) k = Some x \<and> dns_selected z n t x} \<union>
         (if dns_selected z n t r then {r} else {})) \<and>
     (map_of (fc_dnsRecords f) k = Some r \<and> DNS_ZoneID r = zone \<longrightarrow>
       (\<exists>f' xs. run_state (bind_st (fakeDNSRecords_Delete zone k) (\<lambda>_. fakeDNSRecords_List z n t)) f = (Inr xs, f') \<and>
         set xs = {x. \<exists>j. map_of (fc_dnsRecords f) j = Some x \<and> dns_selected z n t x} - {r}))"
proof (rule conjI, goal_cases)
  case 1
  obtain r r0 f' xs where "run_state (bind_st (fakeDNSRecords_Create uuid inp) (\<lambda>_. fakeDNSRecords_List z n t)) f = (Inr xs, f')"
      "r = applyDNSRecord r0 inp" "map_of (fc_dnsRecords f) (DNS_ID r) = None"
      "set xs = {x. \<exists>k. map_of (fc_dnsRecords f) k = Some x \<and> dns_selected z n t x} \<union>
         (if dns_selected z n t r then {r} else {})"
    using dns_store.list_after_create [OF assms, of inp "(z, n, t)"] by auto
  then show ?case by blast
next
  case 2
  show ?case
  proof (intro impI, elim conjE)
    assume a: "map_of (fc_dnsRecords f) k = Some r" "DNS_ZoneID r = zone"
    from dns_store.delete_is_final [OF assms a, of "(z, n, t)"]
    show "\<exists>f' xs. run_state (bind_st (fakeDNSRecords_Delete zone k) (\<lambda>_. fakeDNSRecords_List z n t)) f = (Inr xs, f') \<and>
         set xs = {x. \<exists>j. map_of (fc_dnsRecords f) j = Some x \<and> dns_selected z n t x} - {r}"
      unfolding prod.case by blast
  qed
qed

text \<open>A concrete sequence of distinct identifiers for witnesses.\<close>

definition example_uuid :: "nat \<Rightarrow> string" where
  "example_uuid n = ''id-'' @ replicate n (CHR ''0'')"

lemma inj_example_uuid: "inj example_uuid"
  by (rule injI) (auto simp: example_uuid_def dest: arg_cong [where f = length])

theorem fake_dns_contract_witness:
  "\<exists>r f' xs. run_state (bind_st (fakeDNSRecords_Create example_uuid \<lparr>DNSIn_ZoneID = ''z'', DNSIn_Name = ''a.b'',
        DNSIn_Type = ''TXT'', DNSIn_Content = ''x'', DNSIn_Proxied = False, DNSIn_Comment = ''c''\<rparr>)
       (\<lambda>_. fakeDNSRecords_List ''z'' ''a.b'' ''TXT'')) NewFake = (Inr xs, f') \<and> set xs = {r}"
proof -
  let ?i = "\<lparr>DNSIn_ZoneID = ''z'', DNSIn_Name = ''a.b'', DNSIn_Type = ''TXT'', DNSIn_Content = ''x'',
    DNSIn_Proxied = False, DNSIn_Comment = ''c''\<rparr>"
  have ok: "store_ok DNS_ID example_uuid (fc_draws NewFake) (fc_dnsRecords NewFake)"
    by (simp add: store_ok_def NewFake_def inj_example_uuid)
  have "dns_selected ''z'' ''a.b'' ''TXT'' (applyDNSRecord r0 ?i)" for r0
    by (simp add: dns_selected_def applyDNSRecord_def)
  then show ?thesis
    using fake_dns_contract [OF ok, of ?i "''z''" "''a.b''" "''TXT''"] by (auto simp: NewFake_def)
qed

end
