(* ===== verification/Api_Server.thy ===== *)
theory Api_Server
  imports Kube
begin

text \<open>
  What the concrete worlds use of apimachinery and controller-runtime: the not-found status error,
  \<open>meta.SetStatusCondition\<close> (the transition time moves with the status only) and the finalizer helpers. \<open>home_tunnel\<close> and \<open>web_exposure\<close> are example objects.
\<close>

definition not_found :: error where
  "not_found = ErrStatus ReasonNotFound ''not found''"

definition set_condition :: "time \<Rightarrow> Condition list \<Rightarrow> Condition \<Rightarrow> Condition list" where
  "set_condition t cs c = (case find (\<lambda>c'. Condition_Type c' = Condition_Type c) cs of
     None \<Rightarrow> cs @ [c\<lparr>Condition_LastTransitionTime := t\<rparr>]
   | Some c' \<Rightarrow> map (\<lambda>d. if Condition_Type d = Condition_Type c
       then c\<lparr>Condition_LastTransitionTime := if Condition_Status d = Condition_Status c then Condition_LastTransitionTime d else t\<rparr> else d) cs)"

definition add_finalizer :: "ObjectMeta \<Rightarrow> string \<Rightarrow> ObjectMeta \<times> bool" where
  "add_finalizer m f = (if f \<in> set (Meta_Finalizers m) then (m, False) else (m\<lparr>Meta_Finalizers := Meta_Finalizers m @ [f]\<rparr>, True))"

definition contains_finalizer :: "ObjectMeta \<Rightarrow> string \<Rightarrow> bool" where
  "contains_finalizer m f \<longleftrightarrow> f \<in> set (Meta_Finalizers m)"

definition remove_finalizer :: "ObjectMeta \<Rightarrow> string \<Rightarrow> ObjectMeta" where
  "remove_finalizer m f = m\<lparr>Meta_Finalizers := filter (\<lambda>g. g \<noteq> f) (Meta_Finalizers m)\<rparr>"

text \<open>An example tunnel.\<close>

definition home_tunnel :: CloudflareTunnel where
  "home_tunnel = \<lparr>T_Meta = \<lparr>Meta_Namespace = [], Meta_Name = ''home'', Meta_UID = ''u-t'', Meta_Generation = 1,
       Meta_DeletionTimestamp = None, Meta_Finalizers = [], Meta_Annotations = [], Meta_OwnerReferences = []\<rparr>,
     T_Spec = \<lparr>TSpec_CredentialsSecretRef = \<lparr>SecretRef_Name = ''creds'', SecretRef_Keys = \<lparr>Keys_AccountId = [], Keys_ApiToken = []\<rparr>\<rparr>,
       TSpec_TunnelName = ''home'', TSpec_Dns = \<lparr>Dns_Manage = True\<rparr>,
       TSpec_Cloudflared = \<lparr>Cloudflared_Namespace = ''cf'', Cloudflared_Image = [], Cloudflared_HostNetwork = False,
         Cloudflared_Resources = [], Cloudflared_NodeSelector = [], Cloudflared_Tolerations = [], Cloudflared_Affinity = None\<rparr>\<rparr>,
     T_Status = \<lparr>TStatus_TunnelId = ''tun-akl'', TStatus_TokenSecretRef = \<lparr>TokenSecretRef_Name = []\<rparr>, TStatus_DnsMode = [],
       TStatus_IngressDocHash = [], TStatus_Routes = [], TStatus_Conditions = []\<rparr>\<rparr>"

definition web_exposure :: CloudflareExposure where
  "web_exposure = \<lparr>E_Meta = \<lparr>Meta_Namespace = ''media'', Meta_Name = ''web'', Meta_UID = ''u-1'', Meta_Generation = 1,
       Meta_DeletionTimestamp = None, Meta_Finalizers = [], Meta_Annotations = [], Meta_OwnerReferences = []\<rparr>,
     E_Spec = \<lparr>ESpec_DisplayName = [], ESpec_Hostname = ''a.x.io'', ESpec_TunnelRef = \<lparr>TunnelRef_Name = ''home''\<rparr>,
       ESpec_SourceRef = None, ESpec_Origin = Some \<lparr>Origin_Protocol = ''http'', Origin_Host = ''web'', Origin_Port = 80\<rparr>,
       ESpec_Access = \<lparr>Access_Enabled = False, Access_PolicyRef = None, Access_Applications = []\<rparr>,
       ESpec_Failover = Some \<lparr>Failover_Group = ''g'', Failover_LeaseSeconds = 60, Failover_PromotionPolicy = PromotionAutomatic\<rparr>\<rparr>,
     E_Status = \<lparr>EStatus_Cloudflare = \<lparr>CFStatus_AccessApplications = [], CFStatus_PublicHostnameRouteHash = [], CFStatus_DnsRecordId = []\<rparr>,
       EStatus_Failover = \<lparr>FStatus_Role = [], FStatus_SiteID = [], FStatus_LeaseOwner = [], FStatus_LeaseExpiresAt = None,
         FStatus_LeaseRenewedAt = None, FStatus_LastRoleTransitionAt = None, FStatus_ObservedPrimaryTunnelID = [],
         FStatus_LastForcePromoteToken = []\<rparr>,
       EStatus_Conditions = []\<rparr>\<rparr>"

end
