(* ===== verification/Cluster.thy ===== *)
theory Cluster
  imports Exposure_Safety Erasure Fake Api_Server
begin

text \<open>
  A concrete world for the reconciler: one cluster's exposures and tunnels beside the fake
  Cloudflare client, the way the repository's envtest suite sets it up. It instantiates every
  parameter of \<open>ExposureReconciler\<close>, so that whole passes can be evaluated. \<open>w_outage\<close> lists the DNS
  record IDs whose deletion fails with an API error.
\<close>

record world = FakeClient +
  w_exposures :: "CloudflareExposure list"
  w_tunnels :: "CloudflareTunnel list"
  w_now :: time
  w_outage :: "string list"

definition w_get :: "string \<Rightarrow> string \<Rightarrow> world \<Rightarrow> CloudflareExposure result" where
  "w_get ns n w = (case find (\<lambda>e. E_Namespace e = ns \<and> E_Name e = n) (w_exposures w) of None \<Rightarrow> Inl not_found | Some e \<Rightarrow> Inr e)"

definition w_put :: "CloudflareExposure \<Rightarrow> world \<Rightarrow> world" where
  "w_put e w = w\<lparr>w_exposures := map (\<lambda>e'. if E_Namespace e' = E_Namespace e \<and> E_Name e' = E_Name e then e else e') (w_exposures w)\<rparr>"

text \<open>An update stores the object; one that is being deleted goes with its last finalizer.\<close>

definition w_update :: "CloudflareExposure \<Rightarrow> world \<Rightarrow> world" where
  "w_update e w = (let w' = w_put e w
     in w'\<lparr>w_exposures := filter (\<lambda>e. \<not> (Meta_DeletionTimestamp (E_Meta e) \<noteq> None \<and> Meta_Finalizers (E_Meta e) = [])) (w_exposures w')\<rparr>)"

definition outage_delete :: "string \<Rightarrow> string \<Rightarrow> (world, unit result) state" where
  "outage_delete z k = do {
     down \<leftarrow> State (\<lambda>w. (k \<in> set (w_outage w), w));
     if down then return_st (Inl (ErrAPI 500 ''internal server error'')) else fakeDNSRecords_Delete z k }"

definition sim_client :: "world Client" where
  "sim_client = (fake_client example_uuid)\<lparr>Client_DNSRecords := (Client_DNSRecords (fake_client example_uuid))\<lparr>DNSRecords_Delete := outage_delete\<rparr>\<rparr>"

definition sim :: "string \<Rightarrow> world ExposureReconciler" where
  "sim site = \<lparr>
     Base_GetExposure = (\<lambda>ns n. State (\<lambda>w. (w_get ns n w, w))),
     Base_GetTunnel = (\<lambda>n. State (\<lambda>w. (case find (\<lambda>t. Meta_Name (T_Meta t) = n) (w_tunnels w) of None \<Rightarrow> Inl not_found | Some t \<Rightarrow> Inr t, w))),
     Base_GetAccessPolicy = (\<lambda>n. return_st (Inl not_found)),
     Base_GetService = (\<lambda>ns n. return_st (Inl not_found)),
     Base_GetHTTPRoute = (\<lambda>ns n. return_st (Inl not_found)),
     Base_GetSecret = (\<lambda>ns n. return_st (Inl not_found)),
     Base_ListExposures = (\<lambda>f v. State (\<lambda>w. (Inr (filter (\<lambda>e. v \<in> set (exposureIndex f e)) (w_exposures w)), w))),
     Base_UpdateExposure = (\<lambda>e. State (\<lambda>w. (Inr e, w_update e w))),
     Base_StatusUpdateExposure = (\<lambda>e. State (\<lambda>w. (Inr e, w_put e w))),
     Base_Eventf = (\<lambda>m ty re msg. return_st ()),
     Base_Metric = (\<lambda>mt ls. return_st ()),
     Base_WallClock = State (\<lambda>w. (w_now w, w)),
     Base_SetStatusCondition = set_condition,
     Base_FindStatusCondition = (\<lambda>cs ty. find (\<lambda>c. Condition_Type c = ty) cs),
     Base_AddFinalizer = (\<lambda>m f. if f \<in> set (Meta_Finalizers m) then (m, False) else (m\<lparr>Meta_Finalizers := Meta_Finalizers m @ [f]\<rparr>, True)),
     Base_ContainsFinalizer = (\<lambda>m f. f \<in> set (Meta_Finalizers m)),
     Base_RemoveFinalizer = (\<lambda>m f. m\<lparr>Meta_Finalizers := filter (\<lambda>g. g \<noteq> f) (Meta_Finalizers m)\<rparr>),
     Base_NewCloudflareClient = Some (\<lambda>ref. return_st (Inr sim_client)),
     Base_New = (\<lambda>a t. return_st (Inr sim_client)),
     Rec_HTTPRouteSourceEnabled = False,
     Rec_SiteID = site,
     Rec_Now = None,
     Rec_Rand = return_st (\<lambda>n. 0)\<rparr>"

section \<open>Calls on the recorded world\<close>

declare exposure_log.pure(3-7) [simp]

lemmas logged_defs = logged_def logged_base_def ExposureReconciler.defs logged_new_def map_result_def lift_log_def tell_def

lemma sim_base [simp]:
  "run_state (Base_GetExposure (logged (sim site)) ns n) (w, l) = (w_get ns n w, (w, l))"
  "run_state (Base_GetTunnel (logged (sim site)) n) (w, l) =
     (case find (\<lambda>t. Meta_Name (T_Meta t) = n) (w_tunnels w) of None \<Rightarrow> Inl not_found | Some t \<Rightarrow> Inr t, (w, l))"
  "run_state (Base_ListExposures (logged (sim site)) f v) (w, l) = (Inr (filter (\<lambda>e. v \<in> set (exposureIndex f e)) (w_exposures w)),
     (w, EvListExposures f v (Inr (filter (\<lambda>e. v \<in> set (exposureIndex f e)) (w_exposures w))) # l))"
  "run_state (Base_UpdateExposure (logged (sim site)) e) (w, l) = (Inr e, (w_update e w, EvUpdate e (Inr e) # l))"
  "run_state (Base_StatusUpdateExposure (logged (sim site)) e) (w, l) = (Inr e, (w_put e w, EvStatusUpdate e (Inr e) # l))"
  "run_state (Base_Eventf (logged (sim site)) m ty re msg) (w, l) = ((), (w, l))"
  "run_state (Base_Metric (logged (sim site)) mt ls) (w, l) = ((), (w, l))"
  "run_state (Base_WallClock (logged (sim site))) (w, l) = (w_now w, (w, EvNow (w_now w) # l))"
  "run_state (rec_now (logged (sim site))) (w, l) = (w_now w, (w, EvNow (w_now w) # l))"
  "run_state (Rec_Rand (logged (sim site))) (w, l) = ((\<lambda>n. 0), (w, l))"
  "run_state (CloudflareClient (logged (sim site)) ref) (w, l) = (Inr (logged_client sim_client), (w, l))"
  "Base_SetStatusCondition (sim site) = set_condition" "Rec_SiteID (sim site) = site"
  "Base_AddFinalizer (sim site) m f =
     (if f \<in> set (Meta_Finalizers m) then (m, False) else (m\<lparr>Meta_Finalizers := Meta_Finalizers m @ [f]\<rparr>, True))"
  "Base_ContainsFinalizer (sim site) m f = (f \<in> set (Meta_Finalizers m))"
  "Base_RemoveFinalizer (sim site) m f = m\<lparr>Meta_Finalizers := filter (\<lambda>g. g \<noteq> f) (Meta_Finalizers m)\<rparr>"
  by (simp_all add: logged_defs rec_now_def CloudflareClient_def)
    (simp_all add: sim_def logged_new_def map_result_def)

lemma sim_client_runs [simp]:
  "run_state (Zones_Resolve (Client_Zones (logged_client sim_client)) h) (w, l) =
     (case run_state (fakeZones_Resolve h) w of (res, w') \<Rightarrow> (res, (w', EvZone h res # l)))"
  "run_state (DNSRecords_List (Client_DNSRecords (logged_client sim_client)) z n t) (w, l) =
     (case run_state (fakeDNSRecords_List z n t) w of (res, w') \<Rightarrow> (res, (w', EvDNSList z n t res # l)))"
  "run_state (DNSRecords_Create (Client_DNSRecords (logged_client sim_client)) i) (w, l) =
     (case run_state (fakeDNSRecords_Create example_uuid i) w of (res, w') \<Rightarrow> (res, (w', EvDNSCreate i res # l)))"
  "run_state (DNSRecords_Delete (Client_DNSRecords (logged_client sim_client)) z k) (w, l) =
     (case run_state (outage_delete z k) w of (res, w') \<Rightarrow> (res, (w', EvDNSDelete z k res # l)))"
  "run_state (Apps_List (Client_AccessApplications (logged_client sim_client)) d) (w, l) =
     (case run_state (fakeAccessApplications_List d) w of (res, w') \<Rightarrow> (res, (w', EvAppsList d res # l)))"
  by (simp_all add: logged_client_def sim_client_def fake_client_def tell_def Let_def)

lemmas world_defs = w_get_def w_put_def w_update_def not_found_def outage_delete_def
  fakeDNSRecords_List_def fakeDNSRecords_Delete_def fakeZones_Resolve_def fakeZones_List_def dns_selected_def

section \<open>Examples\<close>

definition web_world :: world where
  "web_world = \<lparr>fc_tunnels = [], fc_tokens = [], fc_configurations = [], fc_configurationUpdateCalls = [],
     fc_accessApps = [], fc_accessTags = [], fc_accessPolicies = [], fc_unsupportedAccessPolicies = [],
     fc_tunnelRoutes = [], fc_dnsRecords = [], fc_zones = [(''z1'', \<lparr>Zone_ID = ''z1'', Zone_Name = ''x.io''\<rparr>)], fc_zoneCache = [],
     fc_zoneCacheReady = False, fc_zoneListCalls = 0, fc_dnsWriteCalls = 0, fc_draws = 0,
     w_exposures = [web_exposure], w_tunnels = [home_tunnel], w_now = 63900000000000000000, w_outage = []\<rparr>"

section \<open>A failed tear-down\<close>

definition deleting_exposure :: CloudflareExposure where
  "deleting_exposure = web_exposure\<lparr>
     E_Meta := (E_Meta web_exposure)\<lparr>Meta_DeletionTimestamp := Some 5, Meta_Finalizers := [Finalizer]\<rparr>,
     E_Status := (E_Status web_exposure)\<lparr>EStatus_Cloudflare := \<lparr>CFStatus_AccessApplications = [],
       CFStatus_PublicHostnameRouteHash = [], CFStatus_DnsRecordId = ''cn''\<rparr>\<rparr>\<rparr>"

definition held_lease :: DNSRecord where
  "held_lease = \<lparr>DNS_ID = ''le'', DNS_ZoneID = ''z1'', DNS_Name = FailoverLeaseTXTName ''g'' ''x.io'', DNS_Type = ''TXT'',
     DNS_Content = ''v=1 site=akl tunnel=t1 exp=99 renewed=9'', DNS_Proxied = False, DNS_Comment = ''managed-by=cfzt-operator source-uid=g''\<rparr>"

definition shared_cname :: DNSRecord where
  "shared_cname = \<lparr>DNS_ID = ''cn'', DNS_ZoneID = ''z1'', DNS_Name = ''a.x.io'', DNS_Type = ''CNAME'',
     DNS_Content = ''t1.cfargotunnel.com'', DNS_Proxied = True, DNS_Comment = ''managed-by=cfzt-operator source-uid=g''\<rparr>"

definition deleting_world :: world where
  "deleting_world = web_world\<lparr>fc_dnsRecords := [(''le'', held_lease), (''cn'', shared_cname)],
     w_exposures := [deleting_exposure], w_outage := [''cn'']\<rparr>"

lemma ParseLease_held: "ParseLease ''v=1 site=akl tunnel=t1 exp=99 renewed=9'' = Inr \<lparr>Lease_Version = 1, Lease_Site = ''akl'',
    Lease_Tunnel = ''t1'', Lease_Expires = time_Unix 99, Lease_Renewed = time_Unix 9\<rparr>"
  by code_simp

lemma MatchesComment_held: "MatchesComment (FromFailoverGroup ''g'') ''managed-by=cfzt-operator source-uid=g''"
  by code_simp

lemma Resolve_x: "LongestMatchingZone [\<lparr>Zone_ID = ''z1'', Zone_Name = ''x.io''\<rparr>] ''a.x.io'' = Some \<lparr>Zone_ID = ''z1'', Zone_Name = ''x.io''\<rparr>"
  by code_simp

lemmas delete_defs = Reconcile_def reconcileDelete_def holdsLiveLease_def deleteOwnedLeaseIfPresent_def listGroupLeases_def
  exposureOwner_def deleteSharedResources_def deleteOwnedDNSIfPresent_def removeFinalizer_def Let_def

lemmas delete_values = deleting_world_def web_world_def deleting_exposure_def web_exposure_def held_lease_def shared_cname_def
  home_tunnel_def ParseLease_held MatchesComment_held Resolve_x errForeignResource_def ErrNotFound_def

definition after_first :: world where
  "after_first = deleting_world\<lparr>fc_dnsRecords := [(''cn'', shared_cname)],
     fc_zoneCache := [\<lparr>Zone_ID = ''z1'', Zone_Name = ''x.io''\<rparr>], fc_zoneCacheReady := True, fc_zoneListCalls := 1\<rparr>"

definition first_log :: "call list" where
  "first_log = (let zone = EvZone ''a.x.io'' (Inr \<lparr>Zone_ID = ''z1'', Zone_Name = ''x.io''\<rparr>);
       leases = EvDNSList ''z1'' (FailoverLeaseTXTName ''g'' ''x.io'') ''TXT'' (Inr [held_lease])
     in [EvDNSDelete ''z1'' ''cn'' (Inl (ErrAPI 500 ''internal server error'')),
         EvDNSList ''z1'' ''a.x.io'' ''CNAME'' (Inr [shared_cname]), zone,
         EvDNSDelete ''z1'' ''le'' (Inr ()), leases, zone, leases, zone])"

lemma first_pass_logged:
  "run_state (Reconcile (logged (sim ''akl'')) ''media'' ''web'') (deleting_world, []) =
     ((no_result, Inl (ErrAPI 500 ''internal server error'')), (after_first, first_log))"
  by (simp add: after_first_def first_log_def delete_defs world_defs delete_values)

lemmas first_pass = erases_run [OF erases_Reconcile first_pass_logged]

section \<open>A first election\<close>

definition example_claim :: Lease where
  "example_claim = \<lparr>Lease_Version = 1, Lease_Site = ''akl'', Lease_Tunnel = ''tun-akl'',
     Lease_Expires = 63900000060000000000, Lease_Renewed = 63900000000000000000\<rparr>"

lemma leaseSecondsOf_example: "E_Spec e = E_Spec web_exposure \<Longrightarrow> leaseSecondsOf e = 60"
  by (simp add: leaseSecondsOf_def failover_spec_def web_exposure_def)

lemma desired_example: "E_Spec e = E_Spec web_exposure \<Longrightarrow> desired_lease ''akl'' e ''tun-akl'' 63900000000000000000 = example_claim"
  by (simp add: desired_lease_def leaseSecondsOf_example example_claim_def LeaseSchemaVersion_def time_Add_def second_def)

lemma ParseLease_claim: "ParseLease (Serialize example_claim) = Inr example_claim"
  by (subst ParseLease_serialized)
     (simp_all add: example_claim_def LeaseSchemaVersion_def is_word_def word_char_def sane_time_def trunc_sec_def second_def)

lemma MatchesComment_g: "MatchesComment (FromFailoverGroup ''g'') (Owner_Comment (FromFailoverGroup ''g''))"
  by code_simp

lemma index_hostname: "exposureIndex exposureIndexHostname e = (if E_Hostname e = [] then [] else [E_Hostname e])"
  by (simp add: exposureIndex_def exposureIndexHostname_def exposureIndexTunnelRefName_def)

lemma index_group: "exposureIndex exposureIndexFailoverGroup e =
    (case ESpec_Failover (E_Spec e) of None \<Rightarrow> [] | Some f \<Rightarrow> if Failover_Group f = [] then [] else [Failover_Group f])"
  by (simp add: exposureIndex_def exposureIndexHostname_def exposureIndexTunnelRefName_def exposureIndexFailoverGroup_def exposureIndexPolicyRefName_def Let_def split: option.split)


lemmas live_defs = Reconcile_def reconcileLive_def reconcileDefaulted_def defaultFromSourceRef_def reconcileValid_def hasDuplicateHostname_def
  listExposuresByHostname_def listExposuresByFailoverGroup_def reconcileGated_def hasFailoverGroupConflict_def reconcileFailoverRole_def
  listGroupLeases_def Let_def exposureOwner_def failover_spec_def

lemmas acquire_defs = dispatch_def gate_inputs_def observed_lease_def Decide_def writeAndVerifyLease_def writeLease_def becomePrimary_def
  recordRole_def primaryFailoverStatus_def baseFailoverStatus_def setFailoverStatus_def set_failover_status_def uuid_New_def
  applyDNSRecord_def new_DNSRecord_def fakeDNSRecords_Create_def


lemma claim_sel: "Lease_Site example_claim = ''akl''" "Lease_Tunnel example_claim = ''tun-akl''"
  by (simp_all add: example_claim_def)

lemmas shared_defs = reconcileShared_def reconcileExposureAccess_def deleteAccessApplications_def fakeAccessApplications_List_def
  reconcileExposureDNS_def reconcileDNS_def wanted_cname_def exposureReady_def exposureAccessReady_def routeHashForExposure_def
  setExposureStatus_def setReadyExposure_def setReady_def setCondition_def set_cf_status_def set_conditions_def set_condition_def


text \<open>The recorded pass creates the lease record.\<close>

definition claimed :: "call list \<Rightarrow> bool" where
  "claimed l = list_ex (\<lambda>e. case e of
     EvDNSCreate i res \<Rightarrow> DNSIn_Type i = ''TXT'' \<and> DNSIn_Content i = Serialize example_claim
   | _ \<Rightarrow> False) l"

definition spec_kept :: "call list \<Rightarrow> bool" where
  "spec_kept l = list_all (\<lambda>e. case e of EvUpdate a (Inr b) \<Rightarrow> E_Spec b = E_Spec web_exposure | _ \<Rightarrow> True) l"

lemma first_election_logged:
  "case run_state (Reconcile (logged (sim ''akl'')) ''media'' ''web'') (web_world, []) of (out, w, l) \<Rightarrow> claimed l \<and> spec_kept l"
  by (simp add: live_defs world_defs web_world_def web_exposure_def home_tunnel_def Finalizer_def
    index_hostname index_group defaultSiteID_def Resolve_x acquire_defs PromotionAutomatic_def PromotionManual_def
    desired_example [unfolded web_exposure_def] ParseLease_claim MatchesComment_g annotationForcePromote_def
    shared_defs claim_sel RolePrimary_def claimed_def spec_kept_def ConditionReady_def ConditionProgressing_def)

end
