(* ===== verification/Settling.thy ===== *)
theory Settling
  imports Api_Server Ownership
begin

text \<open>
  What a settled object has in its status: the conditions that \<open>setReady\<close> writes on success, which it does not
  change when it writes them again. And what the resources of a settled object have: its own comment.
\<close>

section \<open>Conditions that are already set\<close>

definition same_condition :: "Condition \<Rightarrow> Condition \<Rightarrow> bool" where
  "same_condition c d \<longleftrightarrow> d = c\<lparr>Condition_LastTransitionTime := Condition_LastTransitionTime d\<rparr>"

definition condition_set :: "Condition list \<Rightarrow> Condition \<Rightarrow> bool" where
  "condition_set cs c \<longleftrightarrow> list_ex (\<lambda>d. Condition_Type d = Condition_Type c) cs \<and>
     list_all (\<lambda>d. Condition_Type d = Condition_Type c \<longrightarrow> same_condition c d) cs"

lemma same_condition_status: "same_condition c d \<Longrightarrow> Condition_Status d = Condition_Status c"
  by (metis Condition.select_convs(2) Condition.surjective Condition.update_convs(4) same_condition_def)

lemma same_condition_time [simp]: "same_condition c (c\<lparr>Condition_LastTransitionTime := t\<rparr>)"
  by (simp add: same_condition_def)

lemma set_condition_same:
  assumes "condition_set cs c" shows "set_condition t cs c = cs"
proof -
  let ?new = "\<lambda>d. if Condition_Type d = Condition_Type c
      then c\<lparr>Condition_LastTransitionTime := if Condition_Status d = Condition_Status c then Condition_LastTransitionTime d else t\<rparr> else d"
  have "find (\<lambda>d. Condition_Type d = Condition_Type c) cs \<noteq> None"
    using assms by (auto simp: condition_set_def list_ex_iff find_None_iff)
  moreover have "map ?new cs = cs"
  proof (rule map_idI)
    fix d assume "d \<in> set cs"
    with assms have "same_condition c d" if "Condition_Type d = Condition_Type c"
      using that by (simp add: condition_set_def list_all_iff)
    then show "?new d = d" by (simp add: same_condition_status) (metis same_condition_def)
  qed
  ultimately show ?thesis by (auto simp: set_condition_def)
qed

lemma set_condition_sets: "condition_set (set_condition t cs c) c"
proof (cases "find (\<lambda>d. Condition_Type d = Condition_Type c) cs")
  case None
  then have "\<forall>d \<in> set cs. Condition_Type d \<noteq> Condition_Type c" by (auto simp: find_None_iff)
  then show ?thesis by (simp add: None set_condition_def condition_set_def list_all_iff)
next
  case (Some c')
  then have "c' \<in> set cs" "Condition_Type c' = Condition_Type c" by (auto simp: find_Some_iff)
  then have "list_ex (\<lambda>d. Condition_Type d = Condition_Type c) (set_condition t cs c)"
    by (force simp: Some set_condition_def list_ex_iff image_iff simp del: if_image_distrib)
  then show ?thesis by (auto simp: Some set_condition_def condition_set_def list_all_iff split: if_splits)
qed

lemma set_condition_keeps:
  assumes "condition_set cs c" and "Condition_Type c' \<noteq> Condition_Type c"
  shows "condition_set (set_condition t cs c') c"
  using assms by (auto simp: condition_set_def set_condition_def list_all_iff list_ex_iff split: option.splits)

text \<open>What \<open>setReady\<close> writes at time \<open>t\<close>: Ready, and Progressing as its opposite.\<close>

definition status_condition :: "string \<Rightarrow> bool \<Rightarrow> int \<Rightarrow> string \<Rightarrow> string \<Rightarrow> Condition" where
  "status_condition ty b g reason msg = \<lparr>Condition_Type = ty, Condition_Status = if b then ''True'' else ''False'',
     Condition_ObservedGeneration = g, Condition_LastTransitionTime = 0, Condition_Reason = reason, Condition_Message = msg\<rparr>"

definition ready_conditions :: "time \<Rightarrow> bool \<Rightarrow> int \<Rightarrow> string \<Rightarrow> string \<Rightarrow> Condition list \<Rightarrow> Condition list" where
  "ready_conditions t ready g reason msg cs = set_condition t (set_condition t cs (status_condition ConditionReady ready g reason msg))
     (status_condition ConditionProgressing (\<not> ready) g reason msg)"

lemma condition_types [simp]:
  "Condition_Type (status_condition ty b g reason msg) = ty" "ConditionReady \<noteq> ConditionProgressing" "ConditionProgressing \<noteq> ConditionReady"
  by (simp_all add: status_condition_def ConditionReady_def ConditionProgressing_def)

lemma ready_conditions_sets:
  "condition_set (ready_conditions t ready g reason msg cs) (status_condition ConditionReady ready g reason msg)"
  "condition_set (ready_conditions t ready g reason msg cs) (status_condition ConditionProgressing (\<not> ready) g reason msg)"
  by (simp_all add: ready_conditions_def set_condition_sets set_condition_keeps)

lemma ready_conditions_idem:
  "ready_conditions t' ready g reason msg (ready_conditions t ready g reason msg cs) = ready_conditions t ready g reason msg cs"
  by (simp add: ready_conditions_def [of t' ready g reason msg "ready_conditions t ready g reason msg cs"] set_condition_same ready_conditions_sets)

section \<open>Own comments\<close>

lemma own_comment:
  assumes "is_word (uid ow)" and "rest = [] \<or> (\<exists>t. rest = '' | '' @ t)"
  shows "MatchesComment ow (Owner_Comment ow @ rest)" "MatchesComment ow (Owner_CompactComment ow @ rest)"
  using parseComment_two_words [OF disjI1 [OF refl] assms] parseComment_two_words [OF disjI2 [OF refl] assms]
  by (simp_all add: MatchesComment_def Owner_Comment_def renderComment_def Owner_CompactComment_def renderCompactComment_def)

end
