(* ===== verification/Exposure_Settling.thy ===== *)
theory Exposure_Settling
  imports Cluster Settling
begin

text \<open>
  Convergence of the Exposure controller in the simulated cluster, for an exposure that has neither Access nor
  a failover group: one pass removes the exposure's own Access applications at the hostname, writes the CNAME that the spec asks for,
  whatever was there of the exposure's own, and reports it. From then on a pass changes nothing, neither the object nor Cloudflare.
  The one obstacle, an application that the status tracks and that is not the exposure's, stops every pass before the CNAME.
\<close>

section \<open>The store under an update by ID\<close>

definition dns_keyed :: "world \<Rightarrow> bool" where
  "dns_keyed w \<longleftrightarrow> distinct (map fst (fc_dnsRecords w)) \<and>
     list_all (\<lambda>(k, r). DNS_ID r = k \<and> k \<noteq> [] \<and> k \<noteq> example_uuid (fc_draws w)) (fc_dnsRecords w)"

definition cnames :: "world \<Rightarrow> Zone \<Rightarrow> string \<Rightarrow> DNSRecord list" where
  "cnames w zone h = filter (dns_selected (Zone_ID zone) h ''CNAME'') (map snd (fc_dnsRecords w))"

definition other_records :: "world \<Rightarrow> Zone \<Rightarrow> string \<Rightarrow> DNSRecord list" where
  "other_records w zone h = filter (\<lambda>r. \<not> dns_selected (Zone_ID zone) h ''CNAME'' r) (map snd (fc_dnsRecords w))"

lemma update_split:
  "map_of al k = Some r \<Longrightarrow> \<exists>xs ys. al = xs @ (k, r) # ys \<and> (\<forall>r'. AList.update k r' al = xs @ (k, r') # ys)"
proof (induction al)
  case (Cons p al)
  show ?case
  proof (cases "fst p = k")
    case True
    with Cons.prems show ?thesis by (intro exI [of _ "[]"] exI [of _ al]) (cases p, auto)
  next
    case False
    with Cons obtain xs ys where "al = xs @ (k, r) # ys" "\<forall>r'. AList.update k r' al = xs @ (k, r') # ys" by (cases p) auto
    with False show ?thesis by (intro exI [of _ "p # xs"] exI [of _ ys]) (cases p, auto)
  qed
qed simp

text \<open>A record that no other one matches, when it is written under its ID, and a record under a new ID.\<close>

lemma filter_replace:
  assumes "map_of al k = Some r" and "filter P (map snd al) = [r]" and "P r'"
  shows "filter P (map snd (AList.update k r' al)) = [r']"
    "filter (\<lambda>x. \<not> P x) (map snd (AList.update k r' al)) = filter (\<lambda>x. \<not> P x) (map snd al)"
proof -
  obtain xs ys where al: "al = xs @ (k, r) # ys" "\<And>r'. AList.update k r' al = xs @ (k, r') # ys"
    using update_split [OF assms(1)] by blast
  have "P r" using assms(2) by (metis filter_eq_ConsD)
  with assms(2) have "length (filter P (map snd xs)) + length (filter P (map snd ys)) = 0" by (auto simp: al(1) dest: arg_cong [where f = length])
  then have "filter P (map snd xs) = []" "filter P (map snd ys) = []" by (simp_all add: filter_map)
  with \<open>P r\<close> assms(3) show "filter P (map snd (AList.update k r' al)) = [r']"
    "filter (\<lambda>x. \<not> P x) (map snd (AList.update k r' al)) = filter (\<lambda>x. \<not> P x) (map snd al)"
    by (simp_all only: al(2), simp_all add: al(1))
qed

lemma filter_append_new:
  "map_of al k = None \<Longrightarrow> filter P (map snd (AList.update k r al)) = filter P (map snd al) @ (if P r then [r] else [])"
  by (induction al) auto

section \<open>The zone\<close>

definition zone_cached :: "world \<Rightarrow> string \<Rightarrow> Zone option" where
  "zone_cached w h = (if fc_zoneCacheReady w then LongestMatchingZone (fc_zoneCache w) h else None)"

definition zone_list :: "world \<Rightarrow> Zone list" where
  "zone_list w = sort_slice (\<lambda>a b. Zone_Name a < Zone_Name b) (map snd (fc_zones w))"

definition hosted_zone :: "world \<Rightarrow> string \<Rightarrow> Zone option" where
  "hosted_zone w h = (case zone_cached w h of Some z \<Rightarrow> Some z | None \<Rightarrow> LongestMatchingZone (zone_list w) h)"

definition zone_read :: "world \<Rightarrow> string \<Rightarrow> world" where
  "zone_read w h = (if zone_cached w h = None
     then w\<lparr>fc_zoneListCalls := Suc (fc_zoneListCalls w), fc_zoneCache := zone_list w, fc_zoneCacheReady := True\<rparr> else w)"

lemma run_zone:
  assumes "hosted_zone w h = Some z"
  shows "run_state (fakeZones_Resolve h) w = (Inr z, zone_read w h)" "zone_cached (zone_read w h) h = Some z"
  using assms by (auto simp: hosted_zone_def zone_cached_def zone_read_def zone_list_def fakeZones_Resolve_def fakeZones_List_def
    split: option.splits if_splits)

lemma zone_read_fields [simp]:
  "fc_dnsRecords (zone_read w h) = fc_dnsRecords w" "fc_draws (zone_read w h) = fc_draws w" "fc_accessApps (zone_read w h) = fc_accessApps w"
  "w_exposures (zone_read w h) = w_exposures w" "w_tunnels (zone_read w h) = w_tunnels w" "w_now (zone_read w h) = w_now w"
  by (simp_all add: zone_read_def)

section \<open>The CNAME\<close>

definition own_cnames :: "world \<Rightarrow> CloudflareExposure \<Rightarrow> Zone \<Rightarrow> bool" where
  "own_cnames w e zone \<longleftrightarrow> (case cnames w zone (E_Hostname e) of
     [] \<Rightarrow> True | [r] \<Rightarrow> MatchesComment (exposureOwner e) (DNS_Comment r) | _ \<Rightarrow> False)"

definition wanted_record :: "CloudflareExposure \<Rightarrow> CloudflareTunnel \<Rightarrow> Zone \<Rightarrow> DNSRecord \<Rightarrow> bool" where
  "wanted_record e t zone r \<longleftrightarrow> DNS_ID r \<noteq> [] \<and> DNS_ZoneID r = Zone_ID zone \<and> DNS_Name r = E_Hostname e \<and> DNS_Type r = ''CNAME'' \<and>
     DNS_Content r = TStatus_TunnelId (T_Status t) @ ''.cfargotunnel.com'' \<and> DNS_Proxied r \<and> DNS_Comment r = Owner_Comment (exposureOwner e)"

lemma run_dns_update [simp]:
  "run_state (DNSRecords_Update (Client_DNSRecords (logged_client sim_client)) k i) (w, l) =
     (case run_state (fakeDNSRecords_Update k i) w of (res, w') \<Rightarrow> (res, (w', EvDNSUpdate k i res # l)))"
  by (simp add: logged_client_def sim_client_def fake_client_def tell_def Let_def)

lemma own_shared_comment:
  "is_word (uid (exposureOwner e)) \<Longrightarrow> MatchesComment (exposureOwner e) (Owner_Comment (exposureOwner e))"
  using own_comment(1) [of "exposureOwner e" "[]"] by simp

lemma sort_slice_short: "length xs \<le> 1 \<Longrightarrow> sort_slice lt xs = xs"
  by (cases xs) auto

lemma run_cnames:
  assumes "length (cnames w zone h) \<le> 1"
  shows "run_state (fakeDNSRecords_List (Zone_ID zone) h ''CNAME'') w = (Inr (cnames w zone h), w)"
  using sort_slice_short [OF assms] by (simp add: fakeDNSRecords_List_def cnames_def)

lemma cnames_zone_read [simp]: "cnames (zone_read w h) = cnames w" "other_records (zone_read w h) = other_records w"
  by (simp_all add: cnames_def other_records_def fun_eq_iff)

lemma run_dns_settled:
  assumes "hosted_zone w (E_Hostname e) = Some z" and "cnames w z (E_Hostname e) = [r]" and "wanted_record e t z r"
    and "is_word (uid (exposureOwner e))"
  shows "\<exists>l'. run_state (reconcileDNS e t (logged_client sim_client)) (w, l) = (Inr (r, dnsReconcileUnchanged), (zone_read w (E_Hostname e), l' @ l)) \<and>
    list_all (\<lambda>c. \<not> cloudflare_write c) l'"
proof -
  have own: "MatchesComment (exposureOwner e) (DNS_Comment r)"
    using own_shared_comment [OF assms(4)] assms(3) by (simp add: wanted_record_def)
  have listed: "run_state (fakeDNSRecords_List (Zone_ID z) (E_Hostname e) ''CNAME'') (zone_read w (E_Hostname e)) = (Inr [r], zone_read w (E_Hostname e))"
    using run_cnames [of "zone_read w (E_Hostname e)" z "E_Hostname e"] assms(2) by simp
  show ?thesis
    using assms(3) by (intro exI [of _ "[EvDNSList (Zone_ID z) (E_Hostname e) ''CNAME'' (Inr [r]), EvZone (E_Hostname e) (Inr z)]"])
      (simp add: reconcileDNS_def run_zone(1) [OF assms(1)] listed own own_shared_comment [OF assms(4)] Let_def wanted_record_def wanted_cname_def)
qed

text \<open>Everything of the world but its DNS store and zone cache is as it was.\<close>

definition dns_written :: "world \<Rightarrow> world \<Rightarrow> bool" where
  "dns_written w w' \<longleftrightarrow> (\<exists>draws recs calls cache ready lists. w' = w\<lparr>fc_draws := draws, fc_dnsRecords := recs, fc_dnsWriteCalls := calls,
     fc_zoneCache := cache, fc_zoneCacheReady := ready, fc_zoneListCalls := lists\<rparr>)"

lemma wanted_selected: "DNSIn_Name (wanted_cname e t z) = E_Hostname e" "DNSIn_ZoneID (wanted_cname e t z) = Zone_ID z"
  "dns_selected (Zone_ID z) (E_Hostname e) ''CNAME'' (applyDNSRecord r (wanted_cname e t z))"
  "DNS_ID r \<noteq> [] \<Longrightarrow> wanted_record e t z (applyDNSRecord r (wanted_cname e t z))"
  by (simp_all add: wanted_cname_def dns_selected_def applyDNSRecord_def wanted_record_def)

lemma cnames_member:
  assumes "dns_keyed w" and "cnames w z h = [r]"
  shows "map_of (fc_dnsRecords w) (DNS_ID r) = Some r" "DNS_ID r \<noteq> []" "dns_selected (Zone_ID z) h ''CNAME'' r"
proof -
  have "r \<in> set (cnames w z h)" using assms(2) by simp
  then obtain k where k: "(k, r) \<in> set (fc_dnsRecords w)" and sel: "dns_selected (Zone_ID z) h ''CNAME'' r"
    by (auto simp: cnames_def)
  with assms(1) have "DNS_ID r = k" "k \<noteq> []" "map_of (fc_dnsRecords w) k = Some r"
    by (auto simp: dns_keyed_def list_all_iff map_of_eq_Some_iff)
  with sel show "map_of (fc_dnsRecords w) (DNS_ID r) = Some r" "DNS_ID r \<noteq> []" "dns_selected (Zone_ID z) h ''CNAME'' r" by simp_all
qed

text \<open>The world after the write of the record \<open>r\<close> under the ID \<open>k\<close>.\<close>

definition record_put :: "string \<Rightarrow> DNSRecord \<Rightarrow> nat \<Rightarrow> world \<Rightarrow> world" where
  "record_put k r draws w = w\<lparr>fc_draws := draws, fc_dnsRecords := AList.update k r (fc_dnsRecords w), fc_dnsWriteCalls := Suc (fc_dnsWriteCalls w)\<rparr>"

lemma record_put_cnames:
  assumes "dns_selected (Zone_ID z) h ''CNAME'' r" and "map_of (fc_dnsRecords w) k = None \<and> cnames w z h = [] \<or>
      (\<exists>r0. map_of (fc_dnsRecords w) k = Some r0 \<and> cnames w z h = [r0])"
  shows "cnames (record_put k r d w) z h = [r]" "other_records (record_put k r d w) z h = other_records w z h"
  using assms filter_append_new [of "fc_dnsRecords w" k _ r] filter_replace [of "fc_dnsRecords w" k _ "dns_selected (Zone_ID z) h ''CNAME''" r]
  by (auto simp: cnames_def other_records_def record_put_def simp del: filter_map)

lemma dns_written_put: "dns_written w (record_put k r d (zone_read w h))" "dns_written w (zone_read w h)"
  unfolding dns_written_def record_put_def zone_read_def by (cases w; auto)+

lemma zone_cached_put [simp]: "zone_cached (record_put k r d w) h = zone_cached w h"
  by (simp add: zone_cached_def record_put_def)

definition dns_reached :: "world \<Rightarrow> world \<Rightarrow> CloudflareExposure \<Rightarrow> CloudflareTunnel \<Rightarrow> Zone \<Rightarrow> DNSRecord \<Rightarrow> bool" where
  "dns_reached w w' e t z r \<longleftrightarrow> dns_written w w' \<and> zone_cached w' (E_Hostname e) = Some z \<and> cnames w' z (E_Hostname e) = [r] \<and>
     wanted_record e t z r \<and> other_records w' z (E_Hostname e) = other_records w z (E_Hostname e)"

lemma dns_reached_put:
  assumes "hosted_zone w (E_Hostname e) = Some z" and "wanted_record e t z r" and "dns_selected (Zone_ID z) (E_Hostname e) ''CNAME'' r"
    and "map_of (fc_dnsRecords w) k = None \<and> cnames w z (E_Hostname e) = [] \<or>
      (\<exists>r0. map_of (fc_dnsRecords w) k = Some r0 \<and> cnames w z (E_Hostname e) = [r0])"
  shows "dns_reached w (record_put k r d (zone_read w (E_Hostname e))) e t z r"
  using assms(2,4) record_put_cnames [OF assms(3), of "zone_read w (E_Hostname e)" k] run_zone(2) [OF assms(1)]
  by (simp add: dns_reached_def dns_written_put)

lemma run_dns_put:
  assumes "map_of (fc_dnsRecords w) k = Some r"
  shows "run_state (fakeDNSRecords_Update k i) w = (Inr (applyDNSRecord r i), record_put k (applyDNSRecord r i) (fc_draws w) w)"
  using assms by (cases w) (simp add: fakeDNSRecords_Update_def record_put_def Let_def)

lemma run_dns:
  assumes "hosted_zone w (E_Hostname e) = Some z" and "own_cnames w e z" and "dns_keyed w" and "is_word (uid (exposureOwner e))"
    and "Zone_ID z \<noteq> []" and "E_Hostname e \<noteq> []"
  shows "\<exists>r a w'. dns_reached w w' e t z r \<and>
    (\<forall>l. \<exists>l'. run_state (reconcileDNS e t (logged_client sim_client)) (w, l) = (Inr (r, a), (w', l' @ l)))"
proof (cases "cnames w z (E_Hostname e)")
  case Nil
  let ?k = "example_uuid (fc_draws w)"
  let ?r = "applyDNSRecord (new_DNSRecord ?k) (wanted_cname e t z)"
  have "map_of (fc_dnsRecords w) ?k = None"
    using assms(3) by (auto simp: dns_keyed_def list_all_iff map_of_eq_None_iff)
  with Nil have "dns_reached w (record_put ?k ?r (Suc (fc_draws w)) (zone_read w (E_Hostname e))) e t z ?r"
    by (intro dns_reached_put assms(1) wanted_selected) (simp_all add: example_uuid_def)
  moreover have "run_state (fakeDNSRecords_List (Zone_ID z) (E_Hostname e) ''CNAME'') (zone_read w (E_Hostname e)) = (Inr [], zone_read w (E_Hostname e))"
    using run_cnames [of "zone_read w (E_Hostname e)" z "E_Hostname e"] Nil by simp
  ultimately show ?thesis
    by (intro exI [of _ ?r] exI [of _ dnsReconcileCreated] exI [of _ "record_put ?k ?r (Suc (fc_draws w)) (zone_read w (E_Hostname e))"] conjI allI
        exI [of _ "[EvDNSCreate (wanted_cname e t z) (Inr ?r), EvDNSList (Zone_ID z) (E_Hostname e) ''CNAME'' (Inr []), EvZone (E_Hostname e) (Inr z)]"])
      (simp_all add: reconcileDNS_def run_zone(1) [OF assms(1)] run_fakeDNSRecords_Create record_put_def Let_def)
next
  case (Cons r rs)
  with assms(2) have one: "cnames w z (E_Hostname e) = [r]" "MatchesComment (exposureOwner e) (DNS_Comment r)"
    by (auto simp: own_cnames_def split: list.splits)
  note member = cnames_member [OF assms(3) one(1)]
  let ?r = "applyDNSRecord r (wanted_cname e t z)"
  have update: "dns_reached w (record_put (DNS_ID r) ?r (fc_draws w) (zone_read w (E_Hostname e))) e t z ?r"
    using member one by (intro dns_reached_put assms(1) wanted_selected) simp_all
  have listed: "run_state (fakeDNSRecords_List (Zone_ID z) (E_Hostname e) ''CNAME'') (zone_read w (E_Hostname e)) = (Inr [r], zone_read w (E_Hostname e))"
    using run_cnames [of "zone_read w (E_Hostname e)" z "E_Hostname e"] one by simp
  show ?thesis
  proof (cases "wanted_record e t z r")
    case True
    then have "dns_reached w (zone_read w (E_Hostname e)) e t z r"
      using one run_zone(2) [OF assms(1)] by (simp add: dns_reached_def dns_written_put)
    with run_dns_settled [OF assms(1) one(1) True assms(4)] show ?thesis by blast
  next
    case False
    then have drift: "\<not> (DNS_Content r = DNSIn_Content (wanted_cname e t z) \<and> DNS_Proxied r = DNSIn_Proxied (wanted_cname e t z) \<and>
        DNS_Comment r = DNSIn_Comment (wanted_cname e t z))"
      using member(2,3) assms(5,6) by (auto simp: wanted_record_def wanted_cname_def dns_selected_def)
    have "run_state (fakeDNSRecords_Update (DNS_ID r) (wanted_cname e t z)) (zone_read w (E_Hostname e)) =
        (Inr ?r, record_put (DNS_ID r) ?r (fc_draws w) (zone_read w (E_Hostname e)))"
      using run_dns_put [of "zone_read w (E_Hostname e)" "DNS_ID r" r] member(1) by simp
    with update one(2) show ?thesis
      by (intro exI [of _ ?r] exI [of _ dnsReconcileUpdated] exI [of _ "record_put (DNS_ID r) ?r (fc_draws w) (zone_read w (E_Hostname e))"] conjI allI
          exI [of _ "[EvDNSUpdate (DNS_ID r) (wanted_cname e t z) (Inr ?r), EvDNSList (Zone_ID z) (E_Hostname e) ''CNAME'' (Inr [r]), EvZone (E_Hostname e) (Inr z)]"])
        (simp_all add: reconcileDNS_def run_zone(1) [OF assms(1)] listed Let_def if_not_P [OF drift] del: de_Morgan_conj)
  qed
qed

section \<open>The status\<close>

text \<open>The object after a pass that reports the status \<open>st\<close> at time \<open>now\<close>.\<close>

definition exposure_message :: "bool \<Rightarrow> string" where
  "exposure_message ready = (if ready then ''Exposure reconciled'' else ''waiting for tunnel ingress route hash'')"

definition exposure_reason :: "bool \<Rightarrow> string" where
  "exposure_reason ready = (if ready then ReasonReconciled else ReasonAccessAppPending)"

definition reported_exposure :: "time \<Rightarrow> ExposureCloudflareStatus \<Rightarrow> bool \<Rightarrow> CloudflareExposure \<Rightarrow> CloudflareExposure" where
  "reported_exposure now st ready e = set_conditions (ready_conditions now ready (Meta_Generation (E_Meta e)) (exposure_reason ready)
     (exposure_message ready) (EStatus_Conditions (E_Status e))) (set_cf_status st e)"

lemma reported_exposure_fields [simp]:
  "E_Meta (reported_exposure now st ready e) = E_Meta e" "E_Spec (reported_exposure now st ready e) = E_Spec e"
  "cf_status (reported_exposure now st ready e) = st" "exposureOwner (reported_exposure now st ready e) = exposureOwner e"
  "EStatus_Conditions (E_Status (reported_exposure now st ready e)) = ready_conditions now ready (Meta_Generation (E_Meta e))
     (exposure_reason ready) (exposure_message ready) (EStatus_Conditions (E_Status e))"
  by (simp_all add: reported_exposure_def set_conditions_def set_cf_status_def exposureOwner_def split: option.split)

lemma reported_exposure_idem: "reported_exposure now' st ready (reported_exposure now st ready e) = reported_exposure now st ready e"
  by (simp add: reported_exposure_def [of now' st ready "reported_exposure now st ready e"] ready_conditions_idem)
    (simp add: reported_exposure_def set_conditions_def set_cf_status_def)

definition exposure_stored :: "CloudflareExposure \<Rightarrow> CloudflareExposure \<Rightarrow> world \<Rightarrow> world" where
  "exposure_stored e' e w = (if e' = e then w else w_put e' w)"

lemma run_exposure_status:
  assumes "w_get (E_Namespace e) (E_Name e) w = Inr e"
  shows "\<exists>l'. run_state (setExposureStatus (logged (sim site)) e st ready (exposure_reason ready) (exposure_message ready)) (w, l) =
    (Inr (), (exposure_stored (reported_exposure (w_now w) st ready e) e w, l' @ l)) \<and> list_all (\<lambda>c. \<not> cloudflare_write c) l'"
proof -
  let ?e = "reported_exposure (w_now w) st ready e"
  have new: "set_conditions (set_condition (w_now w) (set_condition (w_now w) (EStatus_Conditions (E_Status (set_cf_status st e)))
      (status_condition ConditionReady ready (Meta_Generation (E_Meta e)) (exposure_reason ready) (exposure_message ready)))
      (status_condition ConditionProgressing (\<not> ready) (Meta_Generation (E_Meta e)) (exposure_reason ready) (exposure_message ready)))
      (set_cf_status st e) = ?e"
    by (simp add: reported_exposure_def ready_conditions_def set_cf_status_def)
  show ?thesis
    using assms new
    by (intro exI [of _ "(if ?e = e then [] else [EvStatusUpdate ?e (Inr ?e)]) @ [EvNow (w_now w), EvNow (w_now w)]"])
      (cases ready; simp add: setExposureStatus_def setReadyExposure_def setReady_def setCondition_def exposure_stored_def
        status_condition_def Let_def)
qed

section \<open>Access applications\<close>

definition at_hostname :: "CloudflareExposure \<Rightarrow> AccessApplication \<Rightarrow> bool" where
  "at_hostname e app \<longleftrightarrow> accessApplicationMatchesHostname app (E_Hostname e)"

text \<open>The applications at the hostname that carry the exposure's tags, and all others.\<close>

definition own_app :: "CloudflareExposure \<Rightarrow> AccessApplication \<Rightarrow> bool" where
  "own_app e app \<longleftrightarrow> at_hostname e app \<and> MatchesTags (exposureOwner e) (App_Tags app)"

definition own_apps :: "world \<Rightarrow> CloudflareExposure \<Rightarrow> AccessApplication list" where
  "own_apps w e = filter (own_app e) (map snd (fc_accessApps w))"

definition other_apps :: "world \<Rightarrow> CloudflareExposure \<Rightarrow> AccessApplication list" where
  "other_apps w e = filter (\<lambda>app. \<not> own_app e app) (map snd (fc_accessApps w))"

text \<open>An application at the hostname has an ID that the status tracks, but not the exposure's tags.\<close>

definition foreign_tracked :: "world \<Rightarrow> CloudflareExposure \<Rightarrow> bool" where
  "foreign_tracked w e \<longleftrightarrow> list_ex (\<lambda>t. AppStatus_AppID t \<noteq> [] \<and> AppStatus_AppID t \<notin> set (map App_ID (own_apps w e)) \<and>
     AppStatus_AppID t \<in> set (map App_ID (filter (at_hostname e) (map snd (fc_accessApps w))))) (CFStatus_AccessApplications (cf_status e))"

definition apps_keyed :: "world \<Rightarrow> bool" where
  "apps_keyed w \<longleftrightarrow> distinct (map fst (fc_accessApps w)) \<and> list_all (\<lambda>(k, app). App_ID app = k) (fc_accessApps w)"

lemma run_apps_client [simp]:
  "run_state (Apps_Delete (Client_AccessApplications (logged_client sim_client)) k) (w, l) =
     (case run_state (fakeAccessApplications_Delete k) w of (res, w') \<Rightarrow> (res, (w', EvAppsDelete k res # l)))"
  "run_state (Tags_Delete (Client_AccessTags (logged_client sim_client)) n) (w, l) =
     (case run_state (fakeAccessTags_Delete n) w of (res, w') \<Rightarrow> (res, (w', EvTagsDelete n res # l)))"
  by (simp_all add: logged_client_def sim_client_def fake_client_def tell_def Let_def)

lemma run_app_delete:
  "run_state (fakeAccessApplications_Delete k) w = (case map_of (fc_accessApps w) k of None \<Rightarrow> Inl ErrNotFound | Some _ \<Rightarrow> Inr (),
     w\<lparr>fc_accessApps := AList.delete k (fc_accessApps w)\<rparr>)"
proof (cases "map_of (fc_accessApps w) k")
  case None
  then have "AList.delete k (fc_accessApps w) = fc_accessApps w" by (simp add: delete_idem map_of_eq_None_iff)
  with None show ?thesis by (cases w) (simp add: fakeAccessApplications_Delete_def)
qed (simp add: fakeAccessApplications_Delete_def)

lemma run_delete_apps:
  "\<exists>l'. run_state (delete_apps (logged_client sim_client) ids) (w, l) =
    (Inr (), (w\<lparr>fc_accessApps := filter (\<lambda>(k, app). k \<notin> set ids) (fc_accessApps w)\<rparr>, l' @ l))"
proof (induction ids arbitrary: w l)
  case Nil
  show ?case by (intro exI [of _ "[]"]) (cases w, simp add: case_prod_unfold)
next
  case (Cons k ids)
  let ?w = "w\<lparr>fc_accessApps := AList.delete k (fc_accessApps w)\<rparr>" and ?res = "fst (run_state (fakeAccessApplications_Delete k) w)"
  obtain l' where "run_state (delete_apps (logged_client sim_client) ids) (?w, EvAppsDelete k ?res # l) =
      (Inr (), (?w\<lparr>fc_accessApps := filter (\<lambda>(k, app). k \<notin> set ids) (fc_accessApps ?w)\<rparr>, l' @ EvAppsDelete k ?res # l))"
    using Cons.IH by blast
  moreover have "filter (\<lambda>(k, app). k \<notin> set ids) (AList.delete k (fc_accessApps w)) = filter (\<lambda>(j, app). j \<notin> set (k # ids)) (fc_accessApps w)"
    by (auto simp: AList.delete_eq intro!: filter_cong)
  ultimately show ?case
    by (intro exI [of _ "l' @ [EvAppsDelete k ?res]"]) (auto simp: run_app_delete split: option.splits)
qed

lemma run_delete_tags: "\<exists>tags'. \<forall>l. \<exists>l'. run_state (delete_tags (logged_client sim_client) tags) (w, l) = (Inr (), (w\<lparr>fc_accessTags := tags'\<rparr>, l' @ l))"
proof (induction tags arbitrary: w)
  case Nil
  show ?case by (intro exI [of _ "fc_accessTags w"] allI exI [of _ "[]"]) simp
next
  case (Cons tag tags)
  obtain res ts where t: "run_state (fakeAccessTags_Delete tag) w = (res, w\<lparr>fc_accessTags := ts\<rparr>)" "res = Inr () \<or> res = Inl ErrNotFound"
    by (cases "map_default False (fc_accessTags w) tag") (auto simp: fakeAccessTags_Delete_def intro: that [of _ "fc_accessTags w"])
  obtain tags' where ih: "\<And>l. \<exists>l'. run_state (delete_tags (logged_client sim_client) tags) (w\<lparr>fc_accessTags := ts\<rparr>, l) =
      (Inr (), (w\<lparr>fc_accessTags := ts\<rparr>\<lparr>fc_accessTags := tags'\<rparr>, l' @ l))"
    using Cons.IH by blast
  show ?case
  proof (rule exI [of _ tags'], rule allI)
    fix l
    obtain l' where "run_state (delete_tags (logged_client sim_client) tags) (w\<lparr>fc_accessTags := ts\<rparr>, EvTagsDelete tag res # l) =
      (Inr (), (w\<lparr>fc_accessTags := ts\<rparr>\<lparr>fc_accessTags := tags'\<rparr>, l' @ EvTagsDelete tag res # l))"
      using ih by blast
    with t show "\<exists>l'. run_state (delete_tags (logged_client sim_client) (tag # tags)) (w, l) = (Inr (), (w\<lparr>fc_accessTags := tags'\<rparr>, l' @ l))"
      by (intro exI [of _ "l' @ [EvTagsDelete tag res]"]) auto
  qed
qed

text \<open>What the step for an exposure without Access does: the own applications go, with the own tags.\<close>

definition apps_done :: "world \<Rightarrow> world \<Rightarrow> bool" where
  "apps_done w w' \<longleftrightarrow> (\<exists>apps tags. w' = w\<lparr>fc_accessApps := apps, fc_accessTags := tags\<rparr>)"

definition cleaned :: "world \<Rightarrow> world \<Rightarrow> CloudflareExposure \<Rightarrow> bool" where
  "cleaned w w' e \<longleftrightarrow> apps_done w w' \<and> own_apps w' e = [] \<and> other_apps w' e = other_apps w e \<and> (own_apps w e = [] \<longrightarrow> w' = w)"

definition listed_apps :: "world \<Rightarrow> CloudflareExposure \<Rightarrow> AccessApplication list" where
  "listed_apps w e = sort_slice (\<lambda>a b. App_ID a < App_ID b) (filter (at_hostname e) (map snd (fc_accessApps w)))"

lemma run_listed_apps: "run_state (fakeAccessApplications_List (E_Hostname e)) w = (Inr (listed_apps w e), w)"
  by (simp add: fakeAccessApplications_List_def listed_apps_def at_hostname_def [abs_def])

lemma listed_own_apps:
  "set (map App_ID (filter (\<lambda>app. MatchesTags (exposureOwner e) (App_Tags app)) (listed_apps w e))) = set (map App_ID (own_apps w e))"
  "set (map App_ID (listed_apps w e)) = set (map App_ID (filter (at_hostname e) (map snd (fc_accessApps w))))"
  by (auto simp: listed_apps_def own_apps_def own_app_def)

lemma kept_apps:
  assumes "apps_keyed w"
  shows "filter (own_app e) (map snd (filter (\<lambda>(k, app). k \<notin> set (map App_ID (own_apps w e))) (fc_accessApps w))) = []"
    "filter (\<lambda>app. \<not> own_app e app) (map snd (filter (\<lambda>(k, app). k \<notin> set (map App_ID (own_apps w e))) (fc_accessApps w))) = other_apps w e"
proof -
  have keyed: "App_ID app = k" if "(k, app) \<in> set (fc_accessApps w)" for k app
    using assms that by (auto simp: apps_keyed_def list_all_iff)
  have own: "k \<in> set (map App_ID (own_apps w e)) \<longleftrightarrow> own_app e app" if m: "(k, app) \<in> set (fc_accessApps w)" for k app
  proof
    assume "k \<in> set (map App_ID (own_apps w e))"
    then obtain k' app' where "(k', app') \<in> set (fc_accessApps w)" "own_app e app'" "App_ID app' = k" by (auto simp: own_apps_def)
    with m keyed assms show "own_app e app" by (metis (no_types, lifting) apps_keyed_def eq_key_imp_eq_value)
  qed (use m keyed in \<open>force simp: own_apps_def\<close>)
  then have "filter (\<lambda>(k, app). k \<notin> set (map App_ID (own_apps w e))) (fc_accessApps w) = filter (\<lambda>(k, app). \<not> own_app e app) (fc_accessApps w)"
    by (intro filter_cong) auto
  then show "filter (own_app e) (map snd (filter (\<lambda>(k, app). k \<notin> set (map App_ID (own_apps w e))) (fc_accessApps w))) = []"
    "filter (\<lambda>app. \<not> own_app e app) (map snd (filter (\<lambda>(k, app). k \<notin> set (map App_ID (own_apps w e))) (fc_accessApps w))) = other_apps w e"
    by (simp_all add: other_apps_def filter_map filter_empty_conv comp_def case_prod_unfold)
qed

lemma run_foreign_tracked:
  assumes "foreign_tracked w e"
  shows "run_state (deleteAccessApplications r e (logged_client sim_client) (CFStatus_AccessApplications (cf_status e))) (w, l) =
    (Inl errForeignResource, (w, EvAppsList (E_Hostname e) (Inr (listed_apps w e)) # l))"
  using assms by (simp add: deleteAccessApplications_def run_listed_apps listed_own_apps [symmetric] foreign_tracked_def Let_def del: set_map)

lemma run_no_own_apps:
  assumes "own_apps w e = []" and "\<not> foreign_tracked w e"
  shows "run_state (deleteAccessApplications r e (logged_client sim_client) (CFStatus_AccessApplications (cf_status e))) (w, l) =
    (Inr False, (w, EvAppsList (E_Hostname e) (Inr (listed_apps w e)) # l))"
proof -
  have "filter (\<lambda>app. MatchesTags (exposureOwner e) (App_Tags app)) (listed_apps w e) = []"
    using listed_own_apps(1) [of e w] assms(1) by (simp only: list.map(1) list.set(1) set_empty map_is_Nil_conv)
  then show ?thesis
    using assms by (simp add: deleteAccessApplications_def run_listed_apps listed_own_apps(2) foreign_tracked_def Let_def del: set_map)
qed

lemma run_own_apps:
  assumes "own_apps w e \<noteq> []" and "\<not> foreign_tracked w e" and "length (uid (exposureOwner e)) < 10 ^ 18"
  shows "\<exists>tags. \<forall>l. \<exists>l'. run_state (deleteAccessApplications r e (logged_client sim_client) (CFStatus_AccessApplications (cf_status e))) (w, l) =
    (Inr True, (w\<lparr>fc_accessApps := filter (\<lambda>(k, app). k \<notin> set (map App_ID (own_apps w e))) (fc_accessApps w), fc_accessTags := tags\<rparr>, l' @ l))"
proof -
  let ?mine = "filter (\<lambda>app. MatchesTags (exposureOwner e) (App_Tags app)) (listed_apps w e)"
  let ?ids = "remdups (map App_ID ?mine)" and ?list = "EvAppsList (E_Hostname e) (Inr (listed_apps w e))"
  let ?w = "w\<lparr>fc_accessApps := filter (\<lambda>(k, app). k \<notin> set (map App_ID (own_apps w e))) (fc_accessApps w)\<rparr>"
  have ids: "set ?ids = set (map App_ID (own_apps w e))" by (simp only: set_remdups listed_own_apps(1))
  then have ne: "?ids \<noteq> []" using assms(1) by (metis list.set(1) map_is_Nil_conv set_empty)
  obtain tags where tags: "Owner_Tags (exposureOwner e) = Some tags" using Owner_Tags_bounded [OF assms(3)] by blast
  obtain ts where ts: "\<And>l. \<exists>l'. run_state (delete_tags (logged_client sim_client) (tl tags)) (?w, l) = (Inr (), (?w\<lparr>fc_accessTags := ts\<rparr>, l' @ l))"
    using run_delete_tags by blast
  have "\<exists>l'. run_state (deleteAccessApplications r e (logged_client sim_client) (CFStatus_AccessApplications (cf_status e))) (w, l) =
      (Inr True, (?w\<lparr>fc_accessTags := ts\<rparr>, l' @ l))" for l
  proof -
    obtain l1 where l1: "run_state (delete_apps (logged_client sim_client) ?ids) (w, ?list # l) = (Inr (), (?w, l1 @ ?list # l))"
      using run_delete_apps [of ?ids w "?list # l"] unfolding ids by blast
    obtain l2 where "run_state (delete_tags (logged_client sim_client) (tl tags)) (?w, l1 @ ?list # l) =
        (Inr (), (?w\<lparr>fc_accessTags := ts\<rparr>, l2 @ l1 @ ?list # l))"
      using ts by blast
    with l1 tags ne assms(2) ids have "run_state (deleteAccessApplications r e (logged_client sim_client) (CFStatus_AccessApplications (cf_status e))) (w, l) =
        (Inr True, (?w\<lparr>fc_accessTags := ts\<rparr>, (l2 @ l1 @ [?list]) @ l))"
      by (simp add: deleteAccessApplications_def deleteOwnedAccessTags_def run_listed_apps listed_own_apps(2) foreign_tracked_def Let_def del: set_map set_remdups)
    then show ?thesis by blast
  qed
  then show ?thesis by (intro exI [of _ ts]) simp
qed

lemma cleaned_none: "own_apps w e = [] \<Longrightarrow> cleaned w w e"
  unfolding cleaned_def apps_done_def by (intro conjI exI [of _ "fc_accessApps w"] exI [of _ "fc_accessTags w"]) simp_all

lemma run_cleanup:
  assumes "\<not> foreign_tracked w e" and "apps_keyed w" and "length (uid (exposureOwner e)) < 10 ^ 18"
  shows "\<exists>d w1. cleaned w w1 e \<and>
    (\<forall>l. \<exists>l'. run_state (deleteAccessApplications r e (logged_client sim_client) (CFStatus_AccessApplications (cf_status e))) (w, l) = (Inr d, (w1, l' @ l)))"
proof (cases "own_apps w e = []")
  case True
  with cleaned_none [OF True] run_no_own_apps [OF True assms(1), of r] show ?thesis
    by (intro exI [of _ False] exI [of _ w] conjI allI exI [of _ "[EvAppsList (E_Hostname e) (Inr (listed_apps w e))]"]) simp_all
next
  case False
  obtain tags where run: "\<And>l. \<exists>l'. run_state (deleteAccessApplications r e (logged_client sim_client) (CFStatus_AccessApplications (cf_status e))) (w, l) =
      (Inr True, (w\<lparr>fc_accessApps := filter (\<lambda>(k, app). k \<notin> set (map App_ID (own_apps w e))) (fc_accessApps w), fc_accessTags := tags\<rparr>, l' @ l))"
    using run_own_apps [OF False assms(1,3)] by blast
  have "cleaned w (w\<lparr>fc_accessApps := filter (\<lambda>(k, app). k \<notin> set (map App_ID (own_apps w e))) (fc_accessApps w), fc_accessTags := tags\<rparr>) e"
    using kept_apps [OF assms(2), of e] False by (auto simp: cleaned_def apps_done_def own_apps_def [of "w\<lparr>fc_accessApps := _, fc_accessTags := _\<rparr>"]
      other_apps_def [of "w\<lparr>fc_accessApps := _, fc_accessTags := _\<rparr>"] simp del: set_map)
  with run show ?thesis by blast
qed

section \<open>The pass\<close>

text \<open>An exposure with neither Access nor a failover group, that nothing stops before Cloudflare is reached.\<close>

definition plain_exposure :: "CloudflareExposure \<Rightarrow> bool" where
  "plain_exposure e \<longleftrightarrow> Meta_DeletionTimestamp (E_Meta e) = None \<and> ESpec_SourceRef (E_Spec e) = None \<and> ESpec_Failover (E_Spec e) = None \<and>
     \<not> Access_Enabled (ESpec_Access (E_Spec e)) \<and> ESpec_Origin (E_Spec e) \<noteq> None \<and> E_Hostname e \<noteq> [] \<and>
     is_word (E_UID e) \<and> length (E_UID e) < 10 ^ 18"

definition unique_hostname :: "world \<Rightarrow> CloudflareExposure \<Rightarrow> bool" where
  "unique_hostname w e \<longleftrightarrow> \<not> list_ex (\<lambda>other. E_UID other \<noteq> E_UID e \<and> E_Hostname other = E_Hostname e \<and>
     TunnelRef_Name (ESpec_TunnelRef (E_Spec other)) = TunnelRef_Name (ESpec_TunnelRef (E_Spec e))) (w_exposures w)"

definition placed :: "world \<Rightarrow> CloudflareExposure \<Rightarrow> CloudflareTunnel \<Rightarrow> Zone \<Rightarrow> bool" where
  "placed w e t z \<longleftrightarrow> w_get (E_Namespace e) (E_Name e) w = Inr e \<and> unique_hostname w e \<and>
     find (\<lambda>t. Meta_Name (T_Meta t) = TunnelRef_Name (ESpec_TunnelRef (E_Spec e))) (w_tunnels w) = Some t \<and> Dns_Manage (TSpec_Dns (T_Spec t)) \<and>
     hosted_zone w (E_Hostname e) = Some z \<and> Zone_ID z \<noteq> []"

text \<open>The status that a pass reports, for the tunnel's route hash and the CNAME's ID.\<close>

definition reached_status :: "CloudflareExposure \<Rightarrow> CloudflareTunnel \<Rightarrow> string \<Rightarrow> ExposureCloudflareStatus" where
  "reached_status e t k = \<lparr>CFStatus_AccessApplications = [], CFStatus_PublicHostnameRouteHash = routeHashForExposure t e, CFStatus_DnsRecordId = k\<rparr>"

definition routed :: "CloudflareExposure \<Rightarrow> CloudflareTunnel \<Rightarrow> bool" where
  "routed e t \<longleftrightarrow> routeHashForExposure t e \<noteq> []"

lemma run_no_duplicate:
  assumes "unique_hostname w e"
  shows "run_state (hasDuplicateHostname (logged (sim site)) e) (w, l) = (Inr False, (w,
    EvListExposures exposureIndexHostname (E_Hostname e)
      (Inr (filter (\<lambda>x. E_Hostname e \<in> set (exposureIndex exposureIndexHostname x)) (w_exposures w))) # l))"
  using assms by (auto simp: hasDuplicateHostname_def listExposuresByHostname_def unique_hostname_def list_ex_iff)

lemma dns_written_fields:
  assumes "dns_written w w'"
  shows "w_exposures w' = w_exposures w" "w_tunnels w' = w_tunnels w" "w_now w' = w_now w" "fc_accessApps w' = fc_accessApps w"
    "w_get ns n w' = w_get ns n w"
  using assms by (auto simp: dns_written_def w_get_def)

lemma cleaned_fields:
  assumes "cleaned w w' e"
  shows "w_exposures w' = w_exposures w" "w_tunnels w' = w_tunnels w" "w_now w' = w_now w" "w_get ns n w' = w_get ns n w"
    "cnames w' = cnames w" "other_records w' = other_records w" "dns_keyed w' = dns_keyed w" "hosted_zone w' = hosted_zone w"
  using assms by (auto simp: cleaned_def apps_done_def w_get_def cnames_def other_records_def dns_keyed_def hosted_zone_def zone_cached_def
    zone_list_def fun_eq_iff split: option.split)

lemma run_exposure_pass:
  assumes "plain_exposure e" and "placed w e t z" and "Finalizer \<in> set (Meta_Finalizers (E_Meta e))"
    and "\<And>l. \<exists>l'. run_state (deleteAccessApplications (logged (sim site)) e (logged_client sim_client)
      (CFStatus_AccessApplications (cf_status e))) (w, l) = (Inr d, (w1, l' @ l)) \<and> (still \<longrightarrow> list_all (\<lambda>c. \<not> cloudflare_write c) l')"
    and "\<And>l. \<exists>l'. run_state (reconcileDNS e t (logged_client sim_client)) (w1, l) = (Inr (r, a), (w', l' @ l)) \<and>
      (still \<longrightarrow> list_all (\<lambda>c. \<not> cloudflare_write c) l')"
    and "cleaned w w1 e" and "dns_reached w1 w' e t z r"
  shows "\<exists>l'. run_state (Reconcile (logged (sim site)) (E_Namespace e) (E_Name e)) (w, l) = ((no_result, Inr ()),
    (exposure_stored (reported_exposure (w_now w) (reached_status e t (DNS_ID r)) (routed e t) e) e w', l' @ l)) \<and>
    (still \<longrightarrow> list_all (\<lambda>c. \<not> cloudflare_write c) l')"
proof -
  let ?st = "reached_status e t (DNS_ID r)" and ?still = "\<lambda>l. still \<longrightarrow> list_all (\<lambda>c. \<not> cloudflare_write c) l"
  let ?c0 = "EvListExposures exposureIndexHostname (E_Hostname e)
    (Inr (filter (\<lambda>x. E_Hostname e \<in> set (exposureIndex exposureIndexHostname x)) (w_exposures w)))"
  note plain = assms(1) [unfolded plain_exposure_def] and placed = assms(2) [unfolded placed_def]
  have w': "w_get (E_Namespace e) (E_Name e) w' = Inr e" "w_now w' = w_now w"
    using placed assms(7) dns_written_fields [of w1 w'] cleaned_fields [OF assms(6)] by (simp_all add: dns_reached_def)
  obtain l3 where apps: "run_state (deleteAccessApplications (logged (sim site)) e (logged_client sim_client)
      (CFStatus_AccessApplications (cf_status e))) (w, ?c0 # l) = (Inr d, (w1, l3 @ ?c0 # l))" "?still l3"
    using assms(4) by blast
  obtain l2 where dns: "run_state (reconcileDNS e t (logged_client sim_client)) (w1, l3 @ ?c0 # l) = (Inr (r, a), (w', l2 @ l3 @ ?c0 # l))" "?still l2"
    using assms(5) by blast
  obtain l1 where status: "run_state (setExposureStatus (logged (sim site)) e ?st (routed e t) (exposure_reason (routed e t))
      (exposure_message (routed e t))) (w', l2 @ l3 @ ?c0 # l) =
      (Inr (), (exposure_stored (reported_exposure (w_now w) ?st (routed e t) e) e w', l1 @ l2 @ l3 @ ?c0 # l))" "list_all (\<lambda>c. \<not> cloudflare_write c) l1"
    using run_exposure_status [OF w'(1), of site ?st "routed e t" "l2 @ l3 @ ?c0 # l"] w'(2) by auto
  have id: "DNS_ID r \<noteq> []" using assms(7) by (simp add: dns_reached_def wanted_record_def)
  have st: "cf_status e\<lparr>CFStatus_AccessApplications := [], CFStatus_DnsRecordId := k, CFStatus_PublicHostnameRouteHash := h\<rparr> =
      \<lparr>CFStatus_AccessApplications = [], CFStatus_PublicHostnameRouteHash = h, CFStatus_DnsRecordId = k\<rparr>" for k h
    by (cases "cf_status e") simp
  have shared: "run_state (reconcileShared (logged (sim site)) e t (logged_client sim_client) 0) (w, ?c0 # l) = ((no_result, Inr ()),
      (exposure_stored (reported_exposure (w_now w) ?st (routed e t) e) e w', l1 @ l2 @ l3 @ ?c0 # l))"
    using plain placed id apps(1) dns(1) status(1)
    by (cases a; cases "routed e t"; cases d) (simp_all add: reconcileShared_def reconcileExposureAccess_def reconcileExposureDNS_def st exposureReady_def
      exposureAccessReady_def routed_def reached_status_def exposure_reason_def exposure_message_def requeueResult_def Let_def)
  have "run_state (Reconcile (logged (sim site)) (E_Namespace e) (E_Name e)) (w, l) = ((no_result, Inr ()),
      (exposure_stored (reported_exposure (w_now w) ?st (routed e t) e) e w', (l1 @ l2 @ l3 @ [?c0]) @ l))"
    using plain placed assms(3) shared
    by (auto simp: Reconcile_def reconcileLive_def reconcileDefaulted_def defaultFromSourceRef_def reconcileValid_def run_no_duplicate
      reconcileGated_def)
  with dns(2) status(2) apps(2) show ?thesis by (intro exI [of _ "l1 @ l2 @ l3 @ [?c0]"]) simp
qed

text \<open>An application that the status tracks and that is not the exposure's stops the pass before the CNAME.\<close>

lemma run_blocked_pass:
  assumes "plain_exposure e" and "placed w e t z" and "Finalizer \<in> set (Meta_Finalizers (E_Meta e))" and "foreign_tracked w e"
  shows "\<exists>l'. run_state (Reconcile (logged (sim site)) (E_Namespace e) (E_Name e)) (w, l) = ((no_result, Inl errForeignResource), (w, l' @ l)) \<and>
    list_all (\<lambda>c. \<not> cloudflare_write c) l'"
proof -
  let ?l = "[EvAppsList (E_Hostname e) (Inr (listed_apps w e)), EvListExposures exposureIndexHostname (E_Hostname e)
    (Inr (filter (\<lambda>x. E_Hostname e \<in> set (exposureIndex exposureIndexHostname x)) (w_exposures w)))]"
  have "run_state (Reconcile (logged (sim site)) (E_Namespace e) (E_Name e)) (w, l) = ((no_result, Inl errForeignResource), (w, ?l @ l))"
    using assms(1-3) unfolding plain_exposure_def placed_def
    by (auto simp: Reconcile_def reconcileLive_def reconcileDefaulted_def defaultFromSourceRef_def reconcileValid_def run_no_duplicate
      reconcileGated_def reconcileShared_def reconcileExposureAccess_def run_foreign_tracked [OF assms(4)])
  then show ?thesis by (intro exI [of _ ?l]) simp
qed

text \<open>An object that is stored under its own key is the one that is read back.\<close>

lemma find_stored:
  assumes "find P xs = Some e" and "P e1" and "Q e1"
  shows "find P (filter Q (map (\<lambda>x. if P x then e1 else x) xs)) = Some e1"
  using assms by (induction xs) (auto split: if_splits)

definition stored_as :: "CloudflareExposure \<Rightarrow> CloudflareExposure \<Rightarrow> world \<Rightarrow> world \<Rightarrow> bool" where
  "stored_as e e' w w' \<longleftrightarrow> E_Spec e' = E_Spec e \<and> (\<exists>fs. E_Meta e' = E_Meta e\<lparr>Meta_Finalizers := fs\<rparr>) \<and>
     w_get (E_Namespace e) (E_Name e) w' = Inr e' \<and> set (w_exposures w') \<subseteq> insert e' (set (w_exposures w)) \<and> w' = w\<lparr>w_exposures := w_exposures w'\<rparr>"

lemma stored_as_put:
  assumes "w_get (E_Namespace e) (E_Name e) w = Inr e" and "E_Spec e' = E_Spec e" and "E_Meta e' = E_Meta e"
  shows "stored_as e e' w (exposure_stored e' e w)"
proof (cases "e' = e")
  case True
  have "\<exists>fs. E_Meta e = E_Meta e\<lparr>Meta_Finalizers := fs\<rparr>" by (intro exI [of _ "Meta_Finalizers (E_Meta e)"]) simp
  with assms(1) True show ?thesis by (auto simp: stored_as_def exposure_stored_def)
next
  case False
  have "\<exists>fs. E_Meta e = E_Meta e\<lparr>Meta_Finalizers := fs\<rparr>" by (intro exI [of _ "Meta_Finalizers (E_Meta e)"]) simp
  with assms False find_stored [of "\<lambda>x. E_Namespace x = E_Namespace e \<and> E_Name x = E_Name e" "w_exposures w" e e' "\<lambda>_. True"]
  show ?thesis by (auto simp: stored_as_def exposure_stored_def w_get_def w_put_def split: option.splits)
qed

lemma stored_as_update:
  assumes "w_get (E_Namespace e) (E_Name e) w = Inr e" and "Meta_DeletionTimestamp (E_Meta e) = None"
  shows "stored_as e (e\<lparr>E_Meta := E_Meta e\<lparr>Meta_Finalizers := fs\<rparr>\<rparr>) w (w_update (e\<lparr>E_Meta := E_Meta e\<lparr>Meta_Finalizers := fs\<rparr>\<rparr>) w)"
  using assms find_stored [of "\<lambda>x. E_Namespace x = E_Namespace e \<and> E_Name x = E_Name e" "w_exposures w" e "e\<lparr>E_Meta := E_Meta e\<lparr>Meta_Finalizers := fs\<rparr>\<rparr>"
    "\<lambda>e. \<not> (Meta_DeletionTimestamp (E_Meta e) \<noteq> None \<and> Meta_Finalizers (E_Meta e) = [])"]
  by (auto simp: stored_as_def w_get_def w_update_def w_put_def Let_def split: option.splits)

lemma world_parts [simp]:
  "cnames (w\<lparr>w_exposures := xs\<rparr>) = cnames w" "other_records (w\<lparr>w_exposures := xs\<rparr>) = other_records w"
  "dns_keyed (w\<lparr>w_exposures := xs\<rparr>) = dns_keyed w" "zone_cached (w\<lparr>w_exposures := xs\<rparr>) = zone_cached w"
  "hosted_zone (w\<lparr>w_exposures := xs\<rparr>) = hosted_zone w"
  "cnames (w\<lparr>w_now := n\<rparr>) = cnames w" "zone_cached (w\<lparr>w_now := n\<rparr>) = zone_cached w" "hosted_zone (w\<lparr>w_now := n\<rparr>) = hosted_zone w"
  "placed (w\<lparr>w_now := n\<rparr>) = placed w" "own_apps (w\<lparr>w_now := n\<rparr>) = own_apps w"
  "own_apps (w\<lparr>w_exposures := xs\<rparr>) = own_apps w" "other_apps (w\<lparr>w_exposures := xs\<rparr>) = other_apps w"
  "apps_keyed (w\<lparr>w_exposures := xs\<rparr>) = apps_keyed w" "foreign_tracked (w\<lparr>w_exposures := xs\<rparr>) = foreign_tracked w"
  by (simp_all add: cnames_def other_records_def dns_keyed_def zone_cached_def hosted_zone_def zone_list_def placed_def w_get_def
    unique_hostname_def own_apps_def other_apps_def apps_keyed_def
    foreign_tracked_def fun_eq_iff split: option.split)

lemma stored_as_same:
  assumes "stored_as e e' w w'"
  shows "E_Spec e' = E_Spec e" "E_Namespace e' = E_Namespace e" "E_Name e' = E_Name e" "E_UID e' = E_UID e"
    "Meta_DeletionTimestamp (E_Meta e') = Meta_DeletionTimestamp (E_Meta e)" "exposureOwner e' = exposureOwner e"
    "w_get (E_Namespace e) (E_Name e) w' = Inr e'" "\<exists>xs. w' = w\<lparr>w_exposures := xs\<rparr>"
  using assms by (auto simp: stored_as_def exposureOwner_def split: option.split)

lemma stored_as_placed:
  assumes "stored_as e e' w w'" and "placed w e t z"
  shows "placed w' e' t z"
proof -
  note same = stored_as_same [OF assms(1)]
  obtain xs where w': "w' = w\<lparr>w_exposures := xs\<rparr>" using same(8) by blast
  have "unique_hostname w' e'"
    using assms(1,2) same by (auto simp: placed_def unique_hostname_def list_ex_iff stored_as_def)
  then show ?thesis using assms(2) same by (simp add: placed_def w')
qed

lemma stored_as_plain: "stored_as e e' w w' \<Longrightarrow> plain_exposure e \<Longrightarrow> plain_exposure e'"
  by (simp add: plain_exposure_def stored_as_same)

text \<open>A pass over an exposure that is reported, for a CNAME that is what it asks for.\<close>

definition settled_exposure :: "world \<Rightarrow> CloudflareExposure \<Rightarrow> CloudflareTunnel \<Rightarrow> Zone \<Rightarrow> DNSRecord \<Rightarrow> bool" where
  "settled_exposure w e t z r \<longleftrightarrow> plain_exposure e \<and> placed w e t z \<and> Finalizer \<in> set (Meta_Finalizers (E_Meta e)) \<and>
     own_apps w e = [] \<and> CFStatus_AccessApplications (cf_status e) = [] \<and>
     zone_cached w (E_Hostname e) = Some z \<and> cnames w z (E_Hostname e) = [r] \<and> wanted_record e t z r \<and>
     (\<forall>now. reported_exposure now (reached_status e t (DNS_ID r)) (routed e t) e = e)"

lemma plain_owner: "plain_exposure e \<Longrightarrow> is_word (uid (exposureOwner e))"
  by (simp add: plain_exposure_def exposureOwner_def From_def)

lemma settled_exposure_pass:
  assumes "settled_exposure w e t z r"
  shows "\<exists>l'. run_state (Reconcile (logged (sim site)) (E_Namespace e) (E_Name e)) (w, l) = ((no_result, Inr ()), (w, l' @ l)) \<and>
    list_all (\<lambda>c. \<not> cloudflare_write c) l'"
proof -
  note st = assms [unfolded settled_exposure_def]
  have zone: "hosted_zone w (E_Hostname e) = Some z" "zone_read w (E_Hostname e) = w"
    using st by (simp_all add: hosted_zone_def zone_read_def)
  have "\<exists>l'. run_state (reconcileDNS e t (logged_client sim_client)) (w, l) = (Inr (r, dnsReconcileUnchanged), (w, l' @ l)) \<and>
      (True \<longrightarrow> list_all (\<lambda>c. \<not> cloudflare_write c) l')" for l
    using run_dns_settled [OF zone(1), of r t l] st plain_owner [of e] zone(2) by simp
  moreover have "\<exists>l'. run_state (deleteAccessApplications (logged (sim site)) e (logged_client sim_client) (CFStatus_AccessApplications (cf_status e))) (w, l) =
      (Inr False, (w, l' @ l)) \<and> (True \<longrightarrow> list_all (\<lambda>c. \<not> cloudflare_write c) l')" for l
    using st run_no_own_apps [of w e "logged (sim site)" l] by (auto simp: foreign_tracked_def)
  moreover have "dns_reached w w e t z r"
    using st dns_written_put(2) [of w "E_Hostname e"] by (simp add: dns_reached_def zone(2))
  moreover have "cleaned w w e"
    using st by (simp add: cleaned_none)
  ultimately obtain l' where "run_state (Reconcile (logged (sim site)) (E_Namespace e) (E_Name e)) (w, l) = ((no_result, Inr ()),
      (exposure_stored (reported_exposure (w_now w) (reached_status e t (DNS_ID r)) (routed e t) e) e w, l' @ l))"
      "list_all (\<lambda>c. \<not> cloudflare_write c) l'"
    using run_exposure_pass [of e w t z site False w True r dnsReconcileUnchanged w l] st by blast
  with st show ?thesis by (intro exI [of _ l']) (simp add: exposure_stored_def)
qed

section \<open>Convergence\<close>

definition exposure_pass :: "string \<Rightarrow> CloudflareExposure \<Rightarrow> world \<Rightarrow> world" where
  "exposure_pass site e w = snd (run_state (Reconcile (sim site) (E_Namespace e) (E_Name e)) w)"

lemma exposure_passI:
  "run_state (Reconcile (logged (sim site)) (E_Namespace e) (E_Name e)) (w, []) = (out, (w', l)) \<Longrightarrow> exposure_pass site e w = w'"
  using erases_run [OF erases_Reconcile] by (fastforce simp: exposure_pass_def)

text \<open>What a pass reaches from the world \<open>w\<close>.\<close>

definition converged :: "world \<Rightarrow> world \<Rightarrow> CloudflareExposure \<Rightarrow> CloudflareExposure \<Rightarrow> CloudflareTunnel \<Rightarrow> Zone \<Rightarrow> DNSRecord \<Rightarrow> bool" where
  "converged w w' e e' t z r \<longleftrightarrow> settled_exposure w' e' t z r \<and> E_Spec e' = E_Spec e \<and> E_Namespace e' = E_Namespace e \<and> E_Name e' = E_Name e \<and>
     E_UID e' = E_UID e \<and> other_records w' z (E_Hostname e) = other_records w z (E_Hostname e) \<and>
     other_apps w' e = other_apps w e \<and>
     condition_set (EStatus_Conditions (E_Status e')) (status_condition ConditionReady (routed e t) (Meta_Generation (E_Meta e'))
       (exposure_reason (routed e t)) (exposure_message (routed e t)))"

lemma placed_written:
  assumes "placed w e t z" and "dns_written w w'" and "zone_cached w' (E_Hostname e) = Some z"
  shows "placed w' e t z"
  using assms(1,3) dns_written_fields [OF assms(2)] by (simp add: placed_def unique_hostname_def hosted_zone_def)

lemma wanted_record_same:
  "E_Spec e' = E_Spec e \<Longrightarrow> E_UID e' = E_UID e \<Longrightarrow> wanted_record e' t z r = wanted_record e t z r"
  by (simp add: wanted_record_def exposureOwner_def split: option.split)

lemma routed_same:
  assumes "E_Spec e' = E_Spec e" and "E_Namespace e' = E_Namespace e" and "E_Name e' = E_Name e" and "E_UID e' = E_UID e"
  shows "routed e' t = routed e t" "reached_status e' t k = reached_status e t k"
  using assms by (simp_all add: routed_def reached_status_def routeHashForExposure_def)

lemma apps_same:
  assumes "E_Spec e' = E_Spec e" and "E_UID e' = E_UID e"
  shows "own_apps w e' = own_apps w e" "other_apps w e' = other_apps w e"
  using assms by (simp_all add: own_apps_def other_apps_def own_app_def [abs_def] at_hostname_def exposureOwner_def split: option.split)

lemma dns_written_apps: "dns_written w w' \<Longrightarrow> own_apps w' = own_apps w \<and> other_apps w' = other_apps w"
  by (simp add: own_apps_def other_apps_def dns_written_fields fun_eq_iff)

lemma pass_settles:
  assumes "plain_exposure e" and "placed w e t z" and "own_cnames w e z" and "dns_keyed w" and "apps_keyed w" and "\<not> foreign_tracked w e"
    and "Finalizer \<in> set (Meta_Finalizers (E_Meta e))"
  shows "\<exists>w' l' e' r. run_state (Reconcile (logged (sim site)) (E_Namespace e) (E_Name e)) (w, l) = ((no_result, Inr ()), (w', l')) \<and>
    converged w w' e e' t z r"
proof -
  have "length (uid (exposureOwner e)) < 10 ^ 18" using assms(1) by (simp add: plain_exposure_def exposureOwner_def From_def)
  from run_cleanup [OF assms(6,5) this, of "logged (sim site)"] obtain d w1 where cleaned: "cleaned w w1 e" and
    apps: "\<And>l. \<exists>l'. run_state (deleteAccessApplications (logged (sim site)) e (logged_client sim_client) (CFStatus_AccessApplications (cf_status e))) (w, l) =
      (Inr d, (w1, l' @ l)) \<and> (False \<longrightarrow> list_all (\<lambda>c. \<not> cloudflare_write c) l')"
    by blast
  note same1 = cleaned_fields [OF cleaned]
  have z: "Zone_ID z \<noteq> []" "E_Hostname e \<noteq> []" "hosted_zone w1 (E_Hostname e) = Some z"
    using assms(1,2) same1 by (simp_all add: placed_def plain_exposure_def)
  have "own_cnames w1 e z" "dns_keyed w1" using assms(3,4) same1 by (simp_all add: own_cnames_def)
  from run_dns [OF z(3) this plain_owner [OF assms(1)] z(1,2)] obtain r a w' where reached: "dns_reached w1 w' e t z r"
    and dns: "\<And>l. \<exists>l'. run_state (reconcileDNS e t (logged_client sim_client)) (w1, l) = (Inr (r, a), (w', l' @ l)) \<and>
      (False \<longrightarrow> list_all (\<lambda>c. \<not> cloudflare_write c) l')"
    by metis
  let ?e = "reported_exposure (w_now w) (reached_status e t (DNS_ID r)) (routed e t) e" and ?w = "\<lambda>e'. exposure_stored e' e w'"
  obtain l' where run: "run_state (Reconcile (logged (sim site)) (E_Namespace e) (E_Name e)) (w, l) = ((no_result, Inr ()), (?w ?e, l'))"
    using run_exposure_pass [OF assms(1,2,7) apps dns cleaned reached, of l] by blast
  have "placed w1 e t z" using assms(2) same1 by (simp add: placed_def unique_hostname_def)
  then have w': "placed w' e t z" using reached by (auto simp: dns_reached_def intro: placed_written)
  then have stored: "stored_as e ?e w' (?w ?e)" by (intro stored_as_put) (simp_all add: placed_def)
  obtain xs where xs: "?w ?e = w'\<lparr>w_exposures := xs\<rparr>" using stored_as_same(8) [OF stored] by blast
  have "own_apps w' e = []" "other_apps w' e = other_apps w e"
    using cleaned reached dns_written_apps [of w1 w'] by (simp_all add: cleaned_def dns_reached_def)
  with stored_as_placed [OF stored w'] stored_as_plain [OF stored assms(1)] xs have "converged w (?w ?e) e ?e t z r"
    using reached assms(7) same1 by (simp add: converged_def settled_exposure_def dns_reached_def wanted_record_same [of ?e e] routed_same [of ?e e]
      apps_same [of ?e e] reported_exposure_idem ready_conditions_sets) (simp add: reached_status_def)
  with run show ?thesis by blast
qed

text \<open>The finalizer is added in the same pass.\<close>

lemma pass_adds_exposure_finalizer:
  assumes "plain_exposure e" and "placed w e t z" and "Finalizer \<notin> set (Meta_Finalizers (E_Meta e))"
  defines "e1 \<equiv> e\<lparr>E_Meta := E_Meta e\<lparr>Meta_Finalizers := Meta_Finalizers (E_Meta e) @ [Finalizer]\<rparr>\<rparr>"
  shows "run_state (Reconcile (logged (sim site)) (E_Namespace e) (E_Name e)) (w, []) =
      run_state (Reconcile (logged (sim site)) (E_Namespace e1) (E_Name e1)) (w_update e1 w, [EvUpdate e1 (Inr e1)])"
    "stored_as e e1 w (w_update e1 w)"
proof -
  show stored: "stored_as e e1 w (w_update e1 w)"
    using assms(1,2) unfolding e1_def by (intro stored_as_update) (simp_all add: placed_def plain_exposure_def)
  have "w_get (E_Namespace e1) (E_Name e1) (w_update e1 w) = Inr e1" using stored_as_same [OF stored] by simp
  with assms(1-3) stored_as_same(8) [OF stored] stored_as_plain [OF stored assms(1)] show
    "run_state (Reconcile (logged (sim site)) (E_Namespace e) (E_Name e)) (w, []) =
      run_state (Reconcile (logged (sim site)) (E_Namespace e1) (E_Name e1)) (w_update e1 w, [EvUpdate e1 (Inr e1)])"
    by (auto simp: Reconcile_def reconcileLive_def placed_def plain_exposure_def e1_def)
qed

lemma finalizer_world:
  assumes "stored_as e e1 w w1" and "cf_status e1 = cf_status e"
  shows "own_cnames w1 e1 z = own_cnames w e z" "dns_keyed w1 = dns_keyed w" "apps_keyed w1 = apps_keyed w"
    "foreign_tracked w1 e1 = foreign_tracked w e" "other_apps w1 e1 = other_apps w e"
proof -
  note same = stored_as_same [OF assms(1)]
  obtain xs where w1: "w1 = w\<lparr>w_exposures := xs\<rparr>" using same(8) by blast
  have "at_hostname e1 = at_hostname e" using same(1) by (simp add: at_hostname_def fun_eq_iff)
  then show "own_cnames w1 e1 z = own_cnames w e z" "dns_keyed w1 = dns_keyed w" "apps_keyed w1 = apps_keyed w"
    "foreign_tracked w1 e1 = foreign_tracked w e" "other_apps w1 e1 = other_apps w e"
    using same(1,6) assms(2) apps_same [OF same(1,4), of w]
    by (simp_all add: own_cnames_def w1 foreign_tracked_def [of w] split: list.split)
qed

lemma pass_converges:
  assumes "plain_exposure e" and "placed w e t z" and "own_cnames w e z" and "dns_keyed w" and "apps_keyed w" and "\<not> foreign_tracked w e"
  shows "\<exists>e' r. converged w (exposure_pass site e w) e e' t z r"
proof (cases "Finalizer \<in> set (Meta_Finalizers (E_Meta e))")
  case True
  from pass_settles [OF assms True, of site "[]"] show ?thesis by (auto dest!: exposure_passI)
next
  case False
  let ?e = "e\<lparr>E_Meta := E_Meta e\<lparr>Meta_Finalizers := Meta_Finalizers (E_Meta e) @ [Finalizer]\<rparr>\<rparr>"
  note added = pass_adds_exposure_finalizer [OF assms(1,2) False]
  note same = stored_as_same [OF added(2)] and kept = finalizer_world [OF added(2)]
  obtain xs where w1: "w_update ?e w = w\<lparr>w_exposures := xs\<rparr>" using same(8) by blast
  obtain w' l' e' r where run: "run_state (Reconcile (logged (sim site)) (E_Namespace ?e) (E_Name ?e)) (w_update ?e w, [EvUpdate ?e (Inr ?e)]) =
      ((no_result, Inr ()), (w', l'))" and conv: "converged (w_update ?e w) w' ?e e' t z r"
    using pass_settles [OF stored_as_plain [OF added(2) assms(1)] stored_as_placed [OF added(2) assms(2)], of site "[EvUpdate ?e (Inr ?e)]"] kept assms(3-6)
    by (simp only:) auto
  have "exposure_pass site e w = w'" by (rule exposure_passI) (simp only: added(1) run)
  moreover have "converged w w' e e' t z r"
    using conv routed_same(1) [OF same(1-4), of t] apps_same [of ?e e] unfolding converged_def w1 world_parts by simp
  ultimately show ?thesis by blast
qed

text \<open>The world after the finalizer has been added, where it is missing.\<close>

definition finalized :: "CloudflareExposure \<Rightarrow> world \<Rightarrow> world" where
  "finalized e w = (if Finalizer \<in> set (Meta_Finalizers (E_Meta e)) then w
     else w_update (e\<lparr>E_Meta := E_Meta e\<lparr>Meta_Finalizers := Meta_Finalizers (E_Meta e) @ [Finalizer]\<rparr>\<rparr>) w)"

lemma pass_blocked:
  assumes "plain_exposure e" and "placed w e t z" and "foreign_tracked w e"
  shows "\<exists>l. run_state (Reconcile (logged (sim site)) (E_Namespace e) (E_Name e)) (w, []) =
    ((no_result, Inl errForeignResource), (finalized e w, l)) \<and> list_all (\<lambda>c. \<not> cloudflare_write c) l"
proof (cases "Finalizer \<in> set (Meta_Finalizers (E_Meta e))")
  case True
  with run_blocked_pass [OF assms(1,2) True assms(3), of site "[]"] show ?thesis by (metis append_Nil2 finalized_def)
next
  case False
  let ?e = "e\<lparr>E_Meta := E_Meta e\<lparr>Meta_Finalizers := Meta_Finalizers (E_Meta e) @ [Finalizer]\<rparr>\<rparr>"
  note added = pass_adds_exposure_finalizer [OF assms(1,2) False]
  have "foreign_tracked (w_update ?e w) ?e" using finalizer_world(4) [OF added(2)] assms(3) by simp
  then obtain l where "run_state (Reconcile (logged (sim site)) (E_Namespace ?e) (E_Name ?e)) (w_update ?e w, [EvUpdate ?e (Inr ?e)]) =
      ((no_result, Inl errForeignResource), (w_update ?e w, l @ [EvUpdate ?e (Inr ?e)]))" "list_all (\<lambda>c. \<not> cloudflare_write c) l"
    using run_blocked_pass [OF stored_as_plain [OF added(2) assms(1)] stored_as_placed [OF added(2) assms(2)]] by fastforce
  then show ?thesis unfolding added(1) using False
    by (intro exI [of _ "l @ [EvUpdate ?e (Inr ?e)]"]) (simp add: finalized_def)
qed


text \<open>A hostname whose CNAME was pointed elsewhere by hand, beside a record of another exposure. Two Access applications are at the hostname:
  one left over from when the exposure asked for Access, and one with somebody else's tags. The status tracks the applications \<open>ids\<close>.\<close>

definition plain_web :: "string list \<Rightarrow> CloudflareExposure" where
  "plain_web ids = web_exposure\<lparr>E_Spec := (E_Spec web_exposure)\<lparr>ESpec_Failover := None\<rparr>,
     E_Status := (E_Status web_exposure)\<lparr>EStatus_Cloudflare := \<lparr>CFStatus_AccessApplications = map (\<lambda>k. \<lparr>AppStatus_Name = ''web'', AppStatus_AppID = k,
       AppStatus_CanonicalDomainHash = ''d1'', AppStatus_PolicyHash = ''p1''\<rparr>) ids, CFStatus_PublicHostnameRouteHash = [], CFStatus_DnsRecordId = []\<rparr>\<rparr>\<rparr>"

definition routed_tunnel :: CloudflareTunnel where
  "routed_tunnel = home_tunnel\<lparr>T_Status := (T_Status home_tunnel)\<lparr>TStatus_Routes := [\<lparr>RouteStatus_ExposureUid = ''u-1'', RouteStatus_Namespace = ''media'',
     RouteStatus_Name = ''web'', RouteStatus_Hostname = ''a.x.io'', RouteStatus_Hash = ''h1'', RouteStatus_LastWrittenAt = 0\<rparr>]\<rparr>\<rparr>"

definition edited_cname :: DNSRecord where
  "edited_cname = \<lparr>DNS_ID = ''cn'', DNS_ZoneID = ''z1'', DNS_Name = ''a.x.io'', DNS_Type = ''CNAME'',
     DNS_Content = ''elsewhere.example'', DNS_Proxied = False, DNS_Comment = ''managed-by=cfzt-operator source-uid=u-1 | by hand''\<rparr>"

definition left_over :: AccessApplication where
  "left_over = \<lparr>App_ID = ''a1'', App_Name = ''web'', App_Domain = ''a.x.io'', App_Domains = [], App_PolicyUUIDs = [],
     App_Tags = [''managed-by=cfzt-operator'', ''source-uid-0=u-1'']\<rparr>"

definition somebody_elses :: AccessApplication where
  "somebody_elses = \<lparr>App_ID = ''a2'', App_Name = ''team'', App_Domain = ''a.x.io'', App_Domains = [], App_PolicyUUIDs = [], App_Tags = [''team=web'']\<rparr>"

definition edited_world :: "string list \<Rightarrow> world" where
  "edited_world ids = web_world\<lparr>fc_dnsRecords := [(''le'', held_lease), (''cn'', edited_cname)],
     fc_accessApps := [(''a1'', left_over), (''a2'', somebody_elses)], w_exposures := [plain_web ids], w_tunnels := [routed_tunnel]\<rparr>"

lemma edited_comment: "MatchesComment (From ''u-1'') ''managed-by=cfzt-operator source-uid=u-1 | by hand''"
  by code_simp

lemma edited_tags:
  "MatchesTags (From ''u-1'') [''managed-by=cfzt-operator'', ''source-uid-0=u-1'']" "\<not> MatchesTags (From ''u-1'') [''team=web'']"
  by code_simp+

lemma edited_lists:
  "cnames (edited_world ids) \<lparr>Zone_ID = ''z1'', Zone_Name = ''x.io''\<rparr> ''a.x.io'' = [edited_cname]"
  "other_records (edited_world ids) \<lparr>Zone_ID = ''z1'', Zone_Name = ''x.io''\<rparr> ''a.x.io'' = [held_lease]"
  by (simp_all add: cnames_def other_records_def edited_world_def dns_selected_def held_lease_def edited_cname_def)

lemma plain_web_fields [simp]:
  "E_Namespace (plain_web ids) = ''media''" "E_Name (plain_web ids) = ''web''" "E_Hostname (plain_web ids) = ''a.x.io''" "E_UID (plain_web ids) = ''u-1''"
  "exposureOwner (plain_web ids) = From ''u-1''" "TunnelRef_Name (ESpec_TunnelRef (E_Spec (plain_web ids))) = ''home''"
  by (simp_all add: plain_web_def web_exposure_def exposureOwner_def)

lemma edited_domain: "accessApplicationDomainMatchesHostname ''a.x.io'' ''a.x.io''"
  by code_simp

lemma edited_apps:
  "own_apps (edited_world ids) (plain_web ids) = [left_over]" "other_apps (edited_world ids) (plain_web ids) = [somebody_elses]"
  by (simp_all add: own_apps_def other_apps_def own_app_def at_hostname_def edited_world_def edited_tags left_over_def somebody_elses_def
    accessApplicationMatchesHostname_def edited_domain)

lemma edited_tracked: "foreign_tracked (edited_world ids) (plain_web ids) \<longleftrightarrow> ''a2'' \<in> set ids"
proof -
  have "filter (at_hostname (plain_web ids)) (map snd (fc_accessApps (edited_world ids))) = [left_over, somebody_elses]"
    by (simp add: at_hostname_def accessApplicationMatchesHostname_def edited_domain edited_world_def left_over_def somebody_elses_def)
  moreover have "''a2'' \<in> set ids \<longleftrightarrow> ''a2'' \<in> AppStatus_AppID ` set (CFStatus_AccessApplications (cf_status (plain_web ids)))"
    by (simp add: plain_web_def image_image)
  moreover have "AppStatus_AppID t \<noteq> [] \<and> AppStatus_AppID t \<notin> set (map App_ID [left_over]) \<and>
      AppStatus_AppID t \<in> set (map App_ID [left_over, somebody_elses]) \<longleftrightarrow> ''a2'' = AppStatus_AppID t" for t :: ExposureAccessApplicationStatus
    by (auto simp: left_over_def somebody_elses_def)
  ultimately show ?thesis unfolding foreign_tracked_def edited_apps list_ex_iff image_iff by (simp only:)
qed

lemma edited_placed:
  "plain_exposure (plain_web ids)" "placed (edited_world ids) (plain_web ids) routed_tunnel \<lparr>Zone_ID = ''z1'', Zone_Name = ''x.io''\<rparr>"
  "own_cnames (edited_world ids) (plain_web ids) \<lparr>Zone_ID = ''z1'', Zone_Name = ''x.io''\<rparr>" "dns_keyed (edited_world ids)" "apps_keyed (edited_world ids)"
proof -
  show "plain_exposure (plain_web ids)"
    by (simp add: plain_exposure_def plain_web_def web_exposure_def is_word_def word_char_def)
  show "placed (edited_world ids) (plain_web ids) routed_tunnel \<lparr>Zone_ID = ''z1'', Zone_Name = ''x.io''\<rparr>"
    by (simp add: placed_def w_get_def unique_hostname_def edited_world_def web_world_def routed_tunnel_def home_tunnel_def
      hosted_zone_def zone_cached_def zone_list_def Resolve_x)
  show "own_cnames (edited_world ids) (plain_web ids) \<lparr>Zone_ID = ''z1'', Zone_Name = ''x.io''\<rparr>"
    by (simp add: own_cnames_def edited_lists edited_comment) (simp add: edited_cname_def edited_comment)
  show "dns_keyed (edited_world ids)"
    by (simp add: dns_keyed_def edited_world_def web_world_def held_lease_def edited_cname_def example_uuid_def)
  show "apps_keyed (edited_world ids)"
    by (simp add: apps_keyed_def edited_world_def left_over_def somebody_elses_def)
qed


end
