(* ===== verification/Teardown.thy ===== *)
theory Teardown
  imports Exposure_Settling
begin

text \<open>
  The tear-down of a failover exposure in the simulated cluster, when it fails between the lease and the CNAME:
  the two passes that follow, for any exposure and any contents of the cluster and of the DNS store.
\<close>

definition leases_at :: "world \<Rightarrow> Zone \<Rightarrow> string \<Rightarrow> DNSRecord list" where
  "leases_at w z grp = filter (dns_selected (Zone_ID z) (FailoverLeaseTXTName grp (Zone_Name z)) ''TXT'') (map snd (fc_dnsRecords w))"

definition has_tunnel :: "world \<Rightarrow> CloudflareExposure \<Rightarrow> bool" where
  "has_tunnel w e \<longleftrightarrow> find (\<lambda>t. Meta_Name (T_Meta t) = TunnelRef_Name (ESpec_TunnelRef (E_Spec e))) (w_tunnels w) \<noteq> None"

text \<open>A failover exposure that is being deleted and that still has its finalizer.\<close>

definition deleting_member :: "world \<Rightarrow> CloudflareExposure \<Rightarrow> Zone \<Rightarrow> string \<Rightarrow> bool" where
  "deleting_member w e z grp \<longleftrightarrow> w_get (E_Namespace e) (E_Name e) w = Inr e \<and> Meta_DeletionTimestamp (E_Meta e) \<noteq> None \<and>
     Finalizer \<in> set (Meta_Finalizers (E_Meta e)) \<and> map_option Failover_Group (ESpec_Failover (E_Spec e)) = Some grp \<and>
     has_tunnel w e \<and> hosted_zone w (E_Hostname e) = Some z"

text \<open>The record of the site's lease is the only one of the group, and the status names the exposure's own CNAME.\<close>

definition own_lease :: "string \<Rightarrow> world \<Rightarrow> CloudflareExposure \<Rightarrow> Zone \<Rightarrow> string \<Rightarrow> DNSRecord \<Rightarrow> bool" where
  "own_lease site w e z grp lr \<longleftrightarrow> leases_at w z grp = [lr] \<and> MatchesComment (exposureOwner e) (DNS_Comment lr) \<and>
     (case ParseLease (DNS_Content lr) of Inl _ \<Rightarrow> False | Inr lease \<Rightarrow> Lease_Site lease = site)"

definition tracked_cname :: "world \<Rightarrow> CloudflareExposure \<Rightarrow> Zone \<Rightarrow> DNSRecord \<Rightarrow> bool" where
  "tracked_cname w e z r \<longleftrightarrow> cnames w z (E_Hostname e) = [r] \<and> MatchesComment (exposureOwner e) (DNS_Comment r) \<and>
     DNS_ID r = CFStatus_DnsRecordId (cf_status e) \<and> DNS_ID r \<noteq> []"

definition stored_by_id :: "world \<Rightarrow> bool" where
  "stored_by_id w \<longleftrightarrow> distinct (map fst (fc_dnsRecords w)) \<and> list_all (\<lambda>(k, r). DNS_ID r = k) (fc_dnsRecords w)"

text \<open>The world after the deletion of a record, and the object without its finalizer.\<close>

definition without_record :: "string \<Rightarrow> world \<Rightarrow> world" where
  "without_record k w = w\<lparr>fc_dnsRecords := AList.delete k (fc_dnsRecords w)\<rparr>"

definition finalizer_dropped :: "CloudflareExposure \<Rightarrow> CloudflareExposure" where
  "finalizer_dropped e = e\<lparr>E_Meta := E_Meta e\<lparr>Meta_Finalizers := filter (\<lambda>g. g \<noteq> Finalizer) (Meta_Finalizers (E_Meta e))\<rparr>\<rparr>"

lemma lease_txt_name: "FailoverLeaseTXTName grp zone \<noteq> []"
  by (simp add: FailoverLeaseTXTName_def failoverLeaseLabel_def Let_def)

lemma leases_at_same [simp]:
  "leases_at (zone_read w h) = leases_at w" "leases_at (w\<lparr>w_now := now, w_outage := out\<rparr>) = leases_at w"
  "leases_at (w\<lparr>w_exposures := xs\<rparr>) = leases_at w"
  by (simp_all add: leases_at_def fun_eq_iff)

lemma run_leases:
  assumes "length (leases_at w z grp) \<le> 1"
  shows "run_state (fakeDNSRecords_List (Zone_ID z) (FailoverLeaseTXTName grp (Zone_Name z)) ''TXT'') w = (Inr (leases_at w z grp), w)"
  using sort_slice_short [OF assms] by (simp add: fakeDNSRecords_List_def leases_at_def)

lemma stored_member:
  assumes "stored_by_id w" and "filter P (map snd (fc_dnsRecords w)) = [r]"
  shows "map_of (fc_dnsRecords w) (DNS_ID r) = Some r" "P r"
proof -
  have "r \<in> set (filter P (map snd (fc_dnsRecords w)))" using assms(2) by simp
  then obtain k where "(k, r) \<in> set (fc_dnsRecords w)" "P r" by auto
  with assms(1) show "map_of (fc_dnsRecords w) (DNS_ID r) = Some r" "P r" by (auto simp: stored_by_id_def list_all_iff map_of_eq_Some_iff)
qed

text \<open>A deletion by ID takes the record out of each list in which it is, and no other.\<close>

lemma filter_delete:
  assumes "list_all (\<lambda>(k, r). DNS_ID r = k) al"
  shows "filter P (map snd (AList.delete k al)) = filter (\<lambda>r. DNS_ID r \<noteq> k) (filter P (map snd al))"
  using assms by (induction al) auto

lemma without_record_lists:
  assumes "stored_by_id w"
  shows "leases_at (without_record k w) z grp = filter (\<lambda>r. DNS_ID r \<noteq> k) (leases_at w z grp)"
    "cnames (without_record k w) z h = filter (\<lambda>r. DNS_ID r \<noteq> k) (cnames w z h)"
  using filter_delete [of "fc_dnsRecords w"] assms
  by (simp_all add: leases_at_def cnames_def without_record_def stored_by_id_def del: filter_filter filter_map)

section \<open>The pass that fails\<close>

lemma run_lease_delete:
  assumes "stored_by_id w" and "leases_at w z grp = [lr]" and "Zone_ID z \<noteq> []" and "DNS_ID lr \<notin> set (w_outage w)"
  shows "run_state (outage_delete (Zone_ID z) (DNS_ID lr)) w = (Inr (), without_record (DNS_ID lr) w)"
  using stored_member [OF assms(1), of "dns_selected (Zone_ID z) (FailoverLeaseTXTName grp (Zone_Name z)) ''TXT''" lr] assms(2-4)
  by (simp add: leases_at_def outage_delete_def fakeDNSRecords_Delete_def dns_selected_def without_record_def)

lemma has_tunnel_same [simp]: "has_tunnel (zone_read w h) = has_tunnel w" "has_tunnel (without_record k w) = has_tunnel w"
  "has_tunnel (w\<lparr>w_now := now, w_outage := out\<rparr>) = has_tunnel w"
  by (simp_all add: has_tunnel_def without_record_def fun_eq_iff)

lemma zone_read_outage [simp]: "w_outage (zone_read w h) = w_outage w"
  by (simp add: zone_read_def)

lemma zone_read_cached: "zone_cached w h = Some z \<Longrightarrow> zone_read w h = w"
  by (simp add: zone_read_def)

lemma without_record_fields [simp]:
  "zone_cached (without_record k w) = zone_cached w" "w_exposures (without_record k w) = w_exposures w" "w_outage (without_record k w) = w_outage w"
  by (simp_all add: without_record_def zone_cached_def fun_eq_iff)

lemma first_teardown:
  assumes "deleting_member w e z grp" and "Zone_ID z \<noteq> []" and "stored_by_id w" and "own_lease site w e z grp lr" and "tracked_cname w e z r"
    and "DNS_ID r \<in> set (w_outage w)" and "DNS_ID lr \<notin> set (w_outage w)"
  shows "\<exists>l'. run_state (Reconcile (logged (sim site)) (E_Namespace e) (E_Name e)) (w, l) =
    ((no_result, Inl (ErrAPI 500 ''internal server error'')), (without_record (DNS_ID lr) (zone_read w (E_Hostname e)), l' @ l))"
proof -
  let ?w = "zone_read w (E_Hostname e)" and ?gone = "without_record (DNS_ID lr) (zone_read w (E_Hostname e))"
  note due = assms(1) [unfolded deleting_member_def] and lease = assms(4) [unfolded own_lease_def] and cname = assms(5) [unfolded tracked_cname_def]
  have hz: "hosted_zone w (E_Hostname e) = Some z" using due by simp
  have cached: "zone_cached ?w (E_Hostname e) = Some z" by (rule run_zone(2) [OF hz])
  have again: "run_state (fakeZones_Resolve (E_Hostname e)) ?w = (Inr z, ?w)" "run_state (fakeZones_Resolve (E_Hostname e)) ?gone = (Inr z, ?gone)"
    using run_zone(1) [of ?w "E_Hostname e" z] run_zone(1) [of ?gone "E_Hostname e" z] cached by (simp_all add: hosted_zone_def zone_read_cached)
  have stored: "stored_by_id ?w" using assms(3) by (simp add: stored_by_id_def)
  have gone: "run_state (outage_delete (Zone_ID z) (DNS_ID lr)) ?w = (Inr (), ?gone)"
    using run_lease_delete [OF stored, of z grp lr] lease assms(2,7) by simp
  have leases: "run_state (fakeDNSRecords_List (Zone_ID z) (FailoverLeaseTXTName grp (Zone_Name z)) ''TXT'') ?w = (Inr [lr], ?w)"
    using run_leases [of ?w z grp] lease by simp
  have name: "DNS_Name lr = FailoverLeaseTXTName grp (Zone_Name z)"
    using stored_member(2) [OF assms(3), of "dns_selected (Zone_ID z) (FailoverLeaseTXTName grp (Zone_Name z)) ''TXT''" lr] lease lease_txt_name
    by (simp add: leases_at_def dns_selected_def)
  have "cnames ?gone z (E_Hostname e) = [r]"
    using without_record_lists(2) [OF stored, of "DNS_ID lr" z "E_Hostname e"] cname assms(6,7) by auto
  then have cnames: "run_state (fakeDNSRecords_List (Zone_ID z) (E_Hostname e) ''CNAME'') ?gone = (Inr [r], ?gone)"
    using run_cnames [of ?gone z "E_Hostname e"] by simp
  have down: "run_state (outage_delete (Zone_ID z) (CFStatus_DnsRecordId (cf_status e))) ?gone = (Inl (ErrAPI 500 ''internal server error''), ?gone)"
    using assms(6) cname by (simp add: outage_delete_def)
  obtain lease where "ParseLease (DNS_Content lr) = Inr lease" "Lease_Site lease = site" using lease by (auto split: sum.splits)
  moreover obtain f where f: "ESpec_Failover (E_Spec e) = Some f" "Failover_Group f = grp" using due by auto
  ultimately show ?thesis using due lease cname
    by (auto simp: f delete_defs has_tunnel_def run_zone(1) [OF hz] again leases name gone cnames down errForeignResource_def ErrNotFound_def)
qed

section \<open>The pass after it\<close>

text \<open>Without a lease of the group the pass drops the finalizer, whatever the zone still holds.\<close>

lemma second_teardown:
  assumes "deleting_member w e z grp" and "zone_cached w (E_Hostname e) = Some z" and "leases_at w z grp = []"
  shows "\<exists>l'. run_state (Reconcile (logged (sim site)) (E_Namespace e) (E_Name e)) (w, l) =
    ((no_result, Inr ()), (w_update (finalizer_dropped e) w, l' @ l))"
proof -
  have zone: "run_state (fakeZones_Resolve (E_Hostname e)) w = (Inr z, w)"
    using run_zone(1) [of w "E_Hostname e" z] assms(2) by (simp add: hosted_zone_def zone_read_cached)
  have leases: "run_state (fakeDNSRecords_List (Zone_ID z) (FailoverLeaseTXTName grp (Zone_Name z)) ''TXT'') w = (Inr [], w)"
    using run_leases [of w z grp] assms(3) by simp
  obtain f where f: "ESpec_Failover (E_Spec e) = Some f" "Failover_Group f = grp" using assms(1) by (auto simp: deleting_member_def)
  show ?thesis
    using assms(1) by (auto simp: f deleting_member_def delete_defs has_tunnel_def zone leases finalizer_dropped_def)
qed

definition let_go :: "world \<Rightarrow> CloudflareExposure \<Rightarrow> bool" where
  "let_go w e \<longleftrightarrow> (case w_get (E_Namespace e) (E_Name e) w of
     Inl err \<Rightarrow> err = not_found | Inr x \<Rightarrow> Meta_DeletionTimestamp (E_Meta x) \<noteq> None \<and> Finalizer \<notin> set (Meta_Finalizers (E_Meta x)))"

lemma find_filter: "find P xs = Some x \<Longrightarrow> P x \<and> x \<in> set xs"
  by (induction xs) (auto split: if_splits)

lemma dropped_let_go:
  assumes "Meta_DeletionTimestamp (E_Meta e) \<noteq> None"
  shows "let_go (w_update (finalizer_dropped e) w) e"
proof (cases "w_get (E_Namespace e) (E_Name e) (w_update (finalizer_dropped e) w)")
  case (Inl err)
  then show ?thesis by (auto simp: let_go_def w_get_def split: option.splits)
next
  case (Inr x)
  then have "E_Namespace x = E_Namespace e \<and> E_Name x = E_Name e" "x \<in> set (w_exposures (w_update (finalizer_dropped e) w))"
    by (auto simp: w_get_def dest!: find_filter split: option.splits)
  then have "x = finalizer_dropped e" by (auto simp: w_update_def w_put_def finalizer_dropped_def Let_def split: if_splits)
  with Inr assms show ?thesis by (simp add: let_go_def finalizer_dropped_def)
qed

lemma let_go_pass: "let_go w e \<Longrightarrow> run_state (Reconcile (logged (sim site)) (E_Namespace e) (E_Name e)) (w, l) = ((no_result, Inr ()), (w, l))"
  by (auto simp: let_go_def Reconcile_def reconcileDelete_def not_found_def split: sum.splits)

section \<open>Both passes\<close>

lemma orphaned_world:
  assumes "deleting_member w e z grp" and "stored_by_id w" and "own_lease site w e z grp lr" and "tracked_cname w e z r" and "DNS_ID r \<noteq> DNS_ID lr"
  defines "w1 \<equiv> without_record (DNS_ID lr) (zone_read w (E_Hostname e))"
  shows "leases_at w1 z grp = []" "cnames w1 z (E_Hostname e) = [r]" "fc_dnsRecords w1 = AList.delete (DNS_ID lr) (fc_dnsRecords w)"
    "deleting_member (w1\<lparr>w_now := now, w_outage := out\<rparr>) e z grp" "zone_cached (w1\<lparr>w_now := now, w_outage := out\<rparr>) (E_Hostname e) = Some z"
proof -
  have stored: "stored_by_id (zone_read w (E_Hostname e))" using assms(2) by (simp add: stored_by_id_def)
  have cached: "zone_cached (zone_read w (E_Hostname e)) (E_Hostname e) = Some z" using run_zone(2) assms(1) by (simp add: deleting_member_def)
  show "leases_at w1 z grp = []" "cnames w1 z (E_Hostname e) = [r]"
    using without_record_lists [OF stored, of "DNS_ID lr" z] assms(3-5) by (auto simp: w1_def own_lease_def tracked_cname_def)
  show "fc_dnsRecords w1 = AList.delete (DNS_ID lr) (fc_dnsRecords w)" by (simp add: w1_def without_record_def)
  have same: "zone_cached (w1\<lparr>w_now := now, w_outage := out\<rparr>) = zone_cached w1" by (simp add: zone_cached_def fun_eq_iff)
  then show "zone_cached (w1\<lparr>w_now := now, w_outage := out\<rparr>) (E_Hostname e) = Some z" using cached by (simp add: w1_def)
  then show "deleting_member (w1\<lparr>w_now := now, w_outage := out\<rparr>) e z grp"
    using assms(1) by (simp add: deleting_member_def hosted_zone_def) (simp add: w1_def w_get_def)
qed

text \<open>
  C39: A tear-down that fails between the lease and the CNAME orphans the CNAME. Take a simulated cluster and Cloudflare account that keeps its
  records under their IDs, and a failover exposure in it that is being deleted, still has the finalizer, and
  whose tunnel exists and whose hostname lies in a zone of the account, with a nonempty ID. The only TXT record at the group's lease name is a readable lease with the
  group's comment that names this site, live or expired, and the one CNAME of the hostname has the group's comment and the ID in the status.
  Let the deletion of the CNAME fail with an API error and that of the lease not. Then the pass returns that error and leaves the
  objects as they are, but deletes the lease: its record, and no other, is gone. The next pass, whenever it runs and whatever deletions the API then refuses,
  no longer proves ownership: it drops the finalizer, deletes nothing and reports success. The CNAME with the group's comment is still there,
  and every later pass returns without an error and changes nothing: nobody is left to delete it.
\<close>

theorem failed_teardown_orphans:
  assumes "deleting_member w e z grp" and "Zone_ID z \<noteq> []" and "stored_by_id w" and "own_lease site w e z grp lr" and "tracked_cname w e z r"
    and "DNS_ID r \<in> set (w_outage w)" and "DNS_ID lr \<notin> set (w_outage w)"
  shows "\<exists>w1. run_state (Reconcile (sim site) (E_Namespace e) (E_Name e)) w = ((no_result, Inl (ErrAPI 500 ''internal server error'')), w1) \<and>
    w_exposures w1 = w_exposures w \<and> fc_dnsRecords w1 = AList.delete (DNS_ID lr) (fc_dnsRecords w) \<and>
    leases_at w1 z grp = [] \<and> cnames w1 z (E_Hostname e) = [r] \<and>
    (\<forall>now out. \<exists>w2. run_state (Reconcile (sim site) (E_Namespace e) (E_Name e)) (w1\<lparr>w_now := now, w_outage := out\<rparr>) = ((no_result, Inr ()), w2) \<and>
      fc_dnsRecords w2 = fc_dnsRecords w1 \<and> cnames w2 z (E_Hostname e) = [r] \<and> let_go w2 e \<and>
      run_state (Reconcile (sim site) (E_Namespace e) (E_Name e)) w2 = ((no_result, Inr ()), w2))"
proof -
  let ?w1 = "without_record (DNS_ID lr) (zone_read w (E_Hostname e))"
  have "DNS_ID r \<noteq> DNS_ID lr" using assms(6,7) by auto
  note gone = orphaned_world [OF assms(1,3,4,5) this]
  obtain l where "run_state (Reconcile (logged (sim site)) (E_Namespace e) (E_Name e)) (w, []) = ((no_result, Inl (ErrAPI 500 ''internal server error'')), (?w1, l))"
    using first_teardown [OF assms] by blast
  note first = erases_run [OF erases_Reconcile this]
  have "\<exists>w2. run_state (Reconcile (sim site) (E_Namespace e) (E_Name e)) (?w1\<lparr>w_now := now, w_outage := out\<rparr>) = ((no_result, Inr ()), w2) \<and>
      fc_dnsRecords w2 = fc_dnsRecords ?w1 \<and> cnames w2 z (E_Hostname e) = [r] \<and> let_go w2 e \<and>
      run_state (Reconcile (sim site) (E_Namespace e) (E_Name e)) w2 = ((no_result, Inr ()), w2)" for now out
  proof -
    let ?w2 = "w_update (finalizer_dropped e) (?w1\<lparr>w_now := now, w_outage := out\<rparr>)"
    have let_go: "let_go ?w2 e" using assms(1) by (intro dropped_let_go) (simp add: deleting_member_def)
    have "fc_dnsRecords ?w2 = fc_dnsRecords ?w1" "cnames ?w2 z (E_Hostname e) = [r]"
      using gone(2) by (simp_all add: w_update_def w_put_def cnames_def Let_def)
    moreover obtain l where "run_state (Reconcile (logged (sim site)) (E_Namespace e) (E_Name e)) (?w1\<lparr>w_now := now, w_outage := out\<rparr>, []) =
        ((no_result, Inr ()), (?w2, l))"
      using second_teardown [OF gone(4,5)] gone(1) by fastforce
    ultimately show ?thesis
      using erases_run [OF erases_Reconcile] erases_run [OF erases_Reconcile let_go_pass [OF let_go]] let_go by metis
  qed
  with first gone(1-3) show ?thesis by (intro exI [of _ ?w1]) simp
qed

text \<open>The simulated cluster with a mail record of somebody else at the hostname.\<close>

definition deleting_site :: world where
  "deleting_site = deleting_world\<lparr>fc_dnsRecords := [(''le'', held_lease), (''cn'', shared_cname), (''mx'', \<lparr>DNS_ID = ''mx'', DNS_ZoneID = ''z1'',
     DNS_Name = ''a.x.io'', DNS_Type = ''MX'', DNS_Content = ''mail.x.io'', DNS_Proxied = False, DNS_Comment = []\<rparr>)]\<rparr>"

lemma deleting_site_due:
  "deleting_member deleting_site deleting_exposure \<lparr>Zone_ID = ''z1'', Zone_Name = ''x.io''\<rparr> ''g''" "stored_by_id deleting_site"
  "own_lease ''akl'' deleting_site deleting_exposure \<lparr>Zone_ID = ''z1'', Zone_Name = ''x.io''\<rparr> ''g'' held_lease"
  "tracked_cname deleting_site deleting_exposure \<lparr>Zone_ID = ''z1'', Zone_Name = ''x.io''\<rparr> shared_cname"
  by (simp_all add: deleting_member_def deleting_site_def delete_values w_get_def has_tunnel_def hosted_zone_def zone_cached_def zone_list_def
    stored_by_id_def own_lease_def leases_at_def tracked_cname_def cnames_def exposureOwner_def dns_selected_def)

theorem failed_teardown_orphans_witness:
  "\<exists>w1 w2. run_state (Reconcile (sim ''akl'') ''media'' ''web'') deleting_site = ((no_result, Inl (ErrAPI 500 ''internal server error'')), w1) \<and>
    run_state (Reconcile (sim ''akl'') ''media'' ''web'') (w1\<lparr>w_now := 7, w_outage := []\<rparr>) = ((no_result, Inr ()), w2) \<and>
    cnames w2 \<lparr>Zone_ID = ''z1'', Zone_Name = ''x.io''\<rparr> ''a.x.io'' = [shared_cname] \<and> let_go w2 deleting_exposure"
proof -
  have "DNS_ID shared_cname \<in> set (w_outage deleting_site)" "DNS_ID held_lease \<notin> set (w_outage deleting_site)"
      "E_Namespace deleting_exposure = ''media''" "E_Name deleting_exposure = ''web''" "E_Hostname deleting_exposure = ''a.x.io''"
    by (simp_all add: deleting_site_def delete_values)
  with failed_teardown_orphans [OF deleting_site_due(1) _ deleting_site_due(2-4)] show ?thesis by fastforce
qed

end
