(* ===== verification/Tunnelconfig.thy ===== *)
theory Tunnelconfig
  imports Go_Hash Cloudflare "HOL-Library.AList"
begin

text \<open>
  \<open>internal/tunnelconfig/builder.go\<close>: the ingress document of a tunnel from its exposures. The
  comparison is an instance of \<open>slice_less\<close>. The lemmas show when the builder reports a conflict,
  that the most specific rule comes first under first-match evaluation, and that the order in which
  the exposures are listed does not matter.
\<close>

section \<open>The builder\<close>

definition CatchAllService :: string where
  "CatchAllService = ''http_status:404''"

record Route =
  Route_ExposureUID :: string
  Route_Namespace :: string
  Route_Name :: string
  Route_Hostname :: string
  Route_Hash :: string

record Result =
  Result_Config :: TunnelConfiguration
  Result_Routes :: "Route list"

definition isWildcardHostname :: "string \<Rightarrow> bool" where
  "isWildcardHostname hostname \<longleftrightarrow> HasPrefix hostname ''*.''"

definition labelCount :: "string \<Rightarrow> nat" where
  "labelCount hostname = (if hostname = [] then 0 else CountChar hostname (CHR ''.'') + 1)"

definition HashRule :: "IngressRule \<Rightarrow> string" where
  "HashRule rule =
     (let data = json_object ((if Ingress_Hostname rule = [] then [] else [(''hostname'', json_string (Ingress_Hostname rule))])
            @ [(''service'', json_string (Ingress_Service rule))])
      in ''sha256:'' @ hex_string (Sum256 data))"

text \<open>The map from hostname to exposures, in order of first occurrence.\<close>

definition by_host_add :: "CloudflareExposure \<Rightarrow> (string \<times> CloudflareExposure list) list \<Rightarrow> (string \<times> CloudflareExposure list) list" where
  "by_host_add e m =
     (if E_Hostname e = [] then m
      else AList.update (E_Hostname e) ((case map_of m (E_Hostname e) of None \<Rightarrow> [] | Some es \<Rightarrow> es) @ [e]) m)"

definition by_host :: "CloudflareExposure list \<Rightarrow> (string \<times> CloudflareExposure list) list" where
  "by_host exposures = fold by_host_add exposures []"

definition ingress_less :: "CloudflareExposure \<Rightarrow> CloudflareExposure \<Rightarrow> bool" where
  "ingress_less e1 e2 =
     (let hi = E_Hostname e1; hj = E_Hostname e2
      in if labelCount hi \<noteq> labelCount hj then labelCount hi > labelCount hj
         else if isWildcardHostname hi \<noteq> isWildcardHostname hj then \<not> isWildcardHostname hi
         else if hi \<noteq> hj then hi < hj
         else if E_Namespace e1 \<noteq> E_Namespace e2 then E_Namespace e1 < E_Namespace e2
         else E_Name e1 < E_Name e2)"

definition rule_of :: "CloudflareExposure \<Rightarrow> IngressRule option" where
  "rule_of e =
     (if E_Hostname e = [] then None
      else case ESpec_Origin (E_Spec e) of
          None \<Rightarrow> None
        | Some origin \<Rightarrow> Some \<lparr>Ingress_Hostname = E_Hostname e,
            Ingress_Service = Origin_Protocol origin @ ''://'' @ Origin_Host origin @ '':'' @ itoa (sint (Origin_Port origin))\<rparr>)"

definition route_of :: "CloudflareExposure \<Rightarrow> Route option" where
  "route_of e = map_option (\<lambda>rule. \<lparr>Route_ExposureUID = E_UID e, Route_Namespace = E_Namespace e,
     Route_Name = E_Name e, Route_Hostname = E_Hostname e, Route_Hash = HashRule rule\<rparr>) (rule_of e)"

definition catch_all :: IngressRule where
  "catch_all = \<lparr>Ingress_Hostname = [], Ingress_Service = CatchAllService\<rparr>"

definition Build :: "CloudflareExposure list \<Rightarrow> Result result" where
  "Build exposures =
     (let conflicts = map fst (filter (\<lambda>(hostname, matches). length matches > 1) (by_host exposures))
      in if conflicts \<noteq> [] then Inl (ErrHostnames (sort_Strings conflicts))
         else let ordered = sort_slice ingress_less exposures
              in Inr \<lparr>Result_Config = \<lparr>Ingress = List.map_filter rule_of ordered @ [catch_all]\<rparr>,
                      Result_Routes = List.map_filter route_of ordered\<rparr>)"

interpretation ing_less: slice_less ingress_less
proof
  show "ingress_less x y \<Longrightarrow> \<not> ingress_less y x" for x y
    by (auto simp: ingress_less_def Let_def split: if_splits)
  show "\<not> ingress_less x y \<Longrightarrow> \<not> ingress_less y z \<Longrightarrow> \<not> ingress_less x z" for x y z
    by (auto simp: ingress_less_def Let_def not_less split: if_splits intro: order_trans)
qed

section \<open>Conflicts\<close>

definition exposures_at :: "string \<Rightarrow> CloudflareExposure list \<Rightarrow> CloudflareExposure list" where
  "exposures_at h es = filter (\<lambda>e. E_Hostname e = h) es"

lemma by_host_fold:
  "distinct (map fst m) \<Longrightarrow> distinct (map fst (fold by_host_add es m)) \<and>
     map_of (fold by_host_add es m) h =
       (if h = [] \<or> exposures_at h es = [] then map_of m h
        else Some ((case map_of m h of None \<Rightarrow> [] | Some xs \<Rightarrow> xs) @ exposures_at h es))"
proof (induction es arbitrary: m)
  case Nil
  then show ?case by (simp add: exposures_at_def)
next
  case (Cons e es)
  let ?m = "by_host_add e m"
  have "distinct (map fst ?m)" using Cons.prems by (simp add: by_host_add_def distinct_update)
  moreover have "map_of ?m h = (if h \<noteq> [] \<and> E_Hostname e = h then Some ((case map_of m h of None \<Rightarrow> [] | Some xs \<Rightarrow> xs) @ [e])
      else map_of m h)"
    by (auto simp: by_host_add_def update_conv')
  ultimately show ?case using Cons.IH [of ?m] by (auto simp: exposures_at_def)
qed

lemma by_host_keys: "distinct (map fst (by_host es))"
  and map_of_by_host: "map_of (by_host es) h = (if h = [] \<or> exposures_at h es = [] then None else Some (exposures_at h es))"
  using by_host_fold [of "[]" es h] by (simp_all add: by_host_def)

lemma conflicts_set:
  "set (map fst (filter (\<lambda>(hostname, matches). length matches > 1) (by_host es)))
     = {h. h \<noteq> [] \<and> length (exposures_at h es) > 1}"
proof -
  have entry: "(h, ms) \<in> set (by_host es) \<longleftrightarrow> h \<noteq> [] \<and> exposures_at h es \<noteq> [] \<and> ms = exposures_at h es" for h ms
    unfolding map_of_eq_Some_iff [OF by_host_keys, symmetric] map_of_by_host by auto
  have member: "h \<in> set (map fst (filter (\<lambda>(hostname, matches). length matches > 1) (by_host es)))
      \<longleftrightarrow> (\<exists>ms. (h, ms) \<in> set (by_host es) \<and> length ms > 1)" for h
    by (auto simp: image_iff)
  show ?thesis
  proof (rule set_eqI)
    fix h
    have "exposures_at h es \<noteq> []" if "length (exposures_at h es) > 1" using that by auto
    then show "h \<in> set (map fst (filter (\<lambda>(hostname, matches). length matches > 1) (by_host es)))
        \<longleftrightarrow> h \<in> {h. h \<noteq> [] \<and> length (exposures_at h es) > 1}"
      unfolding member entry mem_Collect_eq by blast
  qed
qed

definition build_ok :: "CloudflareExposure list \<Rightarrow> Result" where
  "build_ok es = \<lparr>Result_Config = \<lparr>Ingress = List.map_filter rule_of (sort_slice ingress_less es) @ [catch_all]\<rparr>,
     Result_Routes = List.map_filter route_of (sort_slice ingress_less es)\<rparr>"

lemma Build_cases:
  "(\<forall>h. h \<noteq> [] \<longrightarrow> length (exposures_at h es) \<le> 1) \<and> Build es = Inr (build_ok es) \<or>
   (\<exists>hs. Build es = Inl (ErrHostnames hs) \<and> hs \<noteq> [] \<and> sorted hs \<and> distinct hs \<and>
      set hs = {h. h \<noteq> [] \<and> length (exposures_at h es) > 1})"
proof -
  let ?c = "map fst (filter (\<lambda>(hostname, matches). length matches > 1) (by_host es))"
  have c: "set ?c = {h. h \<noteq> [] \<and> length (exposures_at h es) > 1}" by (rule conflicts_set)
  show ?thesis
  proof (cases "?c = []")
    case True
    then have "Build es = Inr (build_ok es)"
      by (simp only: Build_def build_ok_def Let_def if_False simp_thms)
    moreover have "{h. h \<noteq> [] \<and> length (exposures_at h es) > 1} = {}" unfolding c [symmetric] True by simp
    ultimately show ?thesis by (auto simp: not_less)
  next
    case False
    then have b: "Build es = Inl (ErrHostnames (sort_Strings ?c))" by (simp only: Build_def Let_def if_True simp_thms)
    have "distinct ?c" using by_host_keys by (rule distinct_map_filter)
    then have "distinct (sort_Strings ?c)" by (metis mset_eq_imp_distinct_iff mset_sort_Strings)
    moreover have "sort_Strings ?c \<noteq> []" using False unfolding sort_Strings_def sort_slice_eq_Nil .
    moreover have "set (sort_Strings ?c) = {h. h \<noteq> [] \<and> length (exposures_at h es) > 1}"
      unfolding set_sort_Strings by (rule c)
    ultimately show ?thesis unfolding b using sorted_sort_Strings [of ?c] by auto
  qed
qed

lemma Build_ok_unique: "Build es = Inr res \<Longrightarrow> h \<noteq> [] \<Longrightarrow> length (exposures_at h es) \<le> 1"
  using Build_cases [of es] by auto

lemma Build_cong:
  assumes "sort_slice ingress_less es = sort_slice ingress_less es'"
    and "\<And>h. length (exposures_at h es) = length (exposures_at h es')"
  shows "Build es = Build es'"
proof (cases "\<forall>h. h \<noteq> [] \<longrightarrow> length (exposures_at h es) \<le> 1")
  case True
  then have "Build es = Inr (build_ok es)" using Build_cases [of es] by (metis (mono_tags, lifting) Collect_empty_eq not_le set_empty)
  moreover have "Build es' = Inr (build_ok es')"
    using True Build_cases [of es'] unfolding assms(2) by (metis (mono_tags, lifting) Collect_empty_eq not_le set_empty)
  ultimately show ?thesis using assms(1) by (simp add: build_ok_def)
next
  case False
  then obtain hs where hs: "Build es = Inl (ErrHostnames hs)" "sorted hs" "distinct hs"
      "set hs = {h. h \<noteq> [] \<and> length (exposures_at h es') > 1}"
    using Build_cases [of es] unfolding assms(2) by blast
  moreover obtain hs' where hs': "Build es' = Inl (ErrHostnames hs')" "sorted hs'" "distinct hs'"
      "set hs' = {h. h \<noteq> [] \<and> length (exposures_at h es') > 1}"
    using False Build_cases [of es'] unfolding assms(2) by blast
  ultimately have "hs = hs'" by (intro sorted_distinct_set_unique) simp_all
  with hs hs' show ?thesis by simp
qed

text \<open>
  C28: The builder refuses exactly the exposures that compete for a hostname. It fails iff two
  exposures have the same non-empty hostname, and the error lists each such hostname once, in order;
  nothing is published then.
\<close>

theorem Build_conflict:
  "(case Build es of
      Inr _ \<Rightarrow> \<forall>h. h \<noteq> [] \<longrightarrow> length (exposures_at h es) \<le> 1
    | Inl e \<Rightarrow> \<exists>hs. e = ErrHostnames hs \<and> hs \<noteq> [] \<and> sorted hs \<and> distinct hs \<and>
        set hs = {h. h \<noteq> [] \<and> length (exposures_at h es) > 1})"
  using Build_cases [of es]
proof (elim disjE conjE exE)
  fix hs assume b: "Build es = Inl (ErrHostnames hs)" and "hs \<noteq> []" "sorted hs" "distinct hs"
    "set hs = {h. h \<noteq> [] \<and> length (exposures_at h es) > 1}"
  then show ?thesis unfolding b sum.case by (intro exI [of _ hs] conjI refl)
qed simp

section \<open>First match\<close>

text \<open>
  A rule covers a host if it is the catch-all, names the host, or is a wildcard whose domain the host
  lies below; \<open>cloudflared\<close> evaluates the document top-down and takes the first covering rule.
\<close>

definition rule_covers :: "IngressRule \<Rightarrow> string \<Rightarrow> bool" where
  "rule_covers r h \<longleftrightarrow> Ingress_Hostname r = [] \<or> Ingress_Hostname r = h \<or>
     isWildcardHostname (Ingress_Hostname r) \<and> HasSuffix h (tl (Ingress_Hostname r))"

definition first_match :: "IngressRule list \<Rightarrow> string \<Rightarrow> IngressRule option" where
  "first_match rules h = find (\<lambda>r. rule_covers r h) rules"

lemma CountChar_append: "CountChar (s @ t) c = CountChar s c + CountChar t c"
  by (simp add: CountChar_def)

lemma CountChar_Cons: "CountChar (x # s) c = (if x = c then 1 else 0) + CountChar s c"
  by (simp add: CountChar_def)

text \<open>A wildcard that covers a host has at most as many labels.\<close>

lemma labelCount_wildcard:
  assumes "isWildcardHostname w" and "HasSuffix h (tl w)"
  shows "labelCount w \<le> labelCount h"
proof -
  obtain d where w: "w = ''*.'' @ d" using assms(1) by (auto simp: isWildcardHostname_def HasPrefix_iff)
  with assms(2) obtain p where "h = p @ ''.'' @ d" by (auto simp: HasSuffix_iff)
  with w show ?thesis by (simp add: labelCount_def CountChar_append CountChar_Cons)
qed

lemma rule_covers_labels: "rule_covers r h \<Longrightarrow> labelCount (Ingress_Hostname r) \<le> labelCount h"
  by (auto simp: rule_covers_def labelCount_wildcard) (simp add: labelCount_def)

text \<open>What the sort says about two rules in the document.\<close>

definition rule_before :: "IngressRule \<Rightarrow> IngressRule \<Rightarrow> bool" where
  "rule_before r1 r2 \<longleftrightarrow> labelCount (Ingress_Hostname r2) < labelCount (Ingress_Hostname r1) \<or>
     labelCount (Ingress_Hostname r2) = labelCount (Ingress_Hostname r1) \<and>
     (isWildcardHostname (Ingress_Hostname r1) \<longrightarrow> isWildcardHostname (Ingress_Hostname r2))"

lemma rule_of_hostname: "rule_of e = Some r \<Longrightarrow> Ingress_Hostname r = E_Hostname e \<and> E_Hostname e \<noteq> []"
  by (auto simp: rule_of_def split: if_splits option.splits)

lemma ingress_less_before:
  "\<not> ingress_less e2 e1 \<Longrightarrow> rule_of e1 = Some r1 \<Longrightarrow> rule_of e2 = Some r2 \<Longrightarrow> rule_before r1 r2"
  by (auto simp: ingress_less_def rule_before_def Let_def dest!: rule_of_hostname split: if_splits)

lemma sorted_wrt_map_filter:
  "sorted_wrt P xs \<Longrightarrow> (\<And>x y a b. P x y \<Longrightarrow> f x = Some a \<Longrightarrow> f y = Some b \<Longrightarrow> Q a b) \<Longrightarrow>
     sorted_wrt Q (List.map_filter f xs)"
  by (induction xs) (auto simp: List.map_filter_simps split: option.splits)

lemma Build_sorted:
  assumes "Build es = Inr res"
  shows "sorted_wrt rule_before (Ingress (Result_Config res))"
proof -
  let ?rules = "List.map_filter rule_of (sort_slice ingress_less es)"
  have "sorted_wrt rule_before ?rules"
    using ing_less.sorted_sort_slice by (rule sorted_wrt_map_filter) (rule ingress_less_before)
  moreover have "rule_before r catch_all" if "r \<in> set ?rules" for r
    using that by (auto simp: rule_before_def catch_all_def labelCount_def dest!: rule_of_hostname)
  ultimately show ?thesis
    using assms by (auto simp: Build_def Let_def sorted_wrt_append split: if_splits)
qed

lemma Build_rules_unique:
  assumes "Build es = Inr res" and "r1 \<in> set (Ingress (Result_Config res))" and "r2 \<in> set (Ingress (Result_Config res))"
    and "Ingress_Hostname r1 = Ingress_Hostname r2" and "Ingress_Hostname r1 \<noteq> []"
  shows "r1 = r2"
proof -
  have rules: "set (Ingress (Result_Config res)) = insert catch_all (set (List.map_filter rule_of (sort_slice ingress_less es)))"
    using assms(1) by (auto simp: Build_def Let_def split: if_splits)
  have cat: "Ingress_Hostname catch_all = []" by (simp add: catch_all_def)
  have "\<exists>e. e \<in> set es \<and> rule_of e = Some r" if "r \<in> set (Ingress (Result_Config res))" "Ingress_Hostname r \<noteq> []" for r
    using that rules cat by auto
  then obtain e1 e2 where e: "e1 \<in> set es" "rule_of e1 = Some r1" "e2 \<in> set es" "rule_of e2 = Some r2"
    using assms(2-5) by metis
  let ?h = "Ingress_Hostname r1"
  have "e1 \<in> set (exposures_at ?h es)" "e2 \<in> set (exposures_at ?h es)"
    using e assms(4) rule_of_hostname [of e1 r1] rule_of_hostname [of e2 r2] by (auto simp: exposures_at_def)
  moreover have "length (exposures_at ?h es) \<le> 1"
    using Build_ok_unique [OF assms(1)] assms(5) by blast
  ultimately have "e1 = e2" by (cases "exposures_at ?h es") auto
  with e show ?thesis by simp
qed

text \<open>
  C26: The document sends every request to the most specific rule. For a request host (never itself a
  wildcard) the first covering rule exists; no covering rule has more labels; and if an exposure
  with an origin has exactly that hostname, its rule is the one that is taken, however many wildcards
  cover the host too.
\<close>

theorem Build_first_match:
  assumes "Build es = Inr res" and "\<not> isWildcardHostname h"
  shows "\<exists>f. first_match (Ingress (Result_Config res)) h = Some f \<and>
     (\<forall>r \<in> set (Ingress (Result_Config res)). rule_covers r h \<longrightarrow>
        labelCount (Ingress_Hostname r) \<le> labelCount (Ingress_Hostname f)) \<and>
     (\<forall>e \<in> set es. E_Hostname e = h \<longrightarrow> rule_of e \<noteq> None \<longrightarrow> rule_of e = Some f)"
proof -
  let ?rules = "Ingress (Result_Config res)"
  have rules: "?rules = List.map_filter rule_of (sort_slice ingress_less es) @ [catch_all]"
    using assms(1) by (auto simp: Build_def Let_def split: if_splits)
  have "rule_covers catch_all h" by (simp add: rule_covers_def catch_all_def)
  then have "first_match ?rules h \<noteq> None"
    unfolding first_match_def rules by (auto simp: find_None_iff)
  then obtain f where f: "first_match ?rules h = Some f" by auto
  then obtain i where i: "i < length ?rules" "?rules ! i = f" "rule_covers f h" "\<forall>j < i. \<not> rule_covers (?rules ! j) h"
    unfolding first_match_def find_Some_iff by auto
  have before: "rule_before f r \<or> r = f" if r: "r \<in> set ?rules" "rule_covers r h" for r
  proof -
    obtain j where j: "j < length ?rules" "?rules ! j = r" using r(1) by (auto simp: in_set_conv_nth)
    then have "i \<le> j" using i(4) r(2) by (meson not_less)
    then show ?thesis
      using Build_sorted [OF assms(1)] i(2) j by (cases "i = j") (auto simp: sorted_wrt_iff_nth_less)
  qed
  have "rule_of e = Some f" if e: "e \<in> set es" "E_Hostname e = h" "rule_of e \<noteq> None" for e
  proof -
    obtain r where r: "rule_of e = Some r" using e(3) by auto
    then have host: "Ingress_Hostname r = h" "h \<noteq> []" using rule_of_hostname e(2) by auto
    have rset: "r \<in> set ?rules" unfolding rules using e(1) r by auto
    have rcov: "rule_covers r h" using host by (simp add: rule_covers_def)
    have fset: "f \<in> set ?rules" using i(1,2) by auto
    have fhost: "Ingress_Hostname f = h" if b: "rule_before f r"
    proof -
      have "labelCount h \<le> labelCount (Ingress_Hostname f)" using b host by (auto simp: rule_before_def)
      then have "Ingress_Hostname f \<noteq> []" using host by (auto simp: labelCount_def)
      moreover have "\<not> isWildcardHostname (Ingress_Hostname f)"
        using b host assms(2) rule_covers_labels [OF i(3)] by (simp add: rule_before_def)
      ultimately show ?thesis using i(3) by (simp add: rule_covers_def)
    qed
    from before [OF rset rcov] have "r = f"
    proof
      assume "rule_before f r"
      from fhost [OF this] show "r = f"
        using host by (intro Build_rules_unique [OF assms(1) rset fset]) simp_all
    qed
    with r show ?thesis by simp
  qed
  with f before show ?thesis by (fastforce simp: rule_before_def)
qed

text \<open>
  C27: The document does not depend on the order in which the exposures are listed. For exposures
  that Kubernetes keeps apart (distinct namespace and name), two listings of the same exposures give
  the same result, error included.
\<close>

theorem Build_order_independent:
  assumes "mset es = mset es'" and "distinct (map (\<lambda>e. (E_Namespace e, E_Name e)) es)"
  shows "Build es = Build es'"
proof -
  have "sort_slice ingress_less es = sort_slice ingress_less es'"
  proof (rule ing_less.sort_slice_unique [OF assms(1)])
    fix x y assume "x \<in> set es" "y \<in> set es" "\<not> ingress_less x y" "\<not> ingress_less y x"
    moreover from this have "E_Namespace x = E_Namespace y \<and> E_Name x = E_Name y"
      by (auto simp: ingress_less_def Let_def split: if_splits)
    ultimately show "x = y" using assms(2) by (auto simp: distinct_map inj_on_def)
  qed
  moreover have "length (exposures_at h es) = length (exposures_at h es')" for h
    using assms(1) unfolding exposures_at_def by (metis mset_filter size_mset)
  ultimately show ?thesis using Build_cong [of es es'] by blast
qed

section \<open>Witnesses\<close>

definition example_meta :: "string \<Rightarrow> ObjectMeta" where
  "example_meta n = \<lparr>Meta_Namespace = ''default'', Meta_Name = n, Meta_UID = ''uid-'' @ n, Meta_Generation = 1,
     Meta_DeletionTimestamp = None, Meta_Finalizers = [], Meta_Annotations = [], Meta_OwnerReferences = []\<rparr>"

definition zero_FailoverStatus :: ExposureFailoverStatus where
  "zero_FailoverStatus = \<lparr>FStatus_Role = [], FStatus_SiteID = [], FStatus_LeaseOwner = [],
     FStatus_LeaseExpiresAt = None, FStatus_LeaseRenewedAt = None, FStatus_LastRoleTransitionAt = None,
     FStatus_ObservedPrimaryTunnelID = [], FStatus_LastForcePromoteToken = []\<rparr>"

definition example_exposure :: "string \<Rightarrow> string \<Rightarrow> CloudflareExposure" where
  "example_exposure n h = \<lparr>E_Meta = example_meta n,
     E_Spec = \<lparr>ESpec_DisplayName = [], ESpec_Hostname = h, ESpec_TunnelRef = \<lparr>TunnelRef_Name = ''main''\<rparr>,
       ESpec_SourceRef = None,
       ESpec_Origin = Some \<lparr>Origin_Protocol = ''http'', Origin_Host = n, Origin_Port = 80\<rparr>,
       ESpec_Access = \<lparr>Access_Enabled = False, Access_PolicyRef = None, Access_Applications = []\<rparr>,
       ESpec_Failover = None\<rparr>,
     E_Status = \<lparr>EStatus_Cloudflare = \<lparr>CFStatus_AccessApplications = [], CFStatus_PublicHostnameRouteHash = [],
         CFStatus_DnsRecordId = []\<rparr>,
       EStatus_Failover = zero_FailoverStatus, EStatus_Conditions = []\<rparr>\<rparr>"

lemma Build_example:
  assumes "es = [example_exposure ''wild'' ''*.b.c'', example_exposure ''web'' ''a.b.c'']"
  shows "Build es = Inr (build_ok es)"
proof -
  have "length (exposures_at h es) \<le> 1" for h
    by (auto simp: assms exposures_at_def example_exposure_def)
  then show ?thesis using Build_cases [of es] by (metis (mono_tags, lifting) Collect_empty_eq not_le set_empty)
qed

theorem Build_first_match_witness:
  "first_match (Ingress (Result_Config (build_ok [example_exposure ''wild'' ''*.b.c'', example_exposure ''web'' ''a.b.c'']))) ''a.b.c''
     = rule_of (example_exposure ''web'' ''a.b.c'')"
proof -
  let ?es = "[example_exposure ''wild'' ''*.b.c'', example_exposure ''web'' ''a.b.c'']"
  have "\<not> isWildcardHostname ''a.b.c''" by (simp add: isWildcardHostname_def HasPrefix_def)
  moreover have "E_Hostname (example_exposure ''web'' ''a.b.c'') = ''a.b.c''"
    "rule_of (example_exposure ''web'' ''a.b.c'') \<noteq> None"
    by (simp_all add: example_exposure_def rule_of_def)
  ultimately show ?thesis
    using Build_first_match [OF Build_example [OF refl], of "''a.b.c''"] by auto
qed

theorem Build_order_independent_witness:
  "Build [example_exposure ''wild'' ''*.b.c'', example_exposure ''web'' ''a.b.c'']
     = Build [example_exposure ''web'' ''a.b.c'', example_exposure ''wild'' ''*.b.c'']"
  by (rule Build_order_independent) (simp_all add: add_mset_commute example_exposure_def example_meta_def)

theorem Build_conflict_witness:
  "Build [example_exposure ''web'' ''a.b.c'', example_exposure ''app'' ''a.b.c''] = Inl (ErrHostnames [''a.b.c''])"
proof -
  let ?es = "[example_exposure ''web'' ''a.b.c'', example_exposure ''app'' ''a.b.c'']"
  have "exposures_at h ?es = (if h = ''a.b.c'' then ?es else [])" for h
    by (auto simp: exposures_at_def example_exposure_def)
  then have c: "{h. h \<noteq> [] \<and> length (exposures_at h ?es) > 1} = {''a.b.c''}" by auto
  have "\<not> length (exposures_at ''a.b.c'' ?es) \<le> 1" by (simp add: exposures_at_def example_exposure_def)
  then obtain hs where hs: "Build ?es = Inl (ErrHostnames hs)" "distinct hs" "set hs = {''a.b.c''}"
    using Build_conflict [of ?es] unfolding c by (auto split: sum.splits)
  then have "hs = [''a.b.c'']" by (cases hs; cases "tl hs") auto
  with hs show ?thesis by simp
qed

end
