(* ===== verification/Tunnel_Controller.thy ===== *)
theory Tunnel_Controller
  imports Workload Tunnelconfig Kube Lease
begin

text \<open>
  \<open>internal/controller/cloudflaretunnel_controller.go\<close>: the Tunnel reconciler. Its record extends
  \<open>Base\<close> with the operations of the Kubernetes client at the kinds only this controller writes. The
  second result of \<open>reconcileCloudflareTunnel\<close> in the code is the action; here the tunnel, whose
  \<open>status.tunnelId\<close> the code clears in memory when the tracked tunnel is gone, is returned as well.
\<close>

section \<open>The reconciler and its constants\<close>

record 's TunnelReconciler = "'s Base" +
  TR_UpdateTunnel :: "CloudflareTunnel \<Rightarrow> ('s, CloudflareTunnel result) state"
  TR_StatusUpdateTunnel :: "CloudflareTunnel \<Rightarrow> ('s, CloudflareTunnel result) state"
  TR_ListRoutes :: "string \<Rightarrow> string \<Rightarrow> ('s, CloudflareTunnelRoute list result) state"
  TR_GetSecret :: "string \<Rightarrow> string \<Rightarrow> ('s, Secret result) state"
  TR_CreateSecret :: "Secret \<Rightarrow> ('s, unit result) state"
  TR_UpdateSecret :: "Secret \<Rightarrow> ('s, unit result) state"
  TR_DeleteSecret :: "string \<Rightarrow> string \<Rightarrow> ('s, unit result) state"
  TR_GetDaemonSet :: "string \<Rightarrow> string \<Rightarrow> ('s, DaemonSet result) state"
  TR_CreateDaemonSet :: "DaemonSet \<Rightarrow> ('s, unit result) state"
  TR_UpdateDaemonSet :: "DaemonSet \<Rightarrow> ('s, unit result) state"
  TR_DeleteDaemonSet :: "DaemonSet \<Rightarrow> ('s, unit result) state"
  TR_ListPods :: "string \<Rightarrow> (string \<times> string) list \<Rightarrow> ('s, string list result) state"
  TR_SetControllerReference :: "CloudflareTunnel \<Rightarrow> OwnerReference list \<Rightarrow> OwnerReference list result"

definition ReasonTunnelCreating :: string where "ReasonTunnelCreating = ''TunnelCreating''"

definition ReasonTunnelNameInvalid :: string where "ReasonTunnelNameInvalid = ''TunnelNameInvalid''"

definition ReasonForeignTunnel :: string where "ReasonForeignTunnel = ''ForeignTunnel''"

definition ReasonTokenFetchFailed :: string where "ReasonTokenFetchFailed = ''TokenFetchFailed''"

definition ReasonWorkloadNotReady :: string where "ReasonWorkloadNotReady = ''WorkloadNotReady''"

definition ReasonBlockedByRoutes :: string where "ReasonBlockedByRoutes = ''BlockedByRoutes''"

definition EventCreatedTunnel :: string where "EventCreatedTunnel = ''CreatedTunnel''"

definition EventRecoveredTunnel :: string where "EventRecoveredTunnel = ''RecoveredTunnel''"

definition EventRenamedTunnel :: string where "EventRenamedTunnel = ''RenamedTunnel''"

definition EventUpdatedTunnelConfig :: string where "EventUpdatedTunnelConfig = ''UpdatedTunnelConfig''"

definition EventDeletedTunnel :: string where "EventDeletedTunnel = ''DeletedTunnel''"

definition EventTokenRotated :: string where "EventTokenRotated = ''TokenRotated''"

definition EventBlockedByRoutes :: string where "EventBlockedByRoutes = ''BlockedByRoutes''"

definition errForeignTunnel :: error where
  "errForeignTunnel = ErrNew ''foreign tunnel''"

datatype tunnelAction = tunnelActionNone | tunnelActionCreated | tunnelActionRecovered

abbreviation T_Name :: "CloudflareTunnel \<Rightarrow> string" where
  "T_Name t \<equiv> Meta_Name (T_Meta t)"

abbreviation T_TunnelId :: "CloudflareTunnel \<Rightarrow> string" where
  "T_TunnelId t \<equiv> TStatus_TunnelId (T_Status t)"

abbreviation T_Namespace :: "CloudflareTunnel \<Rightarrow> string" where
  "T_Namespace t \<equiv> Cloudflared_Namespace (TSpec_Cloudflared (T_Spec t))"

definition set_tunnel_conditions :: "Condition list \<Rightarrow> CloudflareTunnel \<Rightarrow> CloudflareTunnel" where
  "set_tunnel_conditions cs t = t\<lparr>T_Status := (T_Status t)\<lparr>TStatus_Conditions := cs\<rparr>\<rparr>"

definition set_tunnel_id :: "string \<Rightarrow> CloudflareTunnel \<Rightarrow> CloudflareTunnel" where
  "set_tunnel_id i t = t\<lparr>T_Status := (T_Status t)\<lparr>TStatus_TunnelId := i\<rparr>\<rparr>"

definition desiredCloudflareTunnelName :: "CloudflareTunnel \<Rightarrow> string" where
  "desiredCloudflareTunnelName tunnel =
     (let sum = Sum256 (Meta_UID (T_Meta tunnel)) in TSpec_TunnelName (T_Spec tunnel) @ ''-cfzt-'' @ hex_string (take 4 sum))"

definition tunnelRouteIndexTunnelRef :: string where
  "tunnelRouteIndexTunnelRef = ''spec.tunnelRef.name''"

definition listRoutesByTunnel :: "'s TunnelReconciler \<Rightarrow> string \<Rightarrow> ('s, CloudflareTunnelRoute list result) state" where
  "listRoutesByTunnel r tunnelName = TR_ListRoutes r tunnelRouteIndexTunnelRef tunnelName"

section \<open>Status\<close>

definition unit_result :: "'a result \<Rightarrow> unit result" where
  "unit_result res = (case res of Inl e \<Rightarrow> Inl e | Inr _ \<Rightarrow> Inr ())"

text \<open>\<open>setReady\<close> on a tunnel.\<close>

definition setReadyTunnel :: "'s TunnelReconciler \<Rightarrow> CloudflareTunnel \<Rightarrow> bool \<Rightarrow> string \<Rightarrow> string \<Rightarrow>
    (CloudflareTunnel \<Rightarrow> CloudflareTunnel) \<Rightarrow> ('s, unit result) state" where
  "setReadyTunnel r tunnel ready reason message mutate =
     setReady r (\<lambda>t. TStatus_Conditions (T_Status t)) set_tunnel_conditions (TR_StatusUpdateTunnel r) tunnel
       (Meta_Generation (T_Meta tunnel)) ready reason message mutate"

definition setTunnelStatus :: "'s TunnelReconciler \<Rightarrow> CloudflareTunnel \<Rightarrow> string \<Rightarrow> string \<Rightarrow> bool \<Rightarrow> string \<Rightarrow> string \<Rightarrow>
    ('s, unit result) state" where
  "setTunnelStatus r tunnel tunnelID tokenSecretName ready reason message = do {
     got \<leftarrow> Base_GetTunnel r (T_Name tunnel);
     case got of
       Inl e \<Rightarrow> return_st (Inl e)
     | Inr latest \<Rightarrow> setReadyTunnel r latest ready reason message
         (\<lambda>t. t\<lparr>T_Status := (T_Status t)\<lparr>TStatus_TunnelId := tunnelID,
            TStatus_TokenSecretRef := \<lparr>TokenSecretRef_Name = tokenSecretName\<rparr>,
            TStatus_DnsMode := (if Dns_Manage (TSpec_Dns (T_Spec t)) then ''managed'' else ''external'')\<rparr>\<rparr>) }"

definition routeStatusKey :: "string \<Rightarrow> string \<Rightarrow> string \<Rightarrow> string" where
  "routeStatusKey namespace name hostname = namespace @ ''/'' @ name @ ''/'' @ hostname"

text \<open>The map from key to route status that both loops build: the last status of a key wins.\<close>

definition status_by_key :: "RouteStatus list \<Rightarrow> string \<rightharpoonup> RouteStatus" where
  "status_by_key statuses = map_of (rev (map (\<lambda>route. (routeStatusKey (RouteStatus_Namespace route) (RouteStatus_Name route)
     (RouteStatus_Hostname route), route)) statuses))"

definition route_status :: "time \<Rightarrow> RouteStatus list \<Rightarrow> Route \<Rightarrow> RouteStatus" where
  "route_status now previous route =
     \<lparr>RouteStatus_ExposureUid = Route_ExposureUID route, RouteStatus_Namespace = Route_Namespace route,
      RouteStatus_Name = Route_Name route, RouteStatus_Hostname = Route_Hostname route, RouteStatus_Hash = Route_Hash route,
      RouteStatus_LastWrittenAt = (case status_by_key previous (routeStatusKey (Route_Namespace route) (Route_Name route) (Route_Hostname route)) of
          Some old \<Rightarrow> if RouteStatus_Hash old = Route_Hash route then RouteStatus_LastWrittenAt old else now
        | None \<Rightarrow> now)\<rparr>"

definition setTunnelConfigStatus :: "'s TunnelReconciler \<Rightarrow> CloudflareTunnel \<Rightarrow> Route list \<Rightarrow> string \<Rightarrow> ('s, unit result) state" where
  "setTunnelConfigStatus r tunnel routes ingressDocHash = do {
     got \<leftarrow> Base_GetTunnel r (T_Name tunnel);
     case got of
       Inl e \<Rightarrow> return_st (Inl e)
     | Inr before \<Rightarrow> do {
         now \<leftarrow> Base_WallClock r;
         let latest = before\<lparr>T_Status := (T_Status before)\<lparr>TStatus_IngressDocHash := ingressDocHash,
           TStatus_Routes := map (route_status now (TStatus_Routes (T_Status before))) routes\<rparr>\<rparr>;
         if T_Status before = T_Status latest then return_st (Inr ())
         else do {
           res \<leftarrow> TR_StatusUpdateTunnel r latest;
           return_st (unit_result res) } } }"

definition tunnelConfigurationHash :: "TunnelConfiguration \<Rightarrow> string" where
  "tunnelConfigurationHash config =
     (let rule = (\<lambda>i. json_object [(''Hostname'', json_string (Ingress_Hostname i)), (''Service'', json_string (Ingress_Service i))]);
          data = json_object [(''Ingress'', json_array (map rule (Ingress config)))]
      in ''sha256:'' @ hex_string (Sum256 data))"

definition tunnelRoutesStatusMatches :: "RouteStatus list \<Rightarrow> Route list \<Rightarrow> bool" where
  "tunnelRoutesStatusMatches status routes \<longleftrightarrow>
     length status = length routes \<and>
     list_all (\<lambda>route. case status_by_key status (routeStatusKey (Route_Namespace route) (Route_Name route) (Route_Hostname route)) of
         None \<Rightarrow> False
       | Some current \<Rightarrow> RouteStatus_ExposureUid current = Route_ExposureUID route \<and> RouteStatus_Hash current = Route_Hash route) routes"

section \<open>The Cloudflare tunnel\<close>

definition foreign_tunnel :: "string \<Rightarrow> error" where
  "foreign_tunnel text = ErrWrap [] errForeignTunnel ('': '' @ text)"

text \<open>No tracked tunnel (or none any more): find one by name or create it.\<close>

definition adoptOrCreateTunnel :: "CloudflareTunnel \<Rightarrow> 's Client \<Rightarrow> ('s, (Tunnel \<times> tunnelAction) result) state" where
  "adoptOrCreateTunnel tunnel cfClient = do {
     let desiredName = desiredCloudflareTunnelName tunnel;
     listed \<leftarrow> Tunnels_List (Client_Tunnels cfClient) desiredName;
     case listed of
       Inl e \<Rightarrow> return_st (Inl e)
     | Inr existing \<Rightarrow>
         if length existing = 1 then return_st (Inr (hd existing, tunnelActionRecovered))
         else if length existing > 1 then
           return_st (Inl (foreign_tunnel (''multiple Cloudflare tunnels named '' @ quoteq desiredName @ '' exist without local ownership record'')))
         else do {
           legacy \<leftarrow> Tunnels_List (Client_Tunnels cfClient) (TSpec_TunnelName (T_Spec tunnel));
           case legacy of
             Inl e \<Rightarrow> return_st (Inl e)
           | Inr legacyExisting \<Rightarrow>
               if legacyExisting \<noteq> [] then
                 return_st (Inl (foreign_tunnel (''legacy Cloudflare tunnel name '' @ quoteq (TSpec_TunnelName (T_Spec tunnel)) @
                   '' exists without local ownership record; patch status.tunnelId or delete the remote tunnel'')))
               else do {
                 created \<leftarrow> Tunnels_Create (Client_Tunnels cfClient)
                   \<lparr>CreateTunnel_Name = desiredName, CreateTunnel_ConfigSrc = ''cloudflare''\<rparr>;
                 return_st (case created of Inl e \<Rightarrow> Inl e | Inr t \<Rightarrow> Inr (t, tunnelActionCreated)) } } }"

definition reconcileCloudflareTunnel :: "'s TunnelReconciler \<Rightarrow> CloudflareTunnel \<Rightarrow> 's Client \<Rightarrow>
    ('s, CloudflareTunnel \<times> (Tunnel \<times> tunnelAction) result) state" where
  "reconcileCloudflareTunnel r tunnel cfClient =
     (let desiredName = desiredCloudflareTunnelName tunnel
      in if T_TunnelId tunnel = [] then do { res \<leftarrow> adoptOrCreateTunnel tunnel cfClient; return_st (tunnel, res) }
         else do {
           got \<leftarrow> Tunnels_Get (Client_Tunnels cfClient) (T_TunnelId tunnel);
           case got of
             Inl e \<Rightarrow>
               if errors_Is e ErrNotFound then do {
                 let tunnel' = set_tunnel_id [] tunnel;
                 res \<leftarrow> adoptOrCreateTunnel tunnel' cfClient;
                 return_st (tunnel', res) }
               else return_st (tunnel, Inl e)
           | Inr cfTunnel \<Rightarrow>
               if Tunnel_Name cfTunnel = desiredName then return_st (tunnel, Inr (cfTunnel, tunnelActionNone))
               else if Tunnel_Name cfTunnel = TSpec_TunnelName (T_Spec tunnel) then do {
                 renamed \<leftarrow> Tunnels_Rename (Client_Tunnels cfClient) (Tunnel_ID cfTunnel) \<lparr>RenameTunnel_Name = desiredName\<rparr>;
                 case renamed of
                   Inl e \<Rightarrow> return_st (tunnel, Inl e)
                 | Inr t \<Rightarrow> do {
                     _ \<leftarrow> Base_Eventf r (T_Meta tunnel) EventTypeNormal EventRenamedTunnel (''Renamed Cloudflare tunnel '' @ Tunnel_ID t @
                       '' from '' @ TSpec_TunnelName (T_Spec tunnel) @ '' to '' @ desiredName);
                     return_st (tunnel, Inr (t, tunnelActionNone)) } }
               else return_st (tunnel, Inl (foreign_tunnel (''tracked Cloudflare tunnel '' @ Tunnel_ID cfTunnel @ '' has name '' @
                 quoteq (Tunnel_Name cfTunnel) @ '', want '' @ quoteq desiredName))) })"

section \<open>The workload\<close>

definition upsertTokenSecret :: "'s TunnelReconciler \<Rightarrow> CloudflareTunnel \<Rightarrow> string \<Rightarrow> ('s, unit result) state" where
  "upsertTokenSecret r tunnel token = do {
     got \<leftarrow> TR_GetSecret r (T_Namespace tunnel) (TokenSecretName (T_Name tunnel));
     case got of
       Inl e \<Rightarrow>
         if \<not> apierrors_IsNotFound e then return_st (Inl e)
         else let secret = TokenSecret tunnel token
              in (case TR_SetControllerReference r tunnel (Secret_OwnerReferences secret) of
                    Inl e \<Rightarrow> return_st (Inl e)
                  | Inr refs \<Rightarrow> TR_CreateSecret r (secret\<lparr>Secret_OwnerReferences := refs\<rparr>))
     | Inr before \<Rightarrow>
         let secret = ApplyTokenSecret before tunnel token
         in (case TR_SetControllerReference r tunnel (Secret_OwnerReferences secret) of
               Inl e \<Rightarrow> return_st (Inl e)
             | Inr refs \<Rightarrow>
                 let secret = secret\<lparr>Secret_OwnerReferences := refs\<rparr>
                 in if Secret_Labels before = Secret_Labels secret \<and> Secret_OwnerReferences before = Secret_OwnerReferences secret \<and>
                       Secret_Type before = Secret_Type secret \<and> Secret_Data before = Secret_Data secret
                    then return_st (Inr ())
                    else TR_UpdateSecret r secret) }"

definition upsertDaemonSet :: "'s TunnelReconciler \<Rightarrow> CloudflareTunnel \<Rightarrow> string \<Rightarrow> ('s, bool \<times> unit result) state" where
  "upsertDaemonSet r tunnel token = do {
     let checksum = TokenChecksum token;
     got \<leftarrow> TR_GetDaemonSet r (T_Namespace tunnel) (DaemonSetName (T_Name tunnel));
     case got of
       Inl e \<Rightarrow>
         if \<not> apierrors_IsNotFound e then return_st (False, Inl e)
         else let ds = DaemonSet_for tunnel token
              in (case TR_SetControllerReference r tunnel (DS_OwnerReferences ds) of
                    Inl e \<Rightarrow> return_st (False, Inl e)
                  | Inr refs \<Rightarrow> do { res \<leftarrow> TR_CreateDaemonSet r (ds\<lparr>DS_OwnerReferences := refs\<rparr>); return_st (False, res) })
     | Inr before \<Rightarrow>
         let oldChecksum = (case map_of (Template_Annotations (DSpec_Template (DS_Spec before))) TokenChecksumAnnotation of
               None \<Rightarrow> [] | Some v \<Rightarrow> v);
             ds = ApplyDaemonSet before tunnel token
         in (case TR_SetControllerReference r tunnel (DS_OwnerReferences ds) of
               Inl e \<Rightarrow> return_st (False, Inl e)
             | Inr refs \<Rightarrow>
                 let ds = ds\<lparr>DS_OwnerReferences := refs\<rparr>
                 in if DS_Labels before = DS_Labels ds \<and> DS_OwnerReferences before = DS_OwnerReferences ds \<and> DS_Spec before = DS_Spec ds
                    then return_st (False, Inr ())
                    else do {
                      res \<leftarrow> TR_UpdateDaemonSet r ds;
                      return_st (oldChecksum \<noteq> [] \<and> oldChecksum \<noteq> checksum, res) }) }"

definition daemonSetReady :: "'s TunnelReconciler \<Rightarrow> CloudflareTunnel \<Rightarrow> ('s, bool result) state" where
  "daemonSetReady r tunnel = do {
     got \<leftarrow> TR_GetDaemonSet r (T_Namespace tunnel) (DaemonSetName (T_Name tunnel));
     return_st (case got of Inl e \<Rightarrow> Inl e | Inr ds \<Rightarrow> Inr (sint (DS_NumberReady ds) > 0)) }"

definition ensureCloudflaredStopped :: "'s TunnelReconciler \<Rightarrow> CloudflareTunnel \<Rightarrow> ('s, bool result) state" where
  "ensureCloudflaredStopped r tunnel = do {
     got \<leftarrow> TR_GetDaemonSet r (T_Namespace tunnel) (DaemonSetName (T_Name tunnel));
     case got of
       Inr ds \<Rightarrow>
         if DS_DeletionTimestamp ds = None then do {
           res \<leftarrow> TR_DeleteDaemonSet r ds;
           return_st (case res of Inl e \<Rightarrow> if apierrors_IsNotFound e then Inr True else Inl e | Inr _ \<Rightarrow> Inr True) }
         else return_st (Inr True)
     | Inl e \<Rightarrow>
         if \<not> apierrors_IsNotFound e then return_st (Inl e)
         else do {
           pods \<leftarrow> TR_ListPods r (T_Namespace tunnel) (Labels (T_Name tunnel));
           return_st (case pods of Inl e \<Rightarrow> Inl e | Inr ps \<Rightarrow> Inr (ps \<noteq> [])) } }"

definition deleteTokenSecret :: "'s TunnelReconciler \<Rightarrow> string \<Rightarrow> string \<Rightarrow> ('s, unit result) state" where
  "deleteTokenSecret r namespace name = do {
     res \<leftarrow> TR_DeleteSecret r namespace name;
     return_st (case res of Inl e \<Rightarrow> if apierrors_IsNotFound e then Inr () else Inl e | Inr _ \<Rightarrow> Inr ()) }"

section \<open>The configuration\<close>

definition reconcileTunnelConfig :: "'s TunnelReconciler \<Rightarrow> CloudflareTunnel \<Rightarrow> 's Client \<Rightarrow> string \<Rightarrow>
    ('s, (bool \<times> nat) result) state" where
  "reconcileTunnelConfig r tunnel cfClient tunnelID = do {
     listed \<leftarrow> listExposuresByTunnel r (T_Name tunnel);
     case listed of
       Inl e \<Rightarrow> return_st (Inl e)
     | Inr exposures \<Rightarrow>
         (case Build exposures of
            Inl e \<Rightarrow> return_st (Inl e)
          | Inr result \<Rightarrow>
              let ingressDocHash = tunnelConfigurationHash (Result_Config result)
              in if TStatus_IngressDocHash (T_Status tunnel) \<noteq> ingressDocHash \<or>
                    \<not> tunnelRoutesStatusMatches (TStatus_Routes (T_Status tunnel)) (Result_Routes result)
                 then do {
                   upd \<leftarrow> Configurations_Update (Client_Configurations cfClient) tunnelID (Result_Config result);
                   case upd of
                     Inl e \<Rightarrow> return_st (Inl e)
                   | Inr _ \<Rightarrow> do {
                       res \<leftarrow> setTunnelConfigStatus r tunnel (Result_Routes result) ingressDocHash;
                       return_st (case res of Inl e \<Rightarrow> Inl e | Inr _ \<Rightarrow> Inr (True, length (Result_Routes result))) } }
                 else do {
                   res \<leftarrow> setTunnelConfigStatus r tunnel (Result_Routes result) ingressDocHash;
                   return_st (case res of Inl e \<Rightarrow> Inl e | Inr _ \<Rightarrow> Inr (False, length (Result_Routes result))) }) }"

section \<open>Deletion\<close>

definition removeTunnelFinalizer :: "'s TunnelReconciler \<Rightarrow> CloudflareTunnel \<Rightarrow> ('s, ctrl_Result \<times> unit result) state" where
  "removeTunnelFinalizer r tunnel = do {
     res \<leftarrow> TR_UpdateTunnel r (tunnel\<lparr>T_Meta := Base_RemoveFinalizer r (T_Meta tunnel) Finalizer\<rparr>);
     return_st (no_result, unit_result res) }"

text \<open>Ready and Progressing set by hand, then the status written.\<close>

definition blockTunnel :: "'s TunnelReconciler \<Rightarrow> CloudflareTunnel \<Rightarrow> string \<Rightarrow> string \<Rightarrow> string \<Rightarrow> ('s, unit result) state" where
  "blockTunnel r tunnel reason readyMessage progressingMessage = do {
     c1 \<leftarrow> setCondition r (TStatus_Conditions (T_Status tunnel)) ConditionReady ''False'' reason readyMessage (Meta_Generation (T_Meta tunnel));
     c2 \<leftarrow> setCondition r c1 ConditionProgressing ''True'' reason progressingMessage (Meta_Generation (T_Meta tunnel));
     res \<leftarrow> TR_StatusUpdateTunnel r (set_tunnel_conditions c2 tunnel);
     return_st (unit_result res) }"

text \<open>The end of the finalizer: the token Secret, then the finalizer itself.\<close>

definition finishTunnelDelete :: "'s TunnelReconciler \<Rightarrow> CloudflareTunnel \<Rightarrow> bool \<Rightarrow> ('s, ctrl_Result \<times> unit result) state" where
  "finishTunnelDelete r tunnel deletedTunnel = do {
     sec \<leftarrow> deleteTokenSecret r (T_Namespace tunnel) (TokenSecretName (T_Name tunnel));
     case sec of
       Inl e \<Rightarrow> return_st (no_result, Inl e)
     | Inr _ \<Rightarrow> do {
         _ \<leftarrow> (if deletedTunnel then Base_Eventf r (T_Meta tunnel) EventTypeNormal EventDeletedTunnel
                  (''Deleted Cloudflare tunnel '' @ T_TunnelId tunnel) else return_st ());
         removeTunnelFinalizer r tunnel } }"

definition deleteCloudflareTunnel :: "'s TunnelReconciler \<Rightarrow> CloudflareTunnel \<Rightarrow> ('s, ctrl_Result \<times> unit result) state" where
  "deleteCloudflareTunnel r tunnel =
     (if T_TunnelId tunnel = [] then finishTunnelDelete r tunnel False
      else do {
        client \<leftarrow> CloudflareClient r (credentialsRefFromTunnel tunnel);
        case client of
          Inl e \<Rightarrow> do {
            st \<leftarrow> setTunnelStatus r tunnel (T_TunnelId tunnel) (TokenSecretName (T_Name tunnel)) False ReasonCredentialsMissing (error_text e);
            return_st (case st of Inl e \<Rightarrow> (no_result, Inl e) | Inr _ \<Rightarrow> (after (30 * second), Inr ())) }
        | Inr cfClient \<Rightarrow> do {
            got \<leftarrow> Tunnels_Get (Client_Tunnels cfClient) (T_TunnelId tunnel);
            if (case got of Inl e \<Rightarrow> \<not> errors_Is e ErrNotFound | Inr _ \<Rightarrow> False) then return_st (no_result, unit_result got)
            else if (case got of Inl _ \<Rightarrow> False | Inr cfTunnel \<Rightarrow> Tunnel_Name cfTunnel \<noteq> desiredCloudflareTunnelName tunnel \<and>
                Tunnel_Name cfTunnel \<noteq> TSpec_TunnelName (T_Spec tunnel)) then do {
              res \<leftarrow> blockTunnel r tunnel ReasonForeignTunnel ''tracked Cloudflare tunnel name does not match desired or legacy tunnel name''
                ''deletion blocked to avoid deleting a foreign Cloudflare tunnel'';
              return_st (no_result, res) }
            else do {
              del \<leftarrow> Tunnels_Delete (Client_Tunnels cfClient) (T_TunnelId tunnel);
              if (case del of Inl e \<Rightarrow> \<not> errors_Is e ErrNotFound | Inr _ \<Rightarrow> False) then return_st (no_result, del)
              else finishTunnelDelete r tunnel (case del of Inl _ \<Rightarrow> False | Inr _ \<Rightarrow> True) } } })"

definition Tunnel_reconcileDelete :: "'s TunnelReconciler \<Rightarrow> CloudflareTunnel \<Rightarrow> ('s, ctrl_Result \<times> unit result) state" where
  "Tunnel_reconcileDelete r tunnel =
     (if \<not> Base_ContainsFinalizer r (T_Meta tunnel) Finalizer then return_st (no_result, Inr ())
      else do {
        listed \<leftarrow> listExposuresByTunnel r (T_Name tunnel);
        case listed of
          Inl e \<Rightarrow> return_st (no_result, Inl e)
        | Inr exposures \<Rightarrow>
            if exposures \<noteq> [] then do {
              res \<leftarrow> blockTunnel r tunnel ReasonBlockedByExposures ''CloudflareTunnel still has referencing CloudflareExposures''
                ''waiting for CloudflareExposures to be deleted'';
              case res of
                Inl e \<Rightarrow> return_st (no_result, Inl e)
              | Inr _ \<Rightarrow> do {
                  _ \<leftarrow> Base_Eventf r (T_Meta tunnel) EventTypeWarning EventBlockedByExposures
                    (''Deletion blocked by '' @ itoa (int (length exposures)) @ '' CloudflareExposure resources'');
                  return_st (after (30 * second), Inr ()) } }
            else do {
              routesRes \<leftarrow> listRoutesByTunnel r (T_Name tunnel);
              case routesRes of
                Inl e \<Rightarrow> return_st (no_result, Inl e)
              | Inr routes \<Rightarrow>
                  if routes \<noteq> [] then do {
                    res \<leftarrow> blockTunnel r tunnel ReasonBlockedByRoutes ''CloudflareTunnel still has referencing CloudflareTunnelRoutes''
                      ''waiting for CloudflareTunnelRoutes to be deleted'';
                    case res of
                      Inl e \<Rightarrow> return_st (no_result, Inl e)
                    | Inr _ \<Rightarrow> do {
                        _ \<leftarrow> Base_Eventf r (T_Meta tunnel) EventTypeWarning EventBlockedByRoutes
                          (''Deletion blocked by '' @ itoa (int (length routes)) @ '' CloudflareTunnelRoute resources'');
                        return_st (after (30 * second), Inr ()) } }
                  else do {
                    stopped \<leftarrow> ensureCloudflaredStopped r tunnel;
                    case stopped of
                      Inl e \<Rightarrow> return_st (no_result, Inl e)
                    | Inr waitingForWorkload \<Rightarrow>
                        if waitingForWorkload then do {
                          res \<leftarrow> setReadyTunnel r tunnel False ReasonWorkloadNotReady
                            ''waiting for cloudflared DaemonSet to terminate before deleting Cloudflare tunnel'' (\<lambda>t. t);
                          return_st (case res of Inl e \<Rightarrow> (no_result, Inl e) | Inr _ \<Rightarrow> (after (10 * second), Inr ())) }
                        else deleteCloudflareTunnel r tunnel } } })"

section \<open>Reconcile\<close>

text \<open>The workload, the configuration and the Ready condition, for a known Cloudflare tunnel.\<close>

definition reconcileConnected :: "'s TunnelReconciler \<Rightarrow> CloudflareTunnel \<Rightarrow> 's Client \<Rightarrow> Tunnel \<Rightarrow>
    ('s, ctrl_Result \<times> unit result) state" where
  "reconcileConnected r tunnel cfClient cfTunnel = do {
     configured \<leftarrow> reconcileTunnelConfig r tunnel cfClient (Tunnel_ID cfTunnel);
     case configured of
       Inl e \<Rightarrow>
         (case e of
            ErrHostnames hs \<Rightarrow> do {
              st \<leftarrow> setTunnelStatus r tunnel (Tunnel_ID cfTunnel) (TokenSecretName (T_Name tunnel)) False ReasonHostnameConflict (error_text e);
              return_st (case st of Inl e \<Rightarrow> (no_result, Inl e) | Inr _ \<Rightarrow> (after (30 * second), Inr ())) }
          | _ \<Rightarrow> return_st (no_result, Inl e))
     | Inr (configUpdated, routeCount) \<Rightarrow> do {
         _ \<leftarrow> (if configUpdated then Base_Eventf r (T_Meta tunnel) EventTypeNormal EventUpdatedTunnelConfig
                  (''Updated Cloudflare tunnel configuration '' @ Tunnel_ID cfTunnel @ '' with '' @ itoa (int routeCount) @ '' hostname routes'')
               else return_st ());
         readyRes \<leftarrow> daemonSetReady r tunnel;
         case readyRes of
           Inl e \<Rightarrow> return_st (no_result, Inl e)
         | Inr ready \<Rightarrow> do {
             st \<leftarrow> (if \<not> ready then setTunnelStatus r tunnel (Tunnel_ID cfTunnel) (TokenSecretName (T_Name tunnel)) False
                       ReasonWorkloadNotReady ''cloudflared DaemonSet has no ready pods''
                    else setTunnelStatus r tunnel (Tunnel_ID cfTunnel) (TokenSecretName (T_Name tunnel)) True
                       ReasonReconciled ''Tunnel and cloudflared workload reconciled'');
             return_st (no_result, st) } } }"

definition reconcileToken :: "'s TunnelReconciler \<Rightarrow> CloudflareTunnel \<Rightarrow> 's Client \<Rightarrow> Tunnel \<Rightarrow>
    ('s, ctrl_Result \<times> unit result) state" where
  "reconcileToken r tunnel cfClient cfTunnel = do {
     fetched \<leftarrow> Tunnels_Token (Client_Tunnels cfClient) (Tunnel_ID cfTunnel);
     case fetched of
       Inl e \<Rightarrow> do {
         st \<leftarrow> setTunnelStatus r tunnel (Tunnel_ID cfTunnel) (TokenSecretName (T_Name tunnel)) False ReasonTokenFetchFailed (error_text e);
         return_st (case st of Inl e' \<Rightarrow> (no_result, Inl e') | Inr _ \<Rightarrow> (no_result, Inl (ErrWrap (ReasonTokenFetchFailed @ '': '') e []))) }
     | Inr token \<Rightarrow> do {
         sec \<leftarrow> upsertTokenSecret r tunnel token;
         case sec of
           Inl e \<Rightarrow> return_st (no_result, Inl e)
         | Inr _ \<Rightarrow> do {
             ds \<leftarrow> upsertDaemonSet r tunnel token;
             case ds of (rotated, res) \<Rightarrow>
               (case res of
                  Inl e \<Rightarrow> return_st (no_result, Inl e)
                | Inr _ \<Rightarrow> do {
                    _ \<leftarrow> (if rotated then Base_Eventf r (T_Meta tunnel) EventTypeNormal EventTokenRotated
                             (''Token checksum changed for tunnel '' @ T_Name tunnel) else return_st ());
                    reconcileConnected r tunnel cfClient cfTunnel }) } } }"

definition tunnel_action_event :: "'s TunnelReconciler \<Rightarrow> CloudflareTunnel \<Rightarrow> Tunnel \<Rightarrow> tunnelAction \<Rightarrow> ('s, unit) state" where
  "tunnel_action_event r tunnel cfTunnel action =
     (case action of
        tunnelActionCreated \<Rightarrow> Base_Eventf r (T_Meta tunnel) EventTypeNormal EventCreatedTunnel (''Created Cloudflare tunnel '' @ Tunnel_ID cfTunnel)
      | tunnelActionRecovered \<Rightarrow> Base_Eventf r (T_Meta tunnel) EventTypeNormal EventRecoveredTunnel
          (''Recovered Cloudflare tunnel '' @ Tunnel_ID cfTunnel @ '' from generated name '' @ Tunnel_Name cfTunnel)
      | tunnelActionNone \<Rightarrow> return_st ())"

text \<open>What \<open>Reconcile\<close> does with the outcome of \<open>reconcileCloudflareTunnel\<close>.\<close>

definition reconcileIdentity :: "'s TunnelReconciler \<Rightarrow> 's Client \<Rightarrow> CloudflareTunnel \<times> (Tunnel \<times> tunnelAction) result \<Rightarrow>
    ('s, ctrl_Result \<times> unit result) state" where
  "reconcileIdentity r cfClient identity =
     (case identity of (tunnel1, res) \<Rightarrow>
       (case res of
          Inl e \<Rightarrow>
            if errors_Is e errForeignTunnel then do {
              st \<leftarrow> setTunnelStatus r tunnel1 (T_TunnelId tunnel1) (TokenSecretName (T_Name tunnel1)) False ReasonForeignTunnel (error_text e);
              return_st (no_result, st) }
            else return_st (no_result, Inl e)
        | Inr (cfTunnel, action) \<Rightarrow> do {
            st \<leftarrow> (if T_TunnelId tunnel1 \<noteq> Tunnel_ID cfTunnel then
                     setTunnelStatus r tunnel1 (Tunnel_ID cfTunnel) (TokenSecretName (T_Name tunnel1)) False ReasonTunnelCreating
                       ''Cloudflare tunnel identity reconciled''
                   else return_st (Inr ()));
            case st of
              Inl e \<Rightarrow> return_st (no_result, Inl e)
            | Inr _ \<Rightarrow> do {
                let tunnel2 = set_tunnel_id (Tunnel_ID cfTunnel) tunnel1;
                _ \<leftarrow> tunnel_action_event r tunnel2 cfTunnel action;
                reconcileToken r tunnel2 cfClient cfTunnel } }))"

definition reconcileTunnelLive :: "'s TunnelReconciler \<Rightarrow> CloudflareTunnel \<Rightarrow> ('s, ctrl_Result \<times> unit result) state" where
  "reconcileTunnelLive r tunnel =
     (if length (desiredCloudflareTunnelName tunnel) > 120 then do {
        st \<leftarrow> setTunnelStatus r tunnel (T_TunnelId tunnel) (TokenSecretName (T_Name tunnel)) False ReasonTunnelNameInvalid
          ''generated Cloudflare tunnel name exceeds 120 characters; recreate the CloudflareTunnel with spec.tunnelName at most 106 characters'';
        return_st (no_result, st) }
      else do {
        client \<leftarrow> CloudflareClient r (credentialsRefFromTunnel tunnel);
        case client of
          Inl e \<Rightarrow> do {
            st \<leftarrow> setTunnelStatus r tunnel (T_TunnelId tunnel) (TokenSecretName (T_Name tunnel)) False ReasonCredentialsMissing (error_text e);
            return_st (case st of Inl e \<Rightarrow> (no_result, Inl e) | Inr _ \<Rightarrow> (after (30 * second), Inr ())) }
        | Inr cfClient \<Rightarrow> do {
            identity \<leftarrow> reconcileCloudflareTunnel r tunnel cfClient;
            reconcileIdentity r cfClient identity } })"

definition Tunnel_Reconcile :: "'s TunnelReconciler \<Rightarrow> string \<Rightarrow> ('s, ctrl_Result \<times> unit result) state" where
  "Tunnel_Reconcile r name = do {
     got \<leftarrow> Base_GetTunnel r name;
     case got of
       Inl e \<Rightarrow> return_st (no_result, if apierrors_IsNotFound e then Inr () else Inl e)
     | Inr tunnel \<Rightarrow>
         if Meta_DeletionTimestamp (T_Meta tunnel) \<noteq> None then Tunnel_reconcileDelete r tunnel
         else (case Base_AddFinalizer r (T_Meta tunnel) Finalizer of (meta, added) \<Rightarrow>
           if added then do {
             res \<leftarrow> TR_UpdateTunnel r (tunnel\<lparr>T_Meta := meta\<rparr>);
             return_st (no_result, unit_result res) }
           else reconcileTunnelLive r tunnel) }"

end
