(* ===== verification/Tunnel_Safety.thy ===== *)
theory Tunnel_Safety
  imports Tunnel_Controller Erasure_Rules
begin

text \<open>
  The safety guard of the tunnel controller. \<open>tunnel_ok t\<close> is what a call may be, given the calls
  before it, in a pass over the tunnel \<open>t\<close>: a Cloudflare tunnel is created only when none of its names
  exists, renamed or deleted only after a read showed its name, the configuration document is the one
  that \<open>Build\<close> gives for the exposures just listed, and nothing is deleted before every reference and
  the workload are gone.
\<close>

section \<open>The guard\<close>

definition untracked :: "CloudflareTunnel \<Rightarrow> call set \<Rightarrow> bool" where
  "untracked t seen \<longleftrightarrow> T_TunnelId t = [] \<or> (\<exists>e. EvTunnelsGet (T_TunnelId t) (Inl e) \<in> seen \<and> errors_Is e ErrNotFound)"

text \<open>Nothing refers to the tunnel any more and its workload is gone.\<close>

definition released :: "CloudflareTunnel \<Rightarrow> call set \<Rightarrow> bool" where
  "released t seen \<longleftrightarrow> EvListExposures exposureIndexTunnelRefName (T_Name t) (Inr []) \<in> seen \<and>
     EvListRoutes tunnelRouteIndexTunnelRef (T_Name t) (Inr []) \<in> seen \<and>
     (\<exists>e. EvGetDaemonSet (T_Namespace t) (DaemonSetName (T_Name t)) (Inl e) \<in> seen \<and> apierrors_IsNotFound e) \<and>
     EvListPods (T_Namespace t) (Labels (T_Name t)) (Inr []) \<in> seen"

text \<open>The tracked Cloudflare tunnel was read: it is gone, or it has one of the two names.\<close>

definition own_or_gone :: "CloudflareTunnel \<Rightarrow> call set \<Rightarrow> bool" where
  "own_or_gone t seen \<longleftrightarrow> (\<exists>res. EvTunnelsGet (T_TunnelId t) res \<in> seen \<and> (case res of
      Inl e \<Rightarrow> errors_Is e ErrNotFound
    | Inr cf \<Rightarrow> Tunnel_Name cf \<in> {desiredCloudflareTunnelName t, TSpec_TunnelName (T_Spec t)}))"

definition tunnel_removed :: "CloudflareTunnel \<Rightarrow> call set \<Rightarrow> bool" where
  "tunnel_removed t seen \<longleftrightarrow> T_TunnelId t = [] \<or>
     (\<exists>res. EvTunnelsDelete (T_TunnelId t) res \<in> seen \<and> (case res of Inl e \<Rightarrow> errors_Is e ErrNotFound | Inr _ \<Rightarrow> True))"

text \<open>The ID belongs to the tunnel: by its tracked ID and name, by its unique name, or by having made it.\<close>

definition identified :: "CloudflareTunnel \<Rightarrow> string \<Rightarrow> call set \<Rightarrow> bool" where
  "identified t k seen \<longleftrightarrow>
     (\<exists>cf. EvTunnelsGet (T_TunnelId t) (Inr cf) \<in> seen \<and> Tunnel_Name cf = desiredCloudflareTunnelName t \<and> Tunnel_ID cf = k) \<or>
     (\<exists>cf. EvTunnelsList (desiredCloudflareTunnelName t) (Inr [cf]) \<in> seen \<and> Tunnel_ID cf = k) \<or>
     (\<exists>i cf. EvTunnelsCreate i (Inr cf) \<in> seen \<and> Tunnel_ID cf = k) \<or>
     (\<exists>j i cf. EvTunnelsRename j i (Inr cf) \<in> seen \<and> Tunnel_ID cf = k)"

definition built :: "CloudflareTunnel \<Rightarrow> TunnelConfiguration \<Rightarrow> call set \<Rightarrow> bool" where
  "built t cfg seen \<longleftrightarrow> (\<exists>exposures result. EvListExposures exposureIndexTunnelRefName (T_Name t) (Inr exposures) \<in> seen \<and>
     Build exposures = Inr result \<and> cfg = Result_Config result)"

fun tunnel_ok :: "CloudflareTunnel \<Rightarrow> call set \<Rightarrow> call \<Rightarrow> bool" where
  "tunnel_ok t seen (EvTunnelsCreate i _) = (CreateTunnel_Name i = desiredCloudflareTunnelName t \<and> untracked t seen \<and>
     EvTunnelsList (desiredCloudflareTunnelName t) (Inr []) \<in> seen \<and> EvTunnelsList (TSpec_TunnelName (T_Spec t)) (Inr []) \<in> seen)"
| "tunnel_ok t seen (EvTunnelsRename k i _) = (RenameTunnel_Name i = desiredCloudflareTunnelName t \<and>
     (\<exists>cf. EvTunnelsGet (T_TunnelId t) (Inr cf) \<in> seen \<and> Tunnel_ID cf = k \<and> Tunnel_Name cf = TSpec_TunnelName (T_Spec t)))"
| "tunnel_ok t seen (EvTunnelsDelete k _) = (k = T_TunnelId t \<and> k \<noteq> [] \<and> Meta_DeletionTimestamp (T_Meta t) \<noteq> None \<and>
     released t seen \<and> own_or_gone t seen)"
| "tunnel_ok t seen (EvConfigUpdate k cfg _) = (identified t k seen \<and> built t cfg seen)"
| "tunnel_ok t seen (EvUpdateTunnel u _) = (Meta_DeletionTimestamp (T_Meta t) = None \<or> released t seen \<and> tunnel_removed t seen)"
| "tunnel_ok t seen e = (\<not> cloudflare_write e)"

lemma tunnel_seen_mono:
  "untracked t K \<Longrightarrow> K \<subseteq> K' \<Longrightarrow> untracked t K'" "released t K \<Longrightarrow> K \<subseteq> K' \<Longrightarrow> released t K'"
  "own_or_gone t K \<Longrightarrow> K \<subseteq> K' \<Longrightarrow> own_or_gone t K'" "tunnel_removed t K \<Longrightarrow> K \<subseteq> K' \<Longrightarrow> tunnel_removed t K'"
  "identified t k K \<Longrightarrow> K \<subseteq> K' \<Longrightarrow> identified t k K'" "built t cfg K \<Longrightarrow> K \<subseteq> K' \<Longrightarrow> built t cfg K'"
  unfolding untracked_def released_def own_or_gone_def tunnel_removed_def identified_def built_def by blast+

lemma identifiedI:
  "EvTunnelsGet (T_TunnelId t) (Inr cf) \<in> seen \<Longrightarrow> Tunnel_Name cf = desiredCloudflareTunnelName t \<Longrightarrow> identified t (Tunnel_ID cf) seen"
  "EvTunnelsList (desiredCloudflareTunnelName t) (Inr existing) \<in> seen \<Longrightarrow> length existing = Suc 0 \<Longrightarrow> identified t (Tunnel_ID (hd existing)) seen"
  "EvTunnelsCreate i (Inr cf) \<in> seen \<Longrightarrow> identified t (Tunnel_ID cf) seen"
  "EvTunnelsRename j ri (Inr cf) \<in> seen \<Longrightarrow> identified t (Tunnel_ID cf) seen"
proof -
  show "EvTunnelsList (desiredCloudflareTunnelName t) (Inr existing) \<in> seen \<Longrightarrow> length existing = Suc 0 \<Longrightarrow> identified t (Tunnel_ID (hd existing)) seen"
    by (auto simp: identified_def length_Suc_conv)
qed (unfold identified_def, blast+)

lemma no_element: "length xs \<noteq> Suc 0 \<Longrightarrow> \<not> Suc 0 < length xs \<Longrightarrow> xs = []"
  by (cases xs) auto

interpretation tguard: guard "tunnel_ok t" for t
proof
  fix K e K' assume "tunnel_ok t K e" "K \<subseteq> K'"
  then show "tunnel_ok t K' e" by (cases e) (auto intro: tunnel_seen_mono)
qed

section \<open>The recording tunnel reconciler\<close>

locale tunnel_monitor = base_monitor r log
  for r :: "'s TunnelReconciler" and log :: "'s \<Rightarrow> call list" +
  assumes update_tunnel: "records log (TR_UpdateTunnel r t) (EvUpdateTunnel t)"
    and status_update_tunnel: "quiet log (TR_StatusUpdateTunnel r t)"
    and list_routes: "records log (TR_ListRoutes r f v) (EvListRoutes f v)"
    and get_secret: "quiet log (TR_GetSecret r ns n)"
    and create_secret: "quiet log (TR_CreateSecret r se)"
    and update_secret: "quiet log (TR_UpdateSecret r se)"
    and delete_secret: "quiet log (TR_DeleteSecret r ns n)"
    and get_daemonset: "records log (TR_GetDaemonSet r ns n) (EvGetDaemonSet ns n)"
    and create_daemonset: "quiet log (TR_CreateDaemonSet r ds)"
    and update_daemonset: "quiet log (TR_UpdateDaemonSet r ds)"
    and delete_daemonset: "quiet log (TR_DeleteDaemonSet r ds)"
    and list_pods: "records log (TR_ListPods r ns ls) (EvListPods ns ls)"

definition logged_tunnel :: "'s TunnelReconciler \<Rightarrow> ('s \<times> call list) TunnelReconciler" where
  "logged_tunnel r = logged_base r (TunnelReconciler.fields
     (\<lambda>t. tell (TR_UpdateTunnel r t) (EvUpdateTunnel t)) (\<lambda>t. lift_log (TR_StatusUpdateTunnel r t))
     (\<lambda>f v. tell (TR_ListRoutes r f v) (EvListRoutes f v)) (\<lambda>ns n. lift_log (TR_GetSecret r ns n))
     (\<lambda>se. lift_log (TR_CreateSecret r se)) (\<lambda>se. lift_log (TR_UpdateSecret r se)) (\<lambda>ns n. lift_log (TR_DeleteSecret r ns n))
     (\<lambda>ns n. tell (TR_GetDaemonSet r ns n) (EvGetDaemonSet ns n)) (\<lambda>ds. lift_log (TR_CreateDaemonSet r ds))
     (\<lambda>ds. lift_log (TR_UpdateDaemonSet r ds)) (\<lambda>ds. lift_log (TR_DeleteDaemonSet r ds))
     (\<lambda>ns ls. tell (TR_ListPods r ns ls) (EvListPods ns ls)) (TR_SetControllerReference r))"

lemma logged_tunnel_fields:
  "TR_UpdateTunnel (logged_tunnel r) t = tell (TR_UpdateTunnel r t) (EvUpdateTunnel t)"
  "TR_StatusUpdateTunnel (logged_tunnel r) t = lift_log (TR_StatusUpdateTunnel r t)"
  "TR_ListRoutes (logged_tunnel r) f v = tell (TR_ListRoutes r f v) (EvListRoutes f v)"
  "TR_GetSecret (logged_tunnel r) ns n = lift_log (TR_GetSecret r ns n)"
  "TR_CreateSecret (logged_tunnel r) se = lift_log (TR_CreateSecret r se)"
  "TR_UpdateSecret (logged_tunnel r) se = lift_log (TR_UpdateSecret r se)"
  "TR_DeleteSecret (logged_tunnel r) ns n = lift_log (TR_DeleteSecret r ns n)"
  "TR_GetDaemonSet (logged_tunnel r) ns n = tell (TR_GetDaemonSet r ns n) (EvGetDaemonSet ns n)"
  "TR_CreateDaemonSet (logged_tunnel r) ds = lift_log (TR_CreateDaemonSet r ds)"
  "TR_UpdateDaemonSet (logged_tunnel r) ds = lift_log (TR_UpdateDaemonSet r ds)"
  "TR_DeleteDaemonSet (logged_tunnel r) ds = lift_log (TR_DeleteDaemonSet r ds)"
  "TR_ListPods (logged_tunnel r) ns ls = tell (TR_ListPods r ns ls) (EvListPods ns ls)"
  by (simp_all add: logged_tunnel_def logged_base_def TunnelReconciler.defs)

lemma logged_tunnel_pure: "TR_SetControllerReference (logged_tunnel r) = TR_SetControllerReference r"
  by (simp add: logged_tunnel_def logged_base_def TunnelReconciler.defs)

interpretation logged_tunnel: tunnel_monitor "logged_tunnel r" snd for r
proof (rule tunnel_monitor.intro, goal_cases)
  case 1
  show ?case unfolding logged_tunnel_def by (rule logged_base.base_monitor_axioms)
next
  case 2
  show ?case by unfold_locales (simp_all add: logged_tunnel_fields quiet_lift_log records_tell)
qed

lemma erases_case_tunnelAction [erasure]:
  "erases m1' m1 \<Longrightarrow> erases m2' m2 \<Longrightarrow> erases m3' m3 \<Longrightarrow>
     erases (case_tunnelAction m1' m2' m3' a) (case_tunnelAction m1 m2 m3 a)"
  by (cases a) auto

interpretation tunnel_log: base_erasure "logged_tunnel r" r for r
  by unfold_locales (auto simp: logged_tunnel_def)

lemma erases_tunnel_calls [erasure]:
  "erases (TR_UpdateTunnel (logged_tunnel r) t) (TR_UpdateTunnel r t)"
  "erases (TR_StatusUpdateTunnel (logged_tunnel r) t) (TR_StatusUpdateTunnel r t)"
  "erases (TR_ListRoutes (logged_tunnel r) f v) (TR_ListRoutes r f v)"
  "erases (TR_GetSecret (logged_tunnel r) ns n) (TR_GetSecret r ns n)"
  "erases (TR_CreateSecret (logged_tunnel r) se) (TR_CreateSecret r se)"
  "erases (TR_UpdateSecret (logged_tunnel r) se) (TR_UpdateSecret r se)"
  "erases (TR_DeleteSecret (logged_tunnel r) ns n) (TR_DeleteSecret r ns n)"
  "erases (TR_GetDaemonSet (logged_tunnel r) ns n) (TR_GetDaemonSet r ns n)"
  "erases (TR_CreateDaemonSet (logged_tunnel r) ds) (TR_CreateDaemonSet r ds)"
  "erases (TR_UpdateDaemonSet (logged_tunnel r) ds) (TR_UpdateDaemonSet r ds)"
  "erases (TR_DeleteDaemonSet (logged_tunnel r) ds) (TR_DeleteDaemonSet r ds)"
  "erases (TR_ListPods (logged_tunnel r) ns ls) (TR_ListPods r ns ls)"
  by (simp_all add: logged_tunnel_fields erases_lift_log erases_tell)

lemmas tunnel_pure = tunnel_log.pure logged_tunnel_pure

lemma erases_tunnel_status [erasure]:
  "erases (setReadyTunnel (logged_tunnel r) t b re msg f) (setReadyTunnel r t b re msg f)"
  "erases (blockTunnel (logged_tunnel r) t re m1 m2) (blockTunnel r t re m1 m2)"
  unfolding setReadyTunnel_def blockTunnel_def by (intro erasure)+

lemma erases_setTunnelStatus [erasure]:
  "erases (setTunnelStatus (logged_tunnel r) t i n b re msg) (setTunnelStatus r t i n b re msg)"
  "erases (setTunnelConfigStatus (logged_tunnel r) t rs h) (setTunnelConfigStatus r t rs h)"
  unfolding setTunnelStatus_def setTunnelConfigStatus_def by (intro erasure)+

lemma erases_adoptOrCreateTunnel [erasure]: "erases (adoptOrCreateTunnel t (logged_client c)) (adoptOrCreateTunnel t c)"
  unfolding adoptOrCreateTunnel_def by (intro erasure)

lemma erases_reconcileCloudflareTunnel [erasure]:
  "erases (reconcileCloudflareTunnel (logged_tunnel r) t (logged_client c)) (reconcileCloudflareTunnel r t c)"
  unfolding reconcileCloudflareTunnel_def by (intro erasure)

lemma erases_workload [erasure]:
  "erases (upsertTokenSecret (logged_tunnel r) t tok) (upsertTokenSecret r t tok)"
  "erases (upsertDaemonSet (logged_tunnel r) t tok) (upsertDaemonSet r t tok)"
  "erases (daemonSetReady (logged_tunnel r) t) (daemonSetReady r t)"
  "erases (ensureCloudflaredStopped (logged_tunnel r) t) (ensureCloudflaredStopped r t)"
  "erases (deleteTokenSecret (logged_tunnel r) ns n) (deleteTokenSecret r ns n)"
  unfolding upsertTokenSecret_def upsertDaemonSet_def daemonSetReady_def ensureCloudflaredStopped_def deleteTokenSecret_def tunnel_pure
  by (intro erasure)+

lemma erases_reconcileTunnelConfig [erasure]:
  "erases (reconcileTunnelConfig (logged_tunnel r) t (logged_client c) k) (reconcileTunnelConfig r t c k)"
  unfolding reconcileTunnelConfig_def by (intro erasure)

lemma erases_removeTunnelFinalizer [erasure]: "erases (removeTunnelFinalizer (logged_tunnel r) t) (removeTunnelFinalizer r t)"
  unfolding removeTunnelFinalizer_def tunnel_pure by (intro erasure)

lemma erases_finishTunnelDelete [erasure]: "erases (finishTunnelDelete (logged_tunnel r) t b) (finishTunnelDelete r t b)"
  unfolding finishTunnelDelete_def by (intro erasure)

lemma erases_deleteCloudflareTunnel [erasure]: "erases (deleteCloudflareTunnel (logged_tunnel r) t) (deleteCloudflareTunnel r t)"
  unfolding deleteCloudflareTunnel_def by (intro erasure)

lemma erases_listRoutesByTunnel [erasure]: "erases (listRoutesByTunnel (logged_tunnel r) n) (listRoutesByTunnel r n)"
  unfolding listRoutesByTunnel_def by (intro erasure)

lemma erases_Tunnel_reconcileDelete [erasure]: "erases (Tunnel_reconcileDelete (logged_tunnel r) t) (Tunnel_reconcileDelete r t)"
  unfolding Tunnel_reconcileDelete_def tunnel_pure by (intro erasure)

lemma erases_reconcileConnected [erasure]:
  "erases (reconcileConnected (logged_tunnel r) t (logged_client c) cf) (reconcileConnected r t c cf)"
  unfolding reconcileConnected_def by (intro erasure)

lemma erases_reconcileToken [erasure]:
  "erases (reconcileToken (logged_tunnel r) t (logged_client c) cf) (reconcileToken r t c cf)"
  unfolding reconcileToken_def by (intro erasure)

lemma erases_tunnel_action_event [erasure]: "erases (tunnel_action_event (logged_tunnel r) t cf a) (tunnel_action_event r t cf a)"
  unfolding tunnel_action_event_def by (intro erasure)

lemma erases_reconcileIdentity [erasure]:
  "erases (reconcileIdentity (logged_tunnel r) (logged_client c) out) (reconcileIdentity r c out)"
  unfolding reconcileIdentity_def by (intro erasure)

lemma erases_reconcileTunnelLive [erasure]: "erases (reconcileTunnelLive (logged_tunnel r) t) (reconcileTunnelLive r t)"
  unfolding reconcileTunnelLive_def by (intro erasure)

lemma erases_Tunnel_Reconcile: "erases (Tunnel_Reconcile (logged_tunnel r) n) (Tunnel_Reconcile r n)"
  unfolding Tunnel_Reconcile_def tunnel_pure by (intro erasure)

section \<open>The handlers keep the guard\<close>

lemma neutral_tunnel_calls [simp]:
  "tunnel_ok t K (EvNow tm)" "tunnel_ok t K (EvListExposures f v er)" "tunnel_ok t K (EvListRoutes f v rr)"
  "tunnel_ok t K (EvGetDaemonSet ns n dr)" "tunnel_ok t K (EvListPods ns ls pr)" "tunnel_ok t K (EvTunnelsList n lr)"
  "tunnel_ok t K (EvTunnelsGet k tr)"
  by simp_all

text \<open>The tunnel of the pass: its metadata and spec are those of \<open>t\<close>.\<close>

definition same_tunnel :: "CloudflareTunnel \<Rightarrow> CloudflareTunnel \<Rightarrow> bool" where
  "same_tunnel t u \<longleftrightarrow> T_Meta u = T_Meta t \<and> T_Spec u = T_Spec t"

lemma same_tunnel_refl [simp]: "same_tunnel t t"
  by (simp add: same_tunnel_def)

lemma same_tunnel_id [simp]: "same_tunnel t (set_tunnel_id i u) \<longleftrightarrow> same_tunnel t u"
  by (simp add: same_tunnel_def set_tunnel_id_def)

lemma same_tunnel_name: "same_tunnel t u \<Longrightarrow> desiredCloudflareTunnelName u = desiredCloudflareTunnelName t"
  by (simp add: same_tunnel_def desiredCloudflareTunnelName_def)

context tunnel_monitor
begin

abbreviation tsafe :: "CloudflareTunnel \<Rightarrow> call set \<Rightarrow> ('s, 'a) state \<Rightarrow> bool" where
  "tsafe t K m \<equiv> safe log (tunnel_ok t) K m"

lemmas quiet_calls =
  triple_bind_quiet [OF get_tunnel] triple_bind_quiet [OF eventf] triple_bind_quiet [OF status_update_tunnel]
  triple_bind_quiet [OF get_secret] triple_bind_quiet [OF create_secret] triple_bind_quiet [OF update_secret]
  triple_bind_quiet [OF delete_secret] triple_bind_quiet [OF create_daemonset] triple_bind_quiet [OF update_daemonset]
  triple_bind_quiet [OF delete_daemonset]

lemmas read_calls =
  tguard.triple_bind_records [OF wall_clock neutral_tunnel_calls(1)]
  tguard.triple_bind_records [OF list_exposures neutral_tunnel_calls(2)]
  tguard.triple_bind_records [OF list_routes neutral_tunnel_calls(3)]
  tguard.triple_bind_records [OF get_daemonset neutral_tunnel_calls(4)]
  tguard.triple_bind_records [OF list_pods neutral_tunnel_calls(5)]

lemmas quiet_tails = safe_return triple_quiet [OF eventf] triple_quiet [OF create_secret] triple_quiet [OF update_secret]
  triple_quiet [OF create_daemonset] triple_quiet [OF update_daemonset]

lemma tsafe_setCondition: "tsafe t K (setCondition r cs ty st re msg g)"
  unfolding setCondition_def by (intro read_calls quiet_tails)

lemma tsafe_setReadyTunnel: "tsafe t K (setReadyTunnel r u b re msg f)"
  unfolding setReadyTunnel_def setReady_def
  by (intro triple_let triple_bind_safe [OF tsafe_setCondition] triple_if quiet_calls quiet_tails)

lemma tsafe_setTunnelStatus: "tsafe t K (setTunnelStatus r u i n b re msg)"
  unfolding setTunnelStatus_def by (intro quiet_calls triple_case_sum quiet_tails tsafe_setReadyTunnel)

lemma tsafe_setTunnelConfigStatus: "tsafe t K (setTunnelConfigStatus r u rs h)"
  unfolding setTunnelConfigStatus_def by (intro quiet_calls read_calls triple_case_sum triple_let triple_if quiet_tails)

lemma tsafe_blockTunnel: "tsafe t K (blockTunnel r u re m1 m2)"
  unfolding blockTunnel_def by (intro triple_bind_safe [OF tsafe_setCondition] quiet_calls quiet_tails)

lemma tsafe_upsertTokenSecret: "tsafe t K (upsertTokenSecret r u tok)"
  unfolding upsertTokenSecret_def by (intro quiet_calls triple_case_sum triple_let triple_if quiet_tails)

lemma tsafe_upsertDaemonSet: "tsafe t K (upsertDaemonSet r u tok)"
  unfolding upsertDaemonSet_def by (intro quiet_calls read_calls triple_case_sum triple_let triple_if quiet_tails)

lemma tsafe_daemonSetReady: "tsafe t K (daemonSetReady r u)"
  unfolding daemonSetReady_def by (intro read_calls quiet_tails)

lemma tsafe_deleteTokenSecret: "tsafe t K (deleteTokenSecret r ns n)"
  unfolding deleteTokenSecret_def by (intro quiet_calls quiet_tails)

lemma tsafe_event_if: "tsafe t K (if b then Base_Eventf r m ty re msg else return_st ())"
  by (intro triple_if quiet_tails)

lemmas status_steps = triple_bind_safe [OF tsafe_setTunnelStatus] triple_bind_safe [OF tsafe_setReadyTunnel]
  triple_bind_safe [OF tsafe_blockTunnel] triple_bind_safe [OF tsafe_setTunnelConfigStatus]
  triple_bind_safe [OF tsafe_event_if]

end

text \<open>With a client.\<close>

locale tunnel_client = tunnel_monitor r log + client_log c log
  for r :: "'s TunnelReconciler" and log :: "'s \<Rightarrow> call list" and c :: "'s Client"
begin

lemmas tunnel_reads = tguard.triple_bind_records [OF tunnels_list neutral_tunnel_calls(6)]
  tguard.triple_bind_records [OF tunnels_get neutral_tunnel_calls(7)]

lemma adoptOrCreate_identified:
  assumes u: "same_tunnel t u" and K: "untracked t K"
  shows "triple log (tunnel_ok t) K (adoptOrCreateTunnel u c)
    (\<lambda>res seen. \<forall>cf a. res = Inr (cf, a) \<longrightarrow> identified t (Tunnel_ID cf) seen)"
  unfolding adoptOrCreateTunnel_def Let_def same_tunnel_name [OF u]
  by (intro tunnel_reads triple_case_sum triple_if tguard.triple_bind_records [OF tunnels_create] triple_return)
     (use u K in \<open>auto simp: same_tunnel_def dest!: no_element intro: tunnel_seen_mono identifiedI split: sum.splits\<close>)

lemma reconcileCloudflareTunnel_identified:
  "triple log (tunnel_ok t) K (reconcileCloudflareTunnel r t c)
    (\<lambda>out seen. same_tunnel t (fst out) \<and> (\<forall>cf a. snd out = Inr (cf, a) \<longrightarrow> identified t (Tunnel_ID cf) seen))"
proof -
  have adopt: "triple log (tunnel_ok t) K' (bind_st (adoptOrCreateTunnel u c) (\<lambda>res. return_st (u, res)))
      (\<lambda>out seen. same_tunnel t (fst out) \<and> (\<forall>cf a. snd out = Inr (cf, a) \<longrightarrow> identified t (Tunnel_ID cf) seen))"
    if "same_tunnel t u" "untracked t K'" for u K'
    by (rule triple_bind [OF adoptOrCreate_identified [OF that]]) (auto intro!: triple_return intro: tunnel_seen_mono simp: that(1))
  show ?thesis
    unfolding reconcileCloudflareTunnel_def Let_def
    by (intro tunnel_reads quiet_calls triple_case_sum triple_if tguard.triple_bind_records [OF tunnels_rename] adopt triple_return)
       (auto simp: untracked_def intro: identifiedI)
qed

lemma tsafe_reconcileTunnelConfig:
  assumes u: "same_tunnel t u" and "identified t k K"
  shows "tsafe t K (reconcileTunnelConfig r u c k)"
  unfolding reconcileTunnelConfig_def listExposuresByTunnel_def Let_def
  by (intro read_calls triple_case_sum triple_if tguard.triple_bind_records [OF config_update] status_steps quiet_tails)
     (use assms in \<open>auto simp: same_tunnel_def built_def intro: tunnel_seen_mono(5)\<close>)

lemma tsafe_reconcileConnected:
  assumes u: "same_tunnel t u" and k: "identified t (Tunnel_ID cf) K"
  shows "tsafe t K (reconcileConnected r u c cf)"
  unfolding reconcileConnected_def
  by (intro triple_bind_safe [OF tsafe_reconcileTunnelConfig [OF u k]] triple_bind_safe [OF tsafe_daemonSetReady] triple_case_sum
      triple_case_prod triple_case_error triple_if status_steps quiet_tails tsafe_setTunnelStatus triple_bind_safe)

lemma tsafe_reconcileToken:
  assumes u: "same_tunnel t u" and k: "identified t (Tunnel_ID cf) K"
  shows "tsafe t K (reconcileToken r u c cf)"
  unfolding reconcileToken_def
  by (intro triple_bind_quiet [OF tunnels_token] triple_bind_safe [OF tsafe_upsertTokenSecret] triple_bind_safe [OF tsafe_upsertDaemonSet]
      triple_case_sum triple_case_prod status_steps quiet_tails tsafe_reconcileConnected [OF u k])

lemma tsafe_tunnel_action_event: "tsafe t K (tunnel_action_event r u cf a)"
  unfolding tunnel_action_event_def by (cases a) (auto intro: quiet_tails)

lemma tsafe_reconcileIdentity:
  assumes u: "same_tunnel t (fst out)" and k: "\<And>cf a. snd out = Inr (cf, a) \<Longrightarrow> identified t (Tunnel_ID cf) K"
  shows "tsafe t K (reconcileIdentity r c out)"
proof -
  have st: "tsafe t K (if b then setTunnelStatus r u i n ready re msg else return_st (Inr ()))" for b u i n ready re msg
    by (intro triple_if tsafe_setTunnelStatus quiet_tails)
  show ?thesis
    unfolding reconcileIdentity_def Let_def
    by (intro triple_case_sum triple_case_prod triple_if triple_bind_safe [OF st] triple_bind_safe [OF tsafe_tunnel_action_event] status_steps
        quiet_tails tsafe_reconcileToken) (use u k in auto)
qed

lemma tsafe_identity: "tsafe t K (bind_st (reconcileCloudflareTunnel r t c) (reconcileIdentity r c))"
  by (rule triple_bind [OF reconcileCloudflareTunnel_identified]) (auto intro: tsafe_reconcileIdentity)

end

context tunnel_monitor
begin

lemma tunnel_clientI: "client_log c log \<Longrightarrow> tunnel_client r log c"
  by (rule tunnel_client.intro [OF tunnel_monitor_axioms])

lemma tsafe_reconcileTunnelLive: "tsafe t K (reconcileTunnelLive r t)"
  unfolding reconcileTunnelLive_def
  by (intro triple_if status_steps triple_bind_new_client triple_case_sum quiet_tails tunnel_client.tsafe_identity [OF tunnel_clientI]) auto

text \<open>The finalizer.\<close>

lemma tsafe_removeTunnelFinalizer: "released t K \<Longrightarrow> tunnel_removed t K \<Longrightarrow> tsafe t K (removeTunnelFinalizer r t)"
  unfolding removeTunnelFinalizer_def by (intro tguard.triple_bind_records [OF update_tunnel] quiet_tails) simp

lemma tsafe_finishTunnelDelete: "released t K \<Longrightarrow> tunnel_removed t K \<Longrightarrow> tsafe t K (finishTunnelDelete r t b)"
  unfolding finishTunnelDelete_def
  by (intro triple_bind_safe [OF tsafe_deleteTokenSecret] triple_case_sum status_steps quiet_tails tsafe_removeTunnelFinalizer)

lemma tsafe_deleteCloudflareTunnel:
  assumes "released t K" and "Meta_DeletionTimestamp (T_Meta t) \<noteq> None"
  shows "tsafe t K (deleteCloudflareTunnel r t)"
proof -
  have cl: "tsafe t K (do {
      got \<leftarrow> Tunnels_Get (Client_Tunnels c) (T_TunnelId t); k got })"
    if "client_log c log" "\<And>got. tsafe t (insert (EvTunnelsGet (T_TunnelId t) got) K) (k got)"
    for c and k :: "Tunnel result \<Rightarrow> ('s, ctrl_Result \<times> unit result) state"
    using that(2) by (intro tguard.triple_bind_records [OF client_log.tunnels_get [OF that(1)]]) auto
  show ?thesis
    unfolding deleteCloudflareTunnel_def
    by (intro triple_if triple_bind_new_client triple_case_sum cl tsafe_finishTunnelDelete status_steps quiet_tails
        tguard.triple_bind_records [OF client_log.tunnels_delete])
       (use assms in \<open>auto simp: tunnel_removed_def own_or_gone_def intro: tunnel_seen_mono split: sum.splits if_splits\<close>)
qed

lemma ensureCloudflaredStopped_gone:
  "triple log (tunnel_ok t) K (ensureCloudflaredStopped r t) (\<lambda>res seen. res = Inr False \<longrightarrow>
     (\<exists>e. EvGetDaemonSet (T_Namespace t) (DaemonSetName (T_Name t)) (Inl e) \<in> seen \<and> apierrors_IsNotFound e) \<and>
     EvListPods (T_Namespace t) (Labels (T_Name t)) (Inr []) \<in> seen)"
  unfolding ensureCloudflaredStopped_def
  by (intro read_calls quiet_calls triple_case_sum triple_if triple_return) (auto split: sum.splits if_splits)

lemma tsafe_Tunnel_reconcileDelete:
  assumes "Meta_DeletionTimestamp (T_Meta t) \<noteq> None"
  shows "tsafe t K (Tunnel_reconcileDelete r t)"
proof -
  have stop: "tsafe t K' (bind_st (ensureCloudflaredStopped r t) (case_sum (\<lambda>e. return_st (no_result, Inl e)) (\<lambda>waiting.
      if waiting then bind_st (setReadyTunnel r t b re msg f) g else deleteCloudflareTunnel r t)))"
    if K': "EvListExposures exposureIndexTunnelRefName (T_Name t) (Inr []) \<in> K'"
      "EvListRoutes tunnelRouteIndexTunnelRef (T_Name t) (Inr []) \<in> K'" and g: "\<And>a. tsafe t K' (g a)"
    for K' b re msg f and g :: "unit result \<Rightarrow> ('s, ctrl_Result \<times> unit result) state"
  proof (rule triple_bind [OF ensureCloudflaredStopped_gone])
    fix res :: "bool result" and seen
    assume seen: "K' \<subseteq> seen" "res = Inr False \<longrightarrow>
     (\<exists>e. EvGetDaemonSet (T_Namespace t) (DaemonSetName (T_Name t)) (Inl e) \<in> seen \<and> apierrors_IsNotFound e) \<and>
     EvListPods (T_Namespace t) (Labels (T_Name t)) (Inr []) \<in> seen"
    have "tsafe t seen (g a)" for a by (rule triple_weaken [OF g seen(1)])
    then show "tsafe t seen (case_sum (\<lambda>e. return_st (no_result, Inl e)) (\<lambda>waiting.
        if waiting then bind_st (setReadyTunnel r t b re msg f) g else deleteCloudflareTunnel r t) res)"
      by (intro triple_case_sum triple_if status_steps tsafe_deleteCloudflareTunnel quiet_tails)
         (use K' seen assms in \<open>auto simp: released_def\<close>)
  qed
  show ?thesis
    unfolding Tunnel_reconcileDelete_def listExposuresByTunnel_def listRoutesByTunnel_def
    by (intro triple_if read_calls triple_case_sum status_steps quiet_calls stop quiet_tails) auto
qed

lemma Tunnel_Reconcile_safe:
  assumes "run_state (Tunnel_Reconcile r n) s = (out, s')" and "log s = []" and "run_state (Base_GetTunnel r n) s = (Inr t, s1)"
  shows "guarded (tunnel_ok t) (log s')"
proof -
  let ?m = "if Meta_DeletionTimestamp (T_Meta t) \<noteq> None then Tunnel_reconcileDelete r t
    else (case Base_AddFinalizer r (T_Meta t) Finalizer of (meta, added) \<Rightarrow>
      if added then do { res \<leftarrow> TR_UpdateTunnel r (t\<lparr>T_Meta := meta\<rparr>); return_st (no_result, unit_result res) }
      else reconcileTunnelLive r t)"
  have "tsafe t {} ?m"
    by (intro triple_if triple_case_prod tguard.triple_bind_records [OF update_tunnel] quiet_tails tsafe_Tunnel_reconcileDelete
        tsafe_reconcileTunnelLive) auto
  moreover have "log s1 = []" using get_tunnel [of n] assms(2,3) by (auto simp: quiet_def)
  moreover have "run_state ?m s1 = (out, s')" using assms(1,3) by (simp add: Tunnel_Reconcile_def)
  ultimately show ?thesis by (auto dest: tripleD [where s = s1])
qed

end

text \<open>The record of a pass of any tunnel reconciler.\<close>

lemma tunnel_pass_record:
  assumes "run_state (Tunnel_Reconcile r n) s = (out, s')" and "run_state (Base_GetTunnel r n) s = (Inr t, s1)"
  shows "\<exists>l. run_state (Tunnel_Reconcile (logged_tunnel r) n) (s, []) = (out, (s', l)) \<and> guarded (tunnel_ok t) l"
proof -
  obtain l where l: "run_state (Tunnel_Reconcile (logged_tunnel r) n) (s, []) = (out, (s', l))"
    using erasesD [OF erases_Tunnel_Reconcile assms(1)] by blast
  have "run_state (Base_GetTunnel (logged_tunnel r) n) (s, []) = (Inr t, (s1, []))"
    using assms(2) by (simp add: logged_tunnel_def logged_base_def lift_log_def)
  from logged_tunnel.Tunnel_Reconcile_safe [OF l _ this] l show ?thesis by auto
qed

interpretation logged_tunnel_pair: tunnel_client "logged_tunnel r" snd "logged_client c" for r c
  by unfold_locales

text \<open>The part of the guard that is about the tunnel's identity and configuration.\<close>

fun identity_ok :: "CloudflareTunnel \<Rightarrow> call set \<Rightarrow> call \<Rightarrow> bool" where
  "identity_ok t seen (EvTunnelsDelete _ _) = True"
| "identity_ok t seen (EvUpdateTunnel _ _) = True"
| "identity_ok t seen e = tunnel_ok t seen e"

text \<open>The part that is about the finalizer.\<close>

fun teardown_ok :: "CloudflareTunnel \<Rightarrow> call set \<Rightarrow> call \<Rightarrow> bool" where
  "teardown_ok t seen (EvTunnelsDelete k res) = tunnel_ok t seen (EvTunnelsDelete k res)"
| "teardown_ok t seen (EvUpdateTunnel u res) = tunnel_ok t seen (EvUpdateTunnel u res)"
| "teardown_ok t seen e = True"

lemma tunnel_ok_parts: "tunnel_ok t seen e \<Longrightarrow> identity_ok t seen e \<and> teardown_ok t seen e"
  by (cases e) auto

text \<open>
  C4: Identity and configuration of Cloudflare tunnels, for every pass of the tunnel controller, whatever
  the API server and Cloudflare answer. Running the pass with a recording client gives the same outcome and
  the record of its calls. A Cloudflare tunnel is created, under the generated name, only when no tunnel is
  tracked (or the tracked one was read and is gone) and listings of the generated and of the legacy name
  both came back empty; only a tracked tunnel that was read with the legacy name is renamed, and to the
  generated name; a configuration document is sent only to a tunnel that this pass identified (tracked with
  the generated name, the only one of that name, or just created or renamed), and it is exactly what
  \<open>Build\<close> gives for the exposures listed in this pass. No other writing call of the client but the
  deletion of a tunnel is made.
\<close>

theorem Tunnel_Reconcile_identity:
  assumes "run_state (Tunnel_Reconcile r n) s = (out, s')" and "run_state (Base_GetTunnel r n) s = (Inr t, s1)"
  shows "\<exists>l. run_state (Tunnel_Reconcile (logged_tunnel r) n) (s, []) = (out, (s', l)) \<and> guarded (identity_ok t) l"
  using tunnel_pass_record [OF assms] guarded_mono [of "tunnel_ok t" "identity_ok t"] tunnel_ok_parts by blast

text \<open>
  C5: Teardown order of tunnels, for every pass of the tunnel controller. The Cloudflare tunnel is deleted
  only in a pass over an object that is being deleted, after listings showed no exposure and no route that
  refers to it, the DaemonSet was read and is gone, no connector pod is left, and a read showed the tracked
  tunnel to be gone or to have the generated or the legacy name; the finalizer of such an object is given
  up only under the same conditions and when there is no tracked tunnel or its deletion succeeded (or
  found it gone). So a tunnel in use is never deleted, and a failed deletion is always retried.
\<close>

theorem Tunnel_Reconcile_teardown:
  assumes "run_state (Tunnel_Reconcile r n) s = (out, s')" and "run_state (Base_GetTunnel r n) s = (Inr t, s1)"
  shows "\<exists>l. run_state (Tunnel_Reconcile (logged_tunnel r) n) (s, []) = (out, (s', l)) \<and> guarded (teardown_ok t) l"
  using tunnel_pass_record [OF assms] guarded_mono [of "tunnel_ok t" "teardown_ok t"] tunnel_ok_parts by blast

end
