(* ===== verification/Netip.thy ===== *)
theory Netip
  imports Lease
begin

text \<open>
  Go's \<open>net/netip\<close>, the part that \<open>canonicalNetwork\<close> uses: \<open>ParsePrefix\<close>, \<open>Prefix.Masked\<close> and
  \<open>Prefix.String\<close>. An IPv4 address is its four octets, an IPv6 address its eight 16-bit groups; the
  zone of an IPv6 address is not kept, since \<open>ParsePrefix\<close> rejects every address that has one. Errors
  are the texts that \<open>Error()\<close> renders.

  The lemmas: what is parsed is a well-formed prefix (\<open>ParsePrefix_wf\<close>), masking keeps it well formed
  and is idempotent, and every well-formed prefix is parsed back from its printed form
  (\<open>ParsePrefix_String\<close>), the zero compression of IPv6 and the mapped IPv4 form included.
\<close>

section \<open>Addresses\<close>

datatype Addr = IPv4 "nat list" | IPv6 "nat list"

record Prefix =
  Prefix_ip :: Addr
  Prefix_bits :: nat

definition parseAddrError :: "string \<Rightarrow> string \<Rightarrow> string" where
  "parseAddrError inp msg = ''ParseAddr('' @ quoteq inp @ ''): '' @ msg"

definition parseAddrErrorAt :: "string \<Rightarrow> string \<Rightarrow> string \<Rightarrow> string" where
  "parseAddrErrorAt inp msg at = parseAddrError inp msg @ (if at = [] then [] else '' (at '' @ quoteq at @ '')'')"

text \<open>
  \<open>parseIPv4Fields\<close>: the octets read so far, the value and the digit count of the current one, and
  the byte before the cursor (none at the start).
\<close>

fun v4_fields :: "string \<Rightarrow> nat list \<Rightarrow> nat \<Rightarrow> nat \<Rightarrow> char option \<Rightarrow> string \<Rightarrow> string + nat list" where
  "v4_fields inp octets val digLen prev [] =
     (if length octets < 3 then Inl (parseAddrError inp ''IPv4 address too short'') else Inr (octets @ [val]))"
| "v4_fields inp octets val digLen prev (c # s) =
     (if is_digit c then
        (if digLen = 1 \<and> val = 0 then Inl (parseAddrError inp ''IPv4 field has octet with leading zero'')
         else let val' = val * 10 + (of_char c - 48)
              in if val' > 255 then Inl (parseAddrError inp ''IPv4 field has value >255'')
                 else v4_fields inp octets val' (digLen + 1) (Some c) s)
      else if c = CHR ''.'' then
        (if prev = None \<or> s = [] \<or> prev = Some (CHR ''.'') then
           Inl (parseAddrErrorAt inp ''IPv4 field must have at least one digit'' (c # s))
         else if length octets = 3 then Inl (parseAddrError inp ''IPv4 address too long'')
         else v4_fields inp (octets @ [val]) 0 0 (Some c) s)
      else Inl (parseAddrErrorAt inp ''unexpected character'' (c # s)))"

definition parseIPv4Fields :: "string \<Rightarrow> string \<Rightarrow> string + nat list" where
  "parseIPv4Fields inp s = v4_fields inp [] 0 0 None s"

definition hex_val :: "char \<Rightarrow> nat option" where
  "hex_val c = (let n = of_char c :: nat
     in if 48 \<le> n \<and> n \<le> 57 then Some (n - 48)
        else if 97 \<le> n \<and> n \<le> 102 then Some (n - 87)
        else if 65 \<le> n \<and> n \<le> 70 then Some (n - 55) else None)"

text \<open>
  The inner loop of \<open>parseIPv6\<close>: hex digits of one group, at most four; its value, the digit count and
  the rest. With at most four digits the value is below \<open>2^16\<close>, so the overflow branch of the code is
  never reached: the digit count is tested first.
\<close>

fun hex_group :: "nat \<Rightarrow> nat \<Rightarrow> string \<Rightarrow> (nat \<times> nat \<times> string) option" where
  "hex_group acc off [] = Some (acc, off, [])"
| "hex_group acc off (c # s) =
     (case hex_val c of
        None \<Rightarrow> Some (acc, off, c # s)
      | Some d \<Rightarrow> if off > 3 then None else hex_group (acc * 16 + d) (off + 1) s)"

text \<open>
  One round of the outer loop, on the groups read so far, the position of the ellipsis and the rest of
  the input; the last result says whether the loop goes on. It runs while fewer than eight groups are read.
\<close>

definition v6_round :: "string \<Rightarrow> nat list \<Rightarrow> nat option \<Rightarrow> string \<Rightarrow> string + (nat list \<times> nat option \<times> string \<times> bool)" where
  "v6_round inp gs ell s =
     (case hex_group 0 0 s of
        None \<Rightarrow> Inl (parseAddrErrorAt inp ''each group must have 4 or less digits'' s)
      | Some (acc, off, rest) \<Rightarrow>
          if off = 0 then Inl (parseAddrErrorAt inp ''each colon-separated field must have at least one digit'' s)
          else if rest \<noteq> [] \<and> hd rest = CHR ''.'' then
            (if ell = None \<and> length gs \<noteq> 6 then
               Inl (parseAddrErrorAt inp ''embedded IPv4 address must replace the final 2 fields of the address'' s)
             else if length gs + 2 > 8 then
               Inl (parseAddrErrorAt inp ''too many hex fields to fit an embedded IPv4 at the end of the address'' s)
             else case parseIPv4Fields inp s of
                 Inl e \<Rightarrow> Inl e
               | Inr os \<Rightarrow> Inr (gs @ [os ! 0 * 256 + os ! 1, os ! 2 * 256 + os ! 3], ell, [], False))
          else if rest = [] then Inr (gs @ [acc], ell, [], False)
          else if hd rest \<noteq> CHR '':'' then Inl (parseAddrErrorAt inp ''unexpected character, want colon'' rest)
          else if length rest = 1 then Inl (parseAddrErrorAt inp ''colon must be followed by more characters'' rest)
          else let s' = tl rest
               in if hd s' = CHR '':'' then
                    (if ell \<noteq> None then Inl (parseAddrErrorAt inp ''multiple :: in address'' s')
                     else Inr (gs @ [acc], Some (length gs + 1), tl s', tl s' \<noteq> []))
                  else Inr (gs @ [acc], ell, s', True))"

lemma v6_round_grows: "v6_round inp gs ell s = Inr (gs', ell', s', go) \<Longrightarrow> length gs < length gs'"
  by (auto simp: v6_round_def Let_def split: option.splits prod.splits if_splits sum.splits)

function v6_groups :: "string \<Rightarrow> nat list \<Rightarrow> nat option \<Rightarrow> string \<Rightarrow> string + (nat list \<times> nat option \<times> string)" where
  "v6_groups inp gs ell s =
     (if length gs \<ge> 8 then Inr (gs, ell, s)
      else case v6_round inp gs ell s of
          Inl e \<Rightarrow> Inl e
        | Inr (gs', ell', s', go) \<Rightarrow> if go then v6_groups inp gs' ell' s' else Inr (gs', ell', s'))"
  by pat_completeness auto
termination by (relation "measure (\<lambda>(inp, gs, ell, s). 8 - length gs)") (auto dest!: sym [THEN v6_round_grows] v6_round_grows)

declare v6_groups.simps [simp del]

text \<open>\<open>parseIPv6\<close>; the result says whether the address carries a zone.\<close>

definition parseIPv6 :: "string \<Rightarrow> string + (Addr \<times> bool)" where
  "parseIPv6 inp =
     (case str_cut ''%'' inp of (s, zone, hasZone) \<Rightarrow>
        if hasZone \<and> zone = [] then Inl (parseAddrError inp ''zone must be a non-empty string'')
        else if s = ''::'' then Inr (IPv6 (replicate 8 0), hasZone)
        else
          (case (if HasPrefix s ''::'' then v6_groups inp [] (Some 0) (drop 2 s) else v6_groups inp [] None s) of
             Inl e \<Rightarrow> Inl e
           | Inr (gs, ell, rest) \<Rightarrow>
               if rest \<noteq> [] then Inl (parseAddrErrorAt inp ''trailing garbage after address'' rest)
               else if length gs < 8 then
                 (case ell of
                    None \<Rightarrow> Inl (parseAddrError inp ''address string too short'')
                  | Some k \<Rightarrow> Inr (IPv6 (take k gs @ replicate (8 - length gs) 0 @ drop k gs), hasZone))
               else if ell \<noteq> None then Inl (parseAddrError inp ''the :: must expand to at least one field of zeros'')
               else Inr (IPv6 gs, hasZone)))"

fun addr_scan :: "string \<Rightarrow> string \<Rightarrow> string + (Addr \<times> bool)" where
  "addr_scan inp [] = Inl (parseAddrError inp ''unable to parse IP'')"
| "addr_scan inp (c # s) =
     (if c = CHR ''.'' then (case parseIPv4Fields inp inp of Inl e \<Rightarrow> Inl e | Inr os \<Rightarrow> Inr (IPv4 os, False))
      else if c = CHR '':'' then parseIPv6 inp
      else if c = CHR ''%'' then Inl (parseAddrError inp ''missing IPv6 address'')
      else addr_scan inp s)"

definition ParseAddr :: "string \<Rightarrow> string + (Addr \<times> bool)" where
  "ParseAddr s = addr_scan s s"

section \<open>Prefixes\<close>

definition maxBits :: "Addr \<Rightarrow> nat" where
  "maxBits ip = (case ip of IPv4 _ \<Rightarrow> 32 | IPv6 _ \<Rightarrow> 128)"

definition parsePrefixError :: "string \<Rightarrow> string \<Rightarrow> string" where
  "parsePrefixError inp msg = ''netip.ParsePrefix('' @ quoteq inp @ ''): '' @ msg"

text \<open>Cutting at the last slash.\<close>

definition cut_last_slash :: "string \<Rightarrow> (string \<times> string) option" where
  "cut_last_slash s =
     (if CHR ''/'' \<in> set s
      then Some (rev (tl (dropWhile (\<lambda>c. c \<noteq> CHR ''/'') (rev s))), rev (takeWhile (\<lambda>c. c \<noteq> CHR ''/'') (rev s)))
      else None)"

definition ParsePrefix :: "string \<Rightarrow> string + Prefix" where
  "ParsePrefix s =
     (case cut_last_slash s of
        None \<Rightarrow> Inl (parsePrefixError s (''no '' @ [CHR 0x27, CHR ''/'', CHR 0x27]))
      | Some (addr, bitsStr) \<Rightarrow>
          (case ParseAddr addr of
             Inl e \<Rightarrow> Inl (parsePrefixError s e)
           | Inr (ip, zoned) \<Rightarrow>
               if zoned then Inl (parsePrefixError s ''IPv6 zones cannot be present in a prefix'')
               else if length bitsStr > 1 \<and> (hd bitsStr < CHR ''1'' \<or> hd bitsStr > CHR ''9'') then
                 Inl (parsePrefixError s (''bad bits after slash: '' @ quoteq bitsStr))
               else (case parse_int bitsStr of
                   None \<Rightarrow> Inl (parsePrefixError s (''bad bits after slash: '' @ quoteq bitsStr))
                 | Some bits \<Rightarrow>
                     if bits < 0 \<or> bits > int (maxBits ip) then Inl (parsePrefixError s ''prefix length out of range'')
                     else Inr \<lparr>Prefix_ip = ip, Prefix_bits = nat bits\<rparr>)))"

text \<open>The top \<open>k\<close> bits of a \<open>w\<close>-bit value; the mask of an address takes \<open>w\<close> bits of each part in turn.\<close>

definition keep_top :: "nat \<Rightarrow> nat \<Rightarrow> nat \<Rightarrow> nat" where
  "keep_top w k v = v div 2 ^ (w - k) * 2 ^ (w - k)"

fun mask_parts :: "nat \<Rightarrow> nat \<Rightarrow> nat list \<Rightarrow> nat list" where
  "mask_parts w b [] = []"
| "mask_parts w b (v # vs) = keep_top w b v # mask_parts w (b - w) vs"

definition Masked :: "Prefix \<Rightarrow> Prefix" where
  "Masked p = p\<lparr>Prefix_ip := (case Prefix_ip p of
      IPv4 os \<Rightarrow> IPv4 (mask_parts 8 (Prefix_bits p) os)
    | IPv6 gs \<Rightarrow> IPv6 (mask_parts 16 (Prefix_bits p) gs))\<rparr>"

definition string4 :: "nat list \<Rightarrow> string" where
  "string4 os = Join (map (\<lambda>o'. itoa (int o')) os) ''.''"

definition appendHex :: "nat \<Rightarrow> string" where
  "appendHex x = (if x \<ge> 0x1000 then [hex_digit (x div 0x1000)] else []) @ (if x \<ge> 0x100 then [hex_digit (x div 0x100 mod 16)] else []) @
     (if x \<ge> 0x10 then [hex_digit (x div 16 mod 16)] else []) @ [hex_digit (x mod 16)]"

definition hex_groups :: "nat list \<Rightarrow> string" where
  "hex_groups gs = Join (map appendHex gs) '':''"

text \<open>The first longest run of at least two zero groups, as its start and its end.\<close>

definition zero_run_step :: "nat list \<Rightarrow> nat \<Rightarrow> (nat \<times> nat) option \<Rightarrow> (nat \<times> nat) option" where
  "zero_run_step gs i best =
     (let l = length (takeWhile (\<lambda>g. g = 0) (drop i gs))
      in if l \<ge> 2 \<and> (case best of None \<Rightarrow> True | Some (zs, ze) \<Rightarrow> l > ze - zs) then Some (i, i + l) else best)"

definition zero_run :: "nat list \<Rightarrow> (nat \<times> nat) option" where
  "zero_run gs = fold (zero_run_step gs) [0..<8] None"

definition string6 :: "nat list \<Rightarrow> string" where
  "string6 gs = (case zero_run gs of
      None \<Rightarrow> hex_groups gs
    | Some (zs, ze) \<Rightarrow> hex_groups (take zs gs) @ ''::'' @ hex_groups (drop ze gs))"

definition Is4In6 :: "nat list \<Rightarrow> bool" where
  "Is4In6 gs \<longleftrightarrow> take 6 gs = [0, 0, 0, 0, 0, 0xFFFF]"

definition Addr_String :: "Addr \<Rightarrow> string" where
  "Addr_String ip = (case ip of
      IPv4 os \<Rightarrow> string4 os
    | IPv6 gs \<Rightarrow> if Is4In6 gs then ''::ffff:'' @ string4 [gs ! 6 div 256, gs ! 6 mod 256, gs ! 7 div 256, gs ! 7 mod 256]
                 else string6 gs)"

definition Prefix_String :: "Prefix \<Rightarrow> string" where
  "Prefix_String p = Addr_String (Prefix_ip p) @ ''/'' @ itoa (int (Prefix_bits p))"

section \<open>Well-formed prefixes\<close>

fun wf_addr :: "Addr \<Rightarrow> bool" where
  "wf_addr (IPv4 os) = (length os = 4 \<and> list_all (\<lambda>v. v < 256) os)"
| "wf_addr (IPv6 gs) = (length gs = 8 \<and> list_all (\<lambda>v. v < 65536) gs)"

definition wf_prefix :: "Prefix \<Rightarrow> bool" where
  "wf_prefix p \<longleftrightarrow> wf_addr (Prefix_ip p) \<and> Prefix_bits p \<le> maxBits (Prefix_ip p)"

lemma v4_fields_wf:
  "v4_fields inp oc val dl prev s = Inr os \<Longrightarrow> length oc \<le> 3 \<Longrightarrow> list_all (\<lambda>v. v < 256) oc \<Longrightarrow> val < 256 \<Longrightarrow>
     length os = 4 \<and> list_all (\<lambda>v. v < 256) os"
  by (induction inp oc val dl prev s rule: v4_fields.induct) (auto simp: Let_def split: if_splits)

lemma parseIPv4Fields_wf: "parseIPv4Fields inp s = Inr os \<Longrightarrow> wf_addr (IPv4 os)"
  using v4_fields_wf [of inp "[]" 0 0 None s os] by (simp add: parseIPv4Fields_def)

lemma hex_val_less: "hex_val c = Some d \<Longrightarrow> d < 16"
  by (auto simp: hex_val_def Let_def split: if_splits)

lemma hex_group_wf:
  "hex_group acc off s = Some (a, o', r) \<Longrightarrow> acc < 16 ^ off \<Longrightarrow> off \<le> 4 \<Longrightarrow> a < 65536"
proof (induction acc off s rule: hex_group.induct)
  case (1 acc off)
  then have "(16 :: nat) ^ off \<le> 16 ^ 4" by (intro power_increasing) auto
  with 1 show ?case by simp
next
  case (2 acc off c s)
  show ?case
  proof (cases "hex_val c")
    case None
    have "(16 :: nat) ^ off \<le> 16 ^ 4" using "2.prems" by (intro power_increasing) auto
    with None "2.prems" show ?thesis by simp
  next
    case (Some d)
    with "2.prems" have "acc * 16 + d < 16 ^ (off + 1)" using hex_val_less [OF Some] by simp
    with Some "2.prems" "2.IH" [OF Some] show ?thesis by (auto split: if_splits)
  qed
qed

lemma octet_pair: "a < 256 \<Longrightarrow> b < 256 \<Longrightarrow> a * 256 + b < (65536 :: nat)"
  by simp

lemma parseIPv4Fields_pairs:
  "parseIPv4Fields inp s = Inr os \<Longrightarrow> os ! 0 * 256 + os ! Suc 0 < 65536 \<and> os ! 2 * 256 + os ! 3 < 65536"
  by (auto dest!: parseIPv4Fields_wf intro!: octet_pair simp: list_all_length)

lemma v6_round_wf:
  assumes "v6_round inp gs ell s = Inr (gs', ell', s', go)" and "length gs < 8" and "list_all (\<lambda>v. v < 65536) gs"
    and "case ell of None \<Rightarrow> True | Some k \<Rightarrow> k \<le> length gs"
  shows "length gs' \<le> 8 \<and> list_all (\<lambda>v. v < 65536) gs' \<and> (case ell' of None \<Rightarrow> True | Some k \<Rightarrow> k \<le> length gs')"
  using assms
  by (auto simp: v6_round_def Let_def dest: parseIPv4Fields_pairs hex_group_wf
      split: option.splits prod.splits if_splits sum.splits)

lemma v6_groups_wf:
  assumes "v6_groups inp gs ell s = Inr (gs', ell', r)" and "length gs \<le> 8" and "list_all (\<lambda>v. v < 65536) gs"
    and "case ell of None \<Rightarrow> True | Some k \<Rightarrow> k \<le> length gs"
  shows "length gs' \<le> 8 \<and> list_all (\<lambda>v. v < 65536) gs' \<and> (case ell' of None \<Rightarrow> True | Some k \<Rightarrow> k \<le> length gs')"
  using assms
proof (induction inp gs ell s rule: v6_groups.induct)
  case (1 inp gs ell s)
  show ?case
  proof (cases "length gs \<ge> 8")
    case True
    with "1.prems" show ?thesis by (auto simp: v6_groups.simps [of inp gs])
  next
    case False
    with "1.prems" obtain gs1 ell1 s1 go where r: "v6_round inp gs ell s = Inr (gs1, ell1, s1, go)"
      by (auto simp: v6_groups.simps [of inp gs] split: sum.splits)
    have "length gs1 \<le> 8 \<and> list_all (\<lambda>v. v < 65536) gs1 \<and> (case ell1 of None \<Rightarrow> True | Some k \<Rightarrow> k \<le> length gs1)"
      using v6_round_wf [OF r] False "1.prems" by simp
    with False r "1.prems"(1) "1.IH" [OF False r refl refl refl] show ?thesis
      by (cases go) (auto simp: v6_groups.simps [of inp gs])
  qed
qed

text \<open>The end of \<open>parseIPv6\<close>: what the loop leaves, expanded at the ellipsis.\<close>

lemma parseIPv6_result:
  assumes "parseIPv6 inp = Inr (ip, zoned)"
  shows "ip = IPv6 (replicate 8 0) \<or>
    (\<exists>gs ell s. v6_groups inp [] ell s = Inr (gs, None, []) \<and> length gs \<ge> 8 \<and> (ell = None \<or> ell = Some 0) \<and> ip = IPv6 gs) \<or>
    (\<exists>gs ell s k. v6_groups inp [] ell s = Inr (gs, Some k, []) \<and> length gs < 8 \<and> (ell = None \<or> ell = Some 0) \<and>
       ip = IPv6 (take k gs @ replicate (8 - length gs) 0 @ drop k gs))"
  using assms unfolding parseIPv6_def by (auto split: prod.splits if_splits sum.splits option.splits) blast+

lemma parseIPv6_wf:
  assumes "parseIPv6 inp = Inr (ip, zoned)"
  shows "wf_addr ip"
proof -
  have wf: "length gs \<le> 8 \<and> list_all (\<lambda>v. v < 65536) gs \<and> (case k of None \<Rightarrow> True | Some n \<Rightarrow> n \<le> length gs)"
    if "v6_groups inp [] ell s = Inr (gs, k, [])" "ell = None \<or> ell = Some 0" for gs ell s k
    using v6_groups_wf [OF that(1)] that(2) by auto
  from parseIPv6_result [OF assms] show ?thesis
    by (elim disjE exE conjE) (auto simp: list_all_iff dest!: wf dest: in_set_takeD in_set_dropD)
qed

lemma ParseAddr_wf: "ParseAddr s = Inr (ip, zoned) \<Longrightarrow> wf_addr ip"
proof -
  have "addr_scan inp t = Inr (ip, zoned) \<Longrightarrow> wf_addr ip" for inp t
    by (induction inp t rule: addr_scan.induct) (auto dest: parseIPv6_wf parseIPv4Fields_wf split: if_splits sum.splits)
  then show "ParseAddr s = Inr (ip, zoned) \<Longrightarrow> wf_addr ip" by (simp add: ParseAddr_def)
qed

lemma ParsePrefix_wf: "ParsePrefix s = Inr p \<Longrightarrow> wf_prefix p"
  by (auto simp: ParsePrefix_def wf_prefix_def dest: ParseAddr_wf split: option.splits prod.splits sum.splits if_splits)

section \<open>Masking\<close>

lemma keep_top_le: "keep_top w k v \<le> v"
  by (simp add: keep_top_def)

lemma keep_top_twice [simp]: "keep_top w k (keep_top w k v) = keep_top w k v"
  by (simp add: keep_top_def)

lemma mask_parts_twice [simp]: "mask_parts w b (mask_parts w b vs) = mask_parts w b vs"
  by (induction w b vs rule: mask_parts.induct) auto

lemma length_mask_parts [simp]: "length (mask_parts w b vs) = length vs"
  by (induction w b vs rule: mask_parts.induct) auto

lemma mask_parts_less: "list_all (\<lambda>v. v < n) vs \<Longrightarrow> list_all (\<lambda>v. v < n) (mask_parts w b vs)"
  by (induction w b vs rule: mask_parts.induct) (auto intro: le_less_trans [OF keep_top_le])

lemma Masked_twice: "Masked (Masked p) = Masked p"
  by (cases "Prefix_ip p") (simp_all add: Masked_def)

lemma Masked_wf: "wf_prefix p \<Longrightarrow> wf_prefix (Masked p)"
  by (cases "Prefix_ip p") (simp_all add: Masked_def wf_prefix_def maxBits_def mask_parts_less)

section \<open>Printing and parsing\<close>

lemma is_digit_hex: "is_digit c \<Longrightarrow> hex_val c \<noteq> None"
  by (simp add: is_digit_def hex_val_def)

lemma hex_val_digit [simp]: "d < 16 \<Longrightarrow> hex_val (hex_digit d) = Some d"
  by (auto simp: hex_val_def hex_digit_def of_char_of Let_def)

lemma hex_val_punct [simp]: "hex_val (CHR '':'') = None" "hex_val (CHR ''.'') = None"
  by (simp_all add: hex_val_def)

lemma v4_octet:
  "n < 256 \<Longrightarrow> v4_fields inp oc 0 0 prev (digits n @ rest) = v4_fields inp oc n (length (digits n)) (Some (last (digits n))) rest"
proof (induction n arbitrary: rest rule: digits.induct)
  case (1 n)
  show ?case
  proof (cases "n < 10")
    case True
    then show ?thesis by (subst (1 2 3) digits.simps) (simp add: of_char_of)
  next
    case False
    with 1 have "v4_fields inp oc 0 0 prev (digits (n div 10) @ char_of (48 + n mod 10) # rest) =
        v4_fields inp oc (n div 10) (length (digits (n div 10))) (Some (last (digits (n div 10)))) (char_of (48 + n mod 10) # rest)"
      by simp
    moreover have "n div 10 \<noteq> 0" using False by simp
    ultimately show ?thesis using False 1(2) by (subst (1 2 3) digits.simps) (simp add: of_char_of Let_def del: div_eq_0_iff)
  qed
qed

lemma last_digits: "last (digits n) \<noteq> CHR ''.''"
proof -
  have "is_digit (last (digits n))" using digits_all_digit [of n] by (simp add: list_all_iff)
  then show ?thesis by (auto simp: is_digit_def)
qed

lemma v4_octet_dot:
  "n < 256 \<Longrightarrow> rest \<noteq> [] \<Longrightarrow> length oc < 3 \<Longrightarrow>
     v4_fields inp oc 0 0 prev (digits n @ CHR ''.'' # rest) = v4_fields inp (oc @ [n]) 0 0 (Some (CHR ''.'')) rest"
  by (simp add: v4_octet last_digits is_digit_def)

lemma string4_digits: "string4 [a, b, c, d] = digits a @ CHR ''.'' # digits b @ CHR ''.'' # digits c @ CHR ''.'' # digits d"
  by (simp add: string4_def itoa_def)

lemma string4_no: "\<not> is_digit x \<Longrightarrow> x \<noteq> CHR ''.'' \<Longrightarrow> x \<notin> set (string4 [a, b, c, d])"
  using digits_all_digit by (auto simp: string4_digits list_all_iff)

lemma parseIPv4Fields_string4:
  "a < 256 \<Longrightarrow> b < 256 \<Longrightarrow> c < 256 \<Longrightarrow> d < 256 \<Longrightarrow> parseIPv4Fields inp (string4 [a, b, c, d]) = Inr [a, b, c, d]"
  using v4_octet [of d inp "[a, b, c]" "Some (CHR ''.'')" "[]"] by (simp add: parseIPv4Fields_def string4_digits v4_octet_dot)

lemma hex_group_scan:
  "list_all (\<lambda>c. hex_val c \<noteq> None) ds \<Longrightarrow> off + length ds \<le> 4 \<Longrightarrow> rest = [] \<or> hex_val (hd rest) = None \<Longrightarrow>
     \<exists>a. hex_group acc off (ds @ rest) = Some (a, off + length ds, rest)"
proof (induction ds arbitrary: acc off)
  case Nil
  then show ?case by (cases rest) auto
next
  case (Cons c ds)
  then obtain y where "hex_val c = Some y" by auto
  with Cons.prems Cons.IH [of "Suc off" "acc * 16 + y"] show ?case by simp
qed

lemma hex_shift: "x div (m * 16) * 16 + x div m mod 16 = x div (m :: nat)"
  by (simp add: div_mult2_eq)

lemma hex_group_appendHex:
  assumes "g < 65536" and "rest = [] \<or> hex_val (hd rest) = None"
  shows "hex_group 0 0 (appendHex g @ rest) = Some (g, length (appendHex g), rest)"
proof -
  have rest: "hex_group acc off rest = Some (acc, off, rest)" for acc off using assms(2) by (cases rest) auto
  have d: "g div 4096 < 16" "g < 4096 \<Longrightarrow> g div 256 mod 16 = g div 256" "g < 256 \<Longrightarrow> g div 16 mod 16 = g div 16" "g < 16 \<Longrightarrow> g mod 16 = g"
    using assms(1) by auto
  consider "g \<ge> 4096" | "256 \<le> g" "g < 4096" | "16 \<le> g" "g < 256" | "g < 16" by linarith
  then show ?thesis
    using d rest hex_shift [of g 256] hex_shift [of g 16] hex_shift [of g 1] by cases (simp_all add: appendHex_def)
qed

lemma appendHex_hex: "g < 65536 \<Longrightarrow> list_all (\<lambda>c. hex_val c \<noteq> None) (appendHex g)"
  by (simp add: appendHex_def)

lemma appendHex_nonempty [simp]: "appendHex g \<noteq> []"
  by (simp add: appendHex_def)

lemma hd_hex_groups:
  assumes "g < 65536"
  shows "\<exists>c t. hex_groups (g # gs) = c # t \<and> hex_val c \<noteq> None \<and> c \<noteq> CHR '':'' \<and> c \<noteq> CHR ''.''"
proof -
  obtain c t where "appendHex g = c # t" using appendHex_nonempty [of g] by (cases "appendHex g") auto
  with appendHex_hex [OF assms] show ?thesis by (cases gs) (auto simp: hex_groups_def)
qed

lemma v6_round_last: "g < 65536 \<Longrightarrow> v6_round inp gs ell (appendHex g) = Inr (gs @ [g], ell, [], False)"
  using hex_group_appendHex [of g "[]"] by (simp add: v6_round_def)

lemma v6_round_colon:
  "g < 65536 \<Longrightarrow> c \<noteq> CHR '':'' \<Longrightarrow> v6_round inp gs ell (appendHex g @ CHR '':'' # c # t) = Inr (gs @ [g], ell, c # t, True)"
  using hex_group_appendHex [of g "CHR '':'' # c # t"] by (simp add: v6_round_def Let_def)

lemma v6_round_ellipsis:
  "g < 65536 \<Longrightarrow> v6_round inp gs None (appendHex g @ CHR '':'' # CHR '':'' # t) =
     Inr (gs @ [g], Some (length gs + 1), t, t \<noteq> [])"
  using hex_group_appendHex [of g "CHR '':'' # CHR '':'' # t"] by (simp add: v6_round_def Let_def)

lemma hex_groups_Cons: "gs \<noteq> [] \<Longrightarrow> hex_groups (g # gs) = appendHex g @ CHR '':'' # hex_groups gs"
  by (cases gs) (simp_all add: hex_groups_def)

lemma hex_groups_single [simp]: "hex_groups [g] = appendHex g" and hex_groups_Nil [simp]: "hex_groups [] = []"
  by (simp_all add: hex_groups_def)

lemma hex_groups_eq_Nil: "hex_groups gs = [] \<longleftrightarrow> gs = []"
  by (cases gs; cases "tl gs") (auto simp: hex_groups_def)

lemma v6_groups_hex:
  "gs' \<noteq> [] \<Longrightarrow> length gs + length gs' \<le> 8 \<Longrightarrow> list_all (\<lambda>v. v < 65536) gs' \<Longrightarrow>
     v6_groups inp gs ell (hex_groups gs') = Inr (gs @ gs', ell, [])"
proof (induction gs' arbitrary: gs)
  case (Cons g gs')
  show ?case
  proof (cases gs')
    case Nil
    with Cons.prems show ?thesis by (simp add: v6_groups.simps [of inp gs] v6_round_last)
  next
    case (Cons h hs)
    obtain c t where h: "hex_groups gs' = c # t" "c \<noteq> CHR '':''" using hd_hex_groups [of h hs] Cons Cons.prems by auto
    with Cons Cons.prems have "v6_groups inp gs ell (hex_groups (g # gs')) = v6_groups inp (gs @ [g]) ell (hex_groups gs')"
      by (simp add: v6_groups.simps [of inp gs] hex_groups_Cons v6_round_colon del: hex_groups_single)
    with Cons Cons.IH [of "gs @ [g]"] Cons.prems show ?thesis by simp
  qed
qed simp

lemma v6_groups_ellipsis:
  "gs' \<noteq> [] \<Longrightarrow> length gs + length gs' \<le> 8 \<Longrightarrow> list_all (\<lambda>v. v < 65536) gs' \<Longrightarrow>
     v6_groups inp gs None (hex_groups gs' @ ''::'' @ t) =
       (if t = [] then Inr (gs @ gs', Some (length (gs @ gs')), []) else v6_groups inp (gs @ gs') (Some (length (gs @ gs'))) t)"
proof (induction gs' arbitrary: gs)
  case (Cons g gs')
  show ?case
  proof (cases gs')
    case Nil
    with Cons.prems show ?thesis by (simp add: v6_groups.simps [of inp gs] v6_round_ellipsis)
  next
    case (Cons h hs)
    obtain c u where h: "hex_groups gs' = c # u" "c \<noteq> CHR '':''" using hd_hex_groups [of h hs] Cons Cons.prems by auto
    with Cons Cons.prems have "v6_groups inp gs None (hex_groups (g # gs') @ ''::'' @ t) =
        v6_groups inp (gs @ [g]) None (hex_groups gs' @ ''::'' @ t)"
      by (simp add: v6_groups.simps [of inp gs] hex_groups_Cons v6_round_colon del: hex_groups_single)
    with Cons Cons.IH [of "gs @ [g]"] Cons.prems show ?thesis by simp
  qed
qed simp

text \<open>The run that is left out when printing is zero.\<close>

definition is_zero_run :: "nat list \<Rightarrow> nat \<times> nat \<Rightarrow> bool" where
  "is_zero_run gs z \<longleftrightarrow> (case z of (zs, ze) \<Rightarrow> zs + 2 \<le> ze \<and> ze \<le> length gs \<and>
     gs = take zs gs @ replicate (ze - zs) 0 @ drop ze gs)"

lemma zero_run_is_run: "zero_run gs = Some z \<Longrightarrow> is_zero_run gs z"
proof -
  have take0: "takeWhile (\<lambda>g. g = 0) xs = replicate (length (takeWhile (\<lambda>g. g = 0) xs)) (0 :: nat)" for xs
    by (induction xs) auto
  have step: "is_zero_run gs (i, i + l)" if "l = length (takeWhile (\<lambda>g. g = 0) (drop i gs))" "l \<ge> 2" for i l
  proof -
    have d: "drop i gs = replicate l 0 @ drop l (drop i gs)"
      using takeWhile_dropWhile_id [of "\<lambda>g. g = 0" "drop i gs"] take0 [of "drop i gs"] that(1)
      by (metis append_eq_conv_conj dropWhile_eq_drop)
    have "l \<le> length (drop i gs)" unfolding that(1) by (rule length_takeWhile_le)
    moreover have "gs = take i gs @ replicate l 0 @ drop (i + l) gs"
      using arg_cong [OF d, of "\<lambda>x. take i gs @ x"] by (simp add: add.commute)
    ultimately show ?thesis using that(2) by (auto simp: is_zero_run_def)
  qed
  have "pred_option (is_zero_run gs) (fold (zero_run_step gs) is None)" for "is"
    by (rule fold_invariant [where Q = "\<lambda>_. True"]) (auto simp: zero_run_step_def Let_def step split: option.splits)
  then show "zero_run gs = Some z \<Longrightarrow> is_zero_run gs z" by (metis zero_run_def option.pred_inject(2))
qed

lemma set_hex_groups: "list_all (\<lambda>v. v < 65536) gs \<Longrightarrow> c \<in> set (hex_groups gs) \<Longrightarrow> c = CHR '':'' \<or> hex_val c \<noteq> None"
proof (induction gs)
  case (Cons g gs)
  then show ?case using appendHex_hex [of g] by (cases gs) (auto simp: hex_groups_Cons list_all_iff)
qed simp

lemma hex_groups_no: "list_all (\<lambda>v. v < 65536) gs \<Longrightarrow> hex_val c = None \<Longrightarrow> c \<noteq> CHR '':'' \<Longrightarrow> c \<notin> set (hex_groups gs)"
  using set_hex_groups by blast

lemma string6_no:
  assumes "list_all (\<lambda>v. v < 65536) gs" and "hex_val c = None" and "c \<noteq> CHR '':''"
  shows "c \<notin> set (string6 gs)"
proof -
  have "list_all (\<lambda>v. v < 65536) (take n gs)" "list_all (\<lambda>v. v < 65536) (drop n gs)" for n
    using assms(1) by (auto simp: list_all_iff dest: in_set_takeD in_set_dropD)
  with assms show ?thesis by (auto simp: string6_def hex_groups_no split: option.splits)
qed

lemma parseIPv6_loop:
  assumes "CHR ''%'' \<notin> set s" and "s \<noteq> ''::''"
    and "(if HasPrefix s ''::'' then v6_groups s [] (Some 0) (drop 2 s) else v6_groups s [] None s) = Inr (gs, ell, [])"
  shows "length gs < 8 \<Longrightarrow> ell = Some k \<Longrightarrow> parseIPv6 s = Inr (IPv6 (take k gs @ replicate (8 - length gs) 0 @ drop k gs), False)"
    and "length gs = 8 \<Longrightarrow> ell = None \<Longrightarrow> parseIPv6 s = Inr (IPv6 gs, False)"
  unfolding parseIPv6_def str_cut_none [OF assms(1)] using assms(2,3) by (auto split: if_splits)

lemma hex_groups_no_ellipsis:
  assumes "g < 65536"
  shows "\<not> HasPrefix (hex_groups (g # gs) @ t) ''::''" and "hex_groups (g # gs) @ t \<noteq> ''::''"
  using hd_hex_groups [OF assms, of gs] by (auto simp: HasPrefix_iff)

lemma parts_less:
  "list_all (\<lambda>v. v < 65536) gs \<Longrightarrow> list_all (\<lambda>v. v < 65536) (take n gs)"
  "list_all (\<lambda>v. v < 65536) gs \<Longrightarrow> list_all (\<lambda>v. v < 65536) (drop n gs)" for gs :: "nat list"
  by (auto simp: list_all_iff dest: in_set_takeD in_set_dropD)

text \<open>The loop on a compressed address: the groups before the ellipsis, its place, the groups after it.\<close>

lemma v6_groups_compressed:
  assumes "list_all (\<lambda>v. v < 65536) l" and "list_all (\<lambda>v. v < 65536) r" and "length l + length r \<le> 8"
    and s: "s = hex_groups l @ ''::'' @ hex_groups r" and "s \<noteq> ''::''"
  shows "(if HasPrefix s ''::'' then v6_groups inp [] (Some 0) (drop 2 s) else v6_groups inp [] None s) =
    Inr (l @ r, Some (length l), [])"
proof (cases l)
  case Nil
  with assms have "r \<noteq> []" by auto
  with Nil v6_groups_hex [of r "[]" inp "Some 0"] assms show ?thesis by (simp add: HasPrefix_def)
next
  case (Cons g l1)
  have "v6_groups inp [] None s = Inr (l @ r, Some (length l), [])"
  proof (cases "r = []")
    case True
    with v6_groups_ellipsis [of l "[]" inp "hex_groups r"] assms Cons show ?thesis by simp
  next
    case False
    then have "hex_groups r \<noteq> []" by (simp add: hex_groups_eq_Nil)
    with False v6_groups_ellipsis [of l "[]" inp "hex_groups r"] v6_groups_hex [of r l inp "Some (length l)"] assms Cons
    show ?thesis by simp
  qed
  with hex_groups_no_ellipsis(1) [of g l1 "''::'' @ hex_groups r"] assms(1) s Cons show ?thesis by simp
qed

lemma parseIPv6_compressed:
  assumes "length gs = 8" and "list_all (\<lambda>v. v < 65536) gs" and "is_zero_run gs (zs, ze)"
    and s: "s = hex_groups (take zs gs) @ ''::'' @ hex_groups (drop ze gs)"
  shows "parseIPv6 s = Inr (IPv6 gs, False)"
proof -
  let ?l = "take zs gs" and ?r = "drop ze gs"
  have run: "zs + 2 \<le> ze" "ze \<le> 8" "gs = ?l @ replicate (ze - zs) 0 @ ?r" using assms by (simp_all add: is_zero_run_def)
  have len: "length ?l = zs" "length ?r = 8 - ze" using run assms(1) by auto
  note less = parts_less [OF assms(2)]
  have pct: "CHR ''%'' \<notin> set s" using hex_groups_no [OF less(1)] hex_groups_no [OF less(2)] s by (simp add: hex_val_def)
  show ?thesis
  proof (cases "s = ''::''")
    case True
    then have "hex_groups ?l @ ''::'' @ hex_groups ?r = ''::''" using s by simp
    then have "length (hex_groups ?l) + length (hex_groups ?r) = 0" by (metis add.commute add_left_cancel append_assoc length_append length_greater_0_conv add_0_right)
    then have "?l = [] \<and> ?r = []" by (simp add: hex_groups_eq_Nil)
    with run(3) assms(1) have "gs = replicate 8 0" by (metis append_Nil append_Nil2 length_replicate)
    with True show ?thesis by (simp add: parseIPv6_def str_cut_none)
  next
    case False
    have "length ?l + length ?r \<le> 8" using len run by simp
    from parseIPv6_loop(1) [OF pct False v6_groups_compressed [OF less this s False], of zs] len run show ?thesis by simp
  qed
qed

lemma parseIPv6_string6:
  assumes "length gs = 8" and "list_all (\<lambda>v. v < 65536) gs"
  shows "parseIPv6 (string6 gs) = Inr (IPv6 gs, False)"
proof (cases "zero_run gs")
  case None
  then have s: "string6 gs = hex_groups gs" by (simp add: string6_def)
  obtain g gs1 where g: "gs = g # gs1" "g < 65536" using assms by (cases gs) auto
  have "CHR ''%'' \<notin> set (hex_groups gs)" using hex_groups_no [OF assms(2)] by (simp add: hex_val_def)
  moreover have "v6_groups (hex_groups gs) [] None (hex_groups gs) = Inr (gs, None, [])"
    using v6_groups_hex [of gs "[]" "hex_groups gs" None] assms g by simp
  ultimately show ?thesis
    using parseIPv6_loop(2) [of "hex_groups gs" gs None] hex_groups_no_ellipsis [OF g(2), of gs1 "[]"] g(1) s assms(1) by simp
next
  case (Some z)
  then show ?thesis
    using parseIPv6_compressed [OF assms] zero_run_is_run [OF Some] by (cases z) (simp add: string6_def)
qed

lemma parseIPv6_4in6:
  assumes "length gs = 8" and "list_all (\<lambda>v. v < 65536) gs" and "Is4In6 gs"
  shows "parseIPv6 (''::ffff:'' @ string4 [gs ! 6 div 256, gs ! 6 mod 256, gs ! 7 div 256, gs ! 7 mod 256]) = Inr (IPv6 gs, False)"
proof -
  let ?os = "[gs ! 6 div 256, gs ! 6 mod 256, gs ! 7 div 256, gs ! 7 mod 256]"
  let ?s = "''::ffff:'' @ string4 ?os"
  have less: "gs ! 6 < 65536" "gs ! 7 < 65536" using assms(1,2) by (simp_all add: list_all_length)
  then have os: "gs ! 6 div 256 < 256" "gs ! 6 mod 256 < 256" "gs ! 7 div 256 < 256" "gs ! 7 mod 256 < 256" by auto
  obtain c u where "digits (gs ! 6 div 256) = c # u" "is_digit c" by (rule digits_Cons)
  then obtain t where c: "string4 ?os = c # t" "is_digit c" by (simp add: string4_digits)
  have pct: "CHR ''%'' \<notin> set ?s" by (simp add: string4_no is_digit_def)
  have "hex_digit 15 = CHR ''f''" by code_simp
  then have ffff: "''ffff'' = appendHex 65535" by (simp add: appendHex_def)
  have "c \<noteq> CHR '':''" using c(2) by (auto simp: is_digit_def)
  then have r1: "v6_round inp [] (Some 0) (''ffff:'' @ string4 ?os) = Inr ([65535], Some 0, string4 ?os, True)" for inp
    using v6_round_colon [of 65535 c inp "[]" "Some 0" t] c(1) ffff [symmetric] by simp
  have "list_all (\<lambda>c. hex_val c \<noteq> None) (digits (gs ! 6 div 256))" "length (digits (gs ! 6 div 256)) \<le> 3"
    using digits_all_digit is_digit_hex length_digits [of 3] os(1) by (auto simp: list_all_iff)
  then obtain a where h: "hex_group 0 0 (string4 ?os) = Some (a, length (digits (gs ! 6 div 256)), drop (length (digits (gs ! 6 div 256))) (string4 ?os))"
    using hex_group_scan [of "digits (gs ! 6 div 256)" 0 "drop (length (digits (gs ! 6 div 256))) (string4 ?os)" 0] by (auto simp: string4_digits)
  have r2: "v6_round inp [65535] (Some 0) (string4 ?os) = Inr ([65535, gs ! 6, gs ! 7], Some 0, [], False)" for inp
    using h parseIPv4Fields_string4 [OF os] by (simp add: v6_round_def) (simp add: string4_digits)
  have loop: "v6_groups inp [] (Some 0) (''ffff:'' @ string4 ?os) = Inr ([65535, gs ! 6, gs ! 7], Some 0, [])" for inp
    using r1 r2 by (simp add: v6_groups.simps)
  obtain g0 g1 g2 g3 g4 g5 g6 g7 where "gs = [g0, g1, g2, g3, g4, g5, g6, g7]"
    using assms(1) by (auto simp: length_Suc_conv eval_nat_numeral)
  moreover have "replicate 5 (0 :: nat) = [0, 0, 0, 0, 0]" by code_simp
  ultimately have gs: "replicate 5 0 @ [65535, gs ! 6, gs ! 7] = gs" using assms(3) by (simp add: Is4In6_def)
  have "parseIPv6 ?s = Inr (IPv6 (take 0 [65535, gs ! 6, gs ! 7] @ replicate (8 - 3) 0 @ drop 0 [65535, gs ! 6, gs ! 7]), False)"
    using parseIPv6_loop(1) [OF pct, of "[65535, gs ! 6, gs ! 7]" "Some 0" 0] loop by (simp add: HasPrefix_def)
  then show ?thesis using gs by simp
qed

text \<open>The first punctuation of an address decides which parser reads it.\<close>

lemma addr_scan_v6:
  "CHR '':'' \<in> set s \<Longrightarrow> CHR ''.'' \<notin> set s \<Longrightarrow> CHR ''%'' \<notin> set s \<Longrightarrow> addr_scan inp s = parseIPv6 inp"
  by (induction inp s rule: addr_scan.induct) auto

lemma addr_scan_v4:
  "CHR ''.'' \<in> set s \<Longrightarrow> CHR '':'' \<notin> set s \<Longrightarrow> CHR ''%'' \<notin> set s \<Longrightarrow>
     addr_scan inp s = (case parseIPv4Fields inp inp of Inl e \<Rightarrow> Inl e | Inr os \<Rightarrow> Inr (IPv4 os, False))"
  by (induction inp s rule: addr_scan.induct) auto

lemma colon_in_string6:
  assumes "length gs = 8"
  shows "CHR '':'' \<in> set (string6 gs)"
proof (cases "zero_run gs")
  case None
  obtain g h t where "gs = g # h # t" using assms by (cases gs; cases "tl gs") auto
  with None show ?thesis by (simp add: string6_def hex_groups_Cons)
qed (auto simp: string6_def)

lemma ParseAddr_String: "wf_addr ip \<Longrightarrow> ParseAddr (Addr_String ip) = Inr (ip, False)"
proof (cases ip)
  case (IPv4 os)
  assume wf: "wf_addr ip"
  then obtain a b c d where os: "os = [a, b, c, d]" using IPv4 by (auto simp: length_Suc_conv numeral_eq_Suc)
  have "CHR '':'' \<notin> set (string4 os)" "CHR ''%'' \<notin> set (string4 os)" by (simp_all add: os string4_no is_digit_def)
  moreover have "CHR ''.'' \<in> set (string4 os)" by (simp add: os string4_digits)
  ultimately show ?thesis using parseIPv4Fields_string4 [of a b c d] wf IPv4 os by (simp add: ParseAddr_def Addr_String_def addr_scan_v4)
next
  case (IPv6 gs)
  assume "wf_addr ip"
  with IPv6 have gs: "length gs = 8" "list_all (\<lambda>v. v < 65536) gs" by auto
  show ?thesis
  proof (cases "Is4In6 gs")
    case True
    with parseIPv6_4in6 [OF gs True] IPv6 show ?thesis by (simp add: ParseAddr_def Addr_String_def)
  next
    case False
    with string6_no [OF gs(2)] colon_in_string6 [OF gs(1)] parseIPv6_string6 [OF gs] IPv6 show ?thesis
      by (simp add: ParseAddr_def Addr_String_def addr_scan_v6 hex_val_def)
  qed
qed

lemma cut_last_slash_append: "CHR ''/'' \<notin> set b \<Longrightarrow> cut_last_slash (a @ CHR ''/'' # b) = Some (a, b)"
proof -
  assume b: "CHR ''/'' \<notin> set b"
  have "dropWhile (\<lambda>c. c \<noteq> CHR ''/'') (rev b @ CHR ''/'' # rev a) = CHR ''/'' # rev a"
    "takeWhile (\<lambda>c. c \<noteq> CHR ''/'') (rev b @ CHR ''/'' # rev a) = rev b"
    using b by (auto simp: dropWhile_append3 takeWhile_append2 dropWhile_append takeWhile_append)
  then show ?thesis by (simp add: cut_last_slash_def)
qed

lemma digits_head: "length (digits n) > 1 \<Longrightarrow> \<not> hd (digits n) < CHR ''1'' \<and> \<not> hd (digits n) > CHR ''9''"
proof (induction n rule: digits.induct)
  case (1 n)
  have one: "\<not> char_of (48 + d) < CHR ''1'' \<and> \<not> char_of (48 + d) > CHR ''9''" if "0 < d" "d < 10" for d :: nat
    using that by (simp add: less_char_def of_char_of)
  show ?case
  proof (cases "n < 100")
    case True
    have "digits n = [char_of (48 + n div 10), char_of (48 + n mod 10)]"
      using True 1(2) by (subst digits.simps, subst digits.simps) (auto split: if_splits simp: digits.simps [of n])
    moreover have "0 < n div 10" "n div 10 < 10" using True 1(2) by (auto simp: digits.simps [of n] split: if_splits)
    ultimately show ?thesis using one by simp
  next
    case False
    have "length (digits (n div 10)) > 1" using False by (subst digits.simps) simp
    with 1(1) False show ?thesis by (subst (1 2) digits.simps) simp
  qed
qed

lemma ParsePrefix_String:
  assumes "wf_prefix p"
  shows "ParsePrefix (Prefix_String p) = Inr p"
proof -
  let ?ip = "Prefix_ip p" and ?b = "Prefix_bits p"
  have wf: "wf_addr ?ip" "?b \<le> maxBits ?ip" using assms by (simp_all add: wf_prefix_def)
  then have "?b \<le> 128" by (auto simp: maxBits_def split: Addr.splits)
  then have bits: "parse_int (digits ?b) = Some (int ?b)" using parse_int_itoa [of "int ?b"] by (simp add: itoa_def)
  have "CHR ''/'' \<notin> set (digits ?b)" using digits_all_digit [of ?b] by (auto simp: list_all_iff is_digit_def)
  with cut_last_slash_append ParseAddr_String [OF wf(1)] digits_head [of ?b] bits wf(2) show ?thesis
    by (auto simp: ParsePrefix_def Prefix_String_def itoa_def)
qed

end
