(* ===== verification/Route_Controller.thy ===== *)
theory Route_Controller
  imports Netip Kube
begin

text \<open>
  \<open>internal/controller/cloudflaretunnelroute_controller.go\<close>: the TunnelRoute reconciler. Its record
  extends \<open>Base\<close> with the client at the kind it owns. Where the code returns a nil pointer together
  with an error, the model returns the error alone.
\<close>

section \<open>The reconciler and its constants\<close>

record 's RouteReconciler = "'s Base" +
  RR_GetRoute :: "string \<Rightarrow> ('s, CloudflareTunnelRoute result) state"
  RR_UpdateRoute :: "CloudflareTunnelRoute \<Rightarrow> ('s, CloudflareTunnelRoute result) state"
  RR_StatusUpdateRoute :: "CloudflareTunnelRoute \<Rightarrow> ('s, CloudflareTunnelRoute result) state"

definition ReasonTunnelNotReady :: string where "ReasonTunnelNotReady = ''TunnelNotReady''"

definition ReasonNetworkInvalid :: string where "ReasonNetworkInvalid = ''NetworkInvalid''"

definition ReasonForeignRoute :: string where "ReasonForeignRoute = ''ForeignRoute''"

definition ReasonRouteWriteFailed :: string where "ReasonRouteWriteFailed = ''RouteWriteFailed''"

definition EventCreatedRoute :: string where "EventCreatedRoute = ''CreatedRoute''"

definition EventUpdatedRoute :: string where "EventUpdatedRoute = ''UpdatedRoute''"

definition EventDeletedRoute :: string where "EventDeletedRoute = ''DeletedRoute''"

definition EventForeignRoute :: string where "EventForeignRoute = ''ForeignRoute''"

definition errForeignRoute :: error where
  "errForeignRoute = ErrNew ''foreign route''"

datatype routeReconcileAction = routeReconcileUnchanged | routeReconcileCreated | routeReconcileUpdated

abbreviation R_UID :: "CloudflareTunnelRoute \<Rightarrow> string" where
  "R_UID r \<equiv> Meta_UID (R_Meta r)"

definition set_route_conditions :: "Condition list \<Rightarrow> CloudflareTunnelRoute \<Rightarrow> CloudflareTunnelRoute" where
  "set_route_conditions cs r = r\<lparr>R_Status := (R_Status r)\<lparr>RStatus_Conditions := cs\<rparr>\<rparr>"

section \<open>Desired state\<close>

definition canonicalNetwork :: "string \<Rightarrow> string result" where
  "canonicalNetwork network =
     (case ParsePrefix network of
        Inl e \<Rightarrow> Inl (ErrWrap (''invalid CIDR '' @ quoteq network @ '': '') (ErrNew e) [])
      | Inr pfx \<Rightarrow> Inr (Prefix_String (Masked pfx)))"

definition routeOwnershipComment :: "CloudflareTunnelRoute \<Rightarrow> string" where
  "routeOwnershipComment route =
     (let pfx = Owner_CompactComment (From (R_UID route))
      in if RSpec_Comment (R_Spec route) = [] then pfx else pfx @ '' | '' @ RSpec_Comment (R_Spec route))"

definition tunnelRouteMatches :: "TunnelRoute \<Rightarrow> TunnelRouteInput \<Rightarrow> bool" where
  "tunnelRouteMatches route desired =
     (if Route_Network route \<noteq> RouteIn_Network desired \<or> Cloudflare.Route_TunnelID route \<noteq> RouteIn_TunnelID desired \<or>
         Route_Comment route \<noteq> RouteIn_Comment desired then False
      else if RouteIn_VirtualNetworkID desired \<noteq> [] \<and> Route_VirtualNetworkID route \<noteq> RouteIn_VirtualNetworkID desired then False
      else True)"

definition desired_route :: "CloudflareTunnelRoute \<Rightarrow> CloudflareTunnel \<Rightarrow> string \<Rightarrow> TunnelRouteInput" where
  "desired_route route tunnel network = \<lparr>RouteIn_Network = network, RouteIn_TunnelID = TStatus_TunnelId (T_Status tunnel),
     RouteIn_VirtualNetworkID = RSpec_VirtualNetworkId (R_Spec route), RouteIn_Comment = routeOwnershipComment route\<rparr>"

section \<open>Status\<close>

definition setRouteStatus :: "'s RouteReconciler \<Rightarrow> CloudflareTunnelRoute \<Rightarrow> string \<Rightarrow> string \<Rightarrow> bool \<Rightarrow> string \<Rightarrow> string \<Rightarrow>
    ('s, unit result) state" where
  "setRouteStatus r route routeID virtualNetworkID ready reason message = do {
     got \<leftarrow> RR_GetRoute r (Meta_Name (R_Meta route));
     case got of
       Inl e \<Rightarrow> return_st (Inl e)
     | Inr latest \<Rightarrow>
         setReady r (\<lambda>x. RStatus_Conditions (R_Status x)) set_route_conditions (RR_StatusUpdateRoute r) latest
           (Meta_Generation (R_Meta latest)) ready reason message
           (\<lambda>x. x\<lparr>R_Status := (R_Status x)\<lparr>RStatus_RouteId := routeID, RStatus_VirtualNetworkId := virtualNetworkID\<rparr>\<rparr>) }"

text \<open>The status kept as it is, with a condition that says why the route is not ready.\<close>

definition routeNotReady :: "'s RouteReconciler \<Rightarrow> CloudflareTunnelRoute \<Rightarrow> string \<Rightarrow> string \<Rightarrow> ('s, unit result) state" where
  "routeNotReady r route reason message =
     setRouteStatus r route (RStatus_RouteId (R_Status route)) (RStatus_VirtualNetworkId (R_Status route)) False reason message"

definition routeRequeue :: "'s RouteReconciler \<Rightarrow> CloudflareTunnelRoute \<Rightarrow> string \<Rightarrow> string \<Rightarrow> ('s, ctrl_Result \<times> unit result) state" where
  "routeRequeue r route reason message = do {
     st \<leftarrow> routeNotReady r route reason message;
     return_st (case st of Inl e \<Rightarrow> (no_result, Inl e) | Inr _ \<Rightarrow> (after (30 * second), Inr ())) }"

text \<open>The referenced tunnel, when the code's second result is true.\<close>

definition referencedTunnel :: "'s RouteReconciler \<Rightarrow> CloudflareTunnelRoute \<Rightarrow> bool \<Rightarrow> ('s, CloudflareTunnel option result) state" where
  "referencedTunnel r route allowDeleting = do {
     got \<leftarrow> Base_GetTunnel r (RouteTunnelRef_Name (RSpec_TunnelRef (R_Spec route)));
     return_st (case got of
         Inl e \<Rightarrow> if apierrors_IsNotFound e then Inr None else Inl e
       | Inr tunnel \<Rightarrow>
           if \<not> allowDeleting \<and> Meta_DeletionTimestamp (T_Meta tunnel) \<noteq> None then Inr None
           else if TStatus_TunnelId (T_Status tunnel) = [] then Inr None
           else Inr (Some tunnel)) }"

section \<open>The Cloudflare route\<close>

definition route_filter :: "TunnelRouteInput \<Rightarrow> ListTunnelRoutesFilter" where
  "route_filter desired = \<lparr>Filter_Network = RouteIn_Network desired, Filter_TunnelID = [],
     Filter_VirtualNetworkID = RouteIn_VirtualNetworkID desired\<rparr>"

definition preflightRouteTarget :: "'s Client \<Rightarrow> TunnelRouteInput \<Rightarrow> string \<Rightarrow> ('s, unit result) state" where
  "preflightRouteTarget cfClient desired allowedRouteID = do {
     listed \<leftarrow> Routes_List (Client_TunnelRoutes cfClient) (route_filter desired);
     return_st (case listed of
         Inl e \<Rightarrow> Inl e
       | Inr existing \<Rightarrow> if list_ex (\<lambda>candidate. Route_ID candidate \<noteq> allowedRouteID) existing then Inl errForeignRoute else Inr ()) }"

text \<open>The loop over the listed routes: a foreign one ends it, the last owned one is kept.\<close>

fun owned_route :: "Owner \<Rightarrow> TunnelRoute option \<Rightarrow> TunnelRoute list \<Rightarrow> TunnelRoute option result" where
  "owned_route owner owned [] = Inr owned"
| "owned_route owner owned (x # xs) =
     (if MatchesComment owner (Route_Comment x) then owned_route owner (Some x) xs else Inl errForeignRoute)"

definition with_action :: "routeReconcileAction \<Rightarrow> TunnelRoute result \<Rightarrow> (TunnelRoute \<times> routeReconcileAction) result" where
  "with_action action res = (case res of Inl e \<Rightarrow> Inl e | Inr x \<Rightarrow> Inr (x, action))"

definition adoptOrCreateRoute :: "CloudflareTunnelRoute \<Rightarrow> 's Client \<Rightarrow> TunnelRouteInput \<Rightarrow>
    ('s, (TunnelRoute \<times> routeReconcileAction) result) state" where
  "adoptOrCreateRoute route cfClient desired = do {
     listed \<leftarrow> Routes_List (Client_TunnelRoutes cfClient) (route_filter desired);
     case listed of
       Inl e \<Rightarrow> return_st (Inl e)
     | Inr existing \<Rightarrow>
         (case owned_route (From (R_UID route)) None existing of
            Inl e \<Rightarrow> return_st (Inl e)
          | Inr (Some owned) \<Rightarrow>
              if tunnelRouteMatches owned desired then return_st (Inr (owned, routeReconcileUnchanged))
              else do {
                updated \<leftarrow> Routes_Edit (Client_TunnelRoutes cfClient) (Route_ID owned) desired;
                return_st (with_action routeReconcileUpdated updated) }
          | Inr None \<Rightarrow> do {
              created \<leftarrow> Routes_Create (Client_TunnelRoutes cfClient) desired;
              return_st (with_action routeReconcileCreated created) }) }"

definition reconcileCloudflareRoute :: "CloudflareTunnelRoute \<Rightarrow> 's Client \<Rightarrow> TunnelRouteInput \<Rightarrow>
    ('s, (TunnelRoute \<times> routeReconcileAction) result) state" where
  "reconcileCloudflareRoute route cfClient desired =
     (if RStatus_RouteId (R_Status route) = [] then adoptOrCreateRoute route cfClient desired
      else do {
        got \<leftarrow> Routes_Get (Client_TunnelRoutes cfClient) (RStatus_RouteId (R_Status route));
        case got of
          Inl e \<Rightarrow> if errors_Is e ErrNotFound then adoptOrCreateRoute route cfClient desired else return_st (Inl e)
        | Inr cfRoute \<Rightarrow>
            if \<not> MatchesComment (From (R_UID route)) (Route_Comment cfRoute) then return_st (Inl errForeignRoute)
            else if tunnelRouteMatches cfRoute desired then return_st (Inr (cfRoute, routeReconcileUnchanged))
            else do {
              pre \<leftarrow> preflightRouteTarget cfClient desired (Route_ID cfRoute);
              case pre of
                Inl e \<Rightarrow> return_st (Inl e)
              | Inr _ \<Rightarrow> do {
                  updated \<leftarrow> Routes_Edit (Client_TunnelRoutes cfClient) (Route_ID cfRoute) desired;
                  return_st (with_action routeReconcileUpdated updated) } } })"

section \<open>Deletion\<close>

definition removeRouteFinalizer :: "'s RouteReconciler \<Rightarrow> CloudflareTunnelRoute \<Rightarrow> ('s, ctrl_Result \<times> unit result) state" where
  "removeRouteFinalizer r route = do {
     res \<leftarrow> RR_UpdateRoute r (route\<lparr>R_Meta := Base_RemoveFinalizer r (R_Meta route) Finalizer\<rparr>);
     return_st (no_result, case res of Inl e \<Rightarrow> Inl e | Inr _ \<Rightarrow> Inr ()) }"

definition Route_reconcileDelete :: "'s RouteReconciler \<Rightarrow> CloudflareTunnelRoute \<Rightarrow> ('s, ctrl_Result \<times> unit result) state" where
  "Route_reconcileDelete r route =
     (let routeId = RStatus_RouteId (R_Status route)
      in if \<not> Base_ContainsFinalizer r (R_Meta route) Finalizer then return_st (no_result, Inr ())
         else if routeId = [] then removeRouteFinalizer r route
         else do {
           ref \<leftarrow> referencedTunnel r route True;
           case ref of
             Inl e \<Rightarrow> return_st (no_result, Inl e)
           | Inr None \<Rightarrow> routeRequeue r route ReasonTunnelNotReady ''referenced CloudflareTunnel is not ready''
           | Inr (Some tunnel) \<Rightarrow> do {
               client \<leftarrow> CloudflareClient r (credentialsRefFromTunnel tunnel);
               case client of
                 Inl e \<Rightarrow> routeRequeue r route ReasonCredentialsMissing (error_text e)
               | Inr cfClient \<Rightarrow> do {
                   got \<leftarrow> Routes_Get (Client_TunnelRoutes cfClient) routeId;
                   case got of
                     Inl e \<Rightarrow> if errors_Is e ErrNotFound then removeRouteFinalizer r route else return_st (no_result, Inl e)
                   | Inr cfRoute \<Rightarrow>
                       if \<not> MatchesComment (From (R_UID route)) (Route_Comment cfRoute) then removeRouteFinalizer r route
                       else do {
                         del \<leftarrow> Routes_Delete (Client_TunnelRoutes cfClient) routeId;
                         if (case del of Inl e \<Rightarrow> \<not> errors_Is e ErrNotFound | Inr _ \<Rightarrow> False) then return_st (no_result, del)
                         else do {
                           _ \<leftarrow> Base_Eventf r (R_Meta route) EventTypeNormal EventDeletedRoute (''Deleted Cloudflare tunnel route '' @ routeId);
                           removeRouteFinalizer r route } } } } })"

section \<open>Reconcile\<close>

definition route_action_event :: "'s RouteReconciler \<Rightarrow> CloudflareTunnelRoute \<Rightarrow> TunnelRoute \<Rightarrow> routeReconcileAction \<Rightarrow> ('s, unit) state" where
  "route_action_event r route cfRoute action =
     (case action of
        routeReconcileCreated \<Rightarrow> Base_Eventf r (R_Meta route) EventTypeNormal EventCreatedRoute (''Created Cloudflare tunnel route '' @ Route_ID cfRoute)
      | routeReconcileUpdated \<Rightarrow> Base_Eventf r (R_Meta route) EventTypeNormal EventUpdatedRoute (''Updated Cloudflare tunnel route '' @ Route_ID cfRoute)
      | routeReconcileUnchanged \<Rightarrow> return_st ())"

definition foreign_route_message :: string where
  "foreign_route_message = ''Cloudflare tunnel route already exists without local ownership record''"

definition applyRoute :: "'s RouteReconciler \<Rightarrow> CloudflareTunnelRoute \<Rightarrow> 's Client \<Rightarrow> TunnelRouteInput \<Rightarrow>
    ('s, ctrl_Result \<times> unit result) state" where
  "applyRoute r route cfClient desired = do {
     reconciled \<leftarrow> reconcileCloudflareRoute route cfClient desired;
     case reconciled of
       Inl e \<Rightarrow>
         if errors_Is e errForeignRoute then do {
           _ \<leftarrow> Base_Eventf r (R_Meta route) EventTypeWarning EventForeignRoute foreign_route_message;
           st \<leftarrow> routeNotReady r route ReasonForeignRoute foreign_route_message;
           return_st (no_result, st) }
         else do {
           st \<leftarrow> routeNotReady r route ReasonRouteWriteFailed (error_text e);
           return_st (no_result, case st of Inl e' \<Rightarrow> Inl e' | Inr _ \<Rightarrow> Inl (ErrWrap (ReasonRouteWriteFailed @ '': '') e [])) }
     | Inr (cfRoute, action) \<Rightarrow> do {
         _ \<leftarrow> route_action_event r route cfRoute action;
         st \<leftarrow> setRouteStatus r route (Route_ID cfRoute) (Route_VirtualNetworkID cfRoute) True ReasonReconciled
           ''Cloudflare tunnel route reconciled'';
         return_st (no_result, st) } }"

definition reconcileRouteLive :: "'s RouteReconciler \<Rightarrow> CloudflareTunnelRoute \<Rightarrow> ('s, ctrl_Result \<times> unit result) state" where
  "reconcileRouteLive r route = do {
     ref \<leftarrow> referencedTunnel r route False;
     case ref of
       Inl e \<Rightarrow> return_st (no_result, Inl e)
     | Inr None \<Rightarrow> routeRequeue r route ReasonTunnelNotReady ''referenced CloudflareTunnel is not ready''
     | Inr (Some tunnel) \<Rightarrow>
         (case canonicalNetwork (RSpec_Network (R_Spec route)) of
            Inl e \<Rightarrow> do {
              st \<leftarrow> routeNotReady r route ReasonNetworkInvalid (error_text e);
              return_st (no_result, st) }
          | Inr network \<Rightarrow> do {
              client \<leftarrow> CloudflareClient r (credentialsRefFromTunnel tunnel);
              case client of
                Inl e \<Rightarrow> routeRequeue r route ReasonCredentialsMissing (error_text e)
              | Inr cfClient \<Rightarrow> applyRoute r route cfClient (desired_route route tunnel network) }) }"

definition Route_Reconcile :: "'s RouteReconciler \<Rightarrow> string \<Rightarrow> ('s, ctrl_Result \<times> unit result) state" where
  "Route_Reconcile r name = do {
     got \<leftarrow> RR_GetRoute r name;
     case got of
       Inl e \<Rightarrow> return_st (no_result, if apierrors_IsNotFound e then Inr () else Inl e)
     | Inr route \<Rightarrow>
         if Meta_DeletionTimestamp (R_Meta route) \<noteq> None then Route_reconcileDelete r route
         else (case Base_AddFinalizer r (R_Meta route) Finalizer of (meta, added) \<Rightarrow>
           if added then do {
             res \<leftarrow> RR_UpdateRoute r (route\<lparr>R_Meta := meta\<rparr>);
             case res of
               Inl e \<Rightarrow> return_st (no_result, Inl e)
             | Inr stored \<Rightarrow> reconcileRouteLive r stored }
           else reconcileRouteLive r route) }"

section \<open>Properties\<close>

text \<open>
  C35: The canonical form of a network. It is a fixed point: the canonical form of a canonical network is
  itself, so a route that Cloudflare stores in canonical form compares equal to the desired one on every
  later pass. It is the printed form of a well-formed prefix whose host bits are zero, with the prefix
  length that was given.
\<close>

theorem canonicalNetwork_canonical:
  assumes "canonicalNetwork s = Inr n"
  shows "canonicalNetwork n = Inr n \<and>
    (\<exists>p. ParsePrefix s = Inr p \<and> wf_prefix p \<and> Masked (Masked p) = Masked p \<and> ParsePrefix n = Inr (Masked p) \<and>
         Prefix_bits (Masked p) = Prefix_bits p \<and> n = Prefix_String (Masked p))"
proof -
  obtain p where p: "ParsePrefix s = Inr p" "n = Prefix_String (Masked p)"
    using assms by (auto simp: canonicalNetwork_def split: sum.splits)
  note wf = ParsePrefix_wf [OF p(1)]
  have "ParsePrefix n = Inr (Masked p)" using ParsePrefix_String [OF Masked_wf [OF wf]] p(2) by simp
  then show ?thesis using p wf by (auto simp: canonicalNetwork_def Masked_twice) (simp add: Masked_def)
qed

theorem canonicalNetwork_canonical_witness:
  "canonicalNetwork ''10.1.2.3/12'' = Inr ''10.0.0.0/12'' \<and> canonicalNetwork ''10.0.0.0/12'' = Inr ''10.0.0.0/12''"
proof -
  have "canonicalNetwork ''10.1.2.3/12'' = Inr ''10.0.0.0/12''" by code_simp
  with canonicalNetwork_canonical [OF this] show ?thesis by simp
qed

end
