(* ===== verification/Route_Safety.thy ===== *)
theory Route_Safety
  imports Route_Controller Erasure_Rules
begin

text \<open>
  The safety guard of the route controller. \<open>route_ok del x\<close> is what a call may be, given the calls
  before it, in a pass over the route \<open>x\<close> (\<open>del\<close>: the object is being deleted): a Cloudflare route is
  created only where none exists, edited or deleted only after a read showed it to carry the object's
  ownership comment, and an edit never lands on a network that a foreign route holds.
\<close>

section \<open>The guard\<close>

abbreviation R_RouteId :: "CloudflareTunnelRoute \<Rightarrow> string" where
  "R_RouteId x \<equiv> RStatus_RouteId (R_Status x)"

definition route_owner :: "CloudflareTunnelRoute \<Rightarrow> Owner" where
  "route_owner x = From (R_UID x)"

text \<open>The input is the one the spec asks for.\<close>

definition route_wanted :: "CloudflareTunnelRoute \<Rightarrow> TunnelRouteInput \<Rightarrow> bool" where
  "route_wanted x i \<longleftrightarrow> canonicalNetwork (RSpec_Network (R_Spec x)) = Inr (RouteIn_Network i) \<and>
     RouteIn_VirtualNetworkID i = RSpec_VirtualNetworkId (R_Spec x) \<and> RouteIn_Comment i = routeOwnershipComment x"

definition route_own :: "CloudflareTunnelRoute \<Rightarrow> string \<Rightarrow> call set \<Rightarrow> bool" where
  "route_own x k seen \<longleftrightarrow> (\<exists>cr. (EvRoutesGet (R_RouteId x) (Inr cr) \<in> seen \<or> (\<exists>f rs. EvRoutesList f (Inr rs) \<in> seen \<and> cr \<in> set rs)) \<and>
     Route_ID cr = k \<and> MatchesComment (route_owner x) (Route_Comment cr))"

definition target_free :: "CloudflareTunnelRoute \<Rightarrow> string \<Rightarrow> TunnelRouteInput \<Rightarrow> call set \<Rightarrow> bool" where
  "target_free x k i seen \<longleftrightarrow> (\<exists>rs. EvRoutesList (route_filter i) (Inr rs) \<in> seen \<and>
     (\<forall>cr \<in> set rs. Route_ID cr = k \<or> MatchesComment (route_owner x) (Route_Comment cr)))"

text \<open>The tracked route is gone, or it is somebody else's.\<close>

definition route_gone :: "CloudflareTunnelRoute \<Rightarrow> call set \<Rightarrow> bool" where
  "route_gone x seen \<longleftrightarrow> R_RouteId x = [] \<or>
     (\<exists>res. EvRoutesGet (R_RouteId x) res \<in> seen \<and> (case res of
        Inl e \<Rightarrow> errors_Is e ErrNotFound | Inr cr \<Rightarrow> \<not> MatchesComment (route_owner x) (Route_Comment cr))) \<or>
     (\<exists>res. EvRoutesDelete (R_RouteId x) res \<in> seen \<and> (case res of Inl e \<Rightarrow> errors_Is e ErrNotFound | Inr _ \<Rightarrow> True))"

fun route_ok :: "bool \<Rightarrow> CloudflareTunnelRoute \<Rightarrow> call set \<Rightarrow> call \<Rightarrow> bool" where
  "route_ok del x seen (EvRoutesCreate i _) = (\<not> del \<and> route_wanted x i \<and> EvRoutesList (route_filter i) (Inr []) \<in> seen)"
| "route_ok del x seen (EvRoutesEdit k i _) = (\<not> del \<and> route_wanted x i \<and> route_own x k seen \<and> target_free x k i seen)"
| "route_ok del x seen (EvRoutesDelete k _) = (del \<and> k = R_RouteId x \<and> k \<noteq> [] \<and>
     (\<exists>cr. EvRoutesGet k (Inr cr) \<in> seen \<and> MatchesComment (route_owner x) (Route_Comment cr)))"
| "route_ok del x seen (EvUpdateRoute _ _) = (del \<longrightarrow> route_gone x seen)"
| "route_ok del x seen e = (\<not> cloudflare_write e)"

lemma route_seen_mono:
  "route_own x k K \<Longrightarrow> K \<subseteq> K' \<Longrightarrow> route_own x k K'" "target_free x k i K \<Longrightarrow> K \<subseteq> K' \<Longrightarrow> target_free x k i K'"
  "route_gone x K \<Longrightarrow> K \<subseteq> K' \<Longrightarrow> route_gone x K'"
  unfolding route_own_def target_free_def route_gone_def by blast+

interpretation rguard: guard "route_ok del x" for del x
proof
  fix K e K' assume "route_ok del x K e" "K \<subseteq> K'"
  then show "route_ok del x K' e" by (cases e) (auto intro: route_seen_mono)
qed

lemma neutral_route_calls [simp]:
  "route_ok del x K (EvNow t)" "route_ok del x K (EvRoutesGet k gr)" "route_ok del x K (EvRoutesList f lr)"
  by simp_all

section \<open>The recording route reconciler\<close>

locale route_monitor = base_monitor r log
  for r :: "'s RouteReconciler" and log :: "'s \<Rightarrow> call list" +
  assumes get_route: "quiet log (RR_GetRoute r n)"
    and update_route: "records log (RR_UpdateRoute r x) (EvUpdateRoute x)"
    and status_update_route: "quiet log (RR_StatusUpdateRoute r x)"

definition logged_route :: "'s RouteReconciler \<Rightarrow> ('s \<times> call list) RouteReconciler" where
  "logged_route r = logged_base r (RouteReconciler.fields (\<lambda>n. lift_log (RR_GetRoute r n))
     (\<lambda>x. tell (RR_UpdateRoute r x) (EvUpdateRoute x)) (\<lambda>x. lift_log (RR_StatusUpdateRoute r x)))"

lemma logged_route_fields:
  "RR_GetRoute (logged_route r) n = lift_log (RR_GetRoute r n)"
  "RR_UpdateRoute (logged_route r) x = tell (RR_UpdateRoute r x) (EvUpdateRoute x)"
  "RR_StatusUpdateRoute (logged_route r) x = lift_log (RR_StatusUpdateRoute r x)"
  by (simp_all add: logged_route_def logged_base_def RouteReconciler.defs)

interpretation logged_route: route_monitor "logged_route r" snd for r
proof (rule route_monitor.intro, goal_cases)
  case 1
  show ?case unfolding logged_route_def by (rule logged_base.base_monitor_axioms)
next
  case 2
  show ?case by unfold_locales (simp_all add: logged_route_fields quiet_lift_log records_tell)
qed

interpretation route_log: base_erasure "logged_route r" r for r
  by unfold_locales (auto simp: logged_route_def)

lemma erases_route_calls [erasure]:
  "erases (RR_GetRoute (logged_route r) n) (RR_GetRoute r n)"
  "erases (RR_UpdateRoute (logged_route r) x) (RR_UpdateRoute r x)"
  "erases (RR_StatusUpdateRoute (logged_route r) x) (RR_StatusUpdateRoute r x)"
  by (simp_all add: logged_route_fields erases_lift_log erases_tell)

lemma erases_case_routeAction [erasure]:
  "erases m1' m1 \<Longrightarrow> erases m2' m2 \<Longrightarrow> erases m3' m3 \<Longrightarrow>
     erases (case_routeReconcileAction m1' m2' m3' a) (case_routeReconcileAction m1 m2 m3 a)"
  by (cases a) auto

lemma erases_route_status [erasure]:
  "erases (setRouteStatus (logged_route r) x i v b re msg) (setRouteStatus r x i v b re msg)"
  "erases (routeNotReady (logged_route r) x re msg) (routeNotReady r x re msg)"
  "erases (routeRequeue (logged_route r) x re msg) (routeRequeue r x re msg)"
  unfolding setRouteStatus_def routeNotReady_def routeRequeue_def by (intro erasure)+

lemma erases_referencedTunnel [erasure]: "erases (referencedTunnel (logged_route r) x b) (referencedTunnel r x b)"
  unfolding referencedTunnel_def by (intro erasure)

lemma erases_adoptOrCreateRoute [erasure]: "erases (adoptOrCreateRoute x (logged_client c) d) (adoptOrCreateRoute x c d)"
  unfolding adoptOrCreateRoute_def by (intro erasure)

lemma erases_reconcileCloudflareRoute [erasure]:
  "erases (reconcileCloudflareRoute x (logged_client c) d) (reconcileCloudflareRoute x c d)"
  unfolding reconcileCloudflareRoute_def preflightRouteTarget_def by (intro erasure)

lemma erases_removeRouteFinalizer [erasure]: "erases (removeRouteFinalizer (logged_route r) x) (removeRouteFinalizer r x)"
  unfolding removeRouteFinalizer_def route_log.pure by (intro erasure)

lemma erases_Route_reconcileDelete [erasure]: "erases (Route_reconcileDelete (logged_route r) x) (Route_reconcileDelete r x)"
  unfolding Route_reconcileDelete_def route_log.pure by (intro erasure)

lemma erases_applyRoute [erasure]: "erases (applyRoute (logged_route r) x (logged_client c) d) (applyRoute r x c d)"
  unfolding applyRoute_def route_action_event_def by (intro erasure)

lemma erases_reconcileRouteLive [erasure]: "erases (reconcileRouteLive (logged_route r) x) (reconcileRouteLive r x)"
  unfolding reconcileRouteLive_def by (intro erasure)

lemma erases_Route_Reconcile: "erases (Route_Reconcile (logged_route r) n) (Route_Reconcile r n)"
  unfolding Route_Reconcile_def route_log.pure by (intro erasure)

section \<open>The handlers keep the guard\<close>

lemma owned_route_Some:
  "owned_route owner out rs = Inr (Some cr) \<Longrightarrow> out = Some cr \<or> cr \<in> set rs \<and> MatchesComment owner (Route_Comment cr)"
  by (induction owner out rs rule: owned_route.induct) (auto split: if_splits)

lemma owned_route_all: "owned_route owner out rs = Inr res \<Longrightarrow> cr \<in> set rs \<Longrightarrow> MatchesComment owner (Route_Comment cr)"
  by (induction owner out rs rule: owned_route.induct) (auto split: if_splits)

lemma owned_route_None: "owned_route owner out rs = Inr None \<Longrightarrow> rs = [] \<and> out = None"
  by (induction owner out rs rule: owned_route.induct) (auto split: if_splits)

context route_monitor
begin

abbreviation rsafe :: "bool \<Rightarrow> CloudflareTunnelRoute \<Rightarrow> call set \<Rightarrow> ('s, 'a) state \<Rightarrow> bool" where
  "rsafe del x K m \<equiv> safe log (route_ok del x) K m"

lemmas route_quiet = triple_bind_quiet [OF get_tunnel] triple_bind_quiet [OF eventf] triple_bind_quiet [OF get_route]
  triple_bind_quiet [OF status_update_route] rguard.triple_bind_records [OF wall_clock neutral_route_calls(1)]

lemmas route_tails = safe_return triple_quiet [OF eventf]

lemma rsafe_setCondition: "rsafe del x K (setCondition r cs ty st re msg g)"
  unfolding setCondition_def by (intro route_quiet route_tails)

lemma rsafe_setRouteStatus: "rsafe del x K (setRouteStatus r y i v b re msg)"
  unfolding setRouteStatus_def setReady_def
  by (intro triple_let triple_bind_safe [OF rsafe_setCondition] triple_case_sum triple_if route_quiet route_tails)

lemma rsafe_routeNotReady: "rsafe del x K (routeNotReady r y re msg)"
  unfolding routeNotReady_def by (rule rsafe_setRouteStatus)

lemma rsafe_routeRequeue: "rsafe del x K (routeRequeue r y re msg)"
  unfolding routeRequeue_def by (intro triple_bind_safe [OF rsafe_routeNotReady] route_tails)

lemma rsafe_referencedTunnel: "rsafe del x K (referencedTunnel r y b)"
  unfolding referencedTunnel_def by (intro route_quiet route_tails)

lemma rsafe_route_action_event: "rsafe del x K (route_action_event r y cr a)"
  unfolding route_action_event_def by (cases a) (auto intro: route_tails)

end

locale route_client = route_monitor r log + client_log c log
  for r :: "'s RouteReconciler" and log :: "'s \<Rightarrow> call list" and c :: "'s Client"
begin

lemmas route_reads = rguard.triple_bind_records [OF routes_get neutral_route_calls(2)]
  rguard.triple_bind_records [OF routes_list neutral_route_calls(3)]

lemma rsafe_adoptOrCreateRoute:
  assumes "route_wanted x i"
  shows "rsafe False x K (adoptOrCreateRoute x c i)"
  unfolding adoptOrCreateRoute_def
  by (intro route_reads triple_case_sum triple_case_option triple_if rguard.triple_bind_records [OF routes_edit]
      rguard.triple_bind_records [OF routes_create] route_tails)
     (use assms in \<open>auto simp: route_own_def target_free_def route_owner_def dest: owned_route_Some owned_route_all owned_route_None\<close>)

lemma preflight_free:
  "triple log (route_ok del x) K (preflightRouteTarget c i k) (\<lambda>res seen. res = Inr () \<longrightarrow> target_free x k i seen)"
  unfolding preflightRouteTarget_def
  by (intro route_reads triple_return) (auto simp: target_free_def list_ex_iff split: sum.splits if_splits)

lemma rsafe_reconcileCloudflareRoute:
  assumes "route_wanted x i"
  shows "rsafe False x K (reconcileCloudflareRoute x c i)"
proof -
  have edit: "rsafe False x K' (bind_st (preflightRouteTarget c i k) (case_sum (\<lambda>e. return_st (Inl e))
      (\<lambda>_. bind_st (Routes_Edit (Client_TunnelRoutes c) k i) (\<lambda>upd. return_st (with_action routeReconcileUpdated upd)))))"
    if "route_own x k K'" for K' k
  proof (rule triple_bind [OF preflight_free])
    fix res :: "unit result" and seen
    assume "K' \<subseteq> seen" "res = Inr () \<longrightarrow> target_free x k i seen"
    then show "rsafe False x seen (case_sum (\<lambda>e. return_st (Inl e))
        (\<lambda>_. bind_st (Routes_Edit (Client_TunnelRoutes c) k i) (\<lambda>upd. return_st (with_action routeReconcileUpdated upd))) res)"
      using assms that by (intro triple_case_sum rguard.triple_bind_records [OF routes_edit] route_tails) (auto intro: route_seen_mono)
  qed
  show ?thesis
    unfolding reconcileCloudflareRoute_def
    by (intro route_reads triple_case_sum triple_if edit rsafe_adoptOrCreateRoute assms route_tails)
       (auto simp: route_own_def route_owner_def)
qed

lemma rsafe_applyRoute: "route_wanted x i \<Longrightarrow> rsafe False x K (applyRoute r x c i)"
  unfolding applyRoute_def
  by (intro triple_bind_safe [OF rsafe_reconcileCloudflareRoute] triple_case_sum triple_case_prod triple_if
      triple_bind_safe [OF rsafe_route_action_event] triple_bind_safe [OF rsafe_routeNotReady] triple_bind_safe [OF rsafe_setRouteStatus]
      route_quiet route_tails)

end

context route_monitor
begin

lemma route_clientI: "client_log c log \<Longrightarrow> route_client r log c"
  by (rule route_client.intro [OF route_monitor_axioms])

lemma rsafe_reconcileRouteLive: "rsafe False x K (reconcileRouteLive r x)"
proof -
  have "route_wanted x (desired_route x tunnel network)" if "canonicalNetwork (RSpec_Network (R_Spec x)) = Inr network" for tunnel network
    using that by (simp add: route_wanted_def desired_route_def)
  then show ?thesis
    unfolding reconcileRouteLive_def
    by (intro triple_bind_safe [OF rsafe_referencedTunnel] triple_case_sum triple_case_option triple_bind_new_client rsafe_routeRequeue
        triple_bind_safe [OF rsafe_routeNotReady] route_client.rsafe_applyRoute [OF route_clientI] route_tails) auto
qed

lemma rsafe_removeRouteFinalizer: "route_gone x K \<Longrightarrow> rsafe True x K (removeRouteFinalizer r x)"
  unfolding removeRouteFinalizer_def by (intro rguard.triple_bind_records [OF update_route] route_tails) simp

lemma rsafe_Route_reconcileDelete: "rsafe True x K (Route_reconcileDelete r x)"
  unfolding Route_reconcileDelete_def Let_def
  by (intro triple_if triple_bind_safe [OF rsafe_referencedTunnel] triple_case_sum triple_case_option triple_bind_new_client
      rsafe_routeRequeue rsafe_removeRouteFinalizer route_quiet route_tails rguard.triple_bind_records [OF client_log.routes_get]
      rguard.triple_bind_records [OF client_log.routes_delete])
     (auto simp: route_gone_def route_owner_def split: sum.splits if_splits)

end

text \<open>
  The object a pass works on: the one it read, or what the API server stored when the pass added the
  finalizer.
\<close>

definition pass_route :: "CloudflareTunnelRoute \<Rightarrow> call list \<Rightarrow> CloudflareTunnelRoute \<Rightarrow> bool" where
  "pass_route x l y \<longleftrightarrow> y = x \<or> (\<exists>u. EvUpdateRoute u (Inr y) \<in> set l)"

abbreviation R_deleting :: "CloudflareTunnelRoute \<Rightarrow> bool" where
  "R_deleting x \<equiv> Meta_DeletionTimestamp (R_Meta x) \<noteq> None"

context route_monitor
begin

lemma Route_Reconcile_safe:
  assumes run: "run_state (Route_Reconcile r n) s = (out, s')" and "log s = []" and got: "run_state (RR_GetRoute r n) s = (Inr x, s1)"
  shows "\<exists>y. pass_route x (log s') y \<and> guarded (route_ok (R_deleting x) y) (log s')"
proof -
  have l1: "log s1 = []" using get_route [of n] assms(2,3) by (auto simp: quiet_def)
  have live: "pass_route x (log s') y \<and> guarded (route_ok False y) (log s')"
    if "run_state (reconcileRouteLive r y) s2 = (out, s')" "log s2 = [] \<and> y = x \<or> (\<exists>u. log s2 = [EvUpdateRoute u (Inr y)])" for y s2
    using tripleD [OF rsafe_reconcileRouteLive [where K = "{}"] _ _ that(1)] that(2) by (auto simp: pass_route_def)
  show ?thesis
  proof (cases "R_deleting x")
    case True
    then have "run_state (Route_reconcileDelete r x) s1 = (out, s')" using run got by (simp add: Route_Reconcile_def)
    with tripleD [OF rsafe_Route_reconcileDelete [where K = "{}"] _ _ this] l1 True show ?thesis by (auto simp: pass_route_def)
  next
    case False
    obtain meta added where fin: "Base_AddFinalizer r (R_Meta x) Finalizer = (meta, added)" by fastforce
    show ?thesis
    proof (cases added)
      case True
      obtain res s2 where upd: "run_state (RR_UpdateRoute r (x\<lparr>R_Meta := meta\<rparr>)) s1 = (res, s2)" by fastforce
      with update_route l1 have l2: "log s2 = [EvUpdateRoute (x\<lparr>R_Meta := meta\<rparr>) res]" by (simp add: records_def)
      show ?thesis
      proof (cases res)
        case (Inl e)
        with run got False fin True upd l2 show ?thesis by (auto simp: Route_Reconcile_def pass_route_def)
      next
        case (Inr y)
        with run got False fin True upd l2 live [of y s2] show ?thesis by (auto simp: Route_Reconcile_def)
      qed
    next
      case False
      with run got fin \<open>\<not> R_deleting x\<close> live [of x s1] l1 show ?thesis by (auto simp: Route_Reconcile_def)
    qed
  qed
qed

end

interpretation logged_route_pair: route_client "logged_route r" snd "logged_client c" for r c
  by unfold_locales

text \<open>
  C6: The ownership rule for tunnel routes, for every pass of the route controller (live reconcile and
  finalizer), whatever the API server and Cloudflare answer. Running the pass with a recording client
  gives the same outcome and the record of its calls. In a live pass a Cloudflare route is created only
  after a listing of the wanted network and virtual network came back empty; a route is edited only if an
  earlier read showed it to carry this object's ownership comment, and only after a listing of the target
  showed nothing there but that route or routes of this object; what is written is the canonical network
  and the ownership comment of the spec. In a deletion pass the tracked route is deleted only after a read
  showed it to carry the ownership comment, and the finalizer is given up only when there is no tracked
  route, or it is gone, deleted or not this object's. No other writing call of the client is made.
\<close>

theorem Route_Reconcile_owned_only:
  assumes "run_state (Route_Reconcile r n) s = (out, s')" and "run_state (RR_GetRoute r n) s = (Inr x, s1)"
  shows "\<exists>l y. run_state (Route_Reconcile (logged_route r) n) (s, []) = (out, (s', l)) \<and> pass_route x l y \<and>
    guarded (route_ok (R_deleting x) y) l"
proof -
  obtain l where l: "run_state (Route_Reconcile (logged_route r) n) (s, []) = (out, (s', l))"
    using erasesD [OF erases_Route_Reconcile assms(1)] by blast
  have "run_state (RR_GetRoute (logged_route r) n) (s, []) = (Inr x, (s1, []))"
    using assms(2) by (simp add: logged_route_fields lift_log_def)
  from logged_route.Route_Reconcile_safe [OF l _ this] l show ?thesis by auto
qed

end
