(* ===== verification/Policy_Controller.thy ===== *)
theory Policy_Controller
  imports Go_Hash Lease Kube
begin

text \<open>
  \<open>internal/controller/cloudflareaccesspolicy_controller.go\<close> and \<open>accesspolicy_hash.go\<close>: the
  AccessPolicy reconciler and the canonical form of its rules. The rule types of the API package and of
  the Cloudflare package have the same fields and share one record; \<open>canonicalAccessRule\<close> is its own.
\<close>

section \<open>Canonical rules\<close>

record canonicalAccessRule =
  Canon_Email :: string
  Canon_EmailDomain :: string
  Canon_Everyone :: bool
  Canon_GeoCountryCode :: string
  Canon_IP :: string
  Canon_ServiceToken :: string

definition translateRules :: "AccessRule list \<Rightarrow> AccessRule list" where
  "translateRules inp = map (\<lambda>r. \<lparr>Rule_Email = Rule_Email r, Rule_EmailDomain = Rule_EmailDomain r, Rule_IP = Rule_IP r,
     Rule_Everyone = Rule_Everyone r, Rule_ServiceToken = Rule_ServiceToken r, Rule_GeoCountryCode = Rule_GeoCountryCode r\<rparr>) inp"

definition NUL :: string where
  "NUL = [CHR 0x00]"

definition accessRuleSortKey :: "canonicalAccessRule \<Rightarrow> string" where
  "accessRuleSortKey r =
     (if Canon_Email r \<noteq> [] then ''email'' @ NUL @ Canon_Email r
      else if Canon_EmailDomain r \<noteq> [] then ''emailDomain'' @ NUL @ Canon_EmailDomain r
      else if Canon_GeoCountryCode r \<noteq> [] then ''geoCountryCode'' @ NUL @ Canon_GeoCountryCode r
      else if Canon_IP r \<noteq> [] then ''ip'' @ NUL @ Canon_IP r
      else if Canon_ServiceToken r \<noteq> [] then ''serviceToken'' @ NUL @ Canon_ServiceToken r
      else if Canon_Everyone r then ''everyone'' @ NUL @ ''true''
      else [])"

definition canonical_rule :: "AccessRule \<Rightarrow> canonicalAccessRule" where
  "canonical_rule r = \<lparr>Canon_Email = Rule_Email r, Canon_EmailDomain = Rule_EmailDomain r, Canon_Everyone = Rule_Everyone r,
     Canon_GeoCountryCode = Rule_GeoCountryCode r, Canon_IP = Rule_IP r, Canon_ServiceToken = Rule_ServiceToken r\<rparr>"

definition key_less :: "canonicalAccessRule \<Rightarrow> canonicalAccessRule \<Rightarrow> bool" where
  "key_less a b \<longleftrightarrow> accessRuleSortKey a < accessRuleSortKey b"

definition canonicalize :: "AccessRule list \<Rightarrow> canonicalAccessRule list" where
  "canonicalize inp = sort_slice key_less (map canonical_rule inp)"

text \<open>\<open>json.Marshal\<close> of the canonical rules: the fields in struct order, the empty ones left out.\<close>

definition omit_empty :: "string \<Rightarrow> string \<Rightarrow> (string \<times> string) list" where
  "omit_empty key v = (if v = [] then [] else [(key, json_string v)])"

definition json_rule :: "canonicalAccessRule \<Rightarrow> string" where
  "json_rule r = json_object (omit_empty ''email'' (Canon_Email r) @ omit_empty ''emailDomain'' (Canon_EmailDomain r) @
     (if Canon_Everyone r then [(''everyone'', ''true'')] else []) @ omit_empty ''geoCountryCode'' (Canon_GeoCountryCode r) @
     omit_empty ''ip'' (Canon_IP r) @ omit_empty ''serviceToken'' (Canon_ServiceToken r))"

definition omit_empty_rules :: "string \<Rightarrow> canonicalAccessRule list \<Rightarrow> (string \<times> string) list" where
  "omit_empty_rules key rs = (if rs = [] then [] else [(key, json_array (map json_rule rs))])"

definition accessPolicyRulesHash :: "CloudflareAccessPolicy \<Rightarrow> string" where
  "accessPolicyRulesHash policy =
     (let rules = PSpec_Rules (P_Spec policy);
          b = json_object (omit_empty_rules ''include'' (canonicalize (translateRules (Rules_Include rules))) @
                omit_empty_rules ''exclude'' (canonicalize (translateRules (Rules_Exclude rules))) @
                omit_empty_rules ''require'' (canonicalize (translateRules (Rules_Require rules))))
      in ''sha256:'' @ hex_string (Sum256 b))"

section \<open>The reconciler and its constants\<close>

record 's PolicyReconciler = "'s Base" +
  PR_UpdatePolicy :: "CloudflareAccessPolicy \<Rightarrow> ('s, CloudflareAccessPolicy result) state"
  PR_StatusUpdatePolicy :: "CloudflareAccessPolicy \<Rightarrow> ('s, CloudflareAccessPolicy result) state"

definition ReasonForeignPolicy :: string where "ReasonForeignPolicy = ''ForeignPolicy''"

definition ReasonUnsupportedDrift :: string where "ReasonUnsupportedDrift = ''UnsupportedDrift''"

definition EventCreatedAccessPolicy :: string where "EventCreatedAccessPolicy = ''CreatedAccessPolicy''"

definition EventUpdatedAccessPolicy :: string where "EventUpdatedAccessPolicy = ''UpdatedAccessPolicy''"

definition EventDeletedAccessPolicy :: string where "EventDeletedAccessPolicy = ''DeletedAccessPolicy''"

definition EventRecoveredAccessPolicy :: string where "EventRecoveredAccessPolicy = ''RecoveredAccessPolicy''"

abbreviation P_Name :: "CloudflareAccessPolicy \<Rightarrow> string" where
  "P_Name p \<equiv> Meta_Name (P_Meta p)"

abbreviation P_PolicyId :: "CloudflareAccessPolicy \<Rightarrow> string" where
  "P_PolicyId p \<equiv> PStatus_PolicyId (P_Status p)"

definition set_policy_conditions :: "Condition list \<Rightarrow> CloudflareAccessPolicy \<Rightarrow> CloudflareAccessPolicy" where
  "set_policy_conditions cs p = p\<lparr>P_Status := (P_Status p)\<lparr>PStatus_Conditions := cs\<rparr>\<rparr>"

section \<open>Desired state\<close>

definition desiredPolicyName :: "CloudflareAccessPolicy \<Rightarrow> string" where
  "desiredPolicyName policy =
     (if PSpec_PolicyName (P_Spec policy) \<noteq> [] then PSpec_PolicyName (P_Spec policy) else P_Name policy) @ ''-cfzt''"

definition buildAccessPolicyInput :: "CloudflareAccessPolicy \<Rightarrow> string \<Rightarrow> AccessPolicyInput" where
  "buildAccessPolicyInput policy name =
     (let spec = P_Spec policy; rules = PSpec_Rules spec; purpose = PSpec_PurposeJustification spec
      in \<lparr>PolicyIn_Name = name, PolicyIn_Decision = PSpec_Decision spec, PolicyIn_Include = translateRules (Rules_Include rules),
          PolicyIn_Exclude = translateRules (Rules_Exclude rules), PolicyIn_Require = translateRules (Rules_Require rules),
          PolicyIn_SessionDuration = PSpec_SessionDuration spec, PolicyIn_PurposeJustificationRequired = Purpose_Required purpose,
          PolicyIn_PurposeJustificationPrompt = Purpose_Prompt purpose\<rparr>)"

definition cloudflareRulesEqual :: "AccessRule list \<Rightarrow> AccessRule list \<Rightarrow> bool" where
  "cloudflareRulesEqual a b \<longleftrightarrow> canonicalize a = canonicalize b"

definition accessPolicyMatches :: "AccessPolicy \<Rightarrow> CloudflareAccessPolicy \<Rightarrow> string \<Rightarrow> bool" where
  "accessPolicyMatches cfPolicy policy name =
     (let spec = P_Spec policy; rules = PSpec_Rules spec; purpose = PSpec_PurposeJustification spec
      in if Policy_Name cfPolicy \<noteq> name \<or> Policy_Decision cfPolicy \<noteq> PSpec_Decision spec \<or>
            Policy_SessionDuration cfPolicy \<noteq> PSpec_SessionDuration spec \<or>
            Policy_PurposeJustificationRequired cfPolicy \<noteq> Purpose_Required purpose \<or>
            Policy_PurposeJustificationPrompt cfPolicy \<noteq> Purpose_Prompt purpose then False
         else cloudflareRulesEqual (Policy_Include cfPolicy) (translateRules (Rules_Include rules)) \<and>
              cloudflareRulesEqual (Policy_Exclude cfPolicy) (translateRules (Rules_Exclude rules)) \<and>
              cloudflareRulesEqual (Policy_Require cfPolicy) (translateRules (Rules_Require rules)))"

definition ref_less :: "ReferencedExposure \<Rightarrow> ReferencedExposure \<Rightarrow> bool" where
  "ref_less a b = (if Ref_Namespace a \<noteq> Ref_Namespace b then Ref_Namespace a < Ref_Namespace b else Ref_Name a < Ref_Name b)"

definition exposure_refs :: "CloudflareExposure list \<Rightarrow> ReferencedExposure list" where
  "exposure_refs exposures = sort_slice ref_less (map (\<lambda>e. \<lparr>Ref_Namespace = Meta_Namespace (E_Meta e),
     Ref_Name = Meta_Name (E_Meta e), Ref_Uid = Meta_UID (E_Meta e)\<rparr>) exposures)"

definition referencedBy :: "'s PolicyReconciler \<Rightarrow> string \<Rightarrow> ('s, ReferencedExposure list result) state" where
  "referencedBy r policyName = do {
     listed \<leftarrow> listExposuresByPolicy r policyName;
     return_st (case listed of Inl e \<Rightarrow> Inl e | Inr exposures \<Rightarrow> Inr (exposure_refs exposures)) }"

section \<open>Status\<close>

definition set_references :: "ReferencedExposure list option \<Rightarrow> CloudflareAccessPolicy \<Rightarrow> CloudflareAccessPolicy" where
  "set_references refs p = (case refs of
      None \<Rightarrow> p
    | Some rs \<Rightarrow> p\<lparr>P_Status := (P_Status p)\<lparr>PStatus_ReferencedBy := rs, PStatus_ReferencedByCount := of_nat (length rs)\<rparr>\<rparr>)"

definition setPolicyStatus :: "'s PolicyReconciler \<Rightarrow> CloudflareAccessPolicy \<Rightarrow> string \<Rightarrow> string \<Rightarrow> ReferencedExposure list option \<Rightarrow>
    bool \<Rightarrow> string \<Rightarrow> string \<Rightarrow> ('s, unit result) state" where
  "setPolicyStatus r policy policyID observedRulesHash refs ready reason message = do {
     got \<leftarrow> Base_GetAccessPolicy r (P_Name policy);
     case got of
       Inl e \<Rightarrow> return_st (Inl e)
     | Inr latest \<Rightarrow>
         setReady r (\<lambda>p. PStatus_Conditions (P_Status p)) set_policy_conditions (PR_StatusUpdatePolicy r) latest
           (Meta_Generation (P_Meta latest)) ready reason message
           (\<lambda>p. set_references refs (p\<lparr>P_Status := (P_Status p)\<lparr>PStatus_PolicyId := policyID,
              PStatus_ObservedRulesHash := observedRulesHash\<rparr>\<rparr>)) }"

definition policyCredentialsMissing :: "'s PolicyReconciler \<Rightarrow> CloudflareAccessPolicy \<Rightarrow> ReferencedExposure list \<Rightarrow> error \<Rightarrow>
    ('s, ctrl_Result \<times> unit result) state" where
  "policyCredentialsMissing r policy refs e = do {
     st \<leftarrow> setPolicyStatus r policy (P_PolicyId policy) (PStatus_ObservedRulesHash (P_Status policy)) (Some refs) False
       ReasonCredentialsMissing (error_text e);
     return_st (case st of Inl e \<Rightarrow> (no_result, Inl e) | Inr _ \<Rightarrow> (after (30 * second), Inr ())) }"

definition policyStop :: "'s PolicyReconciler \<Rightarrow> CloudflareAccessPolicy \<Rightarrow> string \<Rightarrow> string \<Rightarrow> ReferencedExposure list \<Rightarrow>
    string \<Rightarrow> string \<Rightarrow> ('s, ctrl_Result \<times> unit result) state" where
  "policyStop r policy policyID hash refs reason message = do {
     st \<leftarrow> setPolicyStatus r policy policyID hash (Some refs) False reason message;
     return_st (no_result, st) }"

section \<open>The Cloudflare policy\<close>

text \<open>No tracked policy: recover one with the desired name, or create it.\<close>

definition policy_exists :: "string \<Rightarrow> string \<Rightarrow> string" where
  "policy_exists name detail = ''Cloudflare Access policy '' @ quoteq name @ '' already exists without local ownership record'' @ detail"

definition recoverPolicy :: "'s PolicyReconciler \<Rightarrow> CloudflareAccessPolicy \<Rightarrow> 's Client \<Rightarrow> ReferencedExposure list \<Rightarrow> AccessPolicy \<Rightarrow>
    ('s, ctrl_Result \<times> unit result) state" where
  "recoverPolicy r policy cfClient refs p = do {
     let policyName = desiredPolicyName policy;
     got \<leftarrow> Policies_Get (Client_AccessPolicies cfClient) (Policy_ID p);
     case got of
       Inl e \<Rightarrow>
         if errors_Is e ErrUnsupportedAccessRule then
           policyStop r policy [] [] refs ReasonForeignPolicy (policy_exists policyName '' and has unsupported rules'')
         else return_st (no_result, Inl e)
     | Inr cfPolicy \<Rightarrow>
         if accessPolicyMatches cfPolicy policy policyName then do {
           st \<leftarrow> setPolicyStatus r policy (Policy_ID cfPolicy) (accessPolicyRulesHash policy) (Some refs) True ReasonReconciled
             ''Cloudflare Access policy identity recovered'';
           case st of
             Inl e \<Rightarrow> return_st (no_result, Inl e)
           | Inr _ \<Rightarrow> do {
               _ \<leftarrow> Base_Eventf r (P_Meta policy) EventTypeNormal EventRecoveredAccessPolicy
                 (''Recovered Cloudflare Access policy '' @ Policy_ID cfPolicy @ '' from exact name and rules match'');
               return_st (no_result, Inr ()) } }
         else policyStop r policy [] [] refs ReasonForeignPolicy (policy_exists policyName []) }"

definition recoverOrCreatePolicy :: "'s PolicyReconciler \<Rightarrow> CloudflareAccessPolicy \<Rightarrow> 's Client \<Rightarrow> ReferencedExposure list \<Rightarrow>
    ('s, ctrl_Result \<times> unit result) state" where
  "recoverOrCreatePolicy r policy cfClient refs = do {
     let policyName = desiredPolicyName policy;
     listed \<leftarrow> Policies_List (Client_AccessPolicies cfClient);
     case listed of
       Inl e \<Rightarrow> return_st (no_result, Inl e)
     | Inr existing \<Rightarrow>
         (case find (\<lambda>p. Policy_Name p = policyName) existing of
            Some p \<Rightarrow> recoverPolicy r policy cfClient refs p
          | None \<Rightarrow> do {
              created \<leftarrow> Policies_Create (Client_AccessPolicies cfClient) (buildAccessPolicyInput policy policyName);
              case created of
                Inl e \<Rightarrow> return_st (no_result, Inl e)
              | Inr p \<Rightarrow> do {
                  st \<leftarrow> setPolicyStatus r policy (Policy_ID p) (accessPolicyRulesHash policy) (Some refs) True ReasonReconciled
                    ''Cloudflare Access policy reconciled'';
                  case st of
                    Inl e \<Rightarrow> return_st (no_result, Inl e)
                  | Inr _ \<Rightarrow> do {
                      _ \<leftarrow> Base_Eventf r (P_Meta policy) EventTypeNormal EventCreatedAccessPolicy
                        (''Created Cloudflare Access policy '' @ Policy_ID p);
                      return_st (no_result, Inr ()) } } }) }"

definition trackedPolicy :: "'s PolicyReconciler \<Rightarrow> CloudflareAccessPolicy \<Rightarrow> 's Client \<Rightarrow> ReferencedExposure list \<Rightarrow>
    ('s, ctrl_Result \<times> unit result) state" where
  "trackedPolicy r policy cfClient refs = do {
     let policyName = desiredPolicyName policy;
     let desiredHash = accessPolicyRulesHash policy;
     let observed = PStatus_ObservedRulesHash (P_Status policy);
     got \<leftarrow> Policies_Get (Client_AccessPolicies cfClient) (P_PolicyId policy);
     case got of
       Inl e \<Rightarrow>
         if errors_Is e ErrNotFound then do {
           st \<leftarrow> setPolicyStatus r policy [] [] (Some refs) False ReasonReconciled
             ''tracked Cloudflare Access policy no longer exists, recreating'';
           return_st (case st of Inl e \<Rightarrow> (no_result, Inl e) | Inr _ \<Rightarrow> (\<lparr>Result_Requeue = True, Result_RequeueAfter = 0\<rparr>, Inr ())) }
         else if errors_Is e ErrUnsupportedAccessRule then
           policyStop r policy (P_PolicyId policy) observed refs ReasonUnsupportedDrift (error_text e)
         else return_st (no_result, Inl e)
     | Inr cfPolicy \<Rightarrow>
         if Policy_Name cfPolicy \<noteq> policyName then
           policyStop r policy (P_PolicyId policy) observed refs ReasonForeignPolicy
             (''tracked Cloudflare Access policy '' @ Policy_ID cfPolicy @ '' has name '' @ quoteq (Policy_Name cfPolicy) @ '', want '' @ quoteq policyName)
         else if observed \<noteq> desiredHash \<or> \<not> accessPolicyMatches cfPolicy policy policyName then do {
           upd \<leftarrow> Policies_Update (Client_AccessPolicies cfClient) (P_PolicyId policy) (buildAccessPolicyInput policy policyName);
           case upd of
             Inl e \<Rightarrow> return_st (no_result, Inl e)
           | Inr updated \<Rightarrow> do {
               _ \<leftarrow> Base_Eventf r (P_Meta policy) EventTypeNormal EventUpdatedAccessPolicy
                 (''Updated Cloudflare Access policy '' @ Policy_ID updated);
               st \<leftarrow> setPolicyStatus r policy (P_PolicyId policy) desiredHash (Some refs) True ReasonReconciled
                 ''Cloudflare Access policy reconciled'';
               return_st (no_result, st) } }
         else do {
           st \<leftarrow> setPolicyStatus r policy (P_PolicyId policy) desiredHash (Some refs) True ReasonReconciled
             ''Cloudflare Access policy reconciled'';
           return_st (no_result, st) } }"

section \<open>Deletion\<close>

definition removePolicyFinalizer :: "'s PolicyReconciler \<Rightarrow> CloudflareAccessPolicy \<Rightarrow> ('s, ctrl_Result \<times> unit result) state" where
  "removePolicyFinalizer r policy = do {
     res \<leftarrow> PR_UpdatePolicy r (policy\<lparr>P_Meta := Base_RemoveFinalizer r (P_Meta policy) Finalizer\<rparr>);
     return_st (no_result, case res of Inl e \<Rightarrow> Inl e | Inr _ \<Rightarrow> Inr ()) }"

text \<open>Ready and Progressing set by hand, then the status written.\<close>

definition blockPolicy :: "'s PolicyReconciler \<Rightarrow> CloudflareAccessPolicy \<Rightarrow> string \<Rightarrow> string \<Rightarrow> string \<Rightarrow> ('s, unit result) state" where
  "blockPolicy r policy reason readyMessage progressingMessage = do {
     c1 \<leftarrow> setCondition r (PStatus_Conditions (P_Status policy)) ConditionReady ''False'' reason readyMessage (Meta_Generation (P_Meta policy));
     c2 \<leftarrow> setCondition r c1 ConditionProgressing ''True'' reason progressingMessage (Meta_Generation (P_Meta policy));
     res \<leftarrow> PR_StatusUpdatePolicy r (set_policy_conditions c2 policy);
     return_st (case res of Inl e \<Rightarrow> Inl e | Inr _ \<Rightarrow> Inr ()) }"

definition deleteCloudflarePolicy :: "'s PolicyReconciler \<Rightarrow> CloudflareAccessPolicy \<Rightarrow> 's Client \<Rightarrow> ('s, ctrl_Result \<times> unit result) state" where
  "deleteCloudflarePolicy r policy cfClient = do {
     got \<leftarrow> Policies_GetMetadata (Client_AccessPolicies cfClient) (P_PolicyId policy);
     if (case got of Inl e \<Rightarrow> \<not> errors_Is e ErrNotFound | Inr _ \<Rightarrow> False) then
       return_st (no_result, case got of Inl e \<Rightarrow> Inl e | Inr _ \<Rightarrow> Inr ())
     else if (case got of Inl _ \<Rightarrow> False | Inr cfPolicy \<Rightarrow> Policy_Name cfPolicy \<noteq> desiredPolicyName policy) then do {
       res \<leftarrow> blockPolicy r policy ReasonForeignPolicy ''tracked Cloudflare Access policy name does not match desired policy name''
         ''deletion blocked to avoid deleting a foreign Cloudflare Access policy'';
       return_st (no_result, res) }
     else do {
       del \<leftarrow> Policies_Delete (Client_AccessPolicies cfClient) (P_PolicyId policy);
       case del of
         Inl e \<Rightarrow> if errors_Is e ErrNotFound then removePolicyFinalizer r policy else return_st (no_result, Inl e)
       | Inr _ \<Rightarrow> do {
           _ \<leftarrow> Base_Eventf r (P_Meta policy) EventTypeNormal EventDeletedAccessPolicy
             (''Deleted Cloudflare Access policy '' @ P_PolicyId policy);
           removePolicyFinalizer r policy } } }"

definition Policy_reconcileDelete :: "'s PolicyReconciler \<Rightarrow> CloudflareAccessPolicy \<Rightarrow> ('s, ctrl_Result \<times> unit result) state" where
  "Policy_reconcileDelete r policy =
     (if \<not> Base_ContainsFinalizer r (P_Meta policy) Finalizer then return_st (no_result, Inr ())
      else do {
        refsRes \<leftarrow> referencedBy r (P_Name policy);
        case refsRes of
          Inl e \<Rightarrow> return_st (no_result, Inl e)
        | Inr refs \<Rightarrow>
            if refs \<noteq> [] then do {
              res \<leftarrow> blockPolicy r (set_references (Some refs) policy) ReasonBlockedByExposures
                ''CloudflareAccessPolicy still has referencing CloudflareExposures''
                ''waiting for CloudflareExposures to stop referencing this policy'';
              case res of
                Inl e \<Rightarrow> return_st (no_result, Inl e)
              | Inr _ \<Rightarrow> do {
                  _ \<leftarrow> Base_Eventf r (P_Meta policy) EventTypeWarning EventBlockedByExposures
                    (''Deletion blocked by '' @ itoa (int (length refs)) @ '' CloudflareExposure resources'');
                  return_st (after (30 * second), Inr ()) } }
            else if P_PolicyId policy = [] then removePolicyFinalizer r policy
            else do {
              client \<leftarrow> CloudflareClient r (credentialsRefFromAccessPolicy policy);
              case client of
                Inl e \<Rightarrow> policyCredentialsMissing r policy refs e
              | Inr cfClient \<Rightarrow> deleteCloudflarePolicy r policy cfClient } })"

section \<open>Reconcile\<close>

definition reconcilePolicyLive :: "'s PolicyReconciler \<Rightarrow> CloudflareAccessPolicy \<Rightarrow> ('s, ctrl_Result \<times> unit result) state" where
  "reconcilePolicyLive r policy = do {
     refsRes \<leftarrow> referencedBy r (P_Name policy);
     case refsRes of
       Inl e \<Rightarrow> return_st (no_result, Inl e)
     | Inr refs \<Rightarrow> do {
         client \<leftarrow> CloudflareClient r (credentialsRefFromAccessPolicy policy);
         case client of
           Inl e \<Rightarrow> policyCredentialsMissing r policy refs e
         | Inr cfClient \<Rightarrow>
             if P_PolicyId policy = [] then recoverOrCreatePolicy r policy cfClient refs
             else trackedPolicy r policy cfClient refs } }"

definition Policy_Reconcile :: "'s PolicyReconciler \<Rightarrow> string \<Rightarrow> ('s, ctrl_Result \<times> unit result) state" where
  "Policy_Reconcile r name = do {
     got \<leftarrow> Base_GetAccessPolicy r name;
     case got of
       Inl e \<Rightarrow> return_st (no_result, if apierrors_IsNotFound e then Inr () else Inl e)
     | Inr policy \<Rightarrow>
         if Meta_DeletionTimestamp (P_Meta policy) \<noteq> None then Policy_reconcileDelete r policy
         else (case Base_AddFinalizer r (P_Meta policy) Finalizer of (meta, added) \<Rightarrow>
           if added then do {
             res \<leftarrow> PR_UpdatePolicy r (policy\<lparr>P_Meta := meta\<rparr>);
             return_st (no_result, case res of Inl e \<Rightarrow> Inl e | Inr _ \<Rightarrow> Inr ()) }
           else reconcilePolicyLive r policy) }"

section \<open>Properties\<close>

lemma translateRules_id [simp]: "translateRules rs = rs"
  by (simp add: translateRules_def map_idI)

text \<open>Exactly one field of the union is set, as the CRD's validation requires.\<close>

definition single_field :: "AccessRule \<Rightarrow> bool" where
  "single_field r \<longleftrightarrow> length (filter (\<lambda>b. b) [Rule_Email r \<noteq> [], Rule_EmailDomain r \<noteq> [], Rule_IP r \<noteq> [], Rule_Everyone r,
     Rule_ServiceToken r \<noteq> [], Rule_GeoCountryCode r \<noteq> []]) = 1"

lemma canonical_rule_inj: "canonical_rule r = canonical_rule r' \<longleftrightarrow> r = r'"
  by (cases r; cases r') (auto simp: canonical_rule_def)

text \<open>The sort key names the field before a NUL, so the rule can be read back from it.\<close>

lemma single_field_cases:
  assumes "single_field r"
  obtains v where "v \<noteq> []" "r = zero_rule\<lparr>Rule_Email := v\<rparr>" | v where "v \<noteq> []" "r = zero_rule\<lparr>Rule_EmailDomain := v\<rparr>"
  | v where "v \<noteq> []" "r = zero_rule\<lparr>Rule_IP := v\<rparr>" | "r = zero_rule\<lparr>Rule_Everyone := True\<rparr>"
  | v where "v \<noteq> []" "r = zero_rule\<lparr>Rule_ServiceToken := v\<rparr>" | v where "v \<noteq> []" "r = zero_rule\<lparr>Rule_GeoCountryCode := v\<rparr>"
  using assms by (cases r) (auto simp: single_field_def zero_rule_def split: if_splits)

definition rule_of_key :: "string \<Rightarrow> AccessRule" where
  "rule_of_key key = (case str_cut NUL key of (field, v, _) \<Rightarrow>
      if field = ''email'' then zero_rule\<lparr>Rule_Email := v\<rparr>
      else if field = ''emailDomain'' then zero_rule\<lparr>Rule_EmailDomain := v\<rparr>
      else if field = ''geoCountryCode'' then zero_rule\<lparr>Rule_GeoCountryCode := v\<rparr>
      else if field = ''ip'' then zero_rule\<lparr>Rule_IP := v\<rparr>
      else if field = ''serviceToken'' then zero_rule\<lparr>Rule_ServiceToken := v\<rparr>
      else zero_rule\<lparr>Rule_Everyone := True\<rparr>)"

lemma rule_of_key_sort_key: "single_field r \<Longrightarrow> rule_of_key (accessRuleSortKey (canonical_rule r)) = r"
  by (erule single_field_cases) (simp_all add: rule_of_key_def accessRuleSortKey_def canonical_rule_def zero_rule_def NUL_def)

lemma sort_key_inj:
  "single_field r \<Longrightarrow> single_field r' \<Longrightarrow> accessRuleSortKey (canonical_rule r) = accessRuleSortKey (canonical_rule r') \<Longrightarrow> r = r'"
  by (metis rule_of_key_sort_key)

interpretation key_less: slice_less key_less
  by unfold_locales (auto simp: key_less_def)

interpretation ref_less: slice_less ref_less
  by unfold_locales (auto simp: ref_less_def split: if_splits)

lemma canonicalize_cong: "mset a = mset b \<Longrightarrow> list_all single_field a \<Longrightarrow> canonicalize a = canonicalize b"
  unfolding canonicalize_def
  by (rule key_less.sort_slice_unique) (auto simp: list_all_iff key_less_def dest!: sort_key_inj)

lemma canonicalize_mset: "canonicalize a = canonicalize b \<Longrightarrow> mset a = mset b"
proof -
  assume "canonicalize a = canonicalize b"
  then have "image_mset canonical_rule (mset a) = image_mset canonical_rule (mset b)"
    unfolding canonicalize_def by (metis mset_map mset_sort_slice)
  moreover have "inj canonical_rule" by (simp add: inj_def canonical_rule_inj)
  ultimately show "mset a = mset b" by (metis multiset.inj_map injD)
qed

text \<open>
  C36: The order of the rules of an access policy does not matter. For rules with exactly one field set
  (what the CRD admits), the comparison with the live policy holds iff both sides have the same rules with
  the same multiplicity, and two policies whose rule lists are permutations of each other have the same
  rules hash.
\<close>

theorem access_rules_unordered:
  assumes "list_all single_field a" and "list_all single_field (Rules_Include (PSpec_Rules (P_Spec p)))"
    and "list_all single_field (Rules_Exclude (PSpec_Rules (P_Spec p)))"
    and "list_all single_field (Rules_Require (PSpec_Rules (P_Spec p)))"
  shows "(cloudflareRulesEqual a b \<longleftrightarrow> mset a = mset b) \<and>
    (mset (Rules_Include (PSpec_Rules (P_Spec p))) = mset (Rules_Include (PSpec_Rules (P_Spec q))) \<and>
     mset (Rules_Exclude (PSpec_Rules (P_Spec p))) = mset (Rules_Exclude (PSpec_Rules (P_Spec q))) \<and>
     mset (Rules_Require (PSpec_Rules (P_Spec p))) = mset (Rules_Require (PSpec_Rules (P_Spec q))) \<longrightarrow>
       accessPolicyRulesHash p = accessPolicyRulesHash q)"
proof (intro conjI impI)
  show "cloudflareRulesEqual a b \<longleftrightarrow> mset a = mset b"
    using canonicalize_cong [OF _ assms(1)] canonicalize_mset unfolding cloudflareRulesEqual_def by blast
next
  let ?inc = "\<lambda>p. Rules_Include (PSpec_Rules (P_Spec p))" and ?exc = "\<lambda>p. Rules_Exclude (PSpec_Rules (P_Spec p))"
    and ?req = "\<lambda>p. Rules_Require (PSpec_Rules (P_Spec p))"
  assume same: "mset (?inc p) = mset (?inc q) \<and> mset (?exc p) = mset (?exc q) \<and> mset (?req p) = mset (?req q)"
  have "canonicalize (?inc p) = canonicalize (?inc q)" "canonicalize (?exc p) = canonicalize (?exc q)"
    "canonicalize (?req p) = canonicalize (?req q)"
    using same canonicalize_cong [OF _ assms(2)] canonicalize_cong [OF _ assms(3)] canonicalize_cong [OF _ assms(4)] by blast+
  then show "accessPolicyRulesHash p = accessPolicyRulesHash q" by (simp add: accessPolicyRulesHash_def Let_def)
qed

text \<open>A policy with the given include rules.\<close>

definition example_policy :: "AccessRule list \<Rightarrow> CloudflareAccessPolicy" where
  "example_policy rules = \<lparr>P_Meta = \<lparr>Meta_Namespace = [], Meta_Name = ''staff'', Meta_UID = ''u-7'', Meta_Generation = 1,
       Meta_DeletionTimestamp = None, Meta_Finalizers = [], Meta_Annotations = [], Meta_OwnerReferences = []\<rparr>,
     P_Spec = \<lparr>PSpec_CredentialsSecretRef = \<lparr>PSecretRef_Name = ''cf'', PSecretRef_Namespace = ''edge'',
         PSecretRef_Keys = \<lparr>Keys_AccountId = [], Keys_ApiToken = []\<rparr>\<rparr>, PSpec_PolicyName = [], PSpec_Decision = ''allow'',
       PSpec_Rules = \<lparr>Rules_Include = rules, Rules_Exclude = [], Rules_Require = []\<rparr>, PSpec_SessionDuration = ''24h'',
       PSpec_PurposeJustification = \<lparr>Purpose_Required = False, Purpose_Prompt = []\<rparr>\<rparr>,
     P_Status = \<lparr>PStatus_PolicyId = [], PStatus_ObservedRulesHash = [], PStatus_ReferencedBy = [], PStatus_ReferencedByCount = 0,
       PStatus_Conditions = []\<rparr>\<rparr>"

theorem access_rules_unordered_witness:
  "cloudflareRulesEqual [zero_rule\<lparr>Rule_Email := ''b@x''\<rparr>, zero_rule\<lparr>Rule_IP := ''10.0.0.1''\<rparr>]
     [zero_rule\<lparr>Rule_IP := ''10.0.0.1''\<rparr>, zero_rule\<lparr>Rule_Email := ''b@x''\<rparr>] \<and>
   accessPolicyRulesHash (example_policy [zero_rule\<lparr>Rule_Email := ''b@x''\<rparr>, zero_rule\<lparr>Rule_IP := ''10.0.0.1''\<rparr>]) =
   accessPolicyRulesHash (example_policy [zero_rule\<lparr>Rule_IP := ''10.0.0.1''\<rparr>, zero_rule\<lparr>Rule_Email := ''b@x''\<rparr>])"
proof -
  let ?a = "[zero_rule\<lparr>Rule_Email := ''b@x''\<rparr>, zero_rule\<lparr>Rule_IP := ''10.0.0.1''\<rparr>]"
  have "list_all single_field ?a" by code_simp
  with access_rules_unordered [of ?a "example_policy ?a" "rev ?a" "example_policy (rev ?a)"] show ?thesis
    by (simp add: example_policy_def add_mset_commute)
qed

end
