(* ===== verification/Policy_Safety.thy ===== *)
theory Policy_Safety
  imports Policy_Controller Erasure_Rules
begin

text \<open>
  The safety guard of the access policy controller. \<open>policy_ok x\<close> is what a call may be, given the calls
  before it, in a pass over the policy \<open>x\<close>: a Cloudflare policy is created only when none has its name,
  updated only after a read showed its name and that it differs, deleted only when no exposure refers to
  it and a read showed its name.
\<close>

section \<open>The guard\<close>

abbreviation P_deleting :: "CloudflareAccessPolicy \<Rightarrow> bool" where
  "P_deleting x \<equiv> Meta_DeletionTimestamp (P_Meta x) \<noteq> None"

definition unreferenced :: "CloudflareAccessPolicy \<Rightarrow> call set \<Rightarrow> bool" where
  "unreferenced x seen \<longleftrightarrow> EvListExposures exposureIndexPolicyRefName (P_Name x) (Inr []) \<in> seen"

definition policy_removed :: "CloudflareAccessPolicy \<Rightarrow> call set \<Rightarrow> bool" where
  "policy_removed x seen \<longleftrightarrow> P_PolicyId x = [] \<or>
     (\<exists>res. EvPoliciesDelete (P_PolicyId x) res \<in> seen \<and> (case res of Inl e \<Rightarrow> errors_Is e ErrNotFound | Inr _ \<Rightarrow> True))"

text \<open>The live policy is not what the spec asks for, or the spec has changed since it was written.\<close>

definition policy_drifted :: "CloudflareAccessPolicy \<Rightarrow> AccessPolicy \<Rightarrow> bool" where
  "policy_drifted x p \<longleftrightarrow> PStatus_ObservedRulesHash (P_Status x) \<noteq> accessPolicyRulesHash x \<or>
     \<not> accessPolicyMatches p x (desiredPolicyName x)"

fun policy_ok :: "CloudflareAccessPolicy \<Rightarrow> call set \<Rightarrow> call \<Rightarrow> bool" where
  "policy_ok x seen (EvPoliciesCreate i _) = (\<not> P_deleting x \<and> i = buildAccessPolicyInput x (desiredPolicyName x) \<and> P_PolicyId x = [] \<and>
     (\<exists>ps. EvPoliciesList (Inr ps) \<in> seen \<and> (\<forall>p \<in> set ps. Policy_Name p \<noteq> desiredPolicyName x)))"
| "policy_ok x seen (EvPoliciesUpdate k i _) = (\<not> P_deleting x \<and> i = buildAccessPolicyInput x (desiredPolicyName x) \<and>
     k = P_PolicyId x \<and> k \<noteq> [] \<and> (\<exists>p. EvPoliciesGet k (Inr p) \<in> seen \<and> Policy_Name p = desiredPolicyName x \<and> policy_drifted x p))"
| "policy_ok x seen (EvPoliciesDelete k _) = (P_deleting x \<and> k = P_PolicyId x \<and> k \<noteq> [] \<and> unreferenced x seen \<and>
     (\<exists>res. EvPoliciesMetadata k res \<in> seen \<and> (case res of Inl e \<Rightarrow> errors_Is e ErrNotFound | Inr p \<Rightarrow> Policy_Name p = desiredPolicyName x)))"
| "policy_ok x seen (EvUpdatePolicy _ _) = (P_deleting x \<longrightarrow> unreferenced x seen \<and> policy_removed x seen)"
| "policy_ok x seen e = (\<not> cloudflare_write e)"

lemma policy_seen_mono:
  "unreferenced x K \<Longrightarrow> K \<subseteq> K' \<Longrightarrow> unreferenced x K'" "policy_removed x K \<Longrightarrow> K \<subseteq> K' \<Longrightarrow> policy_removed x K'"
  unfolding unreferenced_def policy_removed_def by blast+

lemma unreferenced_insert: "unreferenced x K \<Longrightarrow> unreferenced x (insert e K)"
  by (rule policy_seen_mono) blast+

interpretation pguard: guard "policy_ok x" for x
proof
  fix K e K' assume "policy_ok x K e" "K \<subseteq> K'"
  then show "policy_ok x K' e" by (cases e) (auto intro: policy_seen_mono)
qed

lemma neutral_policy_calls [simp]:
  "policy_ok x K (EvNow t)" "policy_ok x K (EvListExposures f v er)" "policy_ok x K (EvPoliciesList lr)"
  "policy_ok x K (EvPoliciesGet k gr)" "policy_ok x K (EvPoliciesMetadata k mr)"
  by simp_all

section \<open>The recording policy reconciler\<close>

locale policy_monitor = base_monitor r log
  for r :: "'s PolicyReconciler" and log :: "'s \<Rightarrow> call list" +
  assumes update_policy: "records log (PR_UpdatePolicy r x) (EvUpdatePolicy x)"
    and status_update_policy: "quiet log (PR_StatusUpdatePolicy r x)"

definition logged_policy :: "'s PolicyReconciler \<Rightarrow> ('s \<times> call list) PolicyReconciler" where
  "logged_policy r = logged_base r (PolicyReconciler.fields
     (\<lambda>x. tell (PR_UpdatePolicy r x) (EvUpdatePolicy x)) (\<lambda>x. lift_log (PR_StatusUpdatePolicy r x)))"

lemma logged_policy_fields:
  "PR_UpdatePolicy (logged_policy r) x = tell (PR_UpdatePolicy r x) (EvUpdatePolicy x)"
  "PR_StatusUpdatePolicy (logged_policy r) x = lift_log (PR_StatusUpdatePolicy r x)"
  by (simp_all add: logged_policy_def logged_base_def PolicyReconciler.defs)

interpretation logged_policy: policy_monitor "logged_policy r" snd for r
proof (rule policy_monitor.intro, goal_cases)
  case 1
  show ?case unfolding logged_policy_def by (rule logged_base.base_monitor_axioms)
next
  case 2
  show ?case by unfold_locales (simp_all add: logged_policy_fields quiet_lift_log records_tell)
qed

interpretation policy_log: base_erasure "logged_policy r" r for r
  by unfold_locales (auto simp: logged_policy_def)

lemma erases_policy_calls [erasure]:
  "erases (PR_UpdatePolicy (logged_policy r) x) (PR_UpdatePolicy r x)"
  "erases (PR_StatusUpdatePolicy (logged_policy r) x) (PR_StatusUpdatePolicy r x)"
  by (simp_all add: logged_policy_fields erases_lift_log erases_tell)

lemma erases_referencedBy [erasure]: "erases (referencedBy (logged_policy r) n) (referencedBy r n)"
  unfolding referencedBy_def by (intro erasure)

lemma erases_setPolicyStatus [erasure]:
  "erases (setPolicyStatus (logged_policy r) x i h rs b re msg) (setPolicyStatus r x i h rs b re msg)"
  unfolding setPolicyStatus_def by (intro erasure)

lemma erases_policy_stops [erasure]:
  "erases (policyCredentialsMissing (logged_policy r) x rs e) (policyCredentialsMissing r x rs e)"
  "erases (policyStop (logged_policy r) x i h rs re msg) (policyStop r x i h rs re msg)"
  "erases (blockPolicy (logged_policy r) x re m1 m2) (blockPolicy r x re m1 m2)"
  unfolding policyCredentialsMissing_def policyStop_def blockPolicy_def by (intro erasure)+

lemma erases_recoverPolicy [erasure]:
  "erases (recoverPolicy (logged_policy r) x (logged_client c) rs p) (recoverPolicy r x c rs p)"
  unfolding recoverPolicy_def by (intro erasure)

lemma erases_recoverOrCreatePolicy [erasure]:
  "erases (recoverOrCreatePolicy (logged_policy r) x (logged_client c) rs) (recoverOrCreatePolicy r x c rs)"
  unfolding recoverOrCreatePolicy_def by (intro erasure)

lemma erases_trackedPolicy [erasure]: "erases (trackedPolicy (logged_policy r) x (logged_client c) rs) (trackedPolicy r x c rs)"
  unfolding trackedPolicy_def by (intro erasure)

lemma erases_removePolicyFinalizer [erasure]: "erases (removePolicyFinalizer (logged_policy r) x) (removePolicyFinalizer r x)"
  unfolding removePolicyFinalizer_def policy_log.pure by (intro erasure)

lemma erases_deleteCloudflarePolicy [erasure]:
  "erases (deleteCloudflarePolicy (logged_policy r) x (logged_client c)) (deleteCloudflarePolicy r x c)"
  unfolding deleteCloudflarePolicy_def by (intro erasure)

lemma erases_Policy_reconcileDelete [erasure]: "erases (Policy_reconcileDelete (logged_policy r) x) (Policy_reconcileDelete r x)"
  unfolding Policy_reconcileDelete_def policy_log.pure by (intro erasure)

lemma erases_reconcilePolicyLive [erasure]: "erases (reconcilePolicyLive (logged_policy r) x) (reconcilePolicyLive r x)"
  unfolding reconcilePolicyLive_def by (intro erasure)

lemma erases_Policy_Reconcile: "erases (Policy_Reconcile (logged_policy r) n) (Policy_Reconcile r n)"
  unfolding Policy_Reconcile_def policy_log.pure by (intro erasure)

section \<open>The handlers keep the guard\<close>

context policy_monitor
begin

abbreviation psafe :: "CloudflareAccessPolicy \<Rightarrow> call set \<Rightarrow> ('s, 'a) state \<Rightarrow> bool" where
  "psafe x K m \<equiv> safe log (policy_ok x) K m"

lemmas policy_quiet = triple_bind_quiet [OF get_policy] triple_bind_quiet [OF eventf] triple_bind_quiet [OF status_update_policy]
  pguard.triple_bind_records [OF wall_clock neutral_policy_calls(1)]

lemma psafe_setCondition: "psafe x K (setCondition r cs ty st re msg g)"
  unfolding setCondition_def by (intro policy_quiet safe_return)

lemma psafe_setPolicyStatus: "psafe x K (setPolicyStatus r y i h rs b re msg)"
  unfolding setPolicyStatus_def setReady_def
  by (intro triple_let triple_bind_safe [OF psafe_setCondition] triple_case_sum triple_if policy_quiet safe_return)

lemma psafe_policyCredentialsMissing: "psafe x K (policyCredentialsMissing r y rs e)"
  unfolding policyCredentialsMissing_def by (intro triple_bind_safe [OF psafe_setPolicyStatus] safe_return)

lemma psafe_policyStop: "psafe x K (policyStop r y i h rs re msg)"
  unfolding policyStop_def by (intro triple_bind_safe [OF psafe_setPolicyStatus] safe_return)

lemma psafe_blockPolicy: "psafe x K (blockPolicy r y re m1 m2)"
  unfolding blockPolicy_def by (intro triple_bind_safe [OF psafe_setCondition] policy_quiet safe_return)

lemma referencedBy_unreferenced:
  "triple log (policy_ok x) K (referencedBy r (P_Name x)) (\<lambda>res seen. res = Inr [] \<longrightarrow> unreferenced x seen)"
  unfolding referencedBy_def listExposuresByPolicy_def
  by (intro pguard.triple_bind_records [OF list_exposures neutral_policy_calls(2)] triple_return)
     (auto simp: unreferenced_def exposure_refs_def split: sum.splits)

lemma psafe_removePolicyFinalizer: "unreferenced x K \<Longrightarrow> policy_removed x K \<Longrightarrow> psafe x K (removePolicyFinalizer r x)"
  unfolding removePolicyFinalizer_def by (intro pguard.triple_bind_records [OF update_policy] safe_return) simp

end

locale policy_client = policy_monitor r log + client_log c log
  for r :: "'s PolicyReconciler" and log :: "'s \<Rightarrow> call list" and c :: "'s Client"
begin

lemmas policy_reads = pguard.triple_bind_records [OF policies_list neutral_policy_calls(3)]
  pguard.triple_bind_records [OF policies_get neutral_policy_calls(4)]
  pguard.triple_bind_records [OF policies_metadata neutral_policy_calls(5)]

lemma psafe_recoverPolicy: "psafe x K (recoverPolicy r x c rs p)"
  unfolding recoverPolicy_def Let_def
  by (intro policy_reads triple_case_sum triple_if psafe_policyStop triple_bind_safe [OF psafe_setPolicyStatus] policy_quiet safe_return)

lemma psafe_recoverOrCreatePolicy:
  "\<not> P_deleting x \<Longrightarrow> P_PolicyId x = [] \<Longrightarrow> psafe x K (recoverOrCreatePolicy r x c rs)"
  unfolding recoverOrCreatePolicy_def Let_def
  by (intro policy_reads triple_case_sum triple_case_option psafe_recoverPolicy pguard.triple_bind_records [OF policies_create]
      triple_bind_safe [OF psafe_setPolicyStatus] policy_quiet safe_return) (auto simp: find_None_iff)

lemma psafe_trackedPolicy:
  "\<not> P_deleting x \<Longrightarrow> P_PolicyId x \<noteq> [] \<Longrightarrow> psafe x K (trackedPolicy r x c rs)"
  unfolding trackedPolicy_def Let_def
  by (intro policy_reads triple_case_sum triple_if psafe_policyStop pguard.triple_bind_records [OF policies_update]
      triple_bind_safe [OF psafe_setPolicyStatus] policy_quiet safe_return) (auto simp: policy_drifted_def)

lemma psafe_deleteCloudflarePolicy:
  "P_deleting x \<Longrightarrow> P_PolicyId x \<noteq> [] \<Longrightarrow> unreferenced x K \<Longrightarrow> psafe x K (deleteCloudflarePolicy r x c)"
  unfolding deleteCloudflarePolicy_def
  by (intro policy_reads triple_case_sum triple_if triple_bind_safe [OF psafe_blockPolicy] pguard.triple_bind_records [OF policies_delete]
      psafe_removePolicyFinalizer policy_quiet safe_return)
     (auto simp: policy_removed_def unreferenced_insert split: sum.splits if_splits)

end

context policy_monitor
begin

lemma policy_clientI: "client_log c log \<Longrightarrow> policy_client r log c"
  by (rule policy_client.intro [OF policy_monitor_axioms])

lemma psafe_reconcilePolicyLive: "\<not> P_deleting x \<Longrightarrow> psafe x K (reconcilePolicyLive r x)"
  unfolding reconcilePolicyLive_def
  by (intro triple_bind_safe [OF triple_safe [OF referencedBy_unreferenced]] triple_case_sum triple_bind_new_client triple_if
      psafe_policyCredentialsMissing policy_client.psafe_recoverOrCreatePolicy [OF policy_clientI]
      policy_client.psafe_trackedPolicy [OF policy_clientI] safe_return) auto

lemma psafe_Policy_reconcileDelete:
  assumes "P_deleting x"
  shows "psafe x K (Policy_reconcileDelete r x)"
proof -
  have refs: "psafe x K (bind_st (referencedBy r (P_Name x)) k)"
    if "\<And>res seen. res = Inr [] \<longrightarrow> unreferenced x seen \<Longrightarrow> psafe x seen (k res)"
    for k :: "ReferencedExposure list result \<Rightarrow> ('s, ctrl_Result \<times> unit result) state"
    by (rule triple_bind [OF referencedBy_unreferenced]) (rule that)
  show ?thesis
    unfolding Policy_reconcileDelete_def
    by (intro triple_if refs triple_case_sum triple_bind_new_client triple_bind_safe [OF psafe_blockPolicy] psafe_policyCredentialsMissing
        psafe_removePolicyFinalizer policy_client.psafe_deleteCloudflarePolicy [OF policy_clientI] policy_quiet safe_return)
       (use assms in \<open>auto simp: policy_removed_def\<close>)
qed

lemma Policy_Reconcile_safe:
  assumes "run_state (Policy_Reconcile r n) s = (out, s')" and "log s = []" and "run_state (Base_GetAccessPolicy r n) s = (Inr x, s1)"
  shows "guarded (policy_ok x) (log s')"
proof -
  let ?m = "if P_deleting x then Policy_reconcileDelete r x
    else (case Base_AddFinalizer r (P_Meta x) Finalizer of (meta, added) \<Rightarrow>
      if added then do {
        res \<leftarrow> PR_UpdatePolicy r (x\<lparr>P_Meta := meta\<rparr>);
        return_st (no_result, case res of Inl e \<Rightarrow> Inl e | Inr _ \<Rightarrow> Inr ()) }
      else reconcilePolicyLive r x)"
  have "psafe x {} ?m"
    by (intro triple_if triple_case_prod pguard.triple_bind_records [OF update_policy] safe_return psafe_Policy_reconcileDelete
        psafe_reconcilePolicyLive) auto
  moreover have "log s1 = []" using get_policy [of n] assms(2,3) by (auto simp: quiet_def)
  moreover have "run_state ?m s1 = (out, s')" using assms(1,3) by (simp add: Policy_Reconcile_def)
  ultimately show ?thesis by (auto dest: tripleD [where s = s1])
qed

end

interpretation logged_policy_pair: policy_client "logged_policy r" snd "logged_client c" for r c
  by unfold_locales

text \<open>
  C7: The ownership rule for access policies, for every pass of the policy controller (live reconcile and
  finalizer), whatever the API server and Cloudflare answer. Running the pass with a recording client
  gives the same outcome and the record of its calls. A Cloudflare policy is created only when no policy is
  tracked and a listing showed none with the wanted name; the tracked policy is updated only after a read
  showed that it has the wanted name and that it or the recorded rules hash differs from the spec; what is
  written is the translation of the spec. In a deletion pass the tracked policy is deleted only when a
  listing showed no exposure that refers to the object and a read showed it gone or with the wanted name,
  and the finalizer is given up only without references and after that deletion. No other writing call of
  the client is made.
\<close>

theorem Policy_Reconcile_owned_only:
  assumes "run_state (Policy_Reconcile r n) s = (out, s')" and "run_state (Base_GetAccessPolicy r n) s = (Inr x, s1)"
  shows "\<exists>l. run_state (Policy_Reconcile (logged_policy r) n) (s, []) = (out, (s', l)) \<and> guarded (policy_ok x) l"
proof -
  obtain l where l: "run_state (Policy_Reconcile (logged_policy r) n) (s, []) = (out, (s', l))"
    using erasesD [OF erases_Policy_Reconcile assms(1)] by blast
  have "run_state (Base_GetAccessPolicy (logged_policy r) n) (s, []) = (Inr x, (s1, []))"
    using assms(2) by (simp add: logged_policy_def logged_base_def lift_log_def)
  from logged_policy.Policy_Reconcile_safe [OF l _ this] l show ?thesis by auto
qed

end
