(* ===== verification/Control_Cluster.thy ===== *)
theory Control_Cluster
  imports Tunnel_Safety Route_Safety Policy_Safety Fake Api_Server
begin

text \<open>
  A concrete world for the tunnel, route and policy controllers: their objects beside the fake Cloudflare
  client, with an API server that finds no pod or Secret and accepts every write. Whole passes
  are evaluated on it.
\<close>

record control_world = FakeClient +
  cw_exposures :: "CloudflareExposure list"
  cw_tunnel :: "CloudflareTunnel option"
  cw_route :: "CloudflareTunnelRoute option"
  cw_policy :: "CloudflareAccessPolicy option"
  cw_daemonset :: "DaemonSet option"

definition found :: "'a option \<Rightarrow> 'a result" where
  "found x = (case x of None \<Rightarrow> Inl not_found | Some v \<Rightarrow> Inr v)"

definition control_client :: "control_world Client" where
  "control_client = fake_client example_uuid"

definition control_base :: "'z \<Rightarrow> (control_world, 'z) Base_scheme" where
  "control_base ext = \<lparr>
     Base_GetExposure = (\<lambda>ns n. return_st (Inl not_found)),
     Base_GetTunnel = (\<lambda>n. State (\<lambda>w. (found (cw_tunnel w), w))),
     Base_GetAccessPolicy = (\<lambda>n. State (\<lambda>w. (found (cw_policy w), w))),
     Base_GetService = (\<lambda>ns n. return_st (Inl not_found)),
     Base_GetHTTPRoute = (\<lambda>ns n. return_st (Inl not_found)),
     Base_GetSecret = (\<lambda>ns n. return_st (Inl not_found)),
     Base_ListExposures = (\<lambda>f v. State (\<lambda>w. (Inr (filter (\<lambda>e. v \<in> set (exposureIndex f e)) (cw_exposures w)), w))),
     Base_UpdateExposure = (\<lambda>e. return_st (Inr e)),
     Base_StatusUpdateExposure = (\<lambda>e. return_st (Inr e)),
     Base_Eventf = (\<lambda>m ty re msg. return_st ()),
     Base_Metric = (\<lambda>mt ls. return_st ()),
     Base_WallClock = return_st 7,
     Base_SetStatusCondition = set_condition,
     Base_FindStatusCondition = (\<lambda>cs ty. find (\<lambda>c. Condition_Type c = ty) cs),
     Base_AddFinalizer = add_finalizer,
     Base_ContainsFinalizer = contains_finalizer,
     Base_RemoveFinalizer = remove_finalizer,
     Base_NewCloudflareClient = Some (\<lambda>ref. return_st (Inr control_client)),
     Base_New = (\<lambda>a t. return_st (Inr control_client)),
     \<dots> = ext\<rparr>"

definition tunnel_control :: "control_world TunnelReconciler" where
  "tunnel_control = control_base (TunnelReconciler.fields
     (\<lambda>t. State (\<lambda>w. (Inr t, w\<lparr>cw_tunnel := Some t\<rparr>))) (\<lambda>t. State (\<lambda>w. (Inr t, w\<lparr>cw_tunnel := Some t\<rparr>)))
     (\<lambda>f v. return_st (Inr [])) (\<lambda>ns n. return_st (Inl not_found)) (\<lambda>se. return_st (Inr ())) (\<lambda>se. return_st (Inr ()))
     (\<lambda>ns n. return_st (Inl not_found)) (\<lambda>ns n. State (\<lambda>w. (found (cw_daemonset w), w)))
     (\<lambda>ds. State (\<lambda>w. (Inr (), w\<lparr>cw_daemonset := Some ds\<rparr>))) (\<lambda>ds. State (\<lambda>w. (Inr (), w\<lparr>cw_daemonset := Some ds\<rparr>)))
     (\<lambda>ds. return_st (Inr ())) (\<lambda>ns ls. return_st (Inr [])) (\<lambda>t refs. Inr refs))"

definition route_control :: "control_world RouteReconciler" where
  "route_control = control_base (RouteReconciler.fields (\<lambda>n. State (\<lambda>w. (found (cw_route w), w)))
     (\<lambda>x. State (\<lambda>w. (Inr x, w\<lparr>cw_route := Some x\<rparr>))) (\<lambda>x. State (\<lambda>w. (Inr x, w\<lparr>cw_route := Some x\<rparr>))))"

definition policy_control :: "control_world PolicyReconciler" where
  "policy_control = control_base (PolicyReconciler.fields
     (\<lambda>x. State (\<lambda>w. (Inr x, w\<lparr>cw_policy := Some x\<rparr>))) (\<lambda>x. State (\<lambda>w. (Inr x, w\<lparr>cw_policy := Some x\<rparr>))))"

section \<open>Runs of the recorded calls\<close>

declare tunnel_log.pure(3-7) [simp] route_log.pure(3-7) [simp] policy_log.pure(3-7) [simp]

lemma run_tell: "run_state (tell m f) (w, l) = (case run_state m w of (a, w') \<Rightarrow> (a, (w', f a # l)))"
  by (simp add: tell_def)

lemma run_lift_log: "run_state (lift_log m) (w, l) = (case run_state m w of (a, w') \<Rightarrow> (a, (w', l)))"
  by (simp add: lift_log_def)

lemma run_control_base:
  "run_state (Base_GetTunnel (logged_base (control_base z) y) n) (w, l) = (found (cw_tunnel w), (w, l))"
  "run_state (Base_GetAccessPolicy (logged_base (control_base z) y) n) (w, l) = (found (cw_policy w), (w, l))"
  "run_state (Base_ListExposures (logged_base (control_base z) y) f v) (w, l) =
     (Inr (filter (\<lambda>e. v \<in> set (exposureIndex f e)) (cw_exposures w)),
      (w, EvListExposures f v (Inr (filter (\<lambda>e. v \<in> set (exposureIndex f e)) (cw_exposures w))) # l))"
  "run_state (Base_Eventf (logged_base (control_base z) y) m ty re msg) (w, l) = ((), (w, l))"
  "run_state (Base_WallClock (logged_base (control_base z) y)) (w, l) = (7, (w, EvNow 7 # l))"
  "run_state (CloudflareClient (logged_base (control_base z) y) ref) (w, l) = (Inr (logged_client control_client), (w, l))"
  "Base_SetStatusCondition (control_base z) = set_condition" "Base_AddFinalizer (control_base z) = add_finalizer"
  "Base_ContainsFinalizer (control_base z) = contains_finalizer" "Base_RemoveFinalizer (control_base z) = remove_finalizer"
  by (simp_all add: logged_base_def control_base_def lift_log_def tell_def CloudflareClient_def logged_new_def map_result_def)

lemma run_tunnel_control [simp]:
  "run_state (Base_GetTunnel (logged_tunnel tunnel_control) n) (w, l) = (found (cw_tunnel w), (w, l))"
  "run_state (Base_GetAccessPolicy (logged_tunnel tunnel_control) n) (w, l) = (found (cw_policy w), (w, l))"
  "run_state (Base_ListExposures (logged_tunnel tunnel_control) f v) (w, l) =
     (Inr (filter (\<lambda>e. v \<in> set (exposureIndex f e)) (cw_exposures w)),
      (w, EvListExposures f v (Inr (filter (\<lambda>e. v \<in> set (exposureIndex f e)) (cw_exposures w))) # l))"
  "run_state (Base_Eventf (logged_tunnel tunnel_control) m ty re msg) (w, l) = ((), (w, l))"
  "run_state (Base_WallClock (logged_tunnel tunnel_control)) (w, l) = (7, (w, EvNow 7 # l))"
  "run_state (CloudflareClient (logged_tunnel tunnel_control) ref) (w, l) = (Inr (logged_client control_client), (w, l))"
  "Base_SetStatusCondition tunnel_control = set_condition" "Base_AddFinalizer tunnel_control = add_finalizer"
  "Base_ContainsFinalizer tunnel_control = contains_finalizer" "Base_RemoveFinalizer tunnel_control = remove_finalizer"
  by (simp_all add: logged_tunnel_def tunnel_control_def run_control_base)

lemma run_tunnel_kind [simp]:
  "run_state (TR_UpdateTunnel (logged_tunnel tunnel_control) t) (w, l) = (Inr t, (w\<lparr>cw_tunnel := Some t\<rparr>, EvUpdateTunnel t (Inr t) # l))"
  "run_state (TR_StatusUpdateTunnel (logged_tunnel tunnel_control) t) (w, l) = (Inr t, (w\<lparr>cw_tunnel := Some t\<rparr>, l))"
  "run_state (TR_ListRoutes (logged_tunnel tunnel_control) f v) (w, l) = (Inr [], (w, EvListRoutes f v (Inr []) # l))"
  "run_state (TR_GetSecret (logged_tunnel tunnel_control) ns n) (w, l) = (Inl not_found, (w, l))"
  "run_state (TR_CreateSecret (logged_tunnel tunnel_control) se) (w, l) = (Inr (), (w, l))"
  "run_state (TR_DeleteSecret (logged_tunnel tunnel_control) ns n) (w, l) = (Inl not_found, (w, l))"
  "run_state (TR_GetDaemonSet (logged_tunnel tunnel_control) ns n) (w, l) =
     (found (cw_daemonset w), (w, EvGetDaemonSet ns n (found (cw_daemonset w)) # l))"
  "run_state (TR_CreateDaemonSet (logged_tunnel tunnel_control) ds) (w, l) = (Inr (), (w\<lparr>cw_daemonset := Some ds\<rparr>, l))"
  "run_state (TR_UpdateDaemonSet (logged_tunnel tunnel_control) ds) (w, l) = (Inr (), (w\<lparr>cw_daemonset := Some ds\<rparr>, l))"
  "run_state (TR_ListPods (logged_tunnel tunnel_control) ns ls) (w, l) = (Inr [], (w, EvListPods ns ls (Inr []) # l))"
  "TR_SetControllerReference (logged_tunnel tunnel_control) = (\<lambda>t refs. Inr refs)"
  by (simp_all add: logged_tunnel_fields logged_tunnel_pure tunnel_control_def control_base_def TunnelReconciler.defs run_tell run_lift_log)

lemma run_route_control [simp]:
  "run_state (Base_GetTunnel (logged_route route_control) n) (w, l) = (found (cw_tunnel w), (w, l))"
  "run_state (Base_GetAccessPolicy (logged_route route_control) n) (w, l) = (found (cw_policy w), (w, l))"
  "run_state (Base_ListExposures (logged_route route_control) f v) (w, l) =
     (Inr (filter (\<lambda>e. v \<in> set (exposureIndex f e)) (cw_exposures w)),
      (w, EvListExposures f v (Inr (filter (\<lambda>e. v \<in> set (exposureIndex f e)) (cw_exposures w))) # l))"
  "run_state (Base_Eventf (logged_route route_control) m ty re msg) (w, l) = ((), (w, l))"
  "run_state (Base_WallClock (logged_route route_control)) (w, l) = (7, (w, EvNow 7 # l))"
  "run_state (CloudflareClient (logged_route route_control) ref) (w, l) = (Inr (logged_client control_client), (w, l))"
  "Base_SetStatusCondition route_control = set_condition" "Base_AddFinalizer route_control = add_finalizer"
  "Base_ContainsFinalizer route_control = contains_finalizer" "Base_RemoveFinalizer route_control = remove_finalizer"
  by (simp_all add: logged_route_def route_control_def run_control_base)

lemma run_route_kind [simp]:
  "run_state (RR_GetRoute (logged_route route_control) n) (w, l) = (found (cw_route w), (w, l))"
  "run_state (RR_UpdateRoute (logged_route route_control) x) (w, l) = (Inr x, (w\<lparr>cw_route := Some x\<rparr>, EvUpdateRoute x (Inr x) # l))"
  "run_state (RR_StatusUpdateRoute (logged_route route_control) x) (w, l) = (Inr x, (w\<lparr>cw_route := Some x\<rparr>, l))"
  by (simp_all add: logged_route_fields route_control_def control_base_def RouteReconciler.defs run_tell run_lift_log)

lemma run_policy_control [simp]:
  "run_state (Base_GetTunnel (logged_policy policy_control) n) (w, l) = (found (cw_tunnel w), (w, l))"
  "run_state (Base_GetAccessPolicy (logged_policy policy_control) n) (w, l) = (found (cw_policy w), (w, l))"
  "run_state (Base_ListExposures (logged_policy policy_control) f v) (w, l) =
     (Inr (filter (\<lambda>e. v \<in> set (exposureIndex f e)) (cw_exposures w)),
      (w, EvListExposures f v (Inr (filter (\<lambda>e. v \<in> set (exposureIndex f e)) (cw_exposures w))) # l))"
  "run_state (Base_Eventf (logged_policy policy_control) m ty re msg) (w, l) = ((), (w, l))"
  "run_state (Base_WallClock (logged_policy policy_control)) (w, l) = (7, (w, EvNow 7 # l))"
  "run_state (CloudflareClient (logged_policy policy_control) ref) (w, l) = (Inr (logged_client control_client), (w, l))"
  "Base_SetStatusCondition policy_control = set_condition" "Base_AddFinalizer policy_control = add_finalizer"
  "Base_ContainsFinalizer policy_control = contains_finalizer" "Base_RemoveFinalizer policy_control = remove_finalizer"
  by (simp_all add: logged_policy_def policy_control_def run_control_base)

lemma run_policy_kind [simp]:
  "run_state (PR_UpdatePolicy (logged_policy policy_control) x) (w, l) = (Inr x, (w\<lparr>cw_policy := Some x\<rparr>, EvUpdatePolicy x (Inr x) # l))"
  "run_state (PR_StatusUpdatePolicy (logged_policy policy_control) x) (w, l) = (Inr x, (w\<lparr>cw_policy := Some x\<rparr>, l))"
  by (simp_all add: logged_policy_fields policy_control_def control_base_def PolicyReconciler.defs run_tell run_lift_log)

lemma run_control_client [simp]:
  "run_state (Tunnels_Get (Client_Tunnels (logged_client control_client)) k) (w, l) =
     (case run_state (fakeTunnels_Get k) w of (res, w') \<Rightarrow> (res, (w', EvTunnelsGet k res # l)))"
  "run_state (Tunnels_List (Client_Tunnels (logged_client control_client)) tn) (w, l) =
     (case run_state (fakeTunnels_List tn) w of (res, w') \<Rightarrow> (res, (w', EvTunnelsList tn res # l)))"
  "run_state (Tunnels_Create (Client_Tunnels (logged_client control_client)) ti) (w, l) =
     (case run_state (fakeTunnels_Create example_uuid ti) w of (res, w') \<Rightarrow> (res, (w', EvTunnelsCreate ti res # l)))"
  "run_state (Tunnels_Rename (Client_Tunnels (logged_client control_client)) k ri) (w, l) =
     (case run_state (fakeTunnels_Rename k ri) w of (res, w') \<Rightarrow> (res, (w', EvTunnelsRename k ri res # l)))"
  "run_state (Tunnels_Delete (Client_Tunnels (logged_client control_client)) k) (w, l) =
     (case run_state (fakeTunnels_Delete k) w of (res, w') \<Rightarrow> (res, (w', EvTunnelsDelete k res # l)))"
  "run_state (Tunnels_Token (Client_Tunnels (logged_client control_client)) k) (w, l) =
     (case run_state (fakeTunnels_Token k) w of (res, w') \<Rightarrow> (res, (w', l)))"
  "run_state (Configurations_Update (Client_Configurations (logged_client control_client)) k cfg) (w, l) =
     (case run_state (fakeConfigurations_Update k cfg) w of (res, w') \<Rightarrow> (res, (w', EvConfigUpdate k cfg res # l)))"
  "run_state (Routes_List (Client_TunnelRoutes (logged_client control_client)) rf) (w, l) =
     (case run_state (fakeTunnelRoutes_List rf) w of (res, w') \<Rightarrow> (res, (w', EvRoutesList rf res # l)))"
  "run_state (Routes_Create (Client_TunnelRoutes (logged_client control_client)) rti) (w, l) =
     (case run_state (fakeTunnelRoutes_Create example_uuid rti) w of (res, w') \<Rightarrow> (res, (w', EvRoutesCreate rti res # l)))"
  "run_state (Policies_Get (Client_AccessPolicies (logged_client control_client)) k) (w, l) =
     (case run_state (fakeAccessPolicies_Get k) w of (res, w') \<Rightarrow> (res, (w', EvPoliciesGet k res # l)))"
  "run_state (Policies_Update (Client_AccessPolicies (logged_client control_client)) k pi) (w, l) =
     (case run_state (fakeAccessPolicies_Update k pi) w of (res, w') \<Rightarrow> (res, (w', EvPoliciesUpdate k pi res # l)))"
  by (simp_all add: logged_client_def control_client_def fake_client_def tell_def lift_log_def Let_def)

section \<open>Passes\<close>

definition control_start :: control_world where
  "control_start = \<lparr>fc_tunnels = [(''tun-akl'', \<lparr>Tunnel_ID = ''tun-akl'', Tunnel_Name = ''home''\<rparr>)], fc_tokens = [(''tun-akl'', ''secret'')],
     fc_configurations = [], fc_configurationUpdateCalls = [], fc_accessApps = [], fc_accessTags = [], fc_accessPolicies = [],
     fc_unsupportedAccessPolicies = [], fc_tunnelRoutes = [], fc_dnsRecords = [], fc_zones = [], fc_zoneCache = [],
     fc_zoneCacheReady = False, fc_zoneListCalls = 0, fc_dnsWriteCalls = 0, fc_draws = 0,
     cw_exposures = [], cw_tunnel = None, cw_route = None, cw_policy = None, cw_daemonset = None\<rparr>"

definition finalized_tunnel :: "time option \<Rightarrow> CloudflareTunnel" where
  "finalized_tunnel deleted = home_tunnel\<lparr>T_Meta := (T_Meta home_tunnel)\<lparr>Meta_Finalizers := [Finalizer], Meta_DeletionTimestamp := deleted\<rparr>\<rparr>"

lemmas tunnel_run = Tunnel_Reconcile_def Tunnel_reconcileDelete_def deleteCloudflareTunnel_def finishTunnelDelete_def
  removeTunnelFinalizer_def ensureCloudflaredStopped_def deleteTokenSecret_def listExposuresByTunnel_def listRoutesByTunnel_def
  contains_finalizer_def add_finalizer_def remove_finalizer_def found_def not_found_def fakeTunnels_Get_def fakeTunnels_Delete_def
  Finalizer_def unit_result_def

text \<open>The teardown pass: the Cloudflare tunnel, which still has the legacy name, is deleted.\<close>

lemma teardown_logged:
  "case run_state (Tunnel_Reconcile (logged_tunnel tunnel_control) ''home'')
     (control_start\<lparr>cw_tunnel := Some (finalized_tunnel (Some 5))\<rparr>, []) of
     (out, w, l) \<Rightarrow> EvTunnelsDelete ''tun-akl'' (Inr ()) \<in> set l \<and> fc_tunnels w = [] \<and>
       cw_tunnel w = Some ((finalized_tunnel (Some 5))\<lparr>T_Meta := (T_Meta home_tunnel)\<lparr>Meta_DeletionTimestamp := Some 5\<rparr>\<rparr>)"
  by (simp add: tunnel_run control_start_def finalized_tunnel_def home_tunnel_def)

text \<open>The live pass: the tracked tunnel has the legacy name, is renamed and gets its (empty) configuration.\<close>

lemma renamed_name: "desiredCloudflareTunnelName t \<noteq> TSpec_TunnelName (T_Spec t)"
  by (simp add: desiredCloudflareTunnelName_def Let_def)

lemma Build_empty: "Build [] = Inr \<lparr>Result_Config = \<lparr>Ingress = [\<lparr>Ingress_Hostname = [], Ingress_Service = ''http_status:404''\<rparr>]\<rparr>, Result_Routes = []\<rparr>"
  by code_simp

lemma DaemonSet_for_fields:
  "DS_NumberReady (DaemonSet_for t token) = 0" "DS_OwnerReferences (DaemonSet_for t token) = []"
  by (simp_all add: DaemonSet_for_def new_DaemonSet_def)

lemmas live_run = setTunnelStatus_def setReadyTunnel_def setReady_def setCondition_def DaemonSet_for_fields
  reconcileTunnelLive_def reconcileCloudflareTunnel_def reconcileIdentity_def reconcileToken_def reconcileConnected_def
  tunnel_action_event_def upsertTokenSecret_def upsertDaemonSet_def reconcileTunnelConfig_def daemonSetReady_def setTunnelConfigStatus_def
  tunnelRoutesStatusMatches_def fakeTunnels_Rename_def fakeTunnels_Token_def fakeConfigurations_Update_def

lemma finalized_fields:
  "T_Spec (finalized_tunnel d) = T_Spec home_tunnel" "T_Status (finalized_tunnel d) = T_Status home_tunnel"
  "TSpec_TunnelName (T_Spec home_tunnel) = ''home''" "TStatus_TunnelId (T_Status home_tunnel) = ''tun-akl''"
  "TStatus_IngressDocHash (T_Status home_tunnel) = []"
  "Meta_Finalizers (T_Meta (finalized_tunnel d)) = [''cfzt.reid.ee/finalizer'']"
  "Meta_DeletionTimestamp (T_Meta (finalized_tunnel d)) = d"
  by (simp_all add: finalized_tunnel_def home_tunnel_def Finalizer_def)

lemma hash_not_empty: "tunnelConfigurationHash c \<noteq> []" "[] \<noteq> tunnelConfigurationHash c"
  by (simp_all add: tunnelConfigurationHash_def Let_def)

definition renamed :: "call list \<Rightarrow> bool" where
  "renamed l \<longleftrightarrow> list_ex (\<lambda>e. case e of EvTunnelsRename k i res \<Rightarrow>
       k = ''tun-akl'' \<and> RenameTunnel_Name i = desiredCloudflareTunnelName (finalized_tunnel None) | _ \<Rightarrow> False) l \<and>
     list_ex (\<lambda>e. case e of EvConfigUpdate k cfg res \<Rightarrow>
       k = ''tun-akl'' \<and> cfg = \<lparr>Ingress = [\<lparr>Ingress_Hostname = [], Ingress_Service = ''http_status:404''\<rparr>]\<rparr> | _ \<Rightarrow> False) l"

lemma identity_logged:
  "case run_state (Tunnel_Reconcile (logged_tunnel tunnel_control) ''home'') (control_start\<lparr>cw_tunnel := Some (finalized_tunnel None)\<rparr>, []) of
     (out, w, l) \<Rightarrow> renamed l"
proof -
  have "length (desiredCloudflareTunnelName (finalized_tunnel None)) \<le> 120"
    by (simp add: desiredCloudflareTunnelName_def finalized_tunnel_def home_tunnel_def Let_def)
  with renamed_name [of "finalized_tunnel None"] show ?thesis
    by (simp add: tunnel_run live_run control_start_def Build_empty Let_def set_tunnel_id_def finalized_fields hash_not_empty renamed_def)
qed

text \<open>A route pass: nothing is tracked and nothing holds the network, so the route is created.\<close>

definition lan_route :: CloudflareTunnelRoute where
  "lan_route = \<lparr>R_Meta = \<lparr>Meta_Namespace = [], Meta_Name = ''lan'', Meta_UID = ''u-9'', Meta_Generation = 1,
       Meta_DeletionTimestamp = None, Meta_Finalizers = [''cfzt.reid.ee/finalizer''], Meta_Annotations = [], Meta_OwnerReferences = []\<rparr>,
     R_Spec = \<lparr>RSpec_TunnelRef = \<lparr>RouteTunnelRef_Name = ''home''\<rparr>, RSpec_Network = ''10.1.2.3/12'', RSpec_VirtualNetworkId = ''vn'',
       RSpec_Comment = []\<rparr>,
     R_Status = \<lparr>RStatus_RouteId = [], RStatus_VirtualNetworkId = [], RStatus_Conditions = []\<rparr>\<rparr>"

lemma lan_network: "canonicalNetwork ''10.1.2.3/12'' = Inr ''10.0.0.0/12''"
  by code_simp

lemma lan_fields:
  "R_Spec lan_route = \<lparr>RSpec_TunnelRef = \<lparr>RouteTunnelRef_Name = ''home''\<rparr>, RSpec_Network = ''10.1.2.3/12'',
     RSpec_VirtualNetworkId = ''vn'', RSpec_Comment = []\<rparr>"
  "R_Status lan_route = \<lparr>RStatus_RouteId = [], RStatus_VirtualNetworkId = [], RStatus_Conditions = []\<rparr>"
  "Meta_Finalizers (R_Meta lan_route) = [''cfzt.reid.ee/finalizer'']" "Meta_DeletionTimestamp (R_Meta lan_route) = None"
  "Meta_DeletionTimestamp (T_Meta home_tunnel) = None"
  by (simp_all add: lan_route_def home_tunnel_def)

lemmas ready_run = setReady_def setCondition_def Finalizer_def found_def not_found_def add_finalizer_def

lemmas route_run = Route_Reconcile_def reconcileRouteLive_def referencedTunnel_def applyRoute_def reconcileCloudflareRoute_def
  adoptOrCreateRoute_def desired_route_def route_filter_def with_action_def route_action_event_def setRouteStatus_def
  fakeTunnelRoutes_List_def fakeTunnelRoutes_Create_def applyTunnelRoute_def uuid_New_def ready_run

definition route_created :: "call list \<Rightarrow> bool" where
  "route_created l \<longleftrightarrow> list_ex (\<lambda>e. case e of EvRoutesCreate i res \<Rightarrow>
     i = \<lparr>RouteIn_Network = ''10.0.0.0/12'', RouteIn_TunnelID = ''tun-akl'', RouteIn_VirtualNetworkID = ''vn'',
          RouteIn_Comment = routeOwnershipComment lan_route\<rparr> | _ \<Rightarrow> False) l"

lemma route_logged:
  "case run_state (Route_Reconcile (logged_route route_control) ''lan'')
     (control_start\<lparr>cw_tunnel := Some home_tunnel, cw_route := Some lan_route\<rparr>, []) of (out, w, l) \<Rightarrow>
     route_created l \<and> list_all (\<lambda>e. case e of EvUpdateRoute u res \<Rightarrow> False | _ \<Rightarrow> True) l"
  by (simp add: route_run control_start_def lan_network lan_fields finalized_fields example_uuid_def Let_def route_created_def)

text \<open>A policy pass: the tracked policy was edited by hand (the session is longer), so it is written back.\<close>

definition staff_policy :: CloudflareAccessPolicy where
  "staff_policy = (example_policy [zero_rule\<lparr>Rule_EmailDomain := ''x.nz''\<rparr>])
     \<lparr>P_Meta := \<lparr>Meta_Namespace = [], Meta_Name = ''staff'', Meta_UID = ''u-7'', Meta_Generation = 1, Meta_DeletionTimestamp = None,
        Meta_Finalizers = [''cfzt.reid.ee/finalizer''], Meta_Annotations = [], Meta_OwnerReferences = []\<rparr>,
      P_Status := \<lparr>PStatus_PolicyId = ''p-1'', PStatus_ObservedRulesHash = [], PStatus_ReferencedBy = [], PStatus_ReferencedByCount = 0,
        PStatus_Conditions = []\<rparr>\<rparr>"

definition staff_live :: AccessPolicy where
  "staff_live = \<lparr>Policy_ID = ''p-1'', Policy_Name = ''staff-cfzt'', Policy_Decision = ''allow'', Policy_Include = [],
     Policy_Exclude = [], Policy_Require = [], Policy_SessionDuration = ''720h'', Policy_PurposeJustificationRequired = False,
     Policy_PurposeJustificationPrompt = []\<rparr>"

lemmas policy_run = Policy_Reconcile_def reconcilePolicyLive_def referencedBy_def listExposuresByPolicy_def trackedPolicy_def
  setPolicyStatus_def exposure_refs_def fakeAccessPolicies_Get_def fakeAccessPolicies_Update_def map_default_def ready_run

lemma staff_fields:
  "desiredPolicyName staff_policy = ''staff-cfzt''" "\<not> accessPolicyMatches staff_live staff_policy ''staff-cfzt''"
  "P_PolicyId staff_policy = ''p-1''" "P_Name staff_policy = ''staff''" "Meta_DeletionTimestamp (P_Meta staff_policy) = None"
  "Meta_Finalizers (P_Meta staff_policy) = [''cfzt.reid.ee/finalizer'']" "Policy_Name staff_live = ''staff-cfzt''"
  by (simp_all add: desiredPolicyName_def accessPolicyMatches_def staff_policy_def example_policy_def staff_live_def Let_def)

definition written_back :: "call list \<Rightarrow> bool" where
  "written_back l \<longleftrightarrow> list_ex (\<lambda>e. case e of EvPoliciesUpdate k i res \<Rightarrow>
     k = ''p-1'' \<and> i = buildAccessPolicyInput staff_policy ''staff-cfzt'' | _ \<Rightarrow> False) l"

lemma policy_logged:
  "case run_state (Policy_Reconcile (logged_policy policy_control) ''staff'')
     (control_start\<lparr>fc_accessPolicies := [(''p-1'', staff_live)], cw_policy := Some staff_policy\<rparr>, []) of
     (out, w, l) \<Rightarrow> written_back l"
  by (simp add: policy_run control_start_def staff_fields Let_def written_back_def)


section \<open>The safety properties at these passes\<close>

theorem Tunnel_Reconcile_identity_witness:
  "\<exists>out w l. run_state (Tunnel_Reconcile (logged_tunnel tunnel_control) ''home'') (control_start\<lparr>cw_tunnel := Some (finalized_tunnel None)\<rparr>, []) = (out, (w, l)) \<and> renamed l \<and> guarded (identity_ok (finalized_tunnel None)) l"
proof -
  obtain out w l where run: "run_state (Tunnel_Reconcile (logged_tunnel tunnel_control) ''home'') (control_start\<lparr>cw_tunnel := Some (finalized_tunnel None)\<rparr>, []) = (out, (w, l))"
    by (cases "run_state (Tunnel_Reconcile (logged_tunnel tunnel_control) ''home'') (control_start\<lparr>cw_tunnel := Some (finalized_tunnel None)\<rparr>, [])") auto
  have got: "run_state (Base_GetTunnel tunnel_control ''home'') (control_start\<lparr>cw_tunnel := Some (finalized_tunnel None)\<rparr>) = (Inr (finalized_tunnel None), control_start\<lparr>cw_tunnel := Some (finalized_tunnel None)\<rparr>)"
    by (simp add: tunnel_control_def control_base_def found_def)
  have "renamed l" using identity_logged run by simp
  moreover have "guarded (identity_ok (finalized_tunnel None)) l" using Tunnel_Reconcile_identity [OF erases_run [OF erases_Tunnel_Reconcile run] got] run by simp
  ultimately show ?thesis using run by blast
qed

theorem Tunnel_Reconcile_teardown_witness:
  "\<exists>out w l. run_state (Tunnel_Reconcile (logged_tunnel tunnel_control) ''home'') (control_start\<lparr>cw_tunnel := Some (finalized_tunnel (Some 5))\<rparr>, []) = (out, (w, l)) \<and> EvTunnelsDelete ''tun-akl'' (Inr ()) \<in> set l \<and> guarded (teardown_ok (finalized_tunnel (Some 5))) l"
proof -
  obtain out w l where run: "run_state (Tunnel_Reconcile (logged_tunnel tunnel_control) ''home'') (control_start\<lparr>cw_tunnel := Some (finalized_tunnel (Some 5))\<rparr>, []) = (out, (w, l))"
    by (cases "run_state (Tunnel_Reconcile (logged_tunnel tunnel_control) ''home'') (control_start\<lparr>cw_tunnel := Some (finalized_tunnel (Some 5))\<rparr>, [])") auto
  have got: "run_state (Base_GetTunnel tunnel_control ''home'') (control_start\<lparr>cw_tunnel := Some (finalized_tunnel (Some 5))\<rparr>) = (Inr (finalized_tunnel (Some 5)), control_start\<lparr>cw_tunnel := Some (finalized_tunnel (Some 5))\<rparr>)"
    by (simp add: tunnel_control_def control_base_def found_def)
  have "EvTunnelsDelete ''tun-akl'' (Inr ()) \<in> set l" using teardown_logged run by simp
  moreover have "guarded (teardown_ok (finalized_tunnel (Some 5))) l" using Tunnel_Reconcile_teardown [OF erases_run [OF erases_Tunnel_Reconcile run] got] run by simp
  ultimately show ?thesis using run by blast
qed

theorem Policy_Reconcile_owned_only_witness:
  "\<exists>out w l. run_state (Policy_Reconcile (logged_policy policy_control) ''staff'') (control_start\<lparr>fc_accessPolicies := [(''p-1'', staff_live)], cw_policy := Some staff_policy\<rparr>, []) = (out, (w, l)) \<and> written_back l \<and> guarded (policy_ok staff_policy) l"
proof -
  obtain out w l where run: "run_state (Policy_Reconcile (logged_policy policy_control) ''staff'') (control_start\<lparr>fc_accessPolicies := [(''p-1'', staff_live)], cw_policy := Some staff_policy\<rparr>, []) = (out, (w, l))"
    by (cases "run_state (Policy_Reconcile (logged_policy policy_control) ''staff'') (control_start\<lparr>fc_accessPolicies := [(''p-1'', staff_live)], cw_policy := Some staff_policy\<rparr>, [])") auto
  have got: "run_state (Base_GetAccessPolicy policy_control ''staff'') (control_start\<lparr>fc_accessPolicies := [(''p-1'', staff_live)], cw_policy := Some staff_policy\<rparr>) = (Inr staff_policy, control_start\<lparr>fc_accessPolicies := [(''p-1'', staff_live)], cw_policy := Some staff_policy\<rparr>)"
    by (simp add: policy_control_def control_base_def found_def)
  have "written_back l" using policy_logged run by simp
  moreover have "guarded (policy_ok staff_policy) l" using Policy_Reconcile_owned_only [OF erases_run [OF erases_Policy_Reconcile run] got] run by simp
  ultimately show ?thesis using run by blast
qed

theorem Route_Reconcile_owned_only_witness:
  "\<exists>out w l. run_state (Route_Reconcile (logged_route route_control) ''lan'') (control_start\<lparr>cw_tunnel := Some home_tunnel, cw_route := Some lan_route\<rparr>, []) = (out, (w, l)) \<and> route_created l \<and> guarded (route_ok False lan_route) l"
proof -
  obtain out w l where run: "run_state (Route_Reconcile (logged_route route_control) ''lan'') (control_start\<lparr>cw_tunnel := Some home_tunnel, cw_route := Some lan_route\<rparr>, []) = (out, (w, l))"
    by (cases "run_state (Route_Reconcile (logged_route route_control) ''lan'') (control_start\<lparr>cw_tunnel := Some home_tunnel, cw_route := Some lan_route\<rparr>, [])") auto
  have got: "run_state (RR_GetRoute route_control ''lan'') (control_start\<lparr>cw_tunnel := Some home_tunnel, cw_route := Some lan_route\<rparr>) = (Inr lan_route, control_start\<lparr>cw_tunnel := Some home_tunnel, cw_route := Some lan_route\<rparr>)"
    by (simp add: route_control_def RouteReconciler.defs control_base_def found_def)
  have ev: "route_created l" "list_all (\<lambda>e. case e of EvUpdateRoute u res \<Rightarrow> False | _ \<Rightarrow> True) l" using route_logged run by simp_all
  from Route_Reconcile_owned_only [OF erases_run [OF erases_Route_Reconcile run] got] run
  obtain y where y: "pass_route lan_route l y" "guarded (route_ok (R_deleting lan_route) y) l" by auto
  have "y = lan_route" using y(1) ev(2) by (fastforce simp: pass_route_def list_all_iff)
  with y(2) ev(1) run show ?thesis by (simp add: lan_fields)
qed

end
