(* ===== verification/Tunnel_Drift.thy ===== *)
theory Tunnel_Drift
  imports Control_Cluster
begin

text \<open>
  What the tunnel controller does when the Cloudflare tunnel it tracks was deleted behind its back: two
  passes over a concrete world, evaluated.
\<close>

section \<open>The world\<close>

definition tracking_tunnel :: CloudflareTunnel where
  "tracking_tunnel = (finalized_tunnel None)\<lparr>T_Status := (T_Status home_tunnel)
     \<lparr>TStatus_IngressDocHash := tunnelConfigurationHash (Result_Config (build_ok [web_exposure])),
      TStatus_Routes := map (route_status 3 []) (Result_Routes (build_ok [web_exposure]))\<rparr>\<rparr>"

text \<open>The tunnel object was reconciled with the exposure and a running workload; the Cloudflare tunnel is gone.\<close>

definition gone_world :: control_world where
  "gone_world = control_start\<lparr>fc_tunnels := [], fc_tokens := [], cw_exposures := [web_exposure], cw_tunnel := Some tracking_tunnel,
     cw_daemonset := Some ((DaemonSet_for tracking_tunnel ''secret'')\<lparr>DS_NumberReady := 1\<rparr>)\<rparr>"

lemma Build_web: "Build [web_exposure] = Inr (build_ok [web_exposure])"
proof -
  have "\<not> length (exposures_at h [web_exposure]) > 1" for h by (simp add: exposures_at_def)
  then show ?thesis using Build_cases [of "[web_exposure]"] by simp
qed

lemma tracking_fields:
  "T_Spec tracking_tunnel = T_Spec home_tunnel" "T_Meta tracking_tunnel = T_Meta (finalized_tunnel None)"
  "TStatus_TunnelId (T_Status tracking_tunnel) = ''tun-akl''"
  "TStatus_IngressDocHash (T_Status tracking_tunnel) = tunnelConfigurationHash (Result_Config (build_ok [web_exposure]))"
  "TStatus_Routes (T_Status tracking_tunnel) = map (route_status 3 []) (Result_Routes (build_ok [web_exposure]))"
  by (simp_all add: tracking_tunnel_def finalized_tunnel_def home_tunnel_def)

lemma web_listed: "''home'' \<in> set (exposureIndex exposureIndexTunnelRefName web_exposure)"
  by code_simp


lemma sort_single: "sort_slice lt [x] = [x]"
  by simp

text \<open>The one route, whose status the object already carries.\<close>

lemma web_route: "\<exists>x. Result_Routes (build_ok [web_exposure]) = [x]"
proof -
  have "route_of web_exposure \<noteq> None" by (simp add: route_of_def rule_of_def web_exposure_def)
  then show ?thesis by (auto simp: build_ok_def sort_single List.map_filter_simps)
qed

lemma single_status: "route_status now (map (route_status t []) [x]) x = route_status t [] x"
  by (simp add: route_status_def status_by_key_def)

lemma web_status:
  "tunnelRoutesStatusMatches (map (route_status 3 []) (Result_Routes (build_ok [web_exposure]))) (Result_Routes (build_ok [web_exposure]))"
  "map (route_status now (map (route_status 3 []) (Result_Routes (build_ok [web_exposure])))) (Result_Routes (build_ok [web_exposure])) =
     map (route_status 3 []) (Result_Routes (build_ok [web_exposure]))"
  using web_route single_status by (auto simp: tunnelRoutesStatusMatches_def status_by_key_def route_status_def)

lemma same_status:
  "s = s\<lparr>TStatus_IngressDocHash := h, TStatus_Routes := rs\<rparr> \<longleftrightarrow> TStatus_IngressDocHash s = h \<and> TStatus_Routes s = (rs :: RouteStatus list)"
  by (cases s) auto

lemma home_name: "T_Name (finalized_tunnel d) = ''home''"
  by (simp add: finalized_tunnel_def home_tunnel_def)

lemma desired_status [simp]: "desiredCloudflareTunnelName (t\<lparr>T_Status := st\<rparr>) = desiredCloudflareTunnelName t"
  by (simp add: desiredCloudflareTunnelName_def)

text \<open>Writing the DaemonSet, whether it changed or not.\<close>

definition rotates :: "DaemonSet \<Rightarrow> CloudflareTunnel \<Rightarrow> string \<Rightarrow> bool" where
  "rotates d t token \<longleftrightarrow> \<not> (DS_Labels d = DS_Labels (ApplyDaemonSet d t token) \<and> DS_Spec d = DS_Spec (ApplyDaemonSet d t token)) \<and>
     (case map_of (Template_Annotations (DSpec_Template (DS_Spec d))) TokenChecksumAnnotation of
        None \<Rightarrow> False | Some v \<Rightarrow> v \<noteq> [] \<and> v \<noteq> TokenChecksum token)"

lemma ApplyDaemonSet_same:
  assumes "DS_Labels d = DS_Labels (ApplyDaemonSet d t token)" "DS_Spec d = DS_Spec (ApplyDaemonSet d t token)"
  shows "ApplyDaemonSet d t token = d"
  by (rule DaemonSet.equality) (simp_all add: assms [symmetric])

lemma keep_daemonset: "cw_daemonset w = Some d \<Longrightarrow> w\<lparr>cw_daemonset := Some d\<rparr> = (w :: control_world)"
  by (cases w) simp

lemma run_upsert:
  assumes "cw_daemonset w = Some d"
  shows "run_state (upsertDaemonSet (logged_tunnel tunnel_control) t token) (w, l) =
    ((rotates d t token, Inr ()), (w\<lparr>cw_daemonset := Some (ApplyDaemonSet d t token)\<rparr>,
       EvGetDaemonSet (T_Namespace t) (DaemonSetName (T_Name t)) (Inr d) # l))"
  using ApplyDaemonSet_same [of d t token] keep_daemonset [OF assms]
  by (auto simp: upsertDaemonSet_def assms found_def rotates_def Let_def split: option.splits)

text \<open>Writing the status, whether it changed or not.\<close>

definition with_status :: "CloudflareTunnel \<Rightarrow> string \<Rightarrow> string \<Rightarrow> bool \<Rightarrow> string \<Rightarrow> string \<Rightarrow> CloudflareTunnel" where
  "with_status t i token ready re msg =
     (let condition = (\<lambda>ty st. \<lparr>Condition_Type = ty, Condition_Status = if st then ''True'' else ''False'',
            Condition_ObservedGeneration = Meta_Generation (T_Meta t), Condition_LastTransitionTime = 0, Condition_Reason = re,
            Condition_Message = msg\<rparr>)
      in t\<lparr>T_Status := (T_Status t)\<lparr>TStatus_TunnelId := i, TStatus_TokenSecretRef := \<lparr>TokenSecretRef_Name = token\<rparr>,
           TStatus_DnsMode := (if Dns_Manage (TSpec_Dns (T_Spec t)) then ''managed'' else ''external''),
           TStatus_Conditions := set_condition 7 (set_condition 7 (TStatus_Conditions (T_Status t)) (condition ConditionReady ready))
             (condition ConditionProgressing (\<not> ready))\<rparr>\<rparr>)"

lemma with_status_fields:
  "T_Meta (with_status t i k b re msg) = T_Meta t" "T_Spec (with_status t i k b re msg) = T_Spec t"
  "TStatus_TunnelId (T_Status (with_status t i k b re msg)) = i"
  "TStatus_IngressDocHash (T_Status (with_status t i k b re msg)) = TStatus_IngressDocHash (T_Status t)"
  "TStatus_Routes (T_Status (with_status t i k b re msg)) = TStatus_Routes (T_Status t)"
  by (simp_all add: with_status_def Let_def)

lemma keep_tunnel: "cw_tunnel w = Some t \<Longrightarrow> w\<lparr>cw_tunnel := Some t\<rparr> = (w :: control_world)"
  by (cases w) simp

lemma run_status:
  assumes "cw_tunnel w = Some t"
  shows "run_state (setTunnelStatus (logged_tunnel tunnel_control) u i k b re msg) (w, l) =
    (Inr (), (w\<lparr>cw_tunnel := Some (with_status t i k b re msg)\<rparr>, EvNow 7 # EvNow 7 # l))"
  using keep_tunnel [OF assms]
  by (auto simp: setTunnelStatus_def setReadyTunnel_def setReady_def setCondition_def found_def assms with_status_def
      set_tunnel_conditions_def Let_def)

lemmas drift_live_run = run_status with_status_fields reconcileTunnelLive_def reconcileCloudflareTunnel_def reconcileIdentity_def reconcileToken_def reconcileConnected_def
  tunnel_action_event_def upsertTokenSecret_def reconcileTunnelConfig_def daemonSetReady_def setTunnelConfigStatus_def
  fakeTunnels_Token_def

lemmas drift_run = run_upsert adoptOrCreateTunnel_def gone_world_def Build_web tracking_fields web_status same_status home_name finalized_fields web_listed
  fakeTunnels_List_def fakeTunnels_Create_def uuid_New_def example_uuid_def hash_not_empty

definition is_ready :: "CloudflareTunnel \<Rightarrow> bool" where
  "is_ready t \<longleftrightarrow> list_ex (\<lambda>c. Condition_Type c = ConditionReady \<and> Condition_Status c = ''True'') (TStatus_Conditions (T_Status t))"

lemma set_condition_new: "list_ex (\<lambda>c'. Condition_Type c' = Condition_Type c \<and> Condition_Status c' = Condition_Status c) (set_condition t cs c)"
proof (cases "find (\<lambda>c'. Condition_Type c' = Condition_Type c) cs")
  case None
  then show ?thesis by (simp add: set_condition_def)
next
  case (Some d)
  then have "d \<in> set cs" "Condition_Type d = Condition_Type c" by (auto simp: find_Some_iff)
  then have "c\<lparr>Condition_LastTransitionTime := if Condition_Status d = Condition_Status c then Condition_LastTransitionTime d else t\<rparr>
      \<in> set (set_condition t cs c)"
    by (auto simp: set_condition_def Some)
  then show ?thesis unfolding list_ex_iff by (rule rev_bexI) simp
qed

lemma set_condition_other:
  "Condition_Type c \<noteq> ty \<Longrightarrow> list_ex (\<lambda>c. Condition_Type c = ty \<and> Condition_Status c = st) cs \<Longrightarrow>
     list_ex (\<lambda>c. Condition_Type c = ty \<and> Condition_Status c = st) (set_condition t cs c)"
  by (auto simp: set_condition_def list_ex_iff split: option.splits)

lemma with_status_ready: "is_ready (with_status t i k True re msg)"
proof -
  let ?c = "\<lambda>ty st. \<lparr>Condition_Type = ty, Condition_Status = st, Condition_ObservedGeneration = Meta_Generation (T_Meta t),
    Condition_LastTransitionTime = 0, Condition_Reason = re, Condition_Message = msg\<rparr>"
  have "list_ex (\<lambda>c. Condition_Type c = ConditionReady \<and> Condition_Status c = ''True'')
      (set_condition 7 (TStatus_Conditions (T_Status t)) (?c ConditionReady ''True''))"
    using set_condition_new [of "?c ConditionReady ''True''"] by simp
  then show ?thesis
    using set_condition_other [of "?c ConditionProgressing ''False''" ConditionReady]
    by (simp add: is_ready_def with_status_def ConditionReady_def ConditionProgressing_def Let_def)
qed

section \<open>The passes\<close>

text \<open>What a pass leaves: a new Cloudflare tunnel, tracked and reported ready, without a configuration.\<close>

definition unconfigured :: "control_world \<Rightarrow> bool" where
  "unconfigured w \<longleftrightarrow> cw_exposures w = [web_exposure] \<and> fc_configurations w = [] \<and> fc_tokens w = [] \<and>
     fc_tunnels w = [(''id-'', \<lparr>Tunnel_ID = ''id-'', Tunnel_Name = desiredCloudflareTunnelName tracking_tunnel\<rparr>)] \<and>
     (\<exists>t d. cw_tunnel w = Some t \<and> T_Meta t = T_Meta tracking_tunnel \<and> T_Spec t = T_Spec tracking_tunnel \<and> T_TunnelId t = ''id-'' \<and>
        TStatus_IngressDocHash (T_Status t) = TStatus_IngressDocHash (T_Status tracking_tunnel) \<and>
        TStatus_Routes (T_Status t) = TStatus_Routes (T_Status tracking_tunnel) \<and> is_ready t \<and>
        cw_daemonset w = Some d \<and> DS_NumberReady d = 1)"

lemma drift_pass:
  "case run_state (Tunnel_Reconcile (logged_tunnel tunnel_control) ''home'') (gone_world, []) of
     (out, w, l) \<Rightarrow> out = (no_result, Inr ()) \<and> unconfigured w"
proof -
  have "length (desiredCloudflareTunnelName tracking_tunnel) \<le> 120"
    by (simp add: desiredCloudflareTunnelName_def tracking_fields home_tunnel_def Let_def)
  with renamed_name [of "tracking_tunnel"] show ?thesis
    by (simp add: tunnel_run drift_live_run control_start_def drift_run unconfigured_def with_status_ready Let_def set_tunnel_id_def)
qed

lemma desired_same: "T_Meta t = T_Meta u \<Longrightarrow> T_Spec t = T_Spec u \<Longrightarrow> desiredCloudflareTunnelName t = desiredCloudflareTunnelName u"
  by (simp add: desiredCloudflareTunnelName_def)

lemma steady_pass:
  assumes "unconfigured w"
  shows "case run_state (Tunnel_Reconcile (logged_tunnel tunnel_control) ''home'') (w, []) of
     (out, w', l) \<Rightarrow> out = (no_result, Inr ()) \<and> unconfigured w'"
proof -
  from assms obtain t d where t: "cw_tunnel w = Some t" "T_Meta t = T_Meta tracking_tunnel" "T_Spec t = T_Spec tracking_tunnel"
      "T_TunnelId t = ''id-''" "TStatus_IngressDocHash (T_Status t) = TStatus_IngressDocHash (T_Status tracking_tunnel)"
      "TStatus_Routes (T_Status t) = TStatus_Routes (T_Status tracking_tunnel)" "cw_daemonset w = Some d" "DS_NumberReady d = 1"
    and w: "cw_exposures w = [web_exposure]" "fc_configurations w = []" "fc_tokens w = []"
      "fc_tunnels w = [(''id-'', \<lparr>Tunnel_ID = ''id-'', Tunnel_Name = desiredCloudflareTunnelName tracking_tunnel\<rparr>)]"
    unfolding unconfigured_def by blast
  have "length (desiredCloudflareTunnelName t) \<le> 120"
    by (simp add: desiredCloudflareTunnelName_def t tracking_fields home_tunnel_def Let_def)
  with desired_same [OF t(2,3)] show ?thesis
    by (simp add: tunnel_run drift_live_run drift_run unconfigured_def with_status_ready Let_def set_tunnel_id_def t w)
qed


text \<open>
  C38: A recreated Cloudflare tunnel stays without configuration. The object below was reconciled: its
  status carries the hash and the routes of the document that \<open>Build\<close> gives for its one exposure, and
  its connectors run. Its Cloudflare tunnel was then deleted outside the operator. The next pass creates a
  new Cloudflare tunnel and tracks it, but decides from the hash in the status, which is about the old
  tunnel, that the configuration is up to date. It ends without error and with \<open>Ready=True\<close>, and so does
  every later pass, while the new tunnel never gets an ingress document.
\<close>

theorem recreated_tunnel_unconfigured:
  "case run_state (Tunnel_Reconcile tunnel_control ''home'') gone_world of (out, w) \<Rightarrow>
     out = (no_result, Inr ()) \<and>
     (\<forall>n. unconfigured (((\<lambda>w. snd (run_state (Tunnel_Reconcile tunnel_control ''home'') w)) ^^ n) w))"
proof -
  let ?pass = "\<lambda>w. snd (run_state (Tunnel_Reconcile tunnel_control ''home'') w)"
  have plain: "run_state (Tunnel_Reconcile tunnel_control ''home'') w = (out, w')"
    if "run_state (Tunnel_Reconcile (logged_tunnel tunnel_control) ''home'') (w, []) = (out, w', l)" for w out w' l
    using erases_run [OF erases_Tunnel_Reconcile that] .
  have "unconfigured (?pass w)" if "unconfigured w" for w
    using steady_pass [OF that] plain [of w] by (auto split: prod.splits)
  then have "unconfigured ((?pass ^^ n) w)" if "unconfigured w" for w n
    using that by (induction n) auto
  then show ?thesis using drift_pass plain [of gone_world] by (auto split: prod.splits)
qed

end
