(* ===== verification/Tunnel_Settling.thy ===== *)
theory Tunnel_Settling
  imports Tunnel_Drift
begin

text \<open>
  The ingress document at Cloudflare follows the exposures, as long as nobody else deletes the tunnel: an
  invariant of the tunnel controller's passes over the fake client.
\<close>

section \<open>The parts of a pass\<close>

text \<open>The object with the hash and the routes of a document in its status.\<close>

definition config_status :: "CloudflareTunnel \<Rightarrow> Route list \<Rightarrow> string \<Rightarrow> CloudflareTunnel" where
  "config_status t routes h = t\<lparr>T_Status := (T_Status t)\<lparr>TStatus_IngressDocHash := h,
     TStatus_Routes := map (route_status 7 (TStatus_Routes (T_Status t))) routes\<rparr>\<rparr>"

lemma config_status_fields [simp]:
  "T_Meta (config_status t rs h) = T_Meta t" "T_Spec (config_status t rs h) = T_Spec t"
  "T_TunnelId (config_status t rs h) = T_TunnelId t" "TStatus_IngressDocHash (T_Status (config_status t rs h)) = h"
  "TStatus_Routes (T_Status (config_status t rs h)) = map (route_status 7 (TStatus_Routes (T_Status t))) rs"
  by (simp_all add: config_status_def)

lemma run_config_status:
  assumes "cw_tunnel w = Some t"
  shows "run_state (setTunnelConfigStatus (logged_tunnel tunnel_control) u rs h) (w, l) =
    (Inr (), (w\<lparr>cw_tunnel := Some (config_status t rs h)\<rparr>, EvNow 7 # l))"
proof (cases "T_Status t = T_Status (config_status t rs h)")
  case True
  then have "config_status t rs h = t" by (simp add: config_status_def)
  with True keep_tunnel [OF assms] show ?thesis
    by (simp add: setTunnelConfigStatus_def found_def assms config_status_def unit_result_def Let_def)
next
  case False
  then show ?thesis by (simp add: setTunnelConfigStatus_def found_def assms config_status_def unit_result_def Let_def)
qed

lemma run_upsert_any:
  "\<exists>rot d. run_state (upsertDaemonSet (logged_tunnel tunnel_control) t token) (w, l) =
    ((rot, Inr ()), (w\<lparr>cw_daemonset := Some d\<rparr>, EvGetDaemonSet (T_Namespace t) (DaemonSetName (T_Name t)) (found (cw_daemonset w)) # l))"
proof (cases "cw_daemonset w")
  case None
  then show ?thesis by (auto simp: upsertDaemonSet_def found_def not_found_def Let_def)
next
  case (Some d)
  from run_upsert [OF this, of t token l] show ?thesis by (auto simp: found_def Some)
qed

lemma run_secret: "run_state (upsertTokenSecret (logged_tunnel tunnel_control) t token) (w, l) = (Inr (), (w, l))"
  by (simp add: upsertTokenSecret_def not_found_def Let_def)

text \<open>The exposures of a tunnel, and whether its status is that of their document.\<close>

definition exposures_of :: "control_world \<Rightarrow> CloudflareTunnel \<Rightarrow> CloudflareExposure list" where
  "exposures_of w t = filter (\<lambda>e. T_Name t \<in> set (exposureIndex exposureIndexTunnelRefName e)) (cw_exposures w)"

definition up_to_date :: "CloudflareTunnel \<Rightarrow> Result \<Rightarrow> bool" where
  "up_to_date t res \<longleftrightarrow> TStatus_IngressDocHash (T_Status t) = tunnelConfigurationHash (Result_Config res) \<and>
     tunnelRoutesStatusMatches (TStatus_Routes (T_Status t)) (Result_Routes res)"

definition tracks_tunnel :: "control_world \<Rightarrow> CloudflareTunnel \<Rightarrow> bool" where
  "tracks_tunnel w t \<longleftrightarrow> T_TunnelId t \<noteq> [] \<and> length (desiredCloudflareTunnelName t) \<le> 120 \<and>
     map_of (fc_tunnels w) (T_TunnelId t) = Some \<lparr>Tunnel_ID = T_TunnelId t, Tunnel_Name = desiredCloudflareTunnelName t\<rparr>"

definition live_tunnel :: "CloudflareTunnel \<Rightarrow> bool" where
  "live_tunnel t \<longleftrightarrow> Meta_DeletionTimestamp (T_Meta t) = None \<and> Finalizer \<in> set (Meta_Finalizers (T_Meta t))"

abbreviation no_write :: "call list \<Rightarrow> bool" where
  "no_write l \<equiv> list_all (\<lambda>e. \<not> cloudflare_write e) l"

definition configured :: "control_world \<Rightarrow> CloudflareTunnel \<Rightarrow> Result \<Rightarrow> (string \<times> TunnelConfiguration) list" where
  "configured w t res = (if up_to_date t res then fc_configurations w
     else AList.update (T_TunnelId t) (Result_Config res) (fc_configurations w))"

lemma run_config:
  assumes "cw_tunnel w = Some t" and "tracks_tunnel w t" and "Build (exposures_of w t) = Inr res"
  shows "\<exists>w' l'. run_state (reconcileTunnelConfig (logged_tunnel tunnel_control) t (logged_client control_client) (T_TunnelId t)) (w, l) =
      (Inr (\<not> up_to_date t res, length (Result_Routes res)), (w', l')) \<and>
    cw_tunnel w' = Some (config_status t (Result_Routes res) (tunnelConfigurationHash (Result_Config res))) \<and>
    fc_configurations w' = configured w t res \<and> fc_tunnels w' = fc_tunnels w \<and> cw_exposures w' = cw_exposures w \<and>
    cw_daemonset w' = cw_daemonset w \<and> (up_to_date t res \<and> no_write l \<longrightarrow> no_write l')"
proof (cases "up_to_date t res")
  case True
  with assms run_config_status [OF assms(1)] show ?thesis
    by (simp add: reconcileTunnelConfig_def listExposuresByTunnel_def exposures_of_def up_to_date_def configured_def Let_def)
next
  case False
  let ?w = "w\<lparr>fc_configurations := AList.update (T_TunnelId t) (Result_Config res) (fc_configurations w),
    fc_configurationUpdateCalls := AList.update (T_TunnelId t) (Suc (Fake.map_default 0 (fc_configurationUpdateCalls w) (T_TunnelId t)))
      (fc_configurationUpdateCalls w)\<rparr>"
  have "cw_tunnel ?w = Some t" using assms(1) by simp
  from False assms run_config_status [OF this] show ?thesis
    by (auto simp: reconcileTunnelConfig_def listExposuresByTunnel_def exposures_of_def up_to_date_def configured_def tracks_tunnel_def
        fakeConfigurations_Update_def Let_def)
qed

text \<open>What a pass over a tracked tunnel leaves.\<close>

definition passed :: "control_world \<Rightarrow> CloudflareTunnel \<Rightarrow> Result \<Rightarrow> control_world \<Rightarrow> bool" where
  "passed w t res w' \<longleftrightarrow> (\<exists>t'. cw_tunnel w' = Some t' \<and> T_Meta t' = T_Meta t \<and> T_Spec t' = T_Spec t \<and> T_TunnelId t' = T_TunnelId t \<and>
     TStatus_IngressDocHash (T_Status t') = tunnelConfigurationHash (Result_Config res) \<and>
     TStatus_Routes (T_Status t') = map (route_status 7 (TStatus_Routes (T_Status t))) (Result_Routes res)) \<and>
     fc_configurations w' = configured w t res \<and> fc_tunnels w' = fc_tunnels w \<and> cw_exposures w' = cw_exposures w"

lemma run_connected:
  assumes "cw_tunnel w = Some t" and "tracks_tunnel w t" and "Build (exposures_of w t) = Inr res" and "cw_daemonset w = Some d"
  shows "\<exists>w' l'. run_state (reconcileConnected (logged_tunnel tunnel_control) t (logged_client control_client)
      \<lparr>Tunnel_ID = T_TunnelId t, Tunnel_Name = nm\<rparr>) (w, l) = ((no_result, Inr ()), (w', l')) \<and> passed w t res w' \<and>
    (up_to_date t res \<and> no_write l \<longrightarrow> no_write l')"
proof -
  let ?t = "config_status t (Result_Routes res) (tunnelConfigurationHash (Result_Config res))"
  obtain w' l' where config: "run_state (reconcileTunnelConfig (logged_tunnel tunnel_control) t (logged_client control_client) (T_TunnelId t)) (w, l) =
      (Inr (\<not> up_to_date t res, length (Result_Routes res)), (w', l'))"
    and w': "cw_tunnel w' = Some ?t" "fc_configurations w' = configured w t res" "fc_tunnels w' = fc_tunnels w"
      "cw_exposures w' = cw_exposures w" "cw_daemonset w' = cw_daemonset w" and l': "up_to_date t res \<and> no_write l \<longrightarrow> no_write l'"
    using run_config [OF assms(1-3)] by blast
  from run_status [OF w'(1)] w' l' config assms(4) show ?thesis
    by (cases "0 < sint (DS_NumberReady d)"; cases "up_to_date t res")
      (simp_all add: reconcileConnected_def daemonSetReady_def found_def passed_def with_status_fields)
qed

text \<open>A pass over a tracked tunnel comes to its configuration, with the workload applied.\<close>

lemma run_token:
  assumes "tracks_tunnel w t"
  shows "\<exists>d e. run_state (reconcileToken (logged_tunnel tunnel_control) t (logged_client control_client) \<lparr>Tunnel_ID = T_TunnelId t, Tunnel_Name = nm\<rparr>) (w, l) =
    run_state (reconcileConnected (logged_tunnel tunnel_control) t (logged_client control_client) \<lparr>Tunnel_ID = T_TunnelId t, Tunnel_Name = nm\<rparr>)
      (w\<lparr>cw_daemonset := Some d\<rparr>, e # l) \<and> \<not> cloudflare_write e"
proof -
  obtain token where token: "run_state (fakeTunnels_Token (T_TunnelId t)) w = (Inr token, w)"
    using assms by (cases "map_of (fc_tokens w) (T_TunnelId t)") (auto simp: fakeTunnels_Token_def tracks_tunnel_def)
  obtain rot d where "run_state (upsertDaemonSet (logged_tunnel tunnel_control) t token) (w, l) =
      ((rot, Inr ()), (w\<lparr>cw_daemonset := Some d\<rparr>, EvGetDaemonSet (T_Namespace t) (DaemonSetName (T_Name t)) (found (cw_daemonset w)) # l))"
    using run_upsert_any by blast
  with token show ?thesis
    by (intro exI [of _ d] exI [of _ "EvGetDaemonSet (T_Namespace t) (DaemonSetName (T_Name t)) (found (cw_daemonset w))"])
      (simp add: reconcileToken_def run_secret)
qed

lemma same_id: "set_tunnel_id (T_TunnelId t) t = t"
  by (simp add: set_tunnel_id_def)

lemma run_to_config:
  assumes "cw_tunnel w = Some t" and "live_tunnel t" and "tracks_tunnel w t"
  shows "\<exists>d l. run_state (Tunnel_Reconcile (logged_tunnel tunnel_control) n) (w, []) =
    run_state (reconcileConnected (logged_tunnel tunnel_control) t (logged_client control_client)
      \<lparr>Tunnel_ID = T_TunnelId t, Tunnel_Name = desiredCloudflareTunnelName t\<rparr>) (w\<lparr>cw_daemonset := Some d\<rparr>, l) \<and> no_write l"
proof -
  let ?l = "[EvTunnelsGet (T_TunnelId t) (Inr \<lparr>Tunnel_ID = T_TunnelId t, Tunnel_Name = desiredCloudflareTunnelName t\<rparr>)]"
  have "run_state (Tunnel_Reconcile (logged_tunnel tunnel_control) n) (w, []) = run_state (reconcileToken (logged_tunnel tunnel_control) t
      (logged_client control_client) \<lparr>Tunnel_ID = T_TunnelId t, Tunnel_Name = desiredCloudflareTunnelName t\<rparr>) (w, ?l)"
    using assms by (simp add: Tunnel_Reconcile_def reconcileTunnelLive_def reconcileCloudflareTunnel_def reconcileIdentity_def
      tunnel_action_event_def live_tunnel_def tracks_tunnel_def found_def add_finalizer_def fakeTunnels_Get_def same_id Let_def)
  moreover obtain d e where "run_state (reconcileToken (logged_tunnel tunnel_control) t (logged_client control_client)
      \<lparr>Tunnel_ID = T_TunnelId t, Tunnel_Name = desiredCloudflareTunnelName t\<rparr>) (w, ?l) =
    run_state (reconcileConnected (logged_tunnel tunnel_control) t (logged_client control_client)
      \<lparr>Tunnel_ID = T_TunnelId t, Tunnel_Name = desiredCloudflareTunnelName t\<rparr>) (w\<lparr>cw_daemonset := Some d\<rparr>, e # ?l)" "\<not> cloudflare_write e"
    using run_token [OF assms(3)] by blast
  ultimately show ?thesis by (intro exI [of _ d] exI [of _ "e # ?l"]) simp
qed

lemma run_pass:
  assumes "cw_tunnel w = Some t" and "live_tunnel t" and "tracks_tunnel w t" and "Build (exposures_of w t) = Inr res"
  shows "\<exists>w' l'. run_state (Tunnel_Reconcile (logged_tunnel tunnel_control) n) (w, []) = ((no_result, Inr ()), (w', l')) \<and>
    passed w t res w' \<and> (up_to_date t res \<longrightarrow> no_write l')"
proof -
  obtain d l where run: "run_state (Tunnel_Reconcile (logged_tunnel tunnel_control) n) (w, []) =
    run_state (reconcileConnected (logged_tunnel tunnel_control) t (logged_client control_client)
      \<lparr>Tunnel_ID = T_TunnelId t, Tunnel_Name = desiredCloudflareTunnelName t\<rparr>) (w\<lparr>cw_daemonset := Some d\<rparr>, l)" and l: "no_write l"
    using run_to_config [OF assms(1-3)] by blast
  let ?w = "w\<lparr>cw_daemonset := Some d\<rparr>"
  have "cw_tunnel ?w = Some t" "tracks_tunnel ?w t" "Build (exposures_of ?w t) = Inr res" "cw_daemonset ?w = Some d"
    using assms by (simp_all add: tracks_tunnel_def exposures_of_def)
  note connected = run_connected [OF this, of "desiredCloudflareTunnelName t" l]
  have "passed ?w t res w' = passed w t res w'" for w' by (simp add: passed_def configured_def)
  with connected run l show ?thesis by auto
qed

text \<open>Two exposures claim one hostname: the pass reports it and leaves the document as it is.\<close>

lemma run_conflict:
  assumes "cw_tunnel w = Some t" and "live_tunnel t" and "tracks_tunnel w t" and "Build (exposures_of w t) = Inl e"
  shows "\<exists>out w' l' t'. run_state (Tunnel_Reconcile (logged_tunnel tunnel_control) n) (w, []) = (out, (w', l')) \<and> cw_tunnel w' = Some t' \<and>
    T_Meta t' = T_Meta t \<and> T_Spec t' = T_Spec t \<and> T_TunnelId t' = T_TunnelId t \<and>
    TStatus_IngressDocHash (T_Status t') = TStatus_IngressDocHash (T_Status t) \<and>
    fc_configurations w' = fc_configurations w \<and> fc_tunnels w' = fc_tunnels w"
proof -
  obtain d l where run: "run_state (Tunnel_Reconcile (logged_tunnel tunnel_control) n) (w, []) =
    run_state (reconcileConnected (logged_tunnel tunnel_control) t (logged_client control_client)
      \<lparr>Tunnel_ID = T_TunnelId t, Tunnel_Name = desiredCloudflareTunnelName t\<rparr>) (w\<lparr>cw_daemonset := Some d\<rparr>, l)"
    using run_to_config [OF assms(1-3)] by blast
  obtain hs where e: "e = ErrHostnames hs" using Build_cases [of "exposures_of w t"] assms(4) by auto
  have "cw_tunnel (w\<lparr>cw_daemonset := Some d\<rparr>) = Some t" using assms(1) by simp
  from run_status [OF this] assms(4) e run show ?thesis
    by (simp add: reconcileConnected_def reconcileTunnelConfig_def listExposuresByTunnel_def exposures_of_def with_status_fields)
qed

text \<open>The route statuses that a pass writes match the document's routes.\<close>

definition route_key :: "Route \<Rightarrow> string" where
  "route_key x = routeStatusKey (Route_Namespace x) (Route_Name x) (Route_Hostname x)"

lemma written_status_matches:
  assumes "distinct (map route_key routes)"
  shows "tunnelRoutesStatusMatches (map (route_status now old) routes) routes"
proof -
  let ?entry = "\<lambda>x. (route_key x, route_status now old x)"
  have fields: "RouteStatus_ExposureUid (route_status now old x) = Route_ExposureUID x" "RouteStatus_Hash (route_status now old x) = Route_Hash x"
    "routeStatusKey (RouteStatus_Namespace (route_status now old x)) (RouteStatus_Name (route_status now old x))
       (RouteStatus_Hostname (route_status now old x)) = route_key x" for x
    by (simp_all add: route_status_def route_key_def)
  have "status_by_key (map (route_status now old) routes) = map_of (rev (map ?entry routes))"
    by (simp add: status_by_key_def o_def fields)
  moreover have "distinct (map fst (rev (map ?entry routes)))" using assms by (simp add: rev_map [symmetric] o_def)
  ultimately have "status_by_key (map (route_status now old) routes) (route_key x) = Some (route_status now old x)" if "x \<in> set routes" for x
    using that by (metis (no_types, lifting) image_eqI map_of_is_SomeI set_map set_rev)
  then show ?thesis by (simp add: tunnelRoutesStatusMatches_def list_all_iff fields flip: route_key_def)
qed

section \<open>The invariant\<close>

text \<open>
  The object tracks its Cloudflare tunnel, and if its status carries a hash, then the document at Cloudflare
  has it.
\<close>

definition document_with :: "control_world \<Rightarrow> string \<Rightarrow> string \<Rightarrow> bool" where
  "document_with w k h \<longleftrightarrow> (case map_of (fc_configurations w) k of None \<Rightarrow> False | Some cfg \<Rightarrow> tunnelConfigurationHash cfg = h)"

definition coherent :: "control_world \<Rightarrow> bool" where
  "coherent w \<longleftrightarrow> (case cw_tunnel w of None \<Rightarrow> False | Some t \<Rightarrow> live_tunnel t \<and> tracks_tunnel w t \<and>
     (TStatus_IngressDocHash (T_Status t) = [] \<or> document_with w (T_TunnelId t) (TStatus_IngressDocHash (T_Status t))))"

definition tunnel_pass :: "string \<Rightarrow> control_world \<Rightarrow> control_world" where
  "tunnel_pass n w = snd (run_state (Tunnel_Reconcile tunnel_control n) w)"

text \<open>
  A pass; an edit of the object that leaves its tunnel's name, and does not delete it; and whatever anybody
  else does to the rest of the world: exposures come, change and go, the workload is changed, other
  controllers write other resources. Only the Cloudflare tunnels and their documents are this controller's.
\<close>

inductive tunnel_step :: "control_world \<Rightarrow> control_world \<Rightarrow> bool" where
  pass: "tunnel_step w (tunnel_pass n w)"
| edit: "cw_tunnel w = Some t \<Longrightarrow> t' = t\<lparr>T_Meta := m, T_Spec := sp\<rparr> \<Longrightarrow> live_tunnel t' \<Longrightarrow>
    desiredCloudflareTunnelName t' = desiredCloudflareTunnelName t \<Longrightarrow> tunnel_step w (w\<lparr>cw_tunnel := Some t'\<rparr>)"
| others: "cw_tunnel w' = cw_tunnel w \<Longrightarrow> fc_tunnels w' = fc_tunnels w \<Longrightarrow> fc_configurations w' = fc_configurations w \<Longrightarrow> tunnel_step w w'"

lemma tunnel_passI:
  "run_state (Tunnel_Reconcile (logged_tunnel tunnel_control) n) (w, []) = (out, (w', l)) \<Longrightarrow> tunnel_pass n w = w'"
  using erases_run [OF erases_Tunnel_Reconcile] by (fastforce simp: tunnel_pass_def)

lemma coherentE:
  assumes "coherent w"
  obtains t where "cw_tunnel w = Some t" "live_tunnel t" "tracks_tunnel w t"
    "TStatus_IngressDocHash (T_Status t) = [] \<or> document_with w (T_TunnelId t) (TStatus_IngressDocHash (T_Status t))"
  using assms by (auto simp: coherent_def split: option.splits)

lemma tracks_cong:
  "T_Meta t' = T_Meta t \<Longrightarrow> T_Spec t' = T_Spec t \<Longrightarrow> T_TunnelId t' = T_TunnelId t \<Longrightarrow> fc_tunnels w' = fc_tunnels w \<Longrightarrow>
     tracks_tunnel w' t' = tracks_tunnel w t"
  using desired_same [of t' t] by (simp add: tracks_tunnel_def)

text \<open>After a pass the document is the one for the exposures.\<close>

lemma configured_document:
  assumes "fc_configurations w' = configured w t res"
    and "TStatus_IngressDocHash (T_Status t) = [] \<or> document_with w (T_TunnelId t) (TStatus_IngressDocHash (T_Status t))"
  shows "document_with w' (T_TunnelId t) (tunnelConfigurationHash (Result_Config res))"
  using assms hash_not_empty by (auto simp: document_with_def configured_def up_to_date_def update_conv' split: option.splits)

lemma passed_coherent:
  assumes "live_tunnel t" and "tracks_tunnel w t" and "passed w t res w'"
    and "TStatus_IngressDocHash (T_Status t) = [] \<or> document_with w (T_TunnelId t) (TStatus_IngressDocHash (T_Status t))"
  shows "coherent w' \<and> document_with w' (T_TunnelId t) (tunnelConfigurationHash (Result_Config res))"
proof -
  obtain t' where t': "cw_tunnel w' = Some t'" "T_Meta t' = T_Meta t" "T_Spec t' = T_Spec t" "T_TunnelId t' = T_TunnelId t"
      "TStatus_IngressDocHash (T_Status t') = tunnelConfigurationHash (Result_Config res)"
    and w': "fc_configurations w' = configured w t res" "fc_tunnels w' = fc_tunnels w"
    using assms(3) by (auto simp: passed_def)
  have "tracks_tunnel w' t'" using tracks_cong [OF t'(2-4) w'(2)] assms(2) by simp
  with t' assms(1) configured_document [OF w'(1) assms(4)] show ?thesis by (simp add: coherent_def live_tunnel_def)
qed

lemma coherent_pass:
  assumes "coherent w"
  shows "coherent (tunnel_pass n w)"
proof -
  obtain t where t: "cw_tunnel w = Some t" "live_tunnel t" "tracks_tunnel w t"
    "TStatus_IngressDocHash (T_Status t) = [] \<or> document_with w (T_TunnelId t) (TStatus_IngressDocHash (T_Status t))"
    using assms by (rule coherentE)
  show ?thesis
  proof (cases "Build (exposures_of w t)")
    case (Inl e)
    obtain out w' l' t' where "run_state (Tunnel_Reconcile (logged_tunnel tunnel_control) n) (w, []) = (out, (w', l'))"
      and w': "cw_tunnel w' = Some t'" "T_Meta t' = T_Meta t" "T_Spec t' = T_Spec t" "T_TunnelId t' = T_TunnelId t"
        "TStatus_IngressDocHash (T_Status t') = TStatus_IngressDocHash (T_Status t)" "fc_configurations w' = fc_configurations w" "fc_tunnels w' = fc_tunnels w"
      using run_conflict [OF t(1-3) Inl] by blast
    moreover have "tracks_tunnel w' t'" using tracks_cong [OF w'(2-4,7)] t(3) by simp
    ultimately show ?thesis using t by (simp add: tunnel_passI coherent_def live_tunnel_def document_with_def)
  next
    case (Inr res)
    with run_pass [OF t(1-3)] passed_coherent [OF t(2,3) _ t(4)] show ?thesis by (metis tunnel_passI)
  qed
qed

lemma coherent_step: "tunnel_step w w' \<Longrightarrow> coherent w \<Longrightarrow> coherent w'"
proof (induction rule: tunnel_step.induct)
  case (pass w n)
  then show ?case by (rule coherent_pass)
next
  case (edit w t t' m sp)
  then show ?case by (auto simp: coherent_def live_tunnel_def tracks_tunnel_def document_with_def)
next
  case (others w' w)
  then show ?case by (auto simp: coherent_def tracks_tunnel_def document_with_def split: option.splits)
qed

lemma coherent_steps: "tunnel_step\<^sup>*\<^sup>* w w' \<Longrightarrow> coherent w \<Longrightarrow> coherent w'"
  by (induction rule: rtranclp_induct) (auto intro: coherent_step)

text \<open>The pass after one that succeeded has nothing to write.\<close>

lemma next_pass:
  assumes "cw_tunnel w = Some t" and "live_tunnel t" and "tracks_tunnel w t" and "Build (exposures_of w t) = Inr res"
    and "distinct (map route_key (Result_Routes res))"
  shows "\<exists>w' l. run_state (Tunnel_Reconcile (logged_tunnel tunnel_control) m) (tunnel_pass n w, []) = ((no_result, Inr ()), (w', l)) \<and> no_write l"
proof -
  obtain w' l' where run: "run_state (Tunnel_Reconcile (logged_tunnel tunnel_control) n) (w, []) = ((no_result, Inr ()), (w', l'))"
    and passed: "passed w t res w'" using run_pass [OF assms(1-4)] by blast
  obtain t' where t': "cw_tunnel w' = Some t'" "T_Meta t' = T_Meta t" "T_Spec t' = T_Spec t" "T_TunnelId t' = T_TunnelId t"
      "TStatus_IngressDocHash (T_Status t') = tunnelConfigurationHash (Result_Config res)"
      "TStatus_Routes (T_Status t') = map (route_status 7 (TStatus_Routes (T_Status t))) (Result_Routes res)"
    and w': "fc_tunnels w' = fc_tunnels w" "cw_exposures w' = cw_exposures w"
    using passed by (auto simp: passed_def)
  have "live_tunnel t'" "tracks_tunnel w' t'" "Build (exposures_of w' t') = Inr res"
    using assms(2-4) t' w' tracks_cong [OF t'(2-4) w'(1)] by (simp_all add: live_tunnel_def exposures_of_def)
  moreover have "up_to_date t' res" using t'(5,6) written_status_matches [OF assms(5)] by (simp add: up_to_date_def)
  ultimately show ?thesis using run_pass [OF t'(1), of res m] tunnel_passI [OF run] by auto
qed

text \<open>
  C13: The ingress document follows the exposures. In a world where the tunnel object tracks its Cloudflare
  tunnel and has not yet recorded a document, or has recorded the hash of the one at Cloudflare, take any
  sequence of passes of the tunnel controller, edits of the object, and changes of everything else that leave the Cloudflare tunnels
  and their documents alone: exposures come, change and go, also into conflict. Whenever afterwards the
  exposures of the tunnel have a document, the next pass leaves the document with its hash at Cloudflare under the
  tracked tunnel; and if no two routes of the document have the same key, the pass after that makes no Cloudflare write.
  (A tunnel that is deleted behind the controller's back breaks the sequence, and the conclusion.)
\<close>

theorem ingress_follows_exposures:
  assumes "coherent w0" and "tunnel_step\<^sup>*\<^sup>* w0 w"
  shows "coherent w \<and> (\<exists>t. cw_tunnel w = Some t \<and> (\<forall>res n. Build (exposures_of w t) = Inr res \<longrightarrow>
    document_with (tunnel_pass n w) (T_TunnelId t) (tunnelConfigurationHash (Result_Config res)) \<and>
    (distinct (map route_key (Result_Routes res)) \<longrightarrow>
      (\<exists>w' l. run_state (Tunnel_Reconcile (logged_tunnel tunnel_control) n) (tunnel_pass n w, []) = ((no_result, Inr ()), (w', l)) \<and>
        no_write l))))"
proof -
  have coherent: "coherent w" using coherent_steps assms by blast
  then obtain t where t: "cw_tunnel w = Some t" "live_tunnel t" "tracks_tunnel w t"
    "TStatus_IngressDocHash (T_Status t) = [] \<or> document_with w (T_TunnelId t) (TStatus_IngressDocHash (T_Status t))"
    by (rule coherentE)
  have "document_with (tunnel_pass n w) (T_TunnelId t) (tunnelConfigurationHash (Result_Config res))"
    if "Build (exposures_of w t) = Inr res" for res n
    using run_pass [OF t(1-3) that] passed_coherent [OF t(2,3) _ t(4)] by (metis tunnel_passI)
  with coherent t next_pass [OF t(1-3)] show ?thesis by blast
qed

text \<open>An exposure comes after the tunnel was set up; the next pass writes its document.\<close>

definition fresh_world :: control_world where
  "fresh_world = control_start\<lparr>fc_tunnels := [(''tun-akl'', \<lparr>Tunnel_ID = ''tun-akl'', Tunnel_Name = desiredCloudflareTunnelName (finalized_tunnel None)\<rparr>)],
     cw_tunnel := Some (finalized_tunnel None)\<rparr>"

theorem ingress_follows_exposures_witness:
  "document_with (tunnel_pass ''home'' (fresh_world\<lparr>cw_exposures := [web_exposure]\<rparr>)) ''tun-akl''
     (tunnelConfigurationHash (Result_Config (build_ok [web_exposure])))"
proof -
  let ?w = "fresh_world\<lparr>cw_exposures := [web_exposure]\<rparr>"
  have "length (desiredCloudflareTunnelName (finalized_tunnel None)) \<le> 120"
    by (simp add: desiredCloudflareTunnelName_def finalized_fields Let_def)
  then have "coherent fresh_world"
    by (simp add: coherent_def fresh_world_def live_tunnel_def tracks_tunnel_def finalized_fields Finalizer_def)
  moreover have "tunnel_step\<^sup>*\<^sup>* fresh_world ?w" by (intro r_into_rtranclp others) simp_all
  moreover have "cw_tunnel ?w = Some (finalized_tunnel None)" "exposures_of ?w (finalized_tunnel None) = [web_exposure]"
    by (simp_all add: fresh_world_def exposures_of_def home_name web_listed)
  ultimately show ?thesis
    using ingress_follows_exposures [of fresh_world ?w] Build_web by (simp add: finalized_fields)
qed

end
