(* ===== verification/Policy_Settling.thy ===== *)
theory Policy_Settling
  imports Settling Control_Cluster
begin

text \<open>
  Convergence of the policy controller on the fake client: from a missing, deleted or edited Cloudflare
  policy, with or without the finalizer, a few passes bring Cloudflare to the spec, and from then on a pass
  changes nothing, neither the object nor Cloudflare.
\<close>

section \<open>One pass\<close>

text \<open>The object after a pass that reported the Cloudflare policy \<open>k\<close>.\<close>

definition reported :: "string \<Rightarrow> ReferencedExposure list \<Rightarrow> string \<Rightarrow> CloudflareAccessPolicy \<Rightarrow> CloudflareAccessPolicy" where
  "reported k refs msg p = p\<lparr>P_Status := \<lparr>PStatus_PolicyId = k, PStatus_ObservedRulesHash = accessPolicyRulesHash p,
     PStatus_ReferencedBy = refs, PStatus_ReferencedByCount = of_nat (length refs),
     PStatus_Conditions = ready_conditions 7 True (Meta_Generation (P_Meta p)) ReasonReconciled msg (PStatus_Conditions (P_Status p))\<rparr>\<rparr>"

lemma reported_fields [simp]:
  "P_Meta (reported k refs msg p) = P_Meta p" "P_Spec (reported k refs msg p) = P_Spec p"
  "P_PolicyId (reported k refs msg p) = k" "PStatus_ObservedRulesHash (P_Status (reported k refs msg p)) = accessPolicyRulesHash p"
  "PStatus_Conditions (P_Status (reported k refs msg p)) = ready_conditions 7 True (Meta_Generation (P_Meta p)) ReasonReconciled msg (PStatus_Conditions (P_Status p))"
  by (simp_all add: reported_def)

lemma spec_only [simp]:
  "accessPolicyRulesHash (reported k refs msg p) = accessPolicyRulesHash p"
  "desiredPolicyName (reported k refs msg p) = desiredPolicyName p"
  "accessPolicyMatches q (reported k refs msg p) n = accessPolicyMatches q p n"
  "buildAccessPolicyInput (reported k refs msg p) n = buildAccessPolicyInput p n"
  by (simp_all add: accessPolicyRulesHash_def desiredPolicyName_def accessPolicyMatches_def buildAccessPolicyInput_def Let_def)

lemma reported_idem: "reported k refs msg (reported k refs msg p) = reported k refs msg p"
  by (simp add: reported_def [of k refs msg "reported k refs msg p"] ready_conditions_idem) (simp add: reported_def)

lemma same_policy: "cw_policy w = Some p \<Longrightarrow> w\<lparr>cw_policy := Some p\<rparr> = w"
  by simp

lemma run_report:
  assumes "cw_policy w = Some p"
  shows "run_state (setPolicyStatus (logged_policy policy_control) x k (accessPolicyRulesHash p) (Some refs) True ReasonReconciled msg) (w, l) =
    (Inr (), (w\<lparr>cw_policy := Some (reported k refs msg p)\<rparr>, EvNow 7 # EvNow 7 # l))"
proof -
  let ?p = "set_references (Some refs) (p\<lparr>P_Status := P_Status p\<lparr>PStatus_PolicyId := k, PStatus_ObservedRulesHash := accessPolicyRulesHash p\<rparr>\<rparr>)"
  have new: "set_policy_conditions (ready_conditions 7 True (Meta_Generation (P_Meta p)) ReasonReconciled msg (PStatus_Conditions (P_Status ?p))) ?p = reported k refs msg p"
    by (simp add: set_policy_conditions_def reported_def set_references_def)
  show ?thesis
    using assms new by (auto simp: setPolicyStatus_def setReady_def setCondition_def found_def Let_def ready_conditions_def
      status_condition_def same_policy)
qed

lemma run_policy_status:
  assumes "cw_policy w = Some p"
  shows "\<exists>p'. run_state (setPolicyStatus (logged_policy policy_control) x k h (Some refs) ready reason msg) (w, l) =
    (Inr (), (w\<lparr>cw_policy := Some p'\<rparr>, EvNow 7 # EvNow 7 # l)) \<and> P_Meta p' = P_Meta p \<and> P_Spec p' = P_Spec p \<and> P_PolicyId p' = k \<and>
    PStatus_Conditions (P_Status p') = ready_conditions 7 ready (Meta_Generation (P_Meta p)) reason msg (PStatus_Conditions (P_Status p))"
proof -
  let ?q = "set_references (Some refs) (p\<lparr>P_Status := P_Status p\<lparr>PStatus_PolicyId := k, PStatus_ObservedRulesHash := h\<rparr>\<rparr>)"
  let ?p = "set_policy_conditions (ready_conditions 7 ready (Meta_Generation (P_Meta p)) reason msg (PStatus_Conditions (P_Status ?q))) ?q"
  have "P_Meta ?p = P_Meta p" "P_Spec ?p = P_Spec p" "P_PolicyId ?p = k"
    "PStatus_Conditions (P_Status ?p) = ready_conditions 7 ready (Meta_Generation (P_Meta p)) reason msg (PStatus_Conditions (P_Status p))"
    by (simp_all add: set_policy_conditions_def set_references_def)
  moreover have "run_state (setPolicyStatus (logged_policy policy_control) x k h (Some refs) ready reason msg) (w, l) =
      (Inr (), (w\<lparr>cw_policy := Some ?p\<rparr>, EvNow 7 # EvNow 7 # l))"
    using assms by (cases ready) (auto simp: setPolicyStatus_def setReady_def setCondition_def found_def Let_def same_policy
      ready_conditions_def status_condition_def)
  ultimately show ?thesis by blast
qed

text \<open>What one pass does in each of the states that a policy goes through.\<close>

definition live_policy :: "CloudflareAccessPolicy \<Rightarrow> bool" where
  "live_policy p \<longleftrightarrow> Meta_DeletionTimestamp (P_Meta p) = None \<and> Finalizer \<in> set (Meta_Finalizers (P_Meta p))"

definition world_refs :: "control_world \<Rightarrow> CloudflareAccessPolicy \<Rightarrow> ReferencedExposure list" where
  "world_refs w p = exposure_refs (filter (\<lambda>e. P_Name p \<in> set (exposureIndex exposureIndexPolicyRefName e)) (cw_exposures w))"

definition policy_supported :: "control_world \<Rightarrow> string \<Rightarrow> bool" where
  "policy_supported w k \<longleftrightarrow> \<not> map_default False (fc_unsupportedAccessPolicies w) k"

definition tracks :: "control_world \<Rightarrow> CloudflareAccessPolicy \<Rightarrow> (AccessPolicy \<Rightarrow> bool) \<Rightarrow> bool" where
  "tracks w p P \<longleftrightarrow> P_PolicyId p \<noteq> [] \<and> policy_supported w (P_PolicyId p) \<and>
     (case map_of (fc_accessPolicies w) (P_PolicyId p) of None \<Rightarrow> False | Some q \<Rightarrow> P q)"

text \<open>The object tracks a Cloudflare policy that is what its spec asks for.\<close>

definition in_sync :: "control_world \<Rightarrow> CloudflareAccessPolicy \<Rightarrow> bool" where
  "in_sync w p \<longleftrightarrow> live_policy p \<and> PStatus_ObservedRulesHash (P_Status p) = accessPolicyRulesHash p \<and>
     tracks w p (\<lambda>q. accessPolicyMatches q p (desiredPolicyName p))"

definition policy_message :: string where
  "policy_message = ''Cloudflare Access policy reconciled''"

lemma matches_name: "accessPolicyMatches q p n \<Longrightarrow> Policy_Name q = n"
  by (auto simp: accessPolicyMatches_def Let_def split: if_splits)

lemmas policy_pass_run = Policy_Reconcile_def reconcilePolicyLive_def referencedBy_def listExposuresByPolicy_def
  fakeAccessPolicies_Get_def fakeAccessPolicies_Update_def found_def add_finalizer_def

lemma pass_in_sync:
  assumes "cw_policy w = Some p" and "in_sync w p"
  shows "\<exists>l'. run_state (Policy_Reconcile (logged_policy policy_control) n) (w, []) =
    ((no_result, Inr ()), (w\<lparr>cw_policy := Some (reported (P_PolicyId p) (world_refs w p) policy_message p)\<rparr>, l')) \<and>
    list_all (\<lambda>e. \<not> cloudflare_write e) l'"
proof -
  obtain q where q: "map_of (fc_accessPolicies w) (P_PolicyId p) = Some q" "accessPolicyMatches q p (desiredPolicyName p)"
    using assms(2) by (auto simp: in_sync_def tracks_def split: option.splits)
  with assms matches_name [OF q(2)] show ?thesis
    by (simp add: policy_pass_run trackedPolicy_def in_sync_def tracks_def live_policy_def policy_supported_def run_report
      world_refs_def policy_message_def Let_def)
qed

definition settled :: "control_world \<Rightarrow> CloudflareAccessPolicy \<Rightarrow> bool" where
  "settled w p \<longleftrightarrow> in_sync w p \<and> reported (P_PolicyId p) (world_refs w p) policy_message p = p"

text \<open>
  No policy at Cloudflare that has the desired name is foreign: each is what the spec asks for. The store
  is keyed by the policies' IDs, and the ID of the next policy is not one with unsupported rules.
\<close>

definition adoptable :: "control_world \<Rightarrow> CloudflareAccessPolicy \<Rightarrow> bool" where
  "adoptable w p \<longleftrightarrow> distinct (map fst (fc_accessPolicies w)) \<and> policy_supported w (example_uuid (fc_draws w)) \<and>
     list_all (\<lambda>(k, q). k \<noteq> [] \<and> Policy_ID q = k \<and>
       (Policy_Name q = desiredPolicyName p \<longrightarrow> policy_supported w k \<and> accessPolicyMatches q p (desiredPolicyName p))) (fc_accessPolicies w)"

text \<open>Tracked under its name, or not tracked (\<open>lost\<close>: or gone from Cloudflare) with nothing foreign in the way.\<close>

definition healable :: "bool \<Rightarrow> control_world \<Rightarrow> CloudflareAccessPolicy \<Rightarrow> bool" where
  "healable lost w p \<longleftrightarrow> tracks w p (\<lambda>q. Policy_Name q = desiredPolicyName p) \<or>
     (P_PolicyId p = [] \<or> lost \<and> map_of (fc_accessPolicies w) (P_PolicyId p) = None) \<and> adoptable w p"

lemma world_refs_only [simp]:
  "world_refs (w\<lparr>cw_policy := x\<rparr>) p = world_refs w p" "world_refs (w\<lparr>fc_accessPolicies := a\<rparr>) p = world_refs w p"
  "world_refs (w\<lparr>fc_draws := d\<rparr>) p = world_refs w p" "world_refs w (reported k refs msg p) = world_refs w p"
  by (simp_all add: world_refs_def)

lemma applied_matches: "accessPolicyMatches (applyAccessPolicy q (buildAccessPolicyInput p n)) p n"
  by (simp add: accessPolicyMatches_def applyAccessPolicy_def buildAccessPolicyInput_def Let_def cloudflareRulesEqual_def)

lemma pass_update:
  assumes "cw_policy w = Some p" and "live_policy p" and "tracks w p (\<lambda>q. Policy_Name q = desiredPolicyName p)" and "\<not> in_sync w p"
  shows "\<exists>out w' l' p'. run_state (Policy_Reconcile (logged_policy policy_control) n) (w, []) = (out, (w', l')) \<and>
    cw_policy w' = Some p' \<and> P_Meta p' = P_Meta p \<and> P_Spec p' = P_Spec p \<and> settled w' p'"
proof -
  obtain q where q: "map_of (fc_accessPolicies w) (P_PolicyId p) = Some q" "Policy_Name q = desiredPolicyName p" "P_PolicyId p \<noteq> []"
    "policy_supported w (P_PolicyId p)"
    using assms(3) by (auto simp: tracks_def split: option.splits)
  with assms(2,4) have drift: "PStatus_ObservedRulesHash (P_Status p) \<noteq> accessPolicyRulesHash p \<or>
    \<not> accessPolicyMatches q p (desiredPolicyName p)" by (auto simp: in_sync_def tracks_def)
  let ?q = "applyAccessPolicy q (buildAccessPolicyInput p (desiredPolicyName p))"
  let ?w = "w\<lparr>fc_accessPolicies := AList.update (P_PolicyId p) ?q (fc_accessPolicies w)\<rparr>"
  have "settled (?w\<lparr>cw_policy := Some (reported (P_PolicyId p) (world_refs w p) policy_message p)\<rparr>)
    (reported (P_PolicyId p) (world_refs w p) policy_message p)"
    using assms(2) q by (simp add: settled_def in_sync_def tracks_def live_policy_def policy_supported_def update_conv' applied_matches reported_idem)
  with assms q drift show ?thesis
    by (simp add: policy_pass_run trackedPolicy_def live_policy_def policy_supported_def run_report
      world_refs_def policy_message_def Let_def)
qed

lemma run_policy_client [simp]:
  "run_state (Policies_List (Client_AccessPolicies (logged_client control_client))) (w, l) =
     (case run_state fakeAccessPolicies_List w of (res, w') \<Rightarrow> (res, (w', EvPoliciesList res # l)))"
  "run_state (Policies_Create (Client_AccessPolicies (logged_client control_client)) i) (w, l) =
     (case run_state (fakeAccessPolicies_Create example_uuid i) w of (res, w') \<Rightarrow> (res, (w', EvPoliciesCreate i res # l)))"
  by (simp_all add: logged_client_def control_client_def fake_client_def tell_def Let_def)

text \<open>The names in the listing are those of the store.\<close>

lemma listed_names:
  "find (\<lambda>m. Policy_Name m = n) (sort_slice lt (map (accessPolicyMetadata \<circ> snd) ps)) = None \<longleftrightarrow> (\<forall>(k, q) \<in> set ps. Policy_Name q \<noteq> n)"
  by (auto simp: find_None_iff accessPolicyMetadata_def)

lemma listed_found:
  assumes "find (\<lambda>m. Policy_Name m = n) (sort_slice lt (map (accessPolicyMetadata \<circ> snd) ps)) = Some m"
  obtains k q where "(k, q) \<in> set ps" "Policy_Name q = n" "Policy_ID m = Policy_ID q"
proof -
  from assms have "m \<in> set (sort_slice lt (map (accessPolicyMetadata \<circ> snd) ps))" "Policy_Name m = n"
    by (metis (mono_tags, lifting) find_Some_iff nth_mem)+
  then show thesis using that by (auto simp: accessPolicyMetadata_def)
qed

lemma example_uuid_nonempty [simp]: "example_uuid d \<noteq> []"
  by (simp add: example_uuid_def)

lemma pass_create:
  assumes "cw_policy w = Some p" and "live_policy p" and "P_PolicyId p = []" and "policy_supported w (example_uuid (fc_draws w))"
    and "\<forall>(k, q) \<in> set (fc_accessPolicies w). Policy_Name q \<noteq> desiredPolicyName p"
  shows "\<exists>out w' l' p'. run_state (Policy_Reconcile (logged_policy policy_control) n) (w, []) = (out, (w', l')) \<and>
    cw_policy w' = Some p' \<and> P_Meta p' = P_Meta p \<and> P_Spec p' = P_Spec p \<and> settled w' p'"
proof -
  let ?k = "example_uuid (fc_draws w)"
  let ?q = "applyAccessPolicy \<lparr>Policy_ID = ?k, Policy_Name = [], Policy_Decision = [], Policy_Include = [], Policy_Exclude = [],
    Policy_Require = [], Policy_SessionDuration = [], Policy_PurposeJustificationRequired = False, Policy_PurposeJustificationPrompt = []\<rparr>
    (buildAccessPolicyInput p (desiredPolicyName p))"
  let ?w = "w\<lparr>fc_draws := Suc (fc_draws w), fc_accessPolicies := AList.update ?k ?q (fc_accessPolicies w)\<rparr>"
  let ?p = "reported ?k (world_refs w p) policy_message p"
  have none: "find (\<lambda>m. Policy_Name m = desiredPolicyName p)
    (sort_slice (\<lambda>a b. Policy_ID a < Policy_ID b) (map (accessPolicyMetadata \<circ> snd) (fc_accessPolicies w))) = None"
    using assms(5) listed_names by blast
  have "Policy_ID ?q = ?k" by (simp add: applyAccessPolicy_def)
  with none have run: "run_state (Policy_Reconcile (logged_policy policy_control) n) (w, []) =
      ((no_result, Inr ()), (?w\<lparr>cw_policy := Some ?p\<rparr>, snd (snd (run_state (Policy_Reconcile (logged_policy policy_control) n) (w, [])))))"
    using assms(1-3) by (simp add: policy_pass_run recoverOrCreatePolicy_def live_policy_def fakeAccessPolicies_List_def
      fakeAccessPolicies_Create_def uuid_New_def run_report world_refs_def policy_message_def Let_def)
  have "settled (?w\<lparr>cw_policy := Some ?p\<rparr>) ?p"
    using assms by (simp add: settled_def in_sync_def tracks_def live_policy_def policy_supported_def update_conv' applied_matches reported_idem)
  then show ?thesis by (subst run) simp
qed

lemma pass_recover:
  assumes "cw_policy w = Some p" and "live_policy p" and "P_PolicyId p = []" and "adoptable w p"
    and "\<not> (\<forall>(k, q) \<in> set (fc_accessPolicies w). Policy_Name q \<noteq> desiredPolicyName p)"
  shows "\<exists>out w' l' p'. run_state (Policy_Reconcile (logged_policy policy_control) n) (w, []) = (out, (w', l')) \<and>
    cw_policy w' = Some p' \<and> P_Meta p' = P_Meta p \<and> P_Spec p' = P_Spec p \<and> in_sync w' p'"
proof -
  let ?found = "find (\<lambda>m. Policy_Name m = desiredPolicyName p)
    (sort_slice (\<lambda>a b. Policy_ID a < Policy_ID b) (map (accessPolicyMetadata \<circ> snd) (fc_accessPolicies w)))"
  have "?found \<noteq> None" using assms(5) by (simp only: listed_names simp_thms)
  then obtain m where m: "?found = Some m" by blast
  then obtain k q where q: "(k, q) \<in> set (fc_accessPolicies w)" "Policy_Name q = desiredPolicyName p" "Policy_ID m = Policy_ID q"
    by (rule listed_found)
  with assms(4) have k: "map_of (fc_accessPolicies w) k = Some q" "Policy_ID q = k" "k \<noteq> []" "policy_supported w k"
      "accessPolicyMatches q p (desiredPolicyName p)"
    by (auto simp: adoptable_def list_all_iff)
  let ?p = "reported k (world_refs w p) ''Cloudflare Access policy identity recovered'' p"
  have "in_sync (w\<lparr>cw_policy := Some ?p\<rparr>) ?p"
    using assms(2) k by (simp add: in_sync_def tracks_def live_policy_def policy_supported_def)
  with assms m q(3) k show ?thesis
    by (simp add: policy_pass_run recoverOrCreatePolicy_def recoverPolicy_def live_policy_def fakeAccessPolicies_List_def
      policy_supported_def run_report world_refs_def Let_def)
qed

lemma same_spec:
  assumes "P_Spec p' = P_Spec p" and "P_Name p' = P_Name p"
  shows "desiredPolicyName p' = desiredPolicyName p" "accessPolicyMatches q p' n = accessPolicyMatches q p n"
    "adoptable (w\<lparr>cw_policy := x\<rparr>) p' = adoptable w p"
  using assms by (simp_all add: desiredPolicyName_def accessPolicyMatches_def adoptable_def policy_supported_def Let_def)

lemma pass_gone:
  assumes "cw_policy w = Some p" and "live_policy p" and "P_PolicyId p \<noteq> []" and "map_of (fc_accessPolicies w) (P_PolicyId p) = None"
  shows "\<exists>out l' p'. run_state (Policy_Reconcile (logged_policy policy_control) n) (w, []) = (out, (w\<lparr>cw_policy := Some p'\<rparr>, l')) \<and>
    P_Meta p' = P_Meta p \<and> P_Spec p' = P_Spec p \<and> P_PolicyId p' = []"
proof -
  have "errors_Is ErrNotFound ErrNotFound" by simp
  let ?refs = "world_refs w p" and ?msg = "''tracked Cloudflare Access policy no longer exists, recreating''"
    and ?l = "[EvPoliciesGet (P_PolicyId p) (Inl ErrNotFound), EvListExposures exposureIndexPolicyRefName (P_Name p)
      (Inr (filter (\<lambda>e. P_Name p \<in> set (exposureIndex exposureIndexPolicyRefName e)) (cw_exposures w)))]"
  obtain p' where
    "run_state (setPolicyStatus (logged_policy policy_control) p [] [] (Some ?refs) False ReasonReconciled ?msg) (w, ?l) =
      (Inr (), (w\<lparr>cw_policy := Some p'\<rparr>, EvNow 7 # EvNow 7 # ?l))"
    "P_Meta p' = P_Meta p" "P_Spec p' = P_Spec p" "P_PolicyId p' = []"
    using run_policy_status [OF assms(1)] by blast
  with assms show ?thesis
    by (simp add: policy_pass_run trackedPolicy_def live_policy_def world_refs_def Let_def) blast
qed

lemma pass_finalizer:
  assumes "cw_policy w = Some p" and "Meta_DeletionTimestamp (P_Meta p) = None" and "\<not> live_policy p"
  shows "\<exists>out l' p'. run_state (Policy_Reconcile (logged_policy policy_control) n) (w, []) = (out, (w\<lparr>cw_policy := Some p'\<rparr>, l')) \<and>
    P_Spec p' = P_Spec p \<and> P_Name p' = P_Name p \<and> P_Status p' = P_Status p \<and> live_policy p'"
  using assms by (simp add: policy_pass_run live_policy_def) (rule exI, intro conjI, rule refl, simp_all)

text \<open>The states in the order in which the passes go through them.\<close>

fun stage :: "nat \<Rightarrow> control_world \<Rightarrow> CloudflareAccessPolicy \<Rightarrow> bool" where
  "stage 0 w p = settled w p"
| "stage (Suc 0) w p = in_sync w p"
| "stage (Suc (Suc 0)) w p = (live_policy p \<and> healable False w p)"
| "stage (Suc (Suc (Suc 0))) w p = (live_policy p \<and> healable True w p)"
| "stage _ w p = (Meta_DeletionTimestamp (P_Meta p) = None \<and> healable True w p)"

definition staged :: "nat \<Rightarrow> CloudflareAccessPolicySpec \<Rightarrow> string \<Rightarrow> control_world \<Rightarrow> bool" where
  "staged i s name w \<longleftrightarrow> (\<exists>p. cw_policy w = Some p \<and> P_Spec p = s \<and> P_Name p = name \<and> stage i w p)"

definition policy_pass :: "string \<Rightarrow> control_world \<Rightarrow> control_world" where
  "policy_pass n w = snd (run_state (Policy_Reconcile policy_control n) w)"

lemma policy_passI:
  "run_state (Policy_Reconcile (logged_policy policy_control) n) (w, []) = (out, (w', l)) \<Longrightarrow> policy_pass n w = w'"
  using erases_run [OF erases_Policy_Reconcile] by (fastforce simp: policy_pass_def)

lemma settled_in_sync: "settled w p \<Longrightarrow> in_sync w p"
  by (simp add: settled_def)

lemma in_sync_live: "in_sync w p \<Longrightarrow> live_policy p \<and> healable False w p"
  by (auto simp: in_sync_def healable_def tracks_def dest: matches_name split: option.splits)

lemma pass_in_sync_settles:
  assumes "cw_policy w = Some p" and "in_sync w p"
  shows "staged 0 (P_Spec p) (P_Name p) (policy_pass n w)"
proof -
  let ?p = "reported (P_PolicyId p) (world_refs w p) policy_message p"
  obtain l' where run: "run_state (Policy_Reconcile (logged_policy policy_control) n) (w, []) = ((no_result, Inr ()), (w\<lparr>cw_policy := Some ?p\<rparr>, l'))"
    using pass_in_sync [OF assms] by blast
  have "in_sync (w\<lparr>cw_policy := Some ?p\<rparr>) ?p"
    using assms(2) by (simp add: in_sync_def tracks_def live_policy_def policy_supported_def)
  then show ?thesis by (simp add: policy_passI [OF run] staged_def settled_def reported_idem)
qed

lemma pass_live_syncs:
  assumes "cw_policy w = Some p" and "live_policy p" and "healable False w p"
  shows "staged (Suc 0) (P_Spec p) (P_Name p) (policy_pass n w)"
proof -
  have "\<exists>out w' l' p'. run_state (Policy_Reconcile (logged_policy policy_control) n) (w, []) = (out, (w', l')) \<and>
      cw_policy w' = Some p' \<and> P_Meta p' = P_Meta p \<and> P_Spec p' = P_Spec p \<and> in_sync w' p'" if "\<not> in_sync w p"
  proof (cases "tracks w p (\<lambda>q. Policy_Name q = desiredPolicyName p)")
    case True
    from pass_update [OF assms(1,2) this that] show ?thesis by (blast dest: settled_in_sync)
  next
    case False
    with assms(3) have free: "P_PolicyId p = []" "adoptable w p" by (auto simp: healable_def)
    then have "policy_supported w (example_uuid (fc_draws w))" by (simp add: adoptable_def)
    from pass_create [OF assms(1,2) free(1) this] pass_recover [OF assms(1,2) free] show ?thesis
      by (meson settled_in_sync)
  qed
  moreover have "staged (Suc 0) (P_Spec p) (P_Name p) (policy_pass n w)" if "in_sync w p"
    using pass_in_sync_settles [OF assms(1) that] by (auto simp: staged_def dest: settled_in_sync)
  ultimately show ?thesis by (cases "in_sync w p") (auto simp: staged_def dest!: policy_passI)
qed

lemma pass_lost:
  assumes "cw_policy w = Some p" and "live_policy p" and "healable True w p" and "\<not> healable False w p"
  shows "staged (Suc (Suc 0)) (P_Spec p) (P_Name p) (policy_pass n w)"
proof -
  have lost: "P_PolicyId p \<noteq> []" "map_of (fc_accessPolicies w) (P_PolicyId p) = None" "adoptable w p"
    using assms(3,4) by (auto simp: healable_def)
  obtain out l' p' where run: "run_state (Policy_Reconcile (logged_policy policy_control) n) (w, []) = (out, (w\<lparr>cw_policy := Some p'\<rparr>, l'))"
    and p': "P_Meta p' = P_Meta p" "P_Spec p' = P_Spec p" "P_PolicyId p' = []"
    using pass_gone [OF assms(1,2) lost(1,2)] by blast
  have "adoptable (w\<lparr>cw_policy := Some p'\<rparr>) p'" using lost(3) same_spec(3) [of p' p] p' by simp
  with p' assms(2) show ?thesis by (simp add: policy_passI [OF run] staged_def healable_def live_policy_def)
qed

lemma pass_adds_finalizer:
  assumes "cw_policy w = Some p" and "Meta_DeletionTimestamp (P_Meta p) = None" and "\<not> live_policy p" and "healable True w p"
  shows "staged (Suc (Suc (Suc 0))) (P_Spec p) (P_Name p) (policy_pass n w)"
proof -
  obtain out l' p' where run: "run_state (Policy_Reconcile (logged_policy policy_control) n) (w, []) = (out, (w\<lparr>cw_policy := Some p'\<rparr>, l'))"
    and p': "P_Spec p' = P_Spec p" "P_Name p' = P_Name p" "P_Status p' = P_Status p" "live_policy p'"
    using pass_finalizer [OF assms(1-3)] by blast
  have "healable True (w\<lparr>cw_policy := Some p'\<rparr>) p'"
    using assms(4) same_spec [OF p'(1,2)] p'(3) by (simp add: healable_def tracks_def policy_supported_def)
  with p' show ?thesis by (simp add: policy_passI [OF run] staged_def)
qed

lemma stage_mono: "stage i w p \<Longrightarrow> i \<le> 3 \<Longrightarrow> stage (Suc i) w p"
  using settled_in_sync [of w p] in_sync_live [of w p]
  by (cases "(i, w, p)" rule: stage.cases) (auto simp: healable_def live_policy_def numeral_3_eq_3)

text \<open>Each pass takes the object one state further.\<close>

lemma staged_weaken: "staged i s name w \<Longrightarrow> i \<le> 3 \<Longrightarrow> staged (Suc i) s name w"
  unfolding staged_def using stage_mono by blast

lemma staged_pass: "staged (Suc i) s name w \<Longrightarrow> i \<le> 3 \<Longrightarrow> staged i s name (policy_pass n w)"
proof (induction i)
  case 0
  then show ?case using pass_in_sync_settles by (auto simp: staged_def [of "Suc 0"])
next
  case (Suc i)
  then obtain p where p: "cw_policy w = Some p" "P_Spec p = s" "P_Name p = name" "stage (Suc (Suc i)) w p"
    by (auto simp: staged_def)
  show ?case
  proof (cases "stage (Suc i) w p")
    case True
    with Suc p have "staged i s name (policy_pass n w)" by (auto simp: staged_def [of "Suc i"])
    with Suc show ?thesis by (auto intro: staged_weaken)
  next
    case False
    from Suc.prems consider "i = 0" | "i = 1" | "i = 2" by linarith
    then show ?thesis
      using p False pass_live_syncs [OF p(1)] pass_lost [OF p(1)] pass_adds_finalizer [OF p(1)]
      by cases (auto simp: numeral_2_eq_2)
  qed
qed

lemma settled_pass:
  assumes "cw_policy w = Some p" and "settled w p"
  shows "\<exists>l. run_state (Policy_Reconcile (logged_policy policy_control) n) (w, []) = ((no_result, Inr ()), (w, l)) \<and>
    list_all (\<lambda>e. \<not> cloudflare_write e) l"
  using pass_in_sync [OF assms(1) settled_in_sync [OF assms(2)], of n] assms(2) by (simp add: settled_def same_policy [OF assms(1)])

text \<open>A tracked policy with a rule of a kind that the operator does not know is reported and left alone.\<close>

definition drifted :: "control_world \<Rightarrow> CloudflareAccessPolicy \<Rightarrow> bool" where
  "drifted w p \<longleftrightarrow> live_policy p \<and> P_PolicyId p \<noteq> [] \<and> map_of (fc_accessPolicies w) (P_PolicyId p) \<noteq> None \<and> \<not> policy_supported w (P_PolicyId p)"

definition drift_reported :: "CloudflareAccessPolicy \<Rightarrow> CloudflareAccessPolicy \<Rightarrow> bool" where
  "drift_reported p p' \<longleftrightarrow> P_Meta p' = P_Meta p \<and> P_Spec p' = P_Spec p \<and> P_PolicyId p' = P_PolicyId p \<and>
     condition_set (PStatus_Conditions (P_Status p')) (status_condition ConditionReady False (Meta_Generation (P_Meta p))
       ReasonUnsupportedDrift (error_text ErrUnsupportedAccessRule))"

lemma unsupported_error [simp]: "\<not> errors_Is ErrUnsupportedAccessRule ErrNotFound" "errors_Is ErrUnsupportedAccessRule ErrUnsupportedAccessRule"
  by (simp_all add: ErrUnsupportedAccessRule_def ErrNotFound_def)

lemma pass_unsupported:
  assumes "cw_policy w = Some p" and "drifted w p"
  shows "\<exists>p' l. run_state (Policy_Reconcile (logged_policy policy_control) n) (w, []) = ((no_result, Inr ()), (w\<lparr>cw_policy := Some p'\<rparr>, l)) \<and>
    list_all (\<lambda>e. \<not> cloudflare_write e) l \<and> drift_reported p p'"
proof -
  let ?refs = "world_refs w p" and ?l = "[EvPoliciesGet (P_PolicyId p) (Inl ErrUnsupportedAccessRule), EvListExposures exposureIndexPolicyRefName (P_Name p)
      (Inr (filter (\<lambda>e. P_Name p \<in> set (exposureIndex exposureIndexPolicyRefName e)) (cw_exposures w)))]"
  obtain p' where p': "run_state (setPolicyStatus (logged_policy policy_control) p (P_PolicyId p) (PStatus_ObservedRulesHash (P_Status p)) (Some ?refs)
      False ReasonUnsupportedDrift (error_text ErrUnsupportedAccessRule)) (w, ?l) = (Inr (), (w\<lparr>cw_policy := Some p'\<rparr>, EvNow 7 # EvNow 7 # ?l))"
    and same: "P_Meta p' = P_Meta p" "P_Spec p' = P_Spec p" "P_PolicyId p' = P_PolicyId p"
      "PStatus_Conditions (P_Status p') = ready_conditions 7 False (Meta_Generation (P_Meta p)) ReasonUnsupportedDrift
         (error_text ErrUnsupportedAccessRule) (PStatus_Conditions (P_Status p))"
    using run_policy_status [OF assms(1)] by blast
  have "run_state (Policy_Reconcile (logged_policy policy_control) n) (w, []) =
      ((no_result, Inr ()), (w\<lparr>cw_policy := Some p'\<rparr>, EvNow 7 # EvNow 7 # ?l))"
    using assms p' by (auto simp: drifted_def live_policy_def policy_supported_def policy_pass_run trackedPolicy_def policyStop_def world_refs_def Let_def)
  moreover have "drift_reported p p'" using same by (simp add: drift_reported_def ready_conditions_sets)
  ultimately show ?thesis by (intro exI [of _ p'] exI [of _ "EvNow 7 # EvNow 7 # ?l"]) simp
qed

lemma drifted_passes:
  assumes "cw_policy w = Some p" and "drifted w p"
  shows "\<exists>p'. (policy_pass n ^^ k) w = w\<lparr>cw_policy := Some p'\<rparr> \<and> P_Meta p' = P_Meta p \<and> P_Spec p' = P_Spec p \<and> P_PolicyId p' = P_PolicyId p"
proof (induction k)
  case 0
  with assms(1) show ?case by (intro exI [of _ p]) (simp add: same_policy)
next
  case (Suc k)
  then obtain p' where p': "(policy_pass n ^^ k) w = w\<lparr>cw_policy := Some p'\<rparr>" "P_Meta p' = P_Meta p" "P_Spec p' = P_Spec p" "P_PolicyId p' = P_PolicyId p"
    by blast
  have "drifted (w\<lparr>cw_policy := Some p'\<rparr>) p'"
    using assms(2) p' by (simp add: drifted_def live_policy_def policy_supported_def)
  from pass_unsupported [OF _ this, of n] p' show ?case
    by (auto simp: drift_reported_def dest!: policy_passI)
qed

lemma healed:
  assumes "cw_policy w = Some p" and "Meta_DeletionTimestamp (P_Meta p) = None" and "healable True w p"
  shows "\<exists>q p'. (let w' = (policy_pass n ^^ 4) w in
    cw_policy w' = Some p' \<and> P_Spec p' = P_Spec p \<and> P_Name p' = P_Name p \<and>
    map_of (fc_accessPolicies w') (P_PolicyId p') = Some q \<and> accessPolicyMatches q p (desiredPolicyName p) \<and>
    condition_set (PStatus_Conditions (P_Status p')) (status_condition ConditionReady True (Meta_Generation (P_Meta p')) ReasonReconciled policy_message) \<and>
    (\<exists>l. run_state (Policy_Reconcile (logged_policy policy_control) n) (w', []) = ((no_result, Inr ()), (w', l)) \<and>
      list_all (\<lambda>e. \<not> cloudflare_write e) l))"
proof -
  let ?s = "P_Spec p" and ?n = "P_Name p" and ?pass = "policy_pass n"
  have "staged (Suc (Suc (Suc (Suc 0)))) ?s ?n w" using assms by (auto simp: staged_def)
  then have "staged 0 ?s ?n (?pass (?pass (?pass (?pass w))))" by (intro staged_pass) simp_all
  then obtain p' where p': "cw_policy ((?pass ^^ 4) w) = Some p'" "P_Spec p' = ?s" "P_Name p' = ?n" "settled ((?pass ^^ 4) w) p'"
    by (auto simp: staged_def eval_nat_numeral)
  let ?w = "(?pass ^^ 4) w"
  obtain q where q: "map_of (fc_accessPolicies ?w) (P_PolicyId p') = Some q" "accessPolicyMatches q p (desiredPolicyName p)"
    using settled_in_sync [OF p'(4)] same_spec [OF p'(2,3)] by (auto simp: in_sync_def tracks_def split: option.splits)
  have "PStatus_Conditions (P_Status p') = ready_conditions 7 True (Meta_Generation (P_Meta p')) ReasonReconciled policy_message (PStatus_Conditions (P_Status p'))"
    using p'(4) reported_fields(5) unfolding settled_def by metis
  then have "condition_set (PStatus_Conditions (P_Status p')) (status_condition ConditionReady True (Meta_Generation (P_Meta p')) ReasonReconciled policy_message)"
    by (metis ready_conditions_sets)
  with p' q settled_pass [OF p'(1,4), of n] show ?thesis by (auto simp: Let_def)
qed

lemma drifted_stays:
  assumes "cw_policy w = Some p" and "drifted w p"
  shows "\<exists>p' l. run_state (Policy_Reconcile (logged_policy policy_control) n) ((policy_pass n ^^ k) w, []) =
      ((no_result, Inr ()), (w\<lparr>cw_policy := Some p'\<rparr>, l)) \<and> list_all (\<lambda>e. \<not> cloudflare_write e) l \<and> drift_reported p p'"
proof -
  obtain p1 where p1: "(policy_pass n ^^ k) w = w\<lparr>cw_policy := Some p1\<rparr>" "P_Meta p1 = P_Meta p" "P_Spec p1 = P_Spec p" "P_PolicyId p1 = P_PolicyId p"
    using drifted_passes [OF assms] by blast
  have "drifted (w\<lparr>cw_policy := Some p1\<rparr>) p1" using assms(2) p1 by (simp add: drifted_def live_policy_def policy_supported_def)
  from pass_unsupported [OF _ this, of n] p1 show ?thesis by (auto simp: drift_reported_def)
qed

text \<open>
  C11: The policy controller converges, or says why not. Take any world of the fake client with a policy object that is not being
  deleted. First, let its Cloudflare policy be tracked under its name with rules that the operator can read, however they were edited; or
  let it be gone or never have been there, with no foreign policy of its name (one that is exactly what the spec asks for, with
  rules that can be read, may have it), and a store keyed by nonempty IDs whose next ID is not marked as having rules that cannot be read. After four passes
  the Cloudflare policy under the object's \<open>status.policyId\<close> is what the spec asks for, the spec and name of the object are
  unchanged, the object is Ready for its generation, and every further pass returns without an error or requeue, leaves the
  whole world as it is and makes no Cloudflare write. Second, let the object have its finalizer and the tracked policy have got a rule of a kind that the operator does
  not know: then it is not healed, and every pass returns without an error, makes no Cloudflare write, changes nothing but the status of the
  object, keeps the tracked ID there and reports not Ready with the reason \<open>UnsupportedDrift\<close>.
\<close>

theorem policy_converges:
  assumes "cw_policy w = Some p" and "Meta_DeletionTimestamp (P_Meta p) = None"
  shows "(healable True w p \<longrightarrow> (\<exists>q p'. (let w' = (policy_pass n ^^ 4) w in
    cw_policy w' = Some p' \<and> P_Spec p' = P_Spec p \<and> P_Name p' = P_Name p \<and>
    map_of (fc_accessPolicies w') (P_PolicyId p') = Some q \<and> accessPolicyMatches q p (desiredPolicyName p) \<and>
    condition_set (PStatus_Conditions (P_Status p')) (status_condition ConditionReady True (Meta_Generation (P_Meta p')) ReasonReconciled policy_message) \<and>
    (\<exists>l. run_state (Policy_Reconcile (logged_policy policy_control) n) (w', []) = ((no_result, Inr ()), (w', l)) \<and>
      list_all (\<lambda>e. \<not> cloudflare_write e) l)))) \<and>
    (drifted w p \<longrightarrow> (\<forall>k. \<exists>p' l. run_state (Policy_Reconcile (logged_policy policy_control) n) ((policy_pass n ^^ k) w, []) =
        ((no_result, Inr ()), (w\<lparr>cw_policy := Some p'\<rparr>, l)) \<and>
      list_all (\<lambda>e. \<not> cloudflare_write e) l \<and> P_Spec p' = P_Spec p \<and> P_PolicyId p' = P_PolicyId p \<and>
      condition_set (PStatus_Conditions (P_Status p')) (status_condition ConditionReady False (Meta_Generation (P_Meta p))
        ReasonUnsupportedDrift (error_text ErrUnsupportedAccessRule))))"
  using healed [OF assms] drifted_stays [OF assms(1), unfolded drift_reported_def] by blast

text \<open>
  The tracked policy of an object without conditions is gone; it is made anew. And the tracked policy has rules that cannot
  be read; a fifth pass still reports it and leaves it alone.
\<close>

definition drifted_start :: control_world where
  "drifted_start = control_start\<lparr>fc_accessPolicies := [(''p-1'', staff_live)], fc_unsupportedAccessPolicies := [(''p-1'', True)],
     cw_policy := Some staff_policy\<rparr>"

theorem policy_converges_witness:
  "(\<exists>q p'. cw_policy ((policy_pass ''staff'' ^^ 4) (control_start\<lparr>cw_policy := Some staff_policy\<rparr>)) = Some p' \<and>
    map_of (fc_accessPolicies ((policy_pass ''staff'' ^^ 4) (control_start\<lparr>cw_policy := Some staff_policy\<rparr>))) (P_PolicyId p') = Some q \<and>
    accessPolicyMatches q staff_policy ''staff-cfzt'') \<and>
   (\<exists>p' l. run_state (Policy_Reconcile (logged_policy policy_control) ''staff'') ((policy_pass ''staff'' ^^ 4) drifted_start, []) =
      ((no_result, Inr ()), (drifted_start\<lparr>cw_policy := Some p'\<rparr>, l)) \<and> list_all (\<lambda>e. \<not> cloudflare_write e) l \<and> P_PolicyId p' = ''p-1'')"
proof -
  have "healable True (control_start\<lparr>cw_policy := Some staff_policy\<rparr>) staff_policy"
    by (simp add: healable_def adoptable_def control_start_def policy_supported_def map_default_def)
  moreover have "drifted drifted_start staff_policy"
    by (simp add: drifted_def drifted_start_def live_policy_def policy_supported_def map_default_def staff_fields Finalizer_def)
  moreover have "cw_policy drifted_start = Some staff_policy" by (simp add: drifted_start_def)
  ultimately show ?thesis
    using policy_converges [of "control_start\<lparr>cw_policy := Some staff_policy\<rparr>" staff_policy "''staff''"]
      policy_converges [of drifted_start staff_policy "''staff''"]
    by (fastforce simp: Let_def staff_fields)
qed

end
