(* ===== verification/Route_Settling.thy ===== *)
theory Route_Settling
  imports Settling Control_Cluster
begin

text \<open>
  Convergence of the route controller on the fake client: one pass brings the Cloudflare route to the spec, and from then
  on a pass changes nothing.
\<close>

section \<open>The Cloudflare route\<close>

lemma run_route_client [simp]:
  "run_state (Routes_Get (Client_TunnelRoutes (logged_client control_client)) k) (w, l) =
     (case run_state (fakeTunnelRoutes_Get k) w of (res, w') \<Rightarrow> (res, (w', EvRoutesGet k res # l)))"
  "run_state (Routes_Edit (Client_TunnelRoutes (logged_client control_client)) k i) (w, l) =
     (case run_state (fakeTunnelRoutes_Edit k i) w of (res, w') \<Rightarrow> (res, (w', EvRoutesEdit k i res # l)))"
  by (simp_all add: logged_client_def control_client_def fake_client_def tell_def Let_def)

text \<open>The routes on the network that the desired route is for.\<close>

definition on_target :: "control_world \<Rightarrow> TunnelRouteInput \<Rightarrow> TunnelRoute list" where
  "on_target w d = filter (\<lambda>c. (RouteIn_Network d = [] \<or> Route_Network c = RouteIn_Network d) \<and>
     (RouteIn_VirtualNetworkID d = [] \<or> Route_VirtualNetworkID c = RouteIn_VirtualNetworkID d)) (map snd (fc_tunnelRoutes w))"

definition tracked_route :: "control_world \<Rightarrow> CloudflareTunnelRoute \<Rightarrow> TunnelRoute option" where
  "tracked_route w x = (if RStatus_RouteId (R_Status x) = [] then None else map_of (fc_tunnelRoutes w) (RStatus_RouteId (R_Status x)))"

text \<open>Nothing foreign is in the way. The store is keyed by the routes' IDs.\<close>

definition attainable :: "control_world \<Rightarrow> CloudflareTunnelRoute \<Rightarrow> TunnelRouteInput \<Rightarrow> bool" where
  "attainable w x d \<longleftrightarrow> distinct (map fst (fc_tunnelRoutes w)) \<and> list_all (\<lambda>(k, c). k \<noteq> [] \<and> Route_ID c = k) (fc_tunnelRoutes w) \<and>
     (case tracked_route w x of
        Some c \<Rightarrow> MatchesComment (From (R_UID x)) (Route_Comment c) \<and>
          (tunnelRouteMatches c d \<or> list_all (\<lambda>c'. Route_ID c' = Route_ID c) (on_target w d))
      | None \<Rightarrow> list_all (\<lambda>c'. MatchesComment (From (R_UID x)) (Route_Comment c')) (on_target w d))"

lemma applied_route [simp]: "tunnelRouteMatches (applyTunnelRoute c d) d" "Route_ID (applyTunnelRoute c d) = Route_ID c"
  by (simp_all add: tunnelRouteMatches_def applyTunnelRoute_def)

lemma run_target:
  "run_state (fakeTunnelRoutes_List (route_filter d)) w = (Inr (sort_slice (\<lambda>a b. Route_ID a < Route_ID b) (on_target w d)), w)"
  by (simp add: fakeTunnelRoutes_List_def route_filter_def on_target_def)

text \<open>What the route step leaves: a stored route that matches, and the objects as they were.\<close>

definition route_reached :: "control_world \<Rightarrow> TunnelRouteInput \<Rightarrow> TunnelRoute \<Rightarrow> control_world \<Rightarrow> bool" where
  "route_reached w d c w' \<longleftrightarrow> map_of (fc_tunnelRoutes w') (Route_ID c) = Some c \<and> Route_ID c \<noteq> [] \<and> tunnelRouteMatches c d \<and>
     cw_route w' = cw_route w \<and> cw_tunnel w' = cw_tunnel w"

lemma edit_reaches:
  assumes "map_of (fc_tunnelRoutes w) (Route_ID c) = Some c" and "Route_ID c \<noteq> []"
  shows "\<exists>w'. run_state (fakeTunnelRoutes_Edit (Route_ID c) d) w = (Inr (applyTunnelRoute c d), w') \<and> route_reached w d (applyTunnelRoute c d) w'"
  using assms by (simp add: fakeTunnelRoutes_Edit_def route_reached_def update_conv' Let_def)

lemma create_reaches:
  "\<exists>c w'. run_state (fakeTunnelRoutes_Create example_uuid d) w = (Inr c, w') \<and> route_reached w d c w'"
  by (simp add: fakeTunnelRoutes_Create_def uuid_New_def route_reached_def update_conv' Let_def example_uuid_def)

lemma owned_route_own: "list_all (\<lambda>c. MatchesComment ow (Route_Comment c)) cs \<Longrightarrow> \<exists>res. owned_route ow out cs = Inr res"
  by (induction ow out cs rule: owned_route.induct) auto

lemma list_all_sort_slice [simp]: "list_all P (sort_slice lt xs) = list_all P xs" "list_ex P (sort_slice lt xs) = list_ex P xs"
  by (simp_all add: list_all_iff list_ex_iff)

lemma adopt_reaches:
  assumes "distinct (map fst (fc_tunnelRoutes w))" and "list_all (\<lambda>(k, c). k \<noteq> [] \<and> Route_ID c = k) (fc_tunnelRoutes w)"
    and "list_all (\<lambda>c. MatchesComment (From (R_UID x)) (Route_Comment c)) (on_target w d)"
  shows "\<exists>c act w' l'. run_state (adoptOrCreateRoute x (logged_client control_client) d) (w, l) = (Inr (c, act), (w', l')) \<and> route_reached w d c w'"
proof -
  let ?cs = "sort_slice (\<lambda>a b. Route_ID a < Route_ID b) (on_target w d)"
  have "list_all (\<lambda>c. MatchesComment (From (R_UID x)) (Route_Comment c)) ?cs" using assms(3) by simp
  then obtain res where res: "owned_route (From (R_UID x)) None ?cs = Inr res" using owned_route_own by blast
  show ?thesis
  proof (cases res)
    case None
    then show ?thesis using res create_reaches [of d w]
      by (auto simp: adoptOrCreateRoute_def run_target with_action_def)
  next
    case (Some c)
    with res have "c \<in> set ?cs" using owned_route_Some by fastforce
    then obtain k where "(k, c) \<in> set (fc_tunnelRoutes w)" by (auto simp: on_target_def)
    with assms(1,2) have c: "map_of (fc_tunnelRoutes w) (Route_ID c) = Some c" "Route_ID c \<noteq> []"
      by (auto simp: list_all_iff)
    show ?thesis
    proof (cases "tunnelRouteMatches c d")
      case True
      then show ?thesis using res Some c by (simp add: adoptOrCreateRoute_def run_target route_reached_def)
    next
      case False
      then show ?thesis using res Some edit_reaches [OF c, of d]
        by (auto simp: adoptOrCreateRoute_def run_target with_action_def)
    qed
  qed
qed

lemma reconcile_reaches:
  assumes "attainable w x d"
  shows "\<exists>c act w' l'. run_state (reconcileCloudflareRoute x (logged_client control_client) d) (w, l) = (Inr (c, act), (w', l')) \<and> route_reached w d c w'"
proof (cases "tracked_route w x")
  case None
  with assms have a: "distinct (map fst (fc_tunnelRoutes w))" "list_all (\<lambda>(k, c). k \<noteq> [] \<and> Route_ID c = k) (fc_tunnelRoutes w)"
    "list_all (\<lambda>c. MatchesComment (From (R_UID x)) (Route_Comment c)) (on_target w d)" by (simp_all add: attainable_def)
  show ?thesis
  proof (cases "RStatus_RouteId (R_Status x) = []")
    case True
    with adopt_reaches [OF a] show ?thesis by (simp add: reconcileCloudflareRoute_def)
  next
    case False
    with None have "map_of (fc_tunnelRoutes w) (RStatus_RouteId (R_Status x)) = None" by (simp add: tracked_route_def)
    with False adopt_reaches [OF a] show ?thesis by (simp add: reconcileCloudflareRoute_def fakeTunnelRoutes_Get_def)
  qed
next
  case (Some c)
  then have k: "RStatus_RouteId (R_Status x) \<noteq> []" "map_of (fc_tunnelRoutes w) (RStatus_RouteId (R_Status x)) = Some c"
    by (auto simp: tracked_route_def split: if_splits)
  with assms have id: "Route_ID c = RStatus_RouteId (R_Status x)"
    by (auto simp: attainable_def list_all_iff dest: map_of_SomeD)
  with k have c: "map_of (fc_tunnelRoutes w) (Route_ID c) = Some c" "Route_ID c \<noteq> []" by simp_all
  from assms Some have own: "MatchesComment (From (R_UID x)) (Route_Comment c)"
    and free: "tunnelRouteMatches c d \<or> list_all (\<lambda>c'. Route_ID c' = Route_ID c) (on_target w d)" by (simp_all add: attainable_def)
  show ?thesis
  proof (cases "tunnelRouteMatches c d")
    case True
    with k c own show ?thesis by (simp add: reconcileCloudflareRoute_def fakeTunnelRoutes_Get_def route_reached_def)
  next
    case False
    with free have "\<not> list_ex (\<lambda>c'. Route_ID c' \<noteq> Route_ID c) (on_target w d)" by (auto simp: list_all_iff list_ex_iff)
    with False k own edit_reaches [OF c, of d] show ?thesis
      by (auto simp: reconcileCloudflareRoute_def fakeTunnelRoutes_Get_def preflightRouteTarget_def run_target with_action_def)
  qed
qed

section \<open>One pass\<close>

definition route_message :: string where
  "route_message = ''Cloudflare tunnel route reconciled''"

text \<open>The object after a pass that reported the Cloudflare route \<open>c\<close>.\<close>

definition reported_route :: "TunnelRoute \<Rightarrow> CloudflareTunnelRoute \<Rightarrow> CloudflareTunnelRoute" where
  "reported_route c x = x\<lparr>R_Status := \<lparr>RStatus_RouteId = Route_ID c, RStatus_VirtualNetworkId = Route_VirtualNetworkID c,
     RStatus_Conditions = ready_conditions 7 True (Meta_Generation (R_Meta x)) ReasonReconciled route_message (RStatus_Conditions (R_Status x))\<rparr>\<rparr>"

lemma reported_route_fields [simp]:
  "R_Meta (reported_route c x) = R_Meta x" "R_Spec (reported_route c x) = R_Spec x"
  "RStatus_RouteId (R_Status (reported_route c x)) = Route_ID c"
  "RStatus_Conditions (R_Status (reported_route c x)) = ready_conditions 7 True (Meta_Generation (R_Meta x)) ReasonReconciled route_message (RStatus_Conditions (R_Status x))"
  by (simp_all add: reported_route_def)

lemma reported_route_idem: "reported_route c (reported_route c x) = reported_route c x"
  by (simp add: reported_route_def [of c "reported_route c x"] ready_conditions_idem) (simp add: reported_route_def)

lemma same_route: "cw_route w = Some x \<Longrightarrow> w\<lparr>cw_route := Some x\<rparr> = w"
  by simp

lemma run_route_report:
  assumes "cw_route w = Some x"
  shows "run_state (setRouteStatus (logged_route route_control) y (Route_ID c) (Route_VirtualNetworkID c) True ReasonReconciled route_message) (w, l) =
    (Inr (), (w\<lparr>cw_route := Some (reported_route c x)\<rparr>, EvNow 7 # EvNow 7 # l))"
proof -
  let ?x = "x\<lparr>R_Status := R_Status x\<lparr>RStatus_RouteId := Route_ID c, RStatus_VirtualNetworkId := Route_VirtualNetworkID c\<rparr>\<rparr>"
  have new: "set_route_conditions (ready_conditions 7 True (Meta_Generation (R_Meta x)) ReasonReconciled route_message (RStatus_Conditions (R_Status ?x))) ?x = reported_route c x"
    by (simp add: set_route_conditions_def reported_route_def)
  show ?thesis
    using assms new by (auto simp: setRouteStatus_def setReady_def setCondition_def found_def Let_def ready_conditions_def
      status_condition_def same_route)
qed

text \<open>The route can be placed: the tunnel is there with its ID, and the network is one.\<close>

definition placeable :: "control_world \<Rightarrow> CloudflareTunnelRoute \<Rightarrow> CloudflareTunnel \<Rightarrow> string \<Rightarrow> bool" where
  "placeable w x t net \<longleftrightarrow> cw_tunnel w = Some t \<and> Meta_DeletionTimestamp (T_Meta t) = None \<and> TStatus_TunnelId (T_Status t) \<noteq> [] \<and>
     canonicalNetwork (RSpec_Network (R_Spec x)) = Inr net \<and> Meta_DeletionTimestamp (R_Meta x) = None"

lemmas route_pass_run = Route_Reconcile_def reconcileRouteLive_def referencedTunnel_def applyRoute_def found_def add_finalizer_def

lemma run_action_event [simp]: "run_state (route_action_event (logged_route route_control) x c act) (w, l) = ((), (w, l))"
  by (cases act) (simp_all add: route_action_event_def)

lemma live_reaches:
  assumes "cw_route w = Some x" and "placeable w x t net" and "attainable w x (desired_route x t net)"
  shows "\<exists>c w' l'. run_state (reconcileRouteLive (logged_route route_control) x) (w, l) =
      ((no_result, Inr ()), (w'\<lparr>cw_route := Some (reported_route c x)\<rparr>, l')) \<and> route_reached w (desired_route x t net) c w'"
proof -
  obtain c act w' l' where run: "run_state (reconcileCloudflareRoute x (logged_client control_client) (desired_route x t net)) (w, l) = (Inr (c, act), (w', l'))"
    and reached: "route_reached w (desired_route x t net) c w'"
    using reconcile_reaches [OF assms(3)] by blast
  then have "cw_route w' = Some x" using assms(1) by (simp add: route_reached_def)
  from run_route_report [OF this, of x c l'] run assms(2) reached show ?thesis
    by (auto simp: reconcileRouteLive_def referencedTunnel_def applyRoute_def found_def placeable_def route_message_def)
qed

lemma own_route_comment:
  assumes "is_word (R_UID x)"
  shows "MatchesComment (From (R_UID x)) (routeOwnershipComment x)"
proof -
  obtain rest where rest: "routeOwnershipComment x = Owner_CompactComment (From (R_UID x)) @ rest" "rest = [] \<or> (\<exists>t. rest = '' | '' @ t)"
    by (cases "RSpec_Comment (R_Spec x) = []") (auto simp: routeOwnershipComment_def Let_def)
  have "is_word (uid (From (R_UID x)))" using assms by (simp add: From_def)
  from own_comment(2) [OF this rest(2)] show ?thesis by (simp add: rest(1))
qed

text \<open>The route object after a pass and the route that it tracks.\<close>

definition route_settled :: "control_world \<Rightarrow> CloudflareTunnelRoute \<Rightarrow> TunnelRouteInput \<Rightarrow> TunnelRoute \<Rightarrow> bool" where
  "route_settled w x d c \<longleftrightarrow> tracked_route w x = Some c \<and> tunnelRouteMatches c d \<and> MatchesComment (From (R_UID x)) (Route_Comment c) \<and>
     reported_route c x = x"

definition route_pass :: "string \<Rightarrow> control_world \<Rightarrow> control_world" where
  "route_pass n w = snd (run_state (Route_Reconcile route_control n) w)"

lemma route_passI:
  "run_state (Route_Reconcile (logged_route route_control) n) (w, l) = (out, (w', l')) \<Longrightarrow> route_pass n w = w'"
  using erases_run [OF erases_Route_Reconcile] by (fastforce simp: route_pass_def)

lemma settled_route_pass:
  assumes "cw_route w = Some x" and "placeable w x t net" and "Finalizer \<in> set (Meta_Finalizers (R_Meta x))"
    and "route_settled w x (desired_route x t net) c"
  shows "\<exists>l. run_state (Route_Reconcile (logged_route route_control) n) (w, []) = ((no_result, Inr ()), (w, l)) \<and>
    list_all (\<lambda>e. \<not> cloudflare_write e) l"
proof -
  have "RStatus_RouteId (R_Status x) \<noteq> []" "map_of (fc_tunnelRoutes w) (RStatus_RouteId (R_Status x)) = Some c"
    "tunnelRouteMatches c (desired_route x t net)" "MatchesComment (From (R_UID x)) (Route_Comment c)" "reported_route c x = x"
    using assms(4) by (auto simp: route_settled_def tracked_route_def split: if_splits)
  with assms show ?thesis
    by (simp add: route_pass_run reconcileCloudflareRoute_def fakeTunnelRoutes_Get_def placeable_def
      run_route_report [unfolded route_message_def] same_route)
qed

lemma live_settles:
  assumes "cw_route w = Some x" and "placeable w x t net" and "attainable w x (desired_route x t net)" and "is_word (R_UID x)"
  shows "\<exists>c w' l'. run_state (reconcileRouteLive (logged_route route_control) x) (w, l) = ((no_result, Inr ()), (w', l')) \<and>
    cw_route w' = Some (reported_route c x) \<and> placeable w' (reported_route c x) t net \<and>
    route_settled w' (reported_route c x) (desired_route x t net) c"
proof -
  obtain c w' l' where run: "run_state (reconcileRouteLive (logged_route route_control) x) (w, l) =
      ((no_result, Inr ()), (w'\<lparr>cw_route := Some (reported_route c x)\<rparr>, l'))" and reached: "route_reached w (desired_route x t net) c w'"
    using live_reaches [OF assms(1-3)] by blast
  have "Route_Comment c = routeOwnershipComment x"
    using reached by (auto simp: route_reached_def tunnelRouteMatches_def desired_route_def split: if_splits)
  with reached own_route_comment [OF assms(4)] have "route_settled (w'\<lparr>cw_route := Some (reported_route c x)\<rparr>) (reported_route c x) (desired_route x t net) c"
    by (simp add: route_settled_def tracked_route_def route_reached_def reported_route_idem)
  moreover have "placeable (w'\<lparr>cw_route := Some (reported_route c x)\<rparr>) (reported_route c x) t net"
    using assms(2) reached by (simp add: placeable_def route_reached_def)
  ultimately show ?thesis using run by auto
qed

text \<open>The finalizer is added in the same pass.\<close>

definition finalized_route :: "CloudflareTunnelRoute \<Rightarrow> CloudflareTunnelRoute" where
  "finalized_route x = x\<lparr>R_Meta := fst (add_finalizer (R_Meta x) Finalizer)\<rparr>"

lemma finalized_route_fields [simp]:
  "R_Spec (finalized_route x) = R_Spec x" "R_UID (finalized_route x) = R_UID x" "R_Status (finalized_route x) = R_Status x"
  "Finalizer \<in> set (Meta_Finalizers (R_Meta (finalized_route x)))"
  "Meta_DeletionTimestamp (R_Meta (finalized_route x)) = Meta_DeletionTimestamp (R_Meta x)"
  by (simp_all add: finalized_route_def add_finalizer_def)

lemma desired_route_only:
  "R_Spec y = R_Spec x \<Longrightarrow> R_UID y = R_UID x \<Longrightarrow> desired_route y t net = desired_route x t net"
  by (simp add: desired_route_def routeOwnershipComment_def Let_def)

lemma desired_finalized [simp]: "desired_route (finalized_route x) t net = desired_route x t net"
  by (rule desired_route_only) simp_all

lemma finalized_route_same [simp]:
  "placeable (w\<lparr>cw_route := y\<rparr>) (finalized_route x) t net = placeable w x t net"
  "attainable (w\<lparr>cw_route := y\<rparr>) (finalized_route x) d = attainable w x d"
  by (simp_all add: placeable_def attainable_def tracked_route_def on_target_def cong: option.case_cong)

lemma pass_finalizes:
  assumes "cw_route w = Some x" and "Meta_DeletionTimestamp (R_Meta x) = None"
  shows "\<exists>l. run_state (Route_Reconcile (logged_route route_control) n) (w, []) =
    run_state (reconcileRouteLive (logged_route route_control) (finalized_route x)) (w\<lparr>cw_route := Some (finalized_route x)\<rparr>, l)"
proof (cases "Finalizer \<in> set (Meta_Finalizers (R_Meta x))")
  case True
  then have "finalized_route x = x" by (simp add: finalized_route_def add_finalizer_def)
  with True assms show ?thesis by (auto simp: Route_Reconcile_def found_def add_finalizer_def same_route)
next
  case False
  with assms show ?thesis by (auto simp: Route_Reconcile_def found_def add_finalizer_def finalized_route_def)
qed

text \<open>
  C12: The route controller converges in one pass. Take any world of the fake client in which a route object is not
  being deleted, its tunnel is there with an ID, its network is valid, and nothing foreign is in the way: the
  tracked Cloudflare route is its own and matches or is alone on the network, or no route is tracked (or
  it is gone) and all the routes on the network are its own. After one pass the
  Cloudflare route under the object's \<open>status.routeId\<close> is what the spec asks for, on the canonical network and with the
  object's ownership comment, the object is Ready for its generation, and every further pass returns without
  an error or requeue, leaves the whole world as it is and makes no Cloudflare write.
\<close>

theorem route_converges:
  assumes "cw_route w = Some x" and "placeable w x t net" and "attainable w x (desired_route x t net)" and "is_word (R_UID x)"
  shows "\<exists>c x'. (let w' = route_pass n w in
    cw_route w' = Some x' \<and> R_Spec x' = R_Spec x \<and> tracked_route w' x' = Some c \<and> tunnelRouteMatches c (desired_route x t net) \<and>
    MatchesComment (From (R_UID x)) (Route_Comment c) \<and>
    condition_set (RStatus_Conditions (R_Status x')) (status_condition ConditionReady True (Meta_Generation (R_Meta x')) ReasonReconciled route_message) \<and>
    (\<exists>l. run_state (Route_Reconcile (logged_route route_control) n) (w', []) = ((no_result, Inr ()), (w', l)) \<and>
      list_all (\<lambda>e. \<not> cloudflare_write e) l))"
proof -
  let ?d = "desired_route x t net" and ?w = "w\<lparr>cw_route := Some (finalized_route x)\<rparr>"
  obtain l where "run_state (Route_Reconcile (logged_route route_control) n) (w, []) =
      run_state (reconcileRouteLive (logged_route route_control) (finalized_route x)) (?w, l)"
    using pass_finalizes [OF assms(1)] assms(2) by (auto simp: placeable_def)
  moreover have "cw_route ?w = Some (finalized_route x)" by simp
  note live_settles [OF this, of t net l]
  ultimately obtain c w' l' where run: "run_state (Route_Reconcile (logged_route route_control) n) (w, []) = ((no_result, Inr ()), (w', l'))"
    and w': "cw_route w' = Some (reported_route c (finalized_route x))" "placeable w' (reported_route c (finalized_route x)) t net"
      "route_settled w' (reported_route c (finalized_route x)) ?d c"
    using assms(2-4) by auto
  have "desired_route (reported_route c (finalized_route x)) t net = ?d"
    by (rule desired_route_only) simp_all
  with settled_route_pass [OF w'(1,2), of c n] w'(3)
  have "\<exists>l. run_state (Route_Reconcile (logged_route route_control) n) (w', []) = ((no_result, Inr ()), (w', l)) \<and>
      list_all (\<lambda>e. \<not> cloudflare_write e) l" by simp
  with w' show ?thesis
    by (auto simp: Let_def route_passI [OF run] route_settled_def ready_conditions_sets intro!: exI [of _ c])
qed

text \<open>Nothing is tracked and nothing is on the network, so the route is created.\<close>

theorem route_converges_witness:
  "\<exists>c x'. cw_route (route_pass ''lan'' (control_start\<lparr>cw_tunnel := Some home_tunnel, cw_route := Some lan_route\<rparr>)) = Some x' \<and>
    tracked_route (route_pass ''lan'' (control_start\<lparr>cw_tunnel := Some home_tunnel, cw_route := Some lan_route\<rparr>)) x' = Some c \<and>
    tunnelRouteMatches c (desired_route lan_route home_tunnel ''10.0.0.0/12'')"
proof -
  let ?w = "control_start\<lparr>cw_tunnel := Some home_tunnel, cw_route := Some lan_route\<rparr>"
  have "placeable ?w lan_route home_tunnel ''10.0.0.0/12''"
    by (simp add: placeable_def lan_network lan_fields finalized_fields)
  moreover have "attainable ?w lan_route (desired_route lan_route home_tunnel ''10.0.0.0/12'')"
    by (simp add: attainable_def tracked_route_def on_target_def lan_fields control_start_def)
  moreover have "is_word (R_UID lan_route)" by (simp add: lan_route_def is_word_def word_char_def)
  moreover have "cw_route ?w = Some lan_route" by simp
  ultimately show ?thesis using route_converges [of ?w lan_route home_tunnel "''10.0.0.0/12''" "''lan''"] by (auto simp: Let_def)
qed

end
