(* ===== verification/Real_Retry.thy ===== *)
theory Real_Retry
  imports Cloudflare Go_Time
begin

text \<open>
  \<open>internal/cloudflare/real.go\<close>, \<open>withRetry\<close>: every call of the SDK waits for the rate limiter and is
  repeated with exponential backoff on 429 and 5xx. The limiter, the timer against the context, and the
  random source are parameters. The main lemma, \<open>retry_loop_iff\<close>, says exactly which outcomes are possible
  and after how many attempts.
\<close>

section \<open>The loop\<close>

record 's Transport =
  Tr_Wait :: "string \<Rightarrow> ('s, unit result) state"
  Tr_Sleep :: "duration \<Rightarrow> ('s, unit result) state"
  Tr_Rand :: "('s, int \<Rightarrow> int) state"

text \<open>
  \<open>Tr_Wait k\<close> is \<open>limiter.Wait(ctx)\<close> on the limiter stored under \<open>k\<close>; \<open>Tr_Sleep d\<close> is the \<open>select\<close> on \<open>ctx.Done()\<close> and
  \<open>time.After(d)\<close>, an error when the context ends first; \<open>Tr_Rand\<close> is \<open>rand.Int63n\<close>.
\<close>

definition maxRetries :: nat where
  "maxRetries = 5"

definition millisecond :: duration where
  "millisecond = 1000000"

text \<open>\<open>errors.As(err, &apiErr)\<close> and \<open>apiErr.StatusCode\<close>.\<close>

fun api_status :: "error \<Rightarrow> int option" where
  "api_status (ErrAPI code _) = Some code"
| "api_status (ErrWrap _ e _) = api_status e"
| "api_status _ = None"

definition retryable :: "error \<Rightarrow> bool" where
  "retryable err = (case api_status err of
      None \<Rightarrow> False
    | Some code \<Rightarrow> \<not> (code \<noteq> 429 \<and> (code < 500 \<or> code > 599)))"

definition backoff_base :: "nat \<Rightarrow> duration" where
  "backoff_base attempt = wrap64 (wrap64 (500 * 2 ^ attempt) * millisecond)"

definition backoff :: "nat \<Rightarrow> (int \<Rightarrow> int) \<Rightarrow> duration" where
  "backoff attempt Int63n =
     (let base = backoff_base attempt; jitter = Int63n (base div 2)
      in wrap64 (wrap64 (base + jitter) - base div 4))"

text \<open>\<open>left\<close> counts down what the code's \<open>attempt\<close> counts up.\<close>

fun retry_loop :: "('s, 'z) Transport_scheme \<Rightarrow> string \<Rightarrow> ('s, 'a result) state \<Rightarrow> nat \<Rightarrow> ('s, 'a result) state" where
  "retry_loop tr key fn left = do {
     waited \<leftarrow> Tr_Wait tr key;
     case waited of
       Inl err \<Rightarrow> return_st (Inl err)
     | Inr _ \<Rightarrow> do {
         res \<leftarrow> fn;
         case res of
           Inr v \<Rightarrow> return_st (Inr v)
         | Inl err \<Rightarrow>
             (case left of
                0 \<Rightarrow> return_st (Inl err)
              | Suc left' \<Rightarrow>
                  if \<not> retryable err then return_st (Inl err)
                  else do {
                    Int63n \<leftarrow> Tr_Rand tr;
                    slept \<leftarrow> Tr_Sleep tr (backoff (maxRetries - left) Int63n);
                    case slept of
                      Inl err \<Rightarrow> return_st (Inl err)
                    | Inr _ \<Rightarrow> retry_loop tr key fn left' }) } }"

declare retry_loop.simps [simp del]

definition withRetry :: "('s, 'z) Transport_scheme \<Rightarrow> string \<Rightarrow> ('s, 'a result) state \<Rightarrow> ('s, 'a result) state" where
  "withRetry tr key fn = retry_loop tr key fn maxRetries"

definition mapAPIError :: "error \<Rightarrow> error" where
  "mapAPIError err = (if api_status err = Some 404 then ErrNotFound else err)"

section \<open>The outcomes\<close>

text \<open>Attempt number \<open>n\<close> fails with a transient error, and the pause after it ends in time.\<close>

definition failed_attempt :: "('s, 'z) Transport_scheme \<Rightarrow> string \<Rightarrow> ('s, 'a result) state \<Rightarrow> nat \<Rightarrow> 's \<Rightarrow> 's \<Rightarrow> bool" where
  "failed_attempt tr key fn n s s' \<longleftrightarrow> (\<exists>s2 err s3 rnd s4. run_state (Tr_Wait tr key) s = (Inr (), s2) \<and>
     run_state fn s2 = (Inl err, s3) \<and> retryable err \<and> n < maxRetries \<and> run_state (Tr_Rand tr) s3 = (rnd, s4) \<and>
     run_state (Tr_Sleep tr (backoff n rnd)) s4 = (Inr (), s'))"

text \<open>The last attempt, with number \<open>n\<close>: how the loop ends.\<close>

definition attempt_ends :: "('s, 'z) Transport_scheme \<Rightarrow> string \<Rightarrow> ('s, 'a result) state \<Rightarrow> nat \<Rightarrow> 's \<Rightarrow> 'a result \<Rightarrow> 's \<Rightarrow> bool" where
  "attempt_ends tr key fn n s res s' \<longleftrightarrow>
     (\<exists>err. run_state (Tr_Wait tr key) s = (Inl err, s') \<and> res = Inl err) \<or>
     (\<exists>s2. run_state (Tr_Wait tr key) s = (Inr (), s2) \<and> run_state fn s2 = (res, s') \<and>
        (case res of Inl err \<Rightarrow> \<not> retryable err \<or> n = maxRetries | Inr _ \<Rightarrow> True)) \<or>
     (\<exists>s2 err s3 rnd s4 err'. run_state (Tr_Wait tr key) s = (Inr (), s2) \<and> run_state fn s2 = (Inl err, s3) \<and> retryable err \<and>
        n < maxRetries \<and> run_state (Tr_Rand tr) s3 = (rnd, s4) \<and>
        run_state (Tr_Sleep tr (backoff n rnd)) s4 = (Inl err', s') \<and> res = Inl err')"

text \<open>The attempts \<open>m, ..., n - 1\<close> fail one after the other.\<close>

inductive transient :: "('s, 'z) Transport_scheme \<Rightarrow> string \<Rightarrow> ('s, 'a result) state \<Rightarrow> nat \<Rightarrow> nat \<Rightarrow> 's \<Rightarrow> 's \<Rightarrow> bool"
  for tr key fn where
  transient_none: "transient tr key fn m m s s"
| transient_step: "failed_attempt tr key fn m s s1 \<Longrightarrow> transient tr key fn (Suc m) n s1 s' \<Longrightarrow> transient tr key fn m n s s'"

inductive_simps transient_iff: "transient tr key fn m n s s'"

inductive_cases transientE: "transient tr key fn m n s s'"

lemma transient_le: "transient tr key fn m n s s' \<Longrightarrow> m \<le> n"
  by (induction rule: transient.induct) auto

lemma transient_Suc_self: "\<not> transient tr key fn (Suc m) m s s'"
  using transient_le [of tr key fn "Suc m" m s s'] by auto

lemma retry_loop_step:
  assumes "left \<le> maxRetries"
  shows "run_state (retry_loop tr key fn left) s = (res, s') \<longleftrightarrow>
    attempt_ends tr key fn (maxRetries - left) s res s' \<or>
    (\<exists>l s1. left = Suc l \<and> failed_attempt tr key fn (maxRetries - left) s s1 \<and> run_state (retry_loop tr key fn l) s1 = (res, s'))"
proof -
  define m where "m = maxRetries - left"
  obtain w s2 where w: "run_state (Tr_Wait tr key) s = (w, s2)" by fastforce
  obtain a s3 where a: "run_state fn s2 = (a, s3)" by fastforce
  obtain rnd s4 where r: "run_state (Tr_Rand tr) s3 = (rnd, s4)" by fastforce
  obtain sl s5 where sl: "run_state (Tr_Sleep tr (backoff m rnd)) s4 = (sl, s5)" by fastforce
  have m: "m = maxRetries \<longleftrightarrow> left = 0" "m < maxRetries \<longleftrightarrow> left \<noteq> 0"
    using assms by (auto simp: m_def maxRetries_def)
  show ?thesis
    unfolding retry_loop.simps [of tr key fn left] m_def [symmetric]
    by (cases w; cases a; cases left; cases sl)
      (auto simp: attempt_ends_def failed_attempt_def w a r sl m split: sum.splits)
qed

lemma retry_loop_iff:
  "left \<le> maxRetries \<Longrightarrow> run_state (retry_loop tr key fn left) s = (res, s') \<longleftrightarrow>
     (\<exists>n \<le> maxRetries. \<exists>s1. transient tr key fn (maxRetries - left) n s s1 \<and> attempt_ends tr key fn n s1 res s')"
proof (induction left arbitrary: s)
  case 0
  then show ?case by (subst retry_loop_step) (auto intro: transient_none elim: transientE simp: failed_attempt_def)
next
  case (Suc l)
  let ?m = "maxRetries - Suc l"
  have m: "maxRetries - l = Suc ?m" using Suc.prems by simp
  have "run_state (retry_loop tr key fn (Suc l)) s = (res, s') \<longleftrightarrow> attempt_ends tr key fn ?m s res s' \<or>
      (\<exists>s1. failed_attempt tr key fn ?m s s1 \<and> run_state (retry_loop tr key fn l) s1 = (res, s'))"
    using retry_loop_step [OF Suc.prems, of tr key fn s res s'] by auto
  also have "\<dots> \<longleftrightarrow> attempt_ends tr key fn ?m s res s' \<or> (\<exists>s1. failed_attempt tr key fn ?m s s1 \<and>
      (\<exists>n \<le> maxRetries. \<exists>s2. transient tr key fn (Suc ?m) n s1 s2 \<and> attempt_ends tr key fn n s2 res s'))"
    using Suc.IH Suc.prems unfolding m by simp
  also have "\<dots> \<longleftrightarrow> (\<exists>n \<le> maxRetries. \<exists>s1. transient tr key fn ?m n s s1 \<and> attempt_ends tr key fn n s1 res s')"
    using Suc.prems by (subst transient_iff) (metis diff_le_self)
  finally show ?case .
qed

section \<open>Properties\<close>

text \<open>
  C21: The outcomes of a retried call. A call returns in a state with a result iff, for some number of
  attempts below six, that many attempts failed with a 429 or 5xx error of the API, each followed by its
  pause, and the next attempt ends the call: the rate limiter refuses to wait, or the attempt succeeds, or
  fails with another error, or is the sixth and fails, or the pause after it is cut short by the context.
  So the loop always ends, makes at most six attempts, never repeats a success or a permanent error, and
  returns the last error that it saw; the \<open>return nil\<close> after the loop is not reached.
\<close>

theorem withRetry_outcomes:
  "run_state (withRetry tr key fn) s = (res, s') \<longleftrightarrow>
     (\<exists>n s1. n \<le> maxRetries \<and> transient tr key fn 0 n s s1 \<and> attempt_ends tr key fn n s1 res s')"
  using retry_loop_iff [of maxRetries tr key fn s res s'] by (simp add: withRetry_def) 

text \<open>
  A call recovers from a transient failure. If up to five attempts fail with a 429 or 5xx error, each
  followed by its full pause, and the next attempt is let through and succeeds, then the call returns that
  success, in the state the successful attempt left.
\<close>

lemma withRetry_recovers:
  assumes "transient tr key fn 0 n s s1" and "n \<le> maxRetries" and "run_state (Tr_Wait tr key) s1 = (Inr (), s2)"
    and "run_state fn s2 = (Inr v, s')"
  shows "run_state (withRetry tr key fn) s = (Inr v, s')"
proof -
  have "attempt_ends tr key fn n s1 (Inr v) s'" using assms(3,4) by (simp add: attempt_ends_def)
  with assms(1,2) retry_loop_iff [of maxRetries tr key fn s "Inr v" s'] show ?thesis by (auto simp: withRetry_def)
qed

text \<open>A transport that never refuses, and a call that fails with 503 as often as its state says.\<close>

definition calm :: "nat Transport" where
  "calm = \<lparr>Tr_Wait = (\<lambda>k. return_st (Inr ())), Tr_Sleep = (\<lambda>d. return_st (Inr ())), Tr_Rand = return_st (\<lambda>n. 0)\<rparr>"

definition flaky :: "(nat, nat result) state" where
  "flaky = State (\<lambda>k. if k = 0 then (Inr 7, 0) else (Inl (ErrAPI 503 ''unavailable''), k - 1))"

lemma flaky_fails: "k > 0 \<Longrightarrow> n < maxRetries \<Longrightarrow> failed_attempt calm key flaky n k (k - 1)"
  by (simp add: failed_attempt_def calm_def flaky_def retryable_def)

lemma flaky_recovers:
  "run_state (withRetry calm ''t'' flaky) 5 = (Inr 7, 0)"
proof (rule withRetry_recovers [where n = 5 and ?s1.0 = 0 and ?s2.0 = 0])
  have "transient calm ''t'' flaky m 5 (5 - m) 0" if "m \<le> 5" for m :: nat
    using that
  proof (induction "5 - m" arbitrary: m)
    case 0
    then show ?case using transient_none [of calm "''t''" flaky 5 "0 :: nat"] by simp
  next
    case (Suc d)
    with flaky_fails [of "5 - m" m "''t''"] have "failed_attempt calm ''t'' flaky m (5 - m) (5 - Suc m)"
      by (simp add: maxRetries_def)
    moreover have "transient calm ''t'' flaky (Suc m) 5 (5 - Suc m) 0" using Suc.hyps Suc.prems by (intro Suc.hyps(1)) auto
    ultimately show ?case by (rule transient_step)
  qed
  from this [of 0] show "transient calm ''t'' flaky 0 5 5 0" by simp
qed (simp_all add: maxRetries_def calm_def flaky_def)

lemma backoff_base_value: "attempt < maxRetries \<Longrightarrow> backoff_base attempt = 500 * 2 ^ attempt * millisecond \<and> backoff_base attempt \<in> {500000000..8000000000}"
  by (auto simp: maxRetries_def less_Suc_eq numeral_eq_Suc backoff_base_def millisecond_def wrap64_def)

text \<open>
  The pauses. For a random source that keeps its documented range, the pause after attempt number n is
  between 75 % and 125 % of 500 ms times two to the n, without overflow of the 64-bit duration, and the
  five pauses of a call together stay below twenty seconds.
\<close>

lemma backoff_bounds:
  assumes "attempt < maxRetries" and "\<And>n. n > 0 \<Longrightarrow> 0 \<le> Int63n n \<and> Int63n n < n"
  shows "3 * (500 * 2 ^ attempt * millisecond) \<le> 4 * backoff attempt Int63n \<and>
    4 * backoff attempt Int63n < 5 * (500 * 2 ^ attempt * millisecond) \<and>
    (\<Sum>n < maxRetries. backoff n Int63n) < 20 * second"
proof -
  have one: "3 * (500 * 2 ^ n * millisecond) \<le> 4 * backoff n Int63n \<and> 4 * backoff n Int63n < 5 * (500 * 2 ^ n * millisecond)"
    if "n < maxRetries" for n
  proof -
    define base where "base = backoff_base n"
    have base: "base = 500 * 2 ^ n * millisecond" "500000000 \<le> base" "base \<le> 8000000000"
      using backoff_base_value [OF that] by (auto simp: base_def)
    have j: "0 \<le> Int63n (base div 2)" "Int63n (base div 2) < base div 2" using assms(2) [of "base div 2"] base(2) by auto
    then have "backoff n Int63n = base + Int63n (base div 2) - base div 4"
      using base(2,3) by (simp add: backoff_def base_def [symmetric] Let_def wrap64_id)
    moreover have "4 dvd base" unfolding base(1) millisecond_def by simp
    ultimately show ?thesis using j base(1) by auto
  qed
  have "4 * (\<Sum>n < maxRetries. backoff n Int63n) < (\<Sum>n < maxRetries. 5 * (500 * 2 ^ n * millisecond))"
    unfolding sum_distrib_left using one by (intro sum_strict_mono) (auto simp: maxRetries_def lessThan_empty_iff)
  also have "\<dots> = 77500000000" by (simp add: maxRetries_def numeral_eq_Suc millisecond_def)
  finally show ?thesis using one [OF assms(1)] by (simp add: second_def)
qed

lemma longest_backoff:
  "backoff 4 (\<lambda>n. n - 1) = 9999999999 \<and> 4 * backoff 4 (\<lambda>n. n - 1) < 5 * (500 * 2 ^ 4 * millisecond)"
proof
  show "backoff 4 (\<lambda>n. n - 1) = 9999999999"
    by (simp add: backoff_def backoff_base_def millisecond_def wrap64_def)
  show "4 * backoff 4 (\<lambda>n. n - 1) < 5 * (500 * 2 ^ 4 * millisecond)"
    by (rule backoff_bounds [of 4 "\<lambda>n. n - 1", THEN conjunct2, THEN conjunct1]) (simp_all add: maxRetries_def)
qed

end
