(* ===== verification/Real_Sdk.thy ===== *)
theory Real_Sdk
  imports Real_Retry
begin

text \<open>
  The Cloudflare SDK (cloudflare-go) as \<open>internal/cloudflare/real.go\<close> sees it: a parameter, the record \<open>Sdk\<close>
  with one field per method the file calls. The request and response structs are records of the fields the
  file sets and reads; an unset parameter is \<open>None\<close>. \<open>ListAutoPaging\<close> is the list of all items or the
  pager's error.
\<close>

section \<open>The SDK\<close>

record SdkTunnel =
  Sdk_Tunnel_ID :: string
  Sdk_Tunnel_Name :: string

record SdkIngress =
  Sdk_Ingress_Hostname :: "string option"
  Sdk_Ingress_Service :: string

record NetworkRouteListParams =
  RouteList_AccountID :: string
  RouteList_IsDeleted :: bool
  RouteList_TunTypes :: "string list"
  RouteList_NetworkSubset :: "string option"
  RouteList_NetworkSuperset :: "string option"
  RouteList_TunnelID :: "string option"
  RouteList_VirtualNetworkID :: "string option"

record NetworkRouteParams =
  RouteParams_AccountID :: string
  RouteParams_Network :: string
  RouteParams_TunnelID :: string
  RouteParams_Comment :: string
  RouteParams_VirtualNetworkID :: "string option"

record SdkRoute =
  Sdk_Route_ID :: string
  Sdk_Route_Network :: string
  Sdk_Route_TunnelID :: string
  Sdk_Route_VirtualNetworkID :: string
  Sdk_Route_Comment :: string

text \<open>
  An Access application. A field of type \<open>any\<close> is the value of the dynamic type it holds; the four slice
  types of policies have the same fields. \<open>Sdk_App_SelfHosted\<close> is \<open>AsUnion()\<close> when it is a self-hosted
  application.
\<close>

record AppPolicy =
  AppPolicy_ID :: string
  AppPolicy_Precedence :: int

datatype any_strings = AnyStrings "string list" | AnyOther

datatype any_policies = ListPolicies "AppPolicy list" | NewPolicies "AppPolicy list" | UpdatePolicies "AppPolicy list"
  | GetPolicies "AppPolicy list" | OtherPolicies

record SdkSelfHosted =
  SelfHosted_Policies :: "AppPolicy list"
  SelfHosted_Tags :: "string list"

record SdkApplication =
  Sdk_App_ID :: string
  Sdk_App_Name :: string
  Sdk_App_Domain :: string
  Sdk_App_SelfHostedDomains :: any_strings
  Sdk_App_Policies :: any_policies
  Sdk_App_Tags :: any_strings
  Sdk_App_SelfHosted :: "SdkSelfHosted option"

record SdkAppBody =
  Body_Domain :: string
  Body_Type :: string
  Body_Name :: string
  Body_Policies :: "AppPolicy list"
  Body_SelfHostedDomains :: "string list"
  Body_Tags :: "string list"

text \<open>\<open>CNAMERecordParam\<close> and \<open>TXTRecordParam\<close>, told apart by the type field.\<close>

record SdkRecordParam =
  RecordParam_Name :: string
  RecordParam_TTL :: int
  RecordParam_Type :: string
  RecordParam_Content :: string
  RecordParam_Proxied :: bool
  RecordParam_Comment :: string

record SdkRecord =
  Sdk_Record_ID :: string
  Sdk_Record_Name :: string
  Sdk_Record_Type :: string
  Sdk_Record_Content :: string
  Sdk_Record_Proxied :: bool
  Sdk_Record_Comment :: string

text \<open>The union of Access rules: the variants the operator knows, and any other with its type name.\<close>

datatype SdkRule = EmailRule string | DomainRule string | IPRule string | EveryoneRule | ServiceTokenRule string
  | CountryRule string | OtherRule string

record SdkPolicyParams =
  PolicyParams_AccountID :: string
  PolicyParams_Name :: string
  PolicyParams_Decision :: string
  PolicyParams_Include :: "SdkRule list"
  PolicyParams_Exclude :: "SdkRule list"
  PolicyParams_Require :: "SdkRule list"
  PolicyParams_SessionDuration :: string
  PolicyParams_PurposeJustificationRequired :: bool
  PolicyParams_PurposeJustificationPrompt :: string

record SdkPolicy =
  Sdk_Policy_ID :: string
  Sdk_Policy_Name :: string
  Sdk_Policy_Decision :: string
  Sdk_Policy_Include :: "SdkRule list"
  Sdk_Policy_Exclude :: "SdkRule list"
  Sdk_Policy_Require :: "SdkRule list"
  Sdk_Policy_SessionDuration :: string
  Sdk_Policy_PurposeJustificationRequired :: bool
  Sdk_Policy_PurposeJustificationPrompt :: string

record 's Sdk = "'s Transport" +
  Sdk_TunnelNew :: "string \<Rightarrow> string \<Rightarrow> string \<Rightarrow> ('s, SdkTunnel result) state"
  Sdk_TunnelEdit :: "string \<Rightarrow> string \<Rightarrow> string \<Rightarrow> ('s, SdkTunnel result) state"
  Sdk_TunnelList :: "string \<Rightarrow> string option \<Rightarrow> ('s, SdkTunnel list result) state"
  Sdk_TunnelGet :: "string \<Rightarrow> string \<Rightarrow> ('s, SdkTunnel result) state"
  Sdk_TunnelDelete :: "string \<Rightarrow> string \<Rightarrow> ('s, unit result) state"
  Sdk_TokenGet :: "string \<Rightarrow> string \<Rightarrow> ('s, string option result) state"
  Sdk_ConfigurationsUpdate :: "string \<Rightarrow> string \<Rightarrow> SdkIngress list \<Rightarrow> ('s, unit result) state"
  Sdk_RoutesList :: "NetworkRouteListParams \<Rightarrow> ('s, SdkRoute list result) state"
  Sdk_RoutesNew :: "NetworkRouteParams \<Rightarrow> ('s, SdkRoute result) state"
  Sdk_RoutesGet :: "string \<Rightarrow> string \<Rightarrow> ('s, SdkRoute result) state"
  Sdk_RoutesEdit :: "string \<Rightarrow> NetworkRouteParams \<Rightarrow> ('s, SdkRoute result) state"
  Sdk_RoutesDelete :: "string \<Rightarrow> string \<Rightarrow> ('s, unit result) state"
  Sdk_TagsGet :: "string \<Rightarrow> string \<Rightarrow> ('s, unit result) state"
  Sdk_TagsNew :: "string \<Rightarrow> string \<Rightarrow> ('s, unit result) state"
  Sdk_TagsDelete :: "string \<Rightarrow> string \<Rightarrow> ('s, unit result) state"
  Sdk_AppsList :: "string \<Rightarrow> string option \<Rightarrow> ('s, SdkApplication list result) state"
  Sdk_AppsNew :: "string \<Rightarrow> SdkAppBody \<Rightarrow> ('s, SdkApplication result) state"
  Sdk_AppsUpdate :: "string \<Rightarrow> string \<Rightarrow> SdkAppBody \<Rightarrow> ('s, SdkApplication result) state"
  Sdk_AppsDelete :: "string \<Rightarrow> string \<Rightarrow> ('s, unit result) state"
  Sdk_RecordsList :: "string \<Rightarrow> string \<Rightarrow> string \<Rightarrow> ('s, SdkRecord list result) state"
  Sdk_RecordsNew :: "string \<Rightarrow> SdkRecordParam \<Rightarrow> ('s, SdkRecord result) state"
  Sdk_RecordsUpdate :: "string \<Rightarrow> string \<Rightarrow> SdkRecordParam \<Rightarrow> ('s, SdkRecord result) state"
  Sdk_RecordsDelete :: "string \<Rightarrow> string \<Rightarrow> ('s, unit result) state"
  Sdk_ZonesList :: "('s, Zone list result) state"
  Sdk_PoliciesList :: "string \<Rightarrow> ('s, SdkPolicy list result) state"
  Sdk_PoliciesGet :: "string \<Rightarrow> string \<Rightarrow> ('s, SdkPolicy result) state"
  Sdk_PoliciesNew :: "SdkPolicyParams \<Rightarrow> ('s, SdkPolicy result) state"
  Sdk_PoliciesUpdate :: "string \<Rightarrow> SdkPolicyParams \<Rightarrow> ('s, SdkPolicy result) state"
  Sdk_PoliciesDelete :: "string \<Rightarrow> string \<Rightarrow> ('s, unit result) state"

end
