(* ===== verification/Real_Client.thy ===== *)
theory Real_Client
  imports Real_Sdk Go_Hash Lease "HOL-Library.AList"
begin

text \<open>
  \<open>internal/cloudflare/real.go\<close>: the client that wraps the SDK. \<open>real_client\<close> puts the adapters together to a
  \<open>Client\<close>, so what is shown about the controllers for every client holds for it. The package's caches are
  state. Where the code returns a value together with an error, the model returns the error; a pointer that
  the SDK returns without an error is not nil.
\<close>

section \<open>The client and the package's caches\<close>

record cacheKey =
  Key_accountID :: string
  Key_tokenHash :: "nat list"

record zoneCache =
  Cache_zones :: "Zone list"
  Cache_ready :: bool

record RealClient =
  Real_api :: string
  Real_accountID :: string
  Real_limiter :: string
  Real_cacheKey :: cacheKey

text \<open>
  \<open>Real_api\<close> is the API token that \<open>cf.NewClient\<close> was called with; \<open>Real_limiter\<close> is the key of the limiter in
  \<open>limiterByToken\<close>. The limiters differ only in their key: all are made with the default rate and burst.
\<close>

record RealGlobals =
  rg_limiterByToken :: "string list"
  rg_zoneCacheByCred :: "(cacheKey \<times> zoneCache) list"
  rg_clientCacheByCred :: "(cacheKey \<times> RealClient) list"

definition newCacheKey :: "string \<Rightarrow> string \<Rightarrow> cacheKey" where
  "newCacheKey accountID apiToken = \<lparr>Key_accountID = accountID, Key_tokenHash = Sum256 apiToken\<rparr>"

definition limiterForTokenHash :: "nat list \<Rightarrow> ('z RealGlobals_scheme, string) state" where
  "limiterForTokenHash tokenHash =
     (let key = hex_string tokenHash
      in State (\<lambda>g. (key, if key \<in> set (rg_limiterByToken g) then g else g\<lparr>rg_limiterByToken := key # rg_limiterByToken g\<rparr>)))"

definition empty_cache :: zoneCache where
  "empty_cache = \<lparr>Cache_zones = [], Cache_ready = False\<rparr>"

definition zoneCacheForCred :: "cacheKey \<Rightarrow> ('z RealGlobals_scheme, zoneCache) state" where
  "zoneCacheForCred key = State (\<lambda>g. case map_of (rg_zoneCacheByCred g) key of
      Some cache \<Rightarrow> (cache, g)
    | None \<Rightarrow> (empty_cache, g\<lparr>rg_zoneCacheByCred := (key, empty_cache) # rg_zoneCacheByCred g\<rparr>))"

definition store_zones :: "cacheKey \<Rightarrow> Zone list \<Rightarrow> ('z RealGlobals_scheme, unit) state" where
  "store_zones key zones = State (\<lambda>g. ((), g\<lparr>rg_zoneCacheByCred :=
      AList.update key \<lparr>Cache_zones = zones, Cache_ready = True\<rparr> (rg_zoneCacheByCred g)\<rparr>))"

definition New :: "string \<Rightarrow> string \<Rightarrow> ('z RealGlobals_scheme, RealClient result) state" where
  "New accountID apiToken =
     (if accountID = [] then return_st (Inl (ErrNew ''cloudflare: accountID required''))
      else if apiToken = [] then return_st (Inl (ErrNew ''cloudflare: apiToken required''))
      else
        (let key = newCacheKey accountID apiToken
         in do {
              cached \<leftarrow> State (\<lambda>g. (map_of (rg_clientCacheByCred g) key, g));
              case cached of
                Some client \<Rightarrow> return_st (Inr client)
              | None \<Rightarrow> do {
                  limiter \<leftarrow> limiterForTokenHash (Key_tokenHash key);
                  let client = \<lparr>Real_api = apiToken, Real_accountID = accountID, Real_limiter = limiter, Real_cacheKey = key\<rparr>;
                  State (\<lambda>g. (Inr client, g\<lparr>rg_clientCacheByCred := (key, client) # rg_clientCacheByCred g\<rparr>)) } }))"

section \<open>Retried calls\<close>

definition retried :: "('s, 'z) Sdk_scheme \<Rightarrow> RealClient \<Rightarrow> ('s, 'a result) state \<Rightarrow> ('s, 'a result) state" where
  "retried sdk c fn = withRetry sdk (Real_limiter c) fn"

text \<open>What the closures do with the SDK's answer: translate the response, and the error with or without \<open>mapAPIError\<close>.\<close>

definition answer :: "('a \<Rightarrow> 'b) \<Rightarrow> ('s, 'a result) state \<Rightarrow> ('s, 'b result) state" where
  "answer f m = do { res \<leftarrow> m; return_st (map_result f res) }"

definition mapped :: "('a \<Rightarrow> 'b) \<Rightarrow> ('s, 'a result) state \<Rightarrow> ('s, 'b result) state" where
  "mapped f m = do { res \<leftarrow> m; return_st (case res of Inl err \<Rightarrow> Inl (mapAPIError err) | Inr v \<Rightarrow> Inr (f v)) }"

section \<open>Tunnels\<close>

definition tunnelFromSDK :: "SdkTunnel \<Rightarrow> Tunnel" where
  "tunnelFromSDK resp = \<lparr>Tunnel_ID = Sdk_Tunnel_ID resp, Tunnel_Name = Sdk_Tunnel_Name resp\<rparr>"

definition realTunnels_Create :: "('s, 'z) Sdk_scheme \<Rightarrow> RealClient \<Rightarrow> CreateTunnelInput \<Rightarrow> ('s, Tunnel result) state" where
  "realTunnels_Create sdk c inp = retried sdk c
     (answer tunnelFromSDK (Sdk_TunnelNew sdk (Real_accountID c) (CreateTunnel_Name inp) (CreateTunnel_ConfigSrc inp)))"

definition realTunnels_Rename :: "('s, 'z) Sdk_scheme \<Rightarrow> RealClient \<Rightarrow> string \<Rightarrow> RenameTunnelInput \<Rightarrow> ('s, Tunnel result) state" where
  "realTunnels_Rename sdk c ident inp = retried sdk c
     (mapped tunnelFromSDK (Sdk_TunnelEdit sdk ident (Real_accountID c) (RenameTunnel_Name inp)))"

definition realTunnels_List :: "('s, 'z) Sdk_scheme \<Rightarrow> RealClient \<Rightarrow> string \<Rightarrow> ('s, Tunnel list result) state" where
  "realTunnels_List sdk c name = retried sdk c
     (answer (map tunnelFromSDK) (Sdk_TunnelList sdk (Real_accountID c) (if name \<noteq> [] then Some name else None)))"

definition realTunnels_Get :: "('s, 'z) Sdk_scheme \<Rightarrow> RealClient \<Rightarrow> string \<Rightarrow> ('s, Tunnel result) state" where
  "realTunnels_Get sdk c ident = retried sdk c (mapped tunnelFromSDK (Sdk_TunnelGet sdk ident (Real_accountID c)))"

definition realTunnels_Delete :: "('s, 'z) Sdk_scheme \<Rightarrow> RealClient \<Rightarrow> string \<Rightarrow> ('s, unit result) state" where
  "realTunnels_Delete sdk c ident = retried sdk c (mapped (\<lambda>u. u) (Sdk_TunnelDelete sdk ident (Real_accountID c)))"

definition realTunnels_Token :: "('s, 'z) Sdk_scheme \<Rightarrow> RealClient \<Rightarrow> string \<Rightarrow> ('s, string result) state" where
  "realTunnels_Token sdk c ident = retried sdk c
     (mapped (\<lambda>resp. case resp of None \<Rightarrow> [] | Some tok \<Rightarrow> tok) (Sdk_TokenGet sdk ident (Real_accountID c)))"

section \<open>Tunnel routes\<close>

definition some_nonempty :: "string \<Rightarrow> string option" where
  "some_nonempty s = (if s \<noteq> [] then Some s else None)"

definition routeFromSDK :: "SdkRoute \<Rightarrow> TunnelRoute" where
  "routeFromSDK route = \<lparr>Route_ID = Sdk_Route_ID route, Route_Network = Sdk_Route_Network route, Route_TunnelID = Sdk_Route_TunnelID route,
     Route_VirtualNetworkID = Sdk_Route_VirtualNetworkID route, Route_Comment = Sdk_Route_Comment route\<rparr>"

definition route_list_params :: "RealClient \<Rightarrow> ListTunnelRoutesFilter \<Rightarrow> NetworkRouteListParams" where
  "route_list_params c flt = \<lparr>RouteList_AccountID = Real_accountID c, RouteList_IsDeleted = False,
     RouteList_TunTypes = [''cfd_tunnel''], RouteList_NetworkSubset = some_nonempty (Filter_Network flt),
     RouteList_NetworkSuperset = some_nonempty (Filter_Network flt), RouteList_TunnelID = some_nonempty (Filter_TunnelID flt),
     RouteList_VirtualNetworkID = some_nonempty (Filter_VirtualNetworkID flt)\<rparr>"

definition realTunnelRoutes_List :: "('s, 'z) Sdk_scheme \<Rightarrow> RealClient \<Rightarrow> ListTunnelRoutesFilter \<Rightarrow> ('s, TunnelRoute list result) state" where
  "realTunnelRoutes_List sdk c flt = retried sdk c
     (answer (\<lambda>items. map routeFromSDK (filter (\<lambda>item. \<not> (Filter_Network flt \<noteq> [] \<and> Sdk_Route_Network item \<noteq> Filter_Network flt)) items))
        (Sdk_RoutesList sdk (route_list_params c flt)))"

definition route_params :: "RealClient \<Rightarrow> TunnelRouteInput \<Rightarrow> NetworkRouteParams" where
  "route_params c inp = \<lparr>RouteParams_AccountID = Real_accountID c, RouteParams_Network = RouteIn_Network inp,
     RouteParams_TunnelID = RouteIn_TunnelID inp, RouteParams_Comment = RouteIn_Comment inp,
     RouteParams_VirtualNetworkID = some_nonempty (RouteIn_VirtualNetworkID inp)\<rparr>"

definition realTunnelRoutes_Create :: "('s, 'z) Sdk_scheme \<Rightarrow> RealClient \<Rightarrow> TunnelRouteInput \<Rightarrow> ('s, TunnelRoute result) state" where
  "realTunnelRoutes_Create sdk c inp = retried sdk c (answer routeFromSDK (Sdk_RoutesNew sdk (route_params c inp)))"

definition realTunnelRoutes_Get :: "('s, 'z) Sdk_scheme \<Rightarrow> RealClient \<Rightarrow> string \<Rightarrow> ('s, TunnelRoute result) state" where
  "realTunnelRoutes_Get sdk c ident = retried sdk c (mapped routeFromSDK (Sdk_RoutesGet sdk ident (Real_accountID c)))"

definition realTunnelRoutes_Edit :: "('s, 'z) Sdk_scheme \<Rightarrow> RealClient \<Rightarrow> string \<Rightarrow> TunnelRouteInput \<Rightarrow> ('s, TunnelRoute result) state" where
  "realTunnelRoutes_Edit sdk c ident inp = retried sdk c (mapped routeFromSDK (Sdk_RoutesEdit sdk ident (route_params c inp)))"

definition realTunnelRoutes_Delete :: "('s, 'z) Sdk_scheme \<Rightarrow> RealClient \<Rightarrow> string \<Rightarrow> ('s, unit result) state" where
  "realTunnelRoutes_Delete sdk c ident = retried sdk c (mapped (\<lambda>u. u) (Sdk_RoutesDelete sdk ident (Real_accountID c)))"

section \<open>Configurations\<close>

definition ingress_param :: "IngressRule \<Rightarrow> SdkIngress" where
  "ingress_param rule = \<lparr>Sdk_Ingress_Hostname = some_nonempty (Ingress_Hostname rule), Sdk_Ingress_Service = Ingress_Service rule\<rparr>"

definition realConfigurations_Update :: "('s, 'z) Sdk_scheme \<Rightarrow> RealClient \<Rightarrow> string \<Rightarrow> TunnelConfiguration \<Rightarrow> ('s, unit result) state" where
  "realConfigurations_Update sdk c tunnelID config = retried sdk c
     (mapped (\<lambda>u. u) (Sdk_ConfigurationsUpdate sdk tunnelID (Real_accountID c) (map ingress_param (Ingress config))))"

section \<open>Access tags and applications\<close>

definition realAccessTags_Ensure :: "('s, 'z) Sdk_scheme \<Rightarrow> RealClient \<Rightarrow> string \<Rightarrow> ('s, unit result) state" where
  "realAccessTags_Ensure sdk c name = do {
     got \<leftarrow> retried sdk c (mapped (\<lambda>u. u) (Sdk_TagsGet sdk name (Real_accountID c)));
     case got of
       Inr _ \<Rightarrow> return_st (Inr ())
     | Inl err \<Rightarrow>
         if \<not> errors_Is err ErrNotFound then return_st (Inl err)
         else retried sdk c (answer (\<lambda>u. u) (Sdk_TagsNew sdk (Real_accountID c) name)) }"

definition realAccessTags_Delete :: "('s, 'z) Sdk_scheme \<Rightarrow> RealClient \<Rightarrow> string \<Rightarrow> ('s, unit result) state" where
  "realAccessTags_Delete sdk c name = retried sdk c (mapped (\<lambda>u. u) (Sdk_TagsDelete sdk name (Real_accountID c)))"

text \<open>The four functions on the four policy types sort stably by precedence and keep the nonempty IDs.\<close>

definition policy_ids :: "AppPolicy list \<Rightarrow> string list" where
  "policy_ids policies = filter (\<lambda>i. i \<noteq> [])
     (map AppPolicy_ID (sort_slice (\<lambda>p q. AppPolicy_Precedence p < AppPolicy_Precedence q) policies))"

definition accessApplicationPolicyIDs :: "any_policies \<Rightarrow> string list" where
  "accessApplicationPolicyIDs v = (case v of
      ListPolicies policies \<Rightarrow> policy_ids policies
    | NewPolicies policies \<Rightarrow> policy_ids policies
    | UpdatePolicies policies \<Rightarrow> policy_ids policies
    | GetPolicies policies \<Rightarrow> policy_ids policies
    | OtherPolicies \<Rightarrow> [])"

definition accessApplicationDomainsFromAny :: "any_strings \<Rightarrow> string list" where
  "accessApplicationDomainsFromAny v = (case v of AnyStrings domains \<Rightarrow> domains | AnyOther \<Rightarrow> [])"

definition stringSlice :: "any_strings \<Rightarrow> string list" where
  "stringSlice v = (case v of AnyStrings xs \<Rightarrow> xs | AnyOther \<Rightarrow> [])"

text \<open>The three translations of a response differ in the type of the self-hosted policies only.\<close>

definition app_from_response :: "(AppPolicy list \<Rightarrow> any_policies) \<Rightarrow> SdkApplication \<Rightarrow> AccessApplication" where
  "app_from_response typed resp =
     (let domains0 = accessApplicationDomainsFromAny (Sdk_App_SelfHostedDomains resp);
          policyUUIDs = (case Sdk_App_SelfHosted resp of
              None \<Rightarrow> accessApplicationPolicyIDs (Sdk_App_Policies resp)
            | Some selfHosted \<Rightarrow> accessApplicationPolicyIDs (typed (SelfHosted_Policies selfHosted)));
          tags = (case Sdk_App_SelfHosted resp of None \<Rightarrow> stringSlice (Sdk_App_Tags resp) | Some selfHosted \<Rightarrow> SelfHosted_Tags selfHosted);
          domains = (if domains0 = [] \<and> Sdk_App_Domain resp \<noteq> [] then [Sdk_App_Domain resp] else domains0);
          primaryDomain = (if Sdk_App_Domain resp = [] then accessApplicationPrimaryDomain domains else Sdk_App_Domain resp)
      in \<lparr>App_ID = Sdk_App_ID resp, App_Name = Sdk_App_Name resp, App_Domain = primaryDomain, App_Domains = domains,
          App_PolicyUUIDs = policyUUIDs, App_Tags = tags\<rparr>)"

definition accessAppFromListResponse :: "SdkApplication \<Rightarrow> AccessApplication" where
  "accessAppFromListResponse = app_from_response ListPolicies"

definition accessAppFromNewResponse :: "SdkApplication \<Rightarrow> AccessApplication" where
  "accessAppFromNewResponse = app_from_response NewPolicies"

definition accessAppFromUpdateResponse :: "SdkApplication \<Rightarrow> AccessApplication" where
  "accessAppFromUpdateResponse = app_from_response UpdatePolicies"

text \<open>\<open>accessNewBody\<close> and \<open>accessUpdateBody\<close> build the same fields for two request types.\<close>

definition access_body :: "AccessApplicationInput \<Rightarrow> SdkAppBody" where
  "access_body inp = \<lparr>Body_Domain = accessApplicationPrimaryDomain (AppIn_Domains inp), Body_Type = ''self_hosted'',
     Body_Name = AppIn_Name inp,
     Body_Policies = map (\<lambda>(idx, policyUUID). \<lparr>AppPolicy_ID = policyUUID, AppPolicy_Precedence = int idx\<rparr>)
       (enumerate 0 (AppIn_PolicyUUIDs inp)),
     Body_SelfHostedDomains = AppIn_Domains inp, Body_Tags = AppIn_Tags inp\<rparr>"

fun ensureTags :: "('s, 'z) Sdk_scheme \<Rightarrow> RealClient \<Rightarrow> string list \<Rightarrow> ('s, unit result) state" where
  "ensureTags sdk c [] = return_st (Inr ())"
| "ensureTags sdk c (tag # tags) = do {
     res \<leftarrow> realAccessTags_Ensure sdk c tag;
     case res of Inl err \<Rightarrow> return_st (Inl err) | Inr _ \<Rightarrow> ensureTags sdk c tags }"

definition realAccessApplications_List :: "('s, 'z) Sdk_scheme \<Rightarrow> RealClient \<Rightarrow> string \<Rightarrow> ('s, AccessApplication list result) state" where
  "realAccessApplications_List sdk c domain = retried sdk c
     (answer (\<lambda>items. filter (\<lambda>app. accessApplicationMatchesHostname app domain) (map accessAppFromListResponse items))
        (Sdk_AppsList sdk (Real_accountID c) (some_nonempty domain)))"

definition realAccessApplications_Create :: "('s, 'z) Sdk_scheme \<Rightarrow> RealClient \<Rightarrow> AccessApplicationInput \<Rightarrow> ('s, AccessApplication result) state" where
  "realAccessApplications_Create sdk c inp = do {
     ensured \<leftarrow> ensureTags sdk c (AppIn_Tags inp);
     case ensured of
       Inl err \<Rightarrow> return_st (Inl err)
     | Inr _ \<Rightarrow> retried sdk c (answer accessAppFromNewResponse (Sdk_AppsNew sdk (Real_accountID c) (access_body inp))) }"

definition realAccessApplications_Update :: "('s, 'z) Sdk_scheme \<Rightarrow> RealClient \<Rightarrow> string \<Rightarrow> AccessApplicationInput \<Rightarrow> ('s, AccessApplication result) state" where
  "realAccessApplications_Update sdk c ident inp = do {
     ensured \<leftarrow> ensureTags sdk c (AppIn_Tags inp);
     case ensured of
       Inl err \<Rightarrow> return_st (Inl err)
     | Inr _ \<Rightarrow> retried sdk c (mapped accessAppFromUpdateResponse (Sdk_AppsUpdate sdk ident (Real_accountID c) (access_body inp))) }"

definition realAccessApplications_Delete :: "('s, 'z) Sdk_scheme \<Rightarrow> RealClient \<Rightarrow> string \<Rightarrow> ('s, unit result) state" where
  "realAccessApplications_Delete sdk c ident = retried sdk c (mapped (\<lambda>u. u) (Sdk_AppsDelete sdk ident (Real_accountID c)))"

section \<open>DNS records\<close>

definition dnsRecordBody :: "DNSRecordInput \<Rightarrow> SdkRecordParam result" where
  "dnsRecordBody inp =
     (let param = \<lparr>RecordParam_Name = DNSIn_Name inp, RecordParam_TTL = 1, RecordParam_Type = DNSIn_Type inp,
            RecordParam_Content = DNSIn_Content inp, RecordParam_Proxied = DNSIn_Proxied inp, RecordParam_Comment = DNSIn_Comment inp\<rparr>
      in if DNSIn_Type inp = ''CNAME'' then Inr param
         else if DNSIn_Type inp = ''TXT'' then Inr param
         else Inl (ErrNew (''cloudflare: unsupported DNS record type '' @ quoteq (DNSIn_Type inp) @ '' for CAS write'')))"

definition dnsRecordFromResponse :: "string \<Rightarrow> SdkRecord \<Rightarrow> DNSRecord" where
  "dnsRecordFromResponse zoneID resp = \<lparr>DNS_ID = Sdk_Record_ID resp, DNS_ZoneID = zoneID, DNS_Name = Sdk_Record_Name resp,
     DNS_Type = Sdk_Record_Type resp, DNS_Content = Sdk_Record_Content resp, DNS_Proxied = Sdk_Record_Proxied resp,
     DNS_Comment = Sdk_Record_Comment resp\<rparr>"

definition realDNSRecords_List :: "('s, 'z) Sdk_scheme \<Rightarrow> RealClient \<Rightarrow> string \<Rightarrow> string \<Rightarrow> string \<Rightarrow> ('s, DNSRecord list result) state" where
  "realDNSRecords_List sdk c zoneID name recordType = retried sdk c
     (answer (map (dnsRecordFromResponse zoneID)) (Sdk_RecordsList sdk zoneID name recordType))"

definition realDNSRecords_Create :: "('s, 'z) Sdk_scheme \<Rightarrow> RealClient \<Rightarrow> DNSRecordInput \<Rightarrow> ('s, DNSRecord result) state" where
  "realDNSRecords_Create sdk c inp = retried sdk c (case dnsRecordBody inp of
      Inl err \<Rightarrow> return_st (Inl err)
    | Inr body \<Rightarrow> mapped (dnsRecordFromResponse (DNSIn_ZoneID inp)) (Sdk_RecordsNew sdk (DNSIn_ZoneID inp) body))"

definition realDNSRecords_Update :: "('s, 'z) Sdk_scheme \<Rightarrow> RealClient \<Rightarrow> string \<Rightarrow> DNSRecordInput \<Rightarrow> ('s, DNSRecord result) state" where
  "realDNSRecords_Update sdk c ident inp = retried sdk c (case dnsRecordBody inp of
      Inl err \<Rightarrow> return_st (Inl err)
    | Inr body \<Rightarrow> mapped (dnsRecordFromResponse (DNSIn_ZoneID inp)) (Sdk_RecordsUpdate sdk ident (DNSIn_ZoneID inp) body))"

definition realDNSRecords_Delete :: "('s, 'z) Sdk_scheme \<Rightarrow> RealClient \<Rightarrow> string \<Rightarrow> string \<Rightarrow> ('s, unit result) state" where
  "realDNSRecords_Delete sdk c zoneID ident = retried sdk c (mapped (\<lambda>u. u) (Sdk_RecordsDelete sdk ident zoneID))"

section \<open>Zones\<close>

definition realZones_List :: "('s, 'z) Sdk_scheme \<Rightarrow> RealClient \<Rightarrow> ('s, Zone list result) state" where
  "realZones_List sdk c = retried sdk c
     (answer (map (\<lambda>item. \<lparr>Zone_ID = Zone_ID item, Zone_Name = Zone_Name item\<rparr>)) (Sdk_ZonesList sdk))"

definition realZones_Resolve :: "('g RealGlobals_scheme, 'z) Sdk_scheme \<Rightarrow> RealClient \<Rightarrow> string \<Rightarrow>
    ('g RealGlobals_scheme, Zone result) state" where
  "realZones_Resolve sdk c hostname = do {
     cache \<leftarrow> zoneCacheForCred (Real_cacheKey c);
     case (if Cache_ready cache then LongestMatchingZone (Cache_zones cache) hostname else None) of
       Some zone \<Rightarrow> return_st (Inr zone)
     | None \<Rightarrow> do {
         listed \<leftarrow> realZones_List sdk c;
         case listed of
           Inl err \<Rightarrow> return_st (Inl err)
         | Inr zones \<Rightarrow> do {
             _ \<leftarrow> store_zones (Real_cacheKey c) zones;
             return_st (case LongestMatchingZone zones hostname of None \<Rightarrow> Inl ErrNotFound | Some zone \<Rightarrow> Inr zone) } } }"

section \<open>Access policies\<close>

definition toDecision :: "string \<Rightarrow> string result" where
  "toDecision d = (if d \<in> {''allow'', ''deny'', ''bypass'', ''non_identity''} then Inr d
     else Inl (ErrNew (''cloudflare: invalid decision '' @ quoteq d)))"

definition toAccessRuleParam :: "AccessRule \<Rightarrow> SdkRule option" where
  "toAccessRuleParam r =
     (if Rule_Email r \<noteq> [] then Some (EmailRule (Rule_Email r))
      else if Rule_EmailDomain r \<noteq> [] then Some (DomainRule (Rule_EmailDomain r))
      else if Rule_IP r \<noteq> [] then Some (IPRule (Rule_IP r))
      else if Rule_Everyone r then Some EveryoneRule
      else if Rule_ServiceToken r \<noteq> [] then Some (ServiceTokenRule (Rule_ServiceToken r))
      else if Rule_GeoCountryCode r \<noteq> [] then Some (CountryRule (Rule_GeoCountryCode r))
      else None)"

definition toAccessRuleParams :: "AccessRule list \<Rightarrow> SdkRule list" where
  "toAccessRuleParams rules = List.map_filter toAccessRuleParam rules"

fun fromAccessRule :: "SdkRule \<Rightarrow> AccessRule result" where
  "fromAccessRule (EmailRule v) = Inr (zero_rule\<lparr>Rule_Email := v\<rparr>)"
| "fromAccessRule (DomainRule v) = Inr (zero_rule\<lparr>Rule_EmailDomain := v\<rparr>)"
| "fromAccessRule (IPRule v) = Inr (zero_rule\<lparr>Rule_IP := v\<rparr>)"
| "fromAccessRule EveryoneRule = Inr (zero_rule\<lparr>Rule_Everyone := True\<rparr>)"
| "fromAccessRule (ServiceTokenRule v) = Inr (zero_rule\<lparr>Rule_ServiceToken := v\<rparr>)"
| "fromAccessRule (CountryRule v) = Inr (zero_rule\<lparr>Rule_GeoCountryCode := v\<rparr>)"
| "fromAccessRule (OtherRule ty) = Inl (ErrWrap [] ErrUnsupportedAccessRule ('': '' @ ty))"

fun fromAccessRules :: "SdkRule list \<Rightarrow> AccessRule list result" where
  "fromAccessRules [] = Inr []"
| "fromAccessRules (r # rules) =
     (case fromAccessRule r of
        Inl err \<Rightarrow> Inl err
      | Inr rule \<Rightarrow> map_result ((#) rule) (fromAccessRules rules))"

definition policy_metadata :: "SdkPolicy \<Rightarrow> AccessPolicy" where
  "policy_metadata resp = \<lparr>Policy_ID = Sdk_Policy_ID resp, Policy_Name = Sdk_Policy_Name resp, Policy_Decision = Sdk_Policy_Decision resp,
     Policy_Include = [], Policy_Exclude = [], Policy_Require = [], Policy_SessionDuration = Sdk_Policy_SessionDuration resp,
     Policy_PurposeJustificationRequired = Sdk_Policy_PurposeJustificationRequired resp,
     Policy_PurposeJustificationPrompt = Sdk_Policy_PurposeJustificationPrompt resp\<rparr>"

text \<open>The response with its rules; an error of the translation is the closure's error.\<close>

definition policy_from_response :: "SdkPolicy \<Rightarrow> AccessPolicy result" where
  "policy_from_response resp =
     (case fromAccessRules (Sdk_Policy_Include resp) of
        Inl err \<Rightarrow> Inl err
      | Inr inc \<Rightarrow> (case fromAccessRules (Sdk_Policy_Exclude resp) of
            Inl err \<Rightarrow> Inl err
          | Inr exc \<Rightarrow> (case fromAccessRules (Sdk_Policy_Require resp) of
                Inl err \<Rightarrow> Inl err
              | Inr req \<Rightarrow> Inr ((policy_metadata resp)\<lparr>Policy_Include := inc, Policy_Exclude := exc, Policy_Require := req\<rparr>))))"

definition policy_params :: "RealClient \<Rightarrow> string \<Rightarrow> AccessPolicyInput \<Rightarrow> SdkPolicyParams" where
  "policy_params c decision inp = \<lparr>PolicyParams_AccountID = Real_accountID c, PolicyParams_Name = PolicyIn_Name inp,
     PolicyParams_Decision = decision, PolicyParams_Include = toAccessRuleParams (PolicyIn_Include inp),
     PolicyParams_Exclude = toAccessRuleParams (PolicyIn_Exclude inp), PolicyParams_Require = toAccessRuleParams (PolicyIn_Require inp),
     PolicyParams_SessionDuration = PolicyIn_SessionDuration inp,
     PolicyParams_PurposeJustificationRequired = PolicyIn_PurposeJustificationRequired inp,
     PolicyParams_PurposeJustificationPrompt = PolicyIn_PurposeJustificationPrompt inp\<rparr>"

definition realAccessPolicies_List :: "('s, 'z) Sdk_scheme \<Rightarrow> RealClient \<Rightarrow> ('s, AccessPolicy list result) state" where
  "realAccessPolicies_List sdk c = retried sdk c (answer (map policy_metadata) (Sdk_PoliciesList sdk (Real_accountID c)))"

definition realAccessPolicies_GetMetadata :: "('s, 'z) Sdk_scheme \<Rightarrow> RealClient \<Rightarrow> string \<Rightarrow> ('s, AccessPolicy result) state" where
  "realAccessPolicies_GetMetadata sdk c ident = retried sdk c (mapped policy_metadata (Sdk_PoliciesGet sdk ident (Real_accountID c)))"

definition realAccessPolicies_Get :: "('s, 'z) Sdk_scheme \<Rightarrow> RealClient \<Rightarrow> string \<Rightarrow> ('s, AccessPolicy result) state" where
  "realAccessPolicies_Get sdk c ident = retried sdk c (do {
     res \<leftarrow> Sdk_PoliciesGet sdk ident (Real_accountID c);
     return_st (case res of Inl err \<Rightarrow> Inl (mapAPIError err) | Inr resp \<Rightarrow> policy_from_response resp) })"

definition realAccessPolicies_Create :: "('s, 'z) Sdk_scheme \<Rightarrow> RealClient \<Rightarrow> AccessPolicyInput \<Rightarrow> ('s, AccessPolicy result) state" where
  "realAccessPolicies_Create sdk c inp = (case toDecision (PolicyIn_Decision inp) of
      Inl err \<Rightarrow> return_st (Inl err)
    | Inr decision \<Rightarrow> retried sdk c (do {
        res \<leftarrow> Sdk_PoliciesNew sdk (policy_params c decision inp);
        return_st (case res of Inl err \<Rightarrow> Inl err | Inr resp \<Rightarrow> policy_from_response resp) }))"

definition realAccessPolicies_Update :: "('s, 'z) Sdk_scheme \<Rightarrow> RealClient \<Rightarrow> string \<Rightarrow> AccessPolicyInput \<Rightarrow> ('s, AccessPolicy result) state" where
  "realAccessPolicies_Update sdk c ident inp = (case toDecision (PolicyIn_Decision inp) of
      Inl err \<Rightarrow> return_st (Inl err)
    | Inr decision \<Rightarrow> retried sdk c (do {
        res \<leftarrow> Sdk_PoliciesUpdate sdk ident (policy_params c decision inp);
        return_st (case res of Inl err \<Rightarrow> Inl (mapAPIError err) | Inr resp \<Rightarrow> policy_from_response resp) }))"

definition realAccessPolicies_Delete :: "('s, 'z) Sdk_scheme \<Rightarrow> RealClient \<Rightarrow> string \<Rightarrow> ('s, unit result) state" where
  "realAccessPolicies_Delete sdk c ident = retried sdk c (mapped (\<lambda>u. u) (Sdk_PoliciesDelete sdk ident (Real_accountID c)))"

section \<open>The client\<close>

text \<open>\<open>newSdk\<close> is \<open>cf.NewClient(option.WithAPIToken(token))\<close>.\<close>

definition real_client :: "(string \<Rightarrow> ('g RealGlobals_scheme, 'z) Sdk_scheme) \<Rightarrow> RealClient \<Rightarrow> 'g RealGlobals_scheme Client" where
  "real_client newSdk c = (let sdk = newSdk (Real_api c) in \<lparr>
     Client_Tunnels = \<lparr>Tunnels_Create = realTunnels_Create sdk c, Tunnels_Rename = realTunnels_Rename sdk c,
       Tunnels_List = realTunnels_List sdk c, Tunnels_Get = realTunnels_Get sdk c, Tunnels_Delete = realTunnels_Delete sdk c,
       Tunnels_Token = realTunnels_Token sdk c\<rparr>,
     Client_Configurations = \<lparr>Configurations_Update = realConfigurations_Update sdk c\<rparr>,
     Client_AccessApplications = \<lparr>Apps_List = realAccessApplications_List sdk c, Apps_Create = realAccessApplications_Create sdk c,
       Apps_Update = realAccessApplications_Update sdk c, Apps_Delete = realAccessApplications_Delete sdk c\<rparr>,
     Client_AccessTags = \<lparr>Tags_Ensure = realAccessTags_Ensure sdk c, Tags_Delete = realAccessTags_Delete sdk c\<rparr>,
     Client_AccessPolicies = \<lparr>Policies_List = realAccessPolicies_List sdk c, Policies_GetMetadata = realAccessPolicies_GetMetadata sdk c,
       Policies_Get = realAccessPolicies_Get sdk c, Policies_Create = realAccessPolicies_Create sdk c,
       Policies_Update = realAccessPolicies_Update sdk c, Policies_Delete = realAccessPolicies_Delete sdk c\<rparr>,
     Client_TunnelRoutes = \<lparr>Routes_List = realTunnelRoutes_List sdk c, Routes_Create = realTunnelRoutes_Create sdk c,
       Routes_Get = realTunnelRoutes_Get sdk c, Routes_Edit = realTunnelRoutes_Edit sdk c, Routes_Delete = realTunnelRoutes_Delete sdk c\<rparr>,
     Client_DNSRecords = \<lparr>DNSRecords_List = realDNSRecords_List sdk c, DNSRecords_Create = realDNSRecords_Create sdk c,
       DNSRecords_Update = realDNSRecords_Update sdk c, DNSRecords_Delete = realDNSRecords_Delete sdk c\<rparr>,
     Client_Zones = \<lparr>Zones_List = realZones_List sdk c, Zones_Resolve = realZones_Resolve sdk c\<rparr>\<rparr>)"

end
