(* ===== verification/Sdk_Memory.thy ===== *)
theory Sdk_Memory
  imports Real_Client
begin

text \<open>
  An SDK over a world in memory, for the concrete runs of the theorems about the real client. Listings and
  the members of policies come back in reverse order; the first \<open>mem_busy\<close> requests of a listing of zones
  are refused with 503; methods that the runs do not call answer 404.
\<close>

section \<open>The world\<close>

record MemWorld = RealGlobals +
  mem_policies :: "(string \<times> SdkPolicyParams) list"
  mem_apps :: "(string \<times> SdkAppBody) list"
  mem_zones :: "Zone list"
  mem_tags :: "string list"
  mem_busy :: nat

definition empty_world :: MemWorld where
  "empty_world = \<lparr>rg_limiterByToken = [], rg_zoneCacheByCred = [], rg_clientCacheByCred = [], mem_policies = [], mem_apps = [],
     mem_zones = [], mem_tags = [], mem_busy = 0\<rparr>"

definition missing :: "('s, 'a result) state" where
  "missing = return_st (Inl (ErrAPI 404 ''not found''))"

definition mem_get :: "(MemWorld \<Rightarrow> (string \<times> 'a) list) \<Rightarrow> (string \<Rightarrow> 'a \<Rightarrow> 'b) \<Rightarrow> string \<Rightarrow> (MemWorld, 'b result) state" where
  "mem_get table f ident = State (\<lambda>w. (case map_of (table w) ident of
      None \<Rightarrow> Inl (ErrAPI 404 ''not found'') | Some v \<Rightarrow> Inr (f ident v), w))"

section \<open>Responses\<close>

definition policy_response :: "string \<Rightarrow> SdkPolicyParams \<Rightarrow> SdkPolicy" where
  "policy_response ident ps = \<lparr>Sdk_Policy_ID = ident, Sdk_Policy_Name = PolicyParams_Name ps, Sdk_Policy_Decision = PolicyParams_Decision ps,
     Sdk_Policy_Include = rev (PolicyParams_Include ps), Sdk_Policy_Exclude = rev (PolicyParams_Exclude ps),
     Sdk_Policy_Require = rev (PolicyParams_Require ps), Sdk_Policy_SessionDuration = PolicyParams_SessionDuration ps,
     Sdk_Policy_PurposeJustificationRequired = PolicyParams_PurposeJustificationRequired ps,
     Sdk_Policy_PurposeJustificationPrompt = PolicyParams_PurposeJustificationPrompt ps\<rparr>"

definition app_response :: "string \<Rightarrow> SdkAppBody \<Rightarrow> SdkApplication" where
  "app_response ident body = \<lparr>Sdk_App_ID = ident, Sdk_App_Name = Body_Name body, Sdk_App_Domain = Body_Domain body,
     Sdk_App_SelfHostedDomains = AnyStrings (Body_SelfHostedDomains body), Sdk_App_Policies = OtherPolicies, Sdk_App_Tags = AnyOther,
     Sdk_App_SelfHosted = Some \<lparr>SelfHosted_Policies = rev (Body_Policies body), SelfHosted_Tags = rev (Body_Tags body)\<rparr>\<rparr>"

definition mem_zones_list :: "(MemWorld, Zone list result) state" where
  "mem_zones_list = State (\<lambda>w. if mem_busy w = 0 then (Inr (rev (mem_zones w)), w)
     else (Inl (ErrAPI 503 ''unavailable''), w\<lparr>mem_busy := mem_busy w - 1\<rparr>))"

section \<open>The SDK\<close>

definition memory_sdk :: "string \<Rightarrow> MemWorld Sdk" where
  "memory_sdk token = \<lparr>Tr_Wait = (\<lambda>k. return_st (Inr ())), Tr_Sleep = (\<lambda>d. return_st (Inr ())), Tr_Rand = return_st (\<lambda>n. 0),
     Sdk_TunnelNew = (\<lambda>_ _ _. missing), Sdk_TunnelEdit = (\<lambda>_ _ _. missing), Sdk_TunnelList = (\<lambda>_ _. missing),
     Sdk_TunnelGet = (\<lambda>_ _. missing), Sdk_TunnelDelete = (\<lambda>_ _. missing), Sdk_TokenGet = (\<lambda>_ _. missing),
     Sdk_ConfigurationsUpdate = (\<lambda>_ _ _. missing), Sdk_RoutesList = (\<lambda>_. missing), Sdk_RoutesNew = (\<lambda>_. missing),
     Sdk_RoutesGet = (\<lambda>_ _. missing), Sdk_RoutesEdit = (\<lambda>_ _. missing), Sdk_RoutesDelete = (\<lambda>_ _. missing),
     Sdk_TagsGet = (\<lambda>name _. State (\<lambda>w. (if name \<in> set (mem_tags w) then Inr () else Inl (ErrAPI 404 ''not found''), w))),
     Sdk_TagsNew = (\<lambda>_ name. State (\<lambda>w. (Inr (), w\<lparr>mem_tags := name # mem_tags w\<rparr>))),
     Sdk_TagsDelete = (\<lambda>_ _. missing),
     Sdk_AppsList = (\<lambda>_ _. State (\<lambda>w. (Inr (rev (map (\<lambda>(i, b). app_response i b) (mem_apps w))), w))),
     Sdk_AppsNew = (\<lambda>_ body. State (\<lambda>w. (Inr (app_response ''app-1'' body), w\<lparr>mem_apps := (''app-1'', body) # mem_apps w\<rparr>))),
     Sdk_AppsUpdate = (\<lambda>_ _ _. missing), Sdk_AppsDelete = (\<lambda>_ _. missing),
     Sdk_RecordsList = (\<lambda>_ _ _. missing), Sdk_RecordsNew = (\<lambda>_ _. missing), Sdk_RecordsUpdate = (\<lambda>_ _ _. missing),
     Sdk_RecordsDelete = (\<lambda>_ _. missing), Sdk_ZonesList = mem_zones_list, Sdk_PoliciesList = (\<lambda>_. missing),
     Sdk_PoliciesGet = (\<lambda>ident _. mem_get mem_policies policy_response ident),
     Sdk_PoliciesNew = (\<lambda>ps. State (\<lambda>w. (Inr (policy_response ''pol-1'' ps), w\<lparr>mem_policies := (''pol-1'', ps) # mem_policies w\<rparr>))),
     Sdk_PoliciesUpdate = (\<lambda>_ _. missing), Sdk_PoliciesDelete = (\<lambda>_ _. missing)\<rparr>"

text \<open>A client as \<open>New\<close> makes it, for the account \<open>acc\<close> and the token \<open>tok\<close>.\<close>

definition memory_client :: RealClient where
  "memory_client = \<lparr>Real_api = ''tok'', Real_accountID = ''acc'', Real_limiter = hex_string (Sum256 ''tok''),
     Real_cacheKey = newCacheKey ''acc'' ''tok''\<rparr>"

lemma memory_client_fields [simp]:
  "Real_api memory_client = ''tok''" "Real_accountID memory_client = ''acc''" "Real_cacheKey memory_client = newCacheKey ''acc'' ''tok''"
  by (simp_all add: memory_client_def)

lemma memory_transport [simp]:
  "Tr_Wait (memory_sdk tok) k = return_st (Inr ())" "Tr_Sleep (memory_sdk tok) d = return_st (Inr ())"
  "Tr_Rand (memory_sdk tok) = return_st (\<lambda>n. 0)"
  by (simp_all add: memory_sdk_def)

end
