(* ===== verification/Real_Calls.thy ===== *)
theory Real_Calls
  imports Sdk_Memory
begin

text \<open>
  What the adapters of \<open>Real_Client\<close> promise the controllers: which error a caller sees, which items a listing
  keeps, and what the package's caches hold. Every lemma is for an arbitrary SDK.
\<close>

section \<open>Retried calls\<close>

text \<open>A retried call gives what one run of the closure gave, or the error of the limiter or of a pause cut short.\<close>

lemma retried_outcome:
  assumes "run_state (retried sdk c fn) s = (res, s')"
  obtains s1 where "run_state fn s1 = (res, s')"
  | err s1 where "run_state (Tr_Wait sdk (Real_limiter c)) s1 = (Inl err, s')" "res = Inl err"
  | err d s1 where "run_state (Tr_Sleep sdk d) s1 = (Inl err, s')" "res = Inl err"
proof -
  from assms obtain n s1 where "attempt_ends sdk (Real_limiter c) fn n s1 res s'"
    using retry_loop_iff [of maxRetries sdk "Real_limiter c" fn s res s'] by (auto simp: retried_def withRetry_def)
  with that show thesis unfolding attempt_ends_def by blast
qed

lemma retried_Inr:
  assumes "run_state (retried sdk c fn) s = (Inr v, s')"
  obtains s1 where "run_state fn s1 = (Inr v, s')"
  using assms by (rule retried_outcome) auto

text \<open>The same inside an invariant of the world, for a limiter, a timer and a closure that keep it.\<close>

definition transport_keeps :: "('s \<Rightarrow> bool) \<Rightarrow> ('s, 'z) Transport_scheme \<Rightarrow> bool" where
  "transport_keeps I tr \<longleftrightarrow> (\<forall>k. keeps I (Tr_Wait tr k)) \<and> (\<forall>d. keeps I (Tr_Sleep tr d)) \<and> keeps I (Tr_Rand tr)"

lemma failed_attempt_keeps: "failed_attempt tr key fn n s s' \<Longrightarrow> transport_keeps I tr \<Longrightarrow> keeps I fn \<Longrightarrow> I s \<Longrightarrow> I s'"
  unfolding failed_attempt_def transport_keeps_def by (blast dest: keepsD)

lemma transient_keeps: "transient tr key fn m n s s' \<Longrightarrow> transport_keeps I tr \<Longrightarrow> keeps I fn \<Longrightarrow> I s \<Longrightarrow> I s'"
  by (induction rule: transient.induct) (auto dest: failed_attempt_keeps)

lemma retried_Inr_inv:
  assumes "run_state (retried sdk c fn) s = (Inr v, s')" and "transport_keeps I sdk" and "keeps I fn" and "I s"
  obtains s1 where "I s1" "run_state fn s1 = (Inr v, s')"
proof -
  from assms(1) obtain n s1 where n: "transient sdk (Real_limiter c) fn 0 n s s1" "attempt_ends sdk (Real_limiter c) fn n s1 (Inr v) s'"
    using retry_loop_iff [of maxRetries sdk "Real_limiter c" fn s "Inr v" s'] by (auto simp: retried_def withRetry_def)
  then obtain s2 where "run_state (Tr_Wait sdk (Real_limiter c)) s1 = (Inr (), s2)" "run_state fn s2 = (Inr v, s')"
    by (auto simp: attempt_ends_def)
  with transient_keeps [OF n(1) assms(2-4)] assms(2) that show thesis by (auto simp: transport_keeps_def dest: keepsD)
qed

lemma retried_first:
  assumes "run_state (Tr_Wait sdk (Real_limiter c)) s = (Inr (), s1)" and "run_state fn s1 = (res, s')"
    and "case res of Inl err \<Rightarrow> \<not> retryable err | Inr _ \<Rightarrow> True"
  shows "run_state (retried sdk c fn) s = (res, s')"
proof -
  have "attempt_ends sdk (Real_limiter c) fn 0 s res s'" using assms by (auto simp: attempt_ends_def split: sum.splits)
  then show ?thesis
    using retry_loop_iff [of maxRetries sdk "Real_limiter c" fn s res s'] transient_none
    by (fastforce simp: retried_def withRetry_def)
qed

lemma run_answer: "run_state (answer f m) s = (map_prod (map_result f) id) (run_state m s)"
  by (simp add: answer_def split: prod.splits)

lemma run_mapped:
  "run_state (mapped f m) s = (case run_state m s of
     (Inl err, s') \<Rightarrow> (Inl (mapAPIError err), s') | (Inr v, s') \<Rightarrow> (Inr (f v), s'))"
  by (auto simp: mapped_def split: prod.splits sum.splits)

lemma answer_InrE:
  assumes "run_state (answer f m) s = (Inr v, s')"
  obtains w where "run_state m s = (Inr w, s')" "v = f w"
  using assms by (cases "run_state m s") (auto simp: run_answer map_result_def split: sum.splits)

lemma mapped_InrE:
  assumes "run_state (mapped f m) s = (Inr v, s')"
  obtains w where "run_state m s = (Inr w, s')" "v = f w"
  using assms by (auto simp: run_mapped split: prod.splits sum.splits)

lemma retried_answerE:
  assumes "run_state (retried sdk c (answer f m)) s = (Inr v, s')"
  obtains w s1 where "run_state m s1 = (Inr w, s')" "v = f w"
  using assms by (elim retried_Inr answer_InrE) blast

lemma retried_mappedE:
  assumes "run_state (retried sdk c (mapped f m)) s = (Inr v, s')"
  obtains w s1 where "run_state m s1 = (Inr w, s')" "v = f w"
  using assms by (elim retried_Inr mapped_InrE) blast

section \<open>Not found\<close>

text \<open>No computation of the SDK, the limiter or the timer gives \<open>ErrNotFound\<close> by itself: it is this package's sentinel.\<close>

definition never_sentinel :: "('s, 'a result) state \<Rightarrow> bool" where
  "never_sentinel m \<longleftrightarrow> (\<forall>s s' err. run_state m s = (Inl err, s') \<longrightarrow> \<not> errors_Is err ErrNotFound)"

definition quiet_transport :: "('s, 'z) Transport_scheme \<Rightarrow> bool" where
  "quiet_transport tr \<longleftrightarrow> (\<forall>k. never_sentinel (Tr_Wait tr k)) \<and> (\<forall>d. never_sentinel (Tr_Sleep tr d))"

lemma not_retryable_NotFound [simp]: "\<not> retryable ErrNotFound"
  by (simp add: retryable_def ErrNotFound_def)

text \<open>
  An operation that makes the request \<open>request\<close> answers \<open>ErrNotFound\<close> only if the last request was answered with a 404,
  and (\<open>passes_404\<close>) a 404 to its first request is passed on at once, in the state that request left.
\<close>

definition only_on_404 :: "('s, 'a result) state \<Rightarrow> ('s, 'b result) state \<Rightarrow> bool" where
  "only_on_404 request opr \<longleftrightarrow> (\<forall>s s' e. run_state opr s = (Inl e, s') \<and> errors_Is e ErrNotFound \<longrightarrow>
     (\<exists>s1 err. run_state request s1 = (Inl err, s') \<and> api_status err = Some 404))"

definition passes_404 :: "('s, 'z) Sdk_scheme \<Rightarrow> RealClient \<Rightarrow> ('s, 'a result) state \<Rightarrow> ('s, 'b result) state \<Rightarrow> bool" where
  "passes_404 sdk c request opr \<longleftrightarrow> (\<forall>s s1 s' err. run_state (Tr_Wait sdk (Real_limiter c)) s = (Inr (), s1) \<and>
     run_state request s1 = (Inl err, s') \<and> api_status err = Some 404 \<longrightarrow> run_state opr s = (Inl ErrNotFound, s'))"

definition iff_404 :: "('s, 'z) Sdk_scheme \<Rightarrow> RealClient \<Rightarrow> ('s, 'a result) state \<Rightarrow> ('s, 'b result) state \<Rightarrow> bool" where
  "iff_404 sdk c request opr \<longleftrightarrow> only_on_404 request opr \<and> passes_404 sdk c request opr"

text \<open>No request of an SDK gives the sentinel by itself.\<close>

definition quiet_sdk :: "('s, 'z) Sdk_scheme \<Rightarrow> bool" where
  "quiet_sdk sdk \<longleftrightarrow> quiet_transport sdk \<and>
     (\<forall>i a n. never_sentinel (Sdk_TunnelNew sdk a n i) \<and> never_sentinel (Sdk_TunnelEdit sdk i a n) \<and> never_sentinel (Sdk_TunnelGet sdk i a) \<and>
        never_sentinel (Sdk_TunnelDelete sdk i a) \<and> never_sentinel (Sdk_TokenGet sdk i a)) \<and>
     (\<forall>a m. never_sentinel (Sdk_TunnelList sdk a m)) \<and> (\<forall>i a d. never_sentinel (Sdk_ConfigurationsUpdate sdk i a d)) \<and>
     (\<forall>p. never_sentinel (Sdk_RoutesList sdk p)) \<and> (\<forall>p. never_sentinel (Sdk_RoutesNew sdk p)) \<and> (\<forall>i p. never_sentinel (Sdk_RoutesEdit sdk i p)) \<and>
     (\<forall>i a. never_sentinel (Sdk_RoutesGet sdk i a) \<and> never_sentinel (Sdk_RoutesDelete sdk i a) \<and>
        never_sentinel (Sdk_TagsGet sdk i a) \<and> never_sentinel (Sdk_TagsNew sdk a i) \<and> never_sentinel (Sdk_TagsDelete sdk i a) \<and>
        never_sentinel (Sdk_AppsDelete sdk i a) \<and> never_sentinel (Sdk_RecordsDelete sdk i a) \<and>
        never_sentinel (Sdk_PoliciesGet sdk i a) \<and> never_sentinel (Sdk_PoliciesDelete sdk i a) \<and> never_sentinel (Sdk_PoliciesList sdk a)) \<and>
     (\<forall>a m. never_sentinel (Sdk_AppsList sdk a m)) \<and> (\<forall>a b. never_sentinel (Sdk_AppsNew sdk a b)) \<and> (\<forall>i a b. never_sentinel (Sdk_AppsUpdate sdk i a b)) \<and>
     (\<forall>z n t. never_sentinel (Sdk_RecordsList sdk z n t)) \<and> (\<forall>z b. never_sentinel (Sdk_RecordsNew sdk z b)) \<and>
     (\<forall>i z b. never_sentinel (Sdk_RecordsUpdate sdk i z b)) \<and> never_sentinel (Sdk_ZonesList sdk) \<and>
     (\<forall>p. never_sentinel (Sdk_PoliciesNew sdk p)) \<and> (\<forall>i p. never_sentinel (Sdk_PoliciesUpdate sdk i p))"

lemma retried_quiet:
  assumes "quiet_transport sdk" and "never_sentinel fn"
  shows "never_sentinel (retried sdk c fn)"
  using assms unfolding never_sentinel_def quiet_transport_def by (blast elim: retried_outcome)

lemma retried_only_404:
  assumes "quiet_transport sdk" and "only_on_404 request fn"
  shows "only_on_404 request (retried sdk c fn)"
  unfolding only_on_404_def
proof (intro allI impI, elim conjE)
  fix s s' e
  assume "run_state (retried sdk c fn) s = (Inl e, s')" and e: "errors_Is e ErrNotFound"
  then show "\<exists>s1 err. run_state request s1 = (Inl err, s') \<and> api_status err = Some 404"
    using assms unfolding only_on_404_def quiet_transport_def never_sentinel_def by (elim retried_outcome) blast+
qed

text \<open>The closures: an answer passed through, an error that is mapped, and an answer that is translated.\<close>

definition translated :: "('a \<Rightarrow> 'b result) \<Rightarrow> ('s, 'a result) state \<Rightarrow> ('s, 'b result) state" where
  "translated f m = do { res \<leftarrow> m; return_st (case res of Inl err \<Rightarrow> Inl (mapAPIError err) | Inr v \<Rightarrow> f v) }"

lemma mapped_translated: "mapped f m = translated (\<lambda>v. Inr (f v)) m"
  by (simp add: mapped_def translated_def)

lemma run_translated:
  "run_state (translated f m) s = (case run_state m s of (Inl err, s') \<Rightarrow> (Inl (mapAPIError err), s') | (Inr v, s') \<Rightarrow> (f v, s'))"
  by (auto simp: translated_def split: prod.splits sum.splits)

lemma answer_quiet: "never_sentinel m \<Longrightarrow> never_sentinel (answer f m)"
  by (auto simp: never_sentinel_def run_answer map_result_def map_prod_def split: prod.splits sum.splits)

lemma translated_only_404:
  assumes "never_sentinel m" and "\<And>v e. f v = Inl e \<Longrightarrow> \<not> errors_Is e ErrNotFound"
  shows "only_on_404 m (translated f m)"
  unfolding only_on_404_def
proof (intro allI impI, elim conjE)
  fix s s' e
  assume "run_state (translated f m) s = (Inl e, s')" and e: "errors_Is e ErrNotFound"
  then obtain err where "run_state m s = (Inl err, s')" "mapAPIError err = e"
    using assms(2) by (auto simp: run_translated split: prod.splits sum.splits)
  with e assms(1) show "\<exists>s1 err. run_state m s1 = (Inl err, s') \<and> api_status err = Some 404"
    by (auto simp: mapAPIError_def never_sentinel_def split: if_splits)
qed

lemma translated_passes_404: "passes_404 sdk c m (retried sdk c (translated f m))"
  unfolding passes_404_def by (auto intro!: retried_first simp: run_translated mapAPIError_def)

lemma translated_iff_404:
  assumes "quiet_transport sdk" and "never_sentinel m" and "\<And>v e. f v = Inl e \<Longrightarrow> \<not> errors_Is e ErrNotFound"
  shows "iff_404 sdk c m (retried sdk c (translated f m))"
  by (simp add: iff_404_def translated_passes_404 retried_only_404 [OF assms(1) translated_only_404 [OF assms(2,3)]])

lemma mapped_iff_404:
  "quiet_transport sdk \<Longrightarrow> never_sentinel m \<Longrightarrow> iff_404 sdk c m (retried sdk c (mapped f m))"
  unfolding mapped_translated by (rule translated_iff_404) auto

text \<open>The operations with more than one request, or a check before it.\<close>

lemma Tags_Ensure_quiet:
  assumes "quiet_sdk sdk"
  shows "never_sentinel (realAccessTags_Ensure sdk c name)"
proof -
  have "never_sentinel (retried sdk c (answer (\<lambda>u. u) (Sdk_TagsNew sdk (Real_accountID c) name)))"
    using assms by (intro retried_quiet answer_quiet) (simp_all add: quiet_sdk_def)
  then show ?thesis
    by (auto simp: never_sentinel_def realAccessTags_Ensure_def split: prod.splits sum.splits if_splits)
qed

lemma ensureTags_quiet:
  assumes "quiet_sdk sdk"
  shows "never_sentinel (ensureTags sdk c tags)"
proof (induction tags)
  case Nil
  show ?case by (simp add: never_sentinel_def)
next
  case (Cons tag tags)
  with Tags_Ensure_quiet [OF assms, of c tag] show ?case
    by (auto simp: never_sentinel_def split: prod.splits sum.splits)
qed

lemma Apps_Create_quiet:
  assumes "quiet_sdk sdk"
  shows "never_sentinel (realAccessApplications_Create sdk c inp)"
proof -
  have "never_sentinel (retried sdk c (answer accessAppFromNewResponse (Sdk_AppsNew sdk (Real_accountID c) (access_body inp))))"
    using assms by (intro retried_quiet answer_quiet) (simp_all add: quiet_sdk_def)
  with ensureTags_quiet [OF assms, of c "AppIn_Tags inp"] show ?thesis
    by (auto simp: never_sentinel_def realAccessApplications_Create_def split: prod.splits sum.splits)
qed

lemma Apps_Update_only_404:
  assumes "quiet_sdk sdk"
  shows "only_on_404 (Sdk_AppsUpdate sdk ident (Real_accountID c) (access_body inp)) (realAccessApplications_Update sdk c ident inp)"
proof -
  have "iff_404 sdk c (Sdk_AppsUpdate sdk ident (Real_accountID c) (access_body inp))
      (retried sdk c (mapped accessAppFromUpdateResponse (Sdk_AppsUpdate sdk ident (Real_accountID c) (access_body inp))))"
    using assms by (intro mapped_iff_404) (simp_all add: quiet_sdk_def)
  with ensureTags_quiet [OF assms, of c "AppIn_Tags inp"] show ?thesis
    by (auto simp: iff_404_def only_on_404_def never_sentinel_def realAccessApplications_Update_def split: prod.splits sum.splits)
qed

lemma policy_from_response_quiet: "policy_from_response resp = Inl e \<Longrightarrow> \<not> errors_Is e ErrNotFound"
proof -
  have "fromAccessRules rules = Inl e \<Longrightarrow> \<not> errors_Is e ErrNotFound" for rules e
  proof (induction rules)
    case (Cons r rules)
    then show ?case by (cases r) (auto simp: map_result_def ErrUnsupportedAccessRule_def ErrNotFound_def split: sum.splits)
  qed simp
  then show "policy_from_response resp = Inl e \<Longrightarrow> \<not> errors_Is e ErrNotFound"
    by (auto simp: policy_from_response_def split: sum.splits)
qed

lemma Policies_Get_404:
  assumes "quiet_sdk sdk"
  shows "iff_404 sdk c (Sdk_PoliciesGet sdk ident (Real_accountID c)) (realAccessPolicies_Get sdk c ident)"
proof -
  have "realAccessPolicies_Get sdk c ident = retried sdk c (translated policy_from_response (Sdk_PoliciesGet sdk ident (Real_accountID c)))"
    by (simp add: realAccessPolicies_Get_def translated_def)
  with assms show ?thesis by (auto intro!: translated_iff_404 policy_from_response_quiet simp: quiet_sdk_def)
qed

lemma Policies_Update_404:
  assumes "quiet_sdk sdk" and "toDecision (PolicyIn_Decision inp) = Inr d"
  shows "iff_404 sdk c (Sdk_PoliciesUpdate sdk ident (policy_params c d inp)) (realAccessPolicies_Update sdk c ident inp)"
proof -
  have "realAccessPolicies_Update sdk c ident inp =
      retried sdk c (translated policy_from_response (Sdk_PoliciesUpdate sdk ident (policy_params c d inp)))"
    using assms(2) by (simp add: realAccessPolicies_Update_def translated_def)
  with assms(1) show ?thesis by (auto intro!: translated_iff_404 policy_from_response_quiet simp: quiet_sdk_def)
qed

lemma Policies_Create_quiet:
  assumes "quiet_sdk sdk"
  shows "never_sentinel (realAccessPolicies_Create sdk c inp)"
proof (cases "toDecision (PolicyIn_Decision inp)")
  case (Inl err)
  then have "\<not> errors_Is err ErrNotFound" by (auto simp: toDecision_def ErrNotFound_def split: if_splits)
  then show ?thesis by (simp add: Inl realAccessPolicies_Create_def never_sentinel_def)
next
  case (Inr d)
  let ?m = "Sdk_PoliciesNew sdk (policy_params c d inp)"
  have "never_sentinel (do { res \<leftarrow> ?m; return_st (case res of Inl err \<Rightarrow> Inl err | Inr resp \<Rightarrow> policy_from_response resp) })"
    using assms by (auto simp: quiet_sdk_def never_sentinel_def policy_from_response_quiet split: prod.splits sum.splits)
  with assms show ?thesis by (simp add: Inr realAccessPolicies_Create_def quiet_sdk_def retried_quiet)
qed

lemma Records_404:
  assumes "quiet_sdk sdk" and "dnsRecordBody inp = Inr body"
  shows "iff_404 sdk c (Sdk_RecordsNew sdk (DNSIn_ZoneID inp) body) (realDNSRecords_Create sdk c inp)"
    "iff_404 sdk c (Sdk_RecordsUpdate sdk ident (DNSIn_ZoneID inp) body) (realDNSRecords_Update sdk c ident inp)"
  using assms by (simp_all add: realDNSRecords_Create_def realDNSRecords_Update_def mapped_iff_404 quiet_sdk_def)

lemma Records_quiet:
  assumes "quiet_sdk sdk" and "dnsRecordBody inp = Inl err"
  shows "never_sentinel (realDNSRecords_Create sdk c inp)" "never_sentinel (realDNSRecords_Update sdk c ident inp)"
proof -
  have "\<not> errors_Is err ErrNotFound" using assms(2) by (auto simp: dnsRecordBody_def ErrNotFound_def Let_def split: if_splits)
  with assms show "never_sentinel (realDNSRecords_Create sdk c inp)" "never_sentinel (realDNSRecords_Update sdk c ident inp)"
    by (simp_all add: realDNSRecords_Create_def realDNSRecords_Update_def retried_quiet quiet_sdk_def never_sentinel_def [of "return_st _"])
qed

section \<open>Zones\<close>

text \<open>What \<open>Resolve\<close> finds in the cache of a client's credentials.\<close>

definition cached_zone :: "'z RealGlobals_scheme \<Rightarrow> cacheKey \<Rightarrow> string \<Rightarrow> Zone option" where
  "cached_zone g key hostname = (case map_of (rg_zoneCacheByCred g) key of
      Some cache \<Rightarrow> if Cache_ready cache then LongestMatchingZone (Cache_zones cache) hostname else None
    | None \<Rightarrow> None)"

lemma map_of_AList_update: "map_of (AList.update k v al) k' = (if k' = k then Some v else map_of al k')"
  by (simp add: update_conv)

lemma cached_zone_store:
  "cached_zone (g\<lparr>rg_zoneCacheByCred := AList.update key \<lparr>Cache_zones = zones, Cache_ready = True\<rparr> al\<rparr>) key hostname =
   LongestMatchingZone zones hostname"
  by (simp add: cached_zone_def map_of_AList_update)

lemma Resolve_hit:
  "cached_zone s (Real_cacheKey c) hostname = Some z \<Longrightarrow> run_state (realZones_Resolve sdk c hostname) s = (Inr z, s)"
  by (auto simp: realZones_Resolve_def zoneCacheForCred_def cached_zone_def split: option.splits if_splits)

lemma Resolve_miss:
  assumes "cached_zone s (Real_cacheKey c) hostname = None"
  obtains s0 where "run_state (realZones_Resolve sdk c hostname) s = (case run_state (realZones_List sdk c) s0 of
      (Inl err, s1) \<Rightarrow> (Inl err, s1)
    | (Inr zones, s1) \<Rightarrow> (case LongestMatchingZone zones hostname of None \<Rightarrow> Inl ErrNotFound | Some z \<Rightarrow> Inr z,
        snd (run_state (store_zones (Real_cacheKey c) zones) s1)))"
proof
  let ?s0 = "snd (run_state (zoneCacheForCred (Real_cacheKey c)) s)"
  show "run_state (realZones_Resolve sdk c hostname) s = (case run_state (realZones_List sdk c) ?s0 of
      (Inl err, s1) \<Rightarrow> (Inl err, s1)
    | (Inr zones, s1) \<Rightarrow> (case LongestMatchingZone zones hostname of None \<Rightarrow> Inl ErrNotFound | Some z \<Rightarrow> Inr z,
        snd (run_state (store_zones (Real_cacheKey c) zones) s1)))"
    using assms
    by (auto simp: realZones_Resolve_def zoneCacheForCred_def cached_zone_def empty_cache_def split: option.splits if_splits prod.splits sum.splits)
qed

text \<open>
  C23: Zone resolution with its cache. \<open>Resolve\<close> on any SDK does one of three things: the cache of the
  client's credentials has a matching zone, which is the answer, and nothing is read or changed; or the
  listing of zones fails, and its error is the answer; or the listing gives zones, the cache then holds
  them, and the answer is their longest match, or \<open>ErrNotFound\<close> when none matches. So a zone that is given
  out is in the cache afterwards, where the next call for the hostname finds it without a request.
\<close>

theorem real_zones_Resolve:
  "(case cached_zone s (Real_cacheKey c) hostname of
      Some z \<Rightarrow> run_state (realZones_Resolve sdk c hostname) s = (Inr z, s)
    | None \<Rightarrow> (\<exists>s0 s1 err. run_state (realZones_List sdk c) s0 = (Inl err, s1) \<and>
          run_state (realZones_Resolve sdk c hostname) s = (Inl err, s1)) \<or>
        (\<exists>s0 s1 zones s'. run_state (realZones_List sdk c) s0 = (Inr zones, s1) \<and>
          run_state (realZones_Resolve sdk c hostname) s =
            (case LongestMatchingZone zones hostname of None \<Rightarrow> Inl ErrNotFound | Some z \<Rightarrow> Inr z, s') \<and>
          map_of (rg_zoneCacheByCred s') (Real_cacheKey c) = Some \<lparr>Cache_zones = zones, Cache_ready = True\<rparr> \<and>
          (\<forall>z. LongestMatchingZone zones hostname = Some z \<longrightarrow> run_state (realZones_Resolve sdk c hostname) s' = (Inr z, s'))))"
proof (cases "cached_zone s (Real_cacheKey c) hostname")
  case None
  then obtain s0 where s0: "run_state (realZones_Resolve sdk c hostname) s = (case run_state (realZones_List sdk c) s0 of
      (Inl err, s1) \<Rightarrow> (Inl err, s1)
    | (Inr zones, s1) \<Rightarrow> (case LongestMatchingZone zones hostname of None \<Rightarrow> Inl ErrNotFound | Some z \<Rightarrow> Inr z,
        snd (run_state (store_zones (Real_cacheKey c) zones) s1)))" by (rule Resolve_miss)
  obtain res s1 where l: "run_state (realZones_List sdk c) s0 = (res, s1)" by fastforce
  show ?thesis
  proof (cases res)
    case (Inl err)
    with l s0 None show ?thesis by auto
  next
    case (Inr zones)
    let ?s' = "snd (run_state (store_zones (Real_cacheKey c) zones) s1)"
    have "map_of (rg_zoneCacheByCred ?s') (Real_cacheKey c) = Some \<lparr>Cache_zones = zones, Cache_ready = True\<rparr>"
      and "\<And>z. LongestMatchingZone zones hostname = Some z \<Longrightarrow> run_state (realZones_Resolve sdk c hostname) ?s' = (Inr z, ?s')"
      by (simp_all add: store_zones_def map_of_AList_update cached_zone_store Resolve_hit)
    with l s0 None Inr show ?thesis by fastforce
  qed
qed (simp add: Resolve_hit)

lemmas retry_loop_Suc = retry_loop.simps [where left = "Suc l" for l, simplified]

text \<open>Two zones; the listing is refused twice before it is answered.\<close>

definition two_zones :: MemWorld where
  "two_zones = empty_world\<lparr>mem_zones := [\<lparr>Zone_ID = ''z1'', Zone_Name = ''x.nz''\<rparr>, \<lparr>Zone_ID = ''z2'', Zone_Name = ''lab.x.nz''\<rparr>], mem_busy := 2\<rparr>"

theorem real_zones_Resolve_witness:
  "\<exists>s'. run_state (realZones_Resolve (memory_sdk ''tok'') memory_client ''a.lab.x.nz'') two_zones = (Inr \<lparr>Zone_ID = ''z2'', Zone_Name = ''lab.x.nz''\<rparr>, s') \<and>
     run_state (realZones_Resolve (memory_sdk ''tok'') memory_client ''a.lab.x.nz'') s' = (Inr \<lparr>Zone_ID = ''z2'', Zone_Name = ''lab.x.nz''\<rparr>, s')"
proof -
  let ?z = "\<lparr>Zone_ID = ''z2'', Zone_Name = ''lab.x.nz''\<rparr>" and ?c = memory_client and ?sdk = "memory_sdk ''tok''"
  have eta: "(\<lambda>z. \<lparr>Zone_ID = Zone_ID z, Zone_Name = Zone_Name z\<rparr>) = id" by auto
  have l: "run_state (realZones_List ?sdk ?c) s = (Inr (rev (mem_zones s)), s\<lparr>mem_busy := 0\<rparr>)" if "mem_busy s = 2" for s
    using that
    by (simp add: realZones_List_def retried_def withRetry_def maxRetries_def retry_loop_Suc eval_nat_numeral retryable_def run_answer
        map_result_def memory_sdk_def mem_zones_list_def eta)
  have best: "LongestMatchingZone (rev (mem_zones two_zones)) ''a.lab.x.nz'' = Some ?z" by code_simp
  define s' where "s' = snd (run_state (realZones_Resolve ?sdk ?c ''a.lab.x.nz'') two_zones)"
  have "run_state (realZones_Resolve ?sdk ?c ''a.lab.x.nz'') two_zones = (Inr ?z, s') \<and>
      cached_zone s' (Real_cacheKey ?c) ''a.lab.x.nz'' = Some ?z"
    using best unfolding s'_def
    by (simp add: realZones_Resolve_def zoneCacheForCred_def empty_cache_def l two_zones_def empty_world_def store_zones_def
        cached_zone_def map_of_AList_update)
  with real_zones_Resolve [where s = s' and c = ?c and hostname = "''a.lab.x.nz''" and sdk = ?sdk] show ?thesis by auto
qed

section \<open>The caches\<close>

text \<open>
  What holds of the package's variables at all times: a client is stored under the key of its own
  credentials, with a limiter that is in the limiter map, under the hash of the token; no key occurs twice.
\<close>

definition client_ok :: "string list \<Rightarrow> cacheKey \<Rightarrow> RealClient \<Rightarrow> bool" where
  "client_ok limiters key client \<longleftrightarrow> Real_cacheKey client = key \<and> newCacheKey (Real_accountID client) (Real_api client) = key \<and>
     Real_limiter client = hex_string (Key_tokenHash key) \<and> Real_limiter client \<in> set limiters"

definition globals_ok :: "'z RealGlobals_scheme \<Rightarrow> bool" where
  "globals_ok g \<longleftrightarrow> distinct (rg_limiterByToken g) \<and> distinct (map fst (rg_zoneCacheByCred g)) \<and> distinct (map fst (rg_clientCacheByCred g)) \<and>
     list_all (\<lambda>(key, client). client_ok (rg_limiterByToken g) key client) (rg_clientCacheByCred g)"

lemma newCacheKey_eq: "newCacheKey a t = newCacheKey a' t' \<longleftrightarrow> a = a' \<and> Sum256 t = Sum256 t'"
  by (simp add: newCacheKey_def)

lemma New_cached:
  assumes "a \<noteq> []" and "t \<noteq> []" and "map_of (rg_clientCacheByCred g) (newCacheKey a t) = Some client"
  shows "run_state (New a t) g = (Inr client, g)"
  using assms by (simp add: New_def Let_def)

lemma New_fresh:
  assumes "a \<noteq> []" and "t \<noteq> []" and "map_of (rg_clientCacheByCred g) (newCacheKey a t) = None"
  defines "key \<equiv> newCacheKey a t" and "limiter \<equiv> hex_string (Sum256 t)"
  defines "client \<equiv> \<lparr>Real_api = t, Real_accountID = a, Real_limiter = limiter, Real_cacheKey = key\<rparr>"
  shows "run_state (New a t) g = (Inr client, g\<lparr>rg_limiterByToken := if limiter \<in> set (rg_limiterByToken g) then rg_limiterByToken g
      else limiter # rg_limiterByToken g, rg_clientCacheByCred := (key, client) # rg_clientCacheByCred g\<rparr>)"
  using assms(1,2) assms(3) unfolding client_def limiter_def key_def
  by (auto simp: New_def Let_def limiterForTokenHash_def newCacheKey_def)

lemma New_result:
  assumes "globals_ok g" and "run_state (New a t) g = (Inr client, g')"
  shows "globals_ok g' \<and> map_of (rg_clientCacheByCred g') (newCacheKey a t) = Some client \<and> client_ok (rg_limiterByToken g') (newCacheKey a t) client \<and>
    a \<noteq> [] \<and> t \<noteq> [] \<and> (\<forall>k. map_of (rg_clientCacheByCred g) k \<noteq> None \<longrightarrow> map_of (rg_clientCacheByCred g') k = map_of (rg_clientCacheByCred g) k)"
proof -
  have ne: "a \<noteq> []" "t \<noteq> []" using assms(2) by (auto simp: New_def split: if_splits)
  show ?thesis
  proof (cases "map_of (rg_clientCacheByCred g) (newCacheKey a t)")
    case (Some c)
    with New_cached [OF ne Some] assms ne show ?thesis by (auto simp: globals_ok_def list_all_iff dest: map_of_SomeD)
  next
    case None
    then have "newCacheKey a t \<notin> fst ` set (rg_clientCacheByCred g)" by (simp add: map_of_eq_None_iff)
    moreover have "Key_tokenHash (newCacheKey a t) = Sum256 t" by (simp add: newCacheKey_def)
    ultimately show ?thesis using New_fresh [OF ne None] assms ne None
      by (auto simp: globals_ok_def list_all_iff client_ok_def)
  qed
qed

lemma globals_ok_zones:
  "globals_ok g \<Longrightarrow> distinct (map fst al) \<Longrightarrow> globals_ok (g\<lparr>rg_zoneCacheByCred := al\<rparr>)"
  by (simp add: globals_ok_def)

lemma keeps_zoneCacheForCred [triple_rules]: "keeps globals_ok (zoneCacheForCred key)"
  by (rule keepsI) (auto simp: zoneCacheForCred_def globals_ok_def map_of_eq_None_iff split: option.splits)

lemma keeps_store_zones [triple_rules]: "keeps globals_ok (store_zones key zones)"
  by (rule keepsI) (auto simp: store_zones_def globals_ok_def intro: distinct_update)

lemma keeps_retry_loop: "keeps I fn \<Longrightarrow> (\<And>k. keeps I (Tr_Wait tr k)) \<Longrightarrow> (\<And>d. keeps I (Tr_Sleep tr d)) \<Longrightarrow> keeps I (Tr_Rand tr) \<Longrightarrow>
    keeps I (retry_loop tr key fn left)"
proof (induction left)
  case 0
  then show ?case by (subst retry_loop.simps) (auto intro!: triple_rules split: sum.splits)
next
  case (Suc l)
  then show ?case by (subst retry_loop.simps) (auto intro!: triple_rules split: sum.splits)
qed

text \<open>The limiter, the timer and the listing of zones leave the package's variables as they should be.\<close>

definition sdk_keeps :: "('g RealGlobals_scheme, 'z) Sdk_scheme \<Rightarrow> bool" where
  "sdk_keeps sdk \<longleftrightarrow> transport_keeps globals_ok sdk \<and> keeps globals_ok (Sdk_ZonesList sdk)"

lemma keeps_Resolve: "sdk_keeps sdk \<Longrightarrow> keeps globals_ok (realZones_Resolve sdk c hostname)"
  unfolding realZones_Resolve_def realZones_List_def retried_def withRetry_def answer_def sdk_keeps_def transport_keeps_def
  by (auto intro!: triple_rules keeps_retry_loop split: sum.splits option.splits)

lemma client_ok_limiter: "client_ok ls (newCacheKey a t) client \<Longrightarrow> Real_limiter client = hex_string (Sum256 t)"
  by (simp add: client_ok_def newCacheKey_def)

lemma limiter_eq: "hex_string (Sum256 t) = hex_string (Sum256 t') \<longleftrightarrow> Sum256 t = Sum256 t'"
  using hex_string_inj [OF Sum256_bytes Sum256_bytes] .

text \<open>
  C24: The package's caches. Start from variables in which every cached client is stored under the key of
  its own credentials (as they are when the program starts). A client that \<open>New\<close> returns has the account
  asked for and a token with the hash of the token asked for; the variables are as before; asking again
  with the same credentials gives the same client, also after calls with other credentials; two clients
  share their rate limiter iff the hashes of their tokens agree, and their cache of zones iff the accounts
  agree too. Resolving a zone keeps the invariant, for an SDK whose own calls keep it.
\<close>

theorem real_caches_invariant:
  assumes "globals_ok g" and "run_state (New a t) g = (Inr client, g')" and "sdk_keeps sdk"
  shows "globals_ok g' \<and> Real_accountID client = a \<and> Sum256 (Real_api client) = Sum256 t \<and>
    (\<forall>a2 t2 client2 g2. run_state (New a2 t2) g' = (Inr client2, g2) \<longrightarrow>
      run_state (New a t) g2 = (Inr client, g2) \<and>
      (Real_limiter client2 = Real_limiter client \<longleftrightarrow> Sum256 t2 = Sum256 t) \<and>
      (Real_cacheKey client2 = Real_cacheKey client \<longleftrightarrow> a2 = a \<and> Sum256 t2 = Sum256 t)) \<and>
    globals_ok (snd (run_state (realZones_Resolve sdk client hostname) g'))"
proof (intro conjI allI impI)
  note r = New_result [OF assms(1,2)]
  then have ok: "globals_ok g'" "client_ok (rg_limiterByToken g') (newCacheKey a t) client" by auto
  show "globals_ok g'" by (fact ok)
  show "Real_accountID client = a" "Sum256 (Real_api client) = Sum256 t" using ok(2) by (auto simp: client_ok_def newCacheKey_eq)
  show "globals_ok (snd (run_state (realZones_Resolve sdk client hostname) g'))"
    using keepsD [OF keeps_Resolve [OF assms(3)] ok(1)] by (metis prod.collapse)
  fix a2 t2 client2 g2
  assume "run_state (New a2 t2) g' = (Inr client2, g2)"
  note r2 = New_result [OF ok(1) this]
  then have "map_of (rg_clientCacheByCred g2) (newCacheKey a t) = Some client" using r by auto
  with r show "run_state (New a t) g2 = (Inr client, g2)" by (intro New_cached) auto
  have "Real_limiter client = hex_string (Sum256 t)" "Real_limiter client2 = hex_string (Sum256 t2)"
    using client_ok_limiter ok(2) r2 by blast+
  then show "Real_limiter client2 = Real_limiter client \<longleftrightarrow> Sum256 t2 = Sum256 t" by (simp add: limiter_eq)
  show "Real_cacheKey client2 = Real_cacheKey client \<longleftrightarrow> a2 = a \<and> Sum256 t2 = Sum256 t"
    using ok(2) r2 by (auto simp: client_ok_def newCacheKey_eq)
qed

lemma memory_keeps: "sdk_keeps (memory_sdk tok)"
proof -
  have "keeps globals_ok mem_zones_list" by (rule keepsI) (auto simp: mem_zones_list_def globals_ok_def split: if_splits)
  then show ?thesis by (simp add: sdk_keeps_def transport_keeps_def triple_rules) (simp add: memory_sdk_def)
qed

theorem real_caches_invariant_witness:
  "\<exists>c c2 g1 g2. run_state (New ''acc'' ''tok'') empty_world = (Inr c, g1) \<and> run_state (New ''other'' ''tok'') g1 = (Inr c2, g2) \<and>
     run_state (New ''acc'' ''tok'') g2 = (Inr c, g2) \<and> Real_limiter c2 = Real_limiter c \<and> Real_cacheKey c2 \<noteq> Real_cacheKey c"
proof -
  have new: "\<exists>c g'. run_state (New a ''tok'') g = (Inr c, g')" if "a \<noteq> []" for a and g :: MemWorld
    using that New_cached [of a "''tok''" g] New_fresh [of a "''tok''" g] by (cases "map_of (rg_clientCacheByCred g) (newCacheKey a ''tok'')") auto
  obtain c g1 where 1: "run_state (New ''acc'' ''tok'') empty_world = (Inr c, g1)" using new [of "''acc''" empty_world] by auto
  obtain c2 g2 where 2: "run_state (New ''other'' ''tok'') g1 = (Inr c2, g2)" using new [of "''other''" g1] by auto
  have "globals_ok empty_world" by (simp add: globals_ok_def empty_world_def)
  from real_caches_invariant [OF this 1 memory_keeps [of "''tok''"], of "[]"] 1 2 show ?thesis by fastforce
qed

section \<open>Every operation\<close>

lemma Zones_Resolve_not_found:
  assumes "quiet_sdk sdk" and "run_state (realZones_Resolve sdk c hostname) s = (Inl e, s')" and "errors_Is e ErrNotFound"
  shows "\<exists>s0 s1 zones. run_state (realZones_List sdk c) s0 = (Inr zones, s1) \<and> LongestMatchingZone zones hostname = None"
proof (cases "cached_zone s (Real_cacheKey c) hostname")
  case None
  have quiet: "never_sentinel (realZones_List sdk c)"
    using assms(1) unfolding realZones_List_def by (intro retried_quiet answer_quiet) (simp_all add: quiet_sdk_def)
  from Resolve_miss [OF None, of sdk] obtain s0 where s0: "run_state (realZones_Resolve sdk c hostname) s =
      (case run_state (realZones_List sdk c) s0 of (Inl err, s1) \<Rightarrow> (Inl err, s1)
       | (Inr zones, s1) \<Rightarrow> (case LongestMatchingZone zones hostname of None \<Rightarrow> Inl ErrNotFound | Some z \<Rightarrow> Inr z,
           snd (run_state (store_zones (Real_cacheKey c) zones) s1)))" .
  obtain res s1 where list: "run_state (realZones_List sdk c) s0 = (res, s1)" by (cases "run_state (realZones_List sdk c) s0")
  show ?thesis
  proof (cases res)
    case (Inl err)
    with list s0 assms(2) have "e = err" by simp
    with quiet list Inl assms(3) show ?thesis by (auto simp: never_sentinel_def)
  next
    case (Inr zones)
    with list s0 assms(2) have "LongestMatchingZone zones hostname = None" by (simp split: option.splits)
    with list Inr show ?thesis by blast
  qed
next
  case (Some z)
  with Resolve_hit [OF Some, of sdk] assms(2) show ?thesis by simp
qed

lemmas single_request = realTunnels_Get_def realTunnels_Rename_def realTunnels_Delete_def realTunnels_Token_def realTunnels_Create_def
  realTunnels_List_def realConfigurations_Update_def realTunnelRoutes_Get_def realTunnelRoutes_Edit_def realTunnelRoutes_Delete_def
  realTunnelRoutes_List_def realTunnelRoutes_Create_def realAccessApplications_List_def realAccessApplications_Delete_def
  realAccessTags_Delete_def realDNSRecords_List_def realDNSRecords_Delete_def realAccessPolicies_List_def
  realAccessPolicies_GetMetadata_def realAccessPolicies_Delete_def realZones_List_def

lemmas single_part = Client.simps Tunnels.simps Configurations.simps AccessApplications.simps AccessTags.simps AccessPolicies.simps
  TunnelRoutes.simps DNSRecords.simps Zones.simps

text \<open>
  C22: Not found means a 404, for every operation of the real client. Let no limiter, timer or request of the SDK give the
  package's sentinel itself. An operation that maps API errors (reading, renaming and deleting a tunnel,
  its token and configuration, reading, editing and deleting a route, deleting an application or a tag, writing
  and deleting a DNS record of a known type, reading, updating and deleting a policy) answers \<open>ErrNotFound\<close> only if its last request was
  answered with a 404, not with a rate limit, a server error or a refused token, and passes a 404 to its first request on
  at once, in the state that request left; an update of an application, which ensures tags first, has the first half. The operations
  that list and create (a record or an update of an unknown type or decision too) never answer \<open>ErrNotFound\<close>, so a refused or missing listing is never taken
  for a missing resource. The one exception is the resolution of a zone: its \<open>ErrNotFound\<close> means that a listing of
  zones succeeded and holds no zone of the hostname.
\<close>

theorem real_not_found_is_404:
  fixes newSdk :: "string \<Rightarrow> ('g RealGlobals_scheme, 'z) Sdk_scheme" and c :: RealClient
  defines "cl \<equiv> real_client newSdk c" and "sdk \<equiv> newSdk (Real_api c)" and "acc \<equiv> Real_accountID c"
  assumes "quiet_sdk sdk"
  shows "iff_404 sdk c (Sdk_TunnelGet sdk ident acc) (Tunnels_Get (Client_Tunnels cl) ident) \<and>
    iff_404 sdk c (Sdk_TunnelEdit sdk ident acc (RenameTunnel_Name rn)) (Tunnels_Rename (Client_Tunnels cl) ident rn) \<and>
    iff_404 sdk c (Sdk_TunnelDelete sdk ident acc) (Tunnels_Delete (Client_Tunnels cl) ident) \<and>
    iff_404 sdk c (Sdk_TokenGet sdk ident acc) (Tunnels_Token (Client_Tunnels cl) ident) \<and>
    iff_404 sdk c (Sdk_ConfigurationsUpdate sdk ident acc (map ingress_param (Ingress cfg))) (Configurations_Update (Client_Configurations cl) ident cfg) \<and>
    iff_404 sdk c (Sdk_RoutesGet sdk ident acc) (Routes_Get (Client_TunnelRoutes cl) ident) \<and>
    iff_404 sdk c (Sdk_RoutesEdit sdk ident (route_params c ri)) (Routes_Edit (Client_TunnelRoutes cl) ident ri) \<and>
    iff_404 sdk c (Sdk_RoutesDelete sdk ident acc) (Routes_Delete (Client_TunnelRoutes cl) ident) \<and>
    iff_404 sdk c (Sdk_AppsDelete sdk ident acc) (Apps_Delete (Client_AccessApplications cl) ident) \<and>
    iff_404 sdk c (Sdk_TagsDelete sdk ident acc) (Tags_Delete (Client_AccessTags cl) ident) \<and>
    iff_404 sdk c (Sdk_RecordsDelete sdk ident zoneID) (DNSRecords_Delete (Client_DNSRecords cl) zoneID ident) \<and>
    iff_404 sdk c (Sdk_PoliciesGet sdk ident acc) (Policies_GetMetadata (Client_AccessPolicies cl) ident) \<and>
    iff_404 sdk c (Sdk_PoliciesGet sdk ident acc) (Policies_Get (Client_AccessPolicies cl) ident) \<and>
    iff_404 sdk c (Sdk_PoliciesDelete sdk ident acc) (Policies_Delete (Client_AccessPolicies cl) ident) \<and>
    (case toDecision (PolicyIn_Decision pin) of
       Inl err \<Rightarrow> never_sentinel (Policies_Update (Client_AccessPolicies cl) ident pin)
     | Inr d \<Rightarrow> iff_404 sdk c (Sdk_PoliciesUpdate sdk ident (policy_params c d pin)) (Policies_Update (Client_AccessPolicies cl) ident pin)) \<and>
    (case dnsRecordBody di of
       Inl err \<Rightarrow> never_sentinel (DNSRecords_Create (Client_DNSRecords cl) di) \<and> never_sentinel (DNSRecords_Update (Client_DNSRecords cl) ident di)
     | Inr body \<Rightarrow> iff_404 sdk c (Sdk_RecordsNew sdk (DNSIn_ZoneID di) body) (DNSRecords_Create (Client_DNSRecords cl) di) \<and>
         iff_404 sdk c (Sdk_RecordsUpdate sdk ident (DNSIn_ZoneID di) body) (DNSRecords_Update (Client_DNSRecords cl) ident di)) \<and>
    only_on_404 (Sdk_AppsUpdate sdk ident acc (access_body ai)) (Apps_Update (Client_AccessApplications cl) ident ai) \<and>
    never_sentinel (Tunnels_Create (Client_Tunnels cl) ti) \<and> never_sentinel (Tunnels_List (Client_Tunnels cl) name) \<and>
    never_sentinel (Routes_List (Client_TunnelRoutes cl) flt) \<and> never_sentinel (Routes_Create (Client_TunnelRoutes cl) ri) \<and>
    never_sentinel (Apps_List (Client_AccessApplications cl) name) \<and> never_sentinel (Apps_Create (Client_AccessApplications cl) ai) \<and>
    never_sentinel (Tags_Ensure (Client_AccessTags cl) name) \<and>
    never_sentinel (DNSRecords_List (Client_DNSRecords cl) zoneID name ty) \<and>
    never_sentinel (Policies_List (Client_AccessPolicies cl)) \<and> never_sentinel (Policies_Create (Client_AccessPolicies cl) pin) \<and>
    never_sentinel (Zones_List (Client_Zones cl)) \<and>
    (\<forall>s s' e. run_state (Zones_Resolve (Client_Zones cl) name) s = (Inl e, s') \<and> errors_Is e ErrNotFound \<longrightarrow>
       (\<exists>s0 s1 zones. run_state (Zones_List (Client_Zones cl)) s0 = (Inr zones, s1) \<and> LongestMatchingZone zones name = None))"
proof -
  note quiet = assms(4) [unfolded quiet_sdk_def]
  have update: "case toDecision (PolicyIn_Decision pin) of
       Inl err \<Rightarrow> never_sentinel (realAccessPolicies_Update sdk c ident pin)
     | Inr d \<Rightarrow> iff_404 sdk c (Sdk_PoliciesUpdate sdk ident (policy_params c d pin)) (realAccessPolicies_Update sdk c ident pin)"
    using Policies_Update_404 [OF assms(4)]
    by (auto simp: realAccessPolicies_Update_def never_sentinel_def toDecision_def ErrNotFound_def split: sum.split if_splits)
  have records: "case dnsRecordBody di of
       Inl err \<Rightarrow> never_sentinel (realDNSRecords_Create sdk c di) \<and> never_sentinel (realDNSRecords_Update sdk c ident di)
     | Inr body \<Rightarrow> iff_404 sdk c (Sdk_RecordsNew sdk (DNSIn_ZoneID di) body) (realDNSRecords_Create sdk c di) \<and>
         iff_404 sdk c (Sdk_RecordsUpdate sdk ident (DNSIn_ZoneID di) body) (realDNSRecords_Update sdk c ident di)"
    using Records_404 [OF assms(4)] Records_quiet [OF assms(4)] by (simp split: sum.split)
  have zones: "\<forall>s s' e. run_state (realZones_Resolve sdk c name) s = (Inl e, s') \<and> errors_Is e ErrNotFound \<longrightarrow>
      (\<exists>s0 s1 zones. run_state (realZones_List sdk c) s0 = (Inr zones, s1) \<and> LongestMatchingZone zones name = None)"
    using Zones_Resolve_not_found [OF assms(4)] by blast
  show ?thesis
    unfolding cl_def acc_def real_client_def Let_def sdk_def [symmetric] single_part
    by (intro conjI update records Apps_Update_only_404 Apps_Create_quiet Tags_Ensure_quiet Policies_Get_404 Policies_Create_quiet assms(4)
        zones)
      (simp_all add: single_request quiet mapped_iff_404 retried_quiet answer_quiet)
qed

lemma missing_quiet [simp]: "never_sentinel (missing :: ('s, 'a result) state)"
  by (simp add: never_sentinel_def missing_def ErrNotFound_def)

lemma quiet_State: "(\<And>w e. fst (f w) = Inl e \<Longrightarrow> \<not> errors_Is e ErrNotFound) \<Longrightarrow> never_sentinel (State f)"
  by (auto simp: never_sentinel_def) (metis fst_conv)

lemma quiet_done [simp]: "never_sentinel (return_st (Inr v))"
  by (simp add: never_sentinel_def)

lemma memory_quiet_sdk: "quiet_sdk (memory_sdk tok)"
  by (auto simp: quiet_sdk_def quiet_transport_def memory_sdk_def mem_zones_list_def mem_get_def ErrNotFound_def
    intro!: quiet_State split: if_splits option.splits)

theorem real_not_found_is_404_witness:
  "run_state (DNSRecords_Delete (Client_DNSRecords (real_client memory_sdk memory_client)) ''z'' ''r'') empty_world = (Inl ErrNotFound, empty_world) \<and>
   never_sentinel (Policies_List (Client_AccessPolicies (real_client memory_sdk memory_client)))"
proof -
  have "Sdk_RecordsDelete (memory_sdk ''tok'') ''r'' ''z'' = missing" by (simp add: memory_sdk_def)
  moreover have "run_state (missing :: (MemWorld, unit result) state) empty_world = (Inl (ErrAPI 404 ''not found''), empty_world)"
    by (simp add: missing_def)
  moreover have "quiet_sdk (memory_sdk (Real_api memory_client))" by (rule memory_quiet_sdk)
  from real_not_found_is_404 [where newSdk = memory_sdk and c = memory_client and ident = "''r''" and zoneID = "''z''", OF this]
  have "iff_404 (memory_sdk ''tok'') memory_client (Sdk_RecordsDelete (memory_sdk ''tok'') ''r'' ''z'')
      (DNSRecords_Delete (Client_DNSRecords (real_client memory_sdk memory_client)) ''z'' ''r'')"
    "never_sentinel (Policies_List (Client_AccessPolicies (real_client memory_sdk memory_client)))"
    by simp_all
  ultimately show ?thesis by (simp add: iff_404_def passes_404_def)
qed

end
