(* ===== verification/Real_Access.thy ===== *)
theory Real_Access
  imports Real_Calls Policy_Controller Access_Plan
begin

text \<open>
  What the real client sends for an Access application or policy, and what it reads back, against the
  comparisons of the controllers: a resource that was written as desired is found to be as desired, whatever
  order the API returns the members in, so the next pass leaves it alone; and a rule the operator does not
  know is an error, never a rule that is missing.
\<close>

section \<open>Rules\<close>

lemma fromAccessRule_toAccessRuleParam:
  "single_field r \<Longrightarrow> \<exists>p. toAccessRuleParam r = Some p \<and> fromAccessRule p = Inr r"
  by (erule single_field_cases) (simp_all add: toAccessRuleParam_def zero_rule_def)

lemma fromAccessRules_Cons_Inr:
  "fromAccessRules (p # rules) = Inr rs \<longleftrightarrow> (\<exists>r rs'. fromAccessRule p = Inr r \<and> fromAccessRules rules = Inr rs' \<and> rs = r # rs')"
  by (auto simp: map_result_def split: sum.splits)

lemma fromAccessRules_Inr:
  "fromAccessRules rules = Inr rs \<longleftrightarrow> list_all2 (\<lambda>p r. fromAccessRule p = Inr r) rules rs"
proof (induction rules arbitrary: rs)
  case (Cons p rules)
  show ?case by (auto simp: fromAccessRules_Cons_Inr Cons.IH list_all2_Cons1 simp del: fromAccessRules.simps)
qed auto

lemma fromAccessRules_Inl:
  "fromAccessRules rules = Inl err \<Longrightarrow> \<exists>ty. OtherRule ty \<in> set rules \<and> err = ErrWrap [] ErrUnsupportedAccessRule ('': '' @ ty)"
proof (induction rules)
  case (Cons p rules)
  then show ?case by (cases p) (auto simp: map_result_def split: sum.splits)
qed simp

lemma fromAccessRules_error_iff: "(\<exists>err. fromAccessRules rules = Inl err) \<longleftrightarrow> (\<exists>ty. OtherRule ty \<in> set rules)"
proof
  assume "\<exists>ty. OtherRule ty \<in> set rules"
  then obtain ty where ty: "OtherRule ty \<in> set rules" by blast
  show "\<exists>err. fromAccessRules rules = Inl err"
  proof (cases "fromAccessRules rules")
    case (Inr rs)
    then have "\<exists>r. fromAccessRule (OtherRule ty) = Inr r"
      using ty by (auto simp: fromAccessRules_Inr list_all2_conv_all_nth in_set_conv_nth)
    then show ?thesis by simp
  qed simp
qed (blast dest: fromAccessRules_Inl)

lemma toAccessRuleParams_Cons: "toAccessRuleParams (r # rs) = (case toAccessRuleParam r of None \<Rightarrow> [] | Some p \<Rightarrow> [p]) @ toAccessRuleParams rs"
  by (simp add: toAccessRuleParams_def List.map_filter_simps split: option.split)

lemma rules_roundtrip: "list_all single_field rs \<Longrightarrow> fromAccessRules (toAccessRuleParams rs) = Inr rs"
proof (induction rs)
  case (Cons r rs)
  with fromAccessRule_toAccessRuleParam [of r] show ?case by (auto simp: toAccessRuleParams_Cons map_result_def)
qed (simp add: toAccessRuleParams_def List.map_filter_simps)

text \<open>The same for an answer in another order.\<close>

lemma rules_read_back:
  assumes "list_all single_field rs" and "mset rules = mset (toAccessRuleParams rs)"
  obtains rs' where "fromAccessRules rules = Inr rs'" "mset rs' = mset rs"
proof -
  have all2: "list_all2 (\<lambda>p r. fromAccessRule p = Inr r) (toAccessRuleParams rs) rs"
    using rules_roundtrip [OF assms(1)] unfolding fromAccessRules_Inr .
  from list_all2_reorder_left_invariance [OF all2 assms(2)]
  obtain rs' where "list_all2 (\<lambda>p r. fromAccessRule p = Inr r) rules rs'" "mset rs' = mset rs" by auto
  then show thesis by (intro that [of rs']) (simp_all add: fromAccessRules_Inr)
qed

section \<open>Policies\<close>

text \<open>An answer that repeats the parameters of a write; the rules come in any order.\<close>

definition policy_echo :: "SdkPolicyParams \<Rightarrow> SdkPolicy \<Rightarrow> bool" where
  "policy_echo ps resp \<longleftrightarrow> Sdk_Policy_Name resp = PolicyParams_Name ps \<and> Sdk_Policy_Decision resp = PolicyParams_Decision ps \<and>
     mset (Sdk_Policy_Include resp) = mset (PolicyParams_Include ps) \<and> mset (Sdk_Policy_Exclude resp) = mset (PolicyParams_Exclude ps) \<and>
     mset (Sdk_Policy_Require resp) = mset (PolicyParams_Require ps) \<and> Sdk_Policy_SessionDuration resp = PolicyParams_SessionDuration ps \<and>
     Sdk_Policy_PurposeJustificationRequired resp = PolicyParams_PurposeJustificationRequired ps \<and>
     Sdk_Policy_PurposeJustificationPrompt resp = PolicyParams_PurposeJustificationPrompt ps"

definition crd_rules :: "CloudflareAccessPolicy \<Rightarrow> bool" where
  "crd_rules policy \<longleftrightarrow> (let rules = PSpec_Rules (P_Spec policy) in list_all single_field (Rules_Include rules) \<and>
     list_all single_field (Rules_Exclude rules) \<and> list_all single_field (Rules_Require rules))"

lemma policy_from_echo:
  assumes "crd_rules policy" and "policy_echo (policy_params c (PSpec_Decision (P_Spec policy)) (buildAccessPolicyInput policy name)) resp"
  obtains pol where "policy_from_response resp = Inr pol" "accessPolicyMatches pol policy name"
proof -
  let ?r = "PSpec_Rules (P_Spec policy)"
  have sf: "list_all single_field (Rules_Include ?r)" "list_all single_field (Rules_Exclude ?r)" "list_all single_field (Rules_Require ?r)"
    using assms(1) by (auto simp: crd_rules_def Let_def)
  have echo: "mset (Sdk_Policy_Include resp) = mset (toAccessRuleParams (Rules_Include ?r))"
    "mset (Sdk_Policy_Exclude resp) = mset (toAccessRuleParams (Rules_Exclude ?r))"
    "mset (Sdk_Policy_Require resp) = mset (toAccessRuleParams (Rules_Require ?r))"
    using assms(2) by (auto simp: policy_echo_def policy_params_def buildAccessPolicyInput_def Let_def)
  obtain inc where inc: "fromAccessRules (Sdk_Policy_Include resp) = Inr inc" "mset inc = mset (Rules_Include ?r)"
    using rules_read_back [OF sf(1) echo(1)] .
  obtain exc where exc: "fromAccessRules (Sdk_Policy_Exclude resp) = Inr exc" "mset exc = mset (Rules_Exclude ?r)"
    using rules_read_back [OF sf(2) echo(2)] .
  obtain req where req: "fromAccessRules (Sdk_Policy_Require resp) = Inr req" "mset req = mset (Rules_Require ?r)"
    using rules_read_back [OF sf(3) echo(3)] .
  have "canonicalize inc = canonicalize (Rules_Include ?r)" "canonicalize exc = canonicalize (Rules_Exclude ?r)"
    "canonicalize req = canonicalize (Rules_Require ?r)"
    using canonicalize_cong [OF _ sf(1)] canonicalize_cong [OF _ sf(2)] canonicalize_cong [OF _ sf(3)] inc(2) exc(2) req(2) by metis+
  with inc exc req assms(2) show thesis
    by (intro that [of "(policy_metadata resp)\<lparr>Policy_Include := inc, Policy_Exclude := exc, Policy_Require := req\<rparr>"])
      (simp_all add: policy_from_response_def accessPolicyMatches_def Let_def policy_metadata_def policy_echo_def policy_params_def
        buildAccessPolicyInput_def cloudflareRulesEqual_def)
qed

lemma Get_policyE:
  assumes "run_state (realAccessPolicies_Get sdk c ident) s = (Inr pol, s')" and "transport_keeps I sdk"
    and "keeps I (Sdk_PoliciesGet sdk ident (Real_accountID c))" and "I s"
  obtains s1 resp where "I s1" "run_state (Sdk_PoliciesGet sdk ident (Real_accountID c)) s1 = (Inr resp, s')" "policy_from_response resp = Inr pol"
proof -
  let ?fn = "do { res \<leftarrow> Sdk_PoliciesGet sdk ident (Real_accountID c);
       return_st (case res of Inl err \<Rightarrow> Inl (mapAPIError err) | Inr resp \<Rightarrow> policy_from_response resp) }"
  have "keeps I ?fn" using assms(3) by (intro triple_rules)
  then obtain s1 where "I s1" "run_state ?fn s1 = (Inr pol, s')"
    using retried_Inr_inv [OF assms(1) [unfolded realAccessPolicies_Get_def] assms(2) _ assms(4)] by blast
  then show thesis
    by (cases "run_state (Sdk_PoliciesGet sdk ident (Real_accountID c)) s1") (auto intro: that split: sum.splits)
qed

text \<open>
  C19: An Access policy that was written as desired is read as desired. Let the rules of the policy object
  have exactly one field each (what the CRD admits), and let the API, in the states of an invariant \<open>I\<close> that
  the calls keep, answer a read of the policy with what was last written for the object, each group of
  rules in any order. Then a policy that the real client reads, after any number of retries, matches the
  object for the controller's comparison, so the controller does not update it again.
\<close>

theorem policy_read_matches:
  assumes "crd_rules policy" and "I s" and "transport_keeps I sdk" and "keeps I (Sdk_PoliciesGet sdk ident (Real_accountID c))"
    and "\<And>s resp s'. I s \<Longrightarrow> run_state (Sdk_PoliciesGet sdk ident (Real_accountID c)) s = (Inr resp, s') \<Longrightarrow>
      policy_echo (policy_params c (PSpec_Decision (P_Spec policy)) (buildAccessPolicyInput policy name)) resp"
    and "run_state (realAccessPolicies_Get sdk c ident) s = (Inr pol, s')"
  shows "accessPolicyMatches pol policy name"
proof -
  obtain s1 resp where "I s1" "run_state (Sdk_PoliciesGet sdk ident (Real_accountID c)) s1 = (Inr resp, s')"
    and pol: "policy_from_response resp = Inr pol"
    using Get_policyE [OF assms(6,3,4,2)] .
  then have "policy_echo (policy_params c (PSpec_Decision (P_Spec policy)) (buildAccessPolicyInput policy name)) resp" using assms(5) by blast
  from policy_from_echo [OF assms(1) this] pol show ?thesis by (metis sum.inject(2))
qed

text \<open>A policy object with two rules, stored in the world in memory.\<close>

definition two_rules :: CloudflareAccessPolicy where
  "two_rules = example_policy [zero_rule\<lparr>Rule_Email := ''a@x''\<rparr>, zero_rule\<lparr>Rule_Everyone := True\<rparr>]"

definition two_rules_params :: SdkPolicyParams where
  "two_rules_params = policy_params memory_client ''allow'' (buildAccessPolicyInput two_rules ''staff-cfzt'')"

definition two_rules_world :: MemWorld where
  "two_rules_world = empty_world\<lparr>mem_policies := [(''pol-1'', two_rules_params)]\<rparr>"

lemma memory_PoliciesGet: "run_state (Sdk_PoliciesGet (memory_sdk tok) ident acct) w = (case map_of (mem_policies w) ident of
    None \<Rightarrow> (Inl (ErrAPI 404 ''not found''), w) | Some ps \<Rightarrow> (Inr (policy_response ident ps), w))"
  by (simp add: memory_sdk_def mem_get_def split: option.split)

lemma two_rules_crd: "crd_rules two_rules"
  by code_simp

theorem policy_read_matches_witness:
  "\<exists>pol. run_state (realAccessPolicies_Get (memory_sdk ''tok'') memory_client ''pol-1'') two_rules_world = (Inr pol, two_rules_world) \<and>
     accessPolicyMatches pol two_rules ''staff-cfzt''"
proof -
  let ?I = "\<lambda>w. map_of (mem_policies w) ''pol-1'' = Some two_rules_params" and ?sdk = "memory_sdk ''tok''"
  have d: "PSpec_Decision (P_Spec two_rules) = ''allow''" by (simp add: two_rules_def example_policy_def)
  have echo: "policy_echo two_rules_params (policy_response ''pol-1'' two_rules_params)" by (simp add: policy_echo_def policy_response_def)
  obtain pol where pol: "policy_from_response (policy_response ''pol-1'' two_rules_params) = Inr pol"
    using policy_from_echo [OF two_rules_crd] echo d by (metis two_rules_params_def)
  have I: "?I two_rules_world" by (simp add: two_rules_world_def)
  then have run: "run_state (realAccessPolicies_Get ?sdk memory_client ''pol-1'') two_rules_world = (Inr pol, two_rules_world)"
    unfolding realAccessPolicies_Get_def by (intro retried_first) (auto simp: memory_PoliciesGet pol)
  have "accessPolicyMatches pol two_rules ''staff-cfzt''"
  proof (rule policy_read_matches [where I = ?I, OF two_rules_crd I _ _ _ run])
    show "transport_keeps ?I ?sdk" by (simp add: transport_keeps_def keeps_return)
    show "keeps ?I (Sdk_PoliciesGet ?sdk ''pol-1'' (Real_accountID memory_client))"
      by (rule keepsI) (auto simp: memory_PoliciesGet split: option.splits)
  qed (use echo d in \<open>auto simp: memory_PoliciesGet two_rules_params_def\<close>)
  with run show ?thesis by blast
qed

text \<open>
  C20: A rule the operator does not know is never dropped. When the real client reads a policy, the policy has
  one rule for every rule of the answer, in the same order and of the kind of that rule; if any rule of the
  answer is of another kind, the result is an error that wraps \<open>ErrUnsupportedAccessRule\<close>, not a policy with
  fewer rules, and the request is not repeated.
\<close>

theorem unknown_rule_is_error:
  assumes "run_state (Tr_Wait sdk (Real_limiter c)) s = (Inr (), s1)"
    and "run_state (Sdk_PoliciesGet sdk ident (Real_accountID c)) s1 = (Inr resp, s')"
  shows "(case run_state (realAccessPolicies_Get sdk c ident) s of
      (Inr pol, s2) \<Rightarrow> s2 = s' \<and> list_all2 (\<lambda>p r. fromAccessRule p = Inr r) (Sdk_Policy_Include resp) (Policy_Include pol) \<and>
        list_all2 (\<lambda>p r. fromAccessRule p = Inr r) (Sdk_Policy_Exclude resp) (Policy_Exclude pol) \<and>
        list_all2 (\<lambda>p r. fromAccessRule p = Inr r) (Sdk_Policy_Require resp) (Policy_Require pol)
    | (Inl err, s2) \<Rightarrow> s2 = s' \<and> (\<exists>ty. err = ErrWrap [] ErrUnsupportedAccessRule ('': '' @ ty) \<and>
        OtherRule ty \<in> set (Sdk_Policy_Include resp @ Sdk_Policy_Exclude resp @ Sdk_Policy_Require resp)))"
proof -
  have "run_state (realAccessPolicies_Get sdk c ident) s = (policy_from_response resp, s')"
    unfolding realAccessPolicies_Get_def
  proof (rule retried_first [OF assms(1)])
    show "case policy_from_response resp of Inl err \<Rightarrow> \<not> retryable err | Inr _ \<Rightarrow> True"
      by (auto simp: policy_from_response_def retryable_def ErrUnsupportedAccessRule_def split: sum.splits dest!: fromAccessRules_Inl)
  qed (use assms(2) in simp)
  then show ?thesis
    by (auto simp: policy_from_response_def fromAccessRules_Inr split: sum.splits dest!: fromAccessRules_Inl)
qed

text \<open>An API whose answers also require an Okta group.\<close>

definition okta_response :: SdkPolicy where
  "okta_response = (policy_response ''pol-1'' two_rules_params)\<lparr>Sdk_Policy_Require := [OtherRule ''okta'']\<rparr>"

definition okta_sdk :: "MemWorld Sdk" where
  "okta_sdk = (memory_sdk ''tok'')\<lparr>Sdk_PoliciesGet := \<lambda>i a. return_st (Inr okta_response)\<rparr>"

theorem unknown_rule_is_error_witness:
  "run_state (realAccessPolicies_Get okta_sdk memory_client ''pol-1'') empty_world =
     (Inl (ErrWrap [] ErrUnsupportedAccessRule '': okta''), empty_world)"
proof -
  have "Tr_Wait okta_sdk k = return_st (Inr ())" "Sdk_PoliciesGet okta_sdk i a = return_st (Inr okta_response)" for k i a
    by (simp_all add: okta_sdk_def)
  moreover have "OtherRule ty \<in> set (Sdk_Policy_Include okta_response @ Sdk_Policy_Exclude okta_response @ Sdk_Policy_Require okta_response) \<longleftrightarrow>
      ty = ''okta''" for ty
    by (auto simp: okta_response_def policy_response_def two_rules_params_def policy_params_def buildAccessPolicyInput_def
        two_rules_def example_policy_def Let_def toAccessRuleParams_def toAccessRuleParam_def zero_rule_def)
  moreover have "Sdk_Policy_Require okta_response = [OtherRule ''okta'']" by (simp add: okta_response_def)
  ultimately show ?thesis
    using unknown_rule_is_error [of okta_sdk memory_client empty_world empty_world "''pol-1''" okta_response empty_world]
    by (cases "run_state (realAccessPolicies_Get okta_sdk memory_client ''pol-1'') empty_world") (auto split: sum.splits simp: list_all2_Cons1)
qed

section \<open>Applications\<close>

lemma count_up: "fold (\<lambda>s seen. seen(s := seen s + 1)) a seen x = seen x + int (count (mset a) x)"
  by (induction a arbitrary: seen) auto

lemma count_down_iff: "(\<And>x. seen x \<ge> 0) \<Longrightarrow> count_down seen b \<longleftrightarrow> (\<forall>x. int (count (mset b) x) \<le> seen x)"
proof (induction b arbitrary: seen)
  case (Cons s b)
  show ?case
  proof (cases "seen s - 1 < 0")
    case True
    then have "\<not> int (count (mset (s # b)) s) \<le> seen s" by simp
    with True show ?thesis by auto
  next
    case False
    with Cons.prems have "count_down (seen(s := seen s - 1)) b \<longleftrightarrow> (\<forall>x. int (count (mset b) x) \<le> (seen(s := seen s - 1)) x)"
      by (intro Cons.IH) auto
    with False show ?thesis by (auto simp: fun_upd_def)
  qed
qed simp

lemma sameStringSet_mset: "sameStringSet a b \<longleftrightarrow> mset a = mset b"
proof -
  have "count_down (fold (\<lambda>s seen. seen(s := seen s + 1)) a (\<lambda>_. 0)) b \<longleftrightarrow> (\<forall>x. count (mset b) x \<le> count (mset a) x)"
    by (subst count_down_iff) (simp_all add: count_up)
  also have "\<dots> \<longleftrightarrow> mset b \<subseteq># mset a" by (simp add: subseteq_mset_def)
  finally have d: "sameStringSet a b \<longleftrightarrow> size (mset a) = size (mset b) \<and> mset b \<subseteq># mset a" by (simp add: sameStringSet_def)
  show ?thesis unfolding d by (metis mset_subset_size nat_neq_iff subset_mset.le_neq_trans subset_mset.order_refl)
qed

text \<open>The order of the policies comes back from their precedences.\<close>

interpretation precedence_less: slice_less "\<lambda>p q. AppPolicy_Precedence p < AppPolicy_Precedence q"
  by unfold_locales auto

definition policy_links :: "string list \<Rightarrow> AppPolicy list" where
  "policy_links uuids = map (\<lambda>(idx, policyUUID). \<lparr>AppPolicy_ID = policyUUID, AppPolicy_Precedence = int idx\<rparr>) (enumerate 0 uuids)"

lemma policy_links_sorted:
  "sorted_wrt (\<lambda>p q. \<not> AppPolicy_Precedence q < AppPolicy_Precedence p) (policy_links uuids)"
  by (auto simp: policy_links_def sorted_wrt_iff_nth_less nth_enumerate_eq)

lemma policy_links_distinct:
  "p \<in> set (policy_links uuids) \<Longrightarrow> q \<in> set (policy_links uuids) \<Longrightarrow> AppPolicy_Precedence p = AppPolicy_Precedence q \<Longrightarrow> p = q"
  by (auto simp: policy_links_def in_set_enumerate_eq)

lemma policy_ids_links:
  assumes "mset policies = mset (policy_links uuids)" and "[] \<notin> set uuids"
  shows "policy_ids policies = uuids"
proof -
  let ?lt = "\<lambda>p q. AppPolicy_Precedence p < AppPolicy_Precedence q"
  have "sort_slice ?lt policies = policy_links uuids"
  proof (rule precedence_less.sorted_unique)
    show "sorted_wrt (\<lambda>x y. \<not> ?lt y x) (sort_slice ?lt policies)" by (rule precedence_less.sorted_sort_slice)
    show "sorted_wrt (\<lambda>x y. \<not> ?lt y x) (policy_links uuids)" by (rule policy_links_sorted)
    fix x y
    assume "x \<in> set (sort_slice ?lt policies)" "y \<in> set (sort_slice ?lt policies)" "\<not> ?lt x y" "\<not> ?lt y x"
    then show "x = y" using policy_links_distinct [of x uuids y] mset_eq_setD [OF assms(1)] by auto
  qed (simp add: assms(1))
  moreover have "map AppPolicy_ID (policy_links uuids) = uuids"
    by (simp add: policy_links_def comp_def case_prod_unfold)
  ultimately show ?thesis using assms(2) by (auto simp: policy_ids_def filter_id_conv)
qed

text \<open>An answer that repeats the body of a write as a self-hosted application; policies and tags come in any order.\<close>

definition app_echo :: "SdkAppBody \<Rightarrow> SdkApplication \<Rightarrow> bool" where
  "app_echo body resp \<longleftrightarrow> Sdk_App_Name resp = Body_Name body \<and> Sdk_App_Domain resp = Body_Domain body \<and>
     Sdk_App_SelfHostedDomains resp = AnyStrings (Body_SelfHostedDomains body) \<and>
     (case Sdk_App_SelfHosted resp of None \<Rightarrow> False | Some selfHosted \<Rightarrow>
        mset (SelfHosted_Policies selfHosted) = mset (Body_Policies body) \<and> mset (SelfHosted_Tags selfHosted) = mset (Body_Tags body))"

lemma accessApplicationPolicyIDs_typed:
  "typed \<in> {ListPolicies, NewPolicies, UpdatePolicies, GetPolicies} \<Longrightarrow> accessApplicationPolicyIDs (typed policies) = policy_ids policies"
  by (auto simp: accessApplicationPolicyIDs_def)

lemma app_from_echo:
  assumes "app_echo (access_body inp) resp" and "[] \<notin> set (AppIn_PolicyUUIDs inp)" and "typed \<in> {ListPolicies, NewPolicies, UpdatePolicies, GetPolicies}"
  shows "accessApplicationMatchesDesired (app_from_response typed resp) inp \<and>
    App_PolicyUUIDs (app_from_response typed resp) = AppIn_PolicyUUIDs inp"
proof -
  obtain sh where sh: "Sdk_App_SelfHosted resp = Some sh" "mset (SelfHosted_Policies sh) = mset (policy_links (AppIn_PolicyUUIDs inp))"
    "mset (SelfHosted_Tags sh) = mset (AppIn_Tags inp)"
    using assms(1) by (auto simp: app_echo_def access_body_def policy_links_def split: option.splits)
  have "accessApplicationPolicyIDs (typed (SelfHosted_Policies sh)) = AppIn_PolicyUUIDs inp"
    using accessApplicationPolicyIDs_typed [OF assms(3)] policy_ids_links [OF sh(2) assms(2)] by simp
  moreover have "accessApplicationPrimaryDomain [] = []" by (simp add: accessApplicationPrimaryDomain_def)
  ultimately show ?thesis using assms(1) sh(1,3)
    by (auto simp: app_from_response_def Let_def accessApplicationMatchesDesired_def app_echo_def access_body_def
        accessApplicationDomainsFromAny_def sameStringSet_mset)
qed

text \<open>
  C18: An Access application that was written as desired is listed as desired. Let the desired policies have
  no empty ID and the desired domains start with the hostname or a path of it, and let the API, in the
  states of an invariant \<open>I\<close> that the calls keep, list an application as last written, its policies and
  tags in any order. Then the listing of the hostname by the real client contains it, with the policies in
  the order of their precedence, which is the order desired, and it matches the desired state, so the
  controller does not update it again.
\<close>

theorem application_list_matches:
  assumes "[] \<notin> set (AppIn_PolicyUUIDs inp)" and "AppIn_Domains inp = d # ds" and "accessApplicationDomainMatchesHostname d hostname"
    and "I s" and "transport_keeps I sdk" and "keeps I (Sdk_AppsList sdk (Real_accountID c) (some_nonempty hostname))"
    and "\<And>s items s'. I s \<Longrightarrow> run_state (Sdk_AppsList sdk (Real_accountID c) (some_nonempty hostname)) s = (Inr items, s') \<Longrightarrow>
      \<exists>resp \<in> set items. Sdk_App_ID resp = ident \<and> app_echo (access_body inp) resp"
    and "run_state (realAccessApplications_List sdk c hostname) s = (Inr apps, s')"
  shows "\<exists>app \<in> set apps. App_ID app = ident \<and> accessApplicationMatchesDesired app inp"
proof -
  let ?list = "Sdk_AppsList sdk (Real_accountID c) (some_nonempty hostname)"
  let ?pick = "\<lambda>items. filter (\<lambda>app. accessApplicationMatchesHostname app hostname) (map accessAppFromListResponse items)"
  have "keeps I (answer ?pick ?list)" unfolding answer_def using assms(6) by (intro triple_rules)
  then obtain s1 where "I s1" "run_state (answer ?pick ?list) s1 = (Inr apps, s')"
    using retried_Inr_inv [OF assms(8) [unfolded realAccessApplications_List_def] assms(5) _ assms(4)] by blast
  then obtain items where items: "run_state ?list s1 = (Inr items, s')" "apps = ?pick items" by (elim answer_InrE)
  then obtain resp where resp: "resp \<in> set items" "Sdk_App_ID resp = ident" "app_echo (access_body inp) resp"
    using assms(7) \<open>I s1\<close> by blast
  have m: "accessApplicationMatchesDesired (accessAppFromListResponse resp) inp"
    using app_from_echo [OF resp(3) assms(1)] by (simp add: accessAppFromListResponse_def)
  then have "App_Domain (accessAppFromListResponse resp) = d"
    using assms(2) by (simp add: accessApplicationMatchesDesired_def accessApplicationPrimaryDomain_def)
  then have "accessApplicationMatchesHostname (accessAppFromListResponse resp) hostname"
    using assms(3) by (simp add: accessApplicationMatchesHostname_def)
  moreover have "App_ID (accessAppFromListResponse resp) = ident"
    using resp(2) by (simp add: accessAppFromListResponse_def app_from_response_def Let_def)
  ultimately show ?thesis using m items(2) resp(1) by auto
qed

text \<open>An application with two policies, stored in the world in memory.\<close>

definition two_policies :: AccessApplicationInput where
  "two_policies = \<lparr>AppIn_Name = ''web-cfzt'', AppIn_Domains = [''a.x.nz/admin'', ''a.x.nz''], AppIn_PolicyUUIDs = [''p-2'', ''p-1''],
     AppIn_Tags = [''t-1'', ''t-2'']\<rparr>"

definition two_policies_world :: MemWorld where
  "two_policies_world = empty_world\<lparr>mem_apps := [(''app-1'', access_body two_policies)]\<rparr>"

lemma memory_AppsList: "run_state (Sdk_AppsList (memory_sdk tok) acct domain) w = (Inr (rev (map (\<lambda>(i, b). app_response i b) (mem_apps w))), w)"
  by (simp add: memory_sdk_def)

theorem application_list_matches_witness:
  "\<exists>app. run_state (realAccessApplications_List (memory_sdk ''tok'') memory_client ''a.x.nz'') two_policies_world = (Inr [app], two_policies_world) \<and>
     accessApplicationMatchesDesired app two_policies"
proof -
  let ?I = "\<lambda>w. mem_apps w = [(''app-1'', access_body two_policies)]" and ?sdk = "memory_sdk ''tok''"
  have echo: "app_echo (access_body two_policies) (app_response ''app-1'' (access_body two_policies))"
    by (simp add: app_echo_def app_response_def)
  have I: "?I two_policies_world" by (simp add: two_policies_world_def)
  define app where "app = accessAppFromListResponse (app_response ''app-1'' (access_body two_policies))"
  have "accessApplicationMatchesHostname app ''a.x.nz''" unfolding app_def by code_simp
  then have run: "run_state (realAccessApplications_List ?sdk memory_client ''a.x.nz'') two_policies_world = (Inr [app], two_policies_world)"
    unfolding realAccessApplications_List_def
    by (intro retried_first) (auto simp: run_answer memory_AppsList two_policies_world_def map_result_def app_def)
  have "\<exists>a \<in> set [app]. App_ID a = ''app-1'' \<and> accessApplicationMatchesDesired a two_policies"
  proof (rule application_list_matches [where I = ?I, OF _ _ _ I _ _ _ run])
    show "transport_keeps ?I ?sdk" by (simp add: transport_keeps_def keeps_return)
    show "keeps ?I (Sdk_AppsList ?sdk (Real_accountID memory_client) (some_nonempty ''a.x.nz''))"
      by (rule keepsI) (auto simp: memory_AppsList)
    show "accessApplicationDomainMatchesHostname ''a.x.nz/admin'' ''a.x.nz''" by code_simp
  qed (use echo in \<open>auto simp: memory_AppsList two_policies_def app_response_def\<close>)
  with run show ?thesis by auto
qed

end
