(* ===== verification/Watches.thy ===== *)
theory Watches
  imports Exposure Tunnel_Controller Route_Controller Policy_Controller
begin

text \<open>
  The \<open>SetupWithManager\<close> methods of the four controllers with \<open>internal/controller/mapper.go\<close> and the field indexes of
  \<open>indexes.go\<close>: which objects are indexed under which keys, and which requests a change of an object puts on
  the queue of which controller. controller-runtime is a parameter (\<open>Manager\<close>). Main result: the maps of the
  watches are the inverse of the indexes, so the tunnel and policy controllers are woken whenever an indexed listing they read
  changes. The exposure controller has no watch of the exposures it compares an exposure with.
\<close>

section \<open>The manager\<close>

datatype kind = KindExposure | KindTunnel | KindRoute | KindAccessPolicy | KindSecret | KindDaemonSet

text \<open>\<open>client.Object\<close>: the dynamic types the maps see.\<close>

datatype watched = WatchedExposure CloudflareExposure | WatchedTunnel CloudflareTunnel | WatchedRoute CloudflareTunnelRoute
  | WatchedPolicy CloudflareAccessPolicy

record NamespacedName =
  NN_Namespace :: string
  NN_Name :: string

text \<open>What a builder hands to controller-runtime with \<open>Complete(r)\<close>.\<close>

record 's Registration =
  Reg_For :: kind
  Reg_Owns :: "kind list"
  Reg_Watches :: "(kind \<times> (watched \<Rightarrow> ('s, NamespacedName list) state)) list"
  Reg_Named :: string
  Reg_MaxConcurrentReconciles :: nat
  Reg_Reconcile :: "NamespacedName \<Rightarrow> ('s, ctrl_Result \<times> unit result) state"

record 's Manager =
  Mgr_IndexField :: "kind \<Rightarrow> string \<Rightarrow> (watched \<Rightarrow> string list) \<Rightarrow> ('s, unit result) state"
  Mgr_Complete :: "'s Registration \<Rightarrow> ('s, unit result) state"

text \<open>Type assertions \<open>obj.(T)\<close>.\<close>

fun as_exposure :: "watched \<Rightarrow> CloudflareExposure option" where
  "as_exposure (WatchedExposure e) = Some e"
| "as_exposure _ = None"

fun as_tunnel :: "watched \<Rightarrow> CloudflareTunnel option" where
  "as_tunnel (WatchedTunnel t) = Some t"
| "as_tunnel _ = None"

fun as_route :: "watched \<Rightarrow> CloudflareTunnelRoute option" where
  "as_route (WatchedRoute x) = Some x"
| "as_route _ = None"

fun as_policy :: "watched \<Rightarrow> CloudflareAccessPolicy option" where
  "as_policy (WatchedPolicy p) = Some p"
| "as_policy _ = None"

definition enqueueNamed :: "(watched \<Rightarrow> 'a option) \<Rightarrow> ('a \<Rightarrow> ('s, NamespacedName list) state) \<Rightarrow> watched \<Rightarrow> ('s, NamespacedName list) state" where
  "enqueueNamed assertion extract obj =
     (case assertion obj of None \<Rightarrow> return_st [] | Some typed \<Rightarrow> extract typed)"

section \<open>Indexes\<close>

text \<open>An index function panics on an object of another type; the manager calls it on the indexed type only.\<close>

definition exposure_extractor :: "string \<Rightarrow> watched \<Rightarrow> string list" where
  "exposure_extractor field obj = (case as_exposure obj of None \<Rightarrow> [] | Some exposure \<Rightarrow> exposureIndex field exposure)"

fun index_fields :: "'s Manager \<Rightarrow> kind \<Rightarrow> (string \<Rightarrow> watched \<Rightarrow> string list) \<Rightarrow> string list \<Rightarrow> ('s, unit result) state" where
  "index_fields mgr k extractor [] = return_st (Inr ())"
| "index_fields mgr k extractor (field # rest) = do {
     res \<leftarrow> Mgr_IndexField mgr k field (extractor field);
     case res of Inl err \<Rightarrow> return_st (Inl err) | Inr _ \<Rightarrow> index_fields mgr k extractor rest }"

definition indexCloudflareExposureFields :: "'s Manager \<Rightarrow> ('s, unit result) state" where
  "indexCloudflareExposureFields mgr = index_fields mgr KindExposure exposure_extractor
     [exposureIndexTunnelRefName, exposureIndexHostname, exposureIndexPolicyRefName, exposureIndexFailoverGroup]"

definition tunnelRouteIndex :: "CloudflareTunnelRoute \<Rightarrow> string list" where
  "tunnelRouteIndex x =
     (let name = RouteTunnelRef_Name (RSpec_TunnelRef (R_Spec x)) in if name = [] then [] else [name])"

definition indexCloudflareTunnelRouteFields :: "'s Manager \<Rightarrow> ('s, unit result) state" where
  "indexCloudflareTunnelRouteFields mgr = index_fields mgr KindRoute
     (\<lambda>field obj. case as_route obj of None \<Rightarrow> [] | Some x \<Rightarrow> tunnelRouteIndex x) [tunnelRouteIndexTunnelRef]"

section \<open>The controllers\<close>

definition tunnel_of_exposure :: "CloudflareExposure \<Rightarrow> NamespacedName list" where
  "tunnel_of_exposure exposure =
     (let name = TunnelRef_Name (ESpec_TunnelRef (E_Spec exposure))
      in if name = [] then [] else [\<lparr>NN_Namespace = [], NN_Name = name\<rparr>])"

definition tunnel_of_route :: "CloudflareTunnelRoute \<Rightarrow> NamespacedName list" where
  "tunnel_of_route x =
     (let name = RouteTunnelRef_Name (RSpec_TunnelRef (R_Spec x))
      in if name = [] then [] else [\<lparr>NN_Namespace = [], NN_Name = name\<rparr>])"

definition tunnel_registration :: "'s TunnelReconciler \<Rightarrow> 's Registration" where
  "tunnel_registration r = \<lparr>Reg_For = KindTunnel, Reg_Owns = [KindSecret, KindDaemonSet],
     Reg_Watches = [(KindExposure, enqueueNamed as_exposure (\<lambda>exposure. return_st (tunnel_of_exposure exposure))),
       (KindRoute, enqueueNamed as_route (\<lambda>x. return_st (tunnel_of_route x)))],
     Reg_Named = ''cloudflaretunnel'', Reg_MaxConcurrentReconciles = 1,
     Reg_Reconcile = (\<lambda>req. Tunnel_Reconcile r (NN_Name req))\<rparr>"

definition Tunnel_SetupWithManager :: "'s TunnelReconciler \<Rightarrow> 's Manager \<Rightarrow> ('s, unit result) state" where
  "Tunnel_SetupWithManager r mgr = Mgr_Complete mgr (tunnel_registration r)"

definition exposuresForTunnel :: "'s ExposureReconciler \<Rightarrow> string \<Rightarrow> ('s, CloudflareExposure list result) state" where
  "exposuresForTunnel r tunnelName = listExposuresByTunnel r tunnelName"

definition exposuresForPolicy :: "'s ExposureReconciler \<Rightarrow> string \<Rightarrow> ('s, CloudflareExposure list result) state" where
  "exposuresForPolicy r policyName = listExposuresByPolicy r policyName"

text \<open>The requests for a listing; an error of the listing gives none.\<close>

definition exposure_requests :: "('s, CloudflareExposure list result) state \<Rightarrow> ('s, NamespacedName list) state" where
  "exposure_requests listing = do {
     res \<leftarrow> listing;
     return_st (case res of
         Inl err \<Rightarrow> []
       | Inr exposures \<Rightarrow> map (\<lambda>e. \<lparr>NN_Namespace = E_Namespace e, NN_Name = E_Name e\<rparr>) exposures) }"

definition exposure_registration :: "'s ExposureReconciler \<Rightarrow> 's Registration" where
  "exposure_registration r = \<lparr>Reg_For = KindExposure, Reg_Owns = [],
     Reg_Watches = [(KindTunnel, enqueueNamed as_tunnel (\<lambda>tunnel. exposure_requests (exposuresForTunnel r (Meta_Name (T_Meta tunnel))))),
       (KindAccessPolicy, enqueueNamed as_policy (\<lambda>policy. exposure_requests (exposuresForPolicy r (Meta_Name (P_Meta policy)))))],
     Reg_Named = ''cloudflareexposure'', Reg_MaxConcurrentReconciles = 1,
     Reg_Reconcile = (\<lambda>req. Reconcile r (NN_Namespace req) (NN_Name req))\<rparr>"

definition Exposure_SetupWithManager :: "'s ExposureReconciler \<Rightarrow> 's Manager \<Rightarrow> ('s, unit result) state" where
  "Exposure_SetupWithManager r mgr = do {
     res \<leftarrow> indexCloudflareExposureFields mgr;
     case res of Inl err \<Rightarrow> return_st (Inl err) | Inr _ \<Rightarrow> Mgr_Complete mgr (exposure_registration r) }"

text \<open>\<open>routesForTunnel\<close> lists through the reconciler's client, which is the manager's, as that of the tunnel controller.\<close>

definition routesForTunnel :: "'s TunnelReconciler \<Rightarrow> string \<Rightarrow> ('s, CloudflareTunnelRoute list result) state" where
  "routesForTunnel client tunnelName = listRoutesByTunnel client tunnelName"

definition route_registration :: "'s TunnelReconciler \<Rightarrow> 's RouteReconciler \<Rightarrow> 's Registration" where
  "route_registration client r = \<lparr>Reg_For = KindRoute, Reg_Owns = [],
     Reg_Watches = [(KindTunnel, enqueueNamed as_tunnel (\<lambda>tunnel. do {
       res \<leftarrow> routesForTunnel client (Meta_Name (T_Meta tunnel));
       return_st (case res of Inl err \<Rightarrow> []
         | Inr routes \<Rightarrow> map (\<lambda>x. \<lparr>NN_Namespace = [], NN_Name = Meta_Name (R_Meta x)\<rparr>) routes) }))],
     Reg_Named = ''cloudflaretunnelroute'', Reg_MaxConcurrentReconciles = 1,
     Reg_Reconcile = (\<lambda>req. Route_Reconcile r (NN_Name req))\<rparr>"

definition Route_SetupWithManager :: "'s TunnelReconciler \<Rightarrow> 's RouteReconciler \<Rightarrow> 's Manager \<Rightarrow> ('s, unit result) state" where
  "Route_SetupWithManager client r mgr = do {
     res \<leftarrow> indexCloudflareTunnelRouteFields mgr;
     case res of Inl err \<Rightarrow> return_st (Inl err) | Inr _ \<Rightarrow> Mgr_Complete mgr (route_registration client r) }"

definition policies_of_exposure :: "CloudflareExposure \<Rightarrow> NamespacedName list" where
  "policies_of_exposure exposure = map (\<lambda>name. \<lparr>NN_Namespace = [], NN_Name = name\<rparr>) (exposurePolicyRefNames exposure)"

definition policy_registration :: "'s PolicyReconciler \<Rightarrow> 's Registration" where
  "policy_registration r = \<lparr>Reg_For = KindAccessPolicy, Reg_Owns = [],
     Reg_Watches = [(KindExposure, enqueueNamed as_exposure (\<lambda>exposure. return_st (policies_of_exposure exposure)))],
     Reg_Named = ''cloudflareaccesspolicy'', Reg_MaxConcurrentReconciles = 1,
     Reg_Reconcile = (\<lambda>req. Policy_Reconcile r (NN_Name req))\<rparr>"

definition Policy_SetupWithManager :: "'s PolicyReconciler \<Rightarrow> 's Manager \<Rightarrow> ('s, unit result) state" where
  "Policy_SetupWithManager r mgr = Mgr_Complete mgr (policy_registration r)"

section \<open>Nothing is missed\<close>

text \<open>
  The requests that an event with these objects puts on the queue of a controller through its watches of a
  kind: a creation and a deletion have one object, an update has the old and the new one.
\<close>

definition woken :: "'s Registration \<Rightarrow> kind \<Rightarrow> watched list \<Rightarrow> 's \<Rightarrow> NamespacedName set" where
  "woken reg k objs s = (\<Union>obj \<in> set objs. \<Union>(k', f) \<in> set (Reg_Watches reg). if k' = k then set (fst (run_state (f obj) s)) else {})"

definition named :: "string \<Rightarrow> NamespacedName" where
  "named name = \<lparr>NN_Namespace = [], NN_Name = name\<rparr>"

text \<open>The listings a pass reads, as the indexes serve them.\<close>

definition indexed :: "string \<Rightarrow> string \<Rightarrow> CloudflareExposure list \<Rightarrow> CloudflareExposure list" where
  "indexed field v exposures = filter (\<lambda>e. v \<in> set (exposureIndex field e)) exposures"

definition routes_indexed :: "string \<Rightarrow> CloudflareTunnelRoute list \<Rightarrow> CloudflareTunnelRoute list" where
  "routes_indexed v routes = filter (\<lambda>x. v \<in> set (tunnelRouteIndex x)) routes"

lemma woken_tunnel_exposure: "named v \<in> woken (tunnel_registration r) KindExposure [WatchedExposure e] s \<longleftrightarrow> v \<in> set (exposureIndex exposureIndexTunnelRefName e)"
  by (auto simp: woken_def tunnel_registration_def enqueueNamed_def tunnel_of_exposure_def named_def exposureIndex_def Let_def)

lemma woken_tunnel_route: "named v \<in> woken (tunnel_registration r) KindRoute [WatchedRoute x] s \<longleftrightarrow> v \<in> set (tunnelRouteIndex x)"
  by (auto simp: woken_def tunnel_registration_def enqueueNamed_def tunnel_of_route_def named_def tunnelRouteIndex_def Let_def)

lemma index_names [simp]:
  "exposureIndexPolicyRefName \<noteq> exposureIndexTunnelRefName" "exposureIndexPolicyRefName \<noteq> exposureIndexHostname"
  by (simp_all add: exposureIndexPolicyRefName_def exposureIndexTunnelRefName_def exposureIndexHostname_def)

lemma woken_policy: "named v \<in> woken (policy_registration r) KindExposure [WatchedExposure e] s \<longleftrightarrow> v \<in> set (exposureIndex exposureIndexPolicyRefName e)"
  by (auto simp: woken_def policy_registration_def enqueueNamed_def policies_of_exposure_def named_def exposureIndex_def Let_def)

lemma woken_exposure:
  "run_state (exposuresForTunnel r (Meta_Name (T_Meta t))) s = (Inr es, s') \<Longrightarrow>
     woken (exposure_registration r) KindTunnel [WatchedTunnel t] s = (\<lambda>e. \<lparr>NN_Namespace = E_Namespace e, NN_Name = E_Name e\<rparr>) ` set es"
  "run_state (exposuresForPolicy r (Meta_Name (P_Meta p))) s = (Inr es, s') \<Longrightarrow>
     woken (exposure_registration r) KindAccessPolicy [WatchedPolicy p] s = (\<lambda>e. \<lparr>NN_Namespace = E_Namespace e, NN_Name = E_Name e\<rparr>) ` set es"
  by (simp_all add: woken_def exposure_registration_def enqueueNamed_def exposure_requests_def)

lemma woken_route:
  "run_state (routesForTunnel client (Meta_Name (T_Meta t))) s = (Inr rs, s') \<Longrightarrow>
     woken (route_registration client r) KindTunnel [WatchedTunnel t] s = (\<lambda>x. named (Meta_Name (R_Meta x))) ` set rs"
  by (simp add: woken_def route_registration_def enqueueNamed_def named_def)

lemma filter_differs:
  assumes "filter P (xs @ old @ ys) \<noteq> filter P (xs @ new @ ys)"
  obtains e where "e \<in> set (old @ new)" "P e"
proof -
  have "\<exists>e \<in> set (old @ new). P e" using assms by (rule contrapos_np) (simp add: filter_False)
  with that show thesis by blast
qed

lemma woken_member: "obj \<in> set objs \<Longrightarrow> n \<in> woken reg k [obj] s \<Longrightarrow> n \<in> woken reg k objs s"
  unfolding woken_def by (simp only: list.set UN_insert UN_empty Un_empty_right) (rule UN_I)

text \<open>
  C25: Which changes wake which controller. Let the exposures (or the tunnel routes) of the cluster change in one place
  from \<open>old\<close> to \<open>new\<close>: one object is created, deleted, or replaced by its new version. If the listing that the
  tunnel controller reads for a tunnel changes, the event wakes it for that tunnel; if the listing that
  the access policy controller reads for a policy changes, the event wakes it for that policy. In the
  other direction, with list calls that serve the index, an event of a tunnel or of a policy wakes the
  exposure controller for exactly the exposures that refer to it, and an event of a tunnel wakes the route controller for
  exactly its routes. For the exposure controller's own listings there is no such promise: no watch of it is of exposures, so an
  event of one exposure, whatever duplicate hostname, wildcard overlap or shared failover group it makes or ends,
  puts no other exposure on its queue.
\<close>

theorem watches_complete:
  assumes "\<And>field v. run_state (Base_ListExposures er field v) s = (Inr (indexed field v store), s)"
    and "\<And>v. run_state (TR_ListRoutes tr tunnelRouteIndexTunnelRef v) s = (Inr (routes_indexed v rstore), s)"
  shows "(indexed exposureIndexTunnelRefName v (xs @ old @ ys) \<noteq> indexed exposureIndexTunnelRefName v (xs @ new @ ys) \<longrightarrow>
      named v \<in> woken (tunnel_registration tr) KindExposure (map WatchedExposure (old @ new)) s) \<and>
    (routes_indexed v (rxs @ rold @ rys) \<noteq> routes_indexed v (rxs @ rnew @ rys) \<longrightarrow>
      named v \<in> woken (tunnel_registration tr) KindRoute (map WatchedRoute (rold @ rnew)) s) \<and>
    (indexed exposureIndexPolicyRefName v (xs @ old @ ys) \<noteq> indexed exposureIndexPolicyRefName v (xs @ new @ ys) \<longrightarrow>
      named v \<in> woken (policy_registration pr) KindExposure (map WatchedExposure (old @ new)) s) \<and>
    woken (exposure_registration er) KindTunnel [WatchedTunnel t] s =
      {\<lparr>NN_Namespace = E_Namespace e, NN_Name = E_Name e\<rparr> | e. e \<in> set store \<and> Meta_Name (T_Meta t) \<in> set (exposureIndex exposureIndexTunnelRefName e)} \<and>
    woken (exposure_registration er) KindAccessPolicy [WatchedPolicy p] s =
      {\<lparr>NN_Namespace = E_Namespace e, NN_Name = E_Name e\<rparr> | e. e \<in> set store \<and> Meta_Name (P_Meta p) \<in> set (exposureIndex exposureIndexPolicyRefName e)} \<and>
    woken (route_registration tr rr) KindTunnel [WatchedTunnel t] s =
      {named (Meta_Name (R_Meta x)) | x. x \<in> set rstore \<and> Meta_Name (T_Meta t) \<in> set (tunnelRouteIndex x)} \<and>
    woken (exposure_registration er) KindExposure (map WatchedExposure (old @ new)) s = {}"
proof (intro conjI impI)
  assume "indexed exposureIndexTunnelRefName v (xs @ old @ ys) \<noteq> indexed exposureIndexTunnelRefName v (xs @ new @ ys)"
  then obtain e where "e \<in> set (old @ new)" "v \<in> set (exposureIndex exposureIndexTunnelRefName e)"
    unfolding indexed_def by (rule filter_differs)
  then show "named v \<in> woken (tunnel_registration tr) KindExposure (map WatchedExposure (old @ new)) s"
    by - (rule woken_member [of "WatchedExposure e", OF _ woken_tunnel_exposure [THEN iffD2]], auto)
next
  assume "routes_indexed v (rxs @ rold @ rys) \<noteq> routes_indexed v (rxs @ rnew @ rys)"
  then obtain x where "x \<in> set (rold @ rnew)" "v \<in> set (tunnelRouteIndex x)"
    unfolding routes_indexed_def by (rule filter_differs)
  then show "named v \<in> woken (tunnel_registration tr) KindRoute (map WatchedRoute (rold @ rnew)) s"
    by - (rule woken_member [of "WatchedRoute x", OF _ woken_tunnel_route [THEN iffD2]], auto)
next
  assume "indexed exposureIndexPolicyRefName v (xs @ old @ ys) \<noteq> indexed exposureIndexPolicyRefName v (xs @ new @ ys)"
  then obtain e where "e \<in> set (old @ new)" "v \<in> set (exposureIndex exposureIndexPolicyRefName e)"
    unfolding indexed_def by (rule filter_differs)
  then show "named v \<in> woken (policy_registration pr) KindExposure (map WatchedExposure (old @ new)) s"
    by - (rule woken_member [of "WatchedExposure e", OF _ woken_policy [THEN iffD2]], auto)
next
  show "woken (exposure_registration er) KindExposure (map WatchedExposure (old @ new)) s = {}"
    by (simp add: woken_def exposure_registration_def)
next
  show "woken (route_registration tr rr) KindTunnel [WatchedTunnel t] s =
      {named (Meta_Name (R_Meta x)) | x. x \<in> set rstore \<and> Meta_Name (T_Meta t) \<in> set (tunnelRouteIndex x)}"
    by (auto simp: woken_route routesForTunnel_def listRoutesByTunnel_def assms(2) routes_indexed_def)
qed (auto simp: woken_exposure exposuresForTunnel_def exposuresForPolicy_def listExposuresByTunnel_def listExposuresByPolicy_def assms(1) indexed_def)

end
