(* ===== verification/Lease_Protocol.thy ===== *)
theory Lease_Protocol
  imports Failover Api_Server
begin

text \<open>
  The failover lease as a protocol: any number of sites run the passes of \<open>exposure_failover.go\<close> against one
  set of TXT records, and their passes interleave at every call. A pass reads the records and the clock,
  decides with \<open>Decide\<close> on \<open>gate_inputs\<close>, writes at most once, and reads back; it may also stop anywhere (an
  error, a crash). The store has no conditional write: an update replaces whatever has the ID, a create
  adds a record. Site and tunnel IDs are words (no white space), as the lease format needs; records at the
  lease name that are foreign or do not parse, on which every pass fails closed, are left out.
\<close>

section \<open>The arena\<close>

text \<open>
  Where a pass of a site stands: it has read the records at a time; it has written and not read back yet; it
  is deleting its own leases (\<open>deleteOwnedLeaseIfPresent\<close>), with the IDs it has listed.
\<close>

datatype phase = Idle | Decided time "LeaseRecord list" | Written time | Leaving "string list"

record Arena =
  ar_clock :: time
  ar_records :: "LeaseRecord list"
  ar_phase :: "string \<Rightarrow> phase"
  ar_primary :: "string set"

definition set_phase :: "string \<Rightarrow> phase \<Rightarrow> Arena \<Rightarrow> Arena" where
  "set_phase s p a = a\<lparr>ar_phase := (ar_phase a)(s := p)\<rparr>"

text \<open>The pass ends; the site's role in its status is as given.\<close>

definition end_pass :: "string \<Rightarrow> bool \<Rightarrow> Arena \<Rightarrow> Arena" where
  "end_pass s primary a = (set_phase s Idle a)\<lparr>ar_primary := if primary then insert s (ar_primary a) else ar_primary a - {s}\<rparr>"

definition without_ids :: "string list \<Rightarrow> LeaseRecord list \<Rightarrow> LeaseRecord list" where
  "without_ids ids rs = filter (\<lambda>r. LeaseRecord_ID r \<notin> set ids) rs"

definition replace_lease :: "string \<Rightarrow> Lease \<Rightarrow> LeaseRecord list \<Rightarrow> LeaseRecord list" where
  "replace_lease rid l rs = map (\<lambda>r. if LeaseRecord_ID r = rid then r\<lparr>LeaseRecord_Lease := l\<rparr> else r) rs"

definition record_ids :: "Arena \<Rightarrow> string set" where
  "record_ids a = set (map LeaseRecord_ID (ar_records a))"

text \<open>\<open>resolveDuplicateLeases\<close>: \<open>k\<close> deletions succeed; the status says Standby only when all do.\<close>

definition resolved :: "string \<Rightarrow> nat \<Rightarrow> string list \<Rightarrow> Arena \<Rightarrow> Arena" where
  "resolved s k ids a =
     (let a' = a\<lparr>ar_records := without_ids (take k ids) (ar_records a)\<rparr>
      in if k < length ids then set_phase s Idle a' else end_pass s False a')"

text \<open>The verdict of a pass over what it read, for the object \<open>e\<close> and a random source.\<close>

definition verdict :: "string \<Rightarrow> CloudflareExposure \<Rightarrow> LeaseRecord list \<Rightarrow> time \<Rightarrow> (int \<Rightarrow> int) \<Rightarrow> Action" where
  "verdict s e rs now rng = Decision_Action (Decide (gate_inputs s e (observed_lease rs) now rng))"

definition writes :: "Action \<Rightarrow> bool" where
  "writes act \<longleftrightarrow> act = ActionAcquire \<or> act = ActionRenew"

text \<open>What a reader makes of the record that \<open>writeLease\<close> sends.\<close>

definition written_lease :: "string \<Rightarrow> CloudflareExposure \<Rightarrow> string \<Rightarrow> time \<Rightarrow> Lease result" where
  "written_lease s e tunnelID now = ParseLease (Serialize (desired_lease s e tunnelID now))"

section \<open>Steps\<close>

text \<open>\<open>cfg s e\<close>: the object of site \<open>s\<close> may read as \<open>e\<close>; \<open>leaving s\<close>: the object of site \<open>s\<close> may be deleted.\<close>

inductive lease_step :: "(string \<Rightarrow> CloudflareExposure \<Rightarrow> bool) \<Rightarrow> (string \<Rightarrow> bool) \<Rightarrow> Arena \<Rightarrow> Arena \<Rightarrow> bool" for cfg leaving where
  step_tick: "d \<ge> 0 \<Longrightarrow> lease_step cfg leaving a (a\<lparr>ar_clock := ar_clock a + d\<rparr>)"
| step_read: "ar_phase a s = Idle \<Longrightarrow> lease_step cfg leaving a (set_phase s (Decided (ar_clock a) (ar_records a)) a)"
| step_duplicates: "ar_phase a s = Decided t rs \<Longrightarrow> length rs > 1 \<Longrightarrow>
    lease_step cfg leaving a (resolved s k (DeleteIDs (Resolve rs t s)) a)"
| step_standby: "ar_phase a s = Decided t rs \<Longrightarrow> length rs \<le> 1 \<Longrightarrow> cfg s e \<Longrightarrow>
    verdict s e rs t rng \<in> {ActionWait, ActionSplitBrain} \<Longrightarrow> lease_step cfg leaving a (end_pass s False a)"
| step_hold: "ar_phase a s = Decided t rs \<Longrightarrow> length rs \<le> 1 \<Longrightarrow> cfg s e \<Longrightarrow>
    verdict s e rs t rng = ActionHoldPrimary \<Longrightarrow> lease_step cfg leaving a (end_pass s True a)"
| step_create: "ar_phase a s = Decided t [] \<Longrightarrow> cfg s e \<Longrightarrow> writes (verdict s e [] t rng) \<Longrightarrow>
    is_word s \<Longrightarrow> is_word tunnelID \<Longrightarrow> written_lease s e tunnelID t = Inr l \<Longrightarrow> rid \<notin> record_ids a \<Longrightarrow>
    lease_step cfg leaving a (set_phase s (Written t)
      (a\<lparr>ar_records := ar_records a @ [\<lparr>LeaseRecord_ID = rid, LeaseRecord_Lease = l\<rparr>]\<rparr>))"
| step_update: "ar_phase a s = Decided t [r] \<Longrightarrow> cfg s e \<Longrightarrow> writes (verdict s e [r] t rng) \<Longrightarrow>
    is_word s \<Longrightarrow> is_word tunnelID \<Longrightarrow> written_lease s e tunnelID t = Inr l \<Longrightarrow> LeaseRecord_ID r \<in> record_ids a \<Longrightarrow>
    lease_step cfg leaving a (set_phase s (Written t) (a\<lparr>ar_records := replace_lease (LeaseRecord_ID r) l (ar_records a)\<rparr>))"
| step_verify_duplicates: "ar_phase a s = Written t \<Longrightarrow> length (ar_records a) > 1 \<Longrightarrow>
    lease_step cfg leaving a (resolved s k (DeleteIDs (Resolve (ar_records a) t s)) a)"
| step_verify: "ar_phase a s = Written t \<Longrightarrow> length (ar_records a) \<le> 1 \<Longrightarrow>
    lease_step cfg leaving a (end_pass s (\<exists>r. ar_records a = [r] \<and> Lease_Site (LeaseRecord_Lease r) = s) a)"
| step_leave: "ar_phase a s = Idle \<Longrightarrow> leaving s \<Longrightarrow> lease_step cfg leaving a (set_phase s (Leaving
    (map LeaseRecord_ID (filter (\<lambda>r. Lease_Site (LeaseRecord_Lease r) = s) (ar_records a)))) a)"
| step_left: "ar_phase a s = Leaving ids \<Longrightarrow>
    lease_step cfg leaving a (set_phase s Idle (a\<lparr>ar_records := without_ids (take k ids) (ar_records a)\<rparr>))"
| step_abort: "lease_step cfg leaving a (set_phase s Idle a)"

inductive_cases lease_stepE: "lease_step cfg leaving a a'"

section \<open>A live lease is respected\<close>

definition forced :: "string \<Rightarrow> CloudflareExposure \<Rightarrow> bool" where
  "forced s e \<longleftrightarrow> ForcePromote (gate_inputs s e None 0 (\<lambda>n. 0))"

lemma verdict_writes:
  "writes (verdict s e rs t rng) \<Longrightarrow> (\<forall>r. rs = [r] \<longrightarrow> Lease_Site (LeaseRecord_Lease r) = s \<or> Expired (LeaseRecord_Lease r) t) \<or> forced s e"
  by (auto simp: writes_def verdict_def Decide_def gate_inputs_def observed_lease_def forced_def Let_def split: option.splits if_splits)

lemma verdict_keeps: "verdict s e [r] t rng = ActionHoldPrimary \<Longrightarrow> Lease_Site (LeaseRecord_Lease r) = s"
  by (auto simp: verdict_def Decide_def gate_inputs_def observed_lease_def Let_def split: if_splits)

lemma verdict_empty: "verdict s e [] t rng \<noteq> ActionHoldPrimary"
  by (auto simp: verdict_def Decide_def gate_inputs_def observed_lease_def Let_def split: if_splits)

lemma written_lease_site:
  assumes "is_word s" and "is_word tunnelID" and "written_lease s e tunnelID t = Inr l"
  shows "Lease_Site l = s"
proof -
  let ?d = "desired_lease s e tunnelID t"
  have "Fields (Serialize ?d) = serialized_tokens ?d" using assms(1,2) by (intro Fields_Serialize) (simp_all add: desired_lease_def)
  then have "l = with_fields (map_of (map token_kv (serialized_tokens ?d))) zero_Lease"
    using assms(3) by (simp add: written_lease_def ParseLease_Inr_iff)
  then show ?thesis unfolding token_kv_serialized by (simp add: with_fields_def desired_lease_def)
qed

definition live :: "Arena \<Rightarrow> bool" where
  "live a \<longleftrightarrow> list_all (\<lambda>r. \<not> Expired (LeaseRecord_Lease r) (ar_clock a)) (ar_records a)"

inductive live_run :: "(string \<Rightarrow> CloudflareExposure \<Rightarrow> bool) \<Rightarrow> (string \<Rightarrow> bool) \<Rightarrow> Arena \<Rightarrow> Arena \<Rightarrow> bool" for cfg leaving where
  live_start: "live a \<Longrightarrow> live_run cfg leaving a a"
| live_more: "live_run cfg leaving a a1 \<Longrightarrow> lease_step cfg leaving a1 a2 \<Longrightarrow> live a2 \<Longrightarrow> live_run cfg leaving a a2"

text \<open>The invariant: one record, with ID \<open>rid\<close> and site \<open>h\<close>, and no pass of another site that knows a reason to touch it.\<close>

definition held :: "string \<Rightarrow> string \<Rightarrow> LeaseRecord list \<Rightarrow> bool" where
  "held h rid rs \<longleftrightarrow> (\<exists>r. rs = [r] \<and> LeaseRecord_ID r = rid \<and> Lease_Site (LeaseRecord_Lease r) = h)"

definition harmless :: "string \<Rightarrow> string \<Rightarrow> string \<Rightarrow> phase \<Rightarrow> bool" where
  "harmless h rid s p = (case p of
      Idle \<Rightarrow> True
    | Decided t rs \<Rightarrow> held h rid rs \<and> (s = h \<or> \<not> Expired (LeaseRecord_Lease (hd rs)) t)
    | Written t \<Rightarrow> s = h
    | Leaving ids \<Rightarrow> ids = [])"

definition holder_inv :: "string \<Rightarrow> string \<Rightarrow> string set \<Rightarrow> Arena \<Rightarrow> bool" where
  "holder_inv h rid prim a \<longleftrightarrow> held h rid (ar_records a) \<and> (\<forall>s. harmless h rid s (ar_phase a s)) \<and> ar_primary a \<subseteq> insert h prim"

lemma holder_inv_phase:
  "holder_inv h rid prim a \<Longrightarrow> harmless h rid s p \<Longrightarrow> holder_inv h rid prim (set_phase s p a)"
  by (simp add: holder_inv_def set_phase_def)

lemma holder_inv_end:
  "holder_inv h rid prim a \<Longrightarrow> b \<longrightarrow> s = h \<Longrightarrow> holder_inv h rid prim (end_pass s b a)"
  by (auto simp: holder_inv_def end_pass_def set_phase_def harmless_def)

lemma holder_inv_records:
  "holder_inv h rid prim a \<Longrightarrow> held h rid rs \<Longrightarrow> holder_inv h rid prim (a\<lparr>ar_records := rs\<rparr>)"
  by (simp add: holder_inv_def)

lemma held_replace: "held h rid rs \<Longrightarrow> Lease_Site l = h \<Longrightarrow> held h rid (replace_lease rid l rs)"
  by (auto simp: held_def replace_lease_def)

lemma held_length: "held h rid rs \<Longrightarrow> length rs = 1"
  by (auto simp: held_def)

lemma holder_inv_step:
  assumes "lease_step cfg leaving a a'" and "holder_inv h rid prim a" and "live a"
    and "\<And>s e. cfg s e \<Longrightarrow> s \<noteq> h \<Longrightarrow> \<not> forced s e" and "\<not> leaving h"
  shows "holder_inv h rid prim a'"
  using assms(1)
proof cases
  case (step_tick d)
  then show ?thesis using assms(2) by (simp add: holder_inv_def)
next
  case (step_read s)
  have "held h rid (ar_records a)" using assms(2) by (simp add: holder_inv_def)
  with assms(3) have "harmless h rid s (Decided (ar_clock a) (ar_records a))"
    by (auto simp: harmless_def live_def held_def)
  with step_read assms(2) show ?thesis by (simp add: holder_inv_phase)
next
  case (step_duplicates s t rs k)
  then have "harmless h rid s (Decided t rs)" using assms(2) by (metis holder_inv_def)
  with step_duplicates show ?thesis by (auto simp: harmless_def dest: held_length)
next
  case (step_standby s t rs e rng)
  then show ?thesis using assms(2) by (simp add: holder_inv_end)
next
  case (step_hold s t rs e rng)
  then have "harmless h rid s (Decided t rs)" using assms(2) by (metis holder_inv_def)
  then obtain r where "rs = [r]" "Lease_Site (LeaseRecord_Lease r) = h" by (auto simp: harmless_def held_def)
  with step_hold verdict_keeps [of s e r t rng] assms(2) show ?thesis by (simp add: holder_inv_end)
next
  case (step_create s t e rng tunnelID l rid')
  then have "harmless h rid s (Decided t [])" using assms(2) by (metis holder_inv_def)
  then show ?thesis by (simp add: harmless_def held_def)
next
  case (step_update s t r e rng tunnelID l)
  then have d: "harmless h rid s (Decided t [r])" using assms(2) by (metis holder_inv_def)
  then have r: "LeaseRecord_ID r = rid" "Lease_Site (LeaseRecord_Lease r) = h" by (auto simp: harmless_def held_def)
  have "s = h" using verdict_writes [OF step_update(4)] d r assms(4) [OF step_update(3)] by (auto simp: harmless_def)
  moreover from this have "held h rid (replace_lease rid l (ar_records a))"
    using assms(2) written_lease_site [OF step_update(5-7)] by (auto simp: holder_inv_def intro: held_replace)
  ultimately show ?thesis using step_update(1) r assms(2)
    by (simp add: holder_inv_phase holder_inv_records harmless_def)
next
  case (step_verify_duplicates s t k)
  then show ?thesis using assms(2) by (auto simp: holder_inv_def dest: held_length)
next
  case (step_verify s t)
  have "held h rid (ar_records a)" using assms(2) by (simp add: holder_inv_def)
  then show ?thesis unfolding step_verify(1) by (intro holder_inv_end [OF assms(2)]) (auto simp: held_def)
next
  case (step_leave s)
  then have "s \<noteq> h" using assms(5) by auto
  then have "filter (\<lambda>r. Lease_Site (LeaseRecord_Lease r) = s) (ar_records a) = []" using assms(2) by (auto simp: holder_inv_def held_def)
  with step_leave assms(2) show ?thesis by (simp add: holder_inv_phase harmless_def)
next
  case (step_left s ids k)
  then have "harmless h rid s (Leaving ids)" using assms(2) by (metis holder_inv_def)
  with step_left assms(2) show ?thesis by (simp add: harmless_def without_ids_def holder_inv_phase)
next
  case (step_abort s)
  then show ?thesis using assms(2) by (simp add: holder_inv_phase harmless_def)
qed

lemma holder_inv_run:
  assumes "live_run cfg leaving a a'" and "holder_inv h rid prim a"
    and "\<And>s e. cfg s e \<Longrightarrow> s \<noteq> h \<Longrightarrow> \<not> forced s e" and "\<not> leaving h"
  shows "holder_inv h rid prim a' \<and> live a'"
  using assms(1,2)
proof (induction rule: live_run.induct)
  case (live_more a a1 a2)
  then show ?case using holder_inv_step [OF live_more(2), of h rid prim] assms(3,4) by blast
qed simp

text \<open>
  C8: A live lease is respected. Start from one record, held by site \<open>h\<close>, with no pass of any site under way.
  Let the passes of all sites interleave call by call, with errors and crashes anywhere, objects of other
  sites being edited and deleted at any time, as long as no other site has a new force-promote token, the
  object of \<open>h\<close> is not deleted, and the lease is renewed before it expires. Then at every moment there is
  still the one record, with the same ID, and it names \<open>h\<close>; no other site becomes primary; and no pass under
  way is about to write another site's lease.
\<close>

theorem live_lease_respected:
  assumes "live_run cfg leaving a a'" and "ar_records a = [r]" and "Lease_Site (LeaseRecord_Lease r) = h" and "ar_phase a = (\<lambda>_. Idle)"
    and "\<And>s e. cfg s e \<Longrightarrow> s \<noteq> h \<Longrightarrow> \<not> forced s e" and "\<not> leaving h"
  shows "(\<exists>r'. ar_records a' = [r'] \<and> LeaseRecord_ID r' = LeaseRecord_ID r \<and> Lease_Site (LeaseRecord_Lease r') = h) \<and>
    ar_primary a' \<subseteq> insert h (ar_primary a) \<and> (\<forall>s t. ar_phase a' s = Written t \<longrightarrow> s = h)"
proof -
  have "holder_inv h (LeaseRecord_ID r) (ar_primary a) a"
    using assms(2-4) by (auto simp: holder_inv_def held_def harmless_def)
  from holder_inv_run [OF assms(1) this assms(5,6)]
  have inv: "holder_inv h (LeaseRecord_ID r) (ar_primary a) a'" by blast
  have "s = h" if "ar_phase a' s = Written t" for s t
    using inv that by (auto simp: holder_inv_def harmless_def dest: spec [of _ s])
  with inv show ?thesis by (auto simp: holder_inv_def held_def)
qed

section \<open>Taking over\<close>

text \<open>A clock reading that is a time after the first second and leaves room for a lease.\<close>

definition clock_ok :: "time \<Rightarrow> bool" where
  "clock_ok t \<longleftrightarrow> second \<le> t \<and> t \<le> 2 ^ 61 * second"

lemma leaseSecondsOf_range: "1 \<le> sint (leaseSecondsOf e) \<and> sint (leaseSecondsOf e) < 2 ^ 31"
  using sint32_range [of "Failover_LeaseSeconds (failover_spec e)"] by (auto simp: leaseSecondsOf_def Let_def)

lemma written_lease_ok:
  assumes "is_word s" and "is_word tunnelID" and "clock_ok t"
  obtains l where "written_lease s e tunnelID t = Inr l" "Lease_Site l = s" "\<not> Expired l t"
proof -
  let ?d = "desired_lease s e tunnelID t" and ?n = "sint (leaseSecondsOf e)"
  have n: "1 \<le> ?n" "?n < 2 ^ 31" using leaseSecondsOf_range [of e] by auto
  have t: "sane_time t" "second \<le> t" using assms(3) by (auto simp: clock_ok_def sane_time_def second_def)
  have exp: "Lease_Expires ?d = t + ?n * second"
    using t(1) n by (simp add: desired_lease_def time_Add_sane second_def)
  have sane: "sane_time (t + ?n * second)" using assms(3) n by (auto simp: clock_ok_def sane_time_def second_def)
  have gt: "t < trunc_sec (t + ?n * second)" using trunc_sec_gt [of "t + ?n * second"] n(1) by (simp add: second_def)
  have "0 < trunc_sec t" using t(2) by (simp add: trunc_sec_def second_def pos_imp_zdiv_pos_iff)
  then have "written_lease s e tunnelID t = Inr (?d\<lparr>Lease_Expires := trunc_sec (Lease_Expires ?d), Lease_Renewed := trunc_sec (Lease_Renewed ?d)\<rparr>)"
    unfolding written_lease_def using assms(1,2) t gt sane exp
    by (intro ParseLease_serialized) (auto simp: desired_lease_def second_def)
  moreover have "\<not> Expired (?d\<lparr>Lease_Expires := trunc_sec (Lease_Expires ?d), Lease_Renewed := r\<rparr>) t" for r
    using gt exp by (simp add: Expired_def Before_def)
  moreover have "Lease_Site ?d = s" by (simp add: desired_lease_def)
  ultimately show thesis
    by (intro that [of "?d\<lparr>Lease_Expires := trunc_sec (Lease_Expires ?d), Lease_Renewed := trunc_sec (Lease_Renewed ?d)\<rparr>"]) simp_all
qed

definition automatic :: "CloudflareExposure \<Rightarrow> bool" where
  "automatic e \<longleftrightarrow> Failover_PromotionPolicy (failover_spec e) \<noteq> PromotionManual"

text \<open>The lease is up for grabs for a site: none, or another site's and expired.\<close>

definition vacant :: "string \<Rightarrow> LeaseRecord list \<Rightarrow> time \<Rightarrow> bool" where
  "vacant s rs t \<longleftrightarrow> rs = [] \<or> (\<exists>r. rs = [r] \<and> Lease_Site (LeaseRecord_Lease r) \<noteq> s \<and> Expired (LeaseRecord_Lease r) t)"

lemma verdict_vacant: "vacant s rs t \<Longrightarrow> automatic e \<Longrightarrow> writes (verdict s e rs t rng)"
  by (auto simp: vacant_def automatic_def writes_def verdict_def Decide_def gate_inputs_def observed_lease_def Let_def)

lemma verdict_manual: "vacant s rs t \<Longrightarrow> \<not> automatic e \<Longrightarrow> \<not> forced s e \<Longrightarrow> verdict s e rs t rng = ActionWait"
  by (auto simp: vacant_def automatic_def forced_def verdict_def Decide_def gate_inputs_def observed_lease_def Let_def)

abbreviation lease_steps :: "(string \<Rightarrow> CloudflareExposure \<Rightarrow> bool) \<Rightarrow> (string \<Rightarrow> bool) \<Rightarrow> Arena \<Rightarrow> Arena \<Rightarrow> bool" where
  "lease_steps cfg leaving \<equiv> (lease_step cfg leaving)\<^sup>*\<^sup>*"

text \<open>One write of a pass that read a vacant lease, with the record's ID where there was one.\<close>

lemma write_step:
  assumes "ar_phase a s = Decided t rs" and "vacant s rs t" and "map LeaseRecord_ID (ar_records a) = map LeaseRecord_ID rs"
    and "cfg s e" and "automatic e" and "is_word s" and "is_word tunnelID" and "clock_ok t"
  obtains r where "Lease_Site (LeaseRecord_Lease r) = s" "\<not> Expired (LeaseRecord_Lease r) t"
    "lease_step cfg leaving a (set_phase s (Written t) (a\<lparr>ar_records := [r]\<rparr>))" "rs \<noteq> [] \<Longrightarrow> LeaseRecord_ID r = LeaseRecord_ID (hd rs)"
proof -
  obtain l where l: "written_lease s e tunnelID t = Inr l" "Lease_Site l = s" "\<not> Expired l t"
    using written_lease_ok [OF assms(6-8)] .
  have w: "writes (verdict s e rs t rng)" for rng using verdict_vacant [OF assms(2,5)] .
  show thesis
  proof (cases "rs = []")
    case True
    let ?r = "\<lparr>LeaseRecord_ID = ''r'', LeaseRecord_Lease = l\<rparr>"
    have "lease_step cfg leaving a (set_phase s (Written t) (a\<lparr>ar_records := ar_records a @ [?r]\<rparr>))"
      using assms True l w by (intro step_create [where e = e and rng = id and tunnelID = tunnelID]) (auto simp: record_ids_def)
    then show thesis using l assms(3) True by (intro that [of ?r]) auto
  next
    case False
    then obtain r where r: "rs = [r]" using assms(2) by (auto simp: vacant_def)
    then obtain r0 where r0: "ar_records a = [r0]" "LeaseRecord_ID r0 = LeaseRecord_ID r" using assms(3) by auto
    let ?r = "r0\<lparr>LeaseRecord_Lease := l\<rparr>"
    have "lease_step cfg leaving a (set_phase s (Written t) (a\<lparr>ar_records := replace_lease (LeaseRecord_ID r) l (ar_records a)\<rparr>))"
      using assms r l w r0 by (intro step_update [where e = e and rng = id and tunnelID = tunnelID]) (auto simp: record_ids_def)
    then show thesis using l r r0 by (intro that [of ?r]) (auto simp: replace_lease_def)
  qed
qed

text \<open>The rest of such a pass, undisturbed.\<close>

lemma write_and_verify:
  assumes "ar_phase a s = Decided t rs" and "vacant s rs t" and "map LeaseRecord_ID (ar_records a) = map LeaseRecord_ID rs"
    and "cfg s e" and "automatic e" and "is_word s" and "is_word tunnelID" and "clock_ok t"
  obtains r where "Lease_Site (LeaseRecord_Lease r) = s" "\<not> Expired (LeaseRecord_Lease r) t"
    "lease_steps cfg leaving a (end_pass s True (a\<lparr>ar_records := [r]\<rparr>))" "rs \<noteq> [] \<Longrightarrow> LeaseRecord_ID r = LeaseRecord_ID (hd rs)"
proof -
  obtain r where r: "Lease_Site (LeaseRecord_Lease r) = s" "\<not> Expired (LeaseRecord_Lease r) t"
    and w: "lease_step cfg leaving a (set_phase s (Written t) (a\<lparr>ar_records := [r]\<rparr>))"
    and ident: "rs \<noteq> [] \<Longrightarrow> LeaseRecord_ID r = LeaseRecord_ID (hd rs)"
    using write_step [where cfg = cfg and leaving = leaving, OF assms] by blast
  let ?w = "set_phase s (Written t) (a\<lparr>ar_records := [r]\<rparr>)"
  have "lease_step cfg leaving ?w (end_pass s (\<exists>r. ar_records ?w = [r] \<and> Lease_Site (LeaseRecord_Lease r) = s) ?w)"
    by (intro step_verify [where t = t]) (simp_all add: set_phase_def)
  moreover have "(\<exists>r. ar_records ?w = [r] \<and> Lease_Site (LeaseRecord_Lease r) = s) = True" using r(1) by (simp add: set_phase_def)
  moreover have "end_pass s True ?w = end_pass s True (a\<lparr>ar_records := [r]\<rparr>)" by (simp add: end_pass_def set_phase_def)
  ultimately have "lease_step cfg leaving ?w (end_pass s True (a\<lparr>ar_records := [r]\<rparr>))" by simp
  with w r ident show thesis by (intro that [of r]) (simp_all add: converse_rtranclp_into_rtranclp)
qed

text \<open>
  C9: Failover completes. When there is no lease, or a lease of another site that has expired, one
  undisturbed pass of a site with automatic promotion (a read, a write, the read-back) makes it primary: the
  one record then names it and has not expired. A site with manual promotion and no new force-promote token
  waits in the same situation.
\<close>

theorem failover_completes:
  assumes "vacant s (ar_records a) (ar_clock a)" and "ar_phase a s = Idle" and "cfg s e" and "automatic e"
    and "is_word s" and "is_word tunnelID" and "clock_ok (ar_clock a)" and "\<not> automatic e'" and "\<not> forced s e'"
  shows "(\<exists>a' r. lease_steps cfg leaving a a' \<and> ar_records a' = [r] \<and> Lease_Site (LeaseRecord_Lease r) = s \<and>
      \<not> Expired (LeaseRecord_Lease r) (ar_clock a') \<and> s \<in> ar_primary a' \<and> ar_phase a' s = Idle \<and> ar_clock a' = ar_clock a) \<and>
    verdict s e' (ar_records a) (ar_clock a) rng = ActionWait"
proof -
  define a1 where "a1 = set_phase s (Decided (ar_clock a) (ar_records a)) a"
  have 1: "lease_step cfg leaving a a1" unfolding a1_def using assms(2) by (rule step_read)
  obtain r where r: "Lease_Site (LeaseRecord_Lease r) = s" "\<not> Expired (LeaseRecord_Lease r) (ar_clock a)"
    and 2: "lease_steps cfg leaving a1 (end_pass s True (a1\<lparr>ar_records := [r]\<rparr>))"
  proof (rule write_and_verify [where a = a1 and s = s and cfg = cfg and leaving = leaving])
    show "ar_phase a1 s = Decided (ar_clock a) (ar_records a)" by (simp add: a1_def set_phase_def)
    show "map LeaseRecord_ID (ar_records a1) = map LeaseRecord_ID (ar_records a)" by (simp add: a1_def set_phase_def)
  qed (use assms in auto)
  from 1 2 have "lease_steps cfg leaving a (end_pass s True (a1\<lparr>ar_records := [r]\<rparr>))" by (rule converse_rtranclp_into_rtranclp)
  then show ?thesis using r verdict_manual [OF assms(1,8,9)]
    by (intro conjI exI [of _ "end_pass s True (a1\<lparr>ar_records := [r]\<rparr>)"] exI [of _ r]) (simp_all add: end_pass_def set_phase_def a1_def)
qed

section \<open>Two passes at once\<close>

lemma verdict_peer:
  "\<not> Expired (LeaseRecord_Lease r) t \<Longrightarrow> Lease_Site (LeaseRecord_Lease r) \<noteq> s \<Longrightarrow> \<not> forced s e \<Longrightarrow>
     verdict s e [r] t rng \<in> {ActionWait, ActionSplitBrain}"
  by (auto simp: forced_def verdict_def Decide_def gate_inputs_def observed_lease_def Let_def split: if_splits)

text \<open>
  C17: The window of two writers, and its end. The lease is not a lock: when two sites with automatic
  promotion read one expired lease of a third, their passes can interleave so that both verify their own
  write and both become primary, although the record names only the second. The next pass of the first
  site, if it starts while the lease is live, steps down, and then the site in the record is the only
  primary of the two.
\<close>

theorem dual_primary_window:
  assumes "ar_records a = [r]" and "vacant s1 [r] (ar_clock a)" and "vacant s2 [r] (ar_clock a)" and "s1 \<noteq> s2"
    and "ar_phase a = (\<lambda>_. Idle)" and "cfg s1 e1" and "cfg s2 e2" and "automatic e1" and "automatic e2" and "\<not> forced s1 e1"
    and "is_word s1" and "is_word s2" and "is_word tunnelID" and "clock_ok (ar_clock a)"
  shows "\<exists>a' r'. lease_steps cfg leaving a a' \<and> ar_records a' = [r'] \<and> Lease_Site (LeaseRecord_Lease r') = s2 \<and>
    {s1, s2} \<subseteq> ar_primary a' \<and> ar_phase a' = (\<lambda>_. Idle) \<and>
    (\<exists>a''. lease_steps cfg leaving a' a'' \<and> ar_records a'' = [r'] \<and> ar_primary a'' = ar_primary a' - {s1})"
proof -
  let ?t = "ar_clock a"
  define a1 where "a1 = set_phase s2 (Decided ?t [r]) (set_phase s1 (Decided ?t [r]) a)"
  have 1: "lease_steps cfg leaving a a1"
    using step_read [of a s1 cfg leaving] step_read [of "set_phase s1 (Decided ?t [r]) a" s2 cfg leaving] assms(1,4,5)
    by (auto simp: a1_def set_phase_def)
  obtain r1 where r1: "LeaseRecord_ID r1 = LeaseRecord_ID r" and 2: "lease_steps cfg leaving a1 (end_pass s1 True (a1\<lparr>ar_records := [r1]\<rparr>))"
  proof (rule write_and_verify [where a = a1 and s = s1 and cfg = cfg and leaving = leaving and rs = "[r]" and e = e1])
    show "ar_phase a1 s1 = Decided ?t [r]" using assms(4) by (simp add: a1_def set_phase_def)
    show "map LeaseRecord_ID (ar_records a1) = map LeaseRecord_ID [r]" using assms(1) by (simp add: a1_def set_phase_def)
  qed (use assms in auto)
  define a2 where "a2 = end_pass s1 True (a1\<lparr>ar_records := [r1]\<rparr>)"
  obtain r2 where r2: "Lease_Site (LeaseRecord_Lease r2) = s2" "\<not> Expired (LeaseRecord_Lease r2) ?t"
    and 3: "lease_steps cfg leaving a2 (end_pass s2 True (a2\<lparr>ar_records := [r2]\<rparr>))"
  proof (rule write_and_verify [where a = a2 and s = s2 and cfg = cfg and leaving = leaving and rs = "[r]" and e = e2])
    show "ar_phase a2 s2 = Decided ?t [r]" using assms(4) by (simp add: a2_def end_pass_def a1_def set_phase_def)
    show "map LeaseRecord_ID (ar_records a2) = map LeaseRecord_ID [r]" using r1 by (simp add: a2_def end_pass_def set_phase_def)
  qed (use assms in auto)
  define a3 where "a3 = end_pass s2 True (a2\<lparr>ar_records := [r2]\<rparr>)"
  have run: "lease_steps cfg leaving a a3" using 1 2 3 unfolding a2_def [symmetric] a3_def [symmetric] by (blast intro: rtranclp_trans)
  have a3: "ar_records a3 = [r2]" "ar_clock a3 = ?t" "{s1, s2} \<subseteq> ar_primary a3" "ar_phase a3 = (\<lambda>_. Idle)"
    using assms(4,5) by (auto simp: a3_def a2_def a1_def end_pass_def set_phase_def)
  define a4 where "a4 = set_phase s1 (Decided ?t [r2]) a3"
  have "lease_step cfg leaving a3 a4" using step_read [of a3 s1 cfg leaving] a3 by (simp add: a4_def)
  moreover have "lease_step cfg leaving a4 (end_pass s1 False a4)"
    using verdict_peer [of r2 ?t s1 e1 id] r2 assms(4,6,10)
    by (intro step_standby [where t = ?t and rs = "[r2]" and e = e1 and rng = id]) (auto simp: a4_def set_phase_def)
  ultimately have "lease_steps cfg leaving a3 (end_pass s1 False a4)" by (blast intro: rtranclp_trans)
  moreover have "ar_records (end_pass s1 False a4) = [r2]" "ar_primary (end_pass s1 False a4) = ar_primary a3 - {s1}"
    using a3 by (simp_all add: a4_def end_pass_def set_phase_def)
  ultimately show ?thesis using run a3 r2(1) by blast
qed

section \<open>Concrete runs\<close>

text \<open>An arena with one record, of the site \<open>akl\<close>, good for 120 seconds; every site has the example object, with automatic promotion.\<close>

definition akl_record :: LeaseRecord where
  "akl_record = \<lparr>LeaseRecord_ID = ''rec-1'', LeaseRecord_Lease = \<lparr>Lease_Version = 1, Lease_Site = ''akl'', Lease_Tunnel = ''tun-akl'',
     Lease_Expires = 63900000120 * second, Lease_Renewed = 63900000000 * second\<rparr>\<rparr>"

definition akl_arena :: "time \<Rightarrow> Arena" where
  "akl_arena now = \<lparr>ar_clock = now, ar_records = [akl_record], ar_phase = (\<lambda>_. Idle), ar_primary = {''akl''}\<rparr>"

definition web_cfg :: "string \<Rightarrow> CloudflareExposure \<Rightarrow> bool" where
  "web_cfg s e \<longleftrightarrow> e = web_exposure"

lemma web_unforced: "\<not> forced s web_exposure"
  by (simp add: forced_def gate_inputs_def web_exposure_def Let_def)

lemma web_automatic: "automatic web_exposure"
  by (simp add: automatic_def failover_spec_def web_exposure_def PromotionAutomatic_def PromotionManual_def)

lemma demo_words: "is_word ''akl''" "is_word ''wlg''" "is_word ''chc''" "is_word ''tun-1''"
  by (simp_all add: is_word_def word_char_def)

text \<open>\<open>wlg\<close> reads while the lease is live, pauses, and stands by.\<close>

theorem live_lease_respected_witness:
  "\<exists>a'. live_run web_cfg (\<lambda>s. s = ''wlg'') (akl_arena (63900000050 * second)) a' \<and> ar_clock a' = 63900000060 * second \<and>
     ar_phase a' = (\<lambda>_. Idle) \<and> (\<exists>r'. ar_records a' = [r'] \<and> Lease_Site (LeaseRecord_Lease r') = ''akl'')"
proof -
  let ?L = "\<lambda>s. s = ''wlg''" and ?a = "akl_arena (63900000050 * second)" and ?t = "63900000050 * second"
  define a1 where "a1 = set_phase ''wlg'' (Decided ?t [akl_record]) ?a"
  define a2 where "a2 = a1\<lparr>ar_clock := ar_clock a1 + 10 * second\<rparr>"
  define a3 where "a3 = end_pass ''wlg'' False a2"
  have l: "live ?a" "live a1" "live a2" "live a3"
    by (simp_all add: live_def a3_def a2_def a1_def akl_arena_def akl_record_def set_phase_def end_pass_def Expired_def Before_def second_def)
  have "lease_step web_cfg ?L ?a a1" using step_read [of ?a "''wlg''" web_cfg ?L] by (simp add: a1_def akl_arena_def)
  moreover have "lease_step web_cfg ?L a1 a2" unfolding a2_def by (rule step_tick) (simp add: second_def)
  moreover have "\<not> Expired (LeaseRecord_Lease akl_record) ?t" "Lease_Site (LeaseRecord_Lease akl_record) \<noteq> ''wlg''"
    by (simp_all add: akl_record_def Expired_def Before_def second_def)
  then have "verdict ''wlg'' web_exposure [akl_record] ?t id \<in> {ActionWait, ActionSplitBrain}" using web_unforced by (rule verdict_peer)
  then have "lease_step web_cfg ?L a2 a3" unfolding a3_def
    by (intro step_standby [where e = web_exposure]) (auto simp: a2_def a1_def set_phase_def web_cfg_def)
  ultimately have run: "live_run web_cfg ?L ?a a3" using l by (meson live_run.intros)
  have "ar_records ?a = [akl_record]" "ar_phase ?a = (\<lambda>_. Idle)" "Lease_Site (LeaseRecord_Lease akl_record) = ''akl''"
    by (simp_all add: akl_arena_def akl_record_def)
  from live_lease_respected [OF run this(1,3,2)] have "\<exists>r'. ar_records a3 = [r'] \<and> Lease_Site (LeaseRecord_Lease r') = ''akl''"
    by (auto simp: web_cfg_def web_unforced)
  moreover have "ar_clock a3 = 63900000060 * second" "ar_phase a3 = (\<lambda>_. Idle)"
    by (auto simp: a3_def a2_def a1_def akl_arena_def end_pass_def set_phase_def second_def)
  ultimately show ?thesis using run by blast
qed

lemma akl_vacant: "s \<noteq> ''akl'' \<Longrightarrow> vacant s [akl_record] (63900000121 * second)"
  by (simp add: vacant_def akl_record_def Expired_def Before_def second_def)

lemma demo_clock: "clock_ok (63900000121 * second)"
  by (simp add: clock_ok_def second_def)

text \<open>One second after the expiry \<open>wlg\<close> takes over; an object with manual promotion would wait.\<close>

definition manual_exposure :: CloudflareExposure where
  "manual_exposure = web_exposure\<lparr>E_Spec := (E_Spec web_exposure)\<lparr>ESpec_Failover := Some \<lparr>Failover_Group = ''g'', Failover_LeaseSeconds = 60,
     Failover_PromotionPolicy = PromotionManual\<rparr>\<rparr>\<rparr>"

theorem failover_completes_witness:
  "(\<exists>a' r. lease_steps web_cfg (\<lambda>_. False) (akl_arena (63900000121 * second)) a' \<and> ar_records a' = [r] \<and>
      Lease_Site (LeaseRecord_Lease r) = ''wlg'' \<and> ''wlg'' \<in> ar_primary a') \<and>
   verdict ''wlg'' manual_exposure [akl_record] (63900000121 * second) id = ActionWait"
proof -
  have "\<not> automatic manual_exposure" "\<not> forced ''wlg'' manual_exposure"
    by (simp_all add: automatic_def forced_def failover_spec_def manual_exposure_def web_exposure_def gate_inputs_def Let_def)
  with failover_completes [of "''wlg''" "akl_arena (63900000121 * second)" web_cfg web_exposure "''tun-1''" manual_exposure "\<lambda>_. False" id]
    akl_vacant [of "''wlg''"] demo_clock demo_words web_automatic
  show ?thesis by (auto simp: akl_arena_def web_cfg_def)
qed

theorem dual_primary_window_witness:
  "\<exists>a' r'. lease_steps web_cfg (\<lambda>_. False) (akl_arena (63900000121 * second)) a' \<and> ar_records a' = [r'] \<and>
     Lease_Site (LeaseRecord_Lease r') = ''chc'' \<and> {''wlg'', ''chc''} \<subseteq> ar_primary a'"
  using dual_primary_window [of "akl_arena (63900000121 * second)" akl_record "''wlg''" "''chc''" web_cfg web_exposure web_exposure "''tun-1''" "\<lambda>_. False"]
    akl_vacant [of "''wlg''"] akl_vacant [of "''chc''"] demo_clock demo_words web_automatic web_unforced
  by (auto simp: akl_arena_def web_cfg_def)

end
