(* ===== verification/Startup.thy ===== *)
theory Startup
  imports Watches Lease_Protocol Control_Cluster
begin

text \<open>
  \<open>cmd/main.go\<close> and \<open>internal/controller/httproute_discovery.go\<close>: the flags, the guard of the site ID, and the
  registration of the four controllers with the manager, whose API is a parameter. Scheme registration and
  logging are left out. The lemmas follow a site ID from the flag to the lease records it is written into.
\<close>

section \<open>The site ID\<close>

text \<open>\<open>strings.TrimSpace\<close>.\<close>

fun only_space :: "nat \<Rightarrow> string \<Rightarrow> bool" where
  "only_space k [] = True"
| "only_space (Suc k) (c # s) = only_space k s"
| "only_space 0 (c # s) = (let n = space_len (c # s) in if n = 0 then False else only_space (n - 1) s)"

fun trim_left :: "nat \<Rightarrow> string \<Rightarrow> string" where
  "trim_left k [] = []"
| "trim_left (Suc k) (c # s) = trim_left k s"
| "trim_left 0 (c # s) = (let n = space_len (c # s) in if n = 0 then c # s else trim_left (n - 1) s)"

fun trim_right :: "string \<Rightarrow> string" where
  "trim_right [] = []"
| "trim_right (c # s) = (if only_space 0 (c # s) then [] else c # trim_right s)"

definition TrimSpace :: "string \<Rightarrow> string" where
  "TrimSpace s = trim_right (trim_left 0 s)"

definition validateSiteID :: "string \<Rightarrow> unit result" where
  "validateSiteID siteID =
     (if TrimSpace siteID = [] then
        Inl (ErrNew ''--site-id is required (D26: every operator process must carry a stable site identity)'')
      else Inr ())"

section \<open>The manager\<close>

record Flags =
  Flag_MetricsBindAddress :: string
  Flag_HealthProbeBindAddress :: string
  Flag_LeaderElect :: bool
  Flag_MetricsSecure :: bool
  Flag_SiteID :: string

definition default_flags :: Flags where
  "default_flags = \<lparr>Flag_MetricsBindAddress = ''0'', Flag_HealthProbeBindAddress = '':8081'', Flag_LeaderElect = True,
     Flag_MetricsSecure = True, Flag_SiteID = []\<rparr>"

record ManagerOptions =
  Options_MetricsBindAddress :: string
  Options_SecureServing :: bool
  Options_MetricsAuthFilter :: bool
  Options_HealthProbeBindAddress :: string
  Options_LeaderElection :: bool
  Options_LeaderElectionID :: string

definition manager_options :: "Flags \<Rightarrow> ManagerOptions" where
  "manager_options flags = \<lparr>Options_MetricsBindAddress = Flag_MetricsBindAddress flags, Options_SecureServing = Flag_MetricsSecure flags,
     Options_MetricsAuthFilter = Flag_MetricsSecure flags, Options_HealthProbeBindAddress = Flag_HealthProbeBindAddress flags,
     Options_LeaderElection = Flag_LeaderElect flags, Options_LeaderElectionID = ''a82a8396.reid.ee''\<rparr>"

text \<open>
  \<open>ctrl.Manager\<close> as main uses it. \<open>Boot_Base\<close>, \<open>Boot_Tunnel\<close>, ... are the reconcilers' operations over the manager's
  client, scheme and event recorder; \<open>Boot_GetCRD\<close> reads a CustomResourceDefinition with the API reader.
\<close>

record 's Boot = "'s Manager" +
  Boot_Base :: "'s Base"
  Boot_Tunnel :: "'s TunnelReconciler"
  Boot_Route :: "'s RouteReconciler"
  Boot_Policy :: "'s PolicyReconciler"
  Boot_Rand :: "('s, int \<Rightarrow> int) state"
  Boot_GetCRD :: "string \<Rightarrow> ('s, unit result) state"
  Boot_AddHealthzCheck :: "string \<Rightarrow> ('s, unit result) state"
  Boot_AddReadyzCheck :: "string \<Rightarrow> ('s, unit result) state"
  Boot_Start :: "('s, unit result) state"

definition httpRouteCRDName :: string where
  "httpRouteCRDName = ''httproutes.gateway.networking.k8s.io''"

definition HTTPRouteCRDPresent :: "(string \<Rightarrow> ('s, unit result) state) \<Rightarrow> ('s, bool result) state" where
  "HTTPRouteCRDPresent get = do {
     got \<leftarrow> get httpRouteCRDName;
     return_st (case got of
         Inl err \<Rightarrow> if apierrors_IsNotFound err then Inr False else Inl err
       | Inr _ \<Rightarrow> Inr True) }"

section \<open>Main\<close>

text \<open>\<open>if err != nil { ...; os.Exit(1) }\<close>; the value of a run is the exit code.\<close>

definition or_exit :: "('s, 'a result) state \<Rightarrow> ('a \<Rightarrow> ('s, nat) state) \<Rightarrow> ('s, nat) state" where
  "or_exit m k = do { res \<leftarrow> m; case res of Inl err \<Rightarrow> return_st 1 | Inr v \<Rightarrow> k v }"

definition exposure_reconciler :: "'s Boot \<Rightarrow> bool \<Rightarrow> string \<Rightarrow> 's ExposureReconciler" where
  "exposure_reconciler mgr enabled siteID = Base.extend (Boot_Base mgr) (ExposureReconciler.fields enabled siteID None (Boot_Rand mgr))"

definition run_manager :: "Flags \<Rightarrow> 's Boot \<Rightarrow> ('s, nat) state" where
  "run_manager flags mgr =
     or_exit (Tunnel_SetupWithManager (Boot_Tunnel mgr) (Manager.truncate mgr)) (\<lambda>_.
     or_exit (HTTPRouteCRDPresent (Boot_GetCRD mgr)) (\<lambda>httpRouteSourceEnabled.
     or_exit (Exposure_SetupWithManager (exposure_reconciler mgr httpRouteSourceEnabled (Flag_SiteID flags)) (Manager.truncate mgr)) (\<lambda>_.
     or_exit (Policy_SetupWithManager (Boot_Policy mgr) (Manager.truncate mgr)) (\<lambda>_.
     or_exit (Route_SetupWithManager (Boot_Tunnel mgr) (Boot_Route mgr) (Manager.truncate mgr)) (\<lambda>_.
     or_exit (Boot_AddHealthzCheck mgr ''healthz'') (\<lambda>_.
     or_exit (Boot_AddReadyzCheck mgr ''readyz'') (\<lambda>_.
     or_exit (Boot_Start mgr) (\<lambda>_. return_st 0))))))))"

definition main :: "Flags \<Rightarrow> (ManagerOptions \<Rightarrow> ('s, 's Boot result) state) \<Rightarrow> ('s, nat) state" where
  "main flags newManager =
     or_exit (return_st (validateSiteID (Flag_SiteID flags))) (\<lambda>_.
     or_exit (newManager (manager_options flags)) (run_manager flags))"

section \<open>A site ID with a blank\<close>

lemma word_first: "is_word w \<Longrightarrow> \<exists>c cs. w = c # cs \<and> word_char c"
  by (cases w) (auto simp: is_word_def)

lemma validateSiteID_word: "is_word a \<Longrightarrow> validateSiteID (a @ rest) = Inr ()"
  by (drule word_first) (auto simp: validateSiteID_def TrimSpace_def space_len_word_char)

definition spaced :: "string \<Rightarrow> string \<Rightarrow> string" where
  "spaced a b = a @ CHR '' '' # b"

lemma Fields_spaced:
  assumes "is_word a" and "is_word b"
  shows "\<exists>toks. Fields (Serialize (desired_lease (spaced a b) e tunnelID now)) = ''v=1'' # (''site='' @ a) # b # toks"
proof -
  let ?d = "desired_lease (spaced a b) e tunnelID now"
  have i: "itoa 1 = ''1''" by code_simp
  obtain rest where "Serialize ?d = ''v=1'' @ CHR '' '' # ((''site='' @ a) @ CHR '' '' # (b @ CHR '' '' # rest))"
    by (simp add: Serialize_def desired_lease_def spaced_def LeaseSchemaVersion_def i)
  moreover have "is_word ''v=1''" "is_word (''site='' @ a)" using assms(1) by (simp_all add: is_word_def word_char_def)
  ultimately show ?thesis unfolding Fields_def by (simp only: fields_scan_step [OF _] assms) blast
qed

lemma spaced_unparseable:
  assumes "is_word a" and "is_word b" and "CHR ''='' \<notin> set b"
  shows "\<exists>err. ParseLease (Serialize (desired_lease (spaced a b) e tunnelID now)) = Inl err"
proof -
  obtain toks where f: "Fields (Serialize (desired_lease (spaced a b) e tunnelID now)) = ''v=1'' # (''site='' @ a) # b # toks"
    using Fields_spaced [OF assms(1,2)] by blast
  have "\<not> token_ok b" using str_cut_none [OF assms(3)] by (simp add: token_ok_def)
  then have "\<not> tokens_ok [] (Fields (Serialize (desired_lease (spaced a b) e tunnelID now)))" unfolding f by (simp add: tokens_ok_def)
  then show ?thesis using ParseLease_Inr_iff by (metis sum.exhaust)
qed

lemma group_leases_poisoned:
  "rec \<in> set recs \<Longrightarrow> DNS_Name rec = leaseName \<Longrightarrow> ParseLease (DNS_Content rec) = Inl err \<Longrightarrow> group_leases owner leaseName out recs = ([], True)"
  by (induction owner leaseName out recs rule: group_leases.induct) (auto split: sum.splits)

text \<open>
  C40: The guard of the site ID is too weak for failover. A site ID of white space only ends the program with
  exit code 1 before anything is called. But a site ID of two words with a blank between them passes the
  guard, and no reader can parse a lease with it: once such a site has written one record at the lease
  name of a group, for whatever object and tunnel and at whatever time, every reading of the group's
  leases, by every site, fails closed, whatever other records there are.
\<close>

theorem site_id_guard:
  assumes "TrimSpace (Flag_SiteID flags) = []" and "is_word a" and "is_word b" and "CHR ''='' \<notin> set b"
    and "rec \<in> set recs" and "DNS_Name rec = leaseName" and "DNS_Content rec = Serialize (desired_lease (spaced a b) e tunnelID now)"
  shows "run_state (main flags newManager) s = (1, s) \<and> validateSiteID (spaced a b) = Inr () \<and>
    group_leases owner leaseName out recs = ([], True)"
proof (intro conjI)
  show "run_state (main flags newManager) s = (1, s)" using assms(1) by (simp add: main_def or_exit_def validateSiteID_def)
  show "validateSiteID (spaced a b) = Inr ()" unfolding spaced_def using assms(2) by (rule validateSiteID_word)
  obtain err where "ParseLease (DNS_Content rec) = Inl err" using spaced_unparseable [OF assms(2-4)] assms(7) by metis
  with assms(5,6) show "group_leases owner leaseName out recs = ([], True)" by (intro group_leases_poisoned)
qed

text \<open>A group with one good lease of \<open>akl\<close> and one record of the site \<open>dc 1\<close>.\<close>

definition txt_record :: "string \<Rightarrow> Lease \<Rightarrow> DNSRecord" where
  "txt_record k l = \<lparr>DNS_ID = k, DNS_ZoneID = ''z'', DNS_Name = ''l'', DNS_Type = ''TXT'', DNS_Content = Serialize l, DNS_Proxied = False,
     DNS_Comment = Owner_Comment (FromFailoverGroup ''g'')\<rparr>"

theorem site_id_guard_witness:
  "validateSiteID ''dc 1'' = Inr () \<and> group_leases (FromFailoverGroup ''g'') ''l'' [] [txt_record ''r1'' example_lease,
     txt_record ''r2'' (desired_lease ''dc 1'' web_exposure ''t'' 63900000000000000000)] = ([], True)"
proof -
  have "spaced ''dc'' ''1'' = ''dc 1''" by (simp add: spaced_def)
  moreover have "is_word ''dc''" "is_word ''1''" by (simp_all add: is_word_def word_char_def)
  moreover have "TrimSpace (Flag_SiteID default_flags) = []" by code_simp
  ultimately show ?thesis
    using site_id_guard [where flags = default_flags and a = "''dc''" and b = "''1''" and s = "()" and newManager = "\<lambda>_. return_st (Inl ErrNotFound)"
        and rec = "txt_record ''r2'' (desired_lease ''dc 1'' web_exposure ''t'' 63900000000000000000)" and leaseName = "''l''" and out = "[]"
        and recs = "[txt_record ''r1'' example_lease, txt_record ''r2'' (desired_lease ''dc 1'' web_exposure ''t'' 63900000000000000000)]"
        and e = web_exposure and tunnelID = "''t''" and now = 63900000000000000000 and owner = "FromFailoverGroup ''g''"]
    by (simp add: txt_record_def del: group_leases.simps)
qed

section \<open>The watches on a concrete cluster\<close>

definition exposure_control :: "control_world ExposureReconciler" where
  "exposure_control = control_base (ExposureReconciler.fields False ''akl'' None (return_st (\<lambda>n. 0)))"

text \<open>
  The deletion of the one exposure wakes its tunnel and no exposure; an event of the tunnel wakes the exposure.
\<close>

theorem watches_complete_witness:
  "named ''home'' \<in> woken (tunnel_registration tunnel_control) KindExposure [WatchedExposure web_exposure] (control_start\<lparr>cw_exposures := [web_exposure]\<rparr>) \<and>
   woken (exposure_registration exposure_control) KindTunnel [WatchedTunnel home_tunnel] (control_start\<lparr>cw_exposures := [web_exposure]\<rparr>) =
     {\<lparr>NN_Namespace = ''media'', NN_Name = ''web''\<rparr>} \<and>
   woken (exposure_registration exposure_control) KindExposure [WatchedExposure web_exposure] (control_start\<lparr>cw_exposures := [web_exposure]\<rparr>) = {}"
proof -
  let ?w = "control_start\<lparr>cw_exposures := [web_exposure]\<rparr>"
  have l: "run_state (Base_ListExposures exposure_control f v) ?w = (Inr (indexed f v [web_exposure]), ?w)" for f v
    unfolding exposure_control_def control_base_def indexed_def by simp
  have lr: "run_state (TR_ListRoutes tunnel_control tunnelRouteIndexTunnelRef v) ?w = (Inr (routes_indexed v []), ?w)" for v
    by (simp add: tunnel_control_def control_start_def routes_indexed_def TunnelReconciler.defs control_base_def)
  have i: "exposureIndex exposureIndexTunnelRefName web_exposure = [''home'']" by code_simp
  have n: "Meta_Name (T_Meta home_tunnel) = ''home''" "E_Namespace web_exposure = ''media''" "E_Name web_exposure = ''web''"
    by (simp_all add: home_tunnel_def web_exposure_def)
  have d: "indexed exposureIndexTunnelRefName ''home'' ([] @ [web_exposure] @ []) \<noteq> indexed exposureIndexTunnelRefName ''home'' ([] @ [] @ [])"
    by (simp add: indexed_def i)
  note w = watches_complete [where er = exposure_control and tr = tunnel_control and s = ?w and store = "[web_exposure]", OF l lr]
  show ?thesis
  proof (intro conjI)
    show "woken (exposure_registration exposure_control) KindExposure [WatchedExposure web_exposure] ?w = {}"
      using w [THEN conjunct2, THEN conjunct2, THEN conjunct2, THEN conjunct2, THEN conjunct2, THEN conjunct2, of "[web_exposure]" "[]"] by simp
    show "named ''home'' \<in> woken (tunnel_registration tunnel_control) KindExposure [WatchedExposure web_exposure] ?w"
      using w [THEN conjunct1, THEN mp, OF d] by simp
    show "woken (exposure_registration exposure_control) KindTunnel [WatchedTunnel home_tunnel] ?w = {\<lparr>NN_Namespace = ''media'', NN_Name = ''web''\<rparr>}"
      using w [THEN conjunct2, THEN conjunct2, THEN conjunct2, THEN conjunct1, of home_tunnel] by (auto simp: i n)
  qed
qed

end
