(* ===== verification/Spec2Isabelle.thy ===== *)
theory Spec2Isabelle
  imports Teardown Tunnel_Settling Policy_Settling Route_Settling Tunnelconfig Real_Access Startup
begin

text \<open>
  A verification library of cfzt-operator, a Kubernetes operator that reconciles four custom resources
  with Cloudflare Zero Trust: exposures (a hostname on a tunnel, with DNS record and Access applications),
  tunnels (the Cloudflare tunnel, its connector workload and its ingress document), tunnel routes (private
  networks) and Access policies. Two sites may serve one exposure; a lease kept in a DNS TXT record decides
  which of them is the primary.

  Conventions. A Go function that returns a value and an error returns \<open>result\<close>, a sum with the error on
  the left; an error that wraps another is \<open>ErrWrap\<close>, so that \<open>errors.Is\<close> computes. Handlers are state
  computations over an arbitrary state type: the Kubernetes API, the Cloudflare client, the clock and the
  random source are fields of a record (\<open>Base\<close>, extended per controller, and \<open>Client\<close>), and a theorem about a
  handler holds for every value of these fields, that is, for every behaviour of the API servers, other
  writers between two calls included. Fixed-width integers are words where they can wrap, \<open>time.Time\<close> is a
  count of nanoseconds, strings are byte lists.

  Go's library as far as the operator uses it: \<open>Prelude\<close> (errors, results, \<open>sort.Slice\<close>), \<open>Go_Strings\<close>, \<open>Go_Time\<close>,
  \<open>Go_Hash\<close> (SHA-256 and the JSON encoder), \<open>Netip\<close> (\<open>net/netip\<close>: parse, mask and print prefixes).

  The program, in the order of its packages:

  \<^item> \<open>Naming\<close> (\<open>internal/naming\<close>), \<open>Ownership\<close> (\<open>internal/ownership\<close>): the names of generated objects, and the
    ownership identity in comments and Access tags. Shown: an owner recognises what it rendered, with user
    text or foreign tags around it, and nobody else does; tags fit Cloudflare's limit.
  \<^item> \<open>Lease\<close>, \<open>Lease_Resolve\<close>, \<open>Role\<close> (\<open>internal/dr\<close>): the lease record, the verdict over duplicate records, the role
    gate. Shown: round trip and strictness of the parser, agreement and convergence of the verdict, when the
    gate acquires, renews, waits or demotes, and the bounds of its timers.
  \<^item> \<open>Tunnelconfig\<close> (\<open>internal/tunnelconfig\<close>): the ingress document. Shown: most specific rule first, conflicts
    named exactly, independence of the listing order.
  \<^item> \<open>Workload\<close> (\<open>internal/workload\<close>): the connector DaemonSet and the token Secret. Shown: idempotence, hardening,
    and that the token is in the Secret only.
  \<^item> \<open>Api_Types\<close> (\<open>api/v1alpha1\<close>), \<open>Cloudflare\<close> (the interfaces of \<open>internal/cloudflare\<close> and zone matching), \<open>Fake\<close>
    (\<open>fake.go\<close>, the in-memory client, which meets the contract of a store).
  \<^item> \<open>Real_Retry\<close>, \<open>Real_Client\<close> (\<open>real.go\<close>): the retry loop, and the client over the Cloudflare SDK, which is a parameter
    (\<open>Real_Sdk\<close>); the package's caches of clients, limiters and zones are its state. Shown in \<open>Real_Calls\<close> and \<open>Real_Access\<close>:
    every outcome of a retried call, what a not-found answer of each operation means, what the caches hold, and that an Access
    application or policy written as desired is read back as desired. \<open>Sdk_Memory\<close> is a concrete SDK for the examples.
  \<^item> \<open>Kube\<close> (\<open>base.go\<close>, \<open>conditions.go\<close>, \<open>indexes.go\<close>, \<open>failover_metrics.go\<close>, \<open>credentials.go\<close>): what the controllers
    share.
  \<^item> \<open>Exposure_Status\<close>, \<open>Failover\<close>, \<open>Access_Plan\<close>, \<open>Exposure\<close> (\<open>cloudflareexposure_controller.go\<close>, \<open>exposure_failover.go\<close>,
    \<open>internal/origin\<close>): the exposure controller; \<open>Tunnel_Controller\<close>, \<open>Route_Controller\<close>, \<open>Policy_Controller\<close>: the
    other three (\<open>accesspolicy_hash.go\<close> is in the last). Every handler is one definition with every call and
    early return of the code; long functions are cut where the code has its stages, and the text of a
    definition names the part.

  \<^item> \<open>Watches\<close> (\<open>mapper.go\<close>, \<open>indexes.go\<close>, the \<open>SetupWithManager\<close> methods) and \<open>Startup\<close> (\<open>cmd/main.go\<close>,
    \<open>httproute_discovery.go\<close>): which change wakes which controller, and the path from the flags to the four
    registered controllers; controller-runtime is a parameter. Shown: the tunnel and policy controllers wake when an
    indexed listing they read changes, the maps towards exposures and routes are the inverse of the indexes, the exposure
    controller is not woken by other exposures; and how far the guard of the site ID goes.
  \<^item> \<open>Lease_Protocol\<close>: failover as a transition system. The sites' passes, with the verdicts, leases and duplicate
    resolution of the code, interleave call by call over one set of TXT records, with errors and crashes anywhere.
    Shown by rule induction: a live lease is respected; failover completes; the window of two writers exists, as
    the documentation says, and closes with the next pass.

  The safety argument. \<open>Call_Log\<close> wraps a client and a \<open>Base\<close> so that the calls are recorded;
  \<open>Erasure_Rules\<close> and \<open>Erasure\<close> show that a recorded run is the plain run with a record. A guard (\<open>exposure_ok\<close>,
  \<open>tunnel_ok\<close>, \<open>route_ok\<close>, \<open>policy_ok\<close>) says which calls are allowed after which; a guard looks only at the calls
  made before in the same pass and their answers. The locales \<open>base_monitor\<close>, \<open>monitor\<close>, \<open>tunnel_monitor\<close>, ... state
  what a recording record of calls does, the proofs that the handlers keep the guards are inside them
  (\<open>Failover_Safety\<close>, \<open>Exposure_Safety\<close>, \<open>Tunnel_Safety\<close>, \<open>Route_Safety\<close>, \<open>Policy_Safety\<close>), and their interpretations on
  the recorders give the theorems for the code's own handlers: nothing foreign is changed or deleted, shared
  resources change only under this site's lease, the lease is written only with a reason, finalizers go only
  after the cleanup they stand for.

  \<open>Api_Server\<close>, \<open>Cluster\<close> and \<open>Control_Cluster\<close> instantiate every field with a concrete world over the fake
  client. Whole passes are evaluated there; they are the witnesses of the safety theorems. \<open>Teardown\<close> and \<open>Tunnel_Drift\<close> show
  behaviour the code does not intend: a CNAME that is orphaned when its deletion fails after the lease's, for every
  state of that world, and a recreated tunnel that stays unconfigured, for every number of passes.

  \<open>Settling\<close>, \<open>Exposure_Settling\<close>, \<open>Policy_Settling\<close>, \<open>Route_Settling\<close> and \<open>Tunnel_Settling\<close> give the other half over
  that world: from every state of Cloudflare with nothing foreign in the way, the passes over an exposure, a policy or a
  route reach the spec, and a pass over a settled object changes nothing; where an exposure's status tracks somebody else's Access application, or
  a tracked policy has got rules that the operator cannot read, the passes write nothing and say so; the ingress document follows the exposures
  through any sequence of passes and edits, as long as the Cloudflare tunnel is not deleted by somebody else (the theorem
  of \<open>Tunnel_Drift\<close> is about that case). For exposures it is the case without Access and failover; the failover
  part is \<open>Lease_Protocol\<close>, and what is written to Access applications is in \<open>Real_Access\<close>.

  Bounds. No definition needs fuel: the loops of the code run over finite lists and are recursion on them,
  the retry loop counts its five repetitions down, and repeated reconciliation is the controller runtime's.

  Not modelled. \<open>zz_generated.deepcopy.go\<close> and \<open>groupversion_info.go\<close> (generated code and scheme registration; records are
  values here), logging, and \<open>limiterForToken\<close>, which only tests call. Opaque: quantities, tolerations and affinities of the
  workload, and the Kubernetes helpers \<open>SetStatusCondition\<close>, \<open>SetControllerReference\<close> and the finalizer functions, which are
  parameters. Concurrency inside one process is that of the calls' order: each controller has one worker, and the
  other writers of the API servers are in the parameters; in \<open>Lease_Protocol\<close> the interleaving is explicit.
\<close>

section \<open>What one pass of the exposure controller does to Cloudflare\<close>

lemma pass_record:
  assumes "run_state (Reconcile r ns n) s = (out, s')" and "run_state (Base_GetExposure r ns n) s = (Inr x, s1)"
  shows "\<exists>l y. run_state (Reconcile (logged r) ns n) (s, []) = (out, (s', l)) \<and> pass_exposure x l y \<and>
    guarded (exposure_ok (Rec_SiteID r) y) l"
proof -
  obtain l where l: "run_state (Reconcile (logged r) ns n) (s, []) = (out, (s', l))"
    using erasesD [OF erases_Reconcile assms(1)] by blast
  have "run_state (Base_GetExposure (logged r) ns n) (s, []) = (Inr x, (s1, []))"
    using assms(2) by (simp add: logged_def logged_base_def lift_log_def)
  from logged.Reconcile_guarded [OF l _ this] l show ?thesis by (auto simp: pass_guarded_def)
qed

lemma guarded_exposure_ok:
  "guarded (exposure_ok site y) l \<longleftrightarrow> guarded (own_ok (exposureOwner y)) l \<and>
     (ESpec_Failover (E_Spec y) \<noteq> None \<longrightarrow> guarded (gate_ok site y) l \<and> guarded (write_ok site y) l)"
  by (induction l) (auto simp: exposure_ok_def)

text \<open>
  C1: The mutation rule, for every pass of the exposure controller (live reconcile and finalizer),
  whatever the API server, Cloudflare and the clocks answer. Running the pass with a recording
  client gives the same outcome and the record of its calls; in it every DNS record that is updated
  or deleted, and every Access application that is updated or deleted, was listed earlier in the
  pass carrying the exposure's own ownership mark; everything created or updated is stamped with
  that mark; only the owner's own source tags are deleted; and no other writing call of the client
  (tunnels, configurations, policies, routes) is made at all.
\<close>

theorem Reconcile_owned_only:
  assumes "run_state (Reconcile r ns n) s = (out, s')" and "run_state (Base_GetExposure r ns n) s = (Inr x, s1)"
  shows "\<exists>l y. run_state (Reconcile (logged r) ns n) (s, []) = (out, (s', l)) \<and> pass_exposure x l y \<and>
    guarded (own_ok (exposureOwner y)) l"
  using pass_record [OF assms] unfolding guarded_exposure_ok by blast

lemma got_deleting: "run_state (Base_GetExposure (sim ''akl'') ''media'' ''web'') deleting_world = (Inr deleting_exposure, deleting_world)"
  by (simp add: sim_def w_get_def deleting_world_def deleting_exposure_def web_exposure_def)

lemma pass_exposure_first_log: "pass_exposure x first_log y \<longleftrightarrow> y = x"
  by (simp add: pass_exposure_def first_log_def Let_def)

text \<open>A failover exposure that is being deleted: its CNAME was listed as its own before the delete.\<close>

theorem Reconcile_owned_only_witness:
  "listed_own (exposureOwner deleting_exposure) ''z1'' ''cn'' (set (tl first_log)) \<and> guarded (own_ok (exposureOwner deleting_exposure)) first_log"
proof -
  from Reconcile_owned_only [OF first_pass got_deleting] first_pass_logged pass_exposure_first_log
  have "guarded (own_ok (exposureOwner deleting_exposure)) first_log" by auto
  then show ?thesis by (simp add: first_log_def Let_def)
qed

text \<open>
  C2: The lease gate, for every pass over an exposure with \<open>spec.failover\<close>, live or being deleted. A
  call that changes a shared resource (a CNAME record, an Access application or a tag: any DNS
  create or update that is not a TXT record, any DNS delete of a record not listed as TXT) is made
  only after a listing in the same pass showed, at the group's lease name in the hostname's zone,
  exactly one lease record, group-owned and parseable, that names this site.
\<close>

theorem Reconcile_lease_gate:
  assumes "run_state (Reconcile r ns n) s = (out, s')" and "run_state (Base_GetExposure r ns n) s = (Inr x, s1)"
  shows "\<exists>l y. run_state (Reconcile (logged r) ns n) (s, []) = (out, (s', l)) \<and> pass_exposure x l y \<and>
    (ESpec_Failover (E_Spec y) \<noteq> None \<longrightarrow> guarded (gate_ok (Rec_SiteID r) y) l)"
  using pass_record [OF assms] unfolding guarded_exposure_ok by blast

theorem Reconcile_lease_gate_witness:
  "lease_held ''akl'' deleting_exposure (set (tl first_log)) \<and> guarded (gate_ok ''akl'' deleting_exposure) first_log"
proof -
  have f: "ESpec_Failover (E_Spec deleting_exposure) \<noteq> None" by (simp add: deleting_exposure_def web_exposure_def)
  from Reconcile_lease_gate [OF first_pass got_deleting] first_pass_logged pass_exposure_first_log f
  have g: "guarded (gate_ok ''akl'' deleting_exposure) first_log" by auto
  have "\<not> txt_listed ''z1'' ''cn'' (set (tl first_log))"
    by (simp add: first_log_def Let_def txt_listed_def held_lease_def)
  with g show ?thesis by (simp add: first_log_def Let_def)
qed

text \<open>
  A lease write is justified by a read of the lease name and the time of the pass: the record names
  this site already, or the operator set a new force-promote token, or the promotion policy is not
  Manual and there is no lease or an expired one.
\<close>

definition fresh_token :: "CloudflareExposure \<Rightarrow> bool" where
  "fresh_token x = (case map_of (Meta_Annotations (E_Meta x)) annotationForcePromote of
     None \<Rightarrow> False
   | Some t \<Rightarrow> t \<noteq> [] \<and> t \<noteq> FStatus_LastForcePromoteToken (failover_status x))"

definition manual :: "CloudflareExposure \<Rightarrow> bool" where
  "manual x \<longleftrightarrow> Failover_PromotionPolicy (failover_spec x) = PromotionManual"

definition write_justified :: "string \<Rightarrow> CloudflareExposure \<Rightarrow> DNSRecordInput \<Rightarrow> call set \<Rightarrow> bool" where
  "write_justified site x i seen \<longleftrightarrow> (\<exists>recs now tunnelID. EvNow now \<in> seen \<and> leases_read x recs seen \<and>
     DNSIn_Content i = Serialize (desired_lease site x tunnelID now) \<and>
     (case recs of
        [] \<Rightarrow> fresh_token x \<or> \<not> manual x
      | [rec] \<Rightarrow> Lease_Site (LeaseRecord_Lease rec) = site \<or> fresh_token x \<or>
          \<not> manual x \<and> Expired (LeaseRecord_Lease rec) now
      | _ \<Rightarrow> False))"

fun justified_ok :: "string \<Rightarrow> CloudflareExposure \<Rightarrow> call set \<Rightarrow> call \<Rightarrow> bool" where
  "justified_ok site x seen (EvDNSCreate i _) = (DNSIn_Type i = ''TXT'' \<longrightarrow> write_justified site x i seen)"
| "justified_ok site x seen (EvDNSUpdate _ i _) = (DNSIn_Type i = ''TXT'' \<longrightarrow> write_justified site x i seen)"
| "justified_ok site x seen _ = True"

lemma Decide_writes:
  assumes "Decision_Action (Decide (gate_inputs site x (observed_lease recs) now rng)) \<in> {ActionAcquire, ActionRenew}" "length recs \<le> 1"
  shows "case recs of [] \<Rightarrow> fresh_token x \<or> \<not> manual x
    | [rec] \<Rightarrow> Lease_Site (LeaseRecord_Lease rec) = site \<or> fresh_token x \<or> \<not> manual x \<and> Expired (LeaseRecord_Lease rec) now
    | _ \<Rightarrow> False"
proof (cases recs)
  case Nil
  with assms show ?thesis
    by (auto simp: Decide_def gate_inputs_def observed_lease_def fresh_token_def manual_def Let_def split: if_splits option.splits)
next
  case (Cons rec rest)
  with assms show ?thesis
    by (auto simp: Decide_def gate_inputs_def observed_lease_def fresh_token_def manual_def Let_def split: if_splits option.splits)
qed

lemma write_decided_justified: "write_decided site x i seen \<Longrightarrow> write_justified site x i seen"
  unfolding write_decided_def write_justified_def using Decide_writes by blast

lemma justified: "write_ok site x seen e \<Longrightarrow> justified_ok site x seen e"
  by (cases e) (auto intro: write_decided_justified)

lemma guarded_justified: "guarded (write_ok site y) l \<Longrightarrow> guarded (justified_ok site y) l"
  by (erule guarded_mono [rotated]) (rule justified)

text \<open>
  C3: Who may write the lease. In every pass over an exposure with \<open>spec.failover\<close>, a TXT record is
  created or updated only when, earlier in the pass, the time was taken and the lease name was read
  with at most one lease there, and this site already holds it, or the exposure carries a
  force-promote token that was not honoured before, or the policy is not Manual and the lease is
  absent or expired at that time; and what is written is this site's lease from that time on for the
  configured lease seconds. So under Manual promotion and without a new token a site never writes a
  lease it does not hold, and nobody overwrites a live peer's lease unless forced.
\<close>

theorem Reconcile_lease_writes:
  assumes "run_state (Reconcile r ns n) s = (out, s')" and "run_state (Base_GetExposure r ns n) s = (Inr x, s1)"
  shows "\<exists>l y. run_state (Reconcile (logged r) ns n) (s, []) = (out, (s', l)) \<and> pass_exposure x l y \<and>
    (ESpec_Failover (E_Spec y) \<noteq> None \<longrightarrow> guarded (justified_ok (Rec_SiteID r) y) l)"
proof -
  obtain l y where "run_state (Reconcile (logged r) ns n) (s, []) = (out, (s', l))" "pass_exposure x l y"
      "ESpec_Failover (E_Spec y) \<noteq> None \<longrightarrow> guarded (write_ok (Rec_SiteID r) y) l"
    using pass_record [OF assms] unfolding guarded_exposure_ok by blast
  then show ?thesis using guarded_justified by blast
qed

theorem Reconcile_lease_writes_witness:
  "\<exists>out w l y. run_state (Reconcile (logged (sim ''akl'')) ''media'' ''web'') (web_world, []) = (out, (w, l)) \<and> claimed l \<and>
     E_Spec y = E_Spec web_exposure \<and> guarded (justified_ok ''akl'' y) l"
proof -
  obtain out w l where run: "run_state (Reconcile (logged (sim ''akl'')) ''media'' ''web'') (web_world, []) = (out, (w, l))"
    by (cases "run_state (Reconcile (logged (sim ''akl'')) ''media'' ''web'') (web_world, [])") auto
  with first_election_logged have l: "claimed l" "spec_kept l" by simp_all
  have got: "run_state (Base_GetExposure (sim ''akl'') ''media'' ''web'') web_world = (Inr web_exposure, web_world)"
    by (simp add: sim_def w_get_def web_world_def web_exposure_def)
  obtain y where y: "pass_exposure web_exposure l y"
      "ESpec_Failover (E_Spec y) \<noteq> None \<longrightarrow> guarded (justified_ok ''akl'' y) l"
    using Reconcile_lease_writes [OF erases_run [OF erases_Reconcile run] got] run by auto
  then have spec: "E_Spec y = E_Spec web_exposure"
    using l(2) by (fastforce simp: pass_exposure_def spec_kept_def list_all_iff)
  then have "guarded (justified_ok ''akl'' y) l" using y(2) by (simp add: web_exposure_def)
  with run l spec show ?thesis by blast
qed

end
